(* ===== verification/Prelude.thy ===== *)
theory Prelude
  imports Main "HOL-Library.Word" "HOL-Library.Product_Lexorder"
begin

text \<open>
  Shared vocabulary of the development: the identifiers and clocks of the program, the result
  monad in which every fallible Go function is written, and the generic facts on lists and
  on that monad that carry the component proofs.

  A Go function that returns \<open>(T, error)\<close> and may change state becomes a state transformer
  \<open>('w, 'e, 'a) go\<close>: it yields \<open>Ok\<close> with the value, \<open>Err\<close> with a non-nil error, or \<open>Panic\<close>
  when the code panics, together with the state it leaves.  \<open>call m k\<close> is the idiom
  \<open>x, err := m; if err != nil { return err }; k\<close>.
\<close>

named_theorems go_simps \<open>equations that run the result monad\<close>
named_theorems go_elims \<open>inversion of successful runs of the result monad\<close>
named_theorems go_keeps \<open>closure of state invariants under the result monad\<close>

section \<open>Identifiers and time\<close>

text \<open>
  A \<open>uuid.UUID\<close> is a 16-byte value compared byte by byte, so its order is the unsigned order
  of 128-bit words.  A \<open>time.Time\<close> is the number of nanoseconds since Go's zero time
  (January 1 of year 1, UTC); \<open>IsZero\<close> is the test for 0.  Durations are signed.
\<close>

type_synonym uuid = "128 word"
type_synonym time = nat
type_synonym duration = int

definition uuid_Nil :: uuid where
  "uuid_Nil = 0"

definition zero_time :: time where
  "zero_time = 0"

definition unix_epoch :: time where
  "unix_epoch = 62135596800 * 1000000000"

definition time_Add :: "time \<Rightarrow> duration \<Rightarrow> time" where
  "time_Add t d = nat (int t + d)"

definition time_After :: "time \<Rightarrow> time \<Rightarrow> bool" where
  "time_After t u \<longleftrightarrow> t > u"

lemma time_Add_pos: "0 < d \<Longrightarrow> time_Add t d \<noteq> zero_time"
  by (simp add: time_Add_def zero_time_def)

lemma time_Add_ge: "0 \<le> d \<Longrightarrow> t \<le> time_Add t d"
  by (simp add: time_Add_def)

section \<open>Texts\<close>

text \<open>The verb \<open>%q\<close> on a text without characters to escape.\<close>

definition quoted :: "string \<Rightarrow> string" where
  "quoted s = [CHR 0x22] @ s @ [CHR 0x22]"

section \<open>The result monad\<close>

datatype ('e, 'a) outcome = Ok 'a | Err 'e | Panic string

type_synonym ('w, 'e, 'a) go = "'w \<Rightarrow> ('e, 'a) outcome \<times> 'w"

definition ret :: "'a \<Rightarrow> ('w, 'e, 'a) go" where
  "ret a w = (Ok a, w)"

definition throw :: "'e \<Rightarrow> ('w, 'e, 'a) go" where
  "throw e w = (Err e, w)"

definition panic :: "string \<Rightarrow> ('w, 'e, 'a) go" where
  "panic s w = (Panic s, w)"

text \<open>\<open>branch m k h\<close>: run \<open>m\<close>, continue with \<open>k\<close> on a value and with \<open>h\<close> on an error.\<close>

definition branch ::
  "('w, 'e, 'a) go \<Rightarrow> ('a \<Rightarrow> ('w, 'e, 'b) go) \<Rightarrow> ('e \<Rightarrow> ('w, 'e, 'b) go) \<Rightarrow> ('w, 'e, 'b) go" where
  "branch m k h w =
     (case fst (m w) of
        Ok a \<Rightarrow> k a (snd (m w))
      | Err e \<Rightarrow> h e (snd (m w))
      | Panic s \<Rightarrow> (Panic s, snd (m w)))"

definition call :: "('w, 'e, 'a) go \<Rightarrow> ('a \<Rightarrow> ('w, 'e, 'b) go) \<Rightarrow> ('w, 'e, 'b) go" where
  "call m k = branch m k throw"

text \<open>\<open>_ = m\<close>: the error is dropped.\<close>

definition ignore_err :: "('w, 'e, 'a) go \<Rightarrow> ('w, 'e, unit) go" where
  "ignore_err m = branch m (\<lambda>_. ret ()) (\<lambda>_. ret ())"

text \<open>\<open>for _, x := range xs\<close> whose body may return an error.\<close>

fun for_each :: "('a \<Rightarrow> ('w, 'e, unit) go) \<Rightarrow> 'a list \<Rightarrow> ('w, 'e, unit) go" where
  "for_each f [] = ret ()"
| "for_each f (x # xs) = call (f x) (\<lambda>_. for_each f xs)"

lemma ret_run [go_simps]: "ret a w = (Ok a, w)"
  by (simp add: ret_def)

lemma throw_run [go_simps]: "throw e w = (Err e, w)"
  by (simp add: throw_def)

lemma panic_run [go_simps]: "panic s w = (Panic s, w)"
  by (simp add: panic_def)

lemma branch_run [go_simps]:
  "m w = (Ok a, w1) \<Longrightarrow> branch m k h w = k a w1"
  "m w = (Err e, w1) \<Longrightarrow> branch m k h w = h e w1"
  "m w = (Panic s, w1) \<Longrightarrow> branch m k h w = (Panic s, w1)"
  by (simp_all add: branch_def)

lemma call_run [go_simps]:
  "m w = (Ok a, w1) \<Longrightarrow> call m k w = k a w1"
  "m w = (Err e, w1) \<Longrightarrow> call m k w = (Err e, w1)"
  "m w = (Panic s, w1) \<Longrightarrow> call m k w = (Panic s, w1)"
  by (simp_all add: call_def go_simps)

lemma call_ret [simp]: "call (ret a) k = k a"
  by (rule ext) (simp add: go_simps)

lemma call_throw [simp]: "call (throw e) k = throw e"
  by (rule ext) (simp add: go_simps)

lemma branch_ret [simp]: "branch (ret a) k h = k a"
  by (rule ext) (simp add: go_simps)

lemma branch_throw [simp]: "branch (throw e) k h = h e"
  by (rule ext) (simp add: go_simps)

lemma call_assoc: "call (call m k) l = call m (\<lambda>a. call (k a) l)"
  by (rule ext) (auto simp: call_def branch_def throw_def split: outcome.split)

lemma call_Ok_iff [go_elims]:
  "call m k w = (Ok b, w2) \<longleftrightarrow> (\<exists>a w1. m w = (Ok a, w1) \<and> k a w1 = (Ok b, w2))"
  by (cases "m w"; cases "fst (m w)") (auto simp: call_def branch_def throw_def)

lemma branch_Ok_iff [go_elims]:
  "branch m k h w = (Ok b, w2) \<longleftrightarrow>
     (\<exists>a w1. m w = (Ok a, w1) \<and> k a w1 = (Ok b, w2)) \<or>
     (\<exists>e w1. m w = (Err e, w1) \<and> h e w1 = (Ok b, w2))"
  by (cases "m w"; cases "fst (m w)") (auto simp: branch_def)

lemma ret_Ok_iff [go_elims]: "ret a w = (Ok b, w2) \<longleftrightarrow> a = b \<and> w = w2"
  by (auto simp: ret_def)

lemma throw_Ok_iff [go_elims]: "throw e w = (Ok b, w2) \<longleftrightarrow> False"
  by (simp add: throw_def)

section \<open>State invariants\<close>

definition keeps :: "('w \<Rightarrow> bool) \<Rightarrow> ('w, 'e, 'a) go \<Rightarrow> bool" where
  "keeps I m \<longleftrightarrow> (\<forall>w. I w \<longrightarrow> I (snd (m w)))"

lemma keepsI: "(\<And>w. I w \<Longrightarrow> I (snd (m w))) \<Longrightarrow> keeps I m"
  by (simp add: keeps_def)

lemma keepsD: "keeps I m \<Longrightarrow> I w \<Longrightarrow> I (snd (m w))"
  by (simp add: keeps_def)

lemma keeps_ret [go_keeps]: "keeps I (ret a)"
  by (simp add: keeps_def ret_def)

lemma keeps_throw [go_keeps]: "keeps I (throw e)"
  by (simp add: keeps_def throw_def)

lemma keeps_panic [go_keeps]: "keeps I (panic s)"
  by (simp add: keeps_def panic_def)

lemma keeps_branch [go_keeps]:
  "keeps I m \<Longrightarrow> (\<And>a. keeps I (k a)) \<Longrightarrow> (\<And>e. keeps I (h e)) \<Longrightarrow> keeps I (branch m k h)"
  by (auto simp: keeps_def branch_def split: outcome.split)

lemma keeps_call [go_keeps]:
  "keeps I m \<Longrightarrow> (\<And>a. keeps I (k a)) \<Longrightarrow> keeps I (call m k)"
  by (simp add: call_def go_keeps)

lemma keeps_ignore_err [go_keeps]: "keeps I m \<Longrightarrow> keeps I (ignore_err m)"
  by (simp add: ignore_err_def go_keeps)

lemma keeps_for_each [go_keeps]: "(\<And>x. keeps I (f x)) \<Longrightarrow> keeps I (for_each f xs)"
  by (induction xs) (simp_all add: go_keeps)

lemma keeps_if [go_keeps]: "keeps I m \<Longrightarrow> keeps I n \<Longrightarrow> keeps I (if b then m else n)"
  by simp

section \<open>Lists used as tables\<close>

lemma filter_distinct_key:
  assumes "distinct (map f xs)" "x \<in> set xs"
  shows "filter (\<lambda>y. f y = f x) xs = [x]"
  using assms
proof (induction xs)
  case (Cons y ys)
  show ?case
  proof (cases "y = x")
    case True
    with Cons.prems have "filter (\<lambda>z. f z = f x) ys = []"
      by (auto simp: filter_empty_conv) (metis image_eqI)
    with True show ?thesis by simp
  next
    case False
    with Cons have "f y \<noteq> f x" by auto
    with False Cons show ?thesis by simp
  qed
qed simp

lemma distinct_map_update:
  "(\<And>x. x \<in> set xs \<Longrightarrow> g (f x) = g x) \<Longrightarrow> distinct (map g (map f xs)) = distinct (map g xs)"
  by (simp add: comp_def cong: map_cong)

lemma distinct_map_inj: "distinct (map f xs) \<Longrightarrow> x \<in> set xs \<Longrightarrow> y \<in> set xs \<Longrightarrow> f x = f y \<Longrightarrow> x = y"
  by (auto simp: distinct_map inj_on_def)

lemma find_map: "find P (map f xs) = map_option f (find (P \<circ> f) xs)"
  by (induction xs) auto

lemma find_filter: "find P (filter Q xs) = find (\<lambda>x. Q x \<and> P x) xs"
  by (induction xs) auto

lemma find_filter_hd: "find P xs = (case filter P xs of [] \<Rightarrow> None | x # _ \<Rightarrow> Some x)"
  by (induction xs) auto

lemma find_None_iff_filter: "find P xs = None \<longleftrightarrow> filter P xs = []"
  by (simp add: find_filter_hd split: list.split)

lemma find_Some_set: "find P xs = Some x \<Longrightarrow> x \<in> set xs \<and> P x"
  by (induction xs) (auto split: if_splits)

text \<open>A key column: the rows with a given key are at most one.\<close>

lemma filter_key_find:
  assumes "distinct (map f xs)"
  shows "filter (\<lambda>x. f x = k) xs = (case find (\<lambda>x. f x = k) xs of None \<Rightarrow> [] | Some x \<Rightarrow> [x])"
proof (cases "find (\<lambda>x. f x = k) xs")
  case (Some x)
  then have "x \<in> set xs" "f x = k" by (auto dest: find_Some_set)
  with filter_distinct_key [OF assms, of x] Some show ?thesis by simp
next
  case None
  then have "filter (\<lambda>x. f x = k) xs = []" by (simp add: find_None_iff_filter)
  with None show ?thesis by (simp only: option.case)
qed

end
