(* ===== verification/Domain.thy ===== *)
theory Domain
  imports Prelude
begin

text \<open>
  The domain layer (internal/domain): entities, sentinel errors and the repository ports.

  String-typed enumerations (\<open>ChatType\<close>, \<open>MemberRole\<close>, \<open>MessageType\<close>, \<open>UserStatus\<close>) are Go
  strings, so any string can reach the code; they stay strings here.  Strings are lists of
  bytes.  A repository port (a Go interface) is a record of operations over an arbitrary state
  type, so that use cases are written once and run on any implementation.
  \<open>Message.ReplyTo\<close> is declared in the source and never assigned; it is left out.
\<close>

section \<open>Users (user.go)\<close>

type_synonym UserStatus = string

definition UserStatusOnline :: UserStatus where
  "UserStatusOnline = ''online''"

definition UserStatusOffline :: UserStatus where
  "UserStatusOffline = ''offline''"

definition UserStatusAway :: UserStatus where
  "UserStatusAway = ''away''"

record User =
  user_ID :: uuid
  user_Username :: string
  user_Email :: string
  user_PasswordHash :: string
  user_AvatarURL :: string
  user_Bio :: string
  user_Status :: UserStatus
  user_LastSeen :: time
  user_CreatedAt :: time
  user_UpdatedAt :: time

text \<open>The zero value of the struct, what \<open>var u domain.User\<close> holds.\<close>

definition zero_User :: User where
  "zero_User = \<lparr>user_ID = uuid_Nil, user_Username = [], user_Email = [], user_PasswordHash = [],
     user_AvatarURL = [], user_Bio = [], user_Status = [], user_LastSeen = zero_time,
     user_CreatedAt = zero_time, user_UpdatedAt = zero_time\<rparr>"

section \<open>Chats (chat.go)\<close>

type_synonym ChatType = string

definition ChatTypeDirect :: ChatType where
  "ChatTypeDirect = ''direct''"

definition ChatTypeGroup :: ChatType where
  "ChatTypeGroup = ''group''"

type_synonym MemberRole = string

definition MemberRoleOwner :: MemberRole where
  "MemberRoleOwner = ''owner''"

definition MemberRoleAdmin :: MemberRole where
  "MemberRoleAdmin = ''admin''"

definition MemberRoleMember :: MemberRole where
  "MemberRoleMember = ''member''"

record Chat =
  chat_ID :: uuid
  chat_Type :: ChatType
  chat_Name :: string
  chat_AvatarURL :: string
  chat_Description :: string
  chat_CreatedBy :: uuid
  chat_CreatedAt :: time
  chat_UpdatedAt :: time

record ChatMember =
  mem_ChatID :: uuid
  mem_UserID :: uuid
  mem_Role :: MemberRole
  mem_JoinedAt :: time
  mem_User :: "User option"

definition IsDirect :: "Chat \<Rightarrow> bool" where
  "IsDirect c \<longleftrightarrow> chat_Type c = ChatTypeDirect"

definition CanManageMembers :: "MemberRole \<Rightarrow> bool" where
  "CanManageMembers r \<longleftrightarrow> r = MemberRoleOwner \<or> r = MemberRoleAdmin"

lemma ChatType_distinct [simp]:
  "ChatTypeDirect \<noteq> ChatTypeGroup" "ChatTypeGroup \<noteq> ChatTypeDirect"
  by (simp_all add: ChatTypeDirect_def ChatTypeGroup_def)

lemma MemberRole_distinct [simp]:
  "MemberRoleOwner \<noteq> MemberRoleAdmin" "MemberRoleAdmin \<noteq> MemberRoleOwner"
  "MemberRoleOwner \<noteq> MemberRoleMember" "MemberRoleMember \<noteq> MemberRoleOwner"
  "MemberRoleAdmin \<noteq> MemberRoleMember" "MemberRoleMember \<noteq> MemberRoleAdmin"
  by (simp_all add: MemberRoleOwner_def MemberRoleAdmin_def MemberRoleMember_def)

lemma CanManageMembers_simps [simp]:
  "CanManageMembers MemberRoleOwner" "CanManageMembers MemberRoleAdmin"
  "\<not> CanManageMembers MemberRoleMember"
  by (simp_all add: CanManageMembers_def)

section \<open>Messages (message.go)\<close>

type_synonym MessageType = string

definition MessageTypeText :: MessageType where
  "MessageTypeText = ''text''"

definition MessageTypeImage :: MessageType where
  "MessageTypeImage = ''image''"

definition MessageTypeFile :: MessageType where
  "MessageTypeFile = ''file''"

record Reaction =
  rx_MessageID :: uuid
  rx_UserID :: uuid
  rx_Emoji :: string
  rx_CreatedAt :: time
  rx_User :: "User option"

record Message =
  msg_ID :: uuid
  msg_ChatID :: uuid
  msg_SenderID :: uuid
  msg_Content :: string
  msg_Type :: MessageType
  msg_ReplyToID :: "uuid option"
  msg_EditedAt :: "time option"
  msg_DeletedAt :: "time option"
  msg_CreatedAt :: time
  msg_UpdatedAt :: time
  msg_Sender :: "User option"
  msg_Reactions :: "Reaction list"

definition IsDeleted :: "Message \<Rightarrow> bool" where
  "IsDeleted m \<longleftrightarrow> msg_DeletedAt m \<noteq> None"

definition IsAuthoredBy :: "Message \<Rightarrow> uuid \<Rightarrow> bool" where
  "IsAuthoredBy m userID \<longleftrightarrow> msg_SenderID m = userID"

definition zero_Message :: Message where
  "zero_Message = \<lparr>msg_ID = uuid_Nil, msg_ChatID = uuid_Nil, msg_SenderID = uuid_Nil,
     msg_Content = [], msg_Type = [], msg_ReplyToID = None, msg_EditedAt = None,
     msg_DeletedAt = None, msg_CreatedAt = zero_time, msg_UpdatedAt = zero_time,
     msg_Sender = None, msg_Reactions = []\<rparr>"

record MessageCursor =
  cur_CreatedAt :: time
  cur_ID :: uuid

text \<open>Read model of the chat list.  The code never fills \<open>Members\<close>.\<close>

record ChatPreview =
  pv_Chat :: Chat
  pv_Members :: "ChatMember list"
  pv_LastMessage :: "Message option"
  pv_UnreadCount :: nat

section \<open>Errors (errors.go)\<close>

datatype domain_error =
    ErrUserNotFound | ErrEmailTaken | ErrUsernameTaken | ErrInvalidCredentials
  | ErrChatNotFound | ErrNotChatMember | ErrAlreadyChatMember | ErrInsufficientRights
  | ErrCannotRemoveOwner
  | ErrMessageNotFound | ErrNotMessageAuthor | ErrMessageDeleted
  | ErrInvalidToken | ErrExpiredToken
  | ErrInternal | ErrForbidden | ErrValidation

text \<open>
  Errors of the database drivers as far as the code looks into them: the no-row sentinel
  (\<open>pgx.ErrNoRows\<close>, \<open>sql.ErrNoRows\<close>), a Postgres error with its SQLSTATE and constraint name,
  a MySQL error with its number and message, and any other driver failure (lost connection,
  cancelled context, a column that does not scan).
\<close>

datatype db_error =
    ErrNoRows
  | PgError string string
  | MySQLError nat string
  | DriverErr string

text \<open>
  A Go \<open>error\<close> value: a domain sentinel, \<open>fmt.Errorf("pre%wpost", ..., err)\<close>, a driver error,
  or an error of another library.
\<close>

datatype goerr =
    Dom domain_error
  | Wrapf string goerr string
  | Db db_error
  | Lib string

fun errors_Is :: "goerr \<Rightarrow> domain_error \<Rightarrow> bool" where
  "errors_Is (Dom d) t \<longleftrightarrow> d = t"
| "errors_Is (Wrapf pre e post) t \<longleftrightarrow> errors_Is e t"
| "errors_Is (Db e) t \<longleftrightarrow> False"
| "errors_Is (Lib s) t \<longleftrightarrow> False"

fun is_ErrNoRows :: "goerr \<Rightarrow> bool" where
  "is_ErrNoRows (Db ErrNoRows) \<longleftrightarrow> True"
| "is_ErrNoRows (Wrapf pre e post) \<longleftrightarrow> is_ErrNoRows e"
| "is_ErrNoRows _ \<longleftrightarrow> False"

fun domain_text :: "domain_error \<Rightarrow> string" where
  "domain_text ErrUserNotFound = ''user not found''"
| "domain_text ErrEmailTaken = ''email already taken''"
| "domain_text ErrUsernameTaken = ''username already taken''"
| "domain_text ErrInvalidCredentials = ''invalid credentials''"
| "domain_text ErrChatNotFound = ''chat not found''"
| "domain_text ErrNotChatMember = ''not a chat member''"
| "domain_text ErrAlreadyChatMember = ''already a chat member''"
| "domain_text ErrInsufficientRights = ''insufficient rights''"
| "domain_text ErrCannotRemoveOwner = ''cannot remove chat owner''"
| "domain_text ErrMessageNotFound = ''message not found''"
| "domain_text ErrNotMessageAuthor = ''not message author''"
| "domain_text ErrMessageDeleted = ''message is deleted''"
| "domain_text ErrInvalidToken = ''invalid token''"
| "domain_text ErrExpiredToken = ''token expired''"
| "domain_text ErrInternal = ''internal error''"
| "domain_text ErrForbidden = ''forbidden''"
| "domain_text ErrValidation = ''validation error''"

type_synonym ('w, 'a) io = "('w, goerr, 'a) go"

section \<open>Repository ports\<close>

record 'w ChatRepository =
  cr_CreateWithMembers :: "Chat \<Rightarrow> ChatMember list \<Rightarrow> ('w, unit) io"
  cr_GetByID :: "uuid \<Rightarrow> ('w, Chat) io"
  cr_Update :: "Chat \<Rightarrow> ('w, unit) io"
  cr_Delete :: "uuid \<Rightarrow> ('w, unit) io"
  cr_AddMember :: "ChatMember \<Rightarrow> ('w, unit) io"
  cr_RemoveMember :: "uuid \<Rightarrow> uuid \<Rightarrow> ('w, unit) io"
  cr_GetMember :: "uuid \<Rightarrow> uuid \<Rightarrow> ('w, ChatMember) io"
  cr_GetMembers :: "uuid \<Rightarrow> ('w, ChatMember list) io"
  cr_UpdateMemberRole :: "uuid \<Rightarrow> uuid \<Rightarrow> MemberRole \<Rightarrow> ('w, unit) io"
  cr_GetUserChats :: "uuid \<Rightarrow> ('w, ChatPreview list) io"
  cr_GetDirectChat :: "uuid \<Rightarrow> uuid \<Rightarrow> ('w, Chat) io"
  cr_IsMember :: "uuid \<Rightarrow> uuid \<Rightarrow> ('w, bool) io"

record 'w MessageRepository =
  mr_Create :: "Message \<Rightarrow> ('w, unit) io"
  mr_GetByID :: "uuid \<Rightarrow> ('w, Message) io"
  mr_GetChatMessages :: "uuid \<Rightarrow> MessageCursor option \<Rightarrow> int \<Rightarrow> ('w, Message list) io"
  mr_Update :: "Message \<Rightarrow> ('w, unit) io"
  mr_Delete :: "uuid \<Rightarrow> ('w, unit) io"
  mr_MarkRead :: "uuid \<Rightarrow> uuid \<Rightarrow> ('w, unit) io"
  mr_GetUnreadCount :: "uuid \<Rightarrow> uuid \<Rightarrow> ('w, nat) io"
  mr_AddReaction :: "Reaction \<Rightarrow> ('w, unit) io"
  mr_RemoveReaction :: "uuid \<Rightarrow> uuid \<Rightarrow> string \<Rightarrow> ('w, unit) io"
  mr_GetReactions :: "uuid \<Rightarrow> ('w, Reaction list) io"
  mr_GetReactionsBatch :: "uuid list \<Rightarrow> ('w, uuid \<rightharpoonup> Reaction list) io"

record 'w UserRepository =
  ur_Create :: "User \<Rightarrow> ('w, unit) io"
  ur_GetByID :: "uuid \<Rightarrow> ('w, User) io"
  ur_GetByEmail :: "string \<Rightarrow> ('w, User) io"
  ur_GetByUsername :: "string \<Rightarrow> ('w, User) io"
  ur_Update :: "User \<Rightarrow> ('w, unit) io"
  ur_UpdateStatus :: "uuid \<Rightarrow> UserStatus \<Rightarrow> time \<Rightarrow> ('w, unit) io"
  ur_Search :: "string \<Rightarrow> int \<Rightarrow> int \<Rightarrow> ('w, User list) io"
  ur_Delete :: "uuid \<Rightarrow> ('w, unit) io"

end
