(* ===== verification/Runes.thy ===== *)
theory Runes
  imports Domain
begin

text \<open>
  Go strings as the standard library reads them.  A string is a list of bytes; \<open>runes\<close> is the
  \<open>for range\<close> / \<open>utf8.DecodeRuneInString\<close> decoding, in which every byte that starts no valid
  UTF-8 sequence counts as one rune U+FFFD of width 1.  Also \<open>strings.TrimSpace\<close>,
  \<open>strings.Contains\<close>, \<open>strings.SplitN(s, sep, 2)\<close> and \<open>strings.EqualFold\<close> against an ASCII text.
\<close>

section \<open>UTF-8 decoding\<close>

definition RuneError :: nat where
  "RuneError = 0xFFFD"

definition is_cont :: "nat \<Rightarrow> bool" where
  "is_cont b \<longleftrightarrow> 0x80 \<le> b \<and> b \<le> 0xBF"

text \<open>Accepted range of the second byte, from the first.\<close>

definition second_lo :: "nat \<Rightarrow> nat" where
  "second_lo b = (if b = 0xE0 then 0xA0 else if b = 0xF0 then 0x90 else 0x80)"

definition second_hi :: "nat \<Rightarrow> nat" where
  "second_hi b = (if b = 0xED then 0x9F else if b = 0xF4 then 0x8F else 0xBF)"

definition seq_len :: "nat \<Rightarrow> nat" where
  "seq_len b = (if b < 0x80 then 1 else if b < 0xC2 then 0 else if b < 0xE0 then 2
                else if b < 0xF0 then 3 else if b < 0xF5 then 4 else 0)"

text \<open>Decode the first rune: its code point and the number of bytes read.\<close>

fun decode_rune :: "nat list \<Rightarrow> nat \<times> nat" where
  "decode_rune [] = (RuneError, 0)"
| "decode_rune (b # bs) =
     (if seq_len b = 1 then (b, 1)
      else (case bs of
          [] \<Rightarrow> (RuneError, 1)
        | c # cs \<Rightarrow>
            if seq_len b = 0 \<or> \<not> (second_lo b \<le> c \<and> c \<le> second_hi b) then (RuneError, 1)
            else if seq_len b = 2 then ((b - 0xC0) * 64 + (c - 0x80), 2)
            else (case cs of
                [] \<Rightarrow> (RuneError, 1)
              | d # ds \<Rightarrow>
                  if \<not> is_cont d then (RuneError, 1)
                  else if seq_len b = 3
                  then ((b - 0xE0) * 4096 + (c - 0x80) * 64 + (d - 0x80), 3)
                  else (case ds of
                      [] \<Rightarrow> (RuneError, 1)
                    | e # _ \<Rightarrow>
                        if \<not> is_cont e then (RuneError, 1)
                        else ((b - 0xF0) * 262144 + (c - 0x80) * 4096 + (d - 0x80) * 64
                                + (e - 0x80), 4)))))"

lemma decode_rune_width: "bs \<noteq> [] \<Longrightarrow> 1 \<le> snd (decode_rune bs) \<and> snd (decode_rune bs) \<le> 4"
  by (cases bs) (auto split: list.splits)

lemma decode_rune_width_le: "snd (decode_rune bs) \<le> length bs"
  by (cases bs) (auto split: list.splits)

function decode_runes :: "nat list \<Rightarrow> nat list" where
  "decode_runes bs =
     (if bs = [] then []
      else fst (decode_rune bs) # decode_runes (drop (snd (decode_rune bs)) bs))"
  by pat_completeness auto
termination
proof (relation "measure length")
  fix bs :: "nat list"
  assume "bs \<noteq> []"
  then show "(drop (snd (decode_rune bs)) bs, bs) \<in> measure length"
    using decode_rune_width [of bs] by (cases bs) auto
qed simp

declare decode_runes.simps [simp del]

definition bytes_of :: "string \<Rightarrow> nat list" where
  "bytes_of s = map of_char s"

definition runes :: "string \<Rightarrow> nat list" where
  "runes s = decode_runes (bytes_of s)"

text \<open>\<open>utf8.RuneCountInString\<close>.\<close>

definition RuneCountInString :: "string \<Rightarrow> nat" where
  "RuneCountInString s = length (runes s)"

lemma decode_runes_Nil [simp]: "decode_runes [] = []"
  by (simp add: decode_runes.simps)

lemma decode_runes_eq_Nil [simp]: "decode_runes bs = [] \<longleftrightarrow> bs = []"
  by (simp add: decode_runes.simps [of bs])

lemma decode_runes_ascii: "b < 0x80 \<Longrightarrow> decode_runes (b # bs) = b # decode_runes bs"
  by (simp add: decode_runes.simps [of "b # bs"] seq_len_def)

lemma length_decode_runes: "length (decode_runes bs) \<le> length bs"
proof (induction bs rule: decode_runes.induct)
  case (1 bs)
  show ?case
  proof (cases "bs = []")
    case False
    with 1 have "length (decode_runes (drop (snd (decode_rune bs)) bs))
        \<le> length bs - snd (decode_rune bs)" by simp
    moreover have "1 \<le> snd (decode_rune bs)" "snd (decode_rune bs) \<le> length bs"
      using False decode_rune_width [of bs] decode_rune_width_le [of bs] by auto
    ultimately show ?thesis
      using False by (simp add: decode_runes.simps [of bs])
  qed simp
qed

lemma length_le_decode_runes: "length bs \<le> 4 * length (decode_runes bs)"
proof (induction bs rule: decode_runes.induct)
  case (1 bs)
  show ?case
  proof (cases "bs = []")
    case False
    with 1 have "length bs - snd (decode_rune bs)
        \<le> 4 * length (decode_runes (drop (snd (decode_rune bs)) bs))" by simp
    moreover have "snd (decode_rune bs) \<le> 4"
      using False decode_rune_width [of bs] by auto
    ultimately show ?thesis
      using False by (simp add: decode_runes.simps [of bs])
  qed simp
qed

lemma RuneCount_le_length: "RuneCountInString s \<le> length s"
  using length_decode_runes [of "bytes_of s"]
  by (simp add: RuneCountInString_def runes_def bytes_of_def)

lemma length_le_RuneCount: "length s \<le> 4 * RuneCountInString s"
  using length_le_decode_runes [of "bytes_of s"]
  by (simp add: RuneCountInString_def runes_def bytes_of_def)

lemma RuneCount_0_iff [simp]: "RuneCountInString s = 0 \<longleftrightarrow> s = []"
  by (simp add: RuneCountInString_def runes_def bytes_of_def)

lemma RuneCount_Nil [simp]: "RuneCountInString [] = 0"
  by simp

definition is_ascii :: "string \<Rightarrow> bool" where
  "is_ascii s \<longleftrightarrow> (\<forall>c \<in> set s. (of_char c :: nat) < 0x80)"

lemma runes_ascii: "is_ascii s \<Longrightarrow> runes s = bytes_of s"
  unfolding is_ascii_def runes_def bytes_of_def
  by (induction s) (auto simp: decode_runes_ascii)

lemma RuneCount_ascii: "is_ascii s \<Longrightarrow> RuneCountInString s = length s"
  by (simp add: RuneCountInString_def runes_ascii bytes_of_def)

text \<open>Valid UTF-8: no byte decodes as an error of width 1.\<close>

function valid_bytes :: "nat list \<Rightarrow> bool" where
  "valid_bytes bs =
     (if bs = [] then True
      else if decode_rune bs = (RuneError, 1) then False
      else valid_bytes (drop (snd (decode_rune bs)) bs))"
  by pat_completeness auto
termination
proof (relation "measure length")
  fix bs :: "nat list"
  assume "bs \<noteq> []"
  then show "(drop (snd (decode_rune bs)) bs, bs) \<in> measure length"
    using decode_rune_width [of bs] by (cases bs) auto
qed simp

declare valid_bytes.simps [simp del]

definition ValidString :: "string \<Rightarrow> bool" where
  "ValidString s \<longleftrightarrow> valid_bytes (bytes_of s)"

lemma valid_bytes_Nil [simp]: "valid_bytes []"
  by (simp add: valid_bytes.simps)

lemma valid_bytes_ascii: "b < 0x80 \<Longrightarrow> valid_bytes (b # bs) = valid_bytes bs"
  by (simp add: valid_bytes.simps [of "b # bs"] seq_len_def RuneError_def)

lemma ValidString_ascii: "is_ascii s \<Longrightarrow> ValidString s"
  unfolding is_ascii_def ValidString_def bytes_of_def
  by (induction s) (auto simp: valid_bytes_ascii)

section \<open>Standard library string functions\<close>

text \<open>\<open>unicode.IsSpace\<close>.\<close>

definition IsSpace :: "nat \<Rightarrow> bool" where
  "IsSpace r \<longleftrightarrow> r \<in> {0x09, 0x0A, 0x0B, 0x0C, 0x0D, 0x20, 0x85, 0xA0, 0x1680, 0x2028, 0x2029,
     0x202F, 0x205F, 0x3000} \<or> (0x2000 \<le> r \<and> r \<le> 0x200A)"

text \<open>The runes of \<open>strings.TrimSpace(s)\<close>.\<close>

definition TrimSpace_runes :: "string \<Rightarrow> nat list" where
  "TrimSpace_runes s = rev (dropWhile IsSpace (rev (dropWhile IsSpace (runes s))))"

lemma TrimSpace_runes_Nil_iff: "TrimSpace_runes s = [] \<longleftrightarrow> (\<forall>r \<in> set (runes s). IsSpace r)"
proof -
  have "dropWhile IsSpace xs = [] \<Longrightarrow> \<forall>r \<in> set xs. IsSpace r" for xs :: "nat list"
    by (simp add: dropWhile_eq_Nil_conv)
  moreover have "(\<forall>r \<in> set (dropWhile IsSpace xs). IsSpace r) \<longleftrightarrow> (\<forall>r \<in> set xs. IsSpace r)"
    for xs :: "nat list"
    by (induction xs) auto
  ultimately show ?thesis
    by (auto simp: TrimSpace_runes_def dropWhile_eq_Nil_conv)
qed

text \<open>\<open>strings.TrimSpace\<close>: the bytes that are left when the runes at both ends that are spaces are
  dropped with their bytes.\<close>

function rune_chunks :: "string \<Rightarrow> (nat \<times> string) list" where
  "rune_chunks s =
     (if s = [] then []
      else (let (r, n) = decode_rune (bytes_of s) in (r, take n s) # rune_chunks (drop n s)))"
  by pat_completeness auto
termination
proof (relation "measure length")
  fix s :: string and x r n
  assume s: "s \<noteq> []" and "x = decode_rune (bytes_of s)" "(r, n) = x"
  then have "n = snd (decode_rune (bytes_of s))" by (metis snd_conv)
  with s decode_rune_width [of "bytes_of s"] have "1 \<le> n" by (simp add: bytes_of_def)
  with s show "(drop n s, s) \<in> measure length" by (cases s) auto
qed simp

declare rune_chunks.simps [simp del]

definition TrimSpace :: "string \<Rightarrow> string" where
  "TrimSpace s = (let is_space = (\<lambda>(r, _). IsSpace r)
     in concat (map snd (rev (dropWhile is_space (rev (dropWhile is_space (rune_chunks s)))))))"

lemma rune_chunks_runes: "map fst (rune_chunks s) = runes s"
proof (induction s rule: rune_chunks.induct)
  case (1 s)
  have drop: "bytes_of (drop n s) = drop n (bytes_of s)" for n by (simp add: bytes_of_def drop_map)
  show ?case
  proof (cases "s = []")
    case False
    then have "bytes_of s \<noteq> []" by (simp add: bytes_of_def)
    with 1 [OF False] False show ?thesis
      by (cases "decode_rune (bytes_of s)")
        (simp add: rune_chunks.simps [of s] runes_def decode_runes.simps [of "bytes_of s"] drop)
  qed (simp add: rune_chunks.simps runes_def bytes_of_def)
qed

lemma concat_rune_chunks: "concat (map snd (rune_chunks s)) = s"
proof (induction s rule: rune_chunks.induct)
  case (1 s)
  show ?case
  proof (cases "s = []")
    case False
    with 1 [OF False] show ?thesis
      by (cases "decode_rune (bytes_of s)") (simp add: rune_chunks.simps [of s])
  qed (simp add: rune_chunks.simps)
qed

text \<open>\<open>%d\<close> of a number that is not negative.\<close>

fun nat_text :: "nat \<Rightarrow> string" where
  "nat_text n = (if n < 10 then [char_of (48 + n)] else nat_text (n div 10) @ [char_of (48 + n mod 10)])"

declare nat_text.simps [simp del]

text \<open>\<open>strings.SplitN(s, sep, 2)\<close> for a one-byte separator.\<close>

definition SplitN2 :: "char \<Rightarrow> string \<Rightarrow> string list" where
  "SplitN2 sep s =
     (if sep \<in> set s then [takeWhile (\<lambda>c. c \<noteq> sep) s, tl (dropWhile (\<lambda>c. c \<noteq> sep) s)] else [s])"

definition Contains :: "string \<Rightarrow> string \<Rightarrow> bool" where
  "Contains s sub \<longleftrightarrow> (\<exists>i \<in> {0..length s}. take (length sub) (drop i s) = sub)"

text \<open>\<open>strings.EqualFold\<close> when one of the texts is ASCII: an ASCII letter folds with its other case,
  and \<open>k\<close> and \<open>s\<close> also with U+212A (Kelvin sign) and U+017F (long s).\<close>

definition fold_rune :: "nat \<Rightarrow> nat" where
  "fold_rune r = (if 65 \<le> r \<and> r \<le> 90 then r + 32
     else if r = 0x212A then 107 else if r = 0x17F then 115 else r)"

definition EqualFold :: "string \<Rightarrow> string \<Rightarrow> bool" where
  "EqualFold s t \<longleftrightarrow> map fold_rune (runes s) = map fold_rune (runes t)"

lemma EqualFold_refl [simp]: "EqualFold s s"
  by (simp add: EqualFold_def)

end
