(* ===== verification/Json.thy ===== *)
theory Json
  imports Domain
begin

text \<open>
  JSON as the code uses it: \<open>encoding/json\<close> driven by the struct tags of internal/domain.
  A document is its syntax tree; UUIDs and times, which marshal themselves to text, are leaves
  of their own.  \<open>json:"-"\<close> drops a field, \<open>omitempty\<close> drops an empty string, a nil pointer
  and an empty slice.  Decoding starts from the zero struct: a missing key or \<open>null\<close> leaves the
  field at zero, a value of another type is an error.  Keys are matched exactly, which is what
  the code's own documents need.  Years beyond 9999, the only values \<open>json.Marshal\<close> refuses here,
  are outside the model.
\<close>

section \<open>Documents\<close>

datatype json =
    JNull
  | JBool bool
  | JInt int
  | JStr string
  | JUuid uuid
  | JTime time
  | JArr "json list"
  | JObj "(string \<times> json) list"

text \<open>\<open>omitempty\<close> on a string field, on a pointer field and on a slice field.\<close>

definition opt_str :: "string \<Rightarrow> string \<Rightarrow> (string \<times> json) list" where
  "opt_str k s = (if s = [] then [] else [(k, JStr s)])"

definition opt_ptr :: "string \<Rightarrow> ('a \<Rightarrow> json) \<Rightarrow> 'a option \<Rightarrow> (string \<times> json) list" where
  "opt_ptr k f p = (case p of None \<Rightarrow> [] | Some x \<Rightarrow> [(k, f x)])"

definition opt_slice :: "string \<Rightarrow> ('a \<Rightarrow> json) \<Rightarrow> 'a list \<Rightarrow> (string \<times> json) list" where
  "opt_slice k f xs = (if xs = [] then [] else [(k, JArr (map f xs))])"

section \<open>Encoding\<close>

definition json_of_User :: "User \<Rightarrow> json" where
  "json_of_User u = JObj
     ([(''id'', JUuid (user_ID u)), (''username'', JStr (user_Username u)),
       (''email'', JStr (user_Email u))]
      @ opt_str ''avatar_url'' (user_AvatarURL u) @ opt_str ''bio'' (user_Bio u)
      @ [(''status'', JStr (user_Status u)), (''last_seen'', JTime (user_LastSeen u)),
         (''created_at'', JTime (user_CreatedAt u)), (''updated_at'', JTime (user_UpdatedAt u))])"

definition json_of_Chat :: "Chat \<Rightarrow> json" where
  "json_of_Chat c = JObj
     ([(''id'', JUuid (chat_ID c)), (''type'', JStr (chat_Type c))]
      @ opt_str ''name'' (chat_Name c) @ opt_str ''avatar_url'' (chat_AvatarURL c)
      @ opt_str ''description'' (chat_Description c)
      @ [(''created_by'', JUuid (chat_CreatedBy c)), (''created_at'', JTime (chat_CreatedAt c)),
         (''updated_at'', JTime (chat_UpdatedAt c))])"

definition json_of_ChatMember :: "ChatMember \<Rightarrow> json" where
  "json_of_ChatMember m = JObj
     ([(''chat_id'', JUuid (mem_ChatID m)), (''user_id'', JUuid (mem_UserID m)),
       (''role'', JStr (mem_Role m)), (''joined_at'', JTime (mem_JoinedAt m))]
      @ opt_ptr ''user'' json_of_User (mem_User m))"

definition json_of_Reaction :: "Reaction \<Rightarrow> json" where
  "json_of_Reaction r = JObj
     ([(''message_id'', JUuid (rx_MessageID r)), (''user_id'', JUuid (rx_UserID r)),
       (''emoji'', JStr (rx_Emoji r)), (''created_at'', JTime (rx_CreatedAt r))]
      @ opt_ptr ''user'' json_of_User (rx_User r))"

definition json_of_Message :: "Message \<Rightarrow> json" where
  "json_of_Message m = JObj
     ([(''id'', JUuid (msg_ID m)), (''chat_id'', JUuid (msg_ChatID m)),
       (''sender_id'', JUuid (msg_SenderID m)), (''content'', JStr (msg_Content m)),
       (''type'', JStr (msg_Type m))]
      @ opt_ptr ''reply_to_id'' JUuid (msg_ReplyToID m)
      @ opt_ptr ''edited_at'' JTime (msg_EditedAt m)
      @ opt_ptr ''deleted_at'' JTime (msg_DeletedAt m)
      @ [(''created_at'', JTime (msg_CreatedAt m)), (''updated_at'', JTime (msg_UpdatedAt m))]
      @ opt_ptr ''sender'' json_of_User (msg_Sender m)
      @ opt_slice ''reactions'' json_of_Reaction (msg_Reactions m))"

definition json_of_MessageCursor :: "MessageCursor \<Rightarrow> json" where
  "json_of_MessageCursor c =
     JObj [(''created_at'', JTime (cur_CreatedAt c)), (''id'', JUuid (cur_ID c))]"

definition json_of_ChatPreview :: "ChatPreview \<Rightarrow> json" where
  "json_of_ChatPreview p = JObj
     ([(''chat'', json_of_Chat (pv_Chat p))]
      @ opt_slice ''members'' json_of_ChatMember (pv_Members p)
      @ opt_ptr ''last_message'' json_of_Message (pv_LastMessage p)
      @ [(''unread_count'', JInt (int (pv_UnreadCount p)))])"

section \<open>Decoding\<close>

definition str_field :: "(string \<times> json) list \<Rightarrow> string \<Rightarrow> string option" where
  "str_field fs k = (case map_of fs k of
     None \<Rightarrow> Some [] | Some JNull \<Rightarrow> Some [] | Some (JStr s) \<Rightarrow> Some s | Some _ \<Rightarrow> None)"

definition uuid_field :: "(string \<times> json) list \<Rightarrow> string \<Rightarrow> uuid option" where
  "uuid_field fs k = (case map_of fs k of
     None \<Rightarrow> Some uuid_Nil | Some JNull \<Rightarrow> Some uuid_Nil | Some (JUuid u) \<Rightarrow> Some u | Some _ \<Rightarrow> None)"

definition time_field :: "(string \<times> json) list \<Rightarrow> string \<Rightarrow> time option" where
  "time_field fs k = (case map_of fs k of
     None \<Rightarrow> Some zero_time | Some JNull \<Rightarrow> Some zero_time | Some (JTime t) \<Rightarrow> Some t
   | Some _ \<Rightarrow> None)"

fun User_of_json :: "json \<Rightarrow> User option" where
  "User_of_json JNull = Some zero_User"
| "User_of_json (JObj fs) =
     Option.bind (uuid_field fs ''id'') (\<lambda>i.
     Option.bind (str_field fs ''username'') (\<lambda>n.
     Option.bind (str_field fs ''email'') (\<lambda>em.
     Option.bind (str_field fs ''avatar_url'') (\<lambda>av.
     Option.bind (str_field fs ''bio'') (\<lambda>b.
     Option.bind (str_field fs ''status'') (\<lambda>st.
     Option.bind (time_field fs ''last_seen'') (\<lambda>ls.
     Option.bind (time_field fs ''created_at'') (\<lambda>ca.
     Option.bind (time_field fs ''updated_at'') (\<lambda>ua.
       Some \<lparr>user_ID = i, user_Username = n, user_Email = em, user_PasswordHash = [],
         user_AvatarURL = av, user_Bio = b, user_Status = st, user_LastSeen = ls,
         user_CreatedAt = ca, user_UpdatedAt = ua\<rparr>)))))))))"
| "User_of_json _ = None"

definition zero_Chat :: Chat where
  "zero_Chat = \<lparr>chat_ID = uuid_Nil, chat_Type = [], chat_Name = [], chat_AvatarURL = [],
     chat_Description = [], chat_CreatedBy = uuid_Nil, chat_CreatedAt = zero_time,
     chat_UpdatedAt = zero_time\<rparr>"

fun Chat_of_json :: "json \<Rightarrow> Chat option" where
  "Chat_of_json JNull = Some zero_Chat"
| "Chat_of_json (JObj fs) =
     Option.bind (uuid_field fs ''id'') (\<lambda>i.
     Option.bind (str_field fs ''type'') (\<lambda>t.
     Option.bind (str_field fs ''name'') (\<lambda>n.
     Option.bind (str_field fs ''avatar_url'') (\<lambda>av.
     Option.bind (str_field fs ''description'') (\<lambda>d.
     Option.bind (uuid_field fs ''created_by'') (\<lambda>cb.
     Option.bind (time_field fs ''created_at'') (\<lambda>ca.
     Option.bind (time_field fs ''updated_at'') (\<lambda>ua.
       Some \<lparr>chat_ID = i, chat_Type = t, chat_Name = n, chat_AvatarURL = av,
         chat_Description = d, chat_CreatedBy = cb, chat_CreatedAt = ca,
         chat_UpdatedAt = ua\<rparr>))))))))"
| "Chat_of_json _ = None"

definition zero_ChatMember :: ChatMember where
  "zero_ChatMember = \<lparr>mem_ChatID = uuid_Nil, mem_UserID = uuid_Nil, mem_Role = [],
     mem_JoinedAt = zero_time, mem_User = None\<rparr>"

definition user_ptr_field :: "(string \<times> json) list \<Rightarrow> string \<Rightarrow> User option option" where
  "user_ptr_field fs k = (case map_of fs k of
     None \<Rightarrow> Some None | Some JNull \<Rightarrow> Some None | Some j \<Rightarrow> map_option Some (User_of_json j))"

fun ChatMember_of_json :: "json \<Rightarrow> ChatMember option" where
  "ChatMember_of_json JNull = Some zero_ChatMember"
| "ChatMember_of_json (JObj fs) =
     Option.bind (uuid_field fs ''chat_id'') (\<lambda>c.
     Option.bind (uuid_field fs ''user_id'') (\<lambda>u.
     Option.bind (str_field fs ''role'') (\<lambda>r.
     Option.bind (time_field fs ''joined_at'') (\<lambda>j.
     Option.bind (user_ptr_field fs ''user'') (\<lambda>p.
       Some \<lparr>mem_ChatID = c, mem_UserID = u, mem_Role = r, mem_JoinedAt = j, mem_User = p\<rparr>)))))"
| "ChatMember_of_json _ = None"

section \<open>Round trips\<close>

text \<open>What a cached user keeps: everything but the password hash.\<close>

definition without_hash :: "User \<Rightarrow> User" where
  "without_hash u = u\<lparr>user_PasswordHash := []\<rparr>"

lemmas json_field_defs = str_field_def uuid_field_def time_field_def opt_str_def opt_ptr_def

lemma User_roundtrip: "User_of_json (json_of_User u) = Some (without_hash u)"
  by (cases u) (simp add: json_of_User_def json_field_defs without_hash_def)

lemma Chat_roundtrip: "Chat_of_json (json_of_Chat c) = Some c"
  by (cases c) (simp add: json_of_Chat_def json_field_defs)

lemma json_of_User_is_obj: "\<exists>fs. json_of_User u = JObj fs"
  by (simp add: json_of_User_def)

lemma ChatMember_roundtrip:
  "ChatMember_of_json (json_of_ChatMember m) =
     Some (m\<lparr>mem_User := map_option without_hash (mem_User m)\<rparr>)"
proof (cases "mem_User m")
  case None
  then show ?thesis
    by (cases m) (simp add: json_of_ChatMember_def json_field_defs user_ptr_field_def)
next
  case (Some u)
  obtain fs where fs: "json_of_User u = JObj fs" using json_of_User_is_obj by blast
  have "user_ptr_field [(''user'', json_of_User u)] ''user'' = Some (Some (without_hash u))"
    using User_roundtrip [of u] unfolding fs by (simp add: user_ptr_field_def)
  with Some show ?thesis
    by (cases m) (simp add: json_of_ChatMember_def json_field_defs user_ptr_field_def)
qed

text \<open>The hash never reaches a document: \<open>PasswordHash\<close> is tagged \<open>json:"-"\<close>.\<close>

lemma json_of_User_hash_indep:
  "without_hash u = without_hash u' \<Longrightarrow> json_of_User u = json_of_User u'"
  by (cases u; cases u') (simp add: without_hash_def json_of_User_def)

lemma without_hash_idem [simp]: "without_hash (without_hash u) = without_hash u"
  by (simp add: without_hash_def)

lemma without_hash_fields [simp]:
  "user_ID (without_hash u) = user_ID u" "user_Username (without_hash u) = user_Username u"
  "user_Email (without_hash u) = user_Email u"
  by (simp_all add: without_hash_def)

end
