(* ===== verification/World.thy ===== *)
theory World
  imports Runes Json
begin

text \<open>
  The state outside the Go process: the six SQL tables of migrations/ (rows in scan order), the
  in-memory cache store of internal/infrastructure/cache/mock, and the environment that decides
  which statements fail and how far the clock has moved at each reading.

  \<open>db_stmt\<close> issues one statement: if the environment has a fault at this position the driver
  returns an error and the statement has no effect, otherwise the statement runs on the
  tables.  A query delivers all its rows or fails as a whole.  \<open>NOW()\<close> is the clock at the
  statement.  The theorems quantify over the environment, so they cover every failure pattern
  and every monotone clock.
\<close>

section \<open>Tables\<close>

record user_row =
  uc_id :: uuid
  uc_username :: string
  uc_email :: string
  uc_password_hash :: string
  uc_avatar_url :: "string option"
  uc_bio :: "string option"
  uc_status :: string
  uc_last_seen :: time
  uc_created_at :: time
  uc_updated_at :: time
  uc_deleted_at :: "time option"

record chat_row =
  cc_id :: uuid
  cc_type :: string
  cc_name :: "string option"
  cc_avatar_url :: "string option"
  cc_description :: "string option"
  cc_created_by :: uuid
  cc_created_at :: time
  cc_updated_at :: time
  cc_deleted_at :: "time option"

record member_row =
  mc_chat_id :: uuid
  mc_user_id :: uuid
  mc_role :: string
  mc_joined_at :: time

record message_row =
  gc_id :: uuid
  gc_chat_id :: uuid
  gc_sender_id :: uuid
  gc_content :: string
  gc_type :: string
  gc_reply_to_id :: "uuid option"
  gc_edited_at :: "time option"
  gc_deleted_at :: "time option"
  gc_created_at :: time
  gc_updated_at :: time

record receipt_row =
  rc_chat_id :: uuid
  rc_user_id :: uuid
  rc_last_read_at :: time

record reaction_row =
  xc_message_id :: uuid
  xc_user_id :: uuid
  xc_emoji :: string
  xc_created_at :: time

record db =
  tb_users :: "user_row list"
  tb_chats :: "chat_row list"
  tb_members :: "member_row list"
  tb_messages :: "message_row list"
  tb_receipts :: "receipt_row list"
  tb_reactions :: "reaction_row list"

definition empty_db :: db where
  "empty_db = \<lparr>tb_users = [], tb_chats = [], tb_members = [], tb_messages = [],
     tb_receipts = [], tb_reactions = []\<rparr>"

section \<open>Statements over a table\<close>

text \<open>\<open>sql_update\<close> counts the rows that match, as Postgres does; \<open>sql_update_changed\<close> counts the
  rows whose contents change, as MySQL does unless the DSN sets \<open>clientFoundRows\<close>, which
  mysql/config.go does not.\<close>

definition sql_update :: "('r \<Rightarrow> bool) \<Rightarrow> ('r \<Rightarrow> 'r) \<Rightarrow> 'r list \<Rightarrow> nat \<times> 'r list" where
  "sql_update P f rs = (length (filter P rs), map (\<lambda>r. if P r then f r else r) rs)"

definition sql_update_changed :: "('r \<Rightarrow> bool) \<Rightarrow> ('r \<Rightarrow> 'r) \<Rightarrow> 'r list \<Rightarrow> nat \<times> 'r list" where
  "sql_update_changed P f rs =
     (length (filter (\<lambda>r. P r \<and> f r \<noteq> r) rs), map (\<lambda>r. if P r then f r else r) rs)"

definition sql_delete :: "('r \<Rightarrow> bool) \<Rightarrow> 'r list \<Rightarrow> nat \<times> 'r list" where
  "sql_delete P rs = (length (filter P rs), filter (\<lambda>r. \<not> P r) rs)"

text \<open>The first violated constraint of a list of (violated, error) pairs.\<close>

fun first_violation :: "(bool \<times> db_error) list \<Rightarrow> db_error option" where
  "first_violation [] = None"
| "first_violation ((bad, e) # cs) = (if bad then Some e else first_violation cs)"

lemma first_violation_None: "first_violation cs = None \<longleftrightarrow> (\<forall>(bad, e) \<in> set cs. \<not> bad)"
  by (induction cs rule: first_violation.induct) auto

section \<open>Environment and process state\<close>

record env =
  env_pos :: nat
  env_fault :: "nat \<Rightarrow> string option"
  env_tick :: "nat \<Rightarrow> nat"
  env_now :: time

text \<open>A cached string: the output of \<open>json.Marshal\<close>, or any other text (the flags \<open>"0"\<close> and
  \<open>"1"\<close>, or bytes that do not parse).\<close>

datatype raw = Text string | Json json

record cache_entry =
  ce_value :: raw
  ce_expiresAt :: time

record world =
  w_env :: env
  w_db :: db
  w_cache :: "string \<rightharpoonup> cache_entry"

definition env_step :: "env \<Rightarrow> env" where
  "env_step e = e\<lparr>env_pos := Suc (env_pos e), env_now := env_now e + env_tick e (env_pos e)\<rparr>"

definition w_step :: "world \<Rightarrow> world" where
  "w_step w = w\<lparr>w_env := env_step (w_env w)\<rparr>"

text \<open>\<open>time.Now()\<close>.\<close>

definition clock_now :: "(world, time) io" where
  "clock_now w = (Ok (env_now (w_env (w_step w))), w_step w)"

definition db_stmt :: "(time \<Rightarrow> db \<Rightarrow> db_error + ('a \<times> db)) \<Rightarrow> (world, 'a) io" where
  "db_stmt f w =
     (case env_fault (w_env w) (env_pos (w_env w)) of
        Some s \<Rightarrow> (Err (Db (DriverErr s)), w_step w)
      | None \<Rightarrow>
          (case f (env_now (w_env (w_step w))) (w_db w) of
             Inl e \<Rightarrow> (Err (Db e), w_step w)
           | Inr (a, d) \<Rightarrow> (Ok a, (w_step w)\<lparr>w_db := d\<rparr>)))"

text \<open>\<open>Exec\<close> yields \<open>RowsAffected\<close>; \<open>QueryRow(...).Scan\<close> takes the first row or yields the
  no-row error; \<open>Query\<close> scans every row.\<close>

definition db_exec :: "(time \<Rightarrow> db \<Rightarrow> db_error + (nat \<times> db)) \<Rightarrow> (world, nat) io" where
  "db_exec f = db_stmt f"

definition db_queryRow :: "(db \<Rightarrow> 'r list) \<Rightarrow> ('r \<Rightarrow> db_error + 'a) \<Rightarrow> (world, 'a) io" where
  "db_queryRow q scan = db_stmt (\<lambda>_ d.
     case q d of [] \<Rightarrow> Inl ErrNoRows
     | r # _ \<Rightarrow> (case scan r of Inl e \<Rightarrow> Inl e | Inr a \<Rightarrow> Inr (a, d)))"

fun scan_all :: "('r \<Rightarrow> db_error + 'a) \<Rightarrow> 'r list \<Rightarrow> db_error + 'a list" where
  "scan_all scan [] = Inr []"
| "scan_all scan (r # rs) =
     (case scan r of Inl e \<Rightarrow> Inl e
      | Inr a \<Rightarrow> (case scan_all scan rs of Inl e \<Rightarrow> Inl e | Inr as \<Rightarrow> Inr (a # as)))"

definition db_query :: "(db \<Rightarrow> 'r list) \<Rightarrow> ('r \<Rightarrow> db_error + 'a) \<Rightarrow> (world, 'a list) io" where
  "db_query q scan = db_stmt (\<lambda>_ d.
     case scan_all scan (q d) of Inl e \<Rightarrow> Inl e | Inr as \<Rightarrow> Inr (as, d))"

lemma scan_all_Inr: "(\<And>r. r \<in> set rs \<Longrightarrow> scan r = Inr (f r)) \<Longrightarrow> scan_all scan rs = Inr (map f rs)"
  by (induction rs) auto

section \<open>Transactions\<close>

definition tx_begin :: "(world, unit) io" where
  "tx_begin = db_stmt (\<lambda>_ d. Inr ((), d))"

definition tx_commit :: "(world, unit) io" where
  "tx_commit = db_stmt (\<lambda>_ d. Inr ((), d))"

text \<open>\<open>tx := Begin(); defer tx.Rollback(); body; return tx.Commit()\<close>: unless the commit
  succeeds the tables are what they were at the start.\<close>

definition in_tx :: "(world, unit) io \<Rightarrow> (world, unit) io" where
  "in_tx body w =
     (let (r, w') = call tx_begin (\<lambda>_. call body (\<lambda>_. tx_commit)) w
      in case r of Ok _ \<Rightarrow> (r, w') | _ \<Rightarrow> (r, w'\<lparr>w_db := w_db w\<rparr>))"

section \<open>Quiet environments\<close>

text \<open>No statement fails from here on.\<close>

definition quiet :: "world \<Rightarrow> bool" where
  "quiet w \<longleftrightarrow> (\<forall>p \<ge> env_pos (w_env w). env_fault (w_env w) p = None)"

fun is_fault :: "goerr \<Rightarrow> bool" where
  "is_fault (Db (DriverErr s)) \<longleftrightarrow> True"
| "is_fault _ \<longleftrightarrow> False"

lemma is_fault_not_domain: "is_fault e \<Longrightarrow> \<not> errors_Is e t \<and> \<not> is_ErrNoRows e"
  by (cases e rule: is_fault.cases) auto

lemma is_fault_iff: "is_fault e \<longleftrightarrow> (\<exists>s. e = Db (DriverErr s))"
  by (cases e rule: is_fault.cases) auto

lemma w_step_fields [simp]:
  "w_db (w_step w) = w_db w" "w_cache (w_step w) = w_cache w"
  by (simp_all add: w_step_def)

lemma env_now_step: "env_now (w_env w) \<le> env_now (w_env (w_step w))"
  by (simp add: w_step_def env_step_def)

lemma quiet_step [simp]: "quiet w \<Longrightarrow> quiet (w_step w)"
  by (simp add: quiet_def w_step_def env_step_def)

lemma quiet_db [simp]: "quiet (w\<lparr>w_db := d\<rparr>) = quiet w"
  by (simp add: quiet_def)

lemma quiet_cache [simp]: "quiet (w\<lparr>w_cache := c\<rparr>) = quiet w"
  by (simp add: quiet_def)

lemma quiet_no_fault: "quiet w \<Longrightarrow> env_fault (w_env w) (env_pos (w_env w)) = None"
  by (simp add: quiet_def)

lemma db_stmt_cases:
  obtains (fault) s where "\<not> quiet w" "db_stmt f w = (Err (Db (DriverErr s)), w_step w)"
  | (error) e t where "f t (w_db w) = Inl e" "db_stmt f w = (Err (Db e), w_step w)"
      "env_now (w_env w) \<le> t"
  | (ok) a d t where "f t (w_db w) = Inr (a, d)" "db_stmt f w = (Ok a, (w_step w)\<lparr>w_db := d\<rparr>)"
      "env_now (w_env w) \<le> t"
proof (cases "env_fault (w_env w) (env_pos (w_env w))")
  case (Some s)
  then have "\<not> quiet w" using quiet_no_fault by fastforce
  with Some show ?thesis using fault by (simp add: db_stmt_def)
next
  case None
  let ?t = "env_now (w_env (w_step w))"
  show ?thesis
  proof (cases "f ?t (w_db w)")
    case (Inl e)
    with None show ?thesis using error [OF Inl _ env_now_step] by (simp add: db_stmt_def)
  next
    case (Inr p)
    obtain a d where "p = (a, d)" by force
    with None Inr show ?thesis using ok [of ?t a d] env_now_step by (simp add: db_stmt_def)
  qed
qed

end
