(* ===== verification/Contract.thy ===== *)
theory Contract
  imports Json
begin

text \<open>
  The contract of the repositories: an abstract store \<open>aview\<close>, the operations of the chat and user
  ports over it, and the simulation relation that says that a concrete operation implements an
  abstract one.

  \<open>simulates I qt view ok obs v op aop\<close>: from every concrete state that satisfies the invariant
  \<open>I\<close> and has the abstract state \<open>v\<close>, the operation \<open>op\<close> keeps the invariant and either yields
  what \<open>aop\<close> yields (results compared through \<open>obs\<close>) and moves to its abstract state, or
  reports a storage error and leaves the abstract state alone; the second case needs a state
  that is not \<open>qt\<close> (quiet: no statement fails any more) or data the store refuses (\<open>\<not> ok\<close>).
\<close>

section \<open>The abstract store\<close>

text \<open>Live users, chats with a liveness flag, membership rows (\<open>mem_User\<close> unset), messages
  (sender and reactions unset), read
  receipts and reactions (user unset).\<close>

record aview =
  av_users :: "User list"
  av_chats :: "(Chat \<times> bool) list"
  av_members :: "ChatMember list"
  av_messages :: "Message list"
  av_receipts :: "((uuid \<times> uuid) \<times> time) list"
  av_reactions :: "Reaction list"

definition user_lookup :: "aview \<Rightarrow> uuid \<Rightarrow> User option" where
  "user_lookup v u = find (\<lambda>x. user_ID x = u) (av_users v)"

definition chat_lookup :: "aview \<Rightarrow> uuid \<Rightarrow> Chat option" where
  "chat_lookup v c = map_option fst (find (\<lambda>(x, live). chat_ID x = c \<and> live) (av_chats v))"

definition member_lookup :: "aview \<Rightarrow> uuid \<Rightarrow> uuid \<Rightarrow> ChatMember option" where
  "member_lookup v c u = find (\<lambda>m. mem_ChatID m = c \<and> mem_UserID m = u) (av_members v)"

definition is_member :: "aview \<Rightarrow> uuid \<Rightarrow> uuid \<Rightarrow> bool" where
  "is_member v c u \<longleftrightarrow> member_lookup v c u \<noteq> None"

definition role_of :: "aview \<Rightarrow> uuid \<Rightarrow> uuid \<Rightarrow> MemberRole option" where
  "role_of v c u = map_option mem_Role (member_lookup v c u)"

text \<open>The member list of a chat as the repository lists it: members whose user is live, ordered
  by join time and then user id.\<close>

definition roster :: "aview \<Rightarrow> uuid \<Rightarrow> ChatMember list" where
  "roster v c = sort_key (\<lambda>m. (mem_JoinedAt m, mem_UserID m))
     (filter (\<lambda>m. mem_ChatID m = c \<and> user_lookup v (mem_UserID m) \<noteq> None) (av_members v))"

definition direct_lookup :: "aview \<Rightarrow> uuid \<Rightarrow> uuid \<Rightarrow> Chat option" where
  "direct_lookup v a b = map_option fst (find (\<lambda>(x, live).
     chat_Type x = ChatTypeDirect \<and> live \<and> is_member v (chat_ID x) a \<and> is_member v (chat_ID x) b)
     (av_chats v))"

section \<open>Abstract operations of the chat port\<close>

type_synonym 'a aop = "(aview, 'a) io"

definition sp_CreateWithMembers :: "Chat \<Rightarrow> ChatMember list \<Rightarrow> unit aop" where
  "sp_CreateWithMembers c ms v =
     (Ok (), v\<lparr>av_chats := av_chats v @ [(c, True)], av_members := av_members v @ ms\<rparr>)"

definition sp_GetByID :: "uuid \<Rightarrow> Chat aop" where
  "sp_GetByID c v = (case chat_lookup v c of
     None \<Rightarrow> (Err (Dom ErrChatNotFound), v) | Some x \<Rightarrow> (Ok x, v))"

definition sp_Update :: "Chat \<Rightarrow> unit aop" where
  "sp_Update c v = (if chat_lookup v (chat_ID c) = None then (Err (Dom ErrChatNotFound), v)
     else (Ok (), v\<lparr>av_chats := map (\<lambda>(x, live). if chat_ID x = chat_ID c \<and> live
       then (x\<lparr>chat_Name := chat_Name c, chat_AvatarURL := chat_AvatarURL c,
               chat_Description := chat_Description c, chat_UpdatedAt := chat_UpdatedAt c\<rparr>, live)
       else (x, live)) (av_chats v)\<rparr>))"

text \<open>When a deleted chat was last updated is no part of the state.\<close>

definition buried :: "Chat \<Rightarrow> Chat" where
  "buried x = x\<lparr>chat_UpdatedAt := 0\<rparr>"

definition sp_Delete :: "uuid \<Rightarrow> unit aop" where
  "sp_Delete c v = (Ok (), v\<lparr>av_chats := map (\<lambda>(x, live).
     if live \<and> chat_ID x = c then (buried x, False) else (x, live)) (av_chats v)\<rparr>)"

definition sp_AddMember :: "ChatMember \<Rightarrow> unit aop" where
  "sp_AddMember m v = (if is_member v (mem_ChatID m) (mem_UserID m)
     then (Err (Dom ErrAlreadyChatMember), v)
     else (Ok (), v\<lparr>av_members := av_members v @ [m]\<rparr>))"

definition sp_RemoveMember :: "uuid \<Rightarrow> uuid \<Rightarrow> unit aop" where
  "sp_RemoveMember c u v = (if is_member v c u
     then (Ok (), v\<lparr>av_members :=
             filter (\<lambda>m. \<not> (mem_ChatID m = c \<and> mem_UserID m = u)) (av_members v)\<rparr>)
     else (Err (Dom ErrNotChatMember), v))"

definition sp_GetMember :: "uuid \<Rightarrow> uuid \<Rightarrow> ChatMember aop" where
  "sp_GetMember c u v = (case member_lookup v c u of
     Some m \<Rightarrow> (if user_lookup v u \<noteq> None then (Ok m, v) else (Err (Dom ErrNotChatMember), v))
   | None \<Rightarrow> (Err (Dom ErrNotChatMember), v))"

definition sp_GetMembers :: "uuid \<Rightarrow> ChatMember list aop" where
  "sp_GetMembers c v = (Ok (roster v c), v)"

definition sp_UpdateMemberRole :: "uuid \<Rightarrow> uuid \<Rightarrow> MemberRole \<Rightarrow> unit aop" where
  "sp_UpdateMemberRole c u r v = (if is_member v c u
     then (Ok (), v\<lparr>av_members := map (\<lambda>m. if mem_ChatID m = c \<and> mem_UserID m = u
             then m\<lparr>mem_Role := r\<rparr> else m) (av_members v)\<rparr>)
     else (Err (Dom ErrNotChatMember), v))"

definition sp_GetDirectChat :: "uuid \<Rightarrow> uuid \<Rightarrow> Chat aop" where
  "sp_GetDirectChat a b v = (case direct_lookup v a b of
     None \<Rightarrow> (Err (Dom ErrChatNotFound), v) | Some x \<Rightarrow> (Ok x, v))"

definition sp_IsMember :: "uuid \<Rightarrow> uuid \<Rightarrow> bool aop" where
  "sp_IsMember c u v = (Ok (is_member v c u), v)"

text \<open>The chat list: for every live chat of the user its last live message and the number of
  live messages of others since the user's read mark, most recent activity first.\<close>

definition later_message :: "Message \<Rightarrow> Message \<Rightarrow> bool" where
  "later_message m n \<longleftrightarrow> (msg_CreatedAt n, msg_ID n) < (msg_CreatedAt m, msg_ID m)"

definition live_messages :: "aview \<Rightarrow> uuid \<Rightarrow> Message list" where
  "live_messages v c = filter (\<lambda>m. msg_ChatID m = c \<and> msg_DeletedAt m = None) (av_messages v)"

definition last_message :: "aview \<Rightarrow> uuid \<Rightarrow> Message option" where
  "last_message v c = find (\<lambda>m. \<forall>n \<in> set (live_messages v c). \<not> later_message n m)
     (live_messages v c)"

definition read_mark :: "aview \<Rightarrow> uuid \<Rightarrow> uuid \<Rightarrow> time" where
  "read_mark v c u = (case map_of (av_receipts v) (c, u) of None \<Rightarrow> unix_epoch | Some t \<Rightarrow> t)"

definition unread_count :: "aview \<Rightarrow> uuid \<Rightarrow> uuid \<Rightarrow> nat" where
  "unread_count v c u = length (filter (\<lambda>m. msg_SenderID m \<noteq> u
     \<and> msg_CreatedAt m > read_mark v c u) (live_messages v c))"

text \<open>The columns of the last message that the list query selects.\<close>

definition preview_message :: "Message \<Rightarrow> Message" where
  "preview_message m = \<lparr>msg_ID = msg_ID m, msg_ChatID = msg_ChatID m,
     msg_SenderID = msg_SenderID m, msg_Content = msg_Content m, msg_Type = msg_Type m,
     msg_ReplyToID = None, msg_EditedAt = None, msg_DeletedAt = None,
     msg_CreatedAt = msg_CreatedAt m, msg_UpdatedAt = msg_UpdatedAt m,
     msg_Sender = None, msg_Reactions = []\<rparr>"

definition preview_of :: "aview \<Rightarrow> uuid \<Rightarrow> Chat \<Rightarrow> ChatPreview" where
  "preview_of v u c = \<lparr>pv_Chat = c, pv_Members = [],
     pv_LastMessage = map_option preview_message (last_message v (chat_ID c)),
     pv_UnreadCount = unread_count v (chat_ID c) u\<rparr>"

definition activity :: "ChatPreview \<Rightarrow> time" where
  "activity p = (case pv_LastMessage p of None \<Rightarrow> chat_CreatedAt (pv_Chat p)
     | Some m \<Rightarrow> msg_CreatedAt m)"

definition sp_GetUserChats :: "uuid \<Rightarrow> ChatPreview list aop" where
  "sp_GetUserChats u v = (Ok (sort_key (\<lambda>p. - int (activity p))
     (map (\<lambda>(c, live). preview_of v u c)
        (filter (\<lambda>(c, live). live \<and> is_member v (chat_ID c) u) (av_chats v)))), v)"

definition spec_chats :: "aview ChatRepository" where
  "spec_chats = \<lparr>cr_CreateWithMembers = sp_CreateWithMembers, cr_GetByID = sp_GetByID,
     cr_Update = sp_Update, cr_Delete = sp_Delete, cr_AddMember = sp_AddMember,
     cr_RemoveMember = sp_RemoveMember, cr_GetMember = sp_GetMember,
     cr_GetMembers = sp_GetMembers, cr_UpdateMemberRole = sp_UpdateMemberRole,
     cr_GetUserChats = sp_GetUserChats, cr_GetDirectChat = sp_GetDirectChat,
     cr_IsMember = sp_IsMember\<rparr>"

lemma buried_fields [simp]:
  "chat_ID (buried x) = chat_ID x" "chat_Type (buried x) = chat_Type x" "chat_Name (buried x) = chat_Name x"
  "IsDirect (buried x) = IsDirect x"
  by (simp_all add: buried_def IsDirect_def)

lemmas spec_chat_defs = sp_CreateWithMembers_def sp_GetByID_def sp_Update_def sp_Delete_def
  sp_AddMember_def sp_RemoveMember_def sp_GetMember_def sp_GetMembers_def
  sp_UpdateMemberRole_def sp_GetDirectChat_def sp_IsMember_def sp_GetUserChats_def

text \<open>Looking a user up, the one operation of the user port that the chat use cases call; the password
  hash, which a cached answer does not carry, is no part of the result.\<close>

definition sp_GetUser :: "uuid \<Rightarrow> User aop" where
  "sp_GetUser u v = (case user_lookup v u of
     None \<Rightarrow> (Err (Dom ErrUserNotFound), v) | Some x \<Rightarrow> (Ok (without_hash x), v))"

section \<open>Simulation\<close>

fun is_storage_error :: "goerr \<Rightarrow> bool" where
  "is_storage_error (Db e) \<longleftrightarrow> True"
| "is_storage_error _ \<longleftrightarrow> False"

lemma is_storage_error_iff: "is_storage_error e \<longleftrightarrow> (\<exists>x. e = Db x)"
  by (cases e) auto

definition sim_at ::
  "('w \<Rightarrow> bool) \<Rightarrow> ('w \<Rightarrow> bool) \<Rightarrow> ('w \<Rightarrow> 'v) \<Rightarrow> bool \<Rightarrow> ('a \<Rightarrow> 'b) \<Rightarrow> 'v \<Rightarrow>
     ('w, 'a) io \<Rightarrow> ('v, 'b) io \<Rightarrow> 'w \<Rightarrow> bool" where
  "sim_at I qt view ok obs v op aop w \<longleftrightarrow>
     I (snd (op w)) \<and> (qt w \<longrightarrow> qt (snd (op w))) \<and>
     (map_outcome id obs (fst (op w)) = fst (aop v) \<and> view (snd (op w)) = snd (aop v) \<or>
      (\<not> qt w \<or> \<not> ok) \<and> (\<exists>e. fst (op w) = Err e \<and> is_storage_error e) \<and>
      view (snd (op w)) = v)"

definition simulates ::
  "('w \<Rightarrow> bool) \<Rightarrow> ('w \<Rightarrow> bool) \<Rightarrow> ('w \<Rightarrow> 'v) \<Rightarrow> bool \<Rightarrow> ('a \<Rightarrow> 'b) \<Rightarrow> 'v \<Rightarrow>
     ('w, 'a) io \<Rightarrow> ('v, 'b) io \<Rightarrow> bool" where
  "simulates I qt view ok obs v op aop \<longleftrightarrow>
     (\<forall>w. I w \<longrightarrow> view w = v \<longrightarrow> sim_at I qt view ok obs v op aop w)"

lemma simulatesI:
  "(\<And>w. I w \<Longrightarrow> view w = v \<Longrightarrow> sim_at I qt view ok obs v op aop w) \<Longrightarrow>
     simulates I qt view ok obs v op aop"
  by (simp add: simulates_def)

lemma sim_at_exact:
  "I (snd (op w)) \<Longrightarrow> (qt w \<Longrightarrow> qt (snd (op w))) \<Longrightarrow>
     map_outcome id obs (fst (op w)) = fst (aop v) \<Longrightarrow> view (snd (op w)) = snd (aop v) \<Longrightarrow>
     sim_at I qt view ok obs v op aop w"
  by (simp add: sim_at_def)

lemma sim_at_storage:
  "I (snd (op w)) \<Longrightarrow> (qt w \<Longrightarrow> qt (snd (op w))) \<Longrightarrow> \<not> qt w \<or> \<not> ok \<Longrightarrow>
     fst (op w) = Err e \<Longrightarrow> is_storage_error e \<Longrightarrow> view (snd (op w)) = v \<Longrightarrow>
     sim_at I qt view ok obs v op aop w"
  by (auto simp: sim_at_def)

text \<open>What a simulation says of one run.\<close>

lemma sim_atE:
  assumes "sim_at I qt view ok obs v op aop w"
  obtains (exact) "I (snd (op w))" "qt w \<Longrightarrow> qt (snd (op w))"
      "map_outcome id obs (fst (op w)) = fst (aop v)" "view (snd (op w)) = snd (aop v)"
    | (storage) e where "I (snd (op w))" "qt w \<Longrightarrow> qt (snd (op w))" "\<not> qt w \<or> \<not> ok"
      "fst (op w) = Err e" "is_storage_error e" "view (snd (op w)) = v"
  using assms unfolding sim_at_def by blast

lemma simulatesE:
  assumes "simulates I qt view ok obs v op aop" "I w" "view w = v"
  obtains (exact) "I (snd (op w))" "qt w \<Longrightarrow> qt (snd (op w))"
      "map_outcome id obs (fst (op w)) = fst (aop v)" "view (snd (op w)) = snd (aop v)"
    | (storage) e where "I (snd (op w))" "qt w \<Longrightarrow> qt (snd (op w))" "\<not> qt w \<or> \<not> ok"
      "fst (op w) = Err e" "is_storage_error e" "view (snd (op w)) = v"
  using assms unfolding simulates_def sim_at_def by blast

lemma simulates_weaken:
  "simulates I qt view ok' obs v op aop \<Longrightarrow> (ok \<Longrightarrow> ok') \<Longrightarrow> simulates I qt view ok obs v op aop"
  unfolding simulates_def sim_at_def by blast

lemma simulates_ret: "obs a = b \<Longrightarrow> simulates I qt view ok obs v (ret a) (ret b)"
  by (simp add: simulates_def sim_at_def ret_def)

lemma simulates_throw: "simulates I qt view ok obs v (throw e) (throw e)"
  by (simp add: simulates_def sim_at_def throw_def)

text \<open>A first step that does not change the abstract state, handled by cases on its error.\<close>

lemma simulates_branch:
  assumes m: "simulates I qt view ok obs v m am" and read: "snd (am v) = v"
    and k: "\<And>a. fst (am v) = Ok (obs a) \<Longrightarrow> simulates I qt view ok obs' v (k a) (ak (obs a))"
    and h: "\<And>e. fst (am v) = Err e \<Longrightarrow> simulates I qt view ok obs' v (h e) (ah e)"
    and hs: "\<And>e. is_storage_error e \<Longrightarrow> h e = throw e"
  shows "simulates I qt view ok obs' v (branch m k h) (branch am ak ah)"
proof (rule simulatesI)
  fix w assume w: "I w" "view w = v"
  from m w show "sim_at I qt view ok obs' v (branch m k h) (branch am ak ah) w"
  proof (cases rule: simulatesE)
    case exact
    show ?thesis
    proof (cases "fst (m w)")
      case (Ok a)
      with exact(3) have am: "fst (am v) = Ok (obs a)" by simp
      with read exact k [OF am] Ok show ?thesis
        by (auto simp: branch_def simulates_def sim_at_def)
    next
      case (Err e)
      with exact(3) have am: "fst (am v) = Err e" by simp
      with read exact h [OF am] Err show ?thesis
        by (auto simp: branch_def simulates_def sim_at_def)
    next
      case (Panic s)
      with exact(3) have am: "fst (am v) = Panic s" by simp
      with read exact Panic show ?thesis
        by (auto simp: branch_def sim_at_def)
    qed
  next
    case (storage e)
    then show ?thesis by (auto simp: branch_def hs throw_def sim_at_def)
  qed
qed

lemma simulates_call:
  assumes "simulates I qt view ok obs v m am" "snd (am v) = v"
    and "\<And>a. fst (am v) = Ok (obs a) \<Longrightarrow> simulates I qt view ok obs' v (k a) (ak (obs a))"
  shows "simulates I qt view ok obs' v (call m k) (call am ak)"
  unfolding call_def using assms by (intro simulates_branch) (auto intro: simulates_throw)

text \<open>A last step, which may write, followed by a pure result.\<close>

lemma sim_at_last:
  assumes "sim_at I qt view ok obs v m am w" and f: "\<And>a. obs' (f a) = g (obs a)"
  shows "sim_at I qt view ok obs' v (call m (\<lambda>a. ret (f a))) (call am (\<lambda>b. ret (g b))) w"
  using assms(1)
proof (cases rule: sim_atE)
  case exact
  from exact(3) have "fst (am v) = map_outcome id obs (fst (m w))" by simp
  with exact show ?thesis
    by (cases "fst (m w)") (auto simp: call_def branch_def ret_def throw_def f sim_at_def)
next
  case (storage e)
  then show ?thesis by (auto simp: call_def branch_def throw_def sim_at_def)
qed

lemma simulates_last:
  "simulates I qt view ok obs v m am \<Longrightarrow> (\<And>a. obs' (f a) = g (obs a)) \<Longrightarrow>
     simulates I qt view ok obs' v (call m (\<lambda>a. ret (f a))) (call am (\<lambda>b. ret (g b)))"
  by (auto simp: simulates_def intro: sim_at_last)

text \<open>What a simulation says of a successful and of a failed run.\<close>

lemma simulates_Ok:
  assumes "simulates I qt view ok obs v op aop" "I w" "view w = v" "op w = (Ok a, w')"
  shows "aop v = (Ok (obs a), view w') \<and> I w'"
  using assms(1-3) by (cases rule: simulatesE) (auto simp: assms(4) prod_eq_iff)

lemma simulates_Err:
  assumes "simulates I qt view ok obs v op aop" "I w" "view w = v" "op w = (Err e, w')"
  shows "I w' \<and> (aop v = (Err e, view w') \<or>
     is_storage_error e \<and> view w' = v \<and> (\<not> qt w \<or> \<not> ok))"
  using assms(1-3) by (cases rule: simulatesE) (auto simp: assms(4) prod_eq_iff)

lemma simulates_Panic:
  assumes "simulates I qt view ok obs v op aop" "I w" "view w = v" "op w = (Panic s, w')"
  shows "aop v = (Panic s, view w') \<and> I w'"
  using assms(1-3) by (cases rule: simulatesE) (auto simp: assms(4) prod_eq_iff)

text \<open>An operation with several writes may stop between them: \<open>S\<close> holds the abstract states in
  which a storage error can leave the store.\<close>

definition sim_upto ::
  "('w \<Rightarrow> bool) \<Rightarrow> ('w \<Rightarrow> bool) \<Rightarrow> ('w \<Rightarrow> 'v) \<Rightarrow> ('a \<Rightarrow> 'b) \<Rightarrow> 'v \<Rightarrow> 'v set \<Rightarrow>
     ('w, 'a) io \<Rightarrow> ('v, 'b) io \<Rightarrow> bool" where
  "sim_upto I qt view obs v S op aop \<longleftrightarrow>
     (\<forall>w. I w \<longrightarrow> view w = v \<longrightarrow>
        I (snd (op w)) \<and> (qt w \<longrightarrow> qt (snd (op w))) \<and>
        (map_outcome id obs (fst (op w)) = fst (aop v) \<and> view (snd (op w)) = snd (aop v) \<or>
         \<not> qt w \<and> (\<exists>e. fst (op w) = Err e \<and> is_storage_error e) \<and> view (snd (op w)) \<in> S))"

lemma sim_upto_simulates:
  assumes "simulates I qt view True obs v op aop" "v \<in> S"
  shows "sim_upto I qt view obs v S op aop"
  unfolding sim_upto_def
proof (intro allI impI)
  fix w assume "I w" "view w = v"
  with assms(1) show "I (snd (op w)) \<and> (qt w \<longrightarrow> qt (snd (op w))) \<and>
      (map_outcome id obs (fst (op w)) = fst (aop v) \<and> view (snd (op w)) = snd (aop v) \<or>
       \<not> qt w \<and> (\<exists>e. fst (op w) = Err e \<and> is_storage_error e) \<and> view (snd (op w)) \<in> S)"
    by (cases rule: simulatesE) (simp_all add: assms(2))
qed

lemma sim_upto_throw: "sim_upto I qt view obs v S (throw e) (throw e)"
  by (simp add: sim_upto_def throw_def)

lemma sim_upto_if:
  "(b \<Longrightarrow> sim_upto I qt view obs v S m am) \<Longrightarrow> (\<not> b \<Longrightarrow> sim_upto I qt view obs v S n an) \<Longrightarrow>
     sim_upto I qt view obs v S (if b then m else n) (if b then am else an)"
  by simp

lemma sim_upto_call:
  assumes m: "simulates I qt view True obs v m am" and S: "v \<in> S"
    and k: "\<And>a. fst (am v) = Ok (obs a) \<Longrightarrow> sim_upto I qt view obs' (snd (am v)) S (k a) (ak (obs a))"
  shows "sim_upto I qt view obs' v S (call m k) (call am ak)"
  unfolding sim_upto_def
proof (intro allI impI)
  fix w assume w: "I w" "view w = v"
  let ?goal = "\<lambda>r. I (snd r) \<and> (qt w \<longrightarrow> qt (snd r)) \<and>
      (map_outcome id obs' (fst r) = fst (call am ak v) \<and> view (snd r) = snd (call am ak v) \<or>
       \<not> qt w \<and> (\<exists>e. fst r = Err e \<and> is_storage_error e) \<and> view (snd r) \<in> S)"
  from m w show "?goal (call m k w)"
  proof (cases rule: simulatesE)
    case exact
    show ?thesis
    proof (cases "fst (m w)")
      case (Ok a)
      with exact(3) have am: "fst (am v) = Ok (obs a)" by simp
      have run: "call m k w = k a (snd (m w))" "call am ak v = ak (obs a) (snd (am v))"
        using Ok am by (simp_all add: call_def branch_def)
      from k [OF am] exact show ?thesis
        unfolding run sim_upto_def by blast
    next
      case (Err e)
      with exact(3) have "fst (am v) = Err e" by simp
      with Err exact show ?thesis by (simp add: call_def branch_def throw_def)
    next
      case (Panic s)
      with exact(3) have "fst (am v) = Panic s" by simp
      with Panic exact show ?thesis by (simp add: call_def branch_def)
    qed
  next
    case (storage e)
    with S show ?thesis by (simp add: call_def branch_def throw_def)
  qed
qed

section \<open>Simulation with a moment chosen by the store\<close>

text \<open>\<open>sim_now J t0\<close>: the operation does what the abstract one does at some moment not before
  \<open>t0\<close>, where \<open>J t0\<close> is the invariant with a clock that has passed \<open>t0\<close>.\<close>

definition sim_now ::
  "(time \<Rightarrow> 'w \<Rightarrow> bool) \<Rightarrow> time \<Rightarrow> ('w \<Rightarrow> bool) \<Rightarrow> ('w \<Rightarrow> 'v) \<Rightarrow> bool \<Rightarrow> ('a \<Rightarrow> 'b) \<Rightarrow> 'v \<Rightarrow>
     ('w, 'a) io \<Rightarrow> (time \<Rightarrow> ('v, 'b) io) \<Rightarrow> bool" where
  "sim_now J t0 qt view ok obs v op aop \<longleftrightarrow>
     (\<forall>w. J t0 w \<longrightarrow> view w = v \<longrightarrow> (\<exists>t \<ge> t0. sim_at (J t0) qt view ok obs v op (aop t) w))"

lemma sim_nowI:
  "(\<And>w. J t0 w \<Longrightarrow> view w = v \<Longrightarrow> \<exists>t \<ge> t0. sim_at (J t0) qt view ok obs v op (aop t) w) \<Longrightarrow>
     sim_now J t0 qt view ok obs v op aop"
  by (simp add: sim_now_def)

lemma sim_nowE:
  assumes "sim_now J t0 qt view ok obs v op aop" "J t0 w" "view w = v"
  obtains t where "t0 \<le> t" "sim_at (J t0) qt view ok obs v op (aop t) w"
  using assms unfolding sim_now_def by blast

lemma sim_now_if:
  "(b \<Longrightarrow> sim_now J t0 qt view ok obs v m am) \<Longrightarrow> (\<not> b \<Longrightarrow> sim_now J t0 qt view ok obs v n an) \<Longrightarrow>
     sim_now J t0 qt view ok obs v (if b then m else n) (\<lambda>t. if b then am t else an t)"
  by simp

lemma sim_now_throw: "sim_now J t0 qt view ok obs v (throw e) (\<lambda>_. throw e)"
  by (auto simp: sim_now_def sim_at_def throw_def)

lemma sim_now_simulates:
  "simulates (J t0) qt view ok obs v op aop \<Longrightarrow> sim_now J t0 qt view ok obs v op (\<lambda>_. aop)"
  by (auto simp: sim_now_def simulates_def)

lemma sim_now_last:
  "sim_now J t0 qt view ok obs v m am \<Longrightarrow> (\<And>a. obs' (f a) = g (obs a)) \<Longrightarrow>
     sim_now J t0 qt view ok obs' v (call m (\<lambda>a. ret (f a))) (\<lambda>t. call (am t) (\<lambda>b. ret (g b)))"
  unfolding sim_now_def by (blast intro: sim_at_last)

text \<open>Reads first, then the step that takes the time.\<close>

lemma sim_now_call:
  assumes m: "simulates (J t0) qt view ok obs v m am" and read: "snd (am v) = v"
    and k: "\<And>a. fst (am v) = Ok (obs a) \<Longrightarrow> sim_now J t0 qt view ok obs' v (k a) (\<lambda>t. ak t (obs a))"
  shows "sim_now J t0 qt view ok obs' v (call m k) (\<lambda>t. call am (ak t))"
proof (rule sim_nowI)
  fix w assume w: "J t0 w" "view w = v"
  from m w show "\<exists>t \<ge> t0. sim_at (J t0) qt view ok obs' v (call m k) (call am (ak t)) w"
  proof (cases rule: simulatesE)
    case exact
    show ?thesis
    proof (cases "fst (m w)")
      case (Ok a)
      with exact(3) have am: "fst (am v) = Ok (obs a)" by simp
      from exact(1) exact(4) read have w': "J t0 (snd (m w))" "view (snd (m w)) = v" by simp_all
      from sim_nowE [OF k [OF am] w'] obtain t where
        "t0 \<le> t" "sim_at (J t0) qt view ok obs' v (k a) (ak t (obs a)) (snd (m w))" by blast
      moreover from this(2) have "sim_at (J t0) qt view ok obs' v (call m k) (call am (ak t)) w"
        using Ok am read exact(2) w' by (auto simp: sim_at_def call_def branch_def)
      ultimately show ?thesis by blast
    next
      case (Err e)
      with exact(3) have "fst (am v) = Err e" by simp
      with Err exact read have "sim_at (J t0) qt view ok obs' v (call m k) (call am (ak t0)) w"
        by (auto simp: sim_at_def call_def branch_def throw_def)
      then show ?thesis by blast
    next
      case (Panic s)
      with exact(3) have "fst (am v) = Panic s" by simp
      with Panic exact read have "sim_at (J t0) qt view ok obs' v (call m k) (call am (ak t0)) w"
        by (auto simp: sim_at_def call_def branch_def)
      then show ?thesis by blast
    qed
  next
    case (storage e)
    then have "sim_at (J t0) qt view ok obs' v (call m k) (call am (ak t0)) w"
      by (auto simp: sim_at_def call_def branch_def throw_def)
    then show ?thesis by blast
  qed
qed

text \<open>What it says of a successful run.\<close>

lemma sim_now_Ok:
  assumes "sim_now J t0 qt view ok obs v op aop" "J t0 w" "view w = v" "op w = (Ok a, w')"
  shows "\<exists>t \<ge> t0. aop t v = (Ok (obs a), view w') \<and> J t0 w'"
proof -
  from assms(1-3) obtain t where "t0 \<le> t" "sim_at (J t0) qt view ok obs v op (aop t) w"
    by (rule sim_nowE)
  with assms(4) show ?thesis by (auto simp: sim_at_def prod_eq_iff)
qed

lemma sim_now_Err:
  assumes "sim_now J t0 qt view ok obs v op aop" "J t0 w" "view w = v" "op w = (Err e, w')"
  shows "J t0 w' \<and> ((\<exists>t \<ge> t0. aop t v = (Err e, view w')) \<or>
     is_storage_error e \<and> view w' = v \<and> (\<not> qt w \<or> \<not> ok))"
proof -
  from assms(1-3) obtain t where "t0 \<le> t" "sim_at (J t0) qt view ok obs v op (aop t) w"
    by (rule sim_nowE)
  with assms(4) show ?thesis by (auto simp: sim_at_def prod_eq_iff)
qed

end
