(* ===== verification/Storage.thy ===== *)
theory Storage
  imports World Contract
begin

text \<open>
  What the SQL tables mean: the abstraction from table rows to the abstract store of the
  contract, and the integrity the schema of migrations/ enforces on the tables (primary keys,
  foreign keys).  Both storage back ends share it.
\<close>

section \<open>Rows as entities\<close>

text \<open>A nullable text column read into a Go string: NULL is the empty string.\<close>

definition null_text :: "string option \<Rightarrow> string" where
  "null_text s = (case s of None \<Rightarrow> [] | Some t \<Rightarrow> t)"

lemma null_text_simps [simp]: "null_text None = []" "null_text (Some t) = t"
  by (simp_all add: null_text_def)

definition user_of_row :: "user_row \<Rightarrow> User" where
  "user_of_row r = \<lparr>user_ID = uc_id r, user_Username = uc_username r, user_Email = uc_email r,
     user_PasswordHash = uc_password_hash r, user_AvatarURL = null_text (uc_avatar_url r),
     user_Bio = null_text (uc_bio r), user_Status = uc_status r, user_LastSeen = uc_last_seen r,
     user_CreatedAt = uc_created_at r, user_UpdatedAt = uc_updated_at r\<rparr>"

definition chat_of_row :: "chat_row \<Rightarrow> Chat" where
  "chat_of_row r = \<lparr>chat_ID = cc_id r, chat_Type = cc_type r, chat_Name = null_text (cc_name r),
     chat_AvatarURL = null_text (cc_avatar_url r),
     chat_Description = null_text (cc_description r), chat_CreatedBy = cc_created_by r,
     chat_CreatedAt = cc_created_at r, chat_UpdatedAt = cc_updated_at r\<rparr>"

definition member_of_row :: "member_row \<Rightarrow> ChatMember" where
  "member_of_row r = \<lparr>mem_ChatID = mc_chat_id r, mem_UserID = mc_user_id r,
     mem_Role = mc_role r, mem_JoinedAt = mc_joined_at r, mem_User = None\<rparr>"

definition message_of_row :: "message_row \<Rightarrow> Message" where
  "message_of_row r = \<lparr>msg_ID = gc_id r, msg_ChatID = gc_chat_id r, msg_SenderID = gc_sender_id r,
     msg_Content = gc_content r, msg_Type = gc_type r, msg_ReplyToID = gc_reply_to_id r,
     msg_EditedAt = gc_edited_at r, msg_DeletedAt = gc_deleted_at r,
     msg_CreatedAt = gc_created_at r, msg_UpdatedAt = gc_updated_at r,
     msg_Sender = None, msg_Reactions = []\<rparr>"

definition reaction_of_row :: "reaction_row \<Rightarrow> Reaction" where
  "reaction_of_row r = \<lparr>rx_MessageID = xc_message_id r, rx_UserID = xc_user_id r,
     rx_Emoji = xc_emoji r, rx_CreatedAt = xc_created_at r, rx_User = None\<rparr>"

lemma user_of_row_fields [simp]: "user_ID (user_of_row r) = uc_id r"
  by (simp add: user_of_row_def)

lemma chat_of_row_fields [simp]:
  "chat_ID (chat_of_row r) = cc_id r" "chat_Type (chat_of_row r) = cc_type r"
  "chat_CreatedAt (chat_of_row r) = cc_created_at r"
  by (simp_all add: chat_of_row_def)

lemma member_of_row_fields [simp]:
  "mem_ChatID (member_of_row r) = mc_chat_id r" "mem_UserID (member_of_row r) = mc_user_id r"
  "mem_Role (member_of_row r) = mc_role r" "mem_JoinedAt (member_of_row r) = mc_joined_at r"
  "mem_User (member_of_row r) = None"
  by (simp_all add: member_of_row_def)

lemma message_of_row_fields [simp]:
  "msg_ID (message_of_row r) = gc_id r" "msg_ChatID (message_of_row r) = gc_chat_id r"
  "msg_SenderID (message_of_row r) = gc_sender_id r"
  "msg_CreatedAt (message_of_row r) = gc_created_at r"
  "msg_DeletedAt (message_of_row r) = gc_deleted_at r"
  by (simp_all add: message_of_row_def)

section \<open>The abstract store of the tables\<close>

definition chat_state :: "chat_row \<Rightarrow> Chat \<times> bool" where
  "chat_state r = (if cc_deleted_at r = None then (chat_of_row r, True) else (buried (chat_of_row r), False))"

lemma chat_state_fields [simp]:
  "snd (chat_state r) \<longleftrightarrow> cc_deleted_at r = None" "chat_ID (fst (chat_state r)) = cc_id r"
  "chat_Type (fst (chat_state r)) = cc_type r" "chat_Name (fst (chat_state r)) = null_text (cc_name r)"
  "cc_deleted_at r = None \<Longrightarrow> fst (chat_state r) = chat_of_row r"
  by (simp_all add: chat_state_def chat_of_row_def)

definition db_view :: "db \<Rightarrow> aview" where
  "db_view d = \<lparr>
     av_users = map user_of_row (filter (\<lambda>r. uc_deleted_at r = None) (tb_users d)),
     av_chats = map chat_state (tb_chats d),
     av_members = map member_of_row (tb_members d),
     av_messages = map message_of_row (tb_messages d),
     av_receipts = map (\<lambda>r. ((rc_chat_id r, rc_user_id r), rc_last_read_at r)) (tb_receipts d),
     av_reactions = map reaction_of_row (tb_reactions d)\<rparr>"

definition view_of :: "world \<Rightarrow> aview" where
  "view_of w = db_view (w_db w)"

lemma view_of_step [simp]: "view_of (w_step w) = view_of w"
  by (simp add: view_of_def)

lemma view_of_db [simp]: "view_of (w\<lparr>w_db := d\<rparr>) = db_view d"
  by (simp add: view_of_def)

lemma view_of_cache [simp]: "view_of (w\<lparr>w_cache := c\<rparr>) = view_of w"
  by (simp add: view_of_def)

section \<open>Integrity of the tables\<close>

definition user_exists :: "db \<Rightarrow> uuid \<Rightarrow> bool" where
  "user_exists d u \<longleftrightarrow> (\<exists>r \<in> set (tb_users d). uc_id r = u)"

definition chat_exists :: "db \<Rightarrow> uuid \<Rightarrow> bool" where
  "chat_exists d c \<longleftrightarrow> (\<exists>r \<in> set (tb_chats d). cc_id r = c)"

definition member_exists :: "db \<Rightarrow> uuid \<Rightarrow> uuid \<Rightarrow> bool" where
  "member_exists d c u \<longleftrightarrow> (\<exists>r \<in> set (tb_members d). mc_chat_id r = c \<and> mc_user_id r = u)"

definition db_wf :: "db \<Rightarrow> bool" where
  "db_wf d \<longleftrightarrow>
     distinct (map uc_id (tb_users d)) \<and>
     distinct (map cc_id (tb_chats d)) \<and>
     distinct (map (\<lambda>r. (mc_chat_id r, mc_user_id r)) (tb_members d)) \<and>
     distinct (map gc_id (tb_messages d)) \<and>
     distinct (map (\<lambda>r. (rc_chat_id r, rc_user_id r)) (tb_receipts d)) \<and>
     (\<forall>r \<in> set (tb_members d). chat_exists d (mc_chat_id r) \<and> user_exists d (mc_user_id r)) \<and>
     distinct (map (\<lambda>r. (xc_message_id r, xc_user_id r, xc_emoji r)) (tb_reactions d)) \<and>
     (\<forall>r \<in> set (tb_messages d). chat_exists d (gc_chat_id r) \<and> user_exists d (gc_sender_id r))"

definition message_exists :: "db \<Rightarrow> uuid \<Rightarrow> bool" where
  "message_exists d m \<longleftrightarrow> (\<exists>r \<in> set (tb_messages d). gc_id r = m)"

lemma exists_frame [simp]:
  "user_exists (d\<lparr>tb_chats := cs\<rparr>) u = user_exists d u"
  "user_exists (d\<lparr>tb_members := ms\<rparr>) u = user_exists d u"
  "user_exists (d\<lparr>tb_messages := gs\<rparr>) u = user_exists d u"
  "chat_exists (d\<lparr>tb_users := us\<rparr>) c = chat_exists d c"
  "chat_exists (d\<lparr>tb_members := ms\<rparr>) c = chat_exists d c"
  "chat_exists (d\<lparr>tb_messages := gs\<rparr>) c = chat_exists d c"
  "user_exists (d\<lparr>tb_receipts := rs\<rparr>) u = user_exists d u"
  "chat_exists (d\<lparr>tb_receipts := rs\<rparr>) c = chat_exists d c"
  "user_exists (d\<lparr>tb_reactions := xs\<rparr>) u = user_exists d u"
  "chat_exists (d\<lparr>tb_reactions := xs\<rparr>) c = chat_exists d c"
  by (simp_all add: user_exists_def chat_exists_def)

section \<open>Lookups\<close>

lemma user_lookup_view:
  "user_lookup (db_view d) u =
     map_option user_of_row (find (\<lambda>r. uc_id r = u \<and> uc_deleted_at r = None) (tb_users d))"
  by (simp add: user_lookup_def db_view_def find_map find_filter comp_def conj_commute)

lemma chat_lookup_view:
  "chat_lookup (db_view d) c =
     map_option chat_of_row (find (\<lambda>r. cc_id r = c \<and> cc_deleted_at r = None) (tb_chats d))"
proof -
  have "map_option (fst \<circ> chat_state) (find (\<lambda>r. cc_id r = c \<and> cc_deleted_at r = None) rs) =
      map_option chat_of_row (find (\<lambda>r. cc_id r = c \<and> cc_deleted_at r = None) rs)" for rs
    by (auto simp: comp_def dest: find_Some_set intro!: option.map_cong)
  then show ?thesis
    by (simp add: chat_lookup_def db_view_def find_map comp_def option.map_comp case_prod_beta)
qed

lemma member_lookup_view:
  "member_lookup (db_view d) c u =
     map_option member_of_row (find (\<lambda>r. mc_chat_id r = c \<and> mc_user_id r = u) (tb_members d))"
  by (simp add: member_lookup_def db_view_def find_map comp_def)

lemma is_member_view: "is_member (db_view d) c u \<longleftrightarrow> member_exists d c u"
  by (auto simp: is_member_def member_lookup_view member_exists_def find_None_iff)

lemma user_lookup_exists: "user_lookup (db_view d) u \<noteq> None \<Longrightarrow> user_exists d u"
  by (auto simp: user_lookup_view user_exists_def dest: find_Some_set)

lemma chat_lookup_exists: "chat_lookup (db_view d) c \<noteq> None \<Longrightarrow> chat_exists d c"
  by (auto simp: chat_lookup_view chat_exists_def dest: find_Some_set)

lemma chat_lookup_type:
  assumes "db_wf d" "chat_lookup (db_view d) c = Some x" "r \<in> set (tb_chats d)" "cc_id r = c"
  shows "cc_deleted_at r = None \<and> chat_of_row r = x"
proof -
  from assms(2) obtain r' where r': "r' \<in> set (tb_chats d)" "cc_id r' = c"
      "cc_deleted_at r' = None" "chat_of_row r' = x"
    by (auto simp: chat_lookup_view dest: find_Some_set)
  moreover have "r = r'"
    using assms(1,3,4) r' by (auto simp: db_wf_def intro: distinct_map_inj)
  ultimately show ?thesis by simp
qed

end
