(* ===== verification/Sql.thy ===== *)
theory Sql
  imports Storage
begin

text \<open>
  The joins that the PostgreSQL and the MySQL repositories write in the same words, and the loop
  in which both group reactions by message.
\<close>

section \<open>Joins\<close>

text \<open>\<open>FROM chat_members cm JOIN users u ON u.id = cm.user_id AND u.deleted_at IS NULL\<close>.\<close>

definition members_join_users :: "db \<Rightarrow> (member_row \<times> user_row) list" where
  "members_join_users d = [(cm, u). cm \<leftarrow> tb_members d, u \<leftarrow> tb_users d,
     uc_id u = mc_user_id cm \<and> uc_deleted_at u = None]"

definition user_chats :: "db \<Rightarrow> uuid \<Rightarrow> chat_row list" where
  "user_chats d userID = [c. c \<leftarrow> tb_chats d, cm \<leftarrow> tb_members d,
     mc_chat_id cm = cc_id c \<and> mc_user_id cm = userID, cc_deleted_at c = None]"

text \<open>\<open>LEFT JOIN\<close>: a row of the left table with no partner is kept once, with NULLs.\<close>

definition left_join :: "'b list \<Rightarrow> 'b option list" where
  "left_join ps = (if ps = [] then [None] else map Some ps)"

text \<open>\<open>JOIN users u ON u.id = m.sender_id\<close>, deleted users included.\<close>

definition messages_join_senders :: "db \<Rightarrow> (message_row \<times> user_row) list" where
  "messages_join_senders d = [(m, u). m \<leftarrow> tb_messages d, u \<leftarrow> tb_users d, uc_id u = gc_sender_id m]"

text \<open>\<open>JOIN users u ON u.id = mr.user_id AND u.deleted_at IS NULL\<close>.\<close>

definition reactions_join_users :: "db \<Rightarrow> (reaction_row \<times> user_row) list" where
  "reactions_join_users d = [(r, u). r \<leftarrow> tb_reactions d, u \<leftarrow> tb_users d,
     uc_id u = xc_user_id r \<and> uc_deleted_at u = None]"

section \<open>Grouping\<close>

text \<open>\<open>result[rx.MessageID] = append(result[rx.MessageID], &rx)\<close> for every row.\<close>

definition append_reaction :: "(uuid \<rightharpoonup> Reaction list) \<Rightarrow> Reaction \<Rightarrow> (uuid \<rightharpoonup> Reaction list)" where
  "append_reaction result rx =
     result(rx_MessageID rx \<mapsto> (case result (rx_MessageID rx) of None \<Rightarrow> [] | Some xs \<Rightarrow> xs) @ [rx])"

end
