(* ===== verification/Postgres.thy ===== *)
theory Postgres
  imports Sql
begin

text \<open>
  What the PostgreSQL repositories share: the column checks and constraints that
  migrations/postgres/000001_init.up.sql puts on an inserted or updated row, the errors a
  violation reports (SQLSTATE and constraint name).

  Text columns take valid UTF-8 without NUL bytes; lengths count characters.  A row is refused
  with the first violated condition of its list; no code path depends on which one that is,
  except for the two unique indexes of \<open>users\<close>.
\<close>

definition pg_text :: "string \<Rightarrow> bool" where
  "pg_text s \<longleftrightarrow> ValidString s \<and> CHR 0x00 \<notin> set s"

definition pg_opt_text :: "string option \<Rightarrow> bool" where
  "pg_opt_text s \<longleftrightarrow> (case s of None \<Rightarrow> True | Some t \<Rightarrow> pg_text t)"

definition opt_len :: "string option \<Rightarrow> nat" where
  "opt_len s = (case s of None \<Rightarrow> 0 | Some t \<Rightarrow> RuneCountInString t)"

lemma pg_text_Nil [simp]: "pg_text []"
  by (simp add: pg_text_def ValidString_def bytes_of_def)

lemma pg_opt_text_simps [simp]: "pg_opt_text None" "pg_opt_text (Some t) = pg_text t"
  by (simp_all add: pg_opt_text_def)

lemma opt_len_simps [simp]: "opt_len None = 0" "opt_len (Some t) = RuneCountInString t"
  by (simp_all add: opt_len_def)

definition bad_encoding :: db_error where
  "bad_encoding = PgError ''22021'' []"

definition too_long :: db_error where
  "too_long = PgError ''22001'' []"

definition bad_enum :: db_error where
  "bad_enum = PgError ''22P02'' []"

definition check_violation :: "string \<Rightarrow> db_error" where
  "check_violation c = PgError ''23514'' c"

definition unique_violation :: "string \<Rightarrow> db_error" where
  "unique_violation c = PgError ''23505'' c"

definition fk_violation :: "string \<Rightarrow> db_error" where
  "fk_violation c = PgError ''23503'' c"

text \<open>A query with text parameters, which the server checks first.\<close>

definition pg_queryRow :: "string list \<Rightarrow> (db \<Rightarrow> 'r list) \<Rightarrow> ('r \<Rightarrow> db_error + 'a) \<Rightarrow> (world, 'a) io" where
  "pg_queryRow params q scan = db_stmt (\<lambda>_ d.
     if \<not> list_all pg_text params then Inl bad_encoding
     else (case q d of [] \<Rightarrow> Inl ErrNoRows
           | r # _ \<Rightarrow> (case scan r of Inl e \<Rightarrow> Inl e | Inr a \<Rightarrow> Inr (a, d))))"

text \<open>The enumerated types of the schema.\<close>

definition valid_user_status :: "string \<Rightarrow> bool" where
  "valid_user_status s \<longleftrightarrow> s \<in> {''online'', ''offline'', ''away''}"

definition valid_chat_type :: "string \<Rightarrow> bool" where
  "valid_chat_type s \<longleftrightarrow> s \<in> {''direct'', ''group''}"

definition valid_member_role :: "string \<Rightarrow> bool" where
  "valid_member_role s \<longleftrightarrow> s \<in> {''owner'', ''admin'', ''member''}"

definition valid_message_type :: "string \<Rightarrow> bool" where
  "valid_message_type s \<longleftrightarrow> s \<in> {''text'', ''image'', ''file''}"

lemma valid_roles [simp]:
  "valid_member_role MemberRoleOwner" "valid_member_role MemberRoleAdmin"
  "valid_member_role MemberRoleMember"
  by (simp_all add: valid_member_role_def MemberRoleOwner_def MemberRoleAdmin_def
      MemberRoleMember_def)

lemma valid_types [simp]: "valid_chat_type ChatTypeDirect" "valid_chat_type ChatTypeGroup"
  by (simp_all add: valid_chat_type_def ChatTypeDirect_def ChatTypeGroup_def)

section \<open>Constraints\<close>

definition pg_chat_checks :: "chat_row \<Rightarrow> (bool \<times> db_error) list" where
  "pg_chat_checks r =
     [(\<not> (pg_opt_text (cc_name r) \<and> pg_opt_text (cc_avatar_url r) \<and> pg_opt_text (cc_description r)),
         bad_encoding),
      (\<not> valid_chat_type (cc_type r), bad_enum),
      (opt_len (cc_name r) > 100, too_long),
      (opt_len (cc_description r) > 500, too_long),
      (cc_type r = ''group'' \<and> cc_name r = None, check_violation ''chk_chats_group_name''),
      (cc_type r = ''direct'' \<and> cc_name r \<noteq> None, check_violation ''chk_chats_direct_name'')]"

definition pg_chat_keys :: "db \<Rightarrow> chat_row \<Rightarrow> (bool \<times> db_error) list" where
  "pg_chat_keys d r =
     [(chat_exists d (cc_id r), unique_violation ''chats_pkey''),
      (\<not> user_exists d (cc_created_by r), fk_violation ''chats_created_by_fkey'')]"

definition pg_member_checks :: "member_row \<Rightarrow> (bool \<times> db_error) list" where
  "pg_member_checks r = [(\<not> valid_member_role (mc_role r), bad_enum)]"

definition pg_member_fks :: "db \<Rightarrow> member_row \<Rightarrow> (bool \<times> db_error) list" where
  "pg_member_fks d r =
     [(\<not> chat_exists d (mc_chat_id r), fk_violation ''chat_members_chat_id_fkey''),
      (\<not> user_exists d (mc_user_id r), fk_violation ''chat_members_user_id_fkey'')]"

definition pg_insert_chat :: "chat_row \<Rightarrow> db \<Rightarrow> db_error + (nat \<times> db)" where
  "pg_insert_chat r d =
     (case first_violation (pg_chat_checks r @ pg_chat_keys d r) of
        Some e \<Rightarrow> Inl e
      | None \<Rightarrow> Inr (1, d\<lparr>tb_chats := tb_chats d @ [r]\<rparr>))"

definition pg_insert_member :: "member_row \<Rightarrow> db \<Rightarrow> db_error + (nat \<times> db)" where
  "pg_insert_member r d =
     (case first_violation (pg_member_checks r
         @ [(member_exists d (mc_chat_id r) (mc_user_id r), unique_violation ''chat_members_pkey'')]
         @ pg_member_fks d r) of
        Some e \<Rightarrow> Inl e
      | None \<Rightarrow> Inr (1, d\<lparr>tb_members := tb_members d @ [r]\<rparr>))"

text \<open>\<open>ON CONFLICT (chat_id, user_id) DO NOTHING\<close>: a duplicate key affects no row.\<close>

definition pg_insert_member_nothing :: "member_row \<Rightarrow> db \<Rightarrow> db_error + (nat \<times> db)" where
  "pg_insert_member_nothing r d =
     (case first_violation (pg_member_checks r) of
        Some e \<Rightarrow> Inl e
      | None \<Rightarrow>
          if member_exists d (mc_chat_id r) (mc_user_id r) then Inr (0, d)
          else (case first_violation (pg_member_fks d r) of
                  Some e \<Rightarrow> Inl e
                | None \<Rightarrow> Inr (1, d\<lparr>tb_members := tb_members d @ [r]\<rparr>)))"

end
