(* ===== verification/PgChat.thy ===== *)
theory PgChat
  imports Postgres
begin

text \<open>
  internal/infrastructure/storage/postgres/chat.go: the PostgreSQL chat repository, one
  definition per method.  Every SQL text is translated to the list operation it denotes on the
  tables; the order of the checks and the mapping of the driver's errors follow the Go code.
\<close>

section \<open>Reading rows\<close>

text \<open>\<open>nullableStr\<close>: the empty string is stored as NULL.\<close>

definition pg_nullableStr :: "string \<Rightarrow> string option" where
  "pg_nullableStr s = (if s = [] then None else Some s)"

definition pg_scanChat :: "chat_row \<Rightarrow> db_error + Chat" where
  "pg_scanChat r = Inr \<lparr>chat_ID = cc_id r, chat_Type = cc_type r,
     chat_Name = (case cc_name r of Some s \<Rightarrow> s | None \<Rightarrow> []),
     chat_AvatarURL = (case cc_avatar_url r of Some s \<Rightarrow> s | None \<Rightarrow> []),
     chat_Description = (case cc_description r of Some s \<Rightarrow> s | None \<Rightarrow> []),
     chat_CreatedBy = cc_created_by r, chat_CreatedAt = cc_created_at r,
     chat_UpdatedAt = cc_updated_at r\<rparr>"

text \<open>\<open>avatar_url\<close> and \<open>bio\<close> are scanned into plain strings: a NULL there is a scan error.\<close>

definition scan_null :: db_error where
  "scan_null = DriverErr ''cannot scan NULL into *string''"

definition pg_scanMemberWithUser :: "member_row \<times> user_row \<Rightarrow> db_error + ChatMember" where
  "pg_scanMemberWithUser p =
     (let (m, u) = p in
      case (uc_avatar_url u, uc_bio u) of
        (Some av, Some b) \<Rightarrow> Inr \<lparr>mem_ChatID = mc_chat_id m, mem_UserID = mc_user_id m,
          mem_Role = mc_role m, mem_JoinedAt = mc_joined_at m,
          mem_User = Some \<lparr>user_ID = uc_id u, user_Username = uc_username u,
            user_Email = uc_email u, user_PasswordHash = uc_password_hash u,
            user_AvatarURL = av, user_Bio = b, user_Status = uc_status u,
            user_LastSeen = uc_last_seen u, user_CreatedAt = uc_created_at u,
            user_UpdatedAt = uc_updated_at u\<rparr>\<rparr>
      | _ \<Rightarrow> Inl scan_null)"

section \<open>The methods\<close>

definition pg_chat_CreateWithMembers :: "Chat \<Rightarrow> ChatMember list \<Rightarrow> (world, unit) io" where
  "pg_chat_CreateWithMembers c members = in_tx
     (call (db_exec (\<lambda>_. pg_insert_chat
        \<lparr>cc_id = chat_ID c, cc_type = chat_Type c, cc_name = pg_nullableStr (chat_Name c),
         cc_avatar_url = pg_nullableStr (chat_AvatarURL c),
         cc_description = pg_nullableStr (chat_Description c), cc_created_by = chat_CreatedBy c,
         cc_created_at = chat_CreatedAt c, cc_updated_at = chat_UpdatedAt c,
         cc_deleted_at = None\<rparr>)) (\<lambda>_.
      for_each (\<lambda>m. call (db_exec (\<lambda>_. pg_insert_member
        \<lparr>mc_chat_id = mem_ChatID m, mc_user_id = mem_UserID m, mc_role = mem_Role m,
         mc_joined_at = mem_JoinedAt m\<rparr>)) (\<lambda>_. ret ())) members))"

definition pg_chat_GetByID :: "uuid \<Rightarrow> (world, Chat) io" where
  "pg_chat_GetByID chatID =
     branch (db_queryRow (\<lambda>d. [r \<leftarrow> tb_chats d. cc_id r = chatID \<and> cc_deleted_at r = None]) pg_scanChat)
       ret
       (\<lambda>err. if is_ErrNoRows err then throw (Dom ErrChatNotFound) else throw err)"

definition pg_chat_Update :: "Chat \<Rightarrow> (world, unit) io" where
  "pg_chat_Update c =
     call (db_exec (\<lambda>_ d.
       let P = (\<lambda>r. cc_id r = chat_ID c \<and> cc_deleted_at r = None);
           f = (\<lambda>r. r\<lparr>cc_name := pg_nullableStr (chat_Name c),
                      cc_avatar_url := pg_nullableStr (chat_AvatarURL c),
                      cc_description := pg_nullableStr (chat_Description c),
                      cc_updated_at := chat_UpdatedAt c\<rparr>);
           (n, rs) = sql_update P f (tb_chats d)
       in case first_violation
            ((\<not> (pg_text (chat_Name c) \<and> pg_text (chat_AvatarURL c) \<and> pg_text (chat_Description c)),
                bad_encoding)
             # concat (map (\<lambda>r. pg_chat_checks (f r)) (filter P (tb_chats d)))) of
            Some e \<Rightarrow> Inl e
          | None \<Rightarrow> Inr (n, d\<lparr>tb_chats := rs\<rparr>))) (\<lambda>n.
     if n = 0 then throw (Dom ErrChatNotFound) else ret ())"

definition pg_chat_Delete :: "uuid \<Rightarrow> (world, unit) io" where
  "pg_chat_Delete chatID =
     call (db_exec (\<lambda>now d.
       let (n, rs) = sql_update (\<lambda>r. cc_id r = chatID \<and> cc_deleted_at r = None)
                       (\<lambda>r. r\<lparr>cc_deleted_at := Some now\<rparr>) (tb_chats d)
       in Inr (n, d\<lparr>tb_chats := rs\<rparr>))) (\<lambda>_. ret ())"

definition pg_chat_AddMember :: "ChatMember \<Rightarrow> (world, unit) io" where
  "pg_chat_AddMember m =
     call (db_exec (\<lambda>_. pg_insert_member_nothing
       \<lparr>mc_chat_id = mem_ChatID m, mc_user_id = mem_UserID m, mc_role = mem_Role m,
        mc_joined_at = mem_JoinedAt m\<rparr>)) (\<lambda>n.
     if n = 0 then throw (Dom ErrAlreadyChatMember) else ret ())"

definition pg_chat_RemoveMember :: "uuid \<Rightarrow> uuid \<Rightarrow> (world, unit) io" where
  "pg_chat_RemoveMember chatID userID =
     call (db_exec (\<lambda>_ d.
       let (n, rs) = sql_delete (\<lambda>r. mc_chat_id r = chatID \<and> mc_user_id r = userID) (tb_members d)
       in Inr (n, d\<lparr>tb_members := rs\<rparr>))) (\<lambda>n.
     if n = 0 then throw (Dom ErrNotChatMember) else ret ())"

definition pg_chat_GetMember :: "uuid \<Rightarrow> uuid \<Rightarrow> (world, ChatMember) io" where
  "pg_chat_GetMember chatID userID =
     branch (db_queryRow (\<lambda>d. [p \<leftarrow> members_join_users d.
                mc_chat_id (fst p) = chatID \<and> mc_user_id (fst p) = userID]) pg_scanMemberWithUser)
       ret
       (\<lambda>err. if is_ErrNoRows err then throw (Dom ErrNotChatMember) else throw err)"

definition pg_chat_GetMembers :: "uuid \<Rightarrow> (world, ChatMember list) io" where
  "pg_chat_GetMembers chatID =
     db_query (\<lambda>d. sort_key (\<lambda>p. (mc_joined_at (fst p), mc_user_id (fst p)))
       [p \<leftarrow> members_join_users d. mc_chat_id (fst p) = chatID]) pg_scanMemberWithUser"

definition pg_chat_UpdateMemberRole :: "uuid \<Rightarrow> uuid \<Rightarrow> MemberRole \<Rightarrow> (world, unit) io" where
  "pg_chat_UpdateMemberRole chatID userID role =
     call (db_exec (\<lambda>_ d.
       let (n, rs) = sql_update (\<lambda>r. mc_chat_id r = chatID \<and> mc_user_id r = userID)
                       (\<lambda>r. r\<lparr>mc_role := role\<rparr>) (tb_members d)
       in if \<not> valid_member_role role then Inl bad_enum
          else Inr (n, d\<lparr>tb_members := rs\<rparr>))) (\<lambda>n.
     if n = 0 then throw (Dom ErrNotChatMember) else ret ())"

definition pg_chat_GetDirectChat :: "uuid \<Rightarrow> uuid \<Rightarrow> (world, Chat) io" where
  "pg_chat_GetDirectChat user1ID user2ID =
     branch (db_queryRow (\<lambda>d. take 1 [c \<leftarrow> tb_chats d.
                cc_type c = ''direct'' \<and> cc_deleted_at c = None
                \<and> member_exists d (cc_id c) user1ID \<and> member_exists d (cc_id c) user2ID])
              pg_scanChat)
       ret
       (\<lambda>err. if is_ErrNoRows err then throw (Dom ErrChatNotFound) else throw err)"

definition pg_chat_IsMember :: "uuid \<Rightarrow> uuid \<Rightarrow> (world, bool) io" where
  "pg_chat_IsMember chatID userID =
     call (db_queryRow (\<lambda>d. [member_exists d chatID userID]) Inr) ret"

section \<open>The chat list\<close>

text \<open>\<open>SELECT DISTINCT ON (k)\<close>: the first row of each key.\<close>

function distinct_on :: "('r \<Rightarrow> 'k) \<Rightarrow> 'r list \<Rightarrow> 'r list" where
  "distinct_on k [] = []"
| "distinct_on k (r # rs) = r # distinct_on k (filter (\<lambda>x. k x \<noteq> k r) rs)"
  by pat_completeness auto
termination
  by (relation "measure (length \<circ> snd)") (auto simp: less_Suc_eq_le)

definition pg_last_messages :: "db \<Rightarrow> chat_row list \<Rightarrow> message_row list" where
  "pg_last_messages d ucs = distinct_on gc_chat_id
     (sort_key (\<lambda>m. (gc_chat_id m, - int (gc_created_at m), - uint (gc_id m)))
       [m \<leftarrow> tb_messages d. gc_chat_id m \<in> set (map cc_id ucs) \<and> gc_deleted_at m = None])"

definition pg_last_read :: "db \<Rightarrow> uuid \<Rightarrow> uuid \<Rightarrow> time" where
  "pg_last_read d chatID userID =
     (case [r \<leftarrow> tb_receipts d. rc_chat_id r = chatID \<and> rc_user_id r = userID] of
        [] \<Rightarrow> unix_epoch | r # _ \<Rightarrow> rc_last_read_at r)"

text \<open>\<open>GROUP BY m.chat_id\<close>: one row per chat that has an unread message.\<close>

definition pg_unread :: "db \<Rightarrow> chat_row list \<Rightarrow> uuid \<Rightarrow> (uuid \<times> nat) list" where
  "pg_unread d ucs userID =
     (let ms = [m \<leftarrow> tb_messages d. gc_chat_id m \<in> set (map cc_id ucs) \<and> gc_sender_id m \<noteq> userID
                 \<and> gc_deleted_at m = None
                 \<and> gc_created_at m > pg_last_read d (gc_chat_id m) userID]
      in map (\<lambda>c. (c, length (filter (\<lambda>m. gc_chat_id m = c) ms))) (remdups (map gc_chat_id ms)))"

definition pg_user_chat_rows :: "db \<Rightarrow> uuid \<Rightarrow> (chat_row \<times> message_row option \<times> nat) list" where
  "pg_user_chat_rows d userID =
     (let ucs = user_chats d userID;
          lms = pg_last_messages d ucs;
          urs = pg_unread d ucs userID
      in sort_key (\<lambda>(uc, lm, cnt). - int (case lm of None \<Rightarrow> cc_created_at uc | Some m \<Rightarrow> gc_created_at m))
           [(uc, lm, case u of None \<Rightarrow> 0 | Some (_, cnt) \<Rightarrow> cnt). uc \<leftarrow> ucs,
              lm \<leftarrow> left_join [m \<leftarrow> lms. gc_chat_id m = cc_id uc],
              u \<leftarrow> left_join [p \<leftarrow> urs. fst p = cc_id uc]])"

definition pg_scanPreview :: "chat_row \<times> message_row option \<times> nat \<Rightarrow> db_error + ChatPreview" where
  "pg_scanPreview row =
     (let (r, lm, cnt) = row;
          c = \<lparr>chat_ID = cc_id r, chat_Type = cc_type r,
               chat_Name = (case cc_name r of Some s \<Rightarrow> s | None \<Rightarrow> []),
               chat_AvatarURL = (case cc_avatar_url r of Some s \<Rightarrow> s | None \<Rightarrow> []),
               chat_Description = (case cc_description r of Some s \<Rightarrow> s | None \<Rightarrow> []),
               chat_CreatedBy = cc_created_by r, chat_CreatedAt = cc_created_at r,
               chat_UpdatedAt = cc_updated_at r\<rparr>
      in Inr \<lparr>pv_Chat = c, pv_Members = [],
           pv_LastMessage = (case lm of
              None \<Rightarrow> None
            | Some m \<Rightarrow> Some (zero_Message\<lparr>msg_ID := gc_id m, msg_ChatID := chat_ID c,
                msg_SenderID := gc_sender_id m, msg_Content := gc_content m,
                msg_Type := gc_type m, msg_CreatedAt := gc_created_at m,
                msg_UpdatedAt := gc_updated_at m\<rparr>)),
           pv_UnreadCount = cnt\<rparr>)"

definition pg_chat_GetUserChats :: "uuid \<Rightarrow> (world, ChatPreview list) io" where
  "pg_chat_GetUserChats userID = db_query (\<lambda>d. pg_user_chat_rows d userID) pg_scanPreview"

definition pg_NewChatRepository :: "world ChatRepository" where
  "pg_NewChatRepository = \<lparr>cr_CreateWithMembers = pg_chat_CreateWithMembers,
     cr_GetByID = pg_chat_GetByID, cr_Update = pg_chat_Update, cr_Delete = pg_chat_Delete,
     cr_AddMember = pg_chat_AddMember, cr_RemoveMember = pg_chat_RemoveMember,
     cr_GetMember = pg_chat_GetMember, cr_GetMembers = pg_chat_GetMembers,
     cr_UpdateMemberRole = pg_chat_UpdateMemberRole, cr_GetUserChats = pg_chat_GetUserChats,
     cr_GetDirectChat = pg_chat_GetDirectChat, cr_IsMember = pg_chat_IsMember\<rparr>"

end
