(* ===== verification/ChatPort.thy ===== *)
theory ChatPort
  imports Contract
begin

text \<open>
  The chat port as an interface.  \<open>chat_port\<close> is what every storage back end promises the use
  cases: each method simulates the abstract one, under the data conditions the callers
  establish.  \<open>chat_port_idempotent\<close> adds the promise that separates the back ends: an update that
  changes nothing is a success.
\<close>

text \<open>Membership rows carry no user; the repository may attach one.\<close>

definition strip_user :: "ChatMember \<Rightarrow> ChatMember" where
  "strip_user m = m\<lparr>mem_User := None\<rparr>"

lemma strip_user_fields [simp]:
  "mem_ChatID (strip_user m) = mem_ChatID m" "mem_UserID (strip_user m) = mem_UserID m"
  "mem_Role (strip_user m) = mem_Role m" "mem_JoinedAt (strip_user m) = mem_JoinedAt m"
  "mem_User (strip_user m) = None"
  by (simp_all add: strip_user_def)

text \<open>A group has a name and a direct chat has none.\<close>

definition name_rule :: "ChatType \<Rightarrow> string \<Rightarrow> bool" where
  "name_rule t n \<longleftrightarrow> (t = ''group'' \<longrightarrow> n \<noteq> []) \<and> (t = ''direct'' \<longrightarrow> n = [])"

text \<open>Initial members of a new chat, as the code builds them.\<close>

definition members_pre :: "aview \<Rightarrow> uuid \<Rightarrow> ChatMember list \<Rightarrow> bool" where
  "members_pre v c ms \<longleftrightarrow> distinct (map mem_UserID ms) \<and>
     (\<forall>m \<in> set ms. mem_ChatID m = c \<and> user_lookup v (mem_UserID m) \<noteq> None \<and>
        mem_Role m \<in> {MemberRoleOwner, MemberRoleAdmin, MemberRoleMember} \<and> mem_User m = None)"

definition chat_unused :: "aview \<Rightarrow> uuid \<Rightarrow> bool" where
  "chat_unused v c \<longleftrightarrow> (\<forall>(x, live) \<in> set (av_chats v). chat_ID x \<noteq> c)"

definition create_pre :: "aview \<Rightarrow> Chat \<Rightarrow> ChatMember list \<Rightarrow> bool" where
  "create_pre v c ms \<longleftrightarrow> chat_unused v (chat_ID c) \<and>
     chat_Type c \<in> {ChatTypeDirect, ChatTypeGroup} \<and> name_rule (chat_Type c) (chat_Name c) \<and>
     user_lookup v (chat_CreatedBy c) \<noteq> None \<and> members_pre v (chat_ID c) ms"

definition role_pre :: "MemberRole \<Rightarrow> bool" where
  "role_pre r \<longleftrightarrow> r \<in> {MemberRoleOwner, MemberRoleAdmin, MemberRoleMember}"

definition add_pre :: "aview \<Rightarrow> ChatMember \<Rightarrow> bool" where
  "add_pre v m \<longleftrightarrow> chat_lookup v (mem_ChatID m) \<noteq> None \<and> user_lookup v (mem_UserID m) \<noteq> None \<and>
     role_pre (mem_Role m) \<and> mem_User m = None"

definition update_pre :: "aview \<Rightarrow> Chat \<Rightarrow> bool" where
  "update_pre v c \<longleftrightarrow> (\<forall>x. chat_lookup v (chat_ID c) = Some x \<longrightarrow> name_rule (chat_Type x) (chat_Name c))"

definition retimed :: "aview \<Rightarrow> uuid \<Rightarrow> time \<Rightarrow> bool" where
  "retimed v c t \<longleftrightarrow> (\<forall>x. chat_lookup v c = Some x \<longrightarrow> chat_UpdatedAt x \<noteq> t)"

lemma retimed_code [code]: "retimed v c t \<longleftrightarrow> (\<forall>x \<in> set_option (chat_lookup v c). chat_UpdatedAt x \<noteq> t)"
  by (auto simp: retimed_def)

text \<open>What every reachable store satisfies: keys identify rows, members belong to a chat, and chat
  names follow the type.\<close>

definition aview_wf :: "aview \<Rightarrow> bool" where
  "aview_wf v \<longleftrightarrow> distinct (map user_ID (av_users v)) \<and>
     distinct (map (chat_ID \<circ> fst) (av_chats v)) \<and>
     distinct (map (\<lambda>m. (mem_ChatID m, mem_UserID m)) (av_members v)) \<and>
     distinct (map msg_ID (av_messages v)) \<and> distinct (map fst (av_receipts v)) \<and>
     (\<forall>m \<in> set (av_members v). \<not> chat_unused v (mem_ChatID m)) \<and>
     (\<forall>(c, live) \<in> set (av_chats v). name_rule (chat_Type c) (chat_Name c))"

locale chat_port =
  fixes R :: "'w ChatRepository"
    and getUser :: "uuid \<Rightarrow> ('w, User) io"
    and I :: "'w \<Rightarrow> bool" and qt :: "'w \<Rightarrow> bool" and view :: "'w \<Rightarrow> aview"
    and chat_ok :: "Chat \<Rightarrow> bool"
  assumes view_wf: "I w \<Longrightarrow> aview_wf (view w)"
    and sim_GetUser: "simulates I qt view True without_hash v (getUser u) (sp_GetUser u)"
    and sim_CreateWithMembers: "create_pre v ch ms \<Longrightarrow>
      simulates I qt view (chat_ok ch) id v (cr_CreateWithMembers R ch ms) (sp_CreateWithMembers ch ms)"
    and sim_GetByID: "simulates I qt view True id v (cr_GetByID R c) (sp_GetByID c)"
    and sim_Update: "update_pre v ch \<Longrightarrow> retimed v (chat_ID ch) (chat_UpdatedAt ch) \<Longrightarrow>
      simulates I qt view (chat_ok ch) id v (cr_Update R ch) (sp_Update ch)"
    and sim_Delete: "simulates I qt view True id v (cr_Delete R c) (sp_Delete c)"
    and sim_AddMember: "add_pre v m \<Longrightarrow>
      simulates I qt view True id v (cr_AddMember R m) (sp_AddMember m)"
    and sim_RemoveMember: "simulates I qt view True id v (cr_RemoveMember R c u) (sp_RemoveMember c u)"
    and sim_GetMember: "simulates I qt view True strip_user v (cr_GetMember R c u) (sp_GetMember c u)"
    and sim_GetMembers:
      "simulates I qt view True (map strip_user) v (cr_GetMembers R c) (sp_GetMembers c)"
    and sim_UpdateMemberRole: "role_pre r \<Longrightarrow> role_of v c u \<noteq> Some r \<Longrightarrow>
      simulates I qt view True id v (cr_UpdateMemberRole R c u r) (sp_UpdateMemberRole c u r)"
    and sim_GetUserChats: "simulates I qt view True id v (cr_GetUserChats R u) (sp_GetUserChats u)"
    and sim_GetDirectChat:
      "simulates I qt view True id v (cr_GetDirectChat R a b) (sp_GetDirectChat a b)"
    and sim_IsMember: "simulates I qt view True id v (cr_IsMember R c u) (sp_IsMember c u)"

locale chat_port_idempotent = chat_port +
  assumes sim_UpdateMemberRole_any: "role_pre r \<Longrightarrow>
      simulates I qt view True id v (cr_UpdateMemberRole R c u r) (sp_UpdateMemberRole c u r)"
    and sim_Update_any: "update_pre v ch \<Longrightarrow>
      simulates I qt view (chat_ok ch) id v (cr_Update R ch) (sp_Update ch)"

end
