(* ===== verification/StmtSim.thy ===== *)
theory StmtSim
  imports Storage
begin

text \<open>
  One SQL statement against the contract: a repository method issues one statement and then
  maps its result or its error, so its simulation follows from what the statement does to the
  tables.  \<open>W\<close> is the integrity of the tables that the back end maintains, and \<open>t0\<close> a moment the
  clock has passed.
\<close>

definition table_inv :: "(db \<Rightarrow> bool) \<Rightarrow> time \<Rightarrow> world \<Rightarrow> bool" where
  "table_inv W t0 w \<longleftrightarrow> W (w_db w) \<and> t0 \<le> env_now (w_env w)"

lemma table_inv_simps [simp]:
  "table_inv W t0 w \<Longrightarrow> table_inv W t0 (w_step w)"
  "table_inv W t0 w \<Longrightarrow> table_inv W t0 ((w_step w)\<lparr>w_db := d\<rparr>) = W d"
  "table_inv W t0 (w\<lparr>w_cache := c\<rparr>) = table_inv W t0 w"
  using env_now_step [of w] by (auto simp: table_inv_def)

text \<open>\<open>g\<close> reads the abstract state off the tables.\<close>

lemma branch_stmt_sim:
  assumes pk: "\<And>a w. snd (k a w) = w" and ph: "\<And>e w. snd (h e w) = w"
    and hf: "\<And>s. h (Db (DriverErr s)) = throw (Db (DriverErr s))"
    and ok_run: "\<And>d t a d' w. W d \<Longrightarrow> g d = v \<Longrightarrow> f t d = Inr (a, d') \<Longrightarrow>
        W d' \<and> map_outcome id obs (fst (k a w)) = fst (aop v) \<and> g d' = snd (aop v)"
    and err_run: "\<And>d t e w. W d \<Longrightarrow> g d = v \<Longrightarrow> f t d = Inl e \<Longrightarrow>
        map_outcome id obs (fst (h (Db e) w)) = fst (aop v) \<and> snd (aop v) = v \<or>
        \<not> ok \<and> (\<exists>x. fst (h (Db e) w) = Err (Db x))"
  shows "simulates (table_inv W t0) quiet (\<lambda>w. g (w_db w)) ok obs v (branch (db_stmt f) k h) aop"
proof (rule simulatesI)
  fix w assume w: "table_inv W t0 w" "g (w_db w) = v"
  then have W: "W (w_db w)" "g (w_db w) = v"
    by (simp_all add: table_inv_def)
  show "sim_at (table_inv W t0) quiet (\<lambda>w. g (w_db w)) ok obs v (branch (db_stmt f) k h) aop w"
  proof (cases rule: db_stmt_cases [of w f])
    case (fault s)
    with w show ?thesis
      by (auto simp: sim_at_def branch_def hf throw_def)
  next
    case (error e t)
    from err_run [OF W error(1), of "w_step w"] error(2) w show ?thesis
      by (auto simp: sim_at_def branch_def ph)
  next
    case (ok a d t)
    from ok_run [OF W ok(1), of "(w_step w)\<lparr>w_db := d\<rparr>"] ok(2) w(1) show ?thesis
      by (auto simp: sim_at_def branch_def pk)
  qed
qed

lemma sim_branch_stmt:
  assumes pk: "\<And>a w. snd (k a w) = w" and ph: "\<And>e w. snd (h e w) = w"
    and hf: "\<And>s. h (Db (DriverErr s)) = throw (Db (DriverErr s))"
    and ok_run: "\<And>d t a d' w. W d \<Longrightarrow> db_view d = v \<Longrightarrow> f t d = Inr (a, d') \<Longrightarrow>
        W d' \<and> map_outcome id obs (fst (k a w)) = fst (aop v) \<and> db_view d' = snd (aop v)"
    and err_run: "\<And>d t e w. W d \<Longrightarrow> db_view d = v \<Longrightarrow> f t d = Inl e \<Longrightarrow>
        map_outcome id obs (fst (h (Db e) w)) = fst (aop v) \<and> snd (aop v) = v \<or>
        \<not> ok \<and> (\<exists>x. fst (h (Db e) w) = Err (Db x))"
  shows "simulates (table_inv W t0) quiet view_of ok obs v (branch (db_stmt f) k h) aop"
  unfolding view_of_def [abs_def] by (rule branch_stmt_sim [where g = db_view]) (fact assms)+

lemma sim_call_stmt:
  assumes "\<And>a w. snd (k a w) = w"
    and "\<And>d t a d' w. W d \<Longrightarrow> db_view d = v \<Longrightarrow> f t d = Inr (a, d') \<Longrightarrow>
        W d' \<and> map_outcome id obs (fst (k a w)) = fst (aop v) \<and> db_view d' = snd (aop v)"
    and "\<And>d t e. W d \<Longrightarrow> db_view d = v \<Longrightarrow> f t d = Inl e \<Longrightarrow> \<not> ok"
  shows "simulates (table_inv W t0) quiet view_of ok obs v (call (db_stmt f) k) aop"
  unfolding call_def
proof (rule sim_branch_stmt)
  fix d t e w
  assume "W d" "db_view d = v" "f t d = Inl e"
  then have "\<not> ok" by (rule assms(3))
  then show "map_outcome id obs (fst (throw (Db e) w)) = fst (aop v) \<and> snd (aop v) = v \<or>
      \<not> ok \<and> (\<exists>x. fst (throw (Db e) w) = Err (Db x))"
    by (simp add: throw_def)
next
  fix d t a d' w
  assume "W d" "db_view d = v" "f t d = Inr (a, d')"
  then show "W d' \<and> map_outcome id obs (fst (k a w)) = fst (aop v) \<and> db_view d' = snd (aop v)"
    by (rule assms(2))
qed (simp_all add: throw_def assms(1))

text \<open>Queries leave the tables alone.\<close>

lemma sim_queryRow:
  assumes row: "\<And>d r rs. W d \<Longrightarrow> db_view d = v \<Longrightarrow> q d = r # rs \<Longrightarrow>
      \<exists>a. scan r = Inr a \<and> aop v = (Ok (obs a), v)"
    and none: "\<And>d. W d \<Longrightarrow> db_view d = v \<Longrightarrow> q d = [] \<Longrightarrow> aop v = (Err (Dom e0), v)"
  shows "simulates (table_inv W t0) quiet view_of True obs v
     (branch (db_queryRow q scan) ret (\<lambda>err. if is_ErrNoRows err then throw (Dom e0) else throw err)) aop"
  unfolding db_queryRow_def
proof (rule sim_branch_stmt)
  fix d t a d' w
  assume d: "W d" "db_view d = v"
    and f: "(case q d of [] \<Rightarrow> Inl ErrNoRows
      | r # rs \<Rightarrow> (case scan r of Inl e \<Rightarrow> Inl e | Inr a \<Rightarrow> Inr (a, d))) = Inr (a, d')"
  then obtain r rs where q: "q d = r # rs" by (auto split: list.splits)
  from row [OF d q] f q d show "W d' \<and> map_outcome id obs (fst (ret a w)) = fst (aop v) \<and>
      db_view d' = snd (aop v)"
    by (auto simp: ret_def)
next
  fix d t e w
  assume d: "W d" "db_view d = v"
    and f: "(case q d of [] \<Rightarrow> Inl ErrNoRows
      | r # rs \<Rightarrow> (case scan r of Inl e \<Rightarrow> Inl e | Inr a \<Rightarrow> Inr (a, d))) = Inl e"
  from d row f have "q d = []" by (fastforce split: list.splits sum.splits)
  with none [OF d this] f show
    "map_outcome id obs (fst ((if is_ErrNoRows (Db e) then throw (Dom e0) else throw (Db e)) w)) =
       fst (aop v) \<and> snd (aop v) = v \<or>
     \<not> True \<and> (\<exists>x. fst ((if is_ErrNoRows (Db e) then throw (Dom e0) else throw (Db e)) w) = Err (Db x))"
    by (simp add: throw_def)
qed (simp_all add: ret_def throw_def)

lemma call_ret_right: "call m ret = m"
  by (rule ext) (auto simp: call_def branch_def ret_def throw_def split: outcome.split prod.split
      intro: prod_eqI)

lemma sim_query:
  assumes "\<And>d r. W d \<Longrightarrow> db_view d = v \<Longrightarrow> r \<in> set (q d) \<Longrightarrow> scan r = Inr (g r)"
    and "\<And>d. W d \<Longrightarrow> db_view d = v \<Longrightarrow> aop v = (Ok (obs (map g (q d))), v)"
  shows "simulates (table_inv W t0) quiet view_of True obs v (db_query q scan) aop"
proof -
  have "simulates (table_inv W t0) quiet view_of True obs v (call (db_query q scan) ret) aop"
    unfolding db_query_def
    by (rule sim_call_stmt)
      (use assms in \<open>force simp: ret_def scan_all_Inr [OF assms(1)] split: sum.splits\<close>)+
  then show ?thesis by (simp add: call_ret_right)
qed

text \<open>A statement that uses \<open>NOW()\<close>.\<close>

lemma sim_now_stmt:
  assumes pk: "\<And>a w. snd (k a w) = w"
    and ok_run: "\<And>d t a d' w. W d \<Longrightarrow> db_view d = v \<Longrightarrow> t0 \<le> t \<Longrightarrow> f t d = Inr (a, d') \<Longrightarrow>
        W d' \<and> map_outcome id obs (fst (k a w)) = fst (aop t v) \<and> db_view d' = snd (aop t v)"
    and err_run: "\<And>d t e. W d \<Longrightarrow> db_view d = v \<Longrightarrow> f t d = Inl e \<Longrightarrow> \<not> ok"
  shows "sim_now (table_inv W) t0 quiet view_of ok obs v (call (db_stmt f) k) aop"
proof (rule sim_nowI)
  fix w assume w: "table_inv W t0 w" "view_of w = v"
  then have W: "W (w_db w)" "db_view (w_db w) = v" and t0: "t0 \<le> env_now (w_env w)"
    by (simp_all add: table_inv_def view_of_def)
  let ?goal = "\<lambda>t. sim_at (table_inv W t0) quiet view_of ok obs v (call (db_stmt f) k) (aop t) w"
  show "\<exists>t \<ge> t0. ?goal t"
  proof (cases rule: db_stmt_cases [of w f])
    case (fault s)
    with w have "?goal t0" by (auto simp: sim_at_def call_def branch_def throw_def)
    then show ?thesis by blast
  next
    case (error e t)
    from err_run [OF W error(1)] error(2) w have "?goal t0"
      by (auto simp: sim_at_def call_def branch_def throw_def)
    then show ?thesis by blast
  next
    case (ok a d t)
    with t0 have t: "t0 \<le> t" by simp
    from ok_run [OF W t ok(1), of "(w_step w)\<lparr>w_db := d\<rparr>"] ok(2) w(1) have "?goal t"
      by (auto simp: sim_at_def call_def branch_def pk)
    with t show ?thesis by blast
  qed
qed

section \<open>Transactions\<close>

text \<open>\<open>tx_run ok m w Q\<close>: the body \<open>m\<close> of a transaction, started in \<open>w\<close>, either succeeds with
  tables that satisfy \<open>Q\<close>, or reports a database error, which needs a failing statement or data
  the store refuses.  The clock does not go back.\<close>

definition tx_run :: "bool \<Rightarrow> (world, unit) io \<Rightarrow> world \<Rightarrow> (db \<Rightarrow> bool) \<Rightarrow> bool" where
  "tx_run ok m w Q \<longleftrightarrow> (quiet w \<longrightarrow> quiet (snd (m w))) \<and>
     env_now (w_env w) \<le> env_now (w_env (snd (m w))) \<and>
     ((\<exists>x. fst (m w) = Err (Db x)) \<and> (\<not> quiet w \<or> \<not> ok) \<or>
      fst (m w) = Ok () \<and> Q (w_db (snd (m w))))"

lemma tx_run_exec:
  assumes "\<And>t n d. f t (w_db w) = Inr (n, d) \<Longrightarrow> Q d" "\<And>t e. f t (w_db w) = Inl e \<Longrightarrow> \<not> ok"
  shows "tx_run ok (call (db_exec f) (\<lambda>_. ret ())) w Q"
  unfolding db_exec_def
proof (cases rule: db_stmt_cases [of w f])
  case (error e t)
  with assms(2) env_now_step [of w] show "tx_run ok (call (db_stmt f) (\<lambda>_. ret ())) w Q"
    by (auto simp: tx_run_def call_def branch_def throw_def)
next
  case (ok n d t)
  with assms(1) env_now_step [of w] show "tx_run ok (call (db_stmt f) (\<lambda>_. ret ())) w Q"
    by (auto simp: tx_run_def call_def branch_def ret_def)
qed (use env_now_step [of w] in \<open>auto simp: tx_run_def call_def branch_def throw_def\<close>)

lemma tx_run_call:
  assumes "tx_run ok m w Q" "\<And>w'. Q (w_db w') \<Longrightarrow> tx_run ok k w' R"
  shows "tx_run ok (call m (\<lambda>_. k)) w R"
proof (cases "fst (m w)")
  case (Ok a)
  with assms(1) have m: "Q (w_db (snd (m w)))" "quiet w \<Longrightarrow> quiet (snd (m w))"
    "env_now (w_env w) \<le> env_now (w_env (snd (m w)))"
    by (auto simp: tx_run_def)
  from assms(2) [OF m(1)] m Ok show ?thesis
    by (auto simp: tx_run_def call_def branch_def intro: le_trans)
qed (use assms(1) in \<open>auto simp: tx_run_def call_def branch_def throw_def\<close>)

lemma tx_run_for_each:
  assumes "\<And>x xs w. Q (x # xs) (w_db w) \<Longrightarrow> tx_run ok (f x) w (Q xs)" "Q xs (w_db w)"
  shows "tx_run ok (for_each f xs) w (Q [])"
  using assms(2)
proof (induction xs arbitrary: w)
  case (Cons x xs)
  from assms(1) [OF Cons.prems] Cons.IH show ?case
    by (simp add: tx_run_call)
qed (simp add: tx_run_def ret_def)

lemma sim_in_tx:
  assumes "\<And>w. W (w_db w) \<Longrightarrow> db_view (w_db w) = v \<Longrightarrow>
      tx_run ok body w (\<lambda>d. W d \<and> aop v = (Ok (), db_view d))"
  shows "simulates (table_inv W t0) quiet view_of ok id v (in_tx body) aop"
proof (rule simulatesI)
  fix w assume w: "table_inv W t0 w" "view_of w = v"
  let ?Q = "\<lambda>d. W d \<and> aop v = (Ok (), db_view d)"
  have tx: "tx_run ok (db_stmt (\<lambda>_ d. Inr ((), d))) w' P" if "P (w_db w')" for w' P
    using that env_now_step [of w']
    by (cases rule: db_stmt_cases [of w' "\<lambda>_ d. Inr ((), d)"]) (auto simp: tx_run_def)
  have "tx_run ok (call tx_begin (\<lambda>_. call body (\<lambda>_. tx_commit))) w ?Q"
    unfolding tx_begin_def tx_commit_def
  proof (rule tx_run_call)
    show "tx_run ok (db_stmt (\<lambda>_ d. Inr ((), d))) w (\<lambda>d. W d \<and> db_view d = v)"
      using w by (intro tx) (simp add: table_inv_def view_of_def)
    fix w' :: world assume "W (w_db w') \<and> db_view (w_db w') = v"
    with assms have "tx_run ok body w' ?Q" by blast
    then show "tx_run ok (call body (\<lambda>_. db_stmt (\<lambda>_ d. Inr ((), d)))) w' ?Q"
      by (rule tx_run_call) (rule tx)
  qed
  then have "tx_run ok (in_tx body) w ?Q \<and> (fst (in_tx body w) = Ok () \<or> w_db (snd (in_tx body w)) = w_db w)"
    by (auto simp: tx_run_def in_tx_def Let_def split: prod.split outcome.split)
  with w show "sim_at (table_inv W t0) quiet view_of ok id v (in_tx body) aop w"
    by (auto simp: tx_run_def sim_at_def table_inv_def view_of_def)
qed

end
