(* ===== verification/TableSim.thy ===== *)
theory TableSim
  imports PgChat ChatPort StmtSim
begin

text \<open>
  The chat repository over SQL tables, for what the two storage back ends have in common: the
  statements they write in the same words, the rows that an insertion or an update leaves, and
  \<open>chat_tables\<close>, the integrity that a back end maintains and the checks of its insertions.
\<close>

section \<open>Rows and the abstract store\<close>

lemma db_view_members: "db_view (d\<lparr>tb_members := ms\<rparr>) = (db_view d)\<lparr>av_members := map member_of_row ms\<rparr>"
  by (simp add: db_view_def)

lemma db_view_chats:
  "db_view (d\<lparr>tb_chats := cs\<rparr>) =
     (db_view d)\<lparr>av_chats := map chat_state cs\<rparr>"
  by (simp add: db_view_def)

lemma pg_scanChat_eq: "pg_scanChat r = Inr (chat_of_row r)"
  by (simp add: pg_scanChat_def chat_of_row_def null_text_def)

lemma null_text_nullable [simp]: "null_text (pg_nullableStr s) = s"
  by (simp add: pg_nullableStr_def)

lemma nullable_not_empty [simp]: "pg_nullableStr s \<noteq> Some []"
  by (simp add: pg_nullableStr_def)

section \<open>Reads of one table\<close>

lemma chat_GetByID_sim:
  "simulates (table_inv W t0) quiet view_of True id v (pg_chat_GetByID c) (sp_GetByID c)"
  unfolding pg_chat_GetByID_def
  by (rule sim_queryRow)
    (auto simp: pg_scanChat_eq sp_GetByID_def chat_lookup_view find_filter_hd split: list.splits)

lemma chat_IsMember_sim:
  "simulates (table_inv W t0) quiet view_of True id v (pg_chat_IsMember c u) (sp_IsMember c u)"
  unfolding pg_chat_IsMember_def db_queryRow_def
  by (rule sim_call_stmt) (auto simp: ret_def sp_IsMember_def is_member_view)

lemma chat_GetDirectChat_sim:
  "simulates (table_inv W t0) quiet view_of True id v (pg_chat_GetDirectChat a b) (sp_GetDirectChat a b)"
proof -
  have "direct_lookup (db_view d) a b = map_option chat_of_row (find (\<lambda>c. cc_type c = ''direct'' \<and>
      cc_deleted_at c = None \<and> member_exists d (cc_id c) a \<and> member_exists d (cc_id c) b)
      (tb_chats d))" for d
    unfolding direct_lookup_def is_member_view
    by (auto simp: db_view_def find_map option.map_comp comp_def ChatTypeDirect_def case_prod_beta
        intro!: option.map_cong dest: find_Some_set)
  then have lookup: "direct_lookup (db_view d) a b = (case filter (\<lambda>c. cc_type c = ''direct'' \<and>
      cc_deleted_at c = None \<and> member_exists d (cc_id c) a \<and> member_exists d (cc_id c) b)
      (tb_chats d) of [] \<Rightarrow> None | r # _ \<Rightarrow> Some (chat_of_row r))" for d
    by (simp add: find_filter_hd split: list.split)
  show ?thesis
    unfolding pg_chat_GetDirectChat_def
    by (rule sim_queryRow)
      (auto simp: pg_scanChat_eq sp_GetDirectChat_def lookup split: list.splits)
qed

text \<open>Every membership row joins exactly one user row, which is live or not.\<close>

lemma active_users:
  assumes "db_wf d" "user_exists d u"
  shows "filter (\<lambda>r. uc_id r = u \<and> uc_deleted_at r = None) (tb_users d) =
     (case find (\<lambda>r. uc_id r = u \<and> uc_deleted_at r = None) (tb_users d) of
        None \<Rightarrow> [] | Some r \<Rightarrow> [r])"
proof (cases "find (\<lambda>r. uc_id r = u \<and> uc_deleted_at r = None) (tb_users d)")
  case None
  then have "filter (\<lambda>r. uc_id r = u \<and> uc_deleted_at r = None) (tb_users d) = []"
    by (simp add: find_None_iff_filter)
  with None show ?thesis by simp
next
  case (Some r)
  then have r: "r \<in> set (tb_users d)" "uc_id r = u" "uc_deleted_at r = None"
    by (auto dest: find_Some_set)
  have "filter (\<lambda>x. uc_id x = uc_id r) (tb_users d) = [r]"
    using assms(1) r(1) by (intro filter_distinct_key) (auto simp: db_wf_def)
  then have "filter (\<lambda>x. uc_deleted_at x = None) (filter (\<lambda>x. uc_id x = u) (tb_users d)) = [r]"
    using r by simp
  then show ?thesis using Some by (simp add: conj_commute)
qed

definition active_user :: "db \<Rightarrow> uuid \<Rightarrow> user_row option" where
  "active_user d u = find (\<lambda>r. uc_id r = u \<and> uc_deleted_at r = None) (tb_users d)"

lemma active_user_view: "user_lookup (db_view d) u = map_option user_of_row (active_user d u)"
  by (simp add: user_lookup_view active_user_def)

lemma members_join_users_eq:
  assumes "db_wf d"
  shows "members_join_users d = map (\<lambda>cm. (cm, the (active_user d (mc_user_id cm))))
     (filter (\<lambda>cm. active_user d (mc_user_id cm) \<noteq> None) (tb_members d))"
proof -
  have "concat (map (\<lambda>cm. map (Pair cm)
          (filter (\<lambda>r. uc_id r = mc_user_id cm \<and> uc_deleted_at r = None) (tb_users d))) ms) =
        map (\<lambda>cm. (cm, the (active_user d (mc_user_id cm))))
          (filter (\<lambda>cm. active_user d (mc_user_id cm) \<noteq> None) ms)"
    if "set ms \<subseteq> set (tb_members d)" for ms
    using that
  proof (induction ms)
    case (Cons m ms)
    then have "user_exists d (mc_user_id m)"
      using assms by (auto simp: db_wf_def)
    from active_users [OF assms this] Cons show ?case
      by (auto simp: active_user_def split: option.split)
  qed simp
  moreover have "members_join_users d = concat (map (\<lambda>cm. map (Pair cm)
      (filter (\<lambda>r. uc_id r = mc_user_id cm \<and> uc_deleted_at r = None) (tb_users d))) (tb_members d))"
  proof -
    have "concat (map (\<lambda>u. if P u then [(cm, u)] else []) us) = map (Pair cm) (filter P us)"
      for P and cm :: member_row and us :: "user_row list"
      by (induction us) auto
    then show ?thesis by (simp add: members_join_users_def)
  qed
  ultimately show ?thesis by simp
qed

lemma active_user_row:
  "active_user d u = Some r \<Longrightarrow> r \<in> set (tb_users d) \<and> uc_id r = u \<and> uc_deleted_at r = None"
  by (auto simp: active_user_def dest: find_Some_set)

lemma sort_key_map: "sort_key f (map g xs) = map g (sort_key (f \<circ> g) xs)"
proof -
  have ins: "insort_key f (g x) (map g ys) = map g (insort_key (f \<circ> g) x ys)" for x ys
    by (induction ys) auto
  show ?thesis by (induction xs) (auto simp: ins comp_def)
qed

lemma roster_rows:
  assumes "db_wf d"
  shows "roster (db_view d) c = map (member_of_row \<circ> fst)
     (sort_key (\<lambda>p. (mc_joined_at (fst p), mc_user_id (fst p)))
        (filter (\<lambda>p. mc_chat_id (fst p) = c) (members_join_users d)))"
proof -
  have members: "av_members (db_view d) = map member_of_row (tb_members d)"
    by (simp add: db_view_def)
  have "filter (\<lambda>m. mem_ChatID m = c \<and> user_lookup (db_view d) (mem_UserID m) \<noteq> None)
      (av_members (db_view d)) = map member_of_row
        (filter (\<lambda>m. mc_chat_id m = c \<and> active_user d (mc_user_id m) \<noteq> None) (tb_members d))"
    by (simp add: members filter_map comp_def active_user_view)
  then show ?thesis
    unfolding roster_def
    by (simp add: members_join_users_eq [OF assms] filter_map sort_key_map comp_def
        conj_commute)
qed

lemma chat_exists_map:
  "(\<And>r. r \<in> set (tb_chats d) \<Longrightarrow> cc_id (f r) = cc_id r) \<Longrightarrow>
     chat_exists (d\<lparr>tb_chats := map f (tb_chats d)\<rparr>) c = chat_exists d c"
  by (auto simp: chat_exists_def)

lemma length_filter_eq_0 [simp]: "length (filter P xs) = 0 \<longleftrightarrow> (\<forall>x \<in> set xs. \<not> P x)"
  by (simp add: filter_empty_conv)

section \<open>Rows written\<close>

definition set_chat_cols :: "Chat \<Rightarrow> chat_row \<Rightarrow> chat_row" where
  "set_chat_cols c r = r\<lparr>cc_name := pg_nullableStr (chat_Name c),
     cc_avatar_url := pg_nullableStr (chat_AvatarURL c),
     cc_description := pg_nullableStr (chat_Description c), cc_updated_at := chat_UpdatedAt c\<rparr>"

lemma set_chat_cols_row:
  "chat_of_row (set_chat_cols c r) = (chat_of_row r)\<lparr>chat_Name := chat_Name c,
     chat_AvatarURL := chat_AvatarURL c, chat_Description := chat_Description c,
     chat_UpdatedAt := chat_UpdatedAt c\<rparr>"
  by (simp add: set_chat_cols_def chat_of_row_def)

lemma set_chat_cols_keep [simp]:
  "cc_id (set_chat_cols c r) = cc_id r" "cc_deleted_at (set_chat_cols c r) = cc_deleted_at r"
  "cc_name (set_chat_cols c r) \<noteq> Some []"
  by (simp_all add: set_chat_cols_def)

lemma first_violation_append_None:
  "first_violation (xs @ ys) = None \<longleftrightarrow> first_violation xs = None \<and> first_violation ys = None"
  by (auto simp: first_violation_None)

lemma first_violation_concat_None:
  "first_violation (concat (map f xs)) = None \<longleftrightarrow> (\<forall>x \<in> set xs. first_violation (f x) = None)"
  by (induction xs) (auto simp: first_violation_append_None)

lemma chat_unused_view: "chat_unused (db_view d) c \<longleftrightarrow> \<not> chat_exists d c"
  by (simp add: chat_unused_def db_view_def chat_exists_def case_prod_beta)

lemma name_rule_row: "name_rule (chat_Type c) (chat_Name c) \<Longrightarrow> chat_Type c = ''group'' \<Longrightarrow> chat_Name c \<noteq> []"
  "name_rule (chat_Type c) (chat_Name c) \<Longrightarrow> chat_Type c = ''direct'' \<Longrightarrow> chat_Name c = []"
  by (auto simp: name_rule_def)

definition new_chat_row :: "Chat \<Rightarrow> chat_row" where
  "new_chat_row c = \<lparr>cc_id = chat_ID c, cc_type = chat_Type c,
     cc_name = pg_nullableStr (chat_Name c), cc_avatar_url = pg_nullableStr (chat_AvatarURL c),
     cc_description = pg_nullableStr (chat_Description c), cc_created_by = chat_CreatedBy c,
     cc_created_at = chat_CreatedAt c, cc_updated_at = chat_UpdatedAt c, cc_deleted_at = None\<rparr>"

definition new_member_row :: "ChatMember \<Rightarrow> member_row" where
  "new_member_row m = \<lparr>mc_chat_id = mem_ChatID m, mc_user_id = mem_UserID m,
     mc_role = mem_Role m, mc_joined_at = mem_JoinedAt m\<rparr>"

lemma new_chat_row_simps [simp]:
  "cc_id (new_chat_row c) = chat_ID c" "cc_created_by (new_chat_row c) = chat_CreatedBy c"
  "cc_deleted_at (new_chat_row c) = None" "chat_of_row (new_chat_row c) = c"
  "cc_name (new_chat_row c) \<noteq> Some []"
  by (simp_all add: new_chat_row_def chat_of_row_def)

lemma new_member_row_simps [simp]:
  "mc_chat_id (new_member_row m) = mem_ChatID m" "mc_user_id (new_member_row m) = mem_UserID m"
  "mc_role (new_member_row m) = mem_Role m"
  "mem_User m = None \<Longrightarrow> member_of_row (new_member_row m) = m"
  by (simp_all add: new_member_row_def member_of_row_def)


section \<open>The integrity of a back end\<close>

text \<open>\<open>uok\<close> and \<open>rok\<close> hold of every user and chat row, \<open>scan\<close> reads a member with its user, and the two
  insertions check a new row.\<close>

locale chat_tables =
  fixes W :: "db \<Rightarrow> bool" and uok :: "user_row \<Rightarrow> bool" and rok :: "chat_row \<Rightarrow> bool"
    and scan :: "member_row \<times> user_row \<Rightarrow> db_error + ChatMember" and chat_ok :: "Chat \<Rightarrow> bool"
    and insert_chat :: "chat_row \<Rightarrow> db \<Rightarrow> db_error + (nat \<times> db)"
    and insert_member :: "member_row \<Rightarrow> db \<Rightarrow> db_error + (nat \<times> db)"
  assumes W_iff: "W d \<longleftrightarrow> db_wf d \<and> (\<forall>r \<in> set (tb_users d). uok r) \<and> (\<forall>r \<in> set (tb_chats d). rok r)"
    and scan_member: "uok a \<Longrightarrow> \<exists>m'. scan (m, a) = Inr m' \<and> strip_user m' = member_of_row m"
    and rok_dates: "rok r \<Longrightarrow> rok (r\<lparr>cc_deleted_at := x\<rparr>) \<and> rok (r\<lparr>cc_updated_at := t\<rparr>)"
    and rok_name: "rok r \<Longrightarrow> name_rule (cc_type r) (null_text (cc_name r))"
    and chat_inserted: "insert_chat (new_chat_row c) d = Inr (n, d') \<Longrightarrow>
      d' = d\<lparr>tb_chats := tb_chats d @ [new_chat_row c]\<rparr> \<and> rok (new_chat_row c)"
    and chat_refused: "insert_chat (new_chat_row c) d = Inl e \<Longrightarrow> \<not> chat_exists d (chat_ID c) \<Longrightarrow>
      user_exists d (chat_CreatedBy c) \<Longrightarrow> chat_Type c \<in> {ChatTypeDirect, ChatTypeGroup} \<Longrightarrow>
      name_rule (chat_Type c) (chat_Name c) \<Longrightarrow> \<not> chat_ok c"
    and member_inserted: "chat_exists d (mc_chat_id m) \<Longrightarrow> user_exists d (mc_user_id m) \<Longrightarrow>
      \<not> member_exists d (mc_chat_id m) (mc_user_id m) \<Longrightarrow> role_pre (mc_role m) \<Longrightarrow>
      insert_member m d = Inr (1, d\<lparr>tb_members := tb_members d @ [m]\<rparr>)"
begin

lemma W_db: "W d \<Longrightarrow> db_wf d"
  by (simp add: W_iff)

lemma scan_ok:
  assumes "W d" "active_user d u = Some r"
  shows "\<exists>m'. scan (m, r) = Inr m' \<and> strip_user m' = member_of_row m"
  using assms active_user_row [of d u r] by (intro scan_member) (simp add: W_iff)

lemma GetMember_sim:
  "simulates (table_inv W t0) quiet view_of True strip_user v
     (branch (db_queryRow (\<lambda>d. [p \<leftarrow> members_join_users d.
          mc_chat_id (fst p) = c \<and> mc_user_id (fst p) = u]) scan) ret
        (\<lambda>err. if is_ErrNoRows err then throw (Dom ErrNotChatMember) else throw err)) (sp_GetMember c u)"
proof (rule sim_queryRow)
  fix d r rs
  assume d: "W d" "db_view d = v"
    and q: "filter (\<lambda>p. mc_chat_id (fst p) = c \<and> mc_user_id (fst p) = u) (members_join_users d) = r # rs"
  then obtain m where m: "find (\<lambda>x. mc_chat_id x = c \<and> mc_user_id x = u \<and>
        active_user d (mc_user_id x) \<noteq> None) (tb_members d) = Some m"
      and r: "r = (m, the (active_user d (mc_user_id m)))"
    by (auto simp: members_join_users_eq [OF W_db] filter_map comp_def find_filter_hd conj_ac
        split: list.splits)
  then have mp: "m \<in> set (tb_members d)" "mc_chat_id m = c" "mc_user_id m = u"
      "active_user d u \<noteq> None"
    by (auto dest: find_Some_set)
  then obtain a where a: "active_user d u = Some a" by auto
  have "find (\<lambda>x. mc_chat_id x = c \<and> mc_user_id x = u) (tb_members d) = Some m"
  proof -
    have "filter (\<lambda>x. (mc_chat_id x, mc_user_id x) = (mc_chat_id m, mc_user_id m)) (tb_members d) = [m]"
      using W_db [OF d(1)] mp(1) by (intro filter_distinct_key) (auto simp: db_wf_def)
    then show ?thesis using mp by (simp add: find_filter_hd)
  qed
  with scan_ok [OF d(1) a, of m] mp a r d(2) active_user_view [of d u]
  show "\<exists>a. scan r = Inr a \<and> sp_GetMember c u v = (Ok (strip_user a), v)"
    by (auto simp: sp_GetMember_def member_lookup_view)
next
  fix d
  assume d: "W d" "db_view d = v"
    and q: "filter (\<lambda>p. mc_chat_id (fst p) = c \<and> mc_user_id (fst p) = u) (members_join_users d) = []"
  then have no: "\<And>m. m \<in> set (tb_members d) \<Longrightarrow> mc_chat_id m = c \<Longrightarrow> mc_user_id m = u \<Longrightarrow>
      active_user d u = None"
    by (auto simp: members_join_users_eq [OF W_db] filter_map comp_def filter_empty_conv)
  show "sp_GetMember c u v = (Err (Dom ErrNotChatMember), v)"
  proof (cases "find (\<lambda>x. mc_chat_id x = c \<and> mc_user_id x = u) (tb_members d)")
    case None
    with d(2) show ?thesis by (auto simp: sp_GetMember_def member_lookup_view)
  next
    case (Some m)
    then have "active_user d u = None" using no by (auto dest: find_Some_set)
    with d(2) Some show ?thesis
      by (auto simp: sp_GetMember_def member_lookup_view active_user_view)
  qed
qed

lemma GetMembers_sim:
  "simulates (table_inv W t0) quiet view_of True (map strip_user) v
     (db_query (\<lambda>d. sort_key (\<lambda>p. (mc_joined_at (fst p), mc_user_id (fst p)))
        [p \<leftarrow> members_join_users d. mc_chat_id (fst p) = c]) scan) (sp_GetMembers c)"
proof (rule sim_query)
  let ?scan = "\<lambda>p. case scan p of Inr m \<Rightarrow> m | Inl _ \<Rightarrow> undefined"
  fix d r
  assume d: "W d"
    and r: "r \<in> set (sort_key (\<lambda>p. (mc_joined_at (fst p), mc_user_id (fst p)))
          (filter (\<lambda>p. mc_chat_id (fst p) = c) (members_join_users d)))"
  then obtain m a where "r = (m, a)" "active_user d (mc_user_id m) = Some a"
    by (auto simp: members_join_users_eq [OF W_db])
  with scan_ok [OF d this(2), of m] show "scan r = Inr (?scan r)"
    by auto
next
  let ?scan = "\<lambda>p. case scan p of Inr m \<Rightarrow> m | Inl _ \<Rightarrow> undefined"
  fix d assume d: "W d" "db_view d = v"
  have "strip_user (?scan p) = member_of_row (fst p)" if "p \<in> set (members_join_users d)" for p
  proof -
    from that obtain m a where "p = (m, a)" "active_user d (mc_user_id m) = Some a"
      by (auto simp: members_join_users_eq [OF W_db [OF d(1)]])
    with scan_ok [OF d(1) this(2), of m] show ?thesis by auto
  qed
  then show "sp_GetMembers c v = (Ok (map strip_user (map ?scan
      (sort_key (\<lambda>p. (mc_joined_at (fst p), mc_user_id (fst p)))
          (filter (\<lambda>p. mc_chat_id (fst p) = c) (members_join_users d))))), v)"
    unfolding sp_GetMembers_def roster_rows [OF W_db [OF d(1)], unfolded d(2)]
    by (auto simp: comp_def)
qed

lemma W_members:
  assumes "W d" "distinct (map (\<lambda>r. (mc_chat_id r, mc_user_id r)) ms)"
    "\<And>r. r \<in> set ms \<Longrightarrow> chat_exists d (mc_chat_id r) \<and> user_exists d (mc_user_id r)"
  shows "W (d\<lparr>tb_members := ms\<rparr>)"
  using assms by (simp add: W_iff db_wf_def)

lemma member_exists_fk:
  "W d \<Longrightarrow> r \<in> set (tb_members d) \<Longrightarrow> chat_exists d (mc_chat_id r) \<and> user_exists d (mc_user_id r)"
  by (simp add: W_iff db_wf_def)

lemma W_chats:
  assumes "W d" "\<And>r. r \<in> set (tb_chats d) \<Longrightarrow> cc_id (f r) = cc_id r"
    "\<And>r. r \<in> set (tb_chats d) \<Longrightarrow> rok (f r)"
  shows "W (d\<lparr>tb_chats := map f (tb_chats d)\<rparr>)"
  using assms by (simp add: W_iff db_wf_def chat_exists_map comp_def cong: map_cong)

lemma chat_deleted:
  assumes d: "W d" "db_view d = v"
    and g: "\<And>r. g r \<in> {r\<lparr>cc_deleted_at := Some t\<rparr>, r\<lparr>cc_deleted_at := Some t, cc_updated_at := t\<rparr>}"
    and d': "d' = d\<lparr>tb_chats := map (\<lambda>r. if cc_id r = c \<and> cc_deleted_at r = None then g r else r) (tb_chats d)\<rparr>"
  shows "W d' \<and> db_view d' = snd (sp_Delete c v)"
proof
  let ?f = "\<lambda>r. if cc_id r = c \<and> cc_deleted_at r = None then g r else r"
  have g_id: "cc_id (g r) = cc_id r" "rok r \<Longrightarrow> rok (g r)" for r
    using g [of r] rok_dates [of r] rok_dates [of "r\<lparr>cc_deleted_at := Some t\<rparr>"] by auto
  show "W d'"
    using d(1) g_id unfolding d' by (intro W_chats) (auto simp: W_iff)
  have "chat_state (?f r) = (\<lambda>(x, live). if live \<and> chat_ID x = c then (buried x, False) else (x, live)) (chat_state r)" for r
    using g [of r] by (auto simp: chat_state_def buried_def chat_of_row_def)
  then show "db_view d' = snd (sp_Delete c v)"
    using d(2) unfolding d' by (auto simp: sp_Delete_def db_view_def)
qed

lemma member_removed:
  fixes c u
  assumes d: "W d" "db_view d = v"
  defines "P \<equiv> \<lambda>r. mc_chat_id r = c \<and> mc_user_id r = u"
  shows "W (d\<lparr>tb_members := filter (\<lambda>r. \<not> P r) (tb_members d)\<rparr>) \<and>
    (is_member v c u \<longleftrightarrow> length (filter P (tb_members d)) \<noteq> 0) \<and>
    db_view (d\<lparr>tb_members := filter (\<lambda>r. \<not> P r) (tb_members d)\<rparr>) =
      v\<lparr>av_members := filter (\<lambda>m. \<not> (mem_ChatID m = c \<and> mem_UserID m = u)) (av_members v)\<rparr>"
proof (intro conjI)
  show "W (d\<lparr>tb_members := filter (\<lambda>r. \<not> P r) (tb_members d)\<rparr>)"
  proof (rule W_members [OF d(1)])
    show "distinct (map (\<lambda>r. (mc_chat_id r, mc_user_id r)) (filter (\<lambda>r. \<not> P r) (tb_members d)))"
      using W_db [OF d(1)] by (intro distinct_map_filter) (simp add: db_wf_def)
  qed (use member_exists_fk [OF d(1)] in auto)
  show "is_member v c u \<longleftrightarrow> length (filter P (tb_members d)) \<noteq> 0"
    using d(2) unfolding length_filter_eq_0 P_def by (auto simp: is_member_view member_exists_def)
  show "db_view (d\<lparr>tb_members := filter (\<lambda>r. \<not> P r) (tb_members d)\<rparr>) =
      v\<lparr>av_members := filter (\<lambda>m. \<not> (mem_ChatID m = c \<and> mem_UserID m = u)) (av_members v)\<rparr>"
    using d(2) unfolding db_view_members P_def by (auto simp: db_view_def filter_map comp_def)
qed

lemma RemoveMember_sim:
  "simulates (table_inv W t0) quiet view_of True id v (pg_chat_RemoveMember c u) (sp_RemoveMember c u)"
  unfolding pg_chat_RemoveMember_def db_exec_def
proof (rule sim_call_stmt)
  fix d :: db and t n d' and w :: world
  let ?P = "\<lambda>r. mc_chat_id r = c \<and> mc_user_id r = u"
  assume d: "W d" "db_view d = v"
    and f: "(let (n, rs) = sql_delete ?P (tb_members d) in Inr (n, d\<lparr>tb_members := rs\<rparr>)) = Inr (n, d')"
  then have d': "d' = d\<lparr>tb_members := filter (\<lambda>r. \<not> ?P r) (tb_members d)\<rparr>"
      "n = length (filter ?P (tb_members d))"
    by (auto simp: sql_delete_def)
  have "n = 0 \<Longrightarrow> filter (\<lambda>r. \<not> ?P r) (tb_members d) = tb_members d"
    unfolding d'(2) length_filter_eq_0 by (simp add: filter_id_conv)
  with member_removed [OF d, of c u] d(2)
  show "W d' \<and> map_outcome id id (fst ((if n = 0 then throw (Dom ErrNotChatMember)
        else ret ()) w)) = fst (sp_RemoveMember c u v) \<and> db_view d' = snd (sp_RemoveMember c u v)"
    unfolding d'(1) by (cases "n = 0") (auto simp: sp_RemoveMember_def throw_def ret_def d'(2))
qed (auto simp: ret_def throw_def sql_delete_def)

lemma role_written:
  fixes c u r
  assumes d: "W d" "db_view d = v"
  defines "P \<equiv> \<lambda>m. mc_chat_id m = c \<and> mc_user_id m = u"
    and "f \<equiv> \<lambda>m. if mc_chat_id m = c \<and> mc_user_id m = u then m\<lparr>mc_role := r\<rparr> else m"
  shows "W (d\<lparr>tb_members := map f (tb_members d)\<rparr>) \<and>
    (is_member v c u \<longleftrightarrow> length (filter P (tb_members d)) \<noteq> 0) \<and>
    (\<not> is_member v c u \<longrightarrow> map f (tb_members d) = tb_members d) \<and>
    db_view (d\<lparr>tb_members := map f (tb_members d)\<rparr>) = v\<lparr>av_members := map (\<lambda>m. if mem_ChatID m = c \<and>
      mem_UserID m = u then m\<lparr>mem_Role := r\<rparr> else m) (av_members v)\<rparr>"
proof (intro conjI impI)
  show "W (d\<lparr>tb_members := map f (tb_members d)\<rparr>)"
  proof (rule W_members [OF d(1)])
    have "map (\<lambda>r. (mc_chat_id r, mc_user_id r)) (map f (tb_members d)) =
        map (\<lambda>r. (mc_chat_id r, mc_user_id r)) (tb_members d)"
      by (simp add: f_def)
    then show "distinct (map (\<lambda>r. (mc_chat_id r, mc_user_id r)) (map f (tb_members d)))"
      using W_db [OF d(1)] by (simp only: db_wf_def)
  qed (use member_exists_fk [OF d(1)] in \<open>auto simp: f_def\<close>)
  show mem: "is_member v c u \<longleftrightarrow> length (filter P (tb_members d)) \<noteq> 0"
    using d(2) unfolding length_filter_eq_0 P_def by (auto simp: is_member_view member_exists_def)
  show "map f (tb_members d) = tb_members d" if "\<not> is_member v c u"
    using that unfolding mem length_filter_eq_0 f_def P_def by (intro map_idI) auto
  have "map member_of_row (map f (tb_members d)) = map (\<lambda>m. if mem_ChatID m = c \<and>
      mem_UserID m = u then m\<lparr>mem_Role := r\<rparr> else m) (map member_of_row (tb_members d))"
    by (auto simp: member_of_row_def f_def)
  then show "db_view (d\<lparr>tb_members := map f (tb_members d)\<rparr>) = v\<lparr>av_members := map (\<lambda>m. if mem_ChatID m = c \<and>
      mem_UserID m = u then m\<lparr>mem_Role := r\<rparr> else m) (av_members v)\<rparr>"
    using d(2) unfolding db_view_members by (auto simp: db_view_def)
qed

lemma W_add_member:
  assumes "W d" "chat_exists d (mc_chat_id r)" "user_exists d (mc_user_id r)"
    "\<not> member_exists d (mc_chat_id r) (mc_user_id r)"
  shows "W (d\<lparr>tb_members := tb_members d @ [r]\<rparr>)"
proof (rule W_members [OF assms(1)])
  show "distinct (map (\<lambda>r. (mc_chat_id r, mc_user_id r)) (tb_members d @ [r]))"
    using assms W_db [OF assms(1)] by (auto simp: db_wf_def member_exists_def)
qed (use assms member_exists_fk [OF assms(1)] in auto)

text \<open>An insertion that leaves an existing member alone.\<close>

lemma AddMember_sim:
  assumes pre: "add_pre v m"
    and ins: "\<And>d. chat_exists d (mem_ChatID m) \<Longrightarrow> user_exists d (mem_UserID m) \<Longrightarrow>
      ins (new_member_row m) d = (if member_exists d (mem_ChatID m) (mem_UserID m) then Inr (0, d)
        else Inr (1, d\<lparr>tb_members := tb_members d @ [new_member_row m]\<rparr>))"
  shows "simulates (table_inv W t0) quiet view_of True id v
     (call (db_exec (\<lambda>_. ins (new_member_row m))) (\<lambda>n :: nat. if n = 0 then throw (Dom ErrAlreadyChatMember) else ret ()))
     (sp_AddMember m)"
  unfolding db_exec_def
proof (rule sim_call_stmt)
  let ?r = "new_member_row m"
  have row: "member_of_row ?r = m" using pre by (simp add: add_pre_def)
  fix d :: db and t assume d: "W d" "db_view d = v"
  have ex: "chat_exists d (mem_ChatID m)" "user_exists d (mem_UserID m)"
    using pre d(2) chat_lookup_exists user_lookup_exists unfolding add_pre_def by blast+
  note ins = ins [OF ex]
  {
    fix n :: nat and d' and w :: world
    assume "ins ?r d = Inr (n, d')"
    then have nd: "if member_exists d (mem_ChatID m) (mem_UserID m) then n = 0 \<and> d' = d
        else n = 1 \<and> d' = d\<lparr>tb_members := tb_members d @ [?r]\<rparr>"
      unfolding ins by (auto split: if_splits)
    moreover have "\<not> member_exists d (mem_ChatID m) (mem_UserID m) \<Longrightarrow>
        W (d\<lparr>tb_members := tb_members d @ [?r]\<rparr>)"
      using ex by (intro W_add_member [OF d(1)]) auto
    moreover have "db_view (d\<lparr>tb_members := tb_members d @ [?r]\<rparr>) =
        v\<lparr>av_members := av_members v @ [m]\<rparr>"
      using d(2) by (auto simp: db_view_def row)
    ultimately show "W d' \<and> map_outcome id id (fst ((if n = 0 then throw (Dom ErrAlreadyChatMember)
          else ret ()) w)) = fst (sp_AddMember m v) \<and> db_view d' = snd (sp_AddMember m v)"
      using d by (cases "member_exists d (mem_ChatID m) (mem_UserID m)")
        (auto simp: sp_AddMember_def throw_def ret_def is_member_view)
  next
    fix e assume "ins ?r d = Inl e"
    then show "\<not> True" unfolding ins by (simp split: if_splits)
  }
qed (auto simp: ret_def throw_def)

text \<open>The row of a chat that \<open>Update\<close> finds follows the naming rule of the new texts.\<close>

lemma updated_row_name:
  assumes "W d" "db_view d = v" "update_pre v ch" "r \<in> set (tb_chats d)" "cc_id r = chat_ID ch" "cc_deleted_at r = None"
  shows "name_rule (cc_type r) (chat_Name ch)" "chat_lookup v (chat_ID ch) = Some (chat_of_row r)"
proof -
  have "find (\<lambda>r. cc_id r = chat_ID ch \<and> cc_deleted_at r = None) (tb_chats d) \<noteq> None"
    using assms by (auto simp: find_None_iff)
  then have "\<exists>x. chat_lookup v (chat_ID ch) = Some x"
    using assms(2) by (auto simp: chat_lookup_view)
  then obtain x where x: "chat_lookup v (chat_ID ch) = Some x" ..
  with chat_lookup_type [of d "chat_ID ch" x r] assms W_db have r: "chat_of_row r = x" by auto
  with x assms(3) show "name_rule (cc_type r) (chat_Name ch)" by (auto simp: update_pre_def)
  show "chat_lookup v (chat_ID ch) = Some (chat_of_row r)" using x r by simp
qed

lemma chat_written:
  fixes ch
  assumes d: "W d" "db_view d = v"
  defines "P \<equiv> \<lambda>r. cc_id r = chat_ID ch \<and> cc_deleted_at r = None"
    and "f \<equiv> \<lambda>r. if cc_id r = chat_ID ch \<and> cc_deleted_at r = None then set_chat_cols ch r else r"
  assumes ok: "\<And>r. r \<in> set (tb_chats d) \<Longrightarrow> P r \<Longrightarrow> rok (set_chat_cols ch r)"
  shows "W (d\<lparr>tb_chats := map f (tb_chats d)\<rparr>) \<and>
    (chat_lookup v (chat_ID ch) = None \<longleftrightarrow> length (filter P (tb_chats d)) = 0) \<and>
    (chat_lookup v (chat_ID ch) = None \<longrightarrow> map f (tb_chats d) = tb_chats d) \<and>
    (chat_lookup v (chat_ID ch) \<noteq> None \<longrightarrow> db_view (d\<lparr>tb_chats := map f (tb_chats d)\<rparr>) = snd (sp_Update ch v))"
proof (intro conjI impI)
  show "W (d\<lparr>tb_chats := map f (tb_chats d)\<rparr>)"
    using d(1) ok unfolding f_def by (intro W_chats) (auto simp: W_iff P_def)
  show live: "chat_lookup v (chat_ID ch) = None \<longleftrightarrow> length (filter P (tb_chats d)) = 0"
    using d(2) unfolding length_filter_eq_0 P_def by (auto simp: chat_lookup_view find_None_iff)
  show "map f (tb_chats d) = tb_chats d" if "chat_lookup v (chat_ID ch) = None"
    using that unfolding live length_filter_eq_0 f_def P_def by (intro map_idI) auto
  have "chat_state (f r) = (\<lambda>(x, live). if chat_ID x = chat_ID ch \<and> live
       then (x\<lparr>chat_Name := chat_Name ch, chat_AvatarURL := chat_AvatarURL ch,
               chat_Description := chat_Description ch, chat_UpdatedAt := chat_UpdatedAt ch\<rparr>, live)
       else (x, live)) (chat_state r)" for r
    by (auto simp: chat_state_def f_def set_chat_cols_row)
  then show "db_view (d\<lparr>tb_chats := map f (tb_chats d)\<rparr>) = snd (sp_Update ch v)"
    if "chat_lookup v (chat_ID ch) \<noteq> None"
    using d(2) that by (auto simp: sp_Update_def db_view_def)
qed

text \<open>The members still to insert are users of the store that the new chat does not have yet.\<close>

definition to_insert :: "aview \<Rightarrow> uuid \<Rightarrow> ChatMember list \<Rightarrow> db \<Rightarrow> bool" where
  "to_insert v c ms d \<longleftrightarrow> W d \<and> chat_exists d c \<and> distinct (map mem_UserID ms) \<and>
     (\<forall>m \<in> set ms. mem_ChatID m = c \<and> user_exists d (mem_UserID m) \<and> role_pre (mem_Role m) \<and>
        mem_User m = None \<and> \<not> member_exists d c (mem_UserID m)) \<and>
     (db_view d)\<lparr>av_members := av_members (db_view d) @ ms\<rparr> = v"

lemma insert_member_run:
  assumes "to_insert v c (m # ms) (w_db w)"
  shows "tx_run ok (call (db_exec (\<lambda>_. insert_member (new_member_row m))) (\<lambda>_. ret ())) w
     (to_insert v c ms)"
proof (rule tx_run_exec)
  let ?d = "w_db w" and ?r = "new_member_row m"
  have pre: "W ?d" "mem_ChatID m = c" "chat_exists ?d c" "user_exists ?d (mem_UserID m)"
      "\<not> member_exists ?d c (mem_UserID m)" "role_pre (mem_Role m)" "mem_User m = None"
    using assms by (auto simp: to_insert_def)
  have run: "insert_member ?r ?d = Inr (1, ?d\<lparr>tb_members := tb_members ?d @ [?r]\<rparr>)"
    using pre by (intro member_inserted) simp_all
  fix t n d assume "insert_member ?r ?d = Inr (n, d)"
  with run have d: "d = ?d\<lparr>tb_members := tb_members ?d @ [?r]\<rparr>" by simp
  have "W d"
    using pre unfolding d by (intro W_add_member) auto
  then show "to_insert v c ms d"
    using assms unfolding d
    by (auto simp: to_insert_def db_view_def member_exists_def)
next
  fix t e assume "insert_member (new_member_row m) (w_db w) = Inl e"
  then show "\<not> ok"
    using assms member_inserted [of "w_db w" "new_member_row m"] by (auto simp: to_insert_def)
qed

lemma CreateWithMembers_sim:
  assumes pre: "create_pre v c ms"
  shows "simulates (table_inv W t0) quiet view_of (chat_ok c) id v
     (in_tx (call (db_exec (\<lambda>_. insert_chat (new_chat_row c))) (\<lambda>_.
        for_each (\<lambda>m. call (db_exec (\<lambda>_. insert_member (new_member_row m))) (\<lambda>_. ret ())) ms)))
     (sp_CreateWithMembers c ms)"
proof -
  let ?v = "v\<lparr>av_chats := av_chats v @ [(c, True)], av_members := av_members v @ ms\<rparr>"
  have body: "tx_run (chat_ok c) (call (db_exec (\<lambda>_. insert_chat (new_chat_row c))) (\<lambda>_. k)) w R"
    if w: "W (w_db w)" "db_view (w_db w) = v"
      and k: "\<And>w'. to_insert ?v (chat_ID c) ms (w_db w') \<Longrightarrow> tx_run (chat_ok c) k w' R"
    for k R and w :: world
  proof -
    let ?d = "w_db w" and ?r = "new_chat_row c"
    have unused: "\<not> chat_exists ?d (chat_ID c)" "user_exists ?d (chat_CreatedBy c)"
      using pre w(2) chat_unused_view user_lookup_exists by (auto simp: create_pre_def)
    have "tx_run (chat_ok c) (call (db_exec (\<lambda>_. insert_chat ?r)) (\<lambda>_. ret ())) w
        (to_insert ?v (chat_ID c) ms)"
    proof (rule tx_run_exec)
      fix t n d assume "insert_chat ?r ?d = Inr (n, d)"
      from chat_inserted [OF this] have d: "d = ?d\<lparr>tb_chats := tb_chats ?d @ [?r]\<rparr>" and rok: "rok ?r"
        by simp_all
      have "W d"
        using w(1) unused(1) rok unfolding d by (auto simp: W_iff db_wf_def chat_exists_def)
      moreover have "\<not> member_exists ?d (chat_ID c) u" for u
        using unused(1) member_exists_fk [OF w(1)] unfolding member_exists_def by metis
      moreover have "user_lookup v u \<noteq> None \<Longrightarrow> user_exists ?d u" for u
        using w(2) user_lookup_exists by blast
      ultimately show "to_insert ?v (chat_ID c) ms d"
        using pre w(2) unfolding d
        by (auto simp: to_insert_def create_pre_def members_pre_def role_pre_def db_view_def
            member_exists_def chat_exists_def chat_state_def)
    next
      fix t e assume "insert_chat ?r ?d = Inl e"
      then show "\<not> chat_ok c" using unused pre by (intro chat_refused) (auto simp: create_pre_def)
    qed
    then have "tx_run (chat_ok c) (call (call (db_exec (\<lambda>_. insert_chat ?r)) (\<lambda>_. ret ()))
        (\<lambda>_. k)) w R"
      by (rule tx_run_call) (rule k)
    then show ?thesis by (simp add: call_assoc)
  qed
  show ?thesis
  proof (rule sim_in_tx, rule body)
    fix w w' :: world
    assume "to_insert ?v (chat_ID c) ms (w_db w')"
    then have "tx_run (chat_ok c) (for_each (\<lambda>m. call (db_exec (\<lambda>_. insert_member
        (new_member_row m))) (\<lambda>_. ret ())) ms) w' (to_insert ?v (chat_ID c) [])"
      by (intro tx_run_for_each insert_member_run)
    then show "tx_run (chat_ok c) (for_each (\<lambda>m. call (db_exec (\<lambda>_. insert_member
        (new_member_row m))) (\<lambda>_. ret ())) ms) w'
        (\<lambda>d. W d \<and> sp_CreateWithMembers c ms v = (Ok (), db_view d))"
      by (auto simp: tx_run_def to_insert_def sp_CreateWithMembers_def)
  qed
qed

lemma W_view:
  assumes "W d"
  shows "aview_wf (db_view d)"
proof -
  from W_db [OF assms] have keys: "distinct (map user_ID (av_users (db_view d)))"
    "distinct (map (chat_ID \<circ> fst) (av_chats (db_view d)))"
    "distinct (map (\<lambda>m. (mem_ChatID m, mem_UserID m)) (av_members (db_view d)))"
    "distinct (map msg_ID (av_messages (db_view d)))"
    "distinct (map fst (av_receipts (db_view d)))"
    by (auto simp: db_wf_def db_view_def comp_def distinct_map_filter)
  moreover have "\<forall>m \<in> set (av_members (db_view d)). \<not> chat_unused (db_view d) (mem_ChatID m)"
    using W_db [OF assms] unfolding chat_unused_view by (auto simp: db_view_def db_wf_def)
  moreover have "\<forall>(c, live) \<in> set (av_chats (db_view d)). name_rule (chat_Type c) (chat_Name c)"
    using assms rok_name by (auto simp: db_view_def W_iff chat_state_def)
      (auto simp: chat_of_row_def)
  ultimately show ?thesis by (simp add: aview_wf_def)
qed

end

end
