(* ===== verification/PgUser.thy ===== *)
theory PgUser
  imports Postgres
begin

text \<open>
  internal/infrastructure/storage/postgres/user.go: the PostgreSQL user repository.  Two
  parameters stand for the database's locale: \<open>lc\<close>, the case folding of \<open>ILIKE\<close> on code
  points, and \<open>coll\<close>, the sort keys by which its collation orders text (\<open>strxfrm\<close>).
\<close>

section \<open>Rows and constraints\<close>

definition scan_null_user :: db_error where
  "scan_null_user = DriverErr ''cannot scan NULL into *string''"

definition pg_scanUser :: "user_row \<Rightarrow> db_error + User" where
  "pg_scanUser r =
     (case (uc_avatar_url r, uc_bio r) of
        (Some av, Some b) \<Rightarrow> Inr \<lparr>user_ID = uc_id r, user_Username = uc_username r,
          user_Email = uc_email r, user_PasswordHash = uc_password_hash r,
          user_AvatarURL = av, user_Bio = b, user_Status = uc_status r,
          user_LastSeen = uc_last_seen r, user_CreatedAt = uc_created_at r,
          user_UpdatedAt = uc_updated_at r\<rparr>
      | _ \<Rightarrow> Inl scan_null_user)"

text \<open>\<open>scanUsersPublic\<close> does not select the password hash.\<close>

definition pg_scanUserPublic :: "user_row \<Rightarrow> db_error + User" where
  "pg_scanUserPublic r =
     (case (uc_avatar_url r, uc_bio r) of
        (Some av, Some b) \<Rightarrow> Inr (zero_User\<lparr>user_ID := uc_id r, user_Username := uc_username r,
          user_Email := uc_email r, user_AvatarURL := av, user_Bio := b,
          user_Status := uc_status r, user_LastSeen := uc_last_seen r,
          user_CreatedAt := uc_created_at r, user_UpdatedAt := uc_updated_at r\<rparr>)
      | _ \<Rightarrow> Inl scan_null_user)"

definition is_alnum_byte :: "char \<Rightarrow> bool" where
  "is_alnum_byte c \<longleftrightarrow> (let n = of_char c :: nat in
     (48 \<le> n \<and> n \<le> 57) \<or> (65 \<le> n \<and> n \<le> 90) \<or> (97 \<le> n \<and> n \<le> 122))"

definition pg_user_checks :: "user_row \<Rightarrow> (bool \<times> db_error) list" where
  "pg_user_checks r =
     [(\<not> (pg_text (uc_username r) \<and> pg_text (uc_email r) \<and> pg_text (uc_password_hash r)
          \<and> pg_opt_text (uc_avatar_url r) \<and> pg_opt_text (uc_bio r)), bad_encoding),
      (\<not> valid_user_status (uc_status r), bad_enum),
      (RuneCountInString (uc_username r) > 50, too_long),
      (RuneCountInString (uc_email r) > 255, too_long),
      (opt_len (uc_bio r) > 500, too_long),
      (RuneCountInString (uc_username r) < 3, check_violation ''chk_users_username''),
      (\<not> list_all is_alnum_byte (uc_username r), check_violation ''chk_users_username_pattern''),
      (uc_email r = [], check_violation ''chk_users_email'')]"

text \<open>The partial unique indexes see live rows only.\<close>

definition email_used :: "db \<Rightarrow> uuid \<Rightarrow> string \<Rightarrow> bool" where
  "email_used d u e \<longleftrightarrow>
     (\<exists>r \<in> set (tb_users d). uc_deleted_at r = None \<and> uc_email r = e \<and> uc_id r \<noteq> u)"

definition username_used :: "db \<Rightarrow> uuid \<Rightarrow> string \<Rightarrow> bool" where
  "username_used d u n \<longleftrightarrow>
     (\<exists>r \<in> set (tb_users d). uc_deleted_at r = None \<and> uc_username r = n \<and> uc_id r \<noteq> u)"

definition pg_user_uniques :: "db \<Rightarrow> user_row \<Rightarrow> (bool \<times> db_error) list" where
  "pg_user_uniques d r =
     [(email_used d (uc_id r) (uc_email r), unique_violation ''uidx_users_email''),
      (username_used d (uc_id r) (uc_username r), unique_violation ''uidx_users_username'')]"

definition mapUserConstraintErr :: "goerr \<Rightarrow> goerr" where
  "mapUserConstraintErr err =
     (case err of
        Db (PgError code constraint) \<Rightarrow>
          if code = ''23505'' then
            (if constraint = ''uidx_users_email'' then Dom ErrEmailTaken
             else if constraint = ''uidx_users_username'' then Dom ErrUsernameTaken
             else err)
          else err
      | _ \<Rightarrow> err)"

section \<open>ILIKE\<close>

definition pct :: nat where "pct = 37"
definition underscore :: nat where "underscore = 95"
definition backslash :: nat where "backslash = 92"

text \<open>Matching of a pattern with the default escape character.\<close>

fun ilike :: "(nat \<Rightarrow> nat) \<Rightarrow> nat list \<Rightarrow> nat list \<Rightarrow> bool" where
  "ilike lc [] t = (t = [])"
| "ilike lc (p # ps) t =
     (if p = pct then ilike lc ps t \<or> (case t of [] \<Rightarrow> False | _ # t' \<Rightarrow> ilike lc (p # ps) t')
      else if p = underscore then (case t of [] \<Rightarrow> False | _ # t' \<Rightarrow> ilike lc ps t')
      else if p = backslash then
        (case ps of [] \<Rightarrow> False
         | q # qs \<Rightarrow> (case t of [] \<Rightarrow> False | c # t' \<Rightarrow> lc q = lc c \<and> ilike lc qs t'))
      else (case t of [] \<Rightarrow> False | c # t' \<Rightarrow> lc p = lc c \<and> ilike lc ps t'))"

definition ilike_contains :: "(nat \<Rightarrow> nat) \<Rightarrow> string \<Rightarrow> string \<Rightarrow> bool" where
  "ilike_contains lc s q = ilike lc ([pct] @ runes q @ [pct]) (runes s)"

section \<open>The methods\<close>

definition pg_user_Create :: "User \<Rightarrow> (world, unit) io" where
  "pg_user_Create u =
     branch (db_exec (\<lambda>_ d.
       let r = \<lparr>uc_id = user_ID u, uc_username = user_Username u, uc_email = user_Email u,
                uc_password_hash = user_PasswordHash u, uc_avatar_url = Some (user_AvatarURL u),
                uc_bio = Some (user_Bio u), uc_status = user_Status u,
                uc_last_seen = user_LastSeen u, uc_created_at = user_CreatedAt u,
                uc_updated_at = user_UpdatedAt u, uc_deleted_at = None\<rparr>
       in case first_violation (pg_user_checks r
              @ [(user_exists d (uc_id r), unique_violation ''users_pkey'')]
              @ pg_user_uniques d r) of
            Some e \<Rightarrow> Inl e
          | None \<Rightarrow> Inr (1, d\<lparr>tb_users := tb_users d @ [r]\<rparr>)))
       (\<lambda>_. ret ()) (\<lambda>err. throw (mapUserConstraintErr err))"

definition pg_user_scanOne :: "string list \<Rightarrow> (user_row \<Rightarrow> bool) \<Rightarrow> (world, User) io" where
  "pg_user_scanOne params P =
     branch (pg_queryRow params (\<lambda>d. filter P (tb_users d)) pg_scanUser)
       ret
       (\<lambda>err. if is_ErrNoRows err then throw (Dom ErrUserNotFound) else throw err)"

definition pg_user_GetByID :: "uuid \<Rightarrow> (world, User) io" where
  "pg_user_GetByID uid = pg_user_scanOne [] (\<lambda>r. uc_id r = uid \<and> uc_deleted_at r = None)"

definition pg_user_GetByEmail :: "string \<Rightarrow> (world, User) io" where
  "pg_user_GetByEmail email = pg_user_scanOne [email] (\<lambda>r. uc_email r = email \<and> uc_deleted_at r = None)"

definition pg_user_GetByUsername :: "string \<Rightarrow> (world, User) io" where
  "pg_user_GetByUsername username =
     pg_user_scanOne [username] (\<lambda>r. uc_username r = username \<and> uc_deleted_at r = None)"

definition pg_user_Update :: "User \<Rightarrow> (world, unit) io" where
  "pg_user_Update u =
     branch (db_exec (\<lambda>_ d.
       let P = (\<lambda>r. uc_id r = user_ID u \<and> uc_deleted_at r = None);
           f = (\<lambda>r. r\<lparr>uc_username := user_Username u, uc_email := user_Email u,
                      uc_avatar_url := Some (user_AvatarURL u), uc_bio := Some (user_Bio u),
                      uc_updated_at := user_UpdatedAt u\<rparr>);
           (n, rs) = sql_update P f (tb_users d)
       in case first_violation
              ((\<not> (pg_text (user_Username u) \<and> pg_text (user_Email u) \<and> pg_text (user_AvatarURL u)
                   \<and> pg_text (user_Bio u)), bad_encoding)
               # concat (map (\<lambda>r. pg_user_checks (f r) @ pg_user_uniques d (f r))
                   (filter P (tb_users d)))) of
            Some e \<Rightarrow> Inl e
          | None \<Rightarrow> Inr (n, d\<lparr>tb_users := rs\<rparr>)))
       (\<lambda>n. if n = 0 then throw (Dom ErrUserNotFound) else ret ())
       (\<lambda>err. throw (mapUserConstraintErr err))"

definition pg_user_UpdateStatus :: "uuid \<Rightarrow> UserStatus \<Rightarrow> time \<Rightarrow> (world, unit) io" where
  "pg_user_UpdateStatus uid status lastSeen =
     call (db_exec (\<lambda>now d.
       let (n, rs) = sql_update (\<lambda>r. uc_id r = uid \<and> uc_deleted_at r = None)
             (\<lambda>r. r\<lparr>uc_status := status, uc_last_seen := lastSeen, uc_updated_at := now\<rparr>) (tb_users d)
       in if \<not> valid_user_status status then Inl bad_enum
          else Inr (n, d\<lparr>tb_users := rs\<rparr>))) (\<lambda>_. ret ())"

definition pg_user_Search ::
  "(nat \<Rightarrow> nat) \<Rightarrow> (string \<Rightarrow> 'k::linorder) \<Rightarrow> string \<Rightarrow> int \<Rightarrow> int \<Rightarrow> (world, User list) io" where
  "pg_user_Search lc coll query limit offset =
     (if limit < 0 \<or> offset < 0 then call (db_exec (\<lambda>_ _. Inl (PgError ''2201W'' []))) (\<lambda>_. ret [])
      else if \<not> pg_text query then call (db_exec (\<lambda>_ _. Inl bad_encoding)) (\<lambda>_. ret [])
      else db_query (\<lambda>d. take (nat limit) (drop (nat offset) (sort_key (\<lambda>r. coll (uc_username r))
             [r \<leftarrow> tb_users d. (ilike_contains lc (uc_username r) query
                \<or> ilike_contains lc (uc_email r) query) \<and> uc_deleted_at r = None])))
             pg_scanUserPublic)"

definition pg_user_Delete :: "uuid \<Rightarrow> (world, unit) io" where
  "pg_user_Delete uid =
     call (db_exec (\<lambda>now d.
       let (n, rs) = sql_update (\<lambda>r. uc_id r = uid \<and> uc_deleted_at r = None)
                       (\<lambda>r. r\<lparr>uc_deleted_at := Some now\<rparr>) (tb_users d)
       in Inr (n, d\<lparr>tb_users := rs\<rparr>))) (\<lambda>_. ret ())"

definition pg_NewUserRepository ::
  "(nat \<Rightarrow> nat) \<Rightarrow> (string \<Rightarrow> 'k::linorder) \<Rightarrow> world UserRepository" where
  "pg_NewUserRepository lc coll = \<lparr>ur_Create = pg_user_Create, ur_GetByID = pg_user_GetByID,
     ur_GetByEmail = pg_user_GetByEmail, ur_GetByUsername = pg_user_GetByUsername,
     ur_Update = pg_user_Update, ur_UpdateStatus = pg_user_UpdateStatus,
     ur_Search = pg_user_Search lc coll, ur_Delete = pg_user_Delete\<rparr>"

end
