(* ===== verification/PgChatSim.thy ===== *)
theory PgChatSim
  imports TableSim PgUser
begin

text \<open>
  The PostgreSQL chat repository implements the chat port: every method of
  storage/postgres/chat.go simulates the abstract operation of the contract, on tables that
  satisfy \<open>pg_wf\<close>, which every method preserves.
\<close>

section \<open>Integrity of the Postgres tables\<close>

definition pg_wf :: "db \<Rightarrow> bool" where
  "pg_wf d \<longleftrightarrow> db_wf d \<and>
     (\<forall>r \<in> set (tb_users d). uc_avatar_url r \<noteq> None \<and> uc_bio r \<noteq> None) \<and>
     (\<forall>r \<in> set (tb_chats d). first_violation (pg_chat_checks r) = None \<and> cc_name r \<noteq> Some [])"

abbreviation pg_at :: "time \<Rightarrow> world \<Rightarrow> bool" where
  "pg_at \<equiv> table_inv pg_wf"

abbreviation pg_inv :: "world \<Rightarrow> bool" where
  "pg_inv \<equiv> pg_at 0"

lemma pg_wfD: "pg_wf d \<Longrightarrow> db_wf d"
  by (simp add: pg_wf_def)

lemma role_pre_valid: "role_pre r \<Longrightarrow> valid_member_role r"
  by (auto simp: role_pre_def)

text \<open>The chats whose texts the database accepts: valid UTF-8 without NUL, within the column
  widths.\<close>

definition pg_chat_ok :: "Chat \<Rightarrow> bool" where
  "pg_chat_ok c \<longleftrightarrow> pg_text (chat_Name c) \<and> pg_text (chat_AvatarURL c) \<and>
     pg_text (chat_Description c) \<and> RuneCountInString (chat_Name c) \<le> 100 \<and>
     RuneCountInString (chat_Description c) \<le> 500"

lemma pg_nullable_ok [simp]:
  "pg_opt_text (pg_nullableStr s) \<longleftrightarrow> s = [] \<or> pg_text s"
  "opt_len (pg_nullableStr s) = RuneCountInString s"
  "pg_nullableStr s = None \<longleftrightarrow> s = []"
  by (auto simp: pg_nullableStr_def RuneCountInString_def runes_def bytes_of_def)

lemma set_chat_cols_checks:
  assumes "pg_chat_ok c" "name_rule (cc_type r) (chat_Name c)"
    "first_violation (pg_chat_checks r) = None"
  shows "first_violation (pg_chat_checks (set_chat_cols c r)) = None"
  using assms
  by (auto simp: pg_chat_checks_def set_chat_cols_def pg_chat_ok_def name_rule_def
      split: if_splits)

lemma new_chat_checks:
  assumes "pg_chat_ok c" "chat_Type c \<in> {ChatTypeDirect, ChatTypeGroup}"
    "name_rule (chat_Type c) (chat_Name c)"
  shows "first_violation (pg_chat_checks (new_chat_row c)) = None"
  using assms
  by (auto simp: pg_chat_checks_def new_chat_row_def pg_chat_ok_def name_rule_def
      ChatTypeDirect_def ChatTypeGroup_def valid_chat_type_def)

interpretation pg_tables: chat_tables pg_wf "\<lambda>r. uc_avatar_url r \<noteq> None \<and> uc_bio r \<noteq> None"
    "\<lambda>r. first_violation (pg_chat_checks r) = None \<and> cc_name r \<noteq> Some []" pg_scanMemberWithUser pg_chat_ok
    pg_insert_chat pg_insert_member
proof (unfold_locales, goal_cases)
  case (1 d) then show ?case by (simp add: pg_wf_def)
next
  case (2 a m) then show ?case by (auto simp: pg_scanMemberWithUser_def strip_user_def member_of_row_def)
next
  case (3 r x t) then show ?case by (simp add: pg_chat_checks_def)
next
  case (4 r) then show ?case
    by (auto simp: pg_chat_checks_def name_rule_def null_text_def split: if_splits option.splits)
next
  case (5 c d n d') then show ?case
    by (auto simp: pg_insert_chat_def first_violation_append_None split: option.splits)
next
  case (6 c d e)
  have "\<not> (first_violation (pg_chat_checks (new_chat_row c)) = None \<and> first_violation (pg_chat_keys d (new_chat_row c)) = None)"
    using 6(1) first_violation_append_None [of "pg_chat_checks (new_chat_row c)" "pg_chat_keys d (new_chat_row c)"]
    by (auto simp: pg_insert_chat_def split: option.splits)
  then have "first_violation (pg_chat_checks (new_chat_row c)) \<noteq> None"
    using 6(2,3) by (simp add: pg_chat_keys_def)
  with new_chat_checks [OF _ 6(4,5)] show ?case by blast
next
  case (7 d m) then show ?case
    by (simp add: pg_insert_member_def pg_member_checks_def pg_member_fks_def role_pre_valid)
qed

section \<open>The methods\<close>

lemmas pg_wf_members = pg_tables.W_members and pg_wf_view = pg_tables.W_view

lemma pg_chat_GetMember_sim:
  "simulates (pg_at t0) quiet view_of True strip_user v (pg_chat_GetMember c u) (sp_GetMember c u)"
  unfolding pg_chat_GetMember_def by (rule pg_tables.GetMember_sim)

lemma pg_chat_GetMembers_sim:
  "simulates (pg_at t0) quiet view_of True (map strip_user) v (pg_chat_GetMembers c) (sp_GetMembers c)"
  unfolding pg_chat_GetMembers_def by (rule pg_tables.GetMembers_sim)

lemma pg_chat_Delete_sim:
  "simulates (pg_at t0) quiet view_of True id v (pg_chat_Delete c) (sp_Delete c)"
  unfolding pg_chat_Delete_def db_exec_def
proof (rule sim_call_stmt)
  fix d :: db and t a d' and w :: world
  assume d: "pg_wf d" "db_view d = v"
    and f: "(let (n, rs) = sql_update (\<lambda>r. cc_id r = c \<and> cc_deleted_at r = None)
        (cc_deleted_at_update (\<lambda>_. Some t)) (tb_chats d) in Inr (n, d\<lparr>tb_chats := rs\<rparr>)) = Inr (a, d')"
  then have "pg_wf d' \<and> db_view d' = snd (sp_Delete c v)"
    by (intro pg_tables.chat_deleted [OF d, of "\<lambda>r. r\<lparr>cc_deleted_at := Some t\<rparr>" t]) (auto simp: sql_update_def)
  then show "pg_wf d' \<and> map_outcome id id (fst (ret () w)) = fst (sp_Delete c v) \<and>
      db_view d' = snd (sp_Delete c v)"
    by (simp add: ret_def sp_Delete_def)
qed (auto simp: ret_def sql_update_def)

lemma pg_chat_UpdateMemberRole_sim:
  assumes r: "role_pre r"
  shows "simulates (pg_at t0) quiet view_of True id v
     (pg_chat_UpdateMemberRole c u r) (sp_UpdateMemberRole c u r)"
  unfolding pg_chat_UpdateMemberRole_def db_exec_def
proof (rule sim_call_stmt)
  fix d :: db and t n d' and w :: world
  let ?P = "\<lambda>m. mc_chat_id m = c \<and> mc_user_id m = u"
  assume d: "pg_wf d" "db_view d = v"
    and f: "(let (n, rs) = sql_update ?P (mc_role_update (\<lambda>_. r)) (tb_members d)
        in if \<not> valid_member_role r then Inl bad_enum else Inr (n, d\<lparr>tb_members := rs\<rparr>)) = Inr (n, d')"
  then have d': "d' = d\<lparr>tb_members := map (\<lambda>m. if ?P m then m\<lparr>mc_role := r\<rparr> else m) (tb_members d)\<rparr>"
    "n = length (filter ?P (tb_members d))"
    using role_pre_valid [OF r] by (auto simp: sql_update_def)
  show "pg_wf d' \<and> map_outcome id id (fst ((if n = 0 then throw (Dom ErrNotChatMember)
        else ret ()) w)) = fst (sp_UpdateMemberRole c u r v) \<and>
      db_view d' = snd (sp_UpdateMemberRole c u r v)"
    using pg_tables.role_written [OF d, of c u r] d(2) unfolding d'
    by (cases "is_member v c u") (auto simp: sp_UpdateMemberRole_def throw_def ret_def)
next
  fix d t e
  assume "(let (n, rs) = sql_update (\<lambda>m. mc_chat_id m = c \<and> mc_user_id m = u)
      (mc_role_update (\<lambda>_. r)) (tb_members d)
        in if \<not> valid_member_role r then Inl bad_enum else Inr (n, d\<lparr>tb_members := rs\<rparr>)) = Inl e"
  with role_pre_valid [OF r] show "\<not> True" by (simp add: sql_update_def)
qed (auto simp: ret_def throw_def)

lemma pg_chat_AddMember_sim:
  assumes pre: "add_pre v m"
  shows "simulates (pg_at t0) quiet view_of True id v (pg_chat_AddMember m) (sp_AddMember m)"
  unfolding pg_chat_AddMember_def new_member_row_def [symmetric]
  by (rule pg_tables.AddMember_sim [OF pre])
    (use pre role_pre_valid in \<open>simp add: pg_insert_member_nothing_def pg_member_checks_def pg_member_fks_def add_pre_def\<close>)

lemma pg_chat_CreateWithMembers_sim:
  "create_pre v c ms \<Longrightarrow> simulates (pg_at t0) quiet view_of (pg_chat_ok c) id v
     (pg_chat_CreateWithMembers c ms) (sp_CreateWithMembers c ms)"
  unfolding pg_chat_CreateWithMembers_def new_chat_row_def [symmetric] new_member_row_def [symmetric]
  by (rule pg_tables.CreateWithMembers_sim)

lemma pg_chat_Update_sim:
  assumes pre: "update_pre v ch"
  shows "simulates (pg_at t0) quiet view_of (pg_chat_ok ch) id v (pg_chat_Update ch) (sp_Update ch)"
proof -
  let ?P = "\<lambda>r. cc_id r = chat_ID ch \<and> cc_deleted_at r = None"
  let ?f = "\<lambda>r. if ?P r then set_chat_cols ch r else r"
  define F where "F = (\<lambda>d :: db. case first_violation
      ((\<not> (pg_text (chat_Name ch) \<and> pg_text (chat_AvatarURL ch) \<and> pg_text (chat_Description ch)), bad_encoding)
       # concat (map (\<lambda>r. pg_chat_checks (set_chat_cols ch r)) (filter ?P (tb_chats d)))) of
      Some e \<Rightarrow> Inl e
    | None \<Rightarrow> Inr (length (filter ?P (tb_chats d)), d\<lparr>tb_chats := map ?f (tb_chats d)\<rparr>))"
  have op: "pg_chat_Update ch = call (db_stmt (\<lambda>_. F)) (\<lambda>n.
      if n = 0 then throw (Dom ErrChatNotFound) else ret ())"
    unfolding pg_chat_Update_def db_exec_def F_def set_chat_cols_def Let_def sql_update_def
    by (simp only: prod.case)
  show ?thesis
    unfolding op
  proof (rule sim_call_stmt)
    fix d :: db and t n d' and w :: world
    assume d: "pg_wf d" "db_view d = v" and f: "F d = Inr (n, d')"
    then have d': "d' = d\<lparr>tb_chats := map ?f (tb_chats d)\<rparr>" "n = length (filter ?P (tb_chats d))"
      and viol: "\<And>r. r \<in> set (tb_chats d) \<Longrightarrow> ?P r \<Longrightarrow>
          first_violation (pg_chat_checks (set_chat_cols ch r)) = None \<and> cc_name (set_chat_cols ch r) \<noteq> Some []"
      by (auto simp: F_def first_violation_concat_None split: option.splits if_splits)
    note wrote = pg_tables.chat_written [OF d viol]
    show "pg_wf d' \<and> map_outcome id id (fst ((if n = 0 then throw (Dom ErrChatNotFound)
        else ret ()) w)) = fst (sp_Update ch v) \<and> db_view d' = snd (sp_Update ch v)"
    proof (cases "chat_lookup v (chat_ID ch) = None")
      case True
      with wrote have "map ?f (tb_chats d) = tb_chats d" "n = 0" unfolding d'(2) by blast+
      then have "d' = d" "n = 0" unfolding d'(1) by simp_all
      with True d show ?thesis by (simp add: sp_Update_def throw_def)
    next
      case False
      with wrote have "n \<noteq> 0" "pg_wf d'" "db_view d' = snd (sp_Update ch v)" unfolding d' by blast+
      with False show ?thesis by (simp add: sp_Update_def ret_def)
    qed
  next
    fix d e assume d: "pg_wf d" "db_view d = v" and f: "F d = Inl e"
    show "\<not> pg_chat_ok ch"
    proof
      assume ok: "pg_chat_ok ch"
      have "first_violation (pg_chat_checks (set_chat_cols ch r)) = None"
        if "r \<in> set (tb_chats d)" "?P r" for r
        using set_chat_cols_checks [OF ok pg_tables.updated_row_name(1) [OF d pre that(1)]] that d(1)
        by (simp add: pg_wf_def)
      then have "first_violation (concat (map (\<lambda>r. pg_chat_checks (set_chat_cols ch r))
          (filter ?P (tb_chats d)))) = None"
        by (simp add: first_violation_concat_None)
      with ok f show False by (simp add: F_def pg_chat_ok_def)
    qed
  qed (auto simp: ret_def throw_def)
qed

section \<open>Users\<close>

lemma pg_queryRow_none: "pg_queryRow [] q scan = db_queryRow q scan"
  by (simp add: pg_queryRow_def db_queryRow_def)

lemma pg_user_GetByID_sim:
  "simulates (pg_at t0) quiet view_of True without_hash v (pg_user_GetByID u) (sp_GetUser u)"
  unfolding pg_user_GetByID_def pg_user_scanOne_def pg_queryRow_none
proof (rule sim_queryRow)
  fix d r rs
  assume d: "pg_wf d" "db_view d = v"
    and q: "filter (\<lambda>r. uc_id r = u \<and> uc_deleted_at r = None) (tb_users d) = r # rs"
  from q have "r \<in> set (filter (\<lambda>r. uc_id r = u \<and> uc_deleted_at r = None) (tb_users d))" by simp
  then have "uc_avatar_url r \<noteq> None" "uc_bio r \<noteq> None"
    using d(1) by (auto simp: pg_wf_def)
  then have "pg_scanUser r = Inr (user_of_row r)"
    by (auto simp: pg_scanUser_def user_of_row_def)
  with d(2) q show "\<exists>a. pg_scanUser r = Inr a \<and> sp_GetUser u v = (Ok (without_hash a), v)"
    by (auto simp: sp_GetUser_def user_lookup_view find_filter_hd)
next
  fix d assume "db_view d = v"
    and "filter (\<lambda>r. uc_id r = u \<and> uc_deleted_at r = None) (tb_users d) = []"
  then show "sp_GetUser u v = (Err (Dom ErrUserNotFound), v)"
    by (auto simp: sp_GetUser_def user_lookup_view find_filter_hd)
qed

end
