(* ===== verification/Validate.thy ===== *)
theory Validate
  imports Domain Runes
begin

text \<open>
  utils/validate/validate.go: the accumulating validator and its predicates.  The three compiled
  regular expressions are syntax trees of a small expression language over code points, matched
  by derivatives; \<open>re_match_lang\<close> shows that the matcher decides the language of the tree.
\<close>

section \<open>Regular expressions\<close>

datatype re =
    RNone
  | REps
  | RCls "nat \<Rightarrow> bool"
  | RSeq re re
  | RAlt re re
  | RStar re

fun nullable :: "re \<Rightarrow> bool" where
  "nullable RNone = False"
| "nullable REps = True"
| "nullable (RCls p) = False"
| "nullable (RSeq a b) = (nullable a \<and> nullable b)"
| "nullable (RAlt a b) = (nullable a \<or> nullable b)"
| "nullable (RStar a) = True"

fun deriv :: "nat \<Rightarrow> re \<Rightarrow> re" where
  "deriv c RNone = RNone"
| "deriv c REps = RNone"
| "deriv c (RCls p) = (if p c then REps else RNone)"
| "deriv c (RSeq a b) = (if nullable a then RAlt (RSeq (deriv c a) b) (deriv c b)
     else RSeq (deriv c a) b)"
| "deriv c (RAlt a b) = RAlt (deriv c a) (deriv c b)"
| "deriv c (RStar a) = RSeq (deriv c a) (RStar a)"

definition re_match :: "re \<Rightarrow> nat list \<Rightarrow> bool" where
  "re_match r cs = nullable (foldl (\<lambda>r c. deriv c r) r cs)"

inductive_set star :: "nat list set \<Rightarrow> nat list set" for L where
  star_Nil: "[] \<in> star L"
| star_step: "u \<in> L \<Longrightarrow> v \<in> star L \<Longrightarrow> u @ v \<in> star L"

fun lang :: "re \<Rightarrow> nat list set" where
  "lang RNone = {}"
| "lang REps = {[]}"
| "lang (RCls p) = {[c] | c. p c}"
| "lang (RSeq a b) = {u @ v | u v. u \<in> lang a \<and> v \<in> lang b}"
| "lang (RAlt a b) = lang a \<union> lang b"
| "lang (RStar a) = star (lang a)"

lemma nullable_lang: "nullable r \<longleftrightarrow> [] \<in> lang r"
  by (induction r) (auto intro: star_Nil)

lemma star_Cons: "c # w \<in> star L \<longleftrightarrow> (\<exists>u v. w = u @ v \<and> c # u \<in> L \<and> v \<in> star L)"
proof
  show "\<exists>u v. w = u @ v \<and> c # u \<in> L \<and> v \<in> star L" if "c # w \<in> star L"
    using that by (induction "c # w" arbitrary: w) (auto simp: append_eq_Cons_conv)
  show "c # w \<in> star L" if "\<exists>u v. w = u @ v \<and> c # u \<in> L \<and> v \<in> star L"
    using that star_step [of "c # _" L] by force
qed

lemma deriv_lang: "w \<in> lang (deriv c r) \<longleftrightarrow> c # w \<in> lang r"
proof (induction r arbitrary: w)
  case (RSeq a b)
  show ?case
    by (auto simp: RSeq nullable_lang Cons_eq_append_conv)
next
  case (RStar a)
  then show ?case by (auto simp: star_Cons)
qed auto

theorem re_match_lang: "re_match r w \<longleftrightarrow> w \<in> lang r"
  unfolding re_match_def
  by (induction w arbitrary: r) (simp_all add: nullable_lang deriv_lang)

definition RPlus :: "re \<Rightarrow> re" where
  "RPlus r = RSeq r (RStar r)"

fun RLit :: "nat list \<Rightarrow> re" where
  "RLit [] = REps"
| "RLit (c # cs) = RSeq (RCls (\<lambda>x. x = c)) (RLit cs)"

definition ROpt :: "re \<Rightarrow> re" where
  "ROpt r = RAlt REps r"

text \<open>Character classes, as sets of code points.  Under \<open>(?i)\<close> Go closes a class under simple
  case folding, which adds the long s and the Kelvin sign to \<open>[a-z]\<close>.\<close>

definition lower_az :: "nat \<Rightarrow> bool" where
  "lower_az c \<longleftrightarrow> 97 \<le> c \<and> c \<le> 122"

definition upper_az :: "nat \<Rightarrow> bool" where
  "upper_az c \<longleftrightarrow> 65 \<le> c \<and> c \<le> 90"

definition digit09 :: "nat \<Rightarrow> bool" where
  "digit09 c \<longleftrightarrow> 48 \<le> c \<and> c \<le> 57"

definition fold_az :: "nat \<Rightarrow> bool" where
  "fold_az c \<longleftrightarrow> lower_az c \<or> upper_az c \<or> c = 383 \<or> c = 8490"

definition ascii_of :: "string \<Rightarrow> nat list" where
  "ascii_of s = map of_char s"

definition regexp_space :: "nat \<Rightarrow> bool" where
  "regexp_space c \<longleftrightarrow> c \<in> {9, 10, 12, 13, 32}"

definition emailRe :: re where
  "emailRe =
     RSeq (RPlus (RCls (\<lambda>c. fold_az c \<or> digit09 c \<or> c \<in> set (ascii_of ''._%+-''))))
    (RSeq (RLit (ascii_of ''@''))
    (RSeq (RPlus (RCls (\<lambda>c. fold_az c \<or> digit09 c \<or> c \<in> set (ascii_of ''.-''))))
    (RSeq (RLit (ascii_of ''.''))
    (RSeq (RCls fold_az) (RPlus (RCls fold_az))))))"

definition urlRe :: re where
  "urlRe = RSeq (RLit (ascii_of ''http'')) (RSeq (ROpt (RLit (ascii_of ''s'')))
     (RSeq (RLit (ascii_of ''://'')) (RPlus (RCls (\<lambda>c. \<not> regexp_space c)))))"

definition alphanumRe :: re where
  "alphanumRe = RPlus (RCls (\<lambda>c. lower_az c \<or> upper_az c \<or> digit09 c))"

section \<open>The validator\<close>

text \<open>\<open>type V struct{ err error }\<close>, with nil as \<open>None\<close>; the first failed check is kept.\<close>

type_synonym V = "goerr option"

definition V_New :: V where
  "V_New = None"

definition Check :: "bool \<Rightarrow> string \<Rightarrow> V \<Rightarrow> V" where
  "Check cond msg v = (if v = None \<and> \<not> cond
     then Some (Wrapf [] (Dom ErrValidation) ('': '' @ msg)) else v)"

definition V_Err :: "V \<Rightarrow> ('w, unit) io" where
  "V_Err v = (case v of None \<Rightarrow> ret () | Some e \<Rightarrow> throw e)"

definition NonEmpty :: "string \<Rightarrow> bool" where
  "NonEmpty s \<longleftrightarrow> TrimSpace_runes s \<noteq> []"

definition MinLen :: "string \<Rightarrow> nat \<Rightarrow> bool" where
  "MinLen s n \<longleftrightarrow> RuneCountInString s \<ge> n"

definition MaxLen :: "string \<Rightarrow> nat \<Rightarrow> bool" where
  "MaxLen s n \<longleftrightarrow> RuneCountInString s \<le> n"

definition IsAlphanumeric :: "string \<Rightarrow> bool" where
  "IsAlphanumeric s \<longleftrightarrow> s \<noteq> [] \<and> re_match alphanumRe (runes s)"

definition IsEmail :: "string \<Rightarrow> bool" where
  "IsEmail s \<longleftrightarrow> re_match emailRe (runes s)"

definition IsURL :: "string \<Rightarrow> bool" where
  "IsURL s \<longleftrightarrow> re_match urlRe (runes s)"

definition OneOf :: "string \<Rightarrow> string list \<Rightarrow> bool" where
  "OneOf s allowed \<longleftrightarrow> s \<in> set allowed"

definition InRange :: "int \<Rightarrow> int \<Rightarrow> int \<Rightarrow> bool" where
  "InRange v lo hi \<longleftrightarrow> v \<ge> lo \<and> v \<le> hi"

text \<open>A chain of checks passes iff every condition holds; otherwise it reports a validation
  error and nothing else.\<close>

lemma Check_None [simp]: "Check cond msg None = None \<longleftrightarrow> cond"
  by (simp add: Check_def)

lemma Check_eq_None [simp]: "Check cond msg v = None \<longleftrightarrow> v = None \<and> cond"
  by (auto simp: Check_def)

definition validation_error :: "goerr \<Rightarrow> bool" where
  "validation_error e \<longleftrightarrow> (\<exists>msg. e = Wrapf [] (Dom ErrValidation) msg)"

lemma validation_error_Is: "validation_error e \<Longrightarrow> errors_Is e t \<longleftrightarrow> t = ErrValidation"
  by (auto simp: validation_error_def)

lemma Check_Some: "(\<And>e. v = Some e \<Longrightarrow> validation_error e) \<Longrightarrow> Check c m v = Some e \<Longrightarrow> validation_error e"
  by (auto simp: Check_def validation_error_def split: if_splits)

lemma V_New_None [simp]: "V_New = None"
  by (simp add: V_New_def)

lemma V_Err_None [simp]: "V_Err None = ret ()"
  by (simp add: V_Err_def)

lemma V_Err_Some [simp]: "V_Err (Some e) = throw e"
  by (simp add: V_Err_def)

text \<open>\<open>validated v\<close>: the validator holds no error other than a validation error.\<close>

definition validated :: "V \<Rightarrow> bool" where
  "validated v \<longleftrightarrow> (\<forall>e. v = Some e \<longrightarrow> validation_error e)"

lemma validated_intros [intro!]: "validated None" "validated v \<Longrightarrow> validated (Check c m v)"
  by (auto simp: validated_def intro: Check_Some)

section \<open>What the expressions accept\<close>

lemma star_RCls: "star {[c] | c. p c} = {cs. list_all p cs}"
proof (intro set_eqI iffI)
  fix cs assume "cs \<in> star {[c] | c. p c}"
  then show "cs \<in> {cs. list_all p cs}" by induction auto
next
  fix cs assume "cs \<in> {cs. list_all p cs}"
  then have "list_all p cs" by simp
  then show "cs \<in> star {[c] | c. p c}"
  proof (induction cs)
    case (Cons c cs)
    then have "[c] @ cs \<in> star {[c] | c. p c}" by (intro star_step) auto
    then show ?case by simp
  qed (rule star_Nil)
qed

lemma lang_RPlus_RCls: "lang (RPlus (RCls p)) = {cs. cs \<noteq> [] \<and> list_all p cs}"
proof (intro set_eqI)
  fix cs show "cs \<in> lang (RPlus (RCls p)) \<longleftrightarrow> cs \<in> {cs. cs \<noteq> [] \<and> list_all p cs}"
    by (cases cs) (auto simp: RPlus_def star_RCls intro: exI [of _ "[_]"])
qed

lemma IsAlphanumeric_iff:
  "IsAlphanumeric s \<longleftrightarrow> runes s \<noteq> [] \<and> list_all (\<lambda>c. lower_az c \<or> upper_az c \<or> digit09 c) (runes s)"
proof -
  have "s = [] \<Longrightarrow> runes s = []" by (simp add: runes_def bytes_of_def)
  then show ?thesis
    by (auto simp: IsAlphanumeric_def alphanumRe_def re_match_lang lang_RPlus_RCls)
qed

end
