(* ===== verification/UcChat.thy ===== *)
theory UcChat
  imports ChatPort Validate
begin

text \<open>
  internal/usecase/chat (chat.go, dto.go): the chat use cases, one definition per method, over
  any chat repository \<open>chats\<close> and the user lookup \<open>getUser\<close> (\<open>users.GetByID\<close>, the one user
  operation they call).  The reading of the clock and the fresh identifier that a method takes
  are arguments \<open>now\<close> and \<open>newID\<close>.  The log lines are left out.
\<close>

section \<open>Inputs (dto.go)\<close>

record CreateDirectInput =
  cdi_TargetUserID :: uuid

definition CreateDirectInput_Validate :: "CreateDirectInput \<Rightarrow> V" where
  "CreateDirectInput_Validate inp =
     Check (cdi_TargetUserID inp \<noteq> uuid_Nil) ''target_user_id is required'' V_New"

record CreateGroupInput =
  cgi_Name :: string
  cgi_Description :: string
  cgi_MemberIDs :: "uuid list"

definition CreateGroupInput_Validate :: "CreateGroupInput \<Rightarrow> V" where
  "CreateGroupInput_Validate inp =
     Check (MaxLen (cgi_Description inp) 500) ''description must be at most 500 characters''
    (Check (MaxLen (cgi_Name inp) 100) ''name must be at most 100 characters''
    (Check (MinLen (cgi_Name inp) 1) ''name is required'' V_New))"

record UpdateGroupInput =
  ugi_Name :: "string option"
  ugi_Description :: "string option"
  ugi_AvatarURL :: "string option"

definition UpdateGroupInput_Validate :: "UpdateGroupInput \<Rightarrow> V" where
  "UpdateGroupInput_Validate inp =
     (let v0 = V_New;
          v1 = (case ugi_Name inp of None \<Rightarrow> v0
                | Some n \<Rightarrow> Check (MaxLen n 100) ''name must be at most 100 characters''
                             (Check (MinLen n 1) ''name must not be empty'' v0));
          v2 = (case ugi_Description inp of None \<Rightarrow> v1
                | Some d \<Rightarrow> Check (MaxLen d 500) ''description must be at most 500 characters'' v1);
          v3 = (case ugi_AvatarURL inp of None \<Rightarrow> v2
                | Some a \<Rightarrow> Check (IsURL a) ''avatar_url must be a valid HTTP/HTTPS URL'' v2)
      in v3)"

record AddMemberInput =
  ami_UserID :: uuid

definition AddMemberInput_Validate :: "AddMemberInput \<Rightarrow> V" where
  "AddMemberInput_Validate inp =
     Check (ami_UserID inp \<noteq> uuid_Nil) ''user_id is required'' V_New"

record ChangeMemberRoleInput =
  cri_UserID :: uuid
  cri_Role :: string

definition ChangeMemberRoleInput_Validate :: "ChangeMemberRoleInput \<Rightarrow> V" where
  "ChangeMemberRoleInput_Validate inp =
     Check (OneOf (cri_Role inp) [''admin'', ''member'']) ''role must be one of: admin, member''
    (Check (cri_UserID inp \<noteq> uuid_Nil) ''user_id is required'' V_New)"

section \<open>Helpers\<close>

definition assertMember :: "'w ChatRepository \<Rightarrow> uuid \<Rightarrow> uuid \<Rightarrow> ('w, unit) io" where
  "assertMember chats chatID userID =
     call (cr_IsMember chats chatID userID) (\<lambda>ok.
     if \<not> ok then throw (Dom ErrNotChatMember) else ret ())"

text \<open>The loop of \<open>nextOwner\<close> with its \<open>fallback\<close> variable.\<close>

fun next_owner :: "uuid \<Rightarrow> ChatMember option \<Rightarrow> ChatMember list \<Rightarrow> ChatMember option" where
  "next_owner excludeID fallback [] = fallback"
| "next_owner excludeID fallback (m # ms) =
     (if mem_UserID m = excludeID then next_owner excludeID fallback ms
      else if mem_Role m = MemberRoleAdmin then Some m
      else next_owner excludeID (if fallback = None then Some m else fallback) ms)"

definition nextOwner :: "ChatMember list \<Rightarrow> uuid \<Rightarrow> ChatMember option" where
  "nextOwner members excludeID = next_owner excludeID None members"

section \<open>Creating chats\<close>

definition chats_CreateDirect ::
  "'w ChatRepository \<Rightarrow> (uuid \<Rightarrow> ('w, User) io) \<Rightarrow> time \<Rightarrow> uuid \<Rightarrow> uuid \<Rightarrow> CreateDirectInput \<Rightarrow>
     ('w, Chat \<times> bool) io" where
  "chats_CreateDirect chats getUser now newID callerID inp =
     call (V_Err (CreateDirectInput_Validate inp)) (\<lambda>_.
     if cdi_TargetUserID inp = callerID then throw (Dom ErrForbidden)
     else
     call (getUser (cdi_TargetUserID inp)) (\<lambda>_.
     branch (cr_GetDirectChat chats callerID (cdi_TargetUserID inp))
       (\<lambda>existing. ret (existing, False))
       (\<lambda>err. if \<not> errors_Is err ErrChatNotFound then throw err
        else
        let chat = \<lparr>chat_ID = newID, chat_Type = ChatTypeDirect, chat_Name = [],
              chat_AvatarURL = [], chat_Description = [], chat_CreatedBy = callerID,
              chat_CreatedAt = now, chat_UpdatedAt = now\<rparr>;
            members =
              [\<lparr>mem_ChatID = chat_ID chat, mem_UserID = callerID, mem_Role = MemberRoleMember,
                mem_JoinedAt = now, mem_User = None\<rparr>,
               \<lparr>mem_ChatID = chat_ID chat, mem_UserID = cdi_TargetUserID inp,
                mem_Role = MemberRoleMember, mem_JoinedAt = now, mem_User = None\<rparr>]
        in call (cr_CreateWithMembers chats chat members) (\<lambda>_. ret (chat, True)))))"

text \<open>The loop that collects the members, with its \<open>seen\<close> set.\<close>

fun group_members :: "uuid \<Rightarrow> time \<Rightarrow> uuid set \<Rightarrow> uuid list \<Rightarrow> ChatMember list" where
  "group_members chatID now seen [] = []"
| "group_members chatID now seen (uid # ids) =
     (if uid \<in> seen then group_members chatID now seen ids
      else \<lparr>mem_ChatID = chatID, mem_UserID = uid, mem_Role = MemberRoleMember,
             mem_JoinedAt = now, mem_User = None\<rparr> # group_members chatID now (insert uid seen) ids)"

definition new_group :: "time \<Rightarrow> uuid \<Rightarrow> uuid \<Rightarrow> CreateGroupInput \<Rightarrow> Chat" where
  "new_group now newID callerID inp = \<lparr>chat_ID = newID, chat_Type = ChatTypeGroup,
     chat_Name = cgi_Name inp, chat_AvatarURL = [], chat_Description = cgi_Description inp,
     chat_CreatedBy = callerID, chat_CreatedAt = now, chat_UpdatedAt = now\<rparr>"

definition new_group_members :: "time \<Rightarrow> uuid \<Rightarrow> uuid \<Rightarrow> CreateGroupInput \<Rightarrow> ChatMember list" where
  "new_group_members now newID callerID inp =
     \<lparr>mem_ChatID = newID, mem_UserID = callerID, mem_Role = MemberRoleOwner,
      mem_JoinedAt = now, mem_User = None\<rparr>
     # group_members newID now {callerID} (cgi_MemberIDs inp)"

definition chats_CreateGroup ::
  "'w ChatRepository \<Rightarrow> (uuid \<Rightarrow> ('w, User) io) \<Rightarrow> time \<Rightarrow> uuid \<Rightarrow> uuid \<Rightarrow> CreateGroupInput \<Rightarrow>
     ('w, Chat) io" where
  "chats_CreateGroup chats getUser now newID callerID inp =
     call (V_Err (CreateGroupInput_Validate inp)) (\<lambda>_.
     call (for_each (\<lambda>uid. if uid = callerID then ret () else call (getUser uid) (\<lambda>_. ret ()))
             (cgi_MemberIDs inp)) (\<lambda>_.
     call (cr_CreateWithMembers chats (new_group now newID callerID inp)
             (new_group_members now newID callerID inp)) (\<lambda>_.
     ret (new_group now newID callerID inp))))"

section \<open>Reading chats\<close>

definition chats_GetChat :: "'w ChatRepository \<Rightarrow> uuid \<Rightarrow> uuid \<Rightarrow> ('w, Chat) io" where
  "chats_GetChat chats chatID callerID =
     call (assertMember chats chatID callerID) (\<lambda>_. cr_GetByID chats chatID)"

definition chats_GetUserChats :: "'w ChatRepository \<Rightarrow> uuid \<Rightarrow> ('w, ChatPreview list) io" where
  "chats_GetUserChats chats callerID = cr_GetUserChats chats callerID"

definition chats_GetMembers :: "'w ChatRepository \<Rightarrow> uuid \<Rightarrow> uuid \<Rightarrow> ('w, ChatMember list) io" where
  "chats_GetMembers chats chatID callerID =
     call (assertMember chats chatID callerID) (\<lambda>_. cr_GetMembers chats chatID)"

section \<open>Changing chats\<close>

definition edited_group :: "time \<Rightarrow> UpdateGroupInput \<Rightarrow> Chat \<Rightarrow> Chat" where
  "edited_group now inp chat =
     (let c1 = (case ugi_Name inp of None \<Rightarrow> chat | Some n \<Rightarrow> chat\<lparr>chat_Name := n\<rparr>);
          c2 = (case ugi_Description inp of None \<Rightarrow> c1 | Some d \<Rightarrow> c1\<lparr>chat_Description := d\<rparr>);
          c3 = (case ugi_AvatarURL inp of None \<Rightarrow> c2 | Some a \<Rightarrow> c2\<lparr>chat_AvatarURL := a\<rparr>)
      in c3\<lparr>chat_UpdatedAt := now\<rparr>)"

definition chats_UpdateGroup ::
  "'w ChatRepository \<Rightarrow> time \<Rightarrow> uuid \<Rightarrow> uuid \<Rightarrow> UpdateGroupInput \<Rightarrow> ('w, Chat) io" where
  "chats_UpdateGroup chats now chatID callerID inp =
     call (V_Err (UpdateGroupInput_Validate inp)) (\<lambda>_.
     call (cr_GetByID chats chatID) (\<lambda>chat.
     if IsDirect chat then throw (Dom ErrForbidden)
     else
     call (cr_GetMember chats chatID callerID) (\<lambda>caller.
     if \<not> CanManageMembers (mem_Role caller) then throw (Dom ErrInsufficientRights)
     else
     let chat' = edited_group now inp chat in
     call (cr_Update chats chat') (\<lambda>_. ret chat'))))"

definition chats_AddMember ::
  "'w ChatRepository \<Rightarrow> (uuid \<Rightarrow> ('w, User) io) \<Rightarrow> time \<Rightarrow> uuid \<Rightarrow> uuid \<Rightarrow> AddMemberInput \<Rightarrow>
     ('w, unit) io" where
  "chats_AddMember chats getUser now chatID callerID inp =
     call (V_Err (AddMemberInput_Validate inp)) (\<lambda>_.
     call (cr_GetByID chats chatID) (\<lambda>chat.
     if IsDirect chat then throw (Dom ErrForbidden)
     else
     call (cr_GetMember chats chatID callerID) (\<lambda>caller.
     if \<not> CanManageMembers (mem_Role caller) then throw (Dom ErrInsufficientRights)
     else
     call (getUser (ami_UserID inp)) (\<lambda>_.
     call (cr_IsMember chats chatID (ami_UserID inp)) (\<lambda>already.
     if already then throw (Dom ErrAlreadyChatMember)
     else
     call (cr_AddMember chats \<lparr>mem_ChatID = chatID, mem_UserID = ami_UserID inp,
             mem_Role = MemberRoleMember, mem_JoinedAt = now, mem_User = None\<rparr>) (\<lambda>_. ret ()))))))"

definition chats_RemoveMember ::
  "'w ChatRepository \<Rightarrow> uuid \<Rightarrow> uuid \<Rightarrow> uuid \<Rightarrow> ('w, unit) io" where
  "chats_RemoveMember chats chatID callerID targetID =
     call (cr_GetByID chats chatID) (\<lambda>chat.
     if IsDirect chat then throw (Dom ErrForbidden)
     else
     call (cr_GetMember chats chatID callerID) (\<lambda>caller.
     if \<not> CanManageMembers (mem_Role caller) then throw (Dom ErrInsufficientRights)
     else
     call (cr_GetMember chats chatID targetID) (\<lambda>target.
     if mem_Role target = MemberRoleOwner then throw (Dom ErrCannotRemoveOwner)
     else if mem_Role target = MemberRoleAdmin \<and> mem_Role caller \<noteq> MemberRoleOwner
     then throw (Dom ErrInsufficientRights)
     else
     call (cr_RemoveMember chats chatID targetID) (\<lambda>_. ret ()))))"

definition chats_ChangeMemberRole ::
  "'w ChatRepository \<Rightarrow> uuid \<Rightarrow> uuid \<Rightarrow> ChangeMemberRoleInput \<Rightarrow> ('w, unit) io" where
  "chats_ChangeMemberRole chats chatID callerID inp =
     call (V_Err (ChangeMemberRoleInput_Validate inp)) (\<lambda>_.
     if cri_UserID inp = callerID then throw (Dom ErrForbidden)
     else
     call (cr_GetMember chats chatID callerID) (\<lambda>caller.
     if mem_Role caller \<noteq> MemberRoleOwner then throw (Dom ErrInsufficientRights)
     else
     call (cr_GetMember chats chatID (cri_UserID inp)) (\<lambda>_.
     call (cr_UpdateMemberRole chats chatID (cri_UserID inp) (cri_Role inp)) (\<lambda>_. ret ()))))"

definition chats_LeaveChat :: "'w ChatRepository \<Rightarrow> uuid \<Rightarrow> uuid \<Rightarrow> ('w, unit) io" where
  "chats_LeaveChat chats chatID callerID =
     call (cr_GetByID chats chatID) (\<lambda>chat.
     if IsDirect chat then throw (Dom ErrForbidden)
     else
     call (cr_GetMember chats chatID callerID) (\<lambda>caller.
     if mem_Role caller = MemberRoleOwner
     then
       call (cr_GetMembers chats chatID) (\<lambda>members.
       case nextOwner members callerID of
         None \<Rightarrow> cr_Delete chats chatID
       | Some next \<Rightarrow>
           call (cr_UpdateMemberRole chats chatID (mem_UserID next) MemberRoleOwner) (\<lambda>_.
           call (cr_RemoveMember chats chatID callerID) (\<lambda>_. ret ())))
     else call (cr_RemoveMember chats chatID callerID) (\<lambda>_. ret ())))"

section \<open>Facts on the helpers\<close>

lemma Validate_ok:
  "CreateDirectInput_Validate d = None \<longleftrightarrow> cdi_TargetUserID d \<noteq> uuid_Nil"
  "CreateGroupInput_Validate g = None \<longleftrightarrow> cgi_Name g \<noteq> [] \<and>
     RuneCountInString (cgi_Name g) \<le> 100 \<and> RuneCountInString (cgi_Description g) \<le> 500"
  "AddMemberInput_Validate a = None \<longleftrightarrow> ami_UserID a \<noteq> uuid_Nil"
  "ChangeMemberRoleInput_Validate r = None \<longleftrightarrow>
     cri_UserID r \<noteq> uuid_Nil \<and> cri_Role r \<in> {MemberRoleAdmin, MemberRoleMember}"
  using RuneCount_0_iff [of "cgi_Name g"]
  by (auto simp: CreateDirectInput_Validate_def CreateGroupInput_Validate_def MinLen_def MaxLen_def
      AddMemberInput_Validate_def ChangeMemberRoleInput_Validate_def OneOf_def
      MemberRoleAdmin_def MemberRoleMember_def simp del: RuneCount_0_iff)

lemma UpdateGroupInput_ok:
  "UpdateGroupInput_Validate u = None \<longleftrightarrow>
     (\<forall>n. ugi_Name u = Some n \<longrightarrow> n \<noteq> [] \<and> RuneCountInString n \<le> 100) \<and>
     (\<forall>d. ugi_Description u = Some d \<longrightarrow> RuneCountInString d \<le> 500) \<and>
     (\<forall>a. ugi_AvatarURL u = Some a \<longrightarrow> IsURL a)"
proof -
  have "RuneCountInString n \<ge> 1 \<longleftrightarrow> n \<noteq> []" for n
    using RuneCount_0_iff [of n] by linarith
  then show ?thesis
    by (auto simp: UpdateGroupInput_Validate_def MinLen_def MaxLen_def split: option.splits)
qed

lemma edited_group_fields [simp]:
  "chat_ID (edited_group now inp c) = chat_ID c" "chat_Type (edited_group now inp c) = chat_Type c"
  "chat_CreatedBy (edited_group now inp c) = chat_CreatedBy c"
  "chat_CreatedAt (edited_group now inp c) = chat_CreatedAt c"
  "chat_UpdatedAt (edited_group now inp c) = now"
  "chat_Name (edited_group now inp c) = (case ugi_Name inp of None \<Rightarrow> chat_Name c | Some n \<Rightarrow> n)"
  "chat_Description (edited_group now inp c) =
     (case ugi_Description inp of None \<Rightarrow> chat_Description c | Some d \<Rightarrow> d)"
  "chat_AvatarURL (edited_group now inp c) =
     (case ugi_AvatarURL inp of None \<Rightarrow> chat_AvatarURL c | Some a \<Rightarrow> a)"
  by (auto simp: edited_group_def Let_def split: option.split)

text \<open>Members of a new group: the caller and the listed users, each once.\<close>

lemma group_members_ids:
  "set (map mem_UserID (group_members c t seen ids)) = set ids - seen"
  "distinct (map mem_UserID (group_members c t seen ids))"
  by (induction c t seen ids rule: group_members.induct) auto

lemma group_members_rows:
  "m \<in> set (group_members c t seen ids) \<Longrightarrow> mem_ChatID m = c \<and> mem_Role m = MemberRoleMember \<and>
     mem_JoinedAt m = t \<and> mem_User m = None"
  by (induction c t seen ids rule: group_members.induct) (auto split: if_splits)

lemma new_group_members_facts:
  "set (map mem_UserID (new_group_members t c u inp)) = insert u (set (cgi_MemberIDs inp))"
  "distinct (map mem_UserID (new_group_members t c u inp))"
  "m \<in> set (new_group_members t c u inp) \<Longrightarrow> mem_ChatID m = c \<and> mem_User m = None \<and>
     mem_JoinedAt m = t \<and> (mem_Role m = (if mem_UserID m = u then MemberRoleOwner else MemberRoleMember))"
proof -
  note ids = group_members_ids [of c t "{u}" "cgi_MemberIDs inp"]
  then show "set (map mem_UserID (new_group_members t c u inp)) = insert u (set (cgi_MemberIDs inp))"
    by (auto simp: new_group_members_def)
  have "u \<notin> set (map mem_UserID (group_members c t {u} (cgi_MemberIDs inp)))"
    unfolding ids(1) by simp
  with ids(2) show "distinct (map mem_UserID (new_group_members t c u inp))"
    by (simp add: new_group_members_def)
  assume "m \<in> set (new_group_members t c u inp)"
  moreover have "m \<in> set (group_members c t {u} (cgi_MemberIDs inp)) \<Longrightarrow> mem_UserID m \<noteq> u"
    using ids(1) by force
  ultimately show "mem_ChatID m = c \<and> mem_User m = None \<and>
     mem_JoinedAt m = t \<and> (mem_Role m = (if mem_UserID m = u then MemberRoleOwner else MemberRoleMember))"
    using group_members_rows [of m c t "{u}" "cgi_MemberIDs inp"]
    by (auto simp: new_group_members_def)
qed

text \<open>The successor of a leaving owner: the first admin, else the first other member.\<close>

lemma next_owner_eq:
  "next_owner u fb ms = (case filter (\<lambda>m. mem_UserID m \<noteq> u \<and> mem_Role m = MemberRoleAdmin) ms of
      m # _ \<Rightarrow> Some m
    | [] \<Rightarrow> (case fb of Some m \<Rightarrow> Some m | None \<Rightarrow>
        (case filter (\<lambda>m. mem_UserID m \<noteq> u) ms of [] \<Rightarrow> None | m # _ \<Rightarrow> Some m)))"
  by (induction u fb ms rule: next_owner.induct) (auto split: option.splits list.splits)

lemma nextOwner_eq:
  "nextOwner ms u = (case filter (\<lambda>m. mem_UserID m \<noteq> u \<and> mem_Role m = MemberRoleAdmin) ms of
      m # _ \<Rightarrow> Some m
    | [] \<Rightarrow> (case filter (\<lambda>m. mem_UserID m \<noteq> u) ms of [] \<Rightarrow> None | m # _ \<Rightarrow> Some m))"
  by (simp add: nextOwner_def next_owner_eq split: list.split)

lemma nextOwner_Some: "nextOwner ms u = Some m \<Longrightarrow> m \<in> set ms \<and> mem_UserID m \<noteq> u"
  by (auto simp: nextOwner_eq split: list.splits dest!: filter_eq_ConsD)

lemma next_owner_None: "next_owner u fb ms = None \<longleftrightarrow> fb = None \<and> (\<forall>m \<in> set ms. mem_UserID m = u)"
  by (induction u fb ms rule: next_owner.induct) auto

lemma nextOwner_None: "nextOwner ms u = None \<longleftrightarrow> (\<forall>m \<in> set ms. mem_UserID m = u)"
  by (simp add: nextOwner_def next_owner_None)

lemma nextOwner_strip: "nextOwner (map strip_user ms) u = map_option strip_user (nextOwner ms u)"
  by (auto simp: nextOwner_eq filter_map comp_def split: list.splits)

end
