(* ===== verification/UcChatSim.thy ===== *)
theory UcChatSim
  imports UcChat
begin

text \<open>
  The chat use cases over the contract.  Inside the chat port, each use case run on the
  repository simulates the same use case run on the abstract store, so everything proved of
  the abstract run below holds of every back end.  All but \<open>LeaveChat\<close> issue at most one write
  and are therefore atomic; \<open>LeaveChat\<close> is treated through its intermediate state.
\<close>

section \<open>Simulation steps\<close>

lemma spec_chats_simps [simp]:
  "cr_CreateWithMembers spec_chats = sp_CreateWithMembers" "cr_GetByID spec_chats = sp_GetByID"
  "cr_Update spec_chats = sp_Update" "cr_Delete spec_chats = sp_Delete"
  "cr_AddMember spec_chats = sp_AddMember" "cr_RemoveMember spec_chats = sp_RemoveMember"
  "cr_GetMember spec_chats = sp_GetMember" "cr_GetMembers spec_chats = sp_GetMembers"
  "cr_UpdateMemberRole spec_chats = sp_UpdateMemberRole"
  "cr_GetUserChats spec_chats = sp_GetUserChats" "cr_GetDirectChat spec_chats = sp_GetDirectChat"
  "cr_IsMember spec_chats = sp_IsMember"
  by (simp_all add: spec_chats_def)

lemma spec_reads [simp]:
  "snd (sp_GetByID c v) = v" "snd (sp_GetMember c u v) = v" "snd (sp_GetMembers c v) = v"
  "snd (sp_GetDirectChat a b v) = v" "snd (sp_IsMember c u v) = v" "snd (sp_GetUser u v) = v"
  "snd (sp_GetUserChats u v) = v"
  by (auto simp: spec_chat_defs sp_GetUser_def split: option.split)

lemma spec_reads_Ok:
  "fst (sp_GetByID c v) = Ok x \<longleftrightarrow> chat_lookup v c = Some x"
  "fst (sp_GetMember c u v) = Ok m \<longleftrightarrow> member_lookup v c u = Some m \<and> user_lookup v u \<noteq> None"
  "fst (sp_GetMembers c v) = Ok ms \<longleftrightarrow> ms = roster v c"
  "fst (sp_GetDirectChat a b v) = Ok x \<longleftrightarrow> direct_lookup v a b = Some x"
  "fst (sp_IsMember c u v) = Ok p \<longleftrightarrow> p = is_member v c u"
  "fst (sp_GetUser u v) = Ok y \<longleftrightarrow> (\<exists>x. user_lookup v u = Some x \<and> y = without_hash x)"
  by (auto simp: spec_chat_defs sp_GetUser_def split: option.split)

lemma simulates_read:
  assumes "simulates I qt view True obs v m am" "snd (am v) = v"
    and "\<And>a. fst (am v) = Ok (obs a) \<Longrightarrow> simulates I qt view ok obs' v (k a) (ak (obs a))"
  shows "simulates I qt view ok obs' v (call m k) (call am ak)"
  using simulates_weaken [OF assms(1)] assms(2,3) by (intro simulates_call) auto

lemma simulates_read_id:
  assumes "simulates I qt view True id v m am" "snd (am v) = v"
    and "\<And>a. fst (am v) = Ok a \<Longrightarrow> simulates I qt view ok obs' v (k a) (ak a)"
  shows "simulates I qt view ok obs' v (call m k) (call am ak)"
  using assms by (intro simulates_read [OF assms(1)]) auto

lemma simulates_if:
  "(b \<Longrightarrow> simulates I qt view ok obs v m am) \<Longrightarrow> (\<not> b \<Longrightarrow> simulates I qt view ok obs v n an) \<Longrightarrow>
     simulates I qt view ok obs v (if b then m else n) (if b then am else an)"
  by simp

lemma simulates_V_Err:
  "(x = None \<Longrightarrow> simulates I qt view ok obs v (k ()) (ak ())) \<Longrightarrow>
     simulates I qt view ok obs v (call (V_Err x) k) (call (V_Err x) ak)"
  by (cases x) (auto intro: simulates_throw)

lemma simulates_for_each:
  assumes "\<And>x. x \<in> set xs \<Longrightarrow> simulates I qt view True id v (f x) (af x)"
    "\<And>x. x \<in> set xs \<Longrightarrow> snd (af x v) = v"
  shows "simulates I qt view True id v (for_each f xs) (for_each af xs)"
  using assms
proof (induction xs)
  case (Cons x xs)
  then show ?case by (auto intro!: simulates_call)
qed (auto intro: simulates_ret)

lemma for_each_read:
  "(\<And>x. x \<in> set xs \<Longrightarrow> snd (f x v) = v) \<Longrightarrow> snd (for_each f xs v) = v"
  by (induction xs) (auto simp: call_def branch_def ret_def throw_def split: outcome.split)

lemma for_each_Ok:
  "(\<And>x. x \<in> set xs \<Longrightarrow> snd (f x v) = v) \<Longrightarrow> fst (for_each f xs v) = Ok () \<Longrightarrow>
     \<forall>x \<in> set xs. fst (f x v) = Ok ()"
  by (induction xs) (auto simp: call_def branch_def ret_def throw_def split: outcome.splits)

lemma simulates_write:
  "simulates I qt view ok id v m am \<Longrightarrow>
     simulates I qt view ok id v (call m (\<lambda>_. ret x)) (call am (\<lambda>_. ret x))"
  by (rule simulates_last) auto

section \<open>Users named in a group\<close>

definition check_user :: "(uuid \<Rightarrow> ('w, User) io) \<Rightarrow> uuid \<Rightarrow> uuid \<Rightarrow> ('w, unit) io" where
  "check_user getUser callerID uid =
     (if uid = callerID then ret () else call (getUser uid) (\<lambda>_. ret ()))"

lemma check_user_spec [simp]: "snd (check_user sp_GetUser u x v) = v"
  by (auto simp: check_user_def sp_GetUser_def ret_def call_def branch_def throw_def split: option.split)

lemma check_user_Ok: "fst (check_user sp_GetUser u x v) = Ok () \<longleftrightarrow> x = u \<or> user_lookup v x \<noteq> None"
  by (auto simp: check_user_def sp_GetUser_def ret_def call_def branch_def throw_def split: option.split)

lemma chats_CreateGroup_eq:
  "chats_CreateGroup chats getUser now newID callerID inp =
     call (V_Err (CreateGroupInput_Validate inp)) (\<lambda>_.
     call (for_each (check_user getUser callerID) (cgi_MemberIDs inp)) (\<lambda>_.
     call (cr_CreateWithMembers chats (new_group now newID callerID inp)
             (new_group_members now newID callerID inp)) (\<lambda>_.
     ret (new_group now newID callerID inp))))"
  by (simp add: chats_CreateGroup_def check_user_def [abs_def])

section \<open>The use cases on any back end\<close>

text \<open>The identifier is fresh and the caller is a live user.\<close>

definition caller_pre :: "aview \<Rightarrow> uuid \<Rightarrow> uuid \<Rightarrow> bool" where
  "caller_pre v newID callerID \<longleftrightarrow> chat_unused v newID \<and> user_lookup v callerID \<noteq> None"

definition direct_chat :: "time \<Rightarrow> uuid \<Rightarrow> uuid \<Rightarrow> Chat" where
  "direct_chat now newID callerID = \<lparr>chat_ID = newID, chat_Type = ChatTypeDirect, chat_Name = [],
     chat_AvatarURL = [], chat_Description = [], chat_CreatedBy = callerID,
     chat_CreatedAt = now, chat_UpdatedAt = now\<rparr>"

definition direct_members :: "time \<Rightarrow> uuid \<Rightarrow> uuid \<Rightarrow> uuid \<Rightarrow> ChatMember list" where
  "direct_members now newID callerID targetID =
     [\<lparr>mem_ChatID = newID, mem_UserID = callerID, mem_Role = MemberRoleMember,
       mem_JoinedAt = now, mem_User = None\<rparr>,
      \<lparr>mem_ChatID = newID, mem_UserID = targetID, mem_Role = MemberRoleMember,
       mem_JoinedAt = now, mem_User = None\<rparr>]"

lemma chats_CreateDirect_eq:
  "chats_CreateDirect chats getUser now newID callerID inp =
     call (V_Err (CreateDirectInput_Validate inp)) (\<lambda>_.
     if cdi_TargetUserID inp = callerID then throw (Dom ErrForbidden)
     else call (getUser (cdi_TargetUserID inp)) (\<lambda>_.
     branch (cr_GetDirectChat chats callerID (cdi_TargetUserID inp))
       (\<lambda>existing. ret (existing, False))
       (\<lambda>err. if \<not> errors_Is err ErrChatNotFound then throw err
        else call (cr_CreateWithMembers chats (direct_chat now newID callerID)
               (direct_members now newID callerID (cdi_TargetUserID inp)))
             (\<lambda>_. ret (direct_chat now newID callerID, True)))))"
  unfolding chats_CreateDirect_def direct_chat_def direct_members_def Let_def Chat.select_convs ..

lemma direct_create_pre:
  "caller_pre v newID u \<Longrightarrow> t \<noteq> u \<Longrightarrow> user_lookup v t \<noteq> None \<Longrightarrow>
     create_pre v (direct_chat now newID u) (direct_members now newID u t)"
  by (auto simp: create_pre_def members_pre_def caller_pre_def direct_chat_def direct_members_def
      name_rule_def ChatTypeDirect_def)

lemma group_create_pre:
  assumes "caller_pre v newID u" "cgi_Name inp \<noteq> []"
    "\<forall>x \<in> set (cgi_MemberIDs inp). x = u \<or> user_lookup v x \<noteq> None"
  shows "create_pre v (new_group now newID u inp) (new_group_members now newID u inp)"
proof -
  note facts = new_group_members_facts [where t = now and c = newID and u = u and inp = inp]
  have "user_lookup v (mem_UserID m) \<noteq> None" if "m \<in> set (new_group_members now newID u inp)" for m
  proof -
    have "mem_UserID m \<in> insert u (set (cgi_MemberIDs inp))"
      using that facts(1) by (metis image_eqI set_map)
    then show ?thesis using assms(1,3) by (auto simp: caller_pre_def)
  qed
  with assms facts show ?thesis
    by (auto simp: create_pre_def members_pre_def caller_pre_def new_group_def name_rule_def
        ChatTypeGroup_def)
qed

lemma edited_name_rule:
  assumes "aview_wf v" "chat_lookup v c = Some x" "\<not> IsDirect x" "UpdateGroupInput_Validate inp = None"
  shows "update_pre v (edited_group now inp x)"
proof -
  from assms(2) have "\<exists>live. (x, live) \<in> set (av_chats v) \<and> chat_ID x = c"
    by (auto simp: chat_lookup_def find_Some_iff) (metis fst_conv nth_mem old.prod.case surj_pair)
  then have "name_rule (chat_Type x) (chat_Name x)" "chat_ID x = c"
    using assms(1) by (auto simp: aview_wf_def)
  then show ?thesis
    using assms(2-) by (auto simp: update_pre_def UpdateGroupInput_ok name_rule_def IsDirect_def
        ChatTypeDirect_def split: option.split)
qed

lemma role_pre_simps [simp]:
  "role_pre MemberRoleOwner" "role_pre MemberRoleAdmin" "role_pre MemberRoleMember"
  by (simp_all add: role_pre_def)

context chat_port begin

lemma assertMember_sim:
  "simulates I qt view True id v (assertMember R c u) (assertMember spec_chats c u)"
  unfolding assertMember_def
  by (auto intro!: simulates_read [OF sim_IsMember] simulates_throw simulates_ret)

lemma GetChat_sim: "simulates I qt view True id v (chats_GetChat R c u) (chats_GetChat spec_chats c u)"
  unfolding chats_GetChat_def
  by (rule simulates_read [OF assertMember_sim])
    (auto simp: assertMember_def call_def branch_def sp_IsMember_def ret_def throw_def sim_GetByID)

lemma GetMembers_sim:
  "simulates I qt view True (map strip_user) v (chats_GetMembers R c u) (chats_GetMembers spec_chats c u)"
  unfolding chats_GetMembers_def
  by (rule simulates_read [OF assertMember_sim])
    (auto simp: assertMember_def call_def branch_def sp_IsMember_def ret_def throw_def sim_GetMembers)

lemma GetUserChats_sim:
  "simulates I qt view True id v (chats_GetUserChats R u) (chats_GetUserChats spec_chats u)"
  unfolding chats_GetUserChats_def by (simp add: sim_GetUserChats)

lemma CreateDirect_sim:
  assumes "caller_pre v newID u"
  shows "simulates I qt view (chat_ok (direct_chat now newID u)) id v
     (chats_CreateDirect R getUser now newID u inp) (chats_CreateDirect spec_chats sp_GetUser now newID u inp)"
  unfolding chats_CreateDirect_eq
proof (intro simulates_V_Err simulates_if simulates_throw simulates_read [OF sim_GetUser])
  fix x :: User
  let ?t = "cdi_TargetUserID inp" and ?ok = "chat_ok (direct_chat now newID u)"
  assume ne: "?t \<noteq> u" and x: "fst (sp_GetUser ?t v) = Ok (without_hash x)"
  have create: "simulates I qt view ?ok id v
      (cr_CreateWithMembers R (direct_chat now newID u) (direct_members now newID u ?t))
      (sp_CreateWithMembers (direct_chat now newID u) (direct_members now newID u ?t))"
    using assms ne x by (intro sim_CreateWithMembers direct_create_pre) (auto simp: spec_reads_Ok)
  show "simulates I qt view ?ok id v
      (branch (cr_GetDirectChat R u ?t) (\<lambda>existing. ret (existing, False))
        (\<lambda>err. if \<not> errors_Is err ErrChatNotFound then throw err
          else call (cr_CreateWithMembers R (direct_chat now newID u) (direct_members now newID u ?t))
                (\<lambda>_. ret (direct_chat now newID u, True))))
      (branch (cr_GetDirectChat spec_chats u ?t) (\<lambda>existing. ret (existing, False))
        (\<lambda>err. if \<not> errors_Is err ErrChatNotFound then throw err
          else call (cr_CreateWithMembers spec_chats (direct_chat now newID u) (direct_members now newID u ?t))
                (\<lambda>_. ret (direct_chat now newID u, True))))"
  proof (rule simulates_branch [where obs = id])
    show "simulates I qt view ?ok id v (cr_GetDirectChat R u ?t) (cr_GetDirectChat spec_chats u ?t)"
      using simulates_weaken [OF sim_GetDirectChat] by simp
  qed (auto simp: is_storage_error_iff intro: simulates_ret simulates_throw simulates_write [OF create])
qed auto

lemma CreateGroup_sim:
  assumes "caller_pre v newID u"
  shows "simulates I qt view (chat_ok (new_group now newID u inp)) id v
     (chats_CreateGroup R getUser now newID u inp) (chats_CreateGroup spec_chats sp_GetUser now newID u inp)"
  unfolding chats_CreateGroup_eq
proof (intro simulates_V_Err)
  assume V: "CreateGroupInput_Validate inp = None"
  have check: "simulates I qt view True id v (check_user getUser u x) (check_user sp_GetUser u x)" for x
    unfolding check_user_def
    by (auto intro!: simulates_read [OF sim_GetUser] simulates_ret)
  show "simulates I qt view (chat_ok (new_group now newID u inp)) id v
      (call (for_each (check_user getUser u) (cgi_MemberIDs inp)) (\<lambda>_.
        call (cr_CreateWithMembers R (new_group now newID u inp) (new_group_members now newID u inp))
          (\<lambda>_. ret (new_group now newID u inp))))
      (call (for_each (check_user sp_GetUser u) (cgi_MemberIDs inp)) (\<lambda>_.
        call (cr_CreateWithMembers spec_chats (new_group now newID u inp) (new_group_members now newID u inp))
          (\<lambda>_. ret (new_group now newID u inp))))"
  proof (rule simulates_read [OF simulates_for_each])
    fix a :: unit
    assume "fst (for_each (check_user sp_GetUser u) (cgi_MemberIDs inp) v) = Ok (id a)"
    then have "\<forall>x \<in> set (cgi_MemberIDs inp). x = u \<or> user_lookup v x \<noteq> None"
      using for_each_Ok [of "cgi_MemberIDs inp" "check_user sp_GetUser u" v] by (simp add: check_user_Ok)
    with assms V have "create_pre v (new_group now newID u inp) (new_group_members now newID u inp)"
      by (intro group_create_pre) (auto simp: Validate_ok)
    from sim_CreateWithMembers [OF this]
    show "simulates I qt view (chat_ok (new_group now newID u inp)) id v
        (call (cr_CreateWithMembers R (new_group now newID u inp) (new_group_members now newID u inp))
          (\<lambda>_. ret (new_group now newID u inp)))
        (call (cr_CreateWithMembers spec_chats (new_group now newID u inp) (new_group_members now newID u inp))
          (\<lambda>_. ret (new_group now newID u inp)))"
      by (auto intro: simulates_last)
  qed (auto simp: check for_each_read)
qed

lemma UpdateGroup_sim_from:
  assumes wf: "aview_wf v"
    and update: "\<And>x. chat_lookup v c = Some x \<Longrightarrow> update_pre v (edited_group now inp x) \<Longrightarrow>
      simulates I qt view (chat_ok (edited_group now inp x)) id v (cr_Update R (edited_group now inp x))
        (sp_Update (edited_group now inp x))"
  shows "simulates I qt view (\<forall>x. chat_lookup v c = Some x \<longrightarrow> UpdateGroupInput_Validate inp = None \<longrightarrow>
        chat_ok (edited_group now inp x)) id v
     (chats_UpdateGroup R now c u inp) (chats_UpdateGroup spec_chats now c u inp)"
  unfolding chats_UpdateGroup_def Let_def spec_chats_simps
proof (intro simulates_V_Err simulates_read_id [OF sim_GetByID] simulates_if simulates_throw spec_reads
    simulates_read [OF sim_GetMember])
  fix x m assume x: "fst (sp_GetByID c v) = Ok x" "\<not> IsDirect x"
    and V: "UpdateGroupInput_Validate inp = None"
  let ?ok = "\<forall>x. chat_lookup v c = Some x \<longrightarrow> UpdateGroupInput_Validate inp = None \<longrightarrow>
        chat_ok (edited_group now inp x)"
  have look: "chat_lookup v c = Some x" using x by (simp add: spec_reads_Ok)
  from update [OF look edited_name_rule [OF wf look x(2) V]] look V
  have last: "simulates I qt view ?ok id v (call (cr_Update R (edited_group now inp x))
        (\<lambda>_. ret (edited_group now inp x)))
      (call (sp_Update (edited_group now inp x)) (\<lambda>_. ret (edited_group now inp x)))"
    by (intro simulates_write) (auto elim: simulates_weaken)
  then show "simulates I qt view ?ok id v
      (if \<not> CanManageMembers (mem_Role m) then throw (Dom ErrInsufficientRights)
       else call (cr_Update R (edited_group now inp x)) (\<lambda>_. ret (edited_group now inp x)))
      (if \<not> CanManageMembers (mem_Role (strip_user m)) then throw (Dom ErrInsufficientRights)
       else call (sp_Update (edited_group now inp x)) (\<lambda>_. ret (edited_group now inp x)))"
    by (auto intro: simulates_throw)
qed

lemma UpdateGroup_sim:
  assumes "aview_wf v" "retimed v c now"
  shows "simulates I qt view (\<forall>x. chat_lookup v c = Some x \<longrightarrow> UpdateGroupInput_Validate inp = None \<longrightarrow>
        chat_ok (edited_group now inp x)) id v
     (chats_UpdateGroup R now c u inp) (chats_UpdateGroup spec_chats now c u inp)"
proof (rule UpdateGroup_sim_from [OF assms(1)])
  fix x assume x: "chat_lookup v c = Some x" "update_pre v (edited_group now inp x)"
  then have "chat_ID x = c" by (auto simp: chat_lookup_def dest: find_Some_set)
  with assms(2) x show "simulates I qt view (chat_ok (edited_group now inp x)) id v
      (cr_Update R (edited_group now inp x)) (sp_Update (edited_group now inp x))"
    by (intro sim_Update) simp_all
qed

lemma AddMember_sim:
  "simulates I qt view True id v (chats_AddMember R getUser now c u inp)
     (chats_AddMember spec_chats sp_GetUser now c u inp)"
  unfolding chats_AddMember_def spec_chats_simps
proof (intro simulates_V_Err simulates_read_id [OF sim_GetByID] simulates_if simulates_throw spec_reads
    simulates_read [OF sim_GetMember])
  fix x m assume x: "fst (sp_GetByID c v) = Ok x"
  let ?m = "\<lparr>mem_ChatID = c, mem_UserID = ami_UserID inp, mem_Role = MemberRoleMember,
      mem_JoinedAt = now, mem_User = None\<rparr>"
  have added: "simulates I qt view True id v (call (cr_AddMember R ?m) (\<lambda>_. ret ()))
      (call (sp_AddMember ?m) (\<lambda>_. ret ()))"
    if "fst (sp_GetUser (ami_UserID inp) v) = Ok y" for y
    using that x by (intro simulates_write sim_AddMember) (auto simp: add_pre_def spec_reads_Ok)
  show "simulates I qt view True id v
      (if \<not> CanManageMembers (mem_Role m) then throw (Dom ErrInsufficientRights)
       else call (getUser (ami_UserID inp)) (\<lambda>_. call (cr_IsMember R c (ami_UserID inp)) (\<lambda>already.
         if already then throw (Dom ErrAlreadyChatMember)
         else call (cr_AddMember R ?m) (\<lambda>_. ret ()))))
      (if \<not> CanManageMembers (mem_Role (strip_user m)) then throw (Dom ErrInsufficientRights)
       else call (sp_GetUser (ami_UserID inp)) (\<lambda>_. call (sp_IsMember c (ami_UserID inp)) (\<lambda>already.
         if already then throw (Dom ErrAlreadyChatMember)
         else call (sp_AddMember ?m) (\<lambda>_. ret ()))))"
    unfolding strip_user_fields
    by (intro simulates_if simulates_throw simulates_read [OF sim_GetUser]
        simulates_read_id [OF sim_IsMember] spec_reads added)
qed

lemma RemoveMember_sim:
  "simulates I qt view True id v (chats_RemoveMember R c u t) (chats_RemoveMember spec_chats c u t)"
  unfolding chats_RemoveMember_def spec_chats_simps
proof (intro simulates_read_id [OF sim_GetByID] simulates_if simulates_throw spec_reads
    simulates_read [OF sim_GetMember])
  fix m
  have last: "simulates I qt view True id v (call (cr_RemoveMember R c t) (\<lambda>_. ret ()))
      (call (sp_RemoveMember c t) (\<lambda>_. ret ()))"
    by (rule simulates_write [OF sim_RemoveMember])
  show "simulates I qt view True id v
      (if \<not> CanManageMembers (mem_Role m) then throw (Dom ErrInsufficientRights)
       else call (cr_GetMember R c t) (\<lambda>target.
         if mem_Role target = MemberRoleOwner then throw (Dom ErrCannotRemoveOwner)
         else if mem_Role target = MemberRoleAdmin \<and> mem_Role m \<noteq> MemberRoleOwner
         then throw (Dom ErrInsufficientRights)
         else call (cr_RemoveMember R c t) (\<lambda>_. ret ())))
      (if \<not> CanManageMembers (mem_Role (strip_user m)) then throw (Dom ErrInsufficientRights)
       else call (sp_GetMember c t) (\<lambda>target.
         if mem_Role target = MemberRoleOwner then throw (Dom ErrCannotRemoveOwner)
         else if mem_Role target = MemberRoleAdmin \<and> mem_Role (strip_user m) \<noteq> MemberRoleOwner
         then throw (Dom ErrInsufficientRights)
         else call (sp_RemoveMember c t) (\<lambda>_. ret ())))"
    unfolding strip_user_fields
  proof (intro simulates_if simulates_throw spec_reads simulates_read [OF sim_GetMember])
    fix a
    show "simulates I qt view True id v
        (if mem_Role a = MemberRoleOwner then throw (Dom ErrCannotRemoveOwner)
         else if mem_Role a = MemberRoleAdmin \<and> mem_Role m \<noteq> MemberRoleOwner
         then throw (Dom ErrInsufficientRights)
         else call (cr_RemoveMember R c t) (\<lambda>_. ret ()))
        (if mem_Role (strip_user a) = MemberRoleOwner then throw (Dom ErrCannotRemoveOwner)
         else if mem_Role (strip_user a) = MemberRoleAdmin \<and> mem_Role m \<noteq> MemberRoleOwner
         then throw (Dom ErrInsufficientRights)
         else call (sp_RemoveMember c t) (\<lambda>_. ret ()))"
      unfolding strip_user_fields by (intro simulates_if simulates_throw last)
  qed
qed

text \<open>Setting the role a member already has is where the back ends differ, so the plain port
  promises \<open>ChangeMemberRole\<close> only for a real change.\<close>

lemma ChangeMemberRole_sim_from:
  assumes update: "role_pre (cri_Role inp) \<Longrightarrow> simulates I qt view True id v
      (cr_UpdateMemberRole R c (cri_UserID inp) (cri_Role inp))
      (sp_UpdateMemberRole c (cri_UserID inp) (cri_Role inp))"
  shows "simulates I qt view True id v (chats_ChangeMemberRole R c u inp)
     (chats_ChangeMemberRole spec_chats c u inp)"
  unfolding chats_ChangeMemberRole_def spec_chats_simps
proof (intro simulates_V_Err simulates_if simulates_throw spec_reads simulates_read [OF sim_GetMember])
  fix m assume "ChangeMemberRoleInput_Validate inp = None"
  then have "simulates I qt view True id v
      (call (cr_UpdateMemberRole R c (cri_UserID inp) (cri_Role inp)) (\<lambda>_. ret ()))
      (call (sp_UpdateMemberRole c (cri_UserID inp) (cri_Role inp)) (\<lambda>_. ret ()))"
    by (intro simulates_write update) (auto simp: Validate_ok)
  then show "simulates I qt view True id v
      (if mem_Role m \<noteq> MemberRoleOwner then throw (Dom ErrInsufficientRights)
       else call (cr_GetMember R c (cri_UserID inp)) (\<lambda>_.
         call (cr_UpdateMemberRole R c (cri_UserID inp) (cri_Role inp)) (\<lambda>_. ret ())))
      (if mem_Role (strip_user m) \<noteq> MemberRoleOwner then throw (Dom ErrInsufficientRights)
       else call (sp_GetMember c (cri_UserID inp)) (\<lambda>_.
         call (sp_UpdateMemberRole c (cri_UserID inp) (cri_Role inp)) (\<lambda>_. ret ())))"
    unfolding strip_user_fields
    by (intro simulates_if simulates_throw spec_reads simulates_read [OF sim_GetMember])
qed

lemma ChangeMemberRole_sim:
  "role_of v c (cri_UserID inp) \<noteq> Some (cri_Role inp) \<Longrightarrow>
     simulates I qt view True id v (chats_ChangeMemberRole R c u inp)
       (chats_ChangeMemberRole spec_chats c u inp)"
  by (intro ChangeMemberRole_sim_from sim_UpdateMemberRole)

end

context chat_port_idempotent begin

lemma UpdateGroup_sim_any:
  "aview_wf v \<Longrightarrow> simulates I qt view (\<forall>x. chat_lookup v c = Some x \<longrightarrow> UpdateGroupInput_Validate inp = None \<longrightarrow>
        chat_ok (edited_group now inp x)) id v
     (chats_UpdateGroup R now c u inp) (chats_UpdateGroup spec_chats now c u inp)"
  by (intro UpdateGroup_sim_from sim_Update_any)

lemma ChangeMemberRole_sim_any:
  "simulates I qt view True id v (chats_ChangeMemberRole R c u inp)
     (chats_ChangeMemberRole spec_chats c u inp)"
  by (intro ChangeMemberRole_sim_from sim_UpdateMemberRole_any)

end

end
