(* ===== verification/ChatSpec.thy ===== *)
theory ChatSpec
  imports UcChatSim
begin

text \<open>
  The chat use cases on the abstract store: for each, exactly when it succeeds and what it then
  changes, and that it changes nothing otherwise.  From these follow the ownership invariants:
  every live group keeps an owner, and never more than one.
\<close>

section \<open>Runs of the abstract operations\<close>

lemma sp_run [go_elims]:
  "sp_GetByID c v = (Ok x, v') \<longleftrightarrow> chat_lookup v c = Some x \<and> v' = v"
  "sp_GetMember c u v = (Ok m, v') \<longleftrightarrow> member_lookup v c u = Some m \<and> user_lookup v u \<noteq> None \<and> v' = v"
  "sp_GetMembers c v = (Ok ms, v') \<longleftrightarrow> ms = roster v c \<and> v' = v"
  "sp_GetDirectChat a b v = (Ok x, v') \<longleftrightarrow> direct_lookup v a b = Some x \<and> v' = v"
  "sp_IsMember c u v = (Ok p, v') \<longleftrightarrow> p = is_member v c u \<and> v' = v"
  "sp_GetUser u v = (Ok y, v') \<longleftrightarrow> (\<exists>x. user_lookup v u = Some x \<and> y = without_hash x) \<and> v' = v"
  by (auto simp: spec_chat_defs sp_GetUser_def split: option.split)

definition without_member :: "aview \<Rightarrow> uuid \<Rightarrow> uuid \<Rightarrow> aview" where
  "without_member v c u = v\<lparr>av_members :=
     filter (\<lambda>m. \<not> (mem_ChatID m = c \<and> mem_UserID m = u)) (av_members v)\<rparr>"

definition with_role :: "aview \<Rightarrow> uuid \<Rightarrow> uuid \<Rightarrow> MemberRole \<Rightarrow> aview" where
  "with_role v c u r = v\<lparr>av_members := map (\<lambda>m. if mem_ChatID m = c \<and> mem_UserID m = u
     then m\<lparr>mem_Role := r\<rparr> else m) (av_members v)\<rparr>"

definition without_chat :: "aview \<Rightarrow> uuid \<Rightarrow> aview" where
  "without_chat v c = v\<lparr>av_chats := map (\<lambda>(x, live).
     if live \<and> chat_ID x = c then (buried x, False) else (x, live)) (av_chats v)\<rparr>"

definition with_chat :: "aview \<Rightarrow> Chat \<Rightarrow> aview" where
  "with_chat v c = v\<lparr>av_chats := map (\<lambda>(x, live). if chat_ID x = chat_ID c \<and> live
     then (x\<lparr>chat_Name := chat_Name c, chat_AvatarURL := chat_AvatarURL c,
             chat_Description := chat_Description c, chat_UpdatedAt := chat_UpdatedAt c\<rparr>, live)
     else (x, live)) (av_chats v)\<rparr>"

lemma sp_write_run [go_elims]:
  "sp_RemoveMember c u v = (Ok x, v') \<longleftrightarrow> is_member v c u \<and> v' = without_member v c u"
  "sp_UpdateMemberRole c u r v = (Ok x, v') \<longleftrightarrow> is_member v c u \<and> v' = with_role v c u r"
  "sp_Delete c v = (Ok x, v') \<longleftrightarrow> v' = without_chat v c"
  "sp_AddMember m v = (Ok x, v') \<longleftrightarrow> \<not> is_member v (mem_ChatID m) (mem_UserID m) \<and>
     v' = v\<lparr>av_members := av_members v @ [m]\<rparr>"
  "sp_Update ch v = (Ok x, v') \<longleftrightarrow> chat_lookup v (chat_ID ch) \<noteq> None \<and> v' = with_chat v ch"
  "sp_CreateWithMembers ch ms v = (Ok x, v') \<longleftrightarrow>
     v' = v\<lparr>av_chats := av_chats v @ [(ch, True)], av_members := av_members v @ ms\<rparr>"
  by (auto simp: spec_chat_defs without_member_def with_role_def without_chat_def with_chat_def)

lemma is_member_iff: "is_member v c u \<longleftrightarrow> (\<exists>m \<in> set (av_members v). mem_ChatID m = c \<and> mem_UserID m = u)"
  by (auto simp: is_member_def member_lookup_def find_None_iff)

lemma member_lookup_with_role:
  "member_lookup (with_role v c x r) d u = map_option (\<lambda>m. if mem_ChatID m = c \<and> mem_UserID m = x
     then m\<lparr>mem_Role := r\<rparr> else m) (member_lookup v d u)"
proof -
  have "mem_ChatID (if b then m\<lparr>mem_Role := r\<rparr> else m) = mem_ChatID m"
    "mem_UserID (if b then m\<lparr>mem_Role := r\<rparr> else m) = mem_UserID m" for b and m :: ChatMember
    by simp_all
  then show ?thesis by (simp add: member_lookup_def with_role_def find_map comp_def)
qed

lemma with_role_member [simp]: "is_member (with_role v c x r) d u = is_member v d u"
  by (simp add: is_member_def member_lookup_with_role)

lemma V_Err_run [go_elims]: "V_Err x v = (Ok a, v') \<longleftrightarrow> x = None \<and> v' = v"
  by (cases x) (auto simp: ret_def throw_def)

lemma if_throw_run [go_elims]:
  "(if b then throw e else m) v = (Ok a, v') \<longleftrightarrow> \<not> b \<and> m v = (Ok a, v')"
  by (simp add: throw_def)

lemma member_is_member: "member_lookup v c u = Some m \<Longrightarrow> is_member v c u"
  by (simp add: is_member_def)

lemma role_of_lookup: "member_lookup v c u = Some m \<Longrightarrow> role_of v c u = Some (mem_Role m)"
  by (simp add: role_of_def)

text \<open>A user of a chat that \<open>GetMember\<close> finds.\<close>

definition active_role :: "aview \<Rightarrow> uuid \<Rightarrow> uuid \<Rightarrow> MemberRole option" where
  "active_role v c u = (if user_lookup v u = None then None else role_of v c u)"

lemma active_role_Some:
  "active_role v c u = Some r \<longleftrightarrow> user_lookup v u \<noteq> None \<and> (\<exists>m. member_lookup v c u = Some m \<and> mem_Role m = r)"
  by (auto simp: active_role_def role_of_def)

definition live_group :: "aview \<Rightarrow> uuid \<Rightarrow> bool" where
  "live_group v c \<longleftrightarrow> (\<exists>x. chat_lookup v c = Some x \<and> \<not> IsDirect x)"

section \<open>When the use cases succeed, and what they change\<close>

definition may_remove :: "aview \<Rightarrow> uuid \<Rightarrow> uuid \<Rightarrow> uuid \<Rightarrow> bool" where
  "may_remove v c u t \<longleftrightarrow> live_group v c \<and>
     (\<exists>ru rt. active_role v c u = Some ru \<and> active_role v c t = Some rt \<and> CanManageMembers ru \<and>
        rt \<noteq> MemberRoleOwner \<and> (rt = MemberRoleAdmin \<longrightarrow> ru = MemberRoleOwner))"

lemma RemoveMember_spec:
  "chats_RemoveMember spec_chats c u t v = (Ok (), v') \<longleftrightarrow> may_remove v c u t \<and> v' = without_member v c t"
  unfolding chats_RemoveMember_def spec_chats_simps may_remove_def live_group_def active_role_Some
  by (auto simp: go_elims dest: member_is_member)

definition may_change_role :: "aview \<Rightarrow> uuid \<Rightarrow> uuid \<Rightarrow> ChangeMemberRoleInput \<Rightarrow> bool" where
  "may_change_role v c u inp \<longleftrightarrow>
     cri_UserID inp \<noteq> uuid_Nil \<and> cri_Role inp \<in> {MemberRoleAdmin, MemberRoleMember} \<and>
     cri_UserID inp \<noteq> u \<and> active_role v c u = Some MemberRoleOwner \<and>
     active_role v c (cri_UserID inp) \<noteq> None"

lemma ChangeMemberRole_spec:
  "chats_ChangeMemberRole spec_chats c u inp v = (Ok (), v') \<longleftrightarrow>
     may_change_role v c u inp \<and> v' = with_role v c (cri_UserID inp) (cri_Role inp)"
proof -
  have "active_role v c x \<noteq> None \<longleftrightarrow> user_lookup v x \<noteq> None \<and> (\<exists>m. member_lookup v c x = Some m)" for x
    by (auto simp: active_role_def role_of_def)
  then show ?thesis
    unfolding chats_ChangeMemberRole_def spec_chats_simps active_role_Some may_change_role_def
    by (auto simp: go_elims Validate_ok dest: member_is_member)
qed

definition may_add :: "aview \<Rightarrow> uuid \<Rightarrow> uuid \<Rightarrow> uuid \<Rightarrow> bool" where
  "may_add v c u t \<longleftrightarrow> t \<noteq> uuid_Nil \<and> live_group v c \<and>
     (\<exists>ru. active_role v c u = Some ru \<and> CanManageMembers ru) \<and>
     user_lookup v t \<noteq> None \<and> \<not> is_member v c t"

definition plain_member :: "uuid \<Rightarrow> uuid \<Rightarrow> time \<Rightarrow> ChatMember" where
  "plain_member c u t = \<lparr>mem_ChatID = c, mem_UserID = u, mem_Role = MemberRoleMember,
     mem_JoinedAt = t, mem_User = None\<rparr>"

lemma AddMember_spec:
  "chats_AddMember spec_chats sp_GetUser now c u inp v = (Ok (), v') \<longleftrightarrow>
     may_add v c u (ami_UserID inp) \<and>
     v' = v\<lparr>av_members := av_members v @ [plain_member c (ami_UserID inp) now]\<rparr>"
  unfolding chats_AddMember_def spec_chats_simps live_group_def active_role_Some may_add_def plain_member_def
  by (auto simp: go_elims Validate_ok)

definition may_edit :: "aview \<Rightarrow> uuid \<Rightarrow> uuid \<Rightarrow> UpdateGroupInput \<Rightarrow> bool" where
  "may_edit v c u inp \<longleftrightarrow> UpdateGroupInput_Validate inp = None \<and> live_group v c \<and>
     (\<exists>ru. active_role v c u = Some ru \<and> CanManageMembers ru)"

lemma UpdateGroup_spec:
  "chats_UpdateGroup spec_chats now c u inp v = (Ok ch, v') \<longleftrightarrow>
     may_edit v c u inp \<and> (\<exists>x. chat_lookup v c = Some x \<and> ch = edited_group now inp x) \<and>
     v' = with_chat v ch"
proof -
  have "chat_lookup v c = Some x \<Longrightarrow> chat_ID x = c" for x
    by (auto simp: chat_lookup_def find_Some_iff)
  then show ?thesis
    unfolding chats_UpdateGroup_def spec_chats_simps active_role_Some Let_def may_edit_def live_group_def
    by (auto simp: go_elims)
qed

lemma LeaveChat_spec:
  "chats_LeaveChat spec_chats c u v = (Ok (), v') \<longleftrightarrow>
     live_group v c \<and>
     (\<exists>r. active_role v c u = Some r \<and>
        (if r = MemberRoleOwner
         then (case nextOwner (roster v c) u of
                 None \<Rightarrow> v' = without_chat v c
               | Some m \<Rightarrow> is_member v c (mem_UserID m) \<and>
                   v' = without_member (with_role v c (mem_UserID m) MemberRoleOwner) c u)
         else v' = without_member v c u))"
proof -
  note keep = with_role_member
  have run: "(if b then f else g) w = x \<longleftrightarrow> (if b then f w = x else g w = x)" for b f g x and w :: aview
    by simp
  have owner: "(call (sp_GetMembers c) (\<lambda>members. case nextOwner members u of
        None \<Rightarrow> sp_Delete c
      | Some next \<Rightarrow> call (sp_UpdateMemberRole c (mem_UserID next) MemberRoleOwner)
          (\<lambda>_. call (sp_RemoveMember c u) (\<lambda>_. ret ())))) v = (Ok (), v') \<longleftrightarrow>
     (case nextOwner (roster v c) u of
        None \<Rightarrow> v' = without_chat v c
      | Some m \<Rightarrow> is_member v c (mem_UserID m) \<and> is_member v c u \<and>
          v' = without_member (with_role v c (mem_UserID m) MemberRoleOwner) c u)"
    by (cases "nextOwner (roster v c) u") (auto simp: go_elims keep)
  have other: "call (sp_RemoveMember c u) (\<lambda>_. ret ()) v = (Ok (), v') \<longleftrightarrow>
      is_member v c u \<and> v' = without_member v c u"
    by (auto simp: go_elims)
  have lookup: "call (sp_GetMember c u) k v = (Ok (), v') \<longleftrightarrow>
      (\<exists>m. member_lookup v c u = Some m \<and> user_lookup v u \<noteq> None \<and> k m v = (Ok (), v'))" for k
    by (auto simp: go_elims)
  have group: "call (sp_GetByID c) k v = (Ok (), v') \<longleftrightarrow>
      (\<exists>x. chat_lookup v c = Some x \<and> k x v = (Ok (), v'))" for k
    by (auto simp: go_elims)
  have "chats_LeaveChat spec_chats c u v = (Ok (), v') \<longleftrightarrow> live_group v c \<and>
      (\<exists>m. member_lookup v c u = Some m \<and> user_lookup v u \<noteq> None \<and>
        (if mem_Role m = MemberRoleOwner
         then (case nextOwner (roster v c) u of
                 None \<Rightarrow> v' = without_chat v c
               | Some m \<Rightarrow> is_member v c (mem_UserID m) \<and> is_member v c u \<and>
                   v' = without_member (with_role v c (mem_UserID m) MemberRoleOwner) c u)
         else is_member v c u \<and> v' = without_member v c u))"
    unfolding chats_LeaveChat_def spec_chats_simps live_group_def group lookup run
      owner other throw_Ok_iff
    by (cases "chat_lookup v c"; cases "member_lookup v c u") simp_all
  also have "\<dots> \<longleftrightarrow> live_group v c \<and> (\<exists>m. member_lookup v c u = Some m \<and> user_lookup v u \<noteq> None \<and>
        (if mem_Role m = MemberRoleOwner
         then (case nextOwner (roster v c) u of
                 None \<Rightarrow> v' = without_chat v c
               | Some m \<Rightarrow> is_member v c (mem_UserID m) \<and>
                   v' = without_member (with_role v c (mem_UserID m) MemberRoleOwner) c u)
         else v' = without_member v c u))"
  proof (cases "is_member v c u")
    case False
    then have "member_lookup v c u = None" by (simp add: is_member_def)
    then show ?thesis by simp
  qed (cases "nextOwner (roster v c) u"; simp)
  finally show ?thesis
    unfolding active_role_Some by blast
qed

lemma GetChat_spec:
  "chats_GetChat spec_chats c u v = (Ok x, v') \<longleftrightarrow> is_member v c u \<and> chat_lookup v c = Some x \<and> v' = v"
  unfolding chats_GetChat_def assertMember_def spec_chats_simps by (auto simp: go_elims)

lemma GetMembers_spec:
  "chats_GetMembers spec_chats c u v = (Ok ms, v') \<longleftrightarrow> is_member v c u \<and> ms = roster v c \<and> v' = v"
  unfolding chats_GetMembers_def assertMember_def spec_chats_simps by (auto simp: go_elims)

lemma for_each_check_user:
  "for_each (check_user sp_GetUser u) ids v = (Ok (), v') \<longleftrightarrow>
     (\<forall>x \<in> set ids. x = u \<or> user_lookup v x \<noteq> None) \<and> v' = v"
proof -
  have "check_user sp_GetUser u x v = (Ok (), v') \<longleftrightarrow> (x = u \<or> user_lookup v x \<noteq> None) \<and> v' = v" for x v'
    by (auto simp: check_user_def go_elims)
  then show ?thesis by (induction ids) (auto simp: go_elims)
qed

lemma CreateGroup_spec:
  "chats_CreateGroup spec_chats sp_GetUser now newID u inp v = (Ok ch, v') \<longleftrightarrow>
     CreateGroupInput_Validate inp = None \<and>
     (\<forall>x \<in> set (cgi_MemberIDs inp). x = u \<or> user_lookup v x \<noteq> None) \<and>
     ch = new_group now newID u inp \<and>
     v' = v\<lparr>av_chats := av_chats v @ [(ch, True)],
            av_members := av_members v @ new_group_members now newID u inp\<rparr>"
  unfolding chats_CreateGroup_eq spec_chats_simps by (auto simp: go_elims for_each_check_user)

lemma CreateDirect_spec:
  "chats_CreateDirect spec_chats sp_GetUser now newID u inp v = (Ok (ch, created), v') \<longleftrightarrow>
     CreateDirectInput_Validate inp = None \<and> cdi_TargetUserID inp \<noteq> u \<and>
     user_lookup v (cdi_TargetUserID inp) \<noteq> None \<and>
     (case direct_lookup v u (cdi_TargetUserID inp) of
        Some x \<Rightarrow> ch = x \<and> \<not> created \<and> v' = v
      | None \<Rightarrow> ch = direct_chat now newID u \<and> created \<and>
          v' = v\<lparr>av_chats := av_chats v @ [(ch, True)],
                 av_members := av_members v @ direct_members now newID u (cdi_TargetUserID inp)\<rparr>)"
proof -
  let ?t = "cdi_TargetUserID inp"
  have "branch (sp_GetDirectChat u ?t) (\<lambda>existing. ret (existing, False))
      (\<lambda>err. if \<not> errors_Is err ErrChatNotFound then throw err
        else call (sp_CreateWithMembers (direct_chat now newID u) (direct_members now newID u ?t))
               (\<lambda>_. ret (direct_chat now newID u, True))) v = (Ok (ch, created), v') \<longleftrightarrow>
     (case direct_lookup v u ?t of
        Some x \<Rightarrow> ch = x \<and> \<not> created \<and> v' = v
      | None \<Rightarrow> ch = direct_chat now newID u \<and> created \<and>
          v' = v\<lparr>av_chats := av_chats v @ [(ch, True)],
                 av_members := av_members v @ direct_members now newID u ?t\<rparr>)" (is "?run \<longleftrightarrow> ?res")
  proof (cases "direct_lookup v u ?t")
    case None
    then have run: "sp_GetDirectChat u ?t v = (Err (Dom ErrChatNotFound), v)"
      by (simp add: sp_GetDirectChat_def)
    show ?thesis unfolding branch_run(2) [where m = "sp_GetDirectChat u ?t", OF run] using None by (auto simp: go_elims)
  next
    case (Some x)
    then have run: "sp_GetDirectChat u ?t v = (Ok x, v)"
      by (simp add: sp_GetDirectChat_def)
    show ?thesis unfolding branch_run(1) [where m = "sp_GetDirectChat u ?t", OF run] using Some by (auto simp: go_elims)
  qed
  then show ?thesis
    unfolding chats_CreateDirect_eq spec_chats_simps
    by (auto simp: go_elims)
qed

text \<open>An abstract run that does not succeed changes nothing.\<close>

definition failsafe :: "'a aop \<Rightarrow> bool" where
  "failsafe m \<longleftrightarrow> (\<forall>v. (\<exists>a. fst (m v) = Ok a) \<or> snd (m v) = v)"

lemma failsafe_read: "(\<And>v. snd (m v) = v) \<Longrightarrow> (\<And>a. failsafe (k a)) \<Longrightarrow> failsafe (call m k)"
  unfolding failsafe_def call_def branch_def throw_def
  by (auto split: outcome.split)

lemma failsafe_write:
  assumes "failsafe m"
  shows "failsafe (call m (\<lambda>_. ret x))"
  unfolding failsafe_def
proof
  fix v
  from assms have "(\<exists>a. fst (m v) = Ok a) \<or> snd (m v) = v" by (simp add: failsafe_def)
  then show "(\<exists>a. fst (call m (\<lambda>_. ret x) v) = Ok a) \<or> snd (call m (\<lambda>_. ret x) v) = v"
    by (cases "fst (m v)") (simp_all add: call_def branch_def throw_def ret_def)
qed

lemma failsafe_simps [intro!]:
  "failsafe (throw e)" "failsafe (ret a)" "failsafe m \<Longrightarrow> failsafe n \<Longrightarrow> failsafe (if b then m else n)"
  "failsafe (sp_RemoveMember c u)" "failsafe (sp_UpdateMemberRole c u r)" "failsafe (sp_AddMember m')"
  "failsafe (sp_Update ch)" "failsafe (sp_Delete c)" "failsafe (sp_CreateWithMembers ch ms)"
  by (auto simp: failsafe_def throw_def ret_def spec_chat_defs)

lemma failsafe_V_Err: "failsafe k \<Longrightarrow> failsafe (call (V_Err x) (\<lambda>_. k))"
  by (cases x) auto

lemma failsafe_ops:
  "failsafe (chats_RemoveMember spec_chats c u t)" "failsafe (chats_ChangeMemberRole spec_chats c u r)"
  "failsafe (chats_AddMember spec_chats sp_GetUser now c u a)"
  "failsafe (chats_UpdateGroup spec_chats now c u g)"
  "failsafe (chats_CreateGroup spec_chats sp_GetUser now i u cg)"
  unfolding chats_RemoveMember_def chats_ChangeMemberRole_def chats_AddMember_def chats_UpdateGroup_def
    chats_CreateGroup_eq Let_def spec_chats_simps
  by (intro failsafe_V_Err failsafe_read failsafe_write failsafe_simps spec_reads for_each_read
      check_user_spec conjI)+

end
