(* ===== verification/ChatOwner.thy ===== *)
theory ChatOwner
  imports ChatSpec
begin

text \<open>
  Ownership of groups as an invariant of the running service.  \<open>LeaveChat\<close> writes twice: it first
  promotes a successor and then removes the caller, so a failure between the two leaves the
  state \<open>promoted\<close>.  A step is one use case with any arguments in any state, whatever statements
  fail; every live group always has an owner, and without failures exactly one.
\<close>

section \<open>LeaveChat on a repository\<close>

definition promoted :: "aview \<Rightarrow> uuid \<Rightarrow> uuid \<Rightarrow> aview" where
  "promoted v c u = (case nextOwner (roster v c) u of
     None \<Rightarrow> v | Some m \<Rightarrow> with_role v c (mem_UserID m) MemberRoleOwner)"

lemma sp_UpdateMemberRole_snd: "fst (sp_UpdateMemberRole c x r v) = Ok () \<Longrightarrow>
    snd (sp_UpdateMemberRole c x r v) = with_role v c x r"
  by (auto simp: sp_UpdateMemberRole_def with_role_def split: if_splits)

context chat_port begin

lemma LeaveChat_sim_from:
  assumes update: "\<And>m. nextOwner (roster v c) u = Some m \<Longrightarrow> simulates I qt view True id v
      (cr_UpdateMemberRole R c (mem_UserID m) MemberRoleOwner)
      (sp_UpdateMemberRole c (mem_UserID m) MemberRoleOwner)"
  shows "sim_upto I qt view id v {v, promoted v c u} (chats_LeaveChat R c u) (chats_LeaveChat spec_chats c u)"
  unfolding chats_LeaveChat_def spec_chats_simps
proof (rule sim_upto_call [OF sim_GetByID], simp)
  fix x
  let ?S = "{v, promoted v c u}"
  have remove: "sim_upto I qt view id v' ?S (call (cr_RemoveMember R c u) (\<lambda>_. ret ()))
      (call (sp_RemoveMember c u) (\<lambda>_. ret ()))" if "v' \<in> ?S" for v'
    using that by (intro sim_upto_simulates simulates_write [OF sim_RemoveMember])
  have owner: "sim_upto I qt view id v ?S
      (call (cr_GetMembers R c) (\<lambda>members. case nextOwner members u of
         None \<Rightarrow> cr_Delete R c
       | Some next \<Rightarrow> call (cr_UpdateMemberRole R c (mem_UserID next) MemberRoleOwner)
           (\<lambda>_. call (cr_RemoveMember R c u) (\<lambda>_. ret ()))))
      (call (sp_GetMembers c) (\<lambda>members. case nextOwner members u of
         None \<Rightarrow> sp_Delete c
       | Some next \<Rightarrow> call (sp_UpdateMemberRole c (mem_UserID next) MemberRoleOwner)
           (\<lambda>_. call (sp_RemoveMember c u) (\<lambda>_. ret ()))))"
  proof (rule sim_upto_call [OF sim_GetMembers], simp)
    fix ms assume "fst (sp_GetMembers c v) = Ok (map strip_user ms)"
    then have ms: "roster v c = map strip_user ms" by (simp add: spec_reads_Ok)
    show "sim_upto I qt view id (snd (sp_GetMembers c v)) ?S
        (case nextOwner ms u of None \<Rightarrow> cr_Delete R c
         | Some next \<Rightarrow> call (cr_UpdateMemberRole R c (mem_UserID next) MemberRoleOwner)
             (\<lambda>_. call (cr_RemoveMember R c u) (\<lambda>_. ret ())))
        (case nextOwner (map strip_user ms) u of None \<Rightarrow> sp_Delete c
         | Some next \<Rightarrow> call (sp_UpdateMemberRole c (mem_UserID next) MemberRoleOwner)
             (\<lambda>_. call (sp_RemoveMember c u) (\<lambda>_. ret ())))"
    proof (cases "nextOwner ms u")
      case None
      then show ?thesis
        using sim_upto_simulates [OF sim_Delete] by (simp add: nextOwner_strip)
    next
      case (Some m)
      then have next_v: "nextOwner (roster v c) u = Some (strip_user m)"
        by (simp add: ms nextOwner_strip)
      then have mid: "promoted v c u = with_role v c (mem_UserID m) MemberRoleOwner"
        by (simp add: promoted_def)
      have "sim_upto I qt view id v ?S
          (call (cr_UpdateMemberRole R c (mem_UserID m) MemberRoleOwner)
             (\<lambda>_. call (cr_RemoveMember R c u) (\<lambda>_. ret ())))
          (call (sp_UpdateMemberRole c (mem_UserID m) MemberRoleOwner)
             (\<lambda>_. call (sp_RemoveMember c u) (\<lambda>_. ret ())))"
      proof (rule sim_upto_call [where obs = id])
        show "simulates I qt view True id v (cr_UpdateMemberRole R c (mem_UserID m) MemberRoleOwner)
            (sp_UpdateMemberRole c (mem_UserID m) MemberRoleOwner)"
          using update [OF next_v] by simp
        fix a :: unit assume "fst (sp_UpdateMemberRole c (mem_UserID m) MemberRoleOwner v) = Ok (id a)"
        then have "snd (sp_UpdateMemberRole c (mem_UserID m) MemberRoleOwner v) = promoted v c u"
          by (simp add: sp_UpdateMemberRole_snd mid)
        then show "sim_upto I qt view id (snd (sp_UpdateMemberRole c (mem_UserID m) MemberRoleOwner v)) ?S
            (call (cr_RemoveMember R c u) (\<lambda>_. ret ())) (call (sp_RemoveMember c u) (\<lambda>_. ret ()))"
          using remove [of "promoted v c u"] by simp
      qed simp
      with Some show ?thesis by (simp add: nextOwner_strip)
    qed
  qed
  show "sim_upto I qt view id (snd (sp_GetByID c v)) ?S
      (if IsDirect x then throw (Dom ErrForbidden)
       else call (cr_GetMember R c u) (\<lambda>caller. if mem_Role caller = MemberRoleOwner
         then call (cr_GetMembers R c) (\<lambda>members. case nextOwner members u of
             None \<Rightarrow> cr_Delete R c
           | Some next \<Rightarrow> call (cr_UpdateMemberRole R c (mem_UserID next) MemberRoleOwner)
               (\<lambda>_. call (cr_RemoveMember R c u) (\<lambda>_. ret ())))
         else call (cr_RemoveMember R c u) (\<lambda>_. ret ())))
      (if IsDirect (id x) then throw (Dom ErrForbidden)
       else call (sp_GetMember c u) (\<lambda>caller. if mem_Role caller = MemberRoleOwner
         then call (sp_GetMembers c) (\<lambda>members. case nextOwner members u of
             None \<Rightarrow> sp_Delete c
           | Some next \<Rightarrow> call (sp_UpdateMemberRole c (mem_UserID next) MemberRoleOwner)
               (\<lambda>_. call (sp_RemoveMember c u) (\<lambda>_. ret ())))
         else call (sp_RemoveMember c u) (\<lambda>_. ret ())))"
    unfolding id_apply [of x] spec_reads
  proof (intro sim_upto_if sim_upto_throw sim_upto_call [OF sim_GetMember])
    fix m
    show "sim_upto I qt view id (snd (sp_GetMember c u v)) ?S
        (if mem_Role m = MemberRoleOwner
         then call (cr_GetMembers R c) (\<lambda>members. case nextOwner members u of
             None \<Rightarrow> cr_Delete R c
           | Some next \<Rightarrow> call (cr_UpdateMemberRole R c (mem_UserID next) MemberRoleOwner)
               (\<lambda>_. call (cr_RemoveMember R c u) (\<lambda>_. ret ())))
         else call (cr_RemoveMember R c u) (\<lambda>_. ret ()))
        (if mem_Role (strip_user m) = MemberRoleOwner
         then call (sp_GetMembers c) (\<lambda>members. case nextOwner members u of
             None \<Rightarrow> sp_Delete c
           | Some next \<Rightarrow> call (sp_UpdateMemberRole c (mem_UserID next) MemberRoleOwner)
               (\<lambda>_. call (sp_RemoveMember c u) (\<lambda>_. ret ())))
         else call (sp_RemoveMember c u) (\<lambda>_. ret ()))"
      unfolding strip_user_fields spec_reads by (intro sim_upto_if owner remove) simp
  qed simp
qed

lemma LeaveChat_sim:
  assumes "\<And>m. nextOwner (roster v c) u = Some m \<Longrightarrow> role_of v c (mem_UserID m) \<noteq> Some MemberRoleOwner"
  shows "sim_upto I qt view id v {v, promoted v c u} (chats_LeaveChat R c u) (chats_LeaveChat spec_chats c u)"
  using assms by (intro LeaveChat_sim_from sim_UpdateMemberRole) auto

end

context chat_port_idempotent begin

lemma LeaveChat_sim_any:
  "sim_upto I qt view id v {v, promoted v c u} (chats_LeaveChat R c u) (chats_LeaveChat spec_chats c u)"
  by (intro LeaveChat_sim_from sim_UpdateMemberRole_any) auto

end

section \<open>Steps of the service\<close>

datatype chat_op =
    OpCreateDirect uuid CreateDirectInput
  | OpCreateGroup uuid CreateGroupInput
  | OpUpdateGroup uuid uuid UpdateGroupInput
  | OpAddMember uuid uuid AddMemberInput
  | OpRemoveMember uuid uuid uuid
  | OpChangeMemberRole uuid uuid ChangeMemberRoleInput
  | OpLeaveChat uuid uuid

fun run_op :: "'w ChatRepository \<Rightarrow> (uuid \<Rightarrow> ('w, User) io) \<Rightarrow> time \<Rightarrow> uuid \<Rightarrow> chat_op \<Rightarrow> ('w, unit) io" where
  "run_op R g now newID (OpCreateDirect u inp) = call (chats_CreateDirect R g now newID u inp) (\<lambda>_. ret ())"
| "run_op R g now newID (OpCreateGroup u inp) = call (chats_CreateGroup R g now newID u inp) (\<lambda>_. ret ())"
| "run_op R g now newID (OpUpdateGroup c u inp) = call (chats_UpdateGroup R now c u inp) (\<lambda>_. ret ())"
| "run_op R g now newID (OpAddMember c u inp) = chats_AddMember R g now c u inp"
| "run_op R g now newID (OpRemoveMember c u t) = chats_RemoveMember R c u t"
| "run_op R g now newID (OpChangeMemberRole c u inp) = chats_ChangeMemberRole R c u inp"
| "run_op R g now newID (OpLeaveChat c u) = chats_LeaveChat R c u"

text \<open>Creating operations take a fresh identifier and are called by a live user.\<close>

fun op_pre :: "aview \<Rightarrow> uuid \<Rightarrow> chat_op \<Rightarrow> bool" where
  "op_pre v newID (OpCreateDirect u inp) = caller_pre v newID u"
| "op_pre v newID (OpCreateGroup u inp) = caller_pre v newID u"
| "op_pre v newID _ = True"

inductive chat_reach ::
  "'w ChatRepository \<Rightarrow> (uuid \<Rightarrow> ('w, User) io) \<Rightarrow> ('w \<Rightarrow> aview) \<Rightarrow> 'w \<Rightarrow> 'w \<Rightarrow> bool"
  for R g view w0 where
  reach_start: "chat_reach R g view w0 w0"
| reach_step: "chat_reach R g view w0 w \<Longrightarrow> op_pre (view w) newID op \<Longrightarrow>
    chat_reach R g view w0 (snd (run_op R g now newID op w))"

lemma reach_one: "op_pre (view w) newID op \<Longrightarrow> chat_reach R g view w (snd (run_op R g now newID op w))"
  by (rule reach_step [OF reach_start])

section \<open>Ownership\<close>

definition has_owner :: "aview \<Rightarrow> uuid \<Rightarrow> bool" where
  "has_owner v c \<longleftrightarrow> (\<exists>m \<in> set (av_members v). mem_ChatID m = c \<and> mem_Role m = MemberRoleOwner)"

definition groups_owned :: "aview \<Rightarrow> bool" where
  "groups_owned v \<longleftrightarrow> (\<forall>(x, live) \<in> set (av_chats v). live \<and> \<not> IsDirect x \<longrightarrow> has_owner v (chat_ID x))"

definition owner_in :: "ChatMember list \<Rightarrow> uuid \<Rightarrow> uuid \<Rightarrow> bool" where
  "owner_in ms c a \<longleftrightarrow> (\<exists>m \<in> set ms. mem_ChatID m = c \<and> mem_UserID m = a \<and> mem_Role m = MemberRoleOwner)"

definition one_owner :: "aview \<Rightarrow> bool" where
  "one_owner v \<longleftrightarrow> (\<forall>c a b. owner_in (av_members v) c a \<longrightarrow> owner_in (av_members v) c b \<longrightarrow> a = b)"

text \<open>The abstract states a step can reach from \<open>v\<close>.\<close>

definition op_effect :: "aview \<Rightarrow> time \<Rightarrow> uuid \<Rightarrow> chat_op \<Rightarrow> aview \<Rightarrow> bool" where
  "op_effect v now newID op v' \<longleftrightarrow> v' = v \<or> run_op spec_chats sp_GetUser now newID op v = (Ok (), v') \<or>
     (\<exists>c u. op = OpLeaveChat c u \<and> v' = promoted v c u)"

lemma nextOwner_strip_roster: "nextOwner (roster v c) u = Some m \<Longrightarrow>
    mem_UserID m \<noteq> u \<and> is_member v c (mem_UserID m)"
  by (drule nextOwner_Some) (auto simp: roster_def is_member_iff)

lemma with_role_owned:
  assumes "groups_owned v" "r = MemberRoleOwner \<or> \<not> (\<exists>m \<in> set (av_members v).
      mem_ChatID m = c \<and> mem_UserID m = t \<and> mem_Role m = MemberRoleOwner) \<or>
      (\<exists>m \<in> set (av_members v). mem_ChatID m = c \<and> mem_UserID m \<noteq> t \<and> mem_Role m = MemberRoleOwner)"
  shows "groups_owned (with_role v c t r)"
proof -
  have "has_owner (with_role v c t r) d" if "has_owner v d" for d
  proof -
    from that obtain m where m: "m \<in> set (av_members v)" "mem_ChatID m = d" "mem_Role m = MemberRoleOwner"
      by (auto simp: has_owner_def)
    show ?thesis
    proof (cases "mem_ChatID m = c \<and> mem_UserID m = t \<and> r \<noteq> MemberRoleOwner")
      case True
      with assms(2) m obtain n where "n \<in> set (av_members v)" "mem_ChatID n = d"
          "mem_UserID n \<noteq> t" "mem_Role n = MemberRoleOwner"
        by auto
      then show ?thesis by (force simp: has_owner_def with_role_def)
    next
      case False
      with m show ?thesis by (force simp: has_owner_def with_role_def)
    qed
  qed
  with assms(1) show ?thesis by (auto simp: groups_owned_def with_role_def)
qed

lemma without_member_owned:
  assumes "groups_owned v" "\<not> (\<exists>m \<in> set (av_members v). mem_ChatID m = c \<and> mem_UserID m = t \<and>
      mem_Role m = MemberRoleOwner) \<or>
      (\<exists>m \<in> set (av_members v). mem_ChatID m = c \<and> mem_UserID m \<noteq> t \<and> mem_Role m = MemberRoleOwner)"
  shows "groups_owned (without_member v c t)"
proof -
  have "has_owner (without_member v c t) d" if "has_owner v d" for d
    using that assms(2) unfolding has_owner_def without_member_def by auto metis+
  with assms(1) show ?thesis by (auto simp: groups_owned_def without_member_def)
qed

lemma member_lookup_row:
  assumes "aview_wf v" "m \<in> set (av_members v)"
  shows "member_lookup v (mem_ChatID m) (mem_UserID m) = Some m"
proof -
  have "filter (\<lambda>x. (mem_ChatID x, mem_UserID x) = (mem_ChatID m, mem_UserID m)) (av_members v) = [m]"
    using assms by (intro filter_distinct_key) (auto simp: aview_wf_def)
  then show ?thesis by (simp add: member_lookup_def find_filter_hd)
qed

lemma active_role_row:
  assumes "aview_wf v" "active_role v c u = Some r"
  shows "(\<exists>m \<in> set (av_members v). mem_ChatID m = c \<and> mem_UserID m = u \<and> mem_Role m = r) \<and>
     (\<forall>m \<in> set (av_members v). mem_ChatID m = c \<longrightarrow> mem_UserID m = u \<longrightarrow> mem_Role m = r)"
proof -
  from assms(2) obtain m where m: "member_lookup v c u = Some m" "mem_Role m = r"
    by (auto simp: active_role_Some)
  then have "m \<in> set (av_members v)" "mem_ChatID m = c" "mem_UserID m = u"
    by (auto simp: member_lookup_def dest: find_Some_set)
  moreover have "mem_Role n = r"
    if "n \<in> set (av_members v)" "mem_ChatID n = c" "mem_UserID n = u" for n
    using member_lookup_row [OF assms(1) that(1)] that m by simp
  ultimately show ?thesis using m(2) by blast
qed

lemma append_owned:
  "groups_owned v \<Longrightarrow> groups_owned (v\<lparr>av_members := av_members v @ ms\<rparr>)"
  by (auto simp: groups_owned_def has_owner_def)

lemma with_chat_owned: "groups_owned v \<Longrightarrow> groups_owned (with_chat v ch)"
  by (fastforce simp: groups_owned_def has_owner_def with_chat_def IsDirect_def split: if_splits)

lemma without_chat_owned: "groups_owned v \<Longrightarrow> groups_owned (without_chat v c)"
  by (auto simp: groups_owned_def has_owner_def without_chat_def split: if_splits)

lemma create_owned:
  assumes "groups_owned v" "IsDirect ch \<or> (\<exists>m \<in> set ms. mem_ChatID m = chat_ID ch \<and> mem_Role m = MemberRoleOwner)"
  shows "groups_owned (v\<lparr>av_chats := av_chats v @ [(ch, True)], av_members := av_members v @ ms\<rparr>)"
  using assms by (auto simp: groups_owned_def has_owner_def)

lemma promoted_owned: "groups_owned v \<Longrightarrow> groups_owned (promoted v c u)"
  by (auto simp: promoted_def with_role_owned split: option.split)

lemma promoted_row:
  assumes "nextOwner (roster v c) u = Some m"
  shows "\<exists>n \<in> set (av_members (promoted v c u)). mem_ChatID n = c \<and> mem_UserID n \<noteq> u \<and>
     mem_Role n = MemberRoleOwner"
proof -
  from nextOwner_strip_roster [OF assms] obtain n where
    "n \<in> set (av_members v)" "mem_ChatID n = c" "mem_UserID n = mem_UserID m" "mem_UserID m \<noteq> u"
    by (auto simp: is_member_iff)
  with assms show ?thesis
    by (intro bexI [of _ "n\<lparr>mem_Role := MemberRoleOwner\<rparr>"]) (auto simp: promoted_def with_role_def)
qed

lemma op_effect_owned:
  assumes wf: "aview_wf v" and owned: "groups_owned v" and eff: "op_effect v now newID op v'"
  shows "groups_owned v'"
proof -
  consider "v' = v" | "run_op spec_chats sp_GetUser now newID op v = (Ok (), v')"
    | c u where "op = OpLeaveChat c u" "v' = promoted v c u"
    using eff by (auto simp: op_effect_def)
  then show ?thesis
  proof cases
    case 2
    show ?thesis
    proof (cases op)
      case (OpCreateDirect u inp)
      with 2 show ?thesis
        using owned create_owned [OF owned, of "direct_chat now newID u"]
        by (auto simp: go_elims CreateDirect_spec direct_chat_def IsDirect_def split: option.splits)
    next
      case (OpCreateGroup u inp)
      have "\<exists>m \<in> set (new_group_members now newID u inp).
          mem_ChatID m = chat_ID (new_group now newID u inp) \<and> mem_Role m = MemberRoleOwner"
        by (simp add: new_group_members_def new_group_def)
      with OpCreateGroup 2 show ?thesis
        using create_owned [OF owned, of "new_group now newID u inp"]
        by (auto simp: go_elims CreateGroup_spec)
    next
      case (OpUpdateGroup c u inp)
      with 2 with_chat_owned [OF owned] show ?thesis
        by (auto simp: go_elims UpdateGroup_spec)
    next
      case (OpAddMember c u inp)
      with 2 append_owned [OF owned] show ?thesis
        by (auto simp: AddMember_spec)
    next
      case (OpRemoveMember c u t)
      with 2 obtain rt where "active_role v c t = Some rt" "rt \<noteq> MemberRoleOwner"
          and v': "v' = without_member v c t"
        by (auto simp: RemoveMember_spec may_remove_def)
      with active_role_row [OF wf this(1)] show ?thesis
        unfolding v' by (intro without_member_owned [OF owned]) auto
    next
      case (OpChangeMemberRole c u inp)
      with 2 have "active_role v c u = Some MemberRoleOwner" "cri_UserID inp \<noteq> u"
          and v': "v' = with_role v c (cri_UserID inp) (cri_Role inp)"
        by (auto simp: ChangeMemberRole_spec may_change_role_def)
      with active_role_row [OF wf this(1)] show ?thesis
        unfolding v' by (intro with_role_owned [OF owned]) auto
    next
      case (OpLeaveChat c u)
      with 2 obtain r where r: "active_role v c u = Some r"
          and v': "if r = MemberRoleOwner then (case nextOwner (roster v c) u of
                 None \<Rightarrow> v' = without_chat v c
               | Some m \<Rightarrow> v' = without_member (with_role v c (mem_UserID m) MemberRoleOwner) c u)
             else v' = without_member v c u"
        by (auto simp: LeaveChat_spec split: option.splits if_splits)
      show ?thesis
      proof (cases "r = MemberRoleOwner")
        case True
        show ?thesis
        proof (cases "nextOwner (roster v c) u")
          case None
          with True v' without_chat_owned [OF owned] show ?thesis by simp
        next
          case (Some m)
          with True v' have "v' = without_member (promoted v c u) c u" by (simp add: promoted_def)
          with promoted_row [OF Some] promoted_owned [OF owned] show ?thesis
            by (auto intro!: without_member_owned)
        qed
      next
        case False
        with v' active_role_row [OF wf r] show ?thesis
          by (auto intro!: without_member_owned [OF owned])
      qed
    qed
  qed (use owned promoted_owned in auto)
qed

section \<open>At most one owner\<close>

lemma owner_in_simps:
  "owner_in [] c a = False"
  "owner_in (m # ms) c a \<longleftrightarrow>
     mem_ChatID m = c \<and> mem_UserID m = a \<and> mem_Role m = MemberRoleOwner \<or> owner_in ms c a"
  "owner_in (ms @ ns) c a \<longleftrightarrow> owner_in ms c a \<or> owner_in ns c a"
  by (auto simp: owner_in_def)

lemma owner_in_without:
  "owner_in (av_members (without_member v c u)) d a \<longleftrightarrow> owner_in (av_members v) d a \<and> \<not> (d = c \<and> a = u)"
  by (auto simp: owner_in_def without_member_def)

lemma owner_in_with_role:
  "owner_in (av_members (with_role v c t r)) d a \<longleftrightarrow>
     (if d = c \<and> a = t then r = MemberRoleOwner \<and> is_member v c t else owner_in (av_members v) d a)"
proof -
  have "owner_in (map (\<lambda>m. if mem_ChatID m = c \<and> mem_UserID m = t then m\<lparr>mem_Role := r\<rparr> else m) ms) d a \<longleftrightarrow>
      (if d = c \<and> a = t then r = MemberRoleOwner \<and> (\<exists>m \<in> set ms. mem_ChatID m = c \<and> mem_UserID m = t)
       else owner_in ms d a)" for ms
    by (induction ms) (auto simp: owner_in_simps)
  then show ?thesis by (simp add: with_role_def is_member_iff)
qed

lemma one_ownerD: "one_owner v \<Longrightarrow> owner_in (av_members v) c a \<Longrightarrow> owner_in (av_members v) c b \<Longrightarrow> a = b"
  by (auto simp: one_owner_def)

lemma one_owner_append:
  assumes "one_owner v" "\<And>c a b. owner_in ms c a \<Longrightarrow> owner_in ms c b \<Longrightarrow> a = b"
    "\<And>c a b. owner_in ms c a \<Longrightarrow> \<not> owner_in (av_members v) c b"
  shows "one_owner (v\<lparr>av_chats := cs, av_members := av_members v @ ms\<rparr>)"
  unfolding one_owner_def by (auto simp: owner_in_simps dest: assms(2,3) one_ownerD [OF assms(1)])

lemma one_owner_without: "one_owner v \<Longrightarrow> one_owner (without_member v c u)"
  unfolding one_owner_def by (auto simp: owner_in_without)

lemma one_owner_demote: "one_owner v \<Longrightarrow> r \<noteq> MemberRoleOwner \<Longrightarrow> one_owner (with_role v c t r)"
  unfolding one_owner_def by (auto simp: owner_in_with_role split: if_splits)

lemma one_owner_handover:
  assumes "one_owner v" "owner_in (av_members v) c u"
  shows "one_owner (without_member (with_role v c t MemberRoleOwner) c u)"
  unfolding one_owner_def
  by (auto simp: owner_in_without owner_in_with_role dest: one_ownerD [OF assms(1)] one_ownerD [OF assms]
      split: if_splits)

lemma unused_no_members: "aview_wf v \<Longrightarrow> chat_unused v c \<Longrightarrow> m \<in> set (av_members v) \<Longrightarrow> mem_ChatID m \<noteq> c"
  by (auto simp: aview_wf_def)

lemma run_op_one_owner:
  assumes wf: "aview_wf v" and one: "one_owner v" and pre: "op_pre v newID op"
    and run: "run_op spec_chats sp_GetUser now newID op v = (Ok (), v')"
  shows "one_owner v'"
proof (cases op)
  case (OpCreateDirect u inp)
  have "one_owner (v\<lparr>av_chats := cs, av_members := av_members v @ direct_members now newID u t\<rparr>)" for cs t
    by (rule one_owner_append [OF one]) (auto simp: direct_members_def owner_in_simps)
  with OpCreateDirect run one show ?thesis
    by (cases "direct_lookup v u (cdi_TargetUserID inp)") (auto simp: go_elims CreateDirect_spec)
next
  case (OpCreateGroup u inp)
  then have unused: "chat_unused v newID" using pre by (simp add: caller_pre_def)
  have "one_owner (v\<lparr>av_chats := cs, av_members := av_members v @ new_group_members now newID u inp\<rparr>)" for cs
  proof (rule one_owner_append [OF one])
    have new: "c = newID \<and> a = u" if "owner_in (new_group_members now newID u inp) c a" for c a
    proof -
      from that obtain m where m: "m \<in> set (new_group_members now newID u inp)"
          "mem_Role m = MemberRoleOwner" "mem_ChatID m = c" "mem_UserID m = a"
        by (auto simp: owner_in_def)
      with new_group_members_facts(3) [OF m(1)] show ?thesis by (auto split: if_splits)
    qed
    show "a = b" if "owner_in (new_group_members now newID u inp) c a"
        "owner_in (new_group_members now newID u inp) c b" for c a b
      using new [OF that(1)] new [OF that(2)] by simp
    show "\<not> owner_in (av_members v) c b" if "owner_in (new_group_members now newID u inp) c a" for c a b
      using new [OF that] unused_no_members [OF wf unused] by (auto simp: owner_in_def)
  qed
  with OpCreateGroup run show ?thesis by (auto simp: go_elims CreateGroup_spec)
next
  case (OpUpdateGroup c u inp)
  with run have "\<exists>ch. v' = with_chat v ch"
    by (auto simp: go_elims UpdateGroup_spec)
  with one show ?thesis by (auto simp: with_chat_def one_owner_def)
next
  case (OpAddMember c u inp)
  with run have "v' = v\<lparr>av_members := av_members v @ [plain_member c (ami_UserID inp) now]\<rparr>"
    by (simp add: AddMember_spec)
  with one show ?thesis by (simp add: one_owner_def owner_in_simps plain_member_def)
next
  case (OpRemoveMember c u t)
  with run one_owner_without [OF one] show ?thesis by (auto simp: RemoveMember_spec)
next
  case (OpChangeMemberRole c u inp)
  with run one_owner_demote [OF one] show ?thesis
    by (auto simp: ChangeMemberRole_spec may_change_role_def)
next
  case (OpLeaveChat c u)
  with run obtain r where r: "active_role v c u = Some r"
      and v': "if r = MemberRoleOwner then (case nextOwner (roster v c) u of
             None \<Rightarrow> v' = without_chat v c
           | Some m \<Rightarrow> v' = without_member (with_role v c (mem_UserID m) MemberRoleOwner) c u)
         else v' = without_member v c u"
    by (auto simp: LeaveChat_spec split: option.splits if_splits)
  show ?thesis
  proof (cases "r = MemberRoleOwner")
    case True
    with active_role_row [OF wf r] have m: "owner_in (av_members v) c u"
      by (auto simp: owner_in_def)
    have "one_owner (without_chat v c)" using one by (simp add: one_owner_def without_chat_def)
    with True v' one_owner_handover [OF one m] show ?thesis by (auto split: option.splits)
  qed (use v' one_owner_without [OF one] in auto)
qed

lemma call_eval:
  "call m k w = (case m w of (Ok a, w1) \<Rightarrow> k a w1 | (Err e, w1) \<Rightarrow> (Err e, w1) | (Panic s, w1) \<Rightarrow> (Panic s, w1))"
  by (auto simp: call_def branch_def throw_def split: prod.split outcome.split)

lemma LeaveChat_fail:
  assumes "fst (chats_LeaveChat spec_chats c u v) \<noteq> Ok ()"
  shows "snd (chats_LeaveChat spec_chats c u v) = v"
proof (cases "(\<exists>x. chat_lookup v c = Some x \<and> \<not> IsDirect x) \<and> active_role v c u \<noteq> None")
  case True
  then obtain x m where x: "chat_lookup v c = Some x" "\<not> IsDirect x"
      and m: "member_lookup v c u = Some m" "user_lookup v u \<noteq> None"
    by (auto simp: active_role_def role_of_def split: if_splits)
  have mem: "is_member v c u" using m(1) by (rule member_is_member)
  have gets: "sp_GetByID c v = (Ok x, v)" "sp_GetMember c u v = (Ok m, v)"
      "sp_GetMembers c v = (Ok (roster v c), v)"
    using x m by (simp_all add: go_elims)
  have writes: "sp_RemoveMember c u w = (Ok (), without_member w c u)" if "is_member w c u" for w
    using that by (simp add: go_elims)
  have "fst (chats_LeaveChat spec_chats c u v) = Ok ()"
  proof (cases "nextOwner (roster v c) u")
    case None
    then show ?thesis
      by (simp add: chats_LeaveChat_def call_eval gets x(2) writes mem ret_def sp_Delete_def)
  next
    case (Some n)
    with nextOwner_strip_roster have "sp_UpdateMemberRole c (mem_UserID n) MemberRoleOwner v =
        (Ok (), with_role v c (mem_UserID n) MemberRoleOwner)"
      by (simp add: go_elims)
    with Some show ?thesis
      by (simp add: chats_LeaveChat_def call_eval gets x(2) writes mem ret_def)
  qed
  with assms show ?thesis by simp
next
  case False
  then show ?thesis
  proof (cases "chat_lookup v c")
    case None
    then show ?thesis by (simp add: chats_LeaveChat_def call_eval sp_GetByID_def)
  next
    case (Some x)
    then have get: "sp_GetByID c v = (Ok x, v)" by (simp add: go_elims)
    have "IsDirect x \<or> sp_GetMember c u v = (Err (Dom ErrNotChatMember), v)"
      using False Some by (auto simp: active_role_def role_of_def sp_GetMember_def split: option.split if_splits)
    with get show ?thesis
      by (auto simp: chats_LeaveChat_def call_eval throw_def)
  qed
qed

section \<open>The invariants of the service\<close>

lemma failsafe_CreateDirect: "failsafe (chats_CreateDirect spec_chats sp_GetUser now i u inp)"
proof -
  have "failsafe (branch (sp_GetDirectChat u t) (\<lambda>x. ret (x, False))
      (\<lambda>err. if \<not> errors_Is err ErrChatNotFound then throw err
        else call (sp_CreateWithMembers ch ms) (\<lambda>_. ret (ch, True))))" for t ch ms
    unfolding failsafe_def
  proof
    fix v
    show "(\<exists>a. fst (branch (sp_GetDirectChat u t) (\<lambda>x. ret (x, False))
        (\<lambda>err. if \<not> errors_Is err ErrChatNotFound then throw err
          else call (sp_CreateWithMembers ch ms) (\<lambda>_. ret (ch, True))) v) = Ok a) \<or>
      snd (branch (sp_GetDirectChat u t) (\<lambda>x. ret (x, False))
        (\<lambda>err. if \<not> errors_Is err ErrChatNotFound then throw err
          else call (sp_CreateWithMembers ch ms) (\<lambda>_. ret (ch, True))) v) = v"
      by (cases "direct_lookup v u t")
        (auto simp: branch_def sp_GetDirectChat_def ret_def call_eval sp_CreateWithMembers_def)
  qed
  then show ?thesis
    unfolding chats_CreateDirect_eq spec_chats_simps
    by (intro failsafe_V_Err failsafe_simps failsafe_read spec_reads)
qed

lemma failsafe_LeaveChat: "failsafe (chats_LeaveChat spec_chats c u)"
  using LeaveChat_fail unfolding failsafe_def by (metis (full_types))

lemma failsafe_run_op: "failsafe (run_op spec_chats sp_GetUser now newID op)"
  by (cases op) (auto intro: failsafe_write failsafe_CreateDirect failsafe_LeaveChat simp: failsafe_ops)

text \<open>The exact abstract outcomes of a step: none, or that of the abstract run.\<close>

lemma exact_effect:
  assumes "snd (run_op spec_chats sp_GetUser now newID op v) = v'"
  shows "v' = v \<or> run_op spec_chats sp_GetUser now newID op v = (Ok (), v')"
  using failsafe_run_op [of now newID op] assms unfolding failsafe_def
  by (metis (full_types) old.unit.exhaust prod.collapse)

context chat_port begin

lemma run_op_simulates:
  assumes "aview_wf v" "op_pre v newID op" "\<And>c u. op \<noteq> OpLeaveChat c u"
    "\<And>c u inp. op = OpUpdateGroup c u inp \<Longrightarrow> \<exists>ok. simulates I qt view ok id v
       (chats_UpdateGroup R now c u inp) (chats_UpdateGroup spec_chats now c u inp)"
    "\<And>c u inp. op = OpChangeMemberRole c u inp \<Longrightarrow> simulates I qt view True id v
       (chats_ChangeMemberRole R c u inp) (chats_ChangeMemberRole spec_chats c u inp)"
  shows "\<exists>ok. simulates I qt view ok id v (run_op R getUser now newID op)
     (run_op spec_chats sp_GetUser now newID op)"
proof (cases op)
  case (OpCreateDirect u inp)
  with simulates_write [OF CreateDirect_sim [of v newID u now inp], of "()"] assms(2)
  show ?thesis by (intro exI) simp
next
  case (OpCreateGroup u inp)
  with simulates_write [OF CreateGroup_sim [of v newID u now inp], of "()"] assms(2)
  show ?thesis by (intro exI) simp
next
  case (OpUpdateGroup c u inp)
  from assms(4) [OF this] obtain ok where "simulates I qt view ok id v
      (chats_UpdateGroup R now c u inp) (chats_UpdateGroup spec_chats now c u inp)" ..
  with OpUpdateGroup simulates_write [OF this, of "()"] show ?thesis by (intro exI) simp
next
  case (OpAddMember c u inp)
  with AddMember_sim show ?thesis by (intro exI [of _ True]) simp
next
  case (OpRemoveMember c u t)
  with RemoveMember_sim show ?thesis by (intro exI [of _ True]) simp
next
  case (OpChangeMemberRole c u inp)
  with assms(5) show ?thesis by (intro exI [of _ True]) simp
qed (use assms(3) in auto)

end

context chat_port_idempotent begin

lemma run_op_step:
  assumes w: "I w" and pre: "op_pre (view w) newID op"
  shows "I (snd (run_op R getUser now newID op w)) \<and>
     (qt w \<longrightarrow> qt (snd (run_op R getUser now newID op w))) \<and>
     op_effect (view w) now newID op (view (snd (run_op R getUser now newID op w))) \<and>
     (qt w \<longrightarrow> view (snd (run_op R getUser now newID op w)) = view w \<or>
        run_op spec_chats sp_GetUser now newID op (view w) =
          (Ok (), view (snd (run_op R getUser now newID op w))))"
proof (cases "\<exists>c u. op = OpLeaveChat c u")
  case True
  then obtain c u where op: "op = OpLeaveChat c u" by blast
  from LeaveChat_sim_any [of "view w" c u] w
  have run: "I (snd (chats_LeaveChat R c u w))" "qt w \<longrightarrow> qt (snd (chats_LeaveChat R c u w))"
    "view (snd (chats_LeaveChat R c u w)) = snd (chats_LeaveChat spec_chats c u (view w)) \<or>
     \<not> qt w \<and> view (snd (chats_LeaveChat R c u w)) \<in> {view w, promoted (view w) c u}"
    unfolding sim_upto_def by auto
  from run(3) exact_effect [of now newID op "view w" "view (snd (chats_LeaveChat R c u w))"] run(1,2)
  show ?thesis by (auto simp: op op_effect_def)
next
  case False
  have "\<exists>ok. simulates I qt view ok id (view w) (run_op R getUser now newID op)
      (run_op spec_chats sp_GetUser now newID op)"
    using False UpdateGroup_sim_any [OF view_wf [OF w]]
    by (intro run_op_simulates [OF view_wf [OF w] pre] ChangeMemberRole_sim_any) blast+
  then obtain ok where "simulates I qt view ok id (view w) (run_op R getUser now newID op)
      (run_op spec_chats sp_GetUser now newID op)" ..
  from this w refl show ?thesis
  proof (cases rule: simulatesE)
    case exact
    then have "view (snd (run_op R getUser now newID op w)) = view w \<or>
        run_op spec_chats sp_GetUser now newID op (view w) =
          (Ok (), view (snd (run_op R getUser now newID op w)))"
      using exact(4) by (intro exact_effect) simp
    with exact(1,2) show ?thesis unfolding op_effect_def by blast
  next
    case (storage e)
    then show ?thesis by (simp add: op_effect_def)
  qed
qed

lemma reach_inv: "chat_reach R getUser view w0 w \<Longrightarrow> I w0 \<Longrightarrow> I w"
  by (induction rule: chat_reach.induct) (auto dest: run_op_step)

lemma reach_groups_owned:
  assumes "chat_reach R getUser view w0 w" "I w0" "groups_owned (view w0)"
  shows "I w \<and> groups_owned (view w)"
  using assms
proof (induction rule: chat_reach.induct)
  case (reach_step w newID op now)
  then have w: "I w" "groups_owned (view w)" by simp_all
  with run_op_step [OF w(1) reach_step.hyps(2), of now] op_effect_owned [OF view_wf [OF w(1)] w(2)]
  show ?case by blast
qed simp

lemma reach_one_owner:
  assumes "chat_reach R getUser view w0 w" "I w0" "qt w0" "one_owner (view w0)"
  shows "I w \<and> qt w \<and> one_owner (view w)"
  using assms
proof (induction rule: chat_reach.induct)
  case (reach_step w newID op now)
  then have w: "I w" "qt w" "one_owner (view w)" by simp_all
  from run_op_step [OF w(1) reach_step.hyps(2), of now] w
      run_op_one_owner [OF view_wf [OF w(1)] w(3) reach_step.hyps(2), of now]
  show ?case by auto
qed simp

end

end
