(* ===== verification/ChatGuard.thy ===== *)
theory ChatGuard
  imports ChatOwner
begin

text \<open>
  The chat use cases on any back end, as complete guarded commands: a successful run was allowed
  and has exactly its effect, a failed run changes nothing, and a run that is allowed succeeds
  unless a statement fails or the store refuses the data.
\<close>

definition guarded ::
  "('w \<Rightarrow> bool) \<Rightarrow> ('w \<Rightarrow> bool) \<Rightarrow> ('w \<Rightarrow> aview) \<Rightarrow> bool \<Rightarrow> ('w, 'a) io \<Rightarrow> ('a \<Rightarrow> bool) \<Rightarrow>
     ('a \<Rightarrow> aview) \<Rightarrow> 'w \<Rightarrow> bool" where
  "guarded I qt view ok m P eff w \<longleftrightarrow>
     I (snd (m w)) \<and> (qt w \<longrightarrow> qt (snd (m w))) \<and>
     (\<forall>a. fst (m w) = Ok a \<longrightarrow> P a \<and> view (snd (m w)) = eff a) \<and>
     ((\<forall>a. fst (m w) \<noteq> Ok a) \<longrightarrow> view (snd (m w)) = view w) \<and>
     (qt w \<longrightarrow> ok \<longrightarrow> (\<exists>a. P a) \<longrightarrow> (\<exists>a. fst (m w) = Ok a))"

lemma sim_at_guarded:
  assumes sim: "sim_at I qt view ok id (view w) m am w" and fs: "failsafe am"
    and spec: "\<And>a v'. am (view w) = (Ok a, v') \<longleftrightarrow> P a \<and> v' = eff a"
  shows "guarded I qt view ok m P eff w"
  using sim
proof (cases rule: sim_atE)
  case exact
  show ?thesis
  proof (cases "\<exists>a. fst (m w) = Ok a")
    case True
    then obtain a where a: "fst (m w) = Ok a" by blast
    then have "am (view w) = (Ok a, snd (am (view w)))"
      using exact(3) by (simp add: prod_eq_iff)
    with spec have "P a" "snd (am (view w)) = eff a" by blast+
    with exact(1,2,4) a show ?thesis by (auto simp: guarded_def)
  next
    case False
    then have no: "\<nexists>a. fst (am (view w)) = Ok a"
      using exact(3) by (cases "fst (m w)") auto
    then have same: "snd (am (view w)) = view w"
      using fs unfolding failsafe_def by blast
    have "\<not> P a" for a
    proof
      assume "P a"
      with spec have "am (view w) = (Ok a, eff a)" by blast
      with no show False by simp
    qed
    with exact False same show ?thesis by (simp add: guarded_def)
  qed
next
  case (storage e)
  then show ?thesis by (auto simp: guarded_def)
qed

lemma simulates_guarded:
  assumes "simulates I qt view ok id (view w) m am" "I w" "failsafe am"
    and "\<And>a v'. am (view w) = (Ok a, v') \<longleftrightarrow> P a \<and> v' = eff a"
  shows "guarded I qt view ok m P eff w"
  using assms by (intro sim_at_guarded) (auto simp: simulates_def)

lemma guarded_ok: "guarded I qt view ok m P eff w \<Longrightarrow> (ok' \<Longrightarrow> ok) \<Longrightarrow> guarded I qt view ok' m P eff w"
  unfolding guarded_def by blast

context chat_port begin

lemma RemoveMember_guarded:
  assumes "I w"
  shows "guarded I qt view True (chats_RemoveMember R c u t) (\<lambda>_. may_remove (view w) c u t)
     (\<lambda>_. without_member (view w) c t) w"
  by (rule simulates_guarded [OF RemoveMember_sim assms failsafe_ops(1)]) (simp add: RemoveMember_spec)

lemma AddMember_guarded:
  assumes "I w"
  shows "guarded I qt view True (chats_AddMember R getUser now c u inp)
     (\<lambda>_. may_add (view w) c u (ami_UserID inp))
     (\<lambda>_. (view w)\<lparr>av_members := av_members (view w) @ [plain_member c (ami_UserID inp) now]\<rparr>) w"
  by (rule simulates_guarded [OF AddMember_sim assms failsafe_ops(3)]) (simp add: AddMember_spec)

lemma ChangeMemberRole_guarded:
  assumes "I w" "role_of (view w) c (cri_UserID inp) \<noteq> Some (cri_Role inp)"
  shows "guarded I qt view True (chats_ChangeMemberRole R c u inp) (\<lambda>_. may_change_role (view w) c u inp)
     (\<lambda>_. with_role (view w) c (cri_UserID inp) (cri_Role inp)) w"
  by (rule simulates_guarded [OF ChangeMemberRole_sim [OF assms(2)] assms(1) failsafe_ops(2)])
    (simp add: ChangeMemberRole_spec)

lemma CreateGroup_guarded:
  assumes "I w" "caller_pre (view w) newID u"
  shows "guarded I qt view (chat_ok (new_group now newID u inp)) (chats_CreateGroup R getUser now newID u inp)
     (\<lambda>ch. CreateGroupInput_Validate inp = None \<and>
        (\<forall>x \<in> set (cgi_MemberIDs inp). x = u \<or> user_lookup (view w) x \<noteq> None) \<and>
        ch = new_group now newID u inp)
     (\<lambda>ch. (view w)\<lparr>av_chats := av_chats (view w) @ [(ch, True)],
        av_members := av_members (view w) @ new_group_members now newID u inp\<rparr>) w"
  by (rule simulates_guarded [OF CreateGroup_sim [OF assms(2)] assms(1) failsafe_ops(5)])
    (auto simp: CreateGroup_spec)

lemma LeaveChat_exact:
  assumes "I w" "qt w" "\<And>m. nextOwner (roster (view w) c) u = Some m \<Longrightarrow>
      role_of (view w) c (mem_UserID m) \<noteq> Some MemberRoleOwner"
  shows "I (snd (chats_LeaveChat R c u w)) \<and> qt (snd (chats_LeaveChat R c u w)) \<and>
     fst (chats_LeaveChat R c u w) = fst (chats_LeaveChat spec_chats c u (view w)) \<and>
     view (snd (chats_LeaveChat R c u w)) = snd (chats_LeaveChat spec_chats c u (view w))"
  using LeaveChat_sim [OF assms(3)] assms(1,2) unfolding sim_upto_def outcome.map_id id_apply by blast

lemma LeaveChat_run:
  assumes "I w" "\<And>m. nextOwner (roster (view w) c) u = Some m \<Longrightarrow>
      role_of (view w) c (mem_UserID m) \<noteq> Some MemberRoleOwner"
  shows "I (snd (chats_LeaveChat R c u w)) \<and>
     (fst (chats_LeaveChat R c u w) = Ok () \<longrightarrow>
        chats_LeaveChat spec_chats c u (view w) = (Ok (), view (snd (chats_LeaveChat R c u w)))) \<and>
     (fst (chats_LeaveChat R c u w) \<noteq> Ok () \<longrightarrow>
        view (snd (chats_LeaveChat R c u w)) = view w \<or>
        \<not> qt w \<and> view (snd (chats_LeaveChat R c u w)) = promoted (view w) c u)"
proof -
  let ?r = "chats_LeaveChat R c u w" and ?s = "chats_LeaveChat spec_chats c u (view w)"
  have I: "I (snd ?r)" and run: "fst ?r = fst ?s \<and> view (snd ?r) = snd ?s \<or>
     \<not> qt w \<and> (\<exists>e. fst ?r = Err e) \<and> view (snd ?r) \<in> {view w, promoted (view w) c u}"
    using LeaveChat_sim [OF assms(2)] assms(1) unfolding sim_upto_def outcome.map_id id_apply by blast+
  show ?thesis
  proof (cases "fst ?r = Ok ()")
    case True
    with run have "?s = (Ok (), view (snd ?r))" by (auto simp: prod_eq_iff)
    with I True show ?thesis by simp
  next
    case False
    from run have "view (snd ?r) = view w \<or> \<not> qt w \<and> view (snd ?r) = promoted (view w) c u"
    proof
      assume exact: "fst ?r = fst ?s \<and> view (snd ?r) = snd ?s"
      with False have "snd ?s = view w" by (intro LeaveChat_fail) simp
      with exact show ?thesis by simp
    qed blast
    with I False show ?thesis by simp
  qed
qed

lemma reads_unchanged:
  assumes sim: "simulates I qt view True obs (view w) m am" and w: "I w" and read: "snd (am (view w)) = view w"
  shows "view (snd (m w)) = view w \<and> (\<forall>a. fst (m w) = Ok a \<longrightarrow> am (view w) = (Ok (obs a), view w)) \<and>
     (qt w \<longrightarrow> map_outcome id obs (fst (m w)) = fst (am (view w)))"
  using sim w refl
proof (cases rule: simulatesE)
  case exact
  with read show ?thesis by (auto simp: prod_eq_iff)
qed auto

lemma GetChat_read:
  assumes "I w"
  shows "view (snd (chats_GetChat R c u w)) = view w \<and>
     (\<forall>x. fst (chats_GetChat R c u w) = Ok x \<longrightarrow> is_member (view w) c u \<and> chat_lookup (view w) c = Some x)"
proof -
  have read: "snd (chats_GetChat spec_chats c u v) = v" for v
    by (simp add: chats_GetChat_def assertMember_def call_eval sp_IsMember_def sp_GetByID_def ret_def
        throw_def split: option.split)
  from reads_unchanged [OF GetChat_sim assms read] show ?thesis by (auto simp: GetChat_spec)
qed

lemma GetMembers_read:
  assumes "I w"
  shows "view (snd (chats_GetMembers R c u w)) = view w \<and>
     (\<forall>ms. fst (chats_GetMembers R c u w) = Ok ms \<longrightarrow>
        is_member (view w) c u \<and> map strip_user ms = roster (view w) c)"
proof -
  have read: "snd (chats_GetMembers spec_chats c u v) = v" for v
    by (simp add: chats_GetMembers_def assertMember_def call_eval sp_IsMember_def sp_GetMembers_def ret_def
        throw_def)
  from reads_unchanged [OF GetMembers_sim assms read] show ?thesis by (auto simp: GetMembers_spec)
qed

lemma GetUserChats_read:
  assumes "I w"
  shows "view (snd (chats_GetUserChats R u w)) = view w \<and>
     (\<forall>ps. fst (chats_GetUserChats R u w) = Ok ps \<longrightarrow>
        ps = sort_key (\<lambda>p. - int (activity p)) (map (\<lambda>(c, live). preview_of (view w) u c)
          (filter (\<lambda>(c, live). live \<and> is_member (view w) (chat_ID c) u) (av_chats (view w)))))"
proof -
  have read: "snd (chats_GetUserChats spec_chats u v) = v" for v
    by (simp add: chats_GetUserChats_def sp_GetUserChats_def)
  from reads_unchanged [OF GetUserChats_sim assms read] show ?thesis
    by (simp add: chats_GetUserChats_def sp_GetUserChats_def)
qed

end

context chat_port_idempotent begin

lemma UpdateGroup_guarded:
  assumes "I w"
  shows "guarded I qt view (\<forall>x. chat_lookup (view w) c = Some x \<longrightarrow> UpdateGroupInput_Validate inp = None \<longrightarrow>
        chat_ok (edited_group now inp x))
     (chats_UpdateGroup R now c u inp)
     (\<lambda>ch. may_edit (view w) c u inp \<and> (\<exists>x. chat_lookup (view w) c = Some x \<and> ch = edited_group now inp x))
     (\<lambda>ch. with_chat (view w) ch) w"
  by (rule simulates_guarded [OF UpdateGroup_sim_any [OF view_wf] _ failsafe_ops(4)])
    (use assms in \<open>auto simp: UpdateGroup_spec\<close>)

end

end
