(* ===== verification/PgPreview.thy ===== *)
theory PgPreview
  imports PgChatSim ChatGuard
begin

text \<open>
  The chat-list query of postgres/chat.go (\<open>GetUserChats\<close>): its four common table expressions
  and two left joins denote one preview per live chat of the user, with the last live message
  and the number of unread ones.  This closes the chat port on PostgreSQL, which is
  interpreted at the end.
\<close>

section \<open>The query, clause by clause\<close>

lemma left_join_le1: "length ps \<le> 1 \<Longrightarrow> left_join ps = [case ps of [] \<Rightarrow> None | p # _ \<Rightarrow> Some p]"
  by (cases ps) (auto simp: left_join_def)

lemma user_chats_eq:
  assumes "db_wf d"
  shows "user_chats d u = filter (\<lambda>c. cc_deleted_at c = None \<and> member_exists d (cc_id c) u) (tb_chats d)"
proof -
  have one: "concat (map (\<lambda>cm. if mc_chat_id cm = c \<and> mc_user_id cm = u then if P then [r] else [] else [])
      (tb_members d)) = (if P \<and> member_exists d c u then [r] else [])" for c P and r :: chat_row
  proof -
    have "concat (map (\<lambda>cm. if Q cm then if P then [r] else [] else []) ms) =
        (if P then map (\<lambda>_. r) (filter Q ms) else [])" for Q and ms :: "member_row list"
      by (induction ms) auto
    moreover have "filter (\<lambda>cm. mc_chat_id cm = c \<and> mc_user_id cm = u) (tb_members d) =
        (case find (\<lambda>cm. mc_chat_id cm = c \<and> mc_user_id cm = u) (tb_members d) of
           None \<Rightarrow> [] | Some m \<Rightarrow> [m])"
      using filter_key_find [of "\<lambda>r. (mc_chat_id r, mc_user_id r)" "tb_members d" "(c, u)"] assms
      by (simp add: db_wf_def)
    ultimately show ?thesis
      by (auto simp: member_exists_def find_None_iff split: option.split dest: find_Some_set)
  qed
  have "concat (map (\<lambda>c. if P c then [c] else []) cs) = filter P cs" for P and cs :: "chat_row list"
    by (induction cs) auto
  then show ?thesis unfolding user_chats_def one .
qed

lemma set_distinct_on: "set (distinct_on k xs) \<subseteq> set xs"
  by (induction k xs rule: distinct_on.induct) auto

lemma filter_distinct_on:
  "filter (\<lambda>x. k x = c) (distinct_on k xs) = take 1 (filter (\<lambda>x. k x = c) xs)"
proof (induction k xs rule: distinct_on.induct)
  case (2 k r rs)
  show ?case
  proof (cases "k r = c")
    case True
    have "filter (\<lambda>x. k x = c) (distinct_on k (filter (\<lambda>x. k x \<noteq> k r) rs)) = []"
      using True set_distinct_on [of k "filter (\<lambda>x. k x \<noteq> k r) rs"]
      by (fastforce simp: filter_empty_conv)
    with True show ?thesis by simp
  next
    case False
    then have "filter (\<lambda>x. k x = c) (filter (\<lambda>x. k x \<noteq> k r) rs) = filter (\<lambda>x. k x = c) rs"
      by (auto intro: filter_cong)
    with False 2 show ?thesis by simp
  qed
qed simp

text \<open>The first row of a descending sort is the row no other row is later than.\<close>

lemma take1_sort_key:
  fixes f :: "'r \<Rightarrow> 'k :: linorder"
  assumes "inj_on f (set xs)"
  shows "take 1 (sort_key f xs) = (case find (\<lambda>x. \<forall>y \<in> set xs. \<not> f y < f x) xs of None \<Rightarrow> [] | Some x \<Rightarrow> [x])"
proof (cases "sort_key f xs")
  case Nil
  then have "xs = []" by (metis set_empty set_sort)
  then show ?thesis by simp
next
  case (Cons y ys)
  then have y: "y \<in> set xs" by (metis list.set_intros(1) set_sort)
  have "sorted (map f (y # ys))" by (metis Cons sorted_sort_key)
  moreover have "set (y # ys) = set xs" by (metis Cons set_sort)
  ultimately have le: "f y \<le> f x" if "x \<in> set xs" for x
    using that by auto
  have "find (\<lambda>x. \<forall>y \<in> set xs. \<not> f y < f x) xs \<noteq> None"
    unfolding find_None_iff using y le by (auto simp: not_less)
  then obtain x where x: "find (\<lambda>x. \<forall>y \<in> set xs. \<not> f y < f x) xs = Some x"
    by blast
  then have "x \<in> set xs" "\<not> f y < f x" using y by (auto dest: find_Some_set)
  with le have "f x = f y" by force
  with assms y \<open>x \<in> set xs\<close> have "x = y" by (auto dest: inj_onD)
  with x Cons show ?thesis by simp
qed

lemma pg_last_message_eq:
  assumes "db_wf d" "uc \<in> set (ucs :: chat_row list)"
  shows "map_option message_of_row (case filter (\<lambda>m. gc_chat_id m = cc_id uc) (pg_last_messages d ucs) of
      [] \<Rightarrow> None | m # _ \<Rightarrow> Some m) = last_message (db_view d) (cc_id uc)" (is ?eq)
    and "length (filter (\<lambda>m. gc_chat_id m = cc_id uc) (pg_last_messages d ucs)) \<le> 1" (is ?le)
proof -
  let ?k = "\<lambda>m. (gc_chat_id m, - int (gc_created_at m), - uint (gc_id m))"
  let ?ms = "filter (\<lambda>m. gc_chat_id m = cc_id uc \<and> gc_deleted_at m = None) (tb_messages d)"
  have inj: "inj_on ?k (set ?ms)"
  proof (rule inj_onI)
    fix x y assume xy: "x \<in> set ?ms" "y \<in> set ?ms" "?k x = ?k y"
    then have "gc_id x = gc_id y" by (simp add: word_uint_eq_iff)
    with xy assms(1) show "x = y"
      by (intro distinct_map_inj [of gc_id "tb_messages d"]) (simp_all add: db_wf_def)
  qed
  have "filter (\<lambda>m. gc_chat_id m = cc_id uc \<and> gc_chat_id m \<in> set (map cc_id ucs) \<and>
      gc_deleted_at m = None) (tb_messages d) = ?ms"
    using assms(2) by (auto intro: filter_cong)
  then have rows: "filter (\<lambda>m. gc_chat_id m = cc_id uc) (pg_last_messages d ucs) = take 1 (sort_key ?k ?ms)"
    unfolding pg_last_messages_def filter_distinct_on filter_sort by (simp add: conj_ac)
  then show ?le by simp
  have live: "live_messages (db_view d) (cc_id uc) = map message_of_row ?ms"
    by (simp add: live_messages_def db_view_def filter_map comp_def)
  have later: "later_message (message_of_row n) (message_of_row m) \<longleftrightarrow> ?k n < ?k m"
    if "n \<in> set ?ms" "m \<in> set ?ms" for n m
    using that by (auto simp: later_message_def less_prod_def word_less_def)
  have "find (\<lambda>x. \<forall>y \<in> set ?ms. \<not> ?k y < ?k x) ?ms =
      find (\<lambda>x. \<forall>y \<in> set ?ms. \<not> later_message (message_of_row y) (message_of_row x)) ?ms"
    using later by (intro find_cong) auto
  then show ?eq
    unfolding rows take1_sort_key [OF inj] last_message_def live find_map
    by (auto simp: comp_def split: option.split)
qed

lemma read_mark_view: "read_mark (db_view d) c u = pg_last_read d c u"
proof -
  have "(case map_of (map (\<lambda>r. ((rc_chat_id r, rc_user_id r), rc_last_read_at r)) rs) (c, u) of
      None \<Rightarrow> unix_epoch | Some t \<Rightarrow> t) =
    (case filter (\<lambda>r. rc_chat_id r = c \<and> rc_user_id r = u) rs of
      [] \<Rightarrow> unix_epoch | r # _ \<Rightarrow> rc_last_read_at r)" for rs
    by (induction rs) auto
  then show ?thesis by (simp add: read_mark_def pg_last_read_def db_view_def)
qed

lemma unread_count_view:
  "unread_count (db_view d) c u = length (filter (\<lambda>m. gc_chat_id m = c \<and> gc_sender_id m \<noteq> u \<and>
     gc_deleted_at m = None \<and> gc_created_at m > pg_last_read d c u) (tb_messages d))"
proof -
  have "live_messages (db_view d) c =
      map message_of_row (filter (\<lambda>m. gc_chat_id m = c \<and> gc_deleted_at m = None) (tb_messages d))"
    by (simp add: live_messages_def db_view_def filter_map comp_def)
  then show ?thesis
    by (simp add: unread_count_def read_mark_view filter_map comp_def conj_ac)
qed

lemma count_rows:
  "filter (\<lambda>p. fst p = c) (map (\<lambda>x. (x, g x)) (remdups xs)) = (if c \<in> set xs then [(c, g c)] else [])"
proof -
  have "filter (\<lambda>x. x = c) (remdups xs) = (if c \<in> set xs then [c] else [])"
    by (induction xs) auto
  then show ?thesis by (simp add: filter_map comp_def)
qed

lemma pg_unread_eq:
  assumes "uc \<in> set ucs"
  shows "left_join (filter (\<lambda>p. fst p = cc_id uc) (pg_unread d ucs u)) =
     [if unread_count (db_view d) (cc_id uc) u = 0 then None
      else Some (cc_id uc, unread_count (db_view d) (cc_id uc) u)]"
proof -
  let ?ms = "filter (\<lambda>m. gc_chat_id m \<in> set (map cc_id ucs) \<and> gc_sender_id m \<noteq> u \<and>
      gc_deleted_at m = None \<and> gc_created_at m > pg_last_read d (gc_chat_id m) u) (tb_messages d)"
  have "filter (\<lambda>m. gc_chat_id m = cc_id uc) ?ms = filter (\<lambda>m. gc_chat_id m = cc_id uc \<and>
      gc_sender_id m \<noteq> u \<and> gc_deleted_at m = None \<and>
      gc_created_at m > pg_last_read d (cc_id uc) u) (tb_messages d)"
    unfolding filter_filter using assms by (intro filter_cong) auto
  then have count: "length (filter (\<lambda>m. gc_chat_id m = cc_id uc) ?ms) =
      unread_count (db_view d) (cc_id uc) u"
    by (simp add: unread_count_view)
  have "c \<in> set (map gc_chat_id ms) \<longleftrightarrow> length (filter (\<lambda>m. gc_chat_id m = c) ms) \<noteq> 0" for c ms
    by (auto simp: filter_empty_conv)
  then have "cc_id uc \<in> set (map gc_chat_id ?ms) \<longleftrightarrow>
      length (filter (\<lambda>m. gc_chat_id m = cc_id uc) ?ms) \<noteq> 0" .
  with count show ?thesis
    by (simp only: pg_unread_def Let_def count_rows left_join_def) simp
qed

definition preview_row :: "db \<Rightarrow> uuid \<Rightarrow> chat_row \<Rightarrow> chat_row \<times> message_row option \<times> nat" where
  "preview_row d u uc = (uc,
     (case filter (\<lambda>m. gc_chat_id m = cc_id uc) (pg_last_messages d (user_chats d u)) of
        [] \<Rightarrow> None | m # _ \<Rightarrow> Some m),
     unread_count (db_view d) (cc_id uc) u)"

lemma pg_user_chat_rows_eq:
  assumes "db_wf d"
  shows "pg_user_chat_rows d u = sort_key (\<lambda>(uc, lm, cnt). - int (case lm of
        None \<Rightarrow> cc_created_at uc | Some m \<Rightarrow> gc_created_at m))
     (map (preview_row d u) (user_chats d u))"
proof -
  let ?ucs = "user_chats d u"
  have one: "concat (map (\<lambda>lm. map (\<lambda>x. (uc, lm, case x of None \<Rightarrow> 0 | Some (_, cnt) \<Rightarrow> cnt))
        (left_join (filter (\<lambda>p. fst p = cc_id uc) (pg_unread d ?ucs u))))
      (left_join (filter (\<lambda>m. gc_chat_id m = cc_id uc) (pg_last_messages d ?ucs)))) = [preview_row d u uc]"
    if "uc \<in> set ?ucs" for uc
    using pg_last_message_eq(2) [OF assms that]
    by (simp add: left_join_le1 pg_unread_eq [OF that] preview_row_def)
  then have "concat (map (\<lambda>uc. concat (map (\<lambda>lm. map (\<lambda>x. (uc, lm, case x of None \<Rightarrow> 0 | Some (_, cnt) \<Rightarrow> cnt))
        (left_join (filter (\<lambda>p. fst p = cc_id uc) (pg_unread d ?ucs u))))
      (left_join (filter (\<lambda>m. gc_chat_id m = cc_id uc) (pg_last_messages d ?ucs))))) ?ucs) =
      concat (map (\<lambda>uc. [preview_row d u uc]) ?ucs)"
    by (intro arg_cong [where f = concat] map_cong) auto
  also have "\<dots> = map (preview_row d u) ?ucs"
    by (induction ?ucs) auto
  finally show ?thesis
    unfolding pg_user_chat_rows_def Let_def by simp
qed

section \<open>The repository\<close>

definition scanned :: "(db_error + 'a) \<Rightarrow> 'a" where
  "scanned x = (case x of Inr a \<Rightarrow> a | Inl _ \<Rightarrow> undefined)"

lemma preview_row_scan:
  assumes "db_wf d" "uc \<in> set (user_chats d u)"
  shows "scanned (pg_scanPreview (preview_row d u uc)) = preview_of (db_view d) u (chat_of_row uc)"
proof -
  let ?lms = "filter (\<lambda>m. gc_chat_id m = cc_id uc) (pg_last_messages d (user_chats d u))"
  note last = pg_last_message_eq(1) [OF assms]
  show ?thesis
  proof (cases ?lms)
    case Nil
    with last show ?thesis
      by (simp add: scanned_def pg_scanPreview_def preview_row_def preview_of_def chat_of_row_def
          null_text_def)
  next
    case (Cons m ms)
    then have "gc_chat_id m = cc_id uc" by (auto dest: filter_eq_ConsD)
    moreover have "last_message (db_view d) (cc_id uc) = Some (message_of_row m)"
      using last Cons by simp
    ultimately show ?thesis
      using Cons
      by (simp add: scanned_def pg_scanPreview_def preview_row_def preview_of_def chat_of_row_def
          null_text_def zero_Message_def preview_message_def message_of_row_def)
  qed
qed

lemma pg_scanPreview_Inr: "pg_scanPreview r = Inr (scanned (pg_scanPreview r))"
  by (cases r) (simp add: pg_scanPreview_def scanned_def Let_def)

lemma user_chats_answer:
  assumes wf: "db_wf d" and v: "db_view d = v"
  shows "sp_GetUserChats u v = (Ok (id (map (\<lambda>r. scanned (pg_scanPreview r)) (pg_user_chat_rows d u))), v)"
proof -
  let ?key = "\<lambda>(uc, lm, cnt). - int (case lm of None \<Rightarrow> cc_created_at uc | Some m \<Rightarrow> gc_created_at m)"
  let ?scan = "\<lambda>r. scanned (pg_scanPreview r)"
  have key: "?key r = - int (activity (?scan r))" for r
    by (cases r) (auto simp: scanned_def pg_scanPreview_def activity_def zero_Message_def Let_def
        split: option.split)
  have "map ?scan (pg_user_chat_rows d u) =
      sort_key (\<lambda>p. - int (activity p)) (map ?scan (map (preview_row d u) (user_chats d u)))"
    unfolding pg_user_chat_rows_eq [OF wf] sort_key_map comp_def key ..
  also have "map ?scan (map (preview_row d u) (user_chats d u)) =
      map (\<lambda>uc. preview_of v u (chat_of_row uc)) (user_chats d u)"
    using preview_row_scan [OF wf] v by simp
  also have "\<dots> = map (\<lambda>(c, live). preview_of v u c)
        (filter (\<lambda>(c, live). live \<and> is_member v (chat_ID c) u) (av_chats v))"
    unfolding user_chats_eq [OF wf] v [symmetric] is_member_view
    by (simp add: db_view_def filter_map comp_def split_def)
  finally show "sp_GetUserChats u v = (Ok (id (map ?scan (pg_user_chat_rows d u))), v)"
    by (simp add: sp_GetUserChats_def)
qed

lemma pg_chat_GetUserChats_sim:
  "simulates (pg_at t0) quiet view_of True id v (pg_chat_GetUserChats u) (sp_GetUserChats u)"
  unfolding pg_chat_GetUserChats_def
  by (rule sim_query, rule pg_scanPreview_Inr, rule user_chats_answer) (simp_all add: pg_wf_def)

lemma chat_port_idempotent_pg:
  "chat_port_idempotent pg_NewChatRepository pg_user_GetByID (pg_at t0) quiet view_of pg_chat_ok"
  by unfold_locales
    (simp_all add: table_inv_def view_of_def pg_wf_view pg_NewChatRepository_def pg_user_GetByID_sim pg_chat_CreateWithMembers_sim
      chat_GetByID_sim pg_chat_Update_sim pg_chat_Delete_sim pg_chat_AddMember_sim
      pg_tables.RemoveMember_sim pg_chat_GetMember_sim pg_chat_GetMembers_sim
      pg_chat_UpdateMemberRole_sim pg_chat_GetUserChats_sim chat_GetDirectChat_sim
      chat_IsMember_sim)

lemmas chat_port_pg = chat_port_idempotent.axioms(1) [OF chat_port_idempotent_pg]

interpretation pg: chat_port_idempotent pg_NewChatRepository pg_user_GetByID pg_inv quiet view_of pg_chat_ok
  by (rule chat_port_idempotent_pg)

end
