(* ===== verification/Demo.thy ===== *)
theory Demo
  imports PgPreview
begin

text \<open>
  A small concrete world on which the witnesses evaluate: four users, one group \<open>10\<close> owned by
  user 1 with admin 2 and member 3, one group \<open>13\<close> of user 4 alone, one direct chat \<open>11\<close> between 1 and 2, and a few messages.
\<close>

definition demo_user :: "uuid \<Rightarrow> string \<Rightarrow> user_row" where
  "demo_user i n = \<lparr>uc_id = i, uc_username = n, uc_email = n @ ''@x.io'', uc_password_hash = ''h'',
     uc_avatar_url = Some [], uc_bio = Some [], uc_status = ''offline'', uc_last_seen = 5,
     uc_created_at = 5, uc_updated_at = 5, uc_deleted_at = None\<rparr>"

definition demo_member :: "uuid \<Rightarrow> uuid \<Rightarrow> MemberRole \<Rightarrow> time \<Rightarrow> member_row" where
  "demo_member c u r t = \<lparr>mc_chat_id = c, mc_user_id = u, mc_role = r, mc_joined_at = t\<rparr>"

definition demo_message :: "uuid \<Rightarrow> uuid \<Rightarrow> uuid \<Rightarrow> time \<Rightarrow> message_row" where
  "demo_message i c u t = \<lparr>gc_id = i, gc_chat_id = c, gc_sender_id = u, gc_content = ''hi'',
     gc_type = ''text'', gc_reply_to_id = None, gc_edited_at = None, gc_deleted_at = None,
     gc_created_at = t, gc_updated_at = t\<rparr>"

definition demo_db :: db where
  "demo_db = \<lparr>
     tb_users = [demo_user 1 ''ann'', demo_user 2 ''bob'', demo_user 3 ''cat'', demo_user 4 ''dan''],
     tb_chats =
       [\<lparr>cc_id = 10, cc_type = ''group'', cc_name = Some ''team'', cc_avatar_url = None,
         cc_description = None, cc_created_by = 1, cc_created_at = 6, cc_updated_at = 6,
         cc_deleted_at = None\<rparr>,
        \<lparr>cc_id = 11, cc_type = ''direct'', cc_name = None, cc_avatar_url = None,
         cc_description = None, cc_created_by = 1, cc_created_at = 7, cc_updated_at = 7,
         cc_deleted_at = None\<rparr>,
        \<lparr>cc_id = 13, cc_type = ''group'', cc_name = Some ''team'', cc_avatar_url = None,
         cc_description = None, cc_created_by = 4, cc_created_at = 6, cc_updated_at = 6,
         cc_deleted_at = None\<rparr>],
     tb_members = [demo_member 10 1 ''owner'' 6, demo_member 10 2 ''admin'' 8,
        demo_member 10 3 ''member'' 9, demo_member 11 1 ''member'' 7, demo_member 11 2 ''member'' 7,
        demo_member 13 4 ''owner'' 6],
     tb_messages = [demo_message 20 10 2 30, demo_message 21 10 3 31, demo_message 22 10 2 31,
        demo_message 23 10 1 40],
     tb_receipts = [], tb_reactions = []\<rparr>"

definition quiet_env :: env where
  "quiet_env = \<lparr>env_pos = 0, env_fault = (\<lambda>_. None), env_tick = (\<lambda>_. 1), env_now = unix_epoch + 100\<rparr>"

definition demo :: world where
  "demo = \<lparr>w_env = quiet_env, w_db = demo_db, w_cache = Map.empty\<rparr>"

text \<open>The same world, with the statement at position \<open>p\<close> failing.\<close>

definition demo_fault :: "nat \<Rightarrow> world" where
  "demo_fault p = demo\<lparr>w_env := quiet_env\<lparr>env_fault := (\<lambda>n. if n = p then Some ''lost connection'' else None)\<rparr>\<rparr>"

lemma quiet_demo [simp]: "quiet demo"
  by (simp add: demo_def quiet_def quiet_env_def)

lemma demo_lookups [simp]:
  "user_exists demo_db u \<longleftrightarrow> u \<in> {1, 2, 3, 4}"
  "chat_exists demo_db c \<longleftrightarrow> c \<in> {10, 11, 13}"
  by (auto simp: user_exists_def chat_exists_def demo_db_def demo_user_def)

lemma demo_wf: "pg_wf demo_db"
proof -
  have ascii: "RuneCountInString ''team'' = 4" "ValidString ''team''"
    by (simp_all add: RuneCount_ascii ValidString_ascii is_ascii_def)
  have "db_wf demo_db"
    unfolding db_wf_def demo_lookups
    by (simp add: demo_db_def demo_user_def demo_member_def demo_message_def)
  then show ?thesis
    by (simp add: pg_wf_def demo_db_def demo_user_def pg_chat_checks_def pg_text_def ascii
        valid_chat_type_def)
qed

lemma pg_inv_demo [simp]: "pg_inv demo" "pg_inv (demo_fault p)"
  using demo_wf by (simp_all add: table_inv_def demo_def demo_fault_def)

definition demo_view :: aview where
  "demo_view = \<lparr>
     av_users = map user_of_row (tb_users demo_db),
     av_chats = [(\<lparr>chat_ID = 10, chat_Type = ''group'', chat_Name = ''team'', chat_AvatarURL = [],
         chat_Description = [], chat_CreatedBy = 1, chat_CreatedAt = 6, chat_UpdatedAt = 6\<rparr>, True),
       (\<lparr>chat_ID = 11, chat_Type = ''direct'', chat_Name = [], chat_AvatarURL = [],
         chat_Description = [], chat_CreatedBy = 1, chat_CreatedAt = 7, chat_UpdatedAt = 7\<rparr>, True),
       (\<lparr>chat_ID = 13, chat_Type = ''group'', chat_Name = ''team'', chat_AvatarURL = [],
         chat_Description = [], chat_CreatedBy = 4, chat_CreatedAt = 6, chat_UpdatedAt = 6\<rparr>, True)],
     av_members = map member_of_row (tb_members demo_db),
     av_messages = map message_of_row (tb_messages demo_db), av_receipts = [],
     av_reactions = []\<rparr>"

lemma view_demo [simp]: "view_of demo = demo_view" "view_of (demo_fault p) = demo_view"
  by (simp_all add: demo_view_def demo_def demo_fault_def view_of_def db_view_def demo_db_def
      demo_user_def chat_state_def chat_of_row_def null_text_def)

lemma demo_user_lookup:
  "user_lookup demo_view u \<noteq> None \<longleftrightarrow> u \<in> {1, 2, 3, 4}"
  by (auto simp: user_lookup_def demo_view_def demo_db_def demo_user_def)

lemma demo_active_role:
  "active_role demo_view 10 1 = Some MemberRoleOwner" "active_role demo_view 10 2 = Some MemberRoleAdmin"
  "active_role demo_view 10 3 = Some MemberRoleMember" "active_role demo_view 10 4 = None"
  using demo_user_lookup [of 1] demo_user_lookup [of 2] demo_user_lookup [of 3]
  by (auto simp: active_role_def role_of_def member_lookup_def demo_view_def demo_db_def demo_member_def
      MemberRoleOwner_def MemberRoleAdmin_def MemberRoleMember_def)

lemma demo_alone:
  "active_role demo_view 13 4 = Some MemberRoleOwner" "nextOwner (roster demo_view 13) 4 = None"
  "live_group demo_view 13"
  using demo_user_lookup [of 4]
  by (auto simp: active_role_def role_of_def member_lookup_def demo_view_def demo_db_def demo_member_def
      MemberRoleOwner_def nextOwner_None roster_def live_group_def chat_lookup_def IsDirect_def
      ChatTypeDirect_def)

lemma demo_live_group [simp]: "live_group demo_view 10"
  by (simp add: live_group_def chat_lookup_def demo_view_def IsDirect_def ChatTypeDirect_def)

lemma demo_caller [simp]: "caller_pre demo_view 12 u \<longleftrightarrow> u \<in> {1, 2, 3, 4}"
  using demo_user_lookup [of u] by (auto simp: caller_pre_def chat_unused_def demo_view_def)

text \<open>A collation for the witnesses.\<close>

definition demo_coll :: "string \<Rightarrow> nat" where
  "demo_coll s = length s"

end
