(* ===== verification/ChatProps.thy ===== *)
theory ChatProps
  imports Demo
begin

text \<open>
  The properties of the chat use cases on PostgreSQL: the whole stack from internal/usecase/chat
  down to the tables, obtained from the interpretation \<open>pg\<close> of the chat port.
\<close>

abbreviation pg_chats :: "world ChatRepository" where
  "pg_chats \<equiv> pg_NewChatRepository"

section \<open>Ownership of groups\<close>

text \<open>C1: Whatever chat use cases run, with whatever arguments, and whatever SQL statements fail
  on the way, every live group keeps a member with the role of owner.\<close>

theorem pg_groups_always_owned:
  assumes "pg_inv w0" "groups_owned (view_of w0)"
    and "chat_reach pg_NewChatRepository pg_user_GetByID view_of w0 w"
  shows "groups_owned (view_of w)"
  using pg.reach_groups_owned [OF assms(3,1,2)] by blast

lemma demo_owned: "groups_owned demo_view"
  by (simp add: groups_owned_def has_owner_def demo_view_def demo_db_def demo_member_def IsDirect_def
      ChatTypeDirect_def MemberRoleOwner_def)

theorem pg_groups_always_owned_witness:
  "groups_owned (view_of (snd (run_op pg_NewChatRepository pg_user_GetByID 50 12 (OpLeaveChat 10 1)
     (demo_fault 4))))"
  by (rule pg_groups_always_owned [OF _ _ reach_one]) (simp_all add: demo_owned)

text \<open>C2: As long as no statement fails, no chat use case ever produces a second owner of a chat.\<close>

theorem pg_single_owner:
  assumes "pg_inv w0" "quiet w0" "one_owner (view_of w0)"
    and "chat_reach pg_NewChatRepository pg_user_GetByID view_of w0 w"
  shows "one_owner (view_of w)"
  using pg.reach_one_owner [OF assms(4,1,2,3)] by blast

lemma demo_one_owner: "one_owner demo_view"
  by (auto simp: one_owner_def owner_in_def demo_view_def demo_db_def demo_member_def
      MemberRoleOwner_def)

theorem pg_single_owner_witness:
  "one_owner (view_of (snd (run_op pg_NewChatRepository pg_user_GetByID 50 12 (OpLeaveChat 10 1) demo)))"
  by (rule pg_single_owner [OF _ _ _ reach_one]) (simp_all add: demo_one_owner)

section \<open>Authorisation and effect of the writes\<close>

text \<open>C6: RemoveMember removes exactly the target, and only from a live group, for a caller who is
  its owner, or its admin when the target is a plain member; the owner is never removed.  Every
  other run leaves the store alone, and an authorised call fails only if a statement fails.\<close>

theorem pg_RemoveMember_correct:
  assumes "pg_inv w"
  shows "guarded pg_inv quiet view_of True (chats_RemoveMember pg_NewChatRepository c u t)
     (\<lambda>_. may_remove (view_of w) c u t) (\<lambda>_. without_member (view_of w) c t) w"
  by (rule pg.RemoveMember_guarded [OF assms])

theorem pg_RemoveMember_correct_witness:
  "fst (chats_RemoveMember pg_NewChatRepository 10 2 3 demo) = Ok () \<and>
   view_of (snd (chats_RemoveMember pg_NewChatRepository 10 2 3 demo)) = without_member demo_view 10 3 \<and>
   view_of (snd (chats_RemoveMember pg_NewChatRepository 10 3 2 demo)) = demo_view"
proof -
  have "may_remove demo_view 10 2 3" "\<not> may_remove demo_view 10 3 2"
    by (simp_all add: may_remove_def demo_active_role)
  then show ?thesis
    using pg_RemoveMember_correct [of demo 10 2 3] pg_RemoveMember_correct [of demo 10 3 2]
    by (auto simp: guarded_def)
qed

text \<open>C7: ChangeMemberRole sets the role of another member to admin or member, and only for the
  owner; in particular nobody changes their own role or creates a second owner.\<close>

theorem pg_ChangeMemberRole_correct:
  assumes "pg_inv w"
  shows "guarded pg_inv quiet view_of True (chats_ChangeMemberRole pg_NewChatRepository c u inp)
     (\<lambda>_. may_change_role (view_of w) c u inp)
     (\<lambda>_. with_role (view_of w) c (cri_UserID inp) (cri_Role inp)) w"
  by (rule simulates_guarded [OF pg.ChangeMemberRole_sim_any assms failsafe_ops(2)])
    (simp add: ChangeMemberRole_spec)

theorem pg_ChangeMemberRole_correct_witness:
  "fst (chats_ChangeMemberRole pg_NewChatRepository 10 1 \<lparr>cri_UserID = 3, cri_Role = ''admin''\<rparr> demo) = Ok () \<and>
   view_of (snd (chats_ChangeMemberRole pg_NewChatRepository 10 2 \<lparr>cri_UserID = 3, cri_Role = ''admin''\<rparr> demo)) =
     demo_view"
proof -
  have "may_change_role demo_view 10 1 \<lparr>cri_UserID = 3, cri_Role = ''admin''\<rparr>"
    "\<not> may_change_role demo_view 10 2 \<lparr>cri_UserID = 3, cri_Role = ''admin''\<rparr>"
    by (simp_all add: may_change_role_def demo_active_role uuid_Nil_def)
      (simp add: MemberRoleAdmin_def)
  then show ?thesis
    using pg_ChangeMemberRole_correct [of demo 10 1 "\<lparr>cri_UserID = 3, cri_Role = ''admin''\<rparr>"]
      pg_ChangeMemberRole_correct [of demo 10 2 "\<lparr>cri_UserID = 3, cri_Role = ''admin''\<rparr>"]
    by (auto simp: guarded_def)
qed

text \<open>C8: AddMember appends the target as a plain member of a live group, only for an owner or
  admin, only for a live user, and never twice.\<close>

theorem pg_AddMember_correct:
  assumes "pg_inv w"
  shows "guarded pg_inv quiet view_of True
     (chats_AddMember pg_NewChatRepository pg_user_GetByID now c u inp)
     (\<lambda>_. may_add (view_of w) c u (ami_UserID inp))
     (\<lambda>_. (view_of w)\<lparr>av_members := av_members (view_of w) @ [plain_member c (ami_UserID inp) now]\<rparr>) w"
  by (rule pg.AddMember_guarded [OF assms])

theorem pg_AddMember_correct_witness:
  "fst (chats_AddMember pg_NewChatRepository pg_user_GetByID 50 10 2 \<lparr>ami_UserID = 4\<rparr> demo) = Ok ()"
proof -
  have "\<not> is_member demo_view 10 4"
    by (simp add: is_member_iff demo_view_def demo_db_def demo_member_def)
  then have "may_add demo_view 10 2 4"
    using demo_user_lookup [of 4] by (simp add: may_add_def demo_active_role uuid_Nil_def)
  then show ?thesis
    using pg_AddMember_correct [of demo 50 10 2 "\<lparr>ami_UserID = 4\<rparr>"] by (auto simp: guarded_def)
qed

lemma edited_chat_ok:
  assumes "pg_inv w" "chat_lookup (view_of w) c = Some x" "UpdateGroupInput_Validate inp = None"
    "\<forall>s \<in> {ugi_Name inp, ugi_Description inp, ugi_AvatarURL inp}. pg_opt_text s"
  shows "pg_chat_ok (edited_group now inp x)"
proof -
  from assms(1) have wf: "pg_wf (w_db w)" by (simp add: table_inv_def)
  from assms(2) obtain r where r: "r \<in> set (tb_chats (w_db w))" "x = chat_of_row r"
    by (auto simp: view_of_def chat_lookup_view dest: find_Some_set)
  then have checks: "first_violation (pg_chat_checks r) = None" using wf by (simp add: pg_wf_def)
  have stored: "pg_opt_text s \<Longrightarrow> pg_text (null_text s)" for s
    by (cases s) auto
  have len: "opt_len s = RuneCountInString (null_text s)" for s
    by (cases s) auto
  have old: "pg_text (chat_Name x)" "pg_text (chat_AvatarURL x)" "pg_text (chat_Description x)"
    "RuneCountInString (chat_Name x) \<le> 100" "RuneCountInString (chat_Description x) \<le> 500"
    using checks stored unfolding r(2)
    by (auto simp: pg_chat_checks_def chat_of_row_def len not_less split: if_splits)
  from assms(3,4) old show ?thesis
    unfolding pg_chat_ok_def edited_group_fields UpdateGroupInput_ok
    by (auto split: option.split)
qed

text \<open>UpdateGroup writes exactly the fields the input names, only to a live group and only for
  an owner or admin; a valid edit whose texts the database can store succeeds.\<close>

theorem pg_UpdateGroup_correct:
  assumes "pg_inv w"
  shows "guarded pg_inv quiet view_of
     (\<forall>s \<in> {ugi_Name inp, ugi_Description inp, ugi_AvatarURL inp}. pg_opt_text s)
     (chats_UpdateGroup pg_NewChatRepository now c u inp)
     (\<lambda>ch. may_edit (view_of w) c u inp \<and>
        (\<exists>x. chat_lookup (view_of w) c = Some x \<and> ch = edited_group now inp x))
     (\<lambda>ch. with_chat (view_of w) ch) w"
  using edited_chat_ok [OF assms] by (intro guarded_ok [OF pg.UpdateGroup_guarded [OF assms]]) blast

theorem pg_UpdateGroup_correct_witness:
  "\<exists>ch. fst (chats_UpdateGroup pg_NewChatRepository 50 10 2
       \<lparr>ugi_Name = None, ugi_Description = Some [], ugi_AvatarURL = None\<rparr> demo) = Ok ch \<and>
     chat_UpdatedAt ch = 50"
proof -
  let ?inp = "\<lparr>ugi_Name = None, ugi_Description = Some [], ugi_AvatarURL = None\<rparr>"
  have "may_edit demo_view 10 2 ?inp"
    by (simp add: may_edit_def UpdateGroupInput_ok demo_active_role)
  moreover have "\<exists>x. chat_lookup demo_view 10 = Some x"
    by (simp add: chat_lookup_def demo_view_def)
  ultimately show ?thesis
    using pg_UpdateGroup_correct [of demo ?inp 50 10 2] by (auto simp: guarded_def)
qed

section \<open>Creating chats\<close>

text \<open>C9: A created group has exactly the caller as owner and every other listed user once as a
  plain member, whatever repetitions the request contains; it is refused if a listed user does
  not exist, and a refused or failed creation leaves no trace.\<close>

theorem pg_CreateGroup_correct:
  assumes "pg_inv w" "caller_pre (view_of w) newID u"
  shows "\<exists>ms. distinct (map mem_UserID ms) \<and> set (map mem_UserID ms) = insert u (set (cgi_MemberIDs inp)) \<and>
     (\<forall>m \<in> set ms. mem_ChatID m = newID \<and> mem_JoinedAt m = now \<and>
        mem_Role m = (if mem_UserID m = u then MemberRoleOwner else MemberRoleMember)) \<and>
     guarded pg_inv quiet view_of (pg_text (cgi_Name inp) \<and> pg_text (cgi_Description inp))
       (chats_CreateGroup pg_NewChatRepository pg_user_GetByID now newID u inp)
       (\<lambda>ch. CreateGroupInput_Validate inp = None \<and>
          (\<forall>x \<in> set (cgi_MemberIDs inp). x = u \<or> user_lookup (view_of w) x \<noteq> None) \<and>
          ch = new_group now newID u inp)
       (\<lambda>ch. (view_of w)\<lparr>av_chats := av_chats (view_of w) @ [(ch, True)],
          av_members := av_members (view_of w) @ ms\<rparr>) w"
proof (intro exI conjI)
  show "distinct (map mem_UserID (new_group_members now newID u inp))"
    "set (map mem_UserID (new_group_members now newID u inp)) = insert u (set (cgi_MemberIDs inp))"
    by (rule new_group_members_facts)+
  show "\<forall>m \<in> set (new_group_members now newID u inp). mem_ChatID m = newID \<and> mem_JoinedAt m = now \<and>
      mem_Role m = (if mem_UserID m = u then MemberRoleOwner else MemberRoleMember)"
    using new_group_members_facts(3) by blast
  let ?P = "\<lambda>ch. CreateGroupInput_Validate inp = None \<and>
      (\<forall>x \<in> set (cgi_MemberIDs inp). x = u \<or> user_lookup (view_of w) x \<noteq> None) \<and>
      ch = new_group now newID u inp"
  let ?eff = "\<lambda>ch. (view_of w)\<lparr>av_chats := av_chats (view_of w) @ [(ch, True)],
      av_members := av_members (view_of w) @ new_group_members now newID u inp\<rparr>"
  let ?m = "chats_CreateGroup pg_NewChatRepository pg_user_GetByID now newID u inp"
  have "guarded pg_inv quiet view_of (pg_chat_ok (new_group now newID u inp)) ?m ?P ?eff w"
    by (rule pg.CreateGroup_guarded [OF assms])
  then show "guarded pg_inv quiet view_of (pg_text (cgi_Name inp) \<and> pg_text (cgi_Description inp)) ?m ?P ?eff w"
    unfolding guarded_def by (auto simp: pg_chat_ok_def new_group_def Validate_ok)
qed

theorem pg_CreateGroup_correct_witness:
  "fst (chats_CreateGroup pg_NewChatRepository pg_user_GetByID 50 12 1
       \<lparr>cgi_Name = ''ops'', cgi_Description = [], cgi_MemberIDs = [2, 3, 2, 1]\<rparr> demo) =
     Ok (new_group 50 12 1 \<lparr>cgi_Name = ''ops'', cgi_Description = [], cgi_MemberIDs = [2, 3, 2, 1]\<rparr>)"
proof -
  let ?inp = "\<lparr>cgi_Name = ''ops'', cgi_Description = [], cgi_MemberIDs = [2, 3, 2, 1]\<rparr>"
  have ops: "RuneCountInString ''ops'' = 3" "ValidString ''ops''"
    by (simp_all add: RuneCount_ascii ValidString_ascii is_ascii_def)
  have valid: "CreateGroupInput_Validate ?inp = None" by (simp add: Validate_ok ops)
  have users: "\<forall>x \<in> set (cgi_MemberIDs ?inp). x = 1 \<or> user_lookup demo_view x \<noteq> None"
    using demo_user_lookup [of 2] demo_user_lookup [of 3] by simp
  have "pg_text (cgi_Name ?inp) \<and> pg_text (cgi_Description ?inp)"
    by (simp add: pg_text_def [of "''ops''"] ops)
  with pg_CreateGroup_correct [of demo 12 1 ?inp 50] valid users show ?thesis
    unfolding guarded_def view_demo by auto
qed

end
