(* ===== verification/PgMessage.thy ===== *)
theory PgMessage
  imports Postgres
begin

text \<open>
  internal/infrastructure/storage/postgres/message.go: the PostgreSQL message repository with its
  read receipts and reactions, one definition per method, and the constraints that
  migrations/postgres/000001_init.up.sql puts on these three tables.  The parameter \<open>coll\<close>
  stands for the sort keys of the database's collation.
\<close>

section \<open>Constraints\<close>

definition pg_content_checks :: "string \<Rightarrow> (bool \<times> db_error) list" where
  "pg_content_checks content =
     [(RuneCountInString content = 0, check_violation ''chk_messages_content''),
      (RuneCountInString content > 4096, check_violation ''chk_messages_content_max'')]"

definition pg_message_checks :: "message_row \<Rightarrow> (bool \<times> db_error) list" where
  "pg_message_checks r =
     [(\<not> pg_text (gc_content r), bad_encoding),
      (\<not> valid_message_type (gc_type r), bad_enum)] @ pg_content_checks (gc_content r)"

definition pg_message_keys :: "db \<Rightarrow> message_row \<Rightarrow> (bool \<times> db_error) list" where
  "pg_message_keys d r =
     [(message_exists d (gc_id r), unique_violation ''messages_pkey''),
      (\<not> chat_exists d (gc_chat_id r), fk_violation ''messages_chat_id_fkey''),
      (\<not> user_exists d (gc_sender_id r), fk_violation ''messages_sender_id_fkey''),
      (case gc_reply_to_id r of None \<Rightarrow> False
       | Some x \<Rightarrow> \<not> message_exists d x \<and> x \<noteq> gc_id r, fk_violation ''messages_reply_to_id_fkey'')]"

definition pg_reaction_checks :: "reaction_row \<Rightarrow> (bool \<times> db_error) list" where
  "pg_reaction_checks r =
     [(\<not> pg_text (xc_emoji r), bad_encoding),
      (RuneCountInString (xc_emoji r) < 1 \<or> RuneCountInString (xc_emoji r) > 10,
         check_violation ''chk_reactions_emoji'')]"

definition pg_reaction_fks :: "db \<Rightarrow> reaction_row \<Rightarrow> (bool \<times> db_error) list" where
  "pg_reaction_fks d r =
     [(\<not> message_exists d (xc_message_id r), fk_violation ''message_reactions_message_id_fkey''),
      (\<not> user_exists d (xc_user_id r), fk_violation ''message_reactions_user_id_fkey'')]"

section \<open>Scanning\<close>

definition pg_scanMessage :: "message_row \<Rightarrow> db_error + Message" where
  "pg_scanMessage r = Inr \<lparr>msg_ID = gc_id r, msg_ChatID = gc_chat_id r,
     msg_SenderID = gc_sender_id r, msg_Content = gc_content r, msg_Type = gc_type r,
     msg_ReplyToID = gc_reply_to_id r, msg_EditedAt = gc_edited_at r,
     msg_DeletedAt = gc_deleted_at r, msg_CreatedAt = gc_created_at r,
     msg_UpdatedAt = gc_updated_at r, msg_Sender = None, msg_Reactions = []\<rparr>"

text \<open>A NULL in a column that is read into a Go string does not scan.\<close>

definition scan_null_text :: db_error where
  "scan_null_text = DriverErr ''cannot scan NULL into *string''"

definition pg_scanMessageWithSender :: "message_row \<times> user_row \<Rightarrow> db_error + Message" where
  "pg_scanMessageWithSender row =
     (let (r, u) = row in
      case (uc_avatar_url u, uc_bio u) of
        (Some av, Some b) \<Rightarrow>
          Inr \<lparr>msg_ID = gc_id r, msg_ChatID = gc_chat_id r,
            msg_SenderID = gc_sender_id r, msg_Content = gc_content r, msg_Type = gc_type r,
            msg_ReplyToID = gc_reply_to_id r, msg_EditedAt = gc_edited_at r,
            msg_DeletedAt = gc_deleted_at r, msg_CreatedAt = gc_created_at r,
            msg_UpdatedAt = gc_updated_at r,
            msg_Sender = Some (zero_User\<lparr>user_ID := uc_id u, user_Username := uc_username u,
              user_Email := uc_email u, user_AvatarURL := av, user_Bio := b,
              user_Status := uc_status u, user_LastSeen := uc_last_seen u,
              user_CreatedAt := uc_created_at u, user_UpdatedAt := uc_updated_at u\<rparr>),
            msg_Reactions = []\<rparr>
      | _ \<Rightarrow> Inl scan_null_text)"

definition pg_scanReaction :: "reaction_row \<times> user_row \<Rightarrow> db_error + Reaction" where
  "pg_scanReaction row =
     (let (r, u) = row in
      case uc_avatar_url u of
        Some av \<Rightarrow> Inr \<lparr>rx_MessageID = xc_message_id r, rx_UserID = xc_user_id r,
          rx_Emoji = xc_emoji r, rx_CreatedAt = xc_created_at r,
          rx_User = Some (zero_User\<lparr>user_ID := uc_id u, user_Username := uc_username u,
            user_AvatarURL := av\<rparr>)\<rparr>
      | None \<Rightarrow> Inl scan_null_text)"

section \<open>Messages\<close>

definition pg_msg_Create :: "Message \<Rightarrow> (world, unit) io" where
  "pg_msg_Create m =
     call (db_exec (\<lambda>_ d.
       let r = \<lparr>gc_id = msg_ID m, gc_chat_id = msg_ChatID m, gc_sender_id = msg_SenderID m,
                gc_content = msg_Content m, gc_type = msg_Type m, gc_reply_to_id = msg_ReplyToID m,
                gc_edited_at = None, gc_deleted_at = None, gc_created_at = msg_CreatedAt m,
                gc_updated_at = msg_UpdatedAt m\<rparr>
       in case first_violation (pg_message_checks r @ pg_message_keys d r) of
            Some e \<Rightarrow> Inl e
          | None \<Rightarrow> Inr (1, d\<lparr>tb_messages := tb_messages d @ [r]\<rparr>))) (\<lambda>_. ret ())"

definition pg_msg_GetByID :: "uuid \<Rightarrow> (world, Message) io" where
  "pg_msg_GetByID mid =
     branch (db_queryRow (\<lambda>d. [m \<leftarrow> tb_messages d. gc_id m = mid]) pg_scanMessage)
       ret
       (\<lambda>err. if is_ErrNoRows err then throw (Dom ErrMessageNotFound) else throw err)"

definition pg_history_key :: "message_row \<times> user_row \<Rightarrow> int \<times> int" where
  "pg_history_key p = (- int (gc_created_at (fst p)), - uint (gc_id (fst p)))"

definition pg_msg_GetChatMessages ::
  "uuid \<Rightarrow> MessageCursor option \<Rightarrow> int \<Rightarrow> (world, Message list) io" where
  "pg_msg_GetChatMessages chatID cursor limit =
     (let rows = (\<lambda>d. case cursor of
            None \<Rightarrow> [p \<leftarrow> messages_join_senders d.
              gc_chat_id (fst p) = chatID \<and> gc_deleted_at (fst p) = None]
          | Some c \<Rightarrow> [p \<leftarrow> messages_join_senders d.
              gc_chat_id (fst p) = chatID \<and> gc_deleted_at (fst p) = None
              \<and> (gc_created_at (fst p), gc_id (fst p)) < (cur_CreatedAt c, cur_ID c)])
      in if limit < 0 then call (db_exec (\<lambda>_ _. Inl (PgError ''2201W'' []))) (\<lambda>_. ret [])
         else db_query (\<lambda>d. take (nat limit) (sort_key pg_history_key (rows d)))
                pg_scanMessageWithSender)"

definition pg_msg_Update :: "Message \<Rightarrow> (world, unit) io" where
  "pg_msg_Update m =
     call (db_exec (\<lambda>_ d.
       let P = (\<lambda>r. gc_id r = msg_ID m \<and> gc_deleted_at r = None);
           f = (\<lambda>r. r\<lparr>gc_content := msg_Content m, gc_edited_at := msg_EditedAt m,
                      gc_updated_at := msg_UpdatedAt m\<rparr>);
           (n, rs) = sql_update P f (tb_messages d)
       in case first_violation ((\<not> pg_text (msg_Content m), bad_encoding)
              # (if n = 0 then [] else pg_content_checks (msg_Content m))) of
            Some e \<Rightarrow> Inl e
          | None \<Rightarrow> Inr (n, d\<lparr>tb_messages := rs\<rparr>))) (\<lambda>n.
     if n = 0 then throw (Dom ErrMessageNotFound) else ret ())"

definition pg_msg_Delete :: "uuid \<Rightarrow> (world, unit) io" where
  "pg_msg_Delete mid =
     call (db_exec (\<lambda>now d.
       let (n, rs) = sql_update (\<lambda>r. gc_id r = mid \<and> gc_deleted_at r = None)
                       (\<lambda>r. r\<lparr>gc_deleted_at := Some now, gc_updated_at := now\<rparr>) (tb_messages d)
       in Inr (n, d\<lparr>tb_messages := rs\<rparr>))) (\<lambda>n.
     if n = 0 then throw (Dom ErrMessageNotFound) else ret ())"

section \<open>Read receipts\<close>

text \<open>\<open>ON CONFLICT (chat_id, user_id) DO UPDATE SET last_read_at = NOW()\<close>.\<close>

definition pg_msg_MarkRead :: "uuid \<Rightarrow> uuid \<Rightarrow> (world, unit) io" where
  "pg_msg_MarkRead chatID userID =
     call (db_exec (\<lambda>now d.
       let P = (\<lambda>r. rc_chat_id r = chatID \<and> rc_user_id r = userID);
           (n, rs) = sql_update P (\<lambda>r. r\<lparr>rc_last_read_at := now\<rparr>) (tb_receipts d)
       in if n \<noteq> 0 then Inr (n, d\<lparr>tb_receipts := rs\<rparr>)
          else (case first_violation
              [(\<not> chat_exists d chatID, fk_violation ''chat_read_receipts_chat_id_fkey''),
               (\<not> user_exists d userID, fk_violation ''chat_read_receipts_user_id_fkey'')] of
             Some e \<Rightarrow> Inl e
           | None \<Rightarrow> Inr (1, d\<lparr>tb_receipts := tb_receipts d @
               [\<lparr>rc_chat_id = chatID, rc_user_id = userID, rc_last_read_at = now\<rparr>]\<rparr>))))
     (\<lambda>_. ret ())"

definition pg_msg_GetUnreadCount :: "uuid \<Rightarrow> uuid \<Rightarrow> (world, nat) io" where
  "pg_msg_GetUnreadCount chatID userID =
     call (db_queryRow (\<lambda>d.
       let mark = (case [r \<leftarrow> tb_receipts d. rc_chat_id r = chatID \<and> rc_user_id r = userID] of
             [] \<Rightarrow> unix_epoch | r # _ \<Rightarrow> rc_last_read_at r)
       in [length [m \<leftarrow> tb_messages d. gc_chat_id m = chatID \<and> gc_sender_id m \<noteq> userID
             \<and> gc_deleted_at m = None \<and> gc_created_at m > mark]]) Inr) ret"

section \<open>Reactions\<close>

text \<open>\<open>ON CONFLICT (message_id, user_id, emoji) DO NOTHING\<close>.\<close>

definition pg_msg_AddReaction :: "Reaction \<Rightarrow> (world, unit) io" where
  "pg_msg_AddReaction rx =
     call (db_exec (\<lambda>_ d.
       let r = \<lparr>xc_message_id = rx_MessageID rx, xc_user_id = rx_UserID rx,
                xc_emoji = rx_Emoji rx, xc_created_at = rx_CreatedAt rx\<rparr>
       in case first_violation (pg_reaction_checks r) of
            Some e \<Rightarrow> Inl e
          | None \<Rightarrow>
              if \<exists>x \<in> set (tb_reactions d). xc_message_id x = xc_message_id r
                   \<and> xc_user_id x = xc_user_id r \<and> xc_emoji x = xc_emoji r then Inr (0, d)
              else (case first_violation (pg_reaction_fks d r) of
                      Some e \<Rightarrow> Inl e
                    | None \<Rightarrow> Inr (1, d\<lparr>tb_reactions := tb_reactions d @ [r]\<rparr>))))
     (\<lambda>_. ret ())"

definition pg_msg_RemoveReaction :: "uuid \<Rightarrow> uuid \<Rightarrow> string \<Rightarrow> (world, unit) io" where
  "pg_msg_RemoveReaction messageID userID emoji =
     call (db_exec (\<lambda>_ d.
       let (n, rs) = sql_delete (\<lambda>r. xc_message_id r = messageID \<and> xc_user_id r = userID
                       \<and> xc_emoji r = emoji) (tb_reactions d)
       in if \<not> pg_text emoji then Inl bad_encoding else Inr (n, d\<lparr>tb_reactions := rs\<rparr>)))
     (\<lambda>_. ret ())"

definition pg_msg_GetReactions :: "(string \<Rightarrow> 'k::linorder) \<Rightarrow> uuid \<Rightarrow> (world, Reaction list) io" where
  "pg_msg_GetReactions coll messageID =
     db_query (\<lambda>d. sort_key (\<lambda>p. (xc_created_at (fst p), xc_user_id (fst p), coll (xc_emoji (fst p))))
       [p \<leftarrow> reactions_join_users d. xc_message_id (fst p) = messageID]) pg_scanReaction"

definition pg_msg_GetReactionsBatch ::
  "(string \<Rightarrow> 'k::linorder) \<Rightarrow> uuid list \<Rightarrow> (world, uuid \<rightharpoonup> Reaction list) io" where
  "pg_msg_GetReactionsBatch coll messageIDs =
     (if messageIDs = [] then ret Map.empty
      else call (db_query (\<lambda>d. sort_key (\<lambda>p. (xc_message_id (fst p), xc_created_at (fst p),
                      xc_user_id (fst p), coll (xc_emoji (fst p))))
             [p \<leftarrow> reactions_join_users d. xc_message_id (fst p) \<in> set messageIDs]) pg_scanReaction)
        (\<lambda>rows. ret (foldl append_reaction Map.empty rows)))"

definition pg_NewMessageRepository :: "(string \<Rightarrow> 'k::linorder) \<Rightarrow> world MessageRepository" where
  "pg_NewMessageRepository coll = \<lparr>mr_Create = pg_msg_Create, mr_GetByID = pg_msg_GetByID,
     mr_GetChatMessages = pg_msg_GetChatMessages, mr_Update = pg_msg_Update,
     mr_Delete = pg_msg_Delete, mr_MarkRead = pg_msg_MarkRead,
     mr_GetUnreadCount = pg_msg_GetUnreadCount, mr_AddReaction = pg_msg_AddReaction,
     mr_RemoveReaction = pg_msg_RemoveReaction, mr_GetReactions = pg_msg_GetReactions coll,
     mr_GetReactionsBatch = pg_msg_GetReactionsBatch coll\<rparr>"

end
