(* ===== verification/MsgPort.thy ===== *)
theory MsgPort
  imports ChatPort Runes
begin

text \<open>
  The message port as an interface: the abstract operations on messages, read receipts and
  reactions, and the locale \<open>message_port\<close> of the laws that a storage back end promises the
  message use cases.

  Two operations write the time of the database server, so their abstract counterparts take the
  moment of the write, and their laws are stated with \<open>sim_now\<close>.
\<close>

section \<open>Abstract operations\<close>

definition message_lookup :: "aview \<Rightarrow> uuid \<Rightarrow> Message option" where
  "message_lookup v m = find (\<lambda>x. msg_ID x = m) (av_messages v)"

text \<open>The live messages of a chat, newest first; equal times are ordered by identifier.\<close>

definition newest_first :: "Message \<Rightarrow> int \<times> int" where
  "newest_first m = (- int (msg_CreatedAt m), - uint (msg_ID m))"

definition before_cursor :: "MessageCursor option \<Rightarrow> Message \<Rightarrow> bool" where
  "before_cursor cursor m \<longleftrightarrow> (case cursor of None \<Rightarrow> True
     | Some c \<Rightarrow> (msg_CreatedAt m, msg_ID m) < (cur_CreatedAt c, cur_ID c))"

definition history :: "aview \<Rightarrow> uuid \<Rightarrow> Message list" where
  "history v c = sort_key newest_first (live_messages v c)"

text \<open>The reactions to a message by users who are live, in the order of the queries; \<open>coll\<close> gives
  the collation keys of the emoji column.\<close>

definition reaction_key :: "(string \<Rightarrow> 'k) \<Rightarrow> Reaction \<Rightarrow> time \<times> uuid \<times> 'k" where
  "reaction_key coll r = (rx_CreatedAt r, rx_UserID r, coll (rx_Emoji r))"

definition reactions_of :: "(string \<Rightarrow> 'k::linorder) \<Rightarrow> aview \<Rightarrow> uuid \<Rightarrow> Reaction list" where
  "reactions_of coll v m = sort_key (reaction_key coll)
     (filter (\<lambda>r. rx_MessageID r = m \<and> user_lookup v (rx_UserID r) \<noteq> None) (av_reactions v))"

definition same_reaction :: "uuid \<Rightarrow> uuid \<Rightarrow> string \<Rightarrow> Reaction \<Rightarrow> bool" where
  "same_reaction m u e r \<longleftrightarrow> rx_MessageID r = m \<and> rx_UserID r = u \<and> rx_Emoji r = e"

definition sm_Create :: "Message \<Rightarrow> unit aop" where
  "sm_Create m v = (Ok (), v\<lparr>av_messages := av_messages v @ [m]\<rparr>)"

definition sm_GetByID :: "uuid \<Rightarrow> Message aop" where
  "sm_GetByID m v = (case message_lookup v m of
     None \<Rightarrow> (Err (Dom ErrMessageNotFound), v) | Some x \<Rightarrow> (Ok x, v))"

definition sm_GetChatMessages :: "uuid \<Rightarrow> MessageCursor option \<Rightarrow> int \<Rightarrow> Message list aop" where
  "sm_GetChatMessages c cursor limit v =
     (Ok (take (nat limit) (filter (before_cursor cursor) (history v c))), v)"

text \<open>A write to the live row of a message.\<close>

definition on_live_message :: "uuid \<Rightarrow> (Message \<Rightarrow> Message) \<Rightarrow> unit aop" where
  "on_live_message m f v = (if \<exists>x \<in> set (av_messages v). msg_ID x = m \<and> msg_DeletedAt x = None
     then (Ok (), v\<lparr>av_messages := map (\<lambda>x. if msg_ID x = m \<and> msg_DeletedAt x = None then f x else x)
             (av_messages v)\<rparr>)
     else (Err (Dom ErrMessageNotFound), v))"

definition sm_Update :: "Message \<Rightarrow> unit aop" where
  "sm_Update m = on_live_message (msg_ID m) (\<lambda>x. x\<lparr>msg_Content := msg_Content m,
     msg_EditedAt := msg_EditedAt m, msg_UpdatedAt := msg_UpdatedAt m\<rparr>)"

definition sm_Delete :: "time \<Rightarrow> uuid \<Rightarrow> unit aop" where
  "sm_Delete t m = on_live_message m (\<lambda>x. x\<lparr>msg_DeletedAt := Some t, msg_UpdatedAt := t\<rparr>)"

fun set_mark :: "'k \<Rightarrow> 'a \<Rightarrow> ('k \<times> 'a) list \<Rightarrow> ('k \<times> 'a) list" where
  "set_mark k t [] = [(k, t)]"
| "set_mark k t (p # ps) = (if fst p = k then (k, t) # ps else p # set_mark k t ps)"

lemma map_of_set_mark: "map_of (set_mark k t ps) = (map_of ps)(k \<mapsto> t)"
  by (induction ps) auto

lemma distinct_set_mark: "distinct (map fst ps) \<Longrightarrow> distinct (map fst (set_mark k t ps))"
proof -
  have "fst ` set (set_mark k t ps) = insert k (fst ` set ps)" for ps :: "('a \<times> 'b) list"
    by (induction ps) auto
  then show "distinct (map fst ps) \<Longrightarrow> distinct (map fst (set_mark k t ps))"
    by (induction ps) auto
qed

definition sm_MarkRead :: "time \<Rightarrow> uuid \<Rightarrow> uuid \<Rightarrow> unit aop" where
  "sm_MarkRead t c u v = (Ok (), v\<lparr>av_receipts := set_mark (c, u) t (av_receipts v)\<rparr>)"

definition sm_GetUnreadCount :: "uuid \<Rightarrow> uuid \<Rightarrow> nat aop" where
  "sm_GetUnreadCount c u v = (Ok (unread_count v c u), v)"

definition sm_AddReaction :: "Reaction \<Rightarrow> unit aop" where
  "sm_AddReaction r v = (Ok (),
     if \<exists>x \<in> set (av_reactions v). same_reaction (rx_MessageID r) (rx_UserID r) (rx_Emoji r) x then v
     else v\<lparr>av_reactions := av_reactions v @ [r]\<rparr>)"

definition sm_RemoveReaction :: "uuid \<Rightarrow> uuid \<Rightarrow> string \<Rightarrow> unit aop" where
  "sm_RemoveReaction m u e v =
     (Ok (), v\<lparr>av_reactions := filter (\<lambda>r. \<not> same_reaction m u e r) (av_reactions v)\<rparr>)"

definition sm_GetReactions :: "(string \<Rightarrow> 'k::linorder) \<Rightarrow> uuid \<Rightarrow> Reaction list aop" where
  "sm_GetReactions coll m v = (Ok (reactions_of coll v m), v)"

definition sm_GetReactionsBatch ::
  "(string \<Rightarrow> 'k::linorder) \<Rightarrow> uuid list \<Rightarrow> (uuid \<rightharpoonup> Reaction list) aop" where
  "sm_GetReactionsBatch coll ms v = (Ok (\<lambda>m. if m \<in> set ms \<and> reactions_of coll v m \<noteq> []
     then Some (reactions_of coll v m) else None), v)"

section \<open>The port\<close>

text \<open>Messages carry no sender and no reactions in the store; the repository may attach them.\<close>

definition strip_message :: "Message \<Rightarrow> Message" where
  "strip_message m = m\<lparr>msg_Sender := None, msg_Reactions := []\<rparr>"

definition strip_reaction :: "Reaction \<Rightarrow> Reaction" where
  "strip_reaction r = r\<lparr>rx_User := None\<rparr>"

lemma strip_message_fields [simp]:
  "msg_ID (strip_message m) = msg_ID m" "msg_ChatID (strip_message m) = msg_ChatID m"
  "msg_CreatedAt (strip_message m) = msg_CreatedAt m"
  "msg_DeletedAt (strip_message m) = msg_DeletedAt m"
  "msg_SenderID (strip_message m) = msg_SenderID m"
  by (simp_all add: strip_message_def)

definition content_ok :: "string \<Rightarrow> bool" where
  "content_ok s \<longleftrightarrow> 1 \<le> RuneCountInString s \<and> RuneCountInString s \<le> 4096"

definition message_unused :: "aview \<Rightarrow> uuid \<Rightarrow> bool" where
  "message_unused v m \<longleftrightarrow> (\<forall>x \<in> set (av_messages v). msg_ID x \<noteq> m)"

definition message_pre :: "aview \<Rightarrow> Message \<Rightarrow> bool" where
  "message_pre v m \<longleftrightarrow> message_unused v (msg_ID m) \<and> is_member v (msg_ChatID m) (msg_SenderID m) \<and>
     content_ok (msg_Content m) \<and> msg_Type m \<in> {MessageTypeText, MessageTypeImage, MessageTypeFile} \<and>
     (\<forall>r. msg_ReplyToID m = Some r \<longrightarrow> message_lookup v r \<noteq> None) \<and>
     msg_EditedAt m = None \<and> msg_DeletedAt m = None \<and> msg_Sender m = None \<and> msg_Reactions m = []"

definition reaction_pre :: "aview \<Rightarrow> uuid \<Rightarrow> Reaction \<Rightarrow> bool" where
  "reaction_pre v c r \<longleftrightarrow> message_lookup v (rx_MessageID r) \<noteq> None \<and> is_member v c (rx_UserID r) \<and>
     1 \<le> RuneCountInString (rx_Emoji r) \<and> RuneCountInString (rx_Emoji r) \<le> 10 \<and> rx_User r = None"

locale message_port =
  fixes M :: "'w MessageRepository" and R :: "'w ChatRepository"
    and getUser :: "uuid \<Rightarrow> ('w, User) io"
    and J :: "time \<Rightarrow> 'w \<Rightarrow> bool" and qt :: "'w \<Rightarrow> bool" and view :: "'w \<Rightarrow> aview"
    and chat_ok :: "Chat \<Rightarrow> bool" and text_ok :: "string \<Rightarrow> bool"
    and coll :: "string \<Rightarrow> 'k::linorder"
  assumes chats: "chat_port R getUser (J t0) qt view chat_ok"
    and sim_MCreate: "message_pre v m \<Longrightarrow>
      simulates (J t0) qt view (text_ok (msg_Content m)) id v (mr_Create M m) (sm_Create m)"
    and sim_MGetByID: "simulates (J t0) qt view True id v (mr_GetByID M m_id) (sm_GetByID m_id)"
    and sim_MGetChatMessages: "0 \<le> limit \<Longrightarrow> simulates (J t0) qt view True (map strip_message) v
      (mr_GetChatMessages M c cursor limit) (sm_GetChatMessages c cursor limit)"
    and sim_MUpdate: "content_ok (msg_Content m) \<Longrightarrow>
      simulates (J t0) qt view (text_ok (msg_Content m)) id v (mr_Update M m) (sm_Update m)"
    and sim_MDelete: "sim_now J t0 qt view True id v (mr_Delete M m_id) (\<lambda>t. sm_Delete t m_id)"
    and sim_MMarkRead: "is_member v c u \<Longrightarrow>
      sim_now J t0 qt view True id v (mr_MarkRead M c u) (\<lambda>t. sm_MarkRead t c u)"
    and sim_MGetUnreadCount:
      "simulates (J t0) qt view True id v (mr_GetUnreadCount M c u) (sm_GetUnreadCount c u)"
    and sim_MAddReaction: "reaction_pre v c r \<Longrightarrow>
      simulates (J t0) qt view (text_ok (rx_Emoji r)) id v (mr_AddReaction M r) (sm_AddReaction r)"
    and sim_MRemoveReaction: "simulates (J t0) qt view (text_ok e) id v
      (mr_RemoveReaction M m_id u e) (sm_RemoveReaction m_id u e)"
    and sim_MGetReactions: "simulates (J t0) qt view True (map strip_reaction) v
      (mr_GetReactions M m_id) (sm_GetReactions coll m_id)"
    and sim_MGetReactionsBatch: "simulates (J t0) qt view True (\<lambda>f. map_option (map strip_reaction) \<circ> f) v
      (mr_GetReactionsBatch M ids) (sm_GetReactionsBatch coll ids)"

end
