(* ===== verification/UcMessage.thy ===== *)
theory UcMessage
  imports MsgPort Validate
begin

text \<open>
  internal/usecase/message (message.go, dto.go): the message use cases, one definition per
  method, over any message repository \<open>messages\<close> and any chat repository \<open>chats\<close>.  The reading
  of the clock and the fresh identifier that a method takes are arguments \<open>now\<close> and \<open>newID\<close>.
  The log lines are left out.
\<close>

section \<open>Inputs and results (dto.go)\<close>

record SendInput =
  si_ChatID :: uuid
  si_Content :: string
  si_Type :: MessageType
  si_ReplyToID :: "uuid option"

definition SendInput_Validate :: "SendInput \<Rightarrow> V" where
  "SendInput_Validate inp =
     Check (OneOf (si_Type inp) [''text'', ''image'', ''file''])
       ''type must be one of: text, image, file''
    (Check (MaxLen (si_Content inp) 4096) ''content must be at most 4096 characters''
    (Check (MinLen (si_Content inp) 1) ''content must not be empty''
    (Check (si_ChatID inp \<noteq> uuid_Nil) ''chat_id is required'' V_New)))"

record EditInput =
  ei_Content :: string

definition EditInput_Validate :: "EditInput \<Rightarrow> V" where
  "EditInput_Validate inp =
     Check (MaxLen (ei_Content inp) 4096) ''content must be at most 4096 characters''
    (Check (MinLen (ei_Content inp) 1) ''content must not be empty'' V_New)"

record ListInput =
  li_ChatID :: uuid
  li_Cursor :: "MessageCursor option"
  li_Limit :: int

record ReactInput =
  ri_Emoji :: string

definition ReactInput_Validate :: "ReactInput \<Rightarrow> V" where
  "ReactInput_Validate inp =
     Check (MaxLen (ri_Emoji inp) 10) ''emoji must be at most 10 characters''
    (Check (MinLen (ri_Emoji inp) 1) ''emoji is required'' V_New)"

record PageResult =
  pg_Messages :: "Message list"
  pg_NextCursor :: "MessageCursor option"

text \<open>\<open>msgs[len(msgs)-1]\<close> panics on an empty page, which passes the test when \<open>limit\<close> is not
  positive.\<close>

definition nextCursor :: "Message list \<Rightarrow> int \<Rightarrow> ('w, MessageCursor option) io" where
  "nextCursor msgs limit =
     (if int (length msgs) < limit then ret None
      else if msgs = [] then panic ''index out of range [-1]''
      else let last_msg = msgs ! (length msgs - 1)
           in ret (Some \<lparr>cur_CreatedAt = msg_CreatedAt last_msg, cur_ID = msg_ID last_msg\<rparr>))"

definition buildPageResult :: "Message list \<Rightarrow> int \<Rightarrow> ('w, PageResult) io" where
  "buildPageResult msgs limit =
     call (nextCursor msgs limit) (\<lambda>cursor. ret \<lparr>pg_Messages = msgs, pg_NextCursor = cursor\<rparr>)"

section \<open>The service (message.go)\<close>

definition msg_assertMember :: "'w ChatRepository \<Rightarrow> uuid \<Rightarrow> uuid \<Rightarrow> ('w, unit) io" where
  "msg_assertMember chats chatID userID =
     call (cr_IsMember chats chatID userID) (\<lambda>ok.
     if \<not> ok then throw (Dom ErrNotChatMember) else ret ())"

definition messages_Send ::
  "'w MessageRepository \<Rightarrow> 'w ChatRepository \<Rightarrow> time \<Rightarrow> uuid \<Rightarrow> uuid \<Rightarrow> SendInput \<Rightarrow> ('w, Message) io" where
  "messages_Send messages chats now newID senderID inp =
     call (V_Err (SendInput_Validate inp)) (\<lambda>_.
     call (msg_assertMember chats (si_ChatID inp) senderID) (\<lambda>_.
     call (case si_ReplyToID inp of
             None \<Rightarrow> ret ()
           | Some replyID \<Rightarrow>
               call (mr_GetByID messages replyID) (\<lambda>reply.
               if msg_ChatID reply \<noteq> si_ChatID inp then throw (Dom ErrMessageNotFound) else ret ())) (\<lambda>_.
     let msg = \<lparr>msg_ID = newID, msg_ChatID = si_ChatID inp, msg_SenderID = senderID,
           msg_Content = si_Content inp, msg_Type = si_Type inp, msg_ReplyToID = si_ReplyToID inp,
           msg_EditedAt = None, msg_DeletedAt = None, msg_CreatedAt = now, msg_UpdatedAt = now,
           msg_Sender = None, msg_Reactions = []\<rparr>
     in call (mr_Create messages msg) (\<lambda>_. ret msg))))"

definition messages_Edit ::
  "'w MessageRepository \<Rightarrow> 'w ChatRepository \<Rightarrow> time \<Rightarrow> uuid \<Rightarrow> uuid \<Rightarrow> EditInput \<Rightarrow> ('w, Message) io" where
  "messages_Edit messages chats now messageID callerID inp =
     call (V_Err (EditInput_Validate inp)) (\<lambda>_.
     call (mr_GetByID messages messageID) (\<lambda>msg.
     if IsDeleted msg then throw (Dom ErrMessageDeleted)
     else if \<not> IsAuthoredBy msg callerID then throw (Dom ErrNotMessageAuthor)
     else
     call (msg_assertMember chats (msg_ChatID msg) callerID) (\<lambda>_.
     let msg = msg\<lparr>msg_Content := ei_Content inp, msg_EditedAt := Some now, msg_UpdatedAt := now\<rparr>
     in call (mr_Update messages msg) (\<lambda>_. ret msg))))"

definition messages_Delete ::
  "'w MessageRepository \<Rightarrow> 'w ChatRepository \<Rightarrow> uuid \<Rightarrow> uuid \<Rightarrow> ('w, unit) io" where
  "messages_Delete messages chats messageID callerID =
     call (mr_GetByID messages messageID) (\<lambda>msg.
     if IsDeleted msg then throw (Dom ErrMessageDeleted)
     else if \<not> IsAuthoredBy msg callerID then throw (Dom ErrNotMessageAuthor)
     else
     call (msg_assertMember chats (msg_ChatID msg) callerID) (\<lambda>_.
     call (mr_Delete messages messageID) (\<lambda>_. ret ())))"

definition messages_MarkRead ::
  "'w MessageRepository \<Rightarrow> 'w ChatRepository \<Rightarrow> uuid \<Rightarrow> uuid \<Rightarrow> ('w, unit) io" where
  "messages_MarkRead messages chats chatID callerID =
     call (msg_assertMember chats chatID callerID) (\<lambda>_.
     call (mr_MarkRead messages chatID callerID) (\<lambda>_. ret ()))"

text \<open>\<open>m.Reactions = reactionsByMsg[m.ID]\<close>: a missing key reads as the empty list.\<close>

definition attach_reactions :: "(uuid \<rightharpoonup> Reaction list) \<Rightarrow> Message \<Rightarrow> Message" where
  "attach_reactions reactionsByMsg m =
     m\<lparr>msg_Reactions := (case reactionsByMsg (msg_ID m) of None \<Rightarrow> [] | Some rs \<Rightarrow> rs)\<rparr>"

definition messages_GetHistory ::
  "'w MessageRepository \<Rightarrow> 'w ChatRepository \<Rightarrow> uuid \<Rightarrow> ListInput \<Rightarrow> ('w, PageResult) io" where
  "messages_GetHistory messages chats callerID inp =
     call (msg_assertMember chats (li_ChatID inp) callerID) (\<lambda>_.
     call (mr_GetChatMessages messages (li_ChatID inp) (li_Cursor inp) (li_Limit inp)) (\<lambda>msgs.
     call (if msgs \<noteq> [] then
             (let ids = map msg_ID msgs in
              call (mr_GetReactionsBatch messages ids) (\<lambda>reactionsByMsg.
              ret (map (attach_reactions reactionsByMsg) msgs)))
           else ret msgs) (\<lambda>msgs.
     buildPageResult msgs (li_Limit inp))))"

definition messages_AddReaction ::
  "'w MessageRepository \<Rightarrow> 'w ChatRepository \<Rightarrow> time \<Rightarrow> uuid \<Rightarrow> uuid \<Rightarrow> ReactInput \<Rightarrow> ('w, unit) io" where
  "messages_AddReaction messages chats now messageID callerID inp =
     call (V_Err (ReactInput_Validate inp)) (\<lambda>_.
     call (mr_GetByID messages messageID) (\<lambda>msg.
     if IsDeleted msg then throw (Dom ErrMessageDeleted)
     else
     call (msg_assertMember chats (msg_ChatID msg) callerID) (\<lambda>_.
     call (mr_AddReaction messages \<lparr>rx_MessageID = messageID, rx_UserID = callerID,
             rx_Emoji = ri_Emoji inp, rx_CreatedAt = now, rx_User = None\<rparr>) (\<lambda>_. ret ()))))"

definition messages_RemoveReaction ::
  "'w MessageRepository \<Rightarrow> 'w ChatRepository \<Rightarrow> uuid \<Rightarrow> uuid \<Rightarrow> ReactInput \<Rightarrow> ('w, unit) io" where
  "messages_RemoveReaction messages chats messageID callerID inp =
     call (V_Err (ReactInput_Validate inp)) (\<lambda>_.
     call (mr_GetByID messages messageID) (\<lambda>msg.
     if IsDeleted msg then throw (Dom ErrMessageDeleted)
     else
     call (msg_assertMember chats (msg_ChatID msg) callerID) (\<lambda>_.
     call (mr_RemoveReaction messages messageID callerID (ri_Emoji inp)) (\<lambda>_. ret ()))))"

section \<open>What validation accepts\<close>

lemma SendInput_ok:
  "SendInput_Validate inp = None \<longleftrightarrow> si_ChatID inp \<noteq> uuid_Nil \<and> content_ok (si_Content inp) \<and>
     si_Type inp \<in> {MessageTypeText, MessageTypeImage, MessageTypeFile}"
  by (auto simp: SendInput_Validate_def Check_def V_New_def MinLen_def MaxLen_def OneOf_def content_ok_def
      MessageTypeText_def MessageTypeImage_def MessageTypeFile_def split: if_splits)

lemma EditInput_ok: "EditInput_Validate inp = None \<longleftrightarrow> content_ok (ei_Content inp)"
  by (auto simp: EditInput_Validate_def Check_def V_New_def MinLen_def MaxLen_def content_ok_def
      split: if_splits)

definition emoji_ok :: "string \<Rightarrow> bool" where
  "emoji_ok e \<longleftrightarrow> 1 \<le> RuneCountInString e \<and> RuneCountInString e \<le> 10"

lemma ReactInput_ok: "ReactInput_Validate inp = None \<longleftrightarrow> emoji_ok (ri_Emoji inp)"
  by (auto simp: ReactInput_Validate_def Check_def V_New_def MinLen_def MaxLen_def emoji_ok_def
      split: if_splits)

end
