(* ===== verification/UcMessageSim.thy ===== *)
theory UcMessageSim
  imports UcMessage ChatGuard
begin

text \<open>
  The message use cases over any back end that keeps the contract of the message port: each one
  simulates the same use case run on the abstract store, and so inherits what is proved of it
  there.
\<close>

section \<open>The abstract message repository\<close>

text \<open>\<open>t\<close> is the time that the writes of the store itself use.\<close>

definition spec_messages :: "(string \<Rightarrow> 'k::linorder) \<Rightarrow> time \<Rightarrow> aview MessageRepository" where
  "spec_messages coll t = \<lparr>mr_Create = sm_Create, mr_GetByID = sm_GetByID,
     mr_GetChatMessages = sm_GetChatMessages, mr_Update = sm_Update, mr_Delete = sm_Delete t,
     mr_MarkRead = sm_MarkRead t, mr_GetUnreadCount = sm_GetUnreadCount,
     mr_AddReaction = sm_AddReaction, mr_RemoveReaction = sm_RemoveReaction,
     mr_GetReactions = sm_GetReactions coll, mr_GetReactionsBatch = sm_GetReactionsBatch coll\<rparr>"

lemma spec_messages_simps [simp]:
  "mr_Create (spec_messages coll t) = sm_Create" "mr_GetByID (spec_messages coll t) = sm_GetByID"
  "mr_GetChatMessages (spec_messages coll t) = sm_GetChatMessages"
  "mr_Update (spec_messages coll t) = sm_Update" "mr_Delete (spec_messages coll t) = sm_Delete t"
  "mr_MarkRead (spec_messages coll t) = sm_MarkRead t"
  "mr_AddReaction (spec_messages coll t) = sm_AddReaction"
  "mr_RemoveReaction (spec_messages coll t) = sm_RemoveReaction"
  "mr_GetReactionsBatch (spec_messages coll t) = sm_GetReactionsBatch coll"
  by (simp_all add: spec_messages_def)

lemma spec_message_reads [simp]:
  "snd (sm_GetByID m v) = v" "snd (sm_GetChatMessages c cursor limit v) = v"
  "snd (sm_GetReactionsBatch coll ids v) = v"
  by (auto simp: sm_GetByID_def sm_GetChatMessages_def sm_GetReactionsBatch_def split: option.split)

lemma sm_GetByID_Ok: "sm_GetByID m v = (Ok x, v') \<longleftrightarrow> message_lookup v m = Some x \<and> v' = v"
  by (auto simp: sm_GetByID_def split: option.split)

lemma fst_sm_GetByID_Ok: "fst (sm_GetByID m v) = Ok x \<longleftrightarrow> message_lookup v m = Some x"
  by (auto simp: sm_GetByID_def split: option.split)

lemma message_lookup_ID: "message_lookup v m = Some x \<Longrightarrow> msg_ID x = m \<and> x \<in> set (av_messages v)"
  by (auto simp: message_lookup_def dest: find_Some_set)

lemma msg_assertMember_read [simp]: "snd (msg_assertMember spec_chats c u v) = v"
  by (simp add: msg_assertMember_def call_def branch_def sp_IsMember_def ret_def throw_def)

lemma msg_assertMember_Ok:
  "fst (msg_assertMember spec_chats c u v) = Ok () \<longleftrightarrow> is_member v c u"
  by (simp add: msg_assertMember_def call_def branch_def sp_IsMember_def ret_def throw_def)

lemma msg_assertMember_run [go_elims]:
  "msg_assertMember spec_chats c u v = (Ok x, v') \<longleftrightarrow> is_member v c u \<and> v' = v"
  by (auto simp: msg_assertMember_def call_def branch_def sp_IsMember_def ret_def throw_def)

section \<open>Who may do what, and the effect\<close>

definition new_message :: "time \<Rightarrow> uuid \<Rightarrow> uuid \<Rightarrow> SendInput \<Rightarrow> Message" where
  "new_message now newID senderID inp = \<lparr>msg_ID = newID, msg_ChatID = si_ChatID inp,
     msg_SenderID = senderID, msg_Content = si_Content inp, msg_Type = si_Type inp,
     msg_ReplyToID = si_ReplyToID inp, msg_EditedAt = None, msg_DeletedAt = None,
     msg_CreatedAt = now, msg_UpdatedAt = now, msg_Sender = None, msg_Reactions = []\<rparr>"

definition edited_message :: "time \<Rightarrow> EditInput \<Rightarrow> Message \<Rightarrow> Message" where
  "edited_message now inp m =
     m\<lparr>msg_Content := ei_Content inp, msg_EditedAt := Some now, msg_UpdatedAt := now\<rparr>"

definition may_send :: "aview \<Rightarrow> uuid \<Rightarrow> SendInput \<Rightarrow> bool" where
  "may_send v u inp \<longleftrightarrow> SendInput_Validate inp = None \<and> is_member v (si_ChatID inp) u \<and>
     (\<forall>r. si_ReplyToID inp = Some r \<longrightarrow>
        (\<exists>x. message_lookup v r = Some x \<and> msg_ChatID x = si_ChatID inp))"

definition may_rewrite :: "aview \<Rightarrow> uuid \<Rightarrow> Message \<Rightarrow> bool" where
  "may_rewrite v u x \<longleftrightarrow> message_lookup v (msg_ID x) = Some x \<and> msg_DeletedAt x = None \<and>
     msg_SenderID x = u \<and> is_member v (msg_ChatID x) u"

definition may_react :: "aview \<Rightarrow> uuid \<Rightarrow> uuid \<Rightarrow> ReactInput \<Rightarrow> bool" where
  "may_react v m u inp \<longleftrightarrow> ReactInput_Validate inp = None \<and>
     (\<exists>x. message_lookup v m = Some x \<and> msg_DeletedAt x = None \<and> is_member v (msg_ChatID x) u)"

definition with_message :: "aview \<Rightarrow> Message \<Rightarrow> aview" where
  "with_message v m = v\<lparr>av_messages := map (\<lambda>x. if msg_ID x = msg_ID m then m else x) (av_messages v)\<rparr>"

text \<open>The message marked as deleted at a moment.\<close>

definition with_deleted :: "aview \<Rightarrow> uuid \<Rightarrow> time \<Rightarrow> aview" where
  "with_deleted v m t = v\<lparr>av_messages := map (\<lambda>x. if msg_ID x = m
     then x\<lparr>msg_DeletedAt := Some t, msg_UpdatedAt := t\<rparr> else x) (av_messages v)\<rparr>"

lemma on_live_message_run:
  assumes "distinct (map msg_ID (av_messages v))" "message_lookup v m = Some x" "msg_DeletedAt x = None"
    "msg_ID (f x) = m"
  shows "on_live_message m f v = (Ok (), with_message v (f x))"
proof -
  from message_lookup_ID [OF assms(2)] have x: "x \<in> set (av_messages v)" "msg_ID x = m" by simp_all
  have "(if msg_ID y = m \<and> msg_DeletedAt y = None then f y else y) = (if msg_ID y = m then f x else y)"
    if "y \<in> set (av_messages v)" for y
    using distinct_map_inj [OF assms(1) that x(1)] x(2) assms(3) by auto
  then show ?thesis
    using x assms(3,4) by (auto simp: on_live_message_def with_message_def)
qed

definition new_reaction :: "time \<Rightarrow> uuid \<Rightarrow> uuid \<Rightarrow> ReactInput \<Rightarrow> Reaction" where
  "new_reaction now m u inp = \<lparr>rx_MessageID = m, rx_UserID = u, rx_Emoji = ri_Emoji inp,
     rx_CreatedAt = now, rx_User = None\<rparr>"

text \<open>The same definitions of the code, with the values named.\<close>

definition check_reply :: "'w MessageRepository \<Rightarrow> uuid \<Rightarrow> uuid option \<Rightarrow> ('w, unit) io" where
  "check_reply messages chatID replyTo = (case replyTo of
       None \<Rightarrow> ret ()
     | Some replyID \<Rightarrow> call (mr_GetByID messages replyID) (\<lambda>reply.
         if msg_ChatID reply \<noteq> chatID then throw (Dom ErrMessageNotFound) else ret ()))"

lemma messages_Send_eq:
  "messages_Send messages chats now newID senderID inp =
     call (V_Err (SendInput_Validate inp)) (\<lambda>_.
     call (msg_assertMember chats (si_ChatID inp) senderID) (\<lambda>_.
     call (check_reply messages (si_ChatID inp) (si_ReplyToID inp)) (\<lambda>_.
     call (mr_Create messages (new_message now newID senderID inp)) (\<lambda>_.
     ret (new_message now newID senderID inp)))))"
  unfolding messages_Send_def check_reply_def new_message_def Let_def ..

lemma messages_Edit_eq:
  "messages_Edit messages chats now messageID callerID inp =
     call (V_Err (EditInput_Validate inp)) (\<lambda>_.
     call (mr_GetByID messages messageID) (\<lambda>msg.
     if IsDeleted msg then throw (Dom ErrMessageDeleted)
     else if \<not> IsAuthoredBy msg callerID then throw (Dom ErrNotMessageAuthor)
     else call (msg_assertMember chats (msg_ChatID msg) callerID) (\<lambda>_.
       call (mr_Update messages (edited_message now inp msg)) (\<lambda>_. ret (edited_message now inp msg)))))"
  unfolding messages_Edit_def edited_message_def Let_def ..

lemma check_reply_read [simp]: "snd (check_reply (spec_messages coll t) c r v) = v"
  by (auto simp: check_reply_def sm_GetByID_def call_def branch_def ret_def throw_def split: option.split)

lemma check_reply_Ok:
  "fst (check_reply (spec_messages coll t) c r v) = Ok () \<longleftrightarrow>
     (\<forall>m. r = Some m \<longrightarrow> (\<exists>x. message_lookup v m = Some x \<and> msg_ChatID x = c))"
  by (auto simp: check_reply_def sm_GetByID_def call_def branch_def ret_def throw_def split: option.split)

lemma check_reply_run [go_elims]:
  "check_reply (spec_messages coll t) c r v = (Ok x, v') \<longleftrightarrow>
     (\<forall>m. r = Some m \<longrightarrow> (\<exists>y. message_lookup v m = Some y \<and> msg_ChatID y = c)) \<and> v' = v"
  using check_reply_Ok [of coll t c r v] check_reply_read [of coll t c r v]
  by (cases "check_reply (spec_messages coll t) c r v") auto

section \<open>The use cases on the abstract store\<close>

lemma Send_spec:
  "messages_Send (spec_messages coll t) spec_chats now newID u inp v = (Ok m, v') \<longleftrightarrow>
     (may_send v u inp \<and> m = new_message now newID u inp) \<and>
     v' = v\<lparr>av_messages := av_messages v @ [m]\<rparr>"
  unfolding messages_Send_eq may_send_def
  by (auto simp: go_elims sm_Create_def)

lemma Edit_spec:
  assumes "aview_wf v"
  shows "messages_Edit (spec_messages coll t) spec_chats now mid u inp v = (Ok m, v') \<longleftrightarrow>
     (EditInput_Validate inp = None \<and>
      (\<exists>x. msg_ID x = mid \<and> may_rewrite v u x \<and> m = edited_message now inp x)) \<and>
     v' = with_message v m"
proof -
  have upd: "sm_Update (edited_message now inp x) v = (Ok (), with_message v (edited_message now inp x))"
    if "message_lookup v mid = Some x" "msg_DeletedAt x = None" for x
  proof -
    have "distinct (map msg_ID (av_messages v))" using assms by (simp add: aview_wf_def)
    moreover have "msg_ID x = mid" using message_lookup_ID [OF that(1)] by simp
    ultimately show ?thesis
      using on_live_message_run [of v mid x "\<lambda>x. edited_message now inp x"] that
      by (simp add: sm_Update_def edited_message_def)
  qed
  show ?thesis
    unfolding messages_Edit_eq may_rewrite_def
    by (auto simp: go_elims sm_GetByID_Ok IsDeleted_def IsAuthoredBy_def upd
        dest: message_lookup_ID)
qed

lemma sm_Delete_run:
  assumes "aview_wf v" "message_lookup v m = Some x" "msg_DeletedAt x = None"
  shows "sm_Delete t m v = (Ok (), with_deleted v m t)"
proof -
  from message_lookup_ID [OF assms(2)] have x: "x \<in> set (av_messages v)" "msg_ID x = m" by simp_all
  have dist: "distinct (map msg_ID (av_messages v))" using assms(1) by (simp add: aview_wf_def)
  have "msg_DeletedAt y = None" if "y \<in> set (av_messages v)" "msg_ID y = m" for y
    using distinct_map_inj [OF dist that(1) x(1)] x(2) that(2) assms(3) by simp
  then show ?thesis
    using x assms(3) by (auto simp: sm_Delete_def on_live_message_def with_deleted_def)
qed

lemma Delete_spec:
  assumes "aview_wf v"
  shows "messages_Delete (spec_messages coll t) spec_chats mid u v = (Ok r, v') \<longleftrightarrow>
     (\<exists>x. msg_ID x = mid \<and> may_rewrite v u x) \<and> v' = with_deleted v mid t"
  unfolding messages_Delete_def may_rewrite_def
  by (auto simp: go_elims sm_GetByID_Ok IsDeleted_def IsAuthoredBy_def sm_Delete_run [OF assms]
      dest: message_lookup_ID)

lemma MarkRead_spec:
  "messages_MarkRead (spec_messages coll t) spec_chats c u v = (Ok r, v') \<longleftrightarrow>
     is_member v c u \<and> v' = v\<lparr>av_receipts := set_mark (c, u) t (av_receipts v)\<rparr>"
  unfolding messages_MarkRead_def by (auto simp: go_elims sm_MarkRead_def)

lemma AddReaction_spec:
  "messages_AddReaction (spec_messages coll t) spec_chats now m u inp v = (Ok r, v') \<longleftrightarrow>
     may_react v m u inp \<and> v' = snd (sm_AddReaction (new_reaction now m u inp) v)"
  unfolding messages_AddReaction_def may_react_def new_reaction_def
  by (auto simp: go_elims sm_GetByID_Ok IsDeleted_def sm_AddReaction_def)

lemma RemoveReaction_spec:
  "messages_RemoveReaction (spec_messages coll t) spec_chats m u inp v = (Ok r, v') \<longleftrightarrow>
     may_react v m u inp \<and> v' = snd (sm_RemoveReaction m u (ri_Emoji inp) v)"
  unfolding messages_RemoveReaction_def may_react_def
  by (auto simp: go_elims sm_GetByID_Ok IsDeleted_def sm_RemoveReaction_def)

text \<open>A page of the history: at most \<open>limit\<close> messages before the cursor, each with its reactions, and
  a cursor at the last of them when the page is full.\<close>

definition page_rows :: "aview \<Rightarrow> ListInput \<Rightarrow> Message list" where
  "page_rows v inp = take (nat (li_Limit inp))
     (filter (before_cursor (li_Cursor inp)) (history v (li_ChatID inp)))"

definition cursor_at :: "Message \<Rightarrow> MessageCursor" where
  "cursor_at m = \<lparr>cur_CreatedAt = msg_CreatedAt m, cur_ID = msg_ID m\<rparr>"

definition with_reactions :: "(string \<Rightarrow> 'k::linorder) \<Rightarrow> aview \<Rightarrow> Message \<Rightarrow> Message" where
  "with_reactions coll v m = m\<lparr>msg_Reactions := reactions_of coll v (msg_ID m)\<rparr>"

definition history_page :: "(string \<Rightarrow> 'k::linorder) \<Rightarrow> aview \<Rightarrow> ListInput \<Rightarrow> PageResult" where
  "history_page coll v inp =
     \<lparr>pg_Messages = map (with_reactions coll v) (page_rows v inp),
      pg_NextCursor = (if int (length (page_rows v inp)) < li_Limit inp then None
        else Some (cursor_at (last (page_rows v inp))))\<rparr>"

lemma nextCursor_run:
  assumes "1 \<le> limit"
  shows "nextCursor msgs limit = ret (if int (length msgs) < limit then None else Some (cursor_at (last msgs)))"
  using assms by (auto simp: nextCursor_def cursor_at_def last_conv_nth Let_def)

lemma attach_spec:
  "msg_ID m \<in> set ids \<Longrightarrow> attach_reactions (\<lambda>m. if m \<in> set ids \<and> reactions_of coll v m \<noteq> []
     then Some (reactions_of coll v m) else None) m = with_reactions coll v m"
  by (simp add: attach_reactions_def with_reactions_def)

lemma cursor_at_reactions [simp]: "cursor_at (with_reactions coll v m) = cursor_at m"
  by (simp add: cursor_at_def with_reactions_def)

lemma GetHistory_spec:
  assumes "1 \<le> li_Limit inp"
  shows "messages_GetHistory (spec_messages coll t) spec_chats u inp v =
     (if is_member v (li_ChatID inp) u then Ok (history_page coll v inp) else Err (Dom ErrNotChatMember), v)"
proof (cases "is_member v (li_ChatID inp) u")
  case False
  then show ?thesis
    by (simp add: messages_GetHistory_def msg_assertMember_def call_def branch_def sp_IsMember_def
        throw_def)
next
  case True
  let ?rows = "page_rows v inp"
  let ?att = "with_reactions coll v"
  have batch: "map (attach_reactions (\<lambda>m. if m \<in> set (map msg_ID ?rows) \<and> reactions_of coll v m \<noteq> []
      then Some (reactions_of coll v m) else None)) ?rows = map ?att ?rows"
    by (rule map_cong [OF refl]) (rule attach_spec, simp)
  have "last (map ?att ?rows) = ?att (last ?rows)" if "?rows \<noteq> []"
    using that by (rule last_map)
  then have page: "(buildPageResult (map ?att ?rows) (li_Limit inp) :: (aview, PageResult) io) =
      ret (history_page coll v inp)"
    using assms by (cases "?rows = []")
      (simp_all add: buildPageResult_def nextCursor_run history_page_def)
  have "messages_GetHistory (spec_messages coll t) spec_chats u inp v =
      call (if ?rows \<noteq> [] then
             (call (sm_GetReactionsBatch coll (map msg_ID ?rows)) (\<lambda>r. ret (map (attach_reactions r) ?rows)))
           else ret ?rows) (\<lambda>msgs. buildPageResult msgs (li_Limit inp)) v"
    using True
    by (simp add: messages_GetHistory_def msg_assertMember_def call_eval sp_IsMember_def ret_def
        sm_GetChatMessages_def page_rows_def Let_def)
  also have "\<dots> = ret (history_page coll v inp) v"
  proof (cases "?rows = []")
    case True
    with page show ?thesis by simp
  next
    case False
    define X where "X = call (sm_GetReactionsBatch coll (map msg_ID ?rows)) (\<lambda>r. ret (map (attach_reactions r) ?rows))"
    have run: "X v = (Ok (map ?att ?rows), v)"
      unfolding X_def by (simp only: call_eval sm_GetReactionsBatch_def ret_def prod.case outcome.case batch)
    have "call X (\<lambda>msgs. buildPageResult msgs (li_Limit inp)) v = ret (history_page coll v inp) v"
      unfolding call_run(1) [where m = X and w = v, OF run] page ..
    with False show ?thesis by (simp add: X_def)
  qed
  finally show ?thesis using True by (simp add: ret_def)
qed

section \<open>Simulation\<close>

text \<open>A message without what the repository attaches: its sender and the users of its reactions.\<close>

definition bare_message :: "Message \<Rightarrow> Message" where
  "bare_message m = m\<lparr>msg_Sender := None, msg_Reactions := map strip_reaction (msg_Reactions m)\<rparr>"

definition strip_page :: "PageResult \<Rightarrow> PageResult" where
  "strip_page p = p\<lparr>pg_Messages := map bare_message (pg_Messages p)\<rparr>"

lemma new_message_pre:
  "message_unused v newID \<Longrightarrow> may_send v u inp \<Longrightarrow> message_pre v (new_message now newID u inp)"
  by (auto simp: message_pre_def new_message_def may_send_def SendInput_ok)

lemma sim_now_read_id:
  assumes "simulates (J t0) qt view True id v m am" "snd (am v) = v"
    and "\<And>a. fst (am v) = Ok a \<Longrightarrow> sim_now J t0 qt view ok obs' v (k a) (\<lambda>t. ak t a)"
  shows "sim_now J t0 qt view ok obs' v (call m k) (\<lambda>t. call am (ak t))"
  using simulates_weaken [OF assms(1)] assms(2,3) by (intro sim_now_call) auto

lemma sim_now_write:
  "sim_now J t0 qt view ok id v m am \<Longrightarrow>
     sim_now J t0 qt view ok id v (call m (\<lambda>_. ret x)) (\<lambda>t. call (am t) (\<lambda>_. ret x))"
  by (rule sim_now_last) auto

section \<open>Guarded commands\<close>

lemma failsafe_on_live [intro!]: "failsafe (on_live_message m f)"
  by (simp add: failsafe_def on_live_message_def)

lemma failsafe_messages [intro!]:
  "failsafe (sm_Create m)" "failsafe (sm_Update m)" "failsafe (sm_Delete t i)"
  "failsafe (sm_MarkRead t c u)" "failsafe (sm_AddReaction r)" "failsafe (sm_RemoveReaction i u e)"
  by (auto simp: sm_Update_def sm_Delete_def)
    (simp_all add: failsafe_def sm_Create_def sm_MarkRead_def sm_AddReaction_def sm_RemoveReaction_def)

lemma failsafe_message_ops:
  "failsafe (messages_Send (spec_messages coll t) spec_chats now newID u s)"
  "failsafe (messages_Edit (spec_messages coll t) spec_chats now m u e)"
  "failsafe (messages_Delete (spec_messages coll t) spec_chats m u)"
  "failsafe (messages_MarkRead (spec_messages coll t) spec_chats c u)"
  "failsafe (messages_AddReaction (spec_messages coll t) spec_chats now m u r)"
  "failsafe (messages_RemoveReaction (spec_messages coll t) spec_chats m u r)"
  unfolding messages_Send_eq messages_Edit_eq messages_Delete_def messages_MarkRead_def
    messages_AddReaction_def messages_RemoveReaction_def spec_messages_simps
  by (intro failsafe_V_Err failsafe_read failsafe_write failsafe_simps failsafe_messages
      spec_message_reads msg_assertMember_read check_reply_read)+

context message_port begin

lemma port: "chat_port R getUser (J t0) qt view chat_ok"
  by (rule chats)

lemma msg_assertMember_sim:
  "simulates (J t0) qt view True id v (msg_assertMember R c u) (msg_assertMember spec_chats c u)"
  unfolding msg_assertMember_def
  by (auto intro!: simulates_read [OF chat_port.sim_IsMember [OF chats]] simulates_throw simulates_ret)

lemma check_reply_sim:
  "simulates (J t0) qt view True id v (check_reply M c r) (check_reply (spec_messages coll t) c r)"
  unfolding check_reply_def
  by (cases r) (auto intro!: simulates_read [OF sim_MGetByID] simulates_throw simulates_ret)

lemma Send_sim:
  assumes "message_unused v newID"
  shows "simulates (J t0) qt view (text_ok (si_Content inp)) id v
     (messages_Send M R now newID u inp) (messages_Send (spec_messages coll t) spec_chats now newID u inp)"
  unfolding messages_Send_eq
proof (intro simulates_V_Err simulates_read [OF msg_assertMember_sim] simulates_read [OF check_reply_sim]
    msg_assertMember_read check_reply_read)
  assume "SendInput_Validate inp = None"
  moreover fix a assume "fst (msg_assertMember spec_chats (si_ChatID inp) u v) = Ok (id a)"
  moreover fix b assume "fst (check_reply (spec_messages coll t) (si_ChatID inp) (si_ReplyToID inp) v) = Ok (id b)"
  ultimately have "may_send v u inp"
    by (simp add: may_send_def msg_assertMember_Ok check_reply_Ok)
  from sim_MCreate [OF new_message_pre [OF assms this, of now], of t0]
  show "simulates (J t0) qt view (text_ok (si_Content inp)) id v
      (call (mr_Create M (new_message now newID u inp)) (\<lambda>_. ret (new_message now newID u inp)))
      (call (mr_Create (spec_messages coll t) (new_message now newID u inp)) (\<lambda>_. ret (new_message now newID u inp)))"
    by (simp add: simulates_write new_message_def)
qed

lemma Edit_sim:
  "simulates (J t0) qt view (text_ok (ei_Content inp)) id v
     (messages_Edit M R now m u inp) (messages_Edit (spec_messages coll t) spec_chats now m u inp)"
  unfolding messages_Edit_eq spec_messages_simps
proof (intro simulates_V_Err simulates_read_id [OF sim_MGetByID] simulates_if simulates_throw
    simulates_read_id [OF msg_assertMember_sim] msg_assertMember_read spec_message_reads)
  fix x assume "EditInput_Validate inp = None"
  then have "content_ok (msg_Content (edited_message now inp x))"
    by (simp add: EditInput_ok edited_message_def)
  from sim_MUpdate [OF this, of t0 v]
  show "simulates (J t0) qt view (text_ok (ei_Content inp)) id v
      (call (mr_Update M (edited_message now inp x)) (\<lambda>_. ret (edited_message now inp x)))
      (call (sm_Update (edited_message now inp x)) (\<lambda>_. ret (edited_message now inp x)))"
    by (simp add: simulates_write edited_message_def)
qed

lemma Delete_sim:
  "sim_now J t0 qt view True id v (messages_Delete M R m u)
     (\<lambda>t. messages_Delete (spec_messages coll t) spec_chats m u)"
  unfolding messages_Delete_def spec_messages_simps
  by (intro sim_now_read_id [OF sim_MGetByID] sim_now_read_id [OF msg_assertMember_sim] sim_now_if
      sim_now_throw msg_assertMember_read spec_message_reads sim_now_write [OF sim_MDelete])

lemma MarkRead_sim:
  "sim_now J t0 qt view True id v (messages_MarkRead M R c u)
     (\<lambda>t. messages_MarkRead (spec_messages coll t) spec_chats c u)"
  unfolding messages_MarkRead_def spec_messages_simps
  by (intro sim_now_read_id [OF msg_assertMember_sim] msg_assertMember_read sim_now_write
      [OF sim_MMarkRead]) (simp add: msg_assertMember_Ok)

lemma AddReaction_sim:
  "simulates (J t0) qt view (text_ok (ri_Emoji inp)) id v
     (messages_AddReaction M R now m u inp) (messages_AddReaction (spec_messages coll t) spec_chats now m u inp)"
  unfolding messages_AddReaction_def spec_messages_simps new_reaction_def [symmetric]
proof (intro simulates_V_Err simulates_read_id [OF sim_MGetByID] simulates_if simulates_throw
    simulates_read_id [OF msg_assertMember_sim] msg_assertMember_read spec_message_reads)
  fix x a
  assume "ReactInput_Validate inp = None" "fst (sm_GetByID m v) = Ok x"
    "fst (msg_assertMember spec_chats (msg_ChatID x) u v) = Ok a"
  then have pre: "reaction_pre v (msg_ChatID x) (new_reaction now m u inp)"
    by (simp add: ReactInput_ok emoji_ok_def fst_sm_GetByID_Ok msg_assertMember_Ok reaction_pre_def
        new_reaction_def)
  have emoji: "rx_Emoji (new_reaction now m u inp) = ri_Emoji inp" by (simp add: new_reaction_def)
  from sim_MAddReaction [OF pre, of t0]
  show "simulates (J t0) qt view (text_ok (ri_Emoji inp)) id v
      (call (mr_AddReaction M (new_reaction now m u inp)) (\<lambda>_. ret ()))
      (call (sm_AddReaction (new_reaction now m u inp)) (\<lambda>_. ret ()))"
    unfolding emoji by (rule simulates_write)
qed

lemma RemoveReaction_sim:
  "simulates (J t0) qt view (text_ok (ri_Emoji inp)) id v
     (messages_RemoveReaction M R m u inp) (messages_RemoveReaction (spec_messages coll t) spec_chats m u inp)"
  unfolding messages_RemoveReaction_def spec_messages_simps
  by (intro simulates_V_Err simulates_read_id [OF sim_MGetByID] simulates_if simulates_throw
    simulates_read_id [OF msg_assertMember_sim] msg_assertMember_read spec_message_reads
    simulates_write [OF sim_MRemoveReaction])

lemma GetHistory_sim:
  assumes "1 \<le> li_Limit inp"
  shows "simulates (J t0) qt view True strip_page v
     (messages_GetHistory M R u inp) (messages_GetHistory (spec_messages coll t) spec_chats u inp)"
  unfolding messages_GetHistory_def spec_messages_simps
proof (intro simulates_read_id [OF msg_assertMember_sim] msg_assertMember_read
    simulates_read [OF sim_MGetChatMessages] spec_message_reads)
  show "0 \<le> li_Limit inp" using assms by simp
  fix msgs
  have ids: "map msg_ID (map strip_message msgs) = map msg_ID msgs" by simp
  have page: "simulates (J t0) qt view True strip_page v (buildPageResult xs (li_Limit inp))
      (buildPageResult (map bare_message xs) (li_Limit inp))" for xs
    using assms by (cases "xs = []")
      (auto simp: buildPageResult_def nextCursor_run strip_page_def last_map cursor_at_def bare_message_def
        intro!: simulates_ret)
  have att: "bare_message (attach_reactions f m) = attach_reactions (map_option (map strip_reaction) \<circ> f) (strip_message m)" for f m
    by (auto simp: attach_reactions_def strip_message_def bare_message_def split: option.split)
  have "simulates (J t0) qt view True (map bare_message) v
      (if msgs \<noteq> [] then (let ids = map msg_ID msgs in
          call (mr_GetReactionsBatch M ids) (\<lambda>r. ret (map (attach_reactions r) msgs))) else ret msgs)
      (if map strip_message msgs \<noteq> [] then (let ids = map msg_ID (map strip_message msgs) in
          call (sm_GetReactionsBatch coll ids) (\<lambda>r. ret (map (attach_reactions r) (map strip_message msgs))))
       else ret (map strip_message msgs))"
  proof (cases "msgs = []")
    case True
    then show ?thesis by (simp add: simulates_ret)
  next
    case False
    have "simulates (J t0) qt view True (map bare_message) v
        (call (mr_GetReactionsBatch M (map msg_ID msgs)) (\<lambda>r. ret (map (attach_reactions r) msgs)))
        (call (sm_GetReactionsBatch coll (map msg_ID msgs))
          (\<lambda>r. ret (map (attach_reactions r) (map strip_message msgs))))"
      by (rule simulates_last [OF sim_MGetReactionsBatch]) (simp add: att comp_def)
    with False show ?thesis by (simp add: Let_def ids del: map_map)
  qed
  then show "simulates (J t0) qt view True strip_page v
      (call (if msgs \<noteq> [] then (let ids = map msg_ID msgs in
          call (mr_GetReactionsBatch M ids) (\<lambda>r. ret (map (attach_reactions r) msgs))) else ret msgs)
        (\<lambda>msgs. buildPageResult msgs (li_Limit inp)))
      (call (if map strip_message msgs \<noteq> [] then (let ids = map msg_ID (map strip_message msgs) in
          call (sm_GetReactionsBatch coll ids) (\<lambda>r. ret (map (attach_reactions r) (map strip_message msgs))))
       else ret (map strip_message msgs)) (\<lambda>msgs. buildPageResult msgs (li_Limit inp)))"
    by (rule simulates_read) (auto simp: call_eval sm_GetReactionsBatch_def ret_def Let_def page)
qed

lemma view_wf: "J t0 w \<Longrightarrow> aview_wf (view w)"
  by (rule chat_port.view_wf [OF chats])

lemma Send_guarded:
  assumes "J t0 w" "message_unused (view w) newID"
  shows "guarded (J t0) qt view (text_ok (si_Content inp)) (messages_Send M R now newID u inp)
     (\<lambda>m. may_send (view w) u inp \<and> m = new_message now newID u inp)
     (\<lambda>m. (view w)\<lparr>av_messages := av_messages (view w) @ [m]\<rparr>) w"
  by (rule simulates_guarded [OF Send_sim [OF assms(2)] assms(1) failsafe_message_ops(1)]) (rule Send_spec)

lemma Edit_guarded:
  assumes "J t0 w"
  shows "guarded (J t0) qt view (text_ok (ei_Content inp)) (messages_Edit M R now m u inp)
     (\<lambda>m'. EditInput_Validate inp = None \<and>
        (\<exists>x. msg_ID x = m \<and> may_rewrite (view w) u x \<and> m' = edited_message now inp x))
     (\<lambda>m'. with_message (view w) m') w"
  by (rule simulates_guarded [OF Edit_sim assms failsafe_message_ops(2)])
    (rule Edit_spec [OF view_wf [OF assms]])

lemma AddReaction_guarded:
  assumes "J t0 w"
  shows "guarded (J t0) qt view (text_ok (ri_Emoji inp)) (messages_AddReaction M R now m u inp)
     (\<lambda>_. may_react (view w) m u inp)
     (\<lambda>_. snd (sm_AddReaction (new_reaction now m u inp) (view w))) w"
  by (rule simulates_guarded [OF AddReaction_sim assms failsafe_message_ops(5)]) (rule AddReaction_spec)

lemma RemoveReaction_guarded:
  assumes "J t0 w"
  shows "guarded (J t0) qt view (text_ok (ri_Emoji inp)) (messages_RemoveReaction M R m u inp)
     (\<lambda>_. may_react (view w) m u inp)
     (\<lambda>_. snd (sm_RemoveReaction m u (ri_Emoji inp) (view w))) w"
  by (rule simulates_guarded [OF RemoveReaction_sim assms failsafe_message_ops(6)])
    (rule RemoveReaction_spec)

lemma Delete_guarded:
  assumes "J t0 w"
  shows "\<exists>t \<ge> t0. guarded (J t0) qt view True (messages_Delete M R m u)
     (\<lambda>_. \<exists>x. msg_ID x = m \<and> may_rewrite (view w) u x) (\<lambda>_. with_deleted (view w) m t) w"
proof -
  from sim_nowE [OF Delete_sim assms refl] obtain t where "t0 \<le> t" and
    "sim_at (J t0) qt view True id (view w) (messages_Delete M R m u)
       (messages_Delete (spec_messages coll t) spec_chats m u) w" by blast
  from sim_at_guarded [OF this(2) failsafe_message_ops(3) Delete_spec [OF view_wf [OF assms]]] this(1)
  show ?thesis by blast
qed

lemma MarkRead_guarded:
  assumes "J t0 w"
  shows "\<exists>t \<ge> t0. guarded (J t0) qt view True (messages_MarkRead M R c u)
     (\<lambda>_. is_member (view w) c u)
     (\<lambda>_. (view w)\<lparr>av_receipts := set_mark (c, u) t (av_receipts (view w))\<rparr>) w"
proof -
  from sim_nowE [OF MarkRead_sim assms refl] obtain t where "t0 \<le> t" and
    "sim_at (J t0) qt view True id (view w) (messages_MarkRead M R c u)
       (messages_MarkRead (spec_messages coll t) spec_chats c u) w" by blast
  from sim_at_guarded [OF this(2) failsafe_message_ops(4) MarkRead_spec] this(1)
  show ?thesis by blast
qed

text \<open>A page of the history.\<close>

lemma GetHistory_run:
  assumes w: "J t0 w" and limit: "1 \<le> li_Limit inp"
  shows "J t0 (snd (messages_GetHistory M R u inp w)) \<and>
     view (snd (messages_GetHistory M R u inp w)) = view w \<and>
     (qt w \<longrightarrow> qt (snd (messages_GetHistory M R u inp w))) \<and>
     (map_outcome id strip_page (fst (messages_GetHistory M R u inp w)) =
        (if is_member (view w) (li_ChatID inp) u then Ok (history_page coll (view w) inp)
         else Err (Dom ErrNotChatMember)) \<or>
      \<not> qt w \<and> (\<exists>e. fst (messages_GetHistory M R u inp w) = Err e \<and> is_storage_error e))"
  using GetHistory_sim [OF limit] w refl
  by (cases rule: simulatesE) (auto simp: GetHistory_spec [OF limit])

end

end
