(* ===== verification/UcHistory.thy ===== *)
theory UcHistory
  imports UcMessageSim
begin

text \<open>
  Two promises of the message use cases that span several calls: following the cursors of
  \<open>GetHistory\<close> enumerates the live history of a chat, each message once, in a known number of
  requests; and \<open>MarkRead\<close> leaves nothing unread.
\<close>

section \<open>Keyset pagination\<close>

text \<open>What a client does: ask for a page, and again from the cursor it came with.\<close>

fun fetch_history :: "nat \<Rightarrow> 'w MessageRepository \<Rightarrow> 'w ChatRepository \<Rightarrow> uuid \<Rightarrow> ListInput \<Rightarrow>
    ('w, Message list) io" where
  "fetch_history 0 messages chats callerID inp = throw (Lib ''out of requests'')"
| "fetch_history (Suc n) messages chats callerID inp =
     call (messages_GetHistory messages chats callerID inp) (\<lambda>page.
     case pg_NextCursor page of
       None \<Rightarrow> ret (pg_Messages page)
     | Some cursor \<Rightarrow>
         call (fetch_history n messages chats callerID (inp\<lparr>li_Cursor := Some cursor\<rparr>)) (\<lambda>rest.
         ret (pg_Messages page @ rest)))"

lemma filter_after_split:
  fixes f :: "'r \<Rightarrow> 'k::linorder"
  assumes "sorted_wrt (<) (map f xs)" "xs = ys @ zs" "ys \<noteq> []"
  shows "filter (\<lambda>x. f (last ys) < f x) xs = zs"
proof -
  have last: "last ys \<in> set ys" using assms(3) by simp
  have "f x < f z" if "x \<in> set ys" "z \<in> set zs" for x z
    using assms(1,2) that by (auto simp: sorted_wrt_append)
  then have "filter (\<lambda>x. f (last ys) < f x) zs = zs"
    using last by (auto simp: filter_id_conv)
  moreover have "filter (\<lambda>x. f (last ys) < f x) ys = []"
  proof -
    obtain us y where ys: "ys = us @ [y]" using assms(3) by (cases ys rule: rev_cases) auto
    then have "sorted_wrt (<) (map f (us @ [y]))" using assms(1,2) by (simp add: sorted_wrt_append)
    then show ?thesis by (auto simp: ys sorted_wrt_append filter_empty_conv dest: less_not_sym)
  qed
  ultimately show ?thesis using assms(2) by simp
qed

lemma before_cursor_at: "before_cursor (Some (cursor_at x)) m \<longleftrightarrow> newest_first x < newest_first m"
  by (auto simp: before_cursor_def cursor_at_def newest_first_def word_less_def)

lemma history_strict:
  assumes "aview_wf v"
  shows "sorted_wrt (<) (map newest_first (history v c))"
proof -
  have "distinct (map msg_ID (live_messages v c))"
    using assms by (auto simp: live_messages_def aview_wf_def intro: distinct_map_filter)
  then have "inj_on msg_ID (set (live_messages v c))" "distinct (live_messages v c)"
    by (simp_all add: distinct_map)
  then have "inj_on newest_first (set (live_messages v c))"
    by (auto simp: inj_on_def newest_first_def dest: word_uint_eqI)
  with \<open>distinct (live_messages v c)\<close> have "distinct (map newest_first (history v c))"
    by (simp add: distinct_map history_def)
  moreover have "sorted (map newest_first (history v c))"
    by (simp add: history_def)
  ultimately show ?thesis by (simp add: strict_sorted_iff)
qed

text \<open>The rows after a full page are the rows before the cursor of that page.\<close>

lemma next_page_rows:
  assumes v: "aview_wf v" and k: "0 < k" "k \<le> length rows"
    and rows: "rows = filter (before_cursor cursor) (history v c)"
  shows "filter (before_cursor (Some (cursor_at (last (take k rows))))) (history v c) = drop k rows"
proof -
  let ?x = "last (take k rows)"
  have ne: "take k rows \<noteq> []" using k by auto
  have "?x \<in> set rows" using last_in_set [OF ne] by (auto dest: in_set_takeD)
  then have x: "before_cursor cursor ?x" by (simp add: rows)
  have down: "before_cursor (Some (cursor_at ?x)) m \<Longrightarrow> before_cursor cursor m" for m
    using x by (auto simp: before_cursor_def cursor_at_def split: option.splits)
  have "sorted_wrt (<) (map newest_first rows)"
  proof -
    have "rows = filter (before_cursor cursor) (history v c)" by (rule rows)
    then show ?thesis using history_strict [OF v, of c] by (simp add: sorted_wrt_map sorted_wrt_filter)
  qed
  then have "filter (\<lambda>m. newest_first ?x < newest_first m) rows = drop k rows"
    using ne by (intro filter_after_split) auto
  moreover have "filter (before_cursor (Some (cursor_at ?x))) (history v c) =
      filter (before_cursor (Some (cursor_at ?x))) rows"
  proof -
    have "filter P H = filter P (filter Q H)" if "\<forall>m. P m \<longrightarrow> Q m" for P Q and H :: "Message list"
      by (induction H) (use that in auto)
    from this [of "before_cursor (Some (cursor_at ?x))" "before_cursor cursor" "history v c"] down
    show ?thesis unfolding rows [symmetric] by blast
  qed
  moreover have "before_cursor (Some (cursor_at ?x)) = (\<lambda>m. newest_first ?x < newest_first m)"
    by (rule ext) (rule before_cursor_at)
  ultimately show ?thesis by simp
qed

context message_port begin

lemma fetch_history_run:
  assumes "J t0 w" "qt w" "view w = v" "is_member v (li_ChatID inp) u" "1 \<le> li_Limit inp"
    and "length (filter (before_cursor (li_Cursor inp)) (history v (li_ChatID inp))) < n * nat (li_Limit inp)"
  shows "\<exists>ms w'. fetch_history n M R u inp w = (Ok ms, w') \<and> J t0 w' \<and> qt w' \<and> view w' = v \<and>
     map bare_message ms = map (with_reactions coll v)
       (filter (before_cursor (li_Cursor inp)) (history v (li_ChatID inp)))"
  using assms
proof (induction n arbitrary: inp w)
  case (Suc n)
  let ?k = "nat (li_Limit inp)"
  let ?rows = "filter (before_cursor (li_Cursor inp)) (history v (li_ChatID inp))"
  obtain r w1 where run: "messages_GetHistory M R u inp w = (r, w1)" by force
  from GetHistory_run [OF Suc.prems(1,5), of u] run Suc.prems(2,3,4)
  have w1: "J t0 w1" "qt w1" "view w1 = v" and "map_outcome id strip_page r = Ok (history_page coll v inp)"
    by auto
  then obtain p where r: "r = Ok p" and p: "strip_page p = history_page coll v inp"
    by (cases r) auto
  from arg_cong [OF p, of pg_NextCursor] arg_cong [OF p, of pg_Messages]
  have cursor: "pg_NextCursor p = (if int (length (take ?k ?rows)) < li_Limit inp then None
        else Some (cursor_at (last (take ?k ?rows))))"
    and msgs: "map bare_message (pg_Messages p) = map (with_reactions coll v) (take ?k ?rows)"
    by (simp_all add: strip_page_def history_page_def page_rows_def)
  show ?case
  proof (cases "length ?rows < ?k")
    case True
    then have "pg_NextCursor p = None" "take ?k ?rows = ?rows" using cursor by auto
    with run r w1 msgs show ?thesis by (simp add: call_eval ret_def)
  next
    case False
    let ?inp = "inp\<lparr>li_Cursor := Some (cursor_at (last (take ?k ?rows)))\<rparr>"
    have next_cursor: "pg_NextCursor p = Some (cursor_at (last (take ?k ?rows)))"
      using cursor False Suc.prems(5) by auto
    have "aview_wf v" using view_wf [OF w1(1)] w1(3) by simp
    from next_page_rows [OF this _ _ refl, of ?k "li_Cursor inp" "li_ChatID inp"] False Suc.prems(5)
    have rest: "filter (before_cursor (li_Cursor ?inp)) (history v (li_ChatID ?inp)) = drop ?k ?rows"
      by simp
    have "length (drop ?k ?rows) < n * ?k" using Suc.prems(6) False by simp
    then have "length (filter (before_cursor (li_Cursor ?inp)) (history v (li_ChatID ?inp))) <
        n * nat (li_Limit ?inp)"
      unfolding rest by simp
    from Suc.IH [OF w1 _ _ this] Suc.prems(4,5) obtain ms w2 where
      ms: "fetch_history n M R u ?inp w1 = (Ok ms, w2)" "J t0 w2" "qt w2" "view w2 = v"
      "map bare_message ms = map (with_reactions coll v) (drop ?k ?rows)"
      unfolding rest by auto
    have "fetch_history (Suc n) M R u inp w = (Ok (pg_Messages p @ ms), w2)"
      using run r next_cursor ms(1) by (simp add: call_eval ret_def)
    moreover have "map bare_message (pg_Messages p @ ms) = map (with_reactions coll v) ?rows"
    proof -
      have "map bare_message (pg_Messages p @ ms) =
          map (with_reactions coll v) (take ?k ?rows @ drop ?k ?rows)"
        using msgs ms(5) by (simp only: map_append)
      then show ?thesis by (simp only: append_take_drop_id)
    qed
    ultimately show ?thesis using ms(2-4) by blast
  qed
qed simp

end

section \<open>Unread messages\<close>

lemma unread_after_mark:
  assumes "\<And>m. m \<in> set (live_messages v c) \<Longrightarrow> msg_CreatedAt m \<le> t"
  shows "unread_count (v\<lparr>av_receipts := set_mark (c, u) t (av_receipts v)\<rparr>) c u = 0"
  using assms
  by (auto simp: unread_count_def live_messages_def read_mark_def map_of_set_mark filter_empty_conv
      not_less)

lemma unread_others_after_mark:
  "(c', u') \<noteq> (c, u) \<Longrightarrow>
     unread_count (v\<lparr>av_receipts := set_mark (c, u) t (av_receipts v)\<rparr>) c' u' = unread_count v c' u'"
  by (auto simp: unread_count_def live_messages_def read_mark_def map_of_set_mark)

lemma unread_after_send:
  "unread_count (v\<lparr>av_messages := av_messages v @ [new_message now newID s inp]\<rparr>) c u =
     unread_count v c u + (if c = si_ChatID inp \<and> u \<noteq> s \<and> read_mark v c u < now then 1 else 0)"
  by (auto simp: unread_count_def live_messages_def read_mark_def new_message_def)

context message_port begin

lemma MarkRead_clears:
  assumes w: "J t0 w" and past: "\<And>m. m \<in> set (live_messages (view w) c) \<Longrightarrow> msg_CreatedAt m \<le> t0"
    and ok: "fst (messages_MarkRead M R c u w) = Ok ()"
  shows "unread_count (view (snd (messages_MarkRead M R c u w))) c u = 0 \<and>
     (\<forall>c' u'. (c', u') \<noteq> (c, u) \<longrightarrow>
        unread_count (view (snd (messages_MarkRead M R c u w))) c' u' = unread_count (view w) c' u')"
proof -
  from MarkRead_guarded [OF w, of c u] ok obtain t where "t0 \<le> t" and
    v: "view (snd (messages_MarkRead M R c u w)) = (view w)\<lparr>av_receipts := set_mark (c, u) t (av_receipts (view w))\<rparr>"
    by (auto simp: guarded_def)
  then have "m \<in> set (live_messages (view w) c) \<Longrightarrow> msg_CreatedAt m \<le> t" for m
    using past [of m] by simp
  then show ?thesis
    unfolding v using unread_after_mark unread_others_after_mark by blast
qed

end

end
