(* ===== verification/PgMessageSim.thy ===== *)
theory PgMessageSim
  imports PgMessage PgPreview UcHistory
begin

text \<open>
  The PostgreSQL message repository implements the message port: every method of
  storage/postgres/message.go simulates its abstract operation.
\<close>

section \<open>Frames\<close>

lemma pg_wf_messages:
  assumes "pg_wf d" "distinct (map gc_id ms)"
    "\<And>r. r \<in> set ms \<Longrightarrow> chat_exists d (gc_chat_id r) \<and> user_exists d (gc_sender_id r)"
  shows "pg_wf (d\<lparr>tb_messages := ms\<rparr>)"
  using assms by (simp add: pg_wf_def db_wf_def)

lemma pg_wf_receipts:
  assumes "pg_wf d" "distinct (map (\<lambda>r. (rc_chat_id r, rc_user_id r)) rs)"
  shows "pg_wf (d\<lparr>tb_receipts := rs\<rparr>)"
  using assms by (simp add: pg_wf_def db_wf_def)

lemma pg_wf_reactions:
  assumes "pg_wf d" "distinct (map (\<lambda>r. (xc_message_id r, xc_user_id r, xc_emoji r)) xs)"
  shows "pg_wf (d\<lparr>tb_reactions := xs\<rparr>)"
  using assms by (simp add: pg_wf_def db_wf_def)

lemma db_view_messages:
  "db_view (d\<lparr>tb_messages := ms\<rparr>) = (db_view d)\<lparr>av_messages := map message_of_row ms\<rparr>"
  by (simp add: db_view_def)

lemma db_view_receipts:
  "db_view (d\<lparr>tb_receipts := rs\<rparr>) =
     (db_view d)\<lparr>av_receipts := map (\<lambda>r. ((rc_chat_id r, rc_user_id r), rc_last_read_at r)) rs\<rparr>"
  by (simp add: db_view_def)

lemma db_view_reactions:
  "db_view (d\<lparr>tb_reactions := xs\<rparr>) = (db_view d)\<lparr>av_reactions := map reaction_of_row xs\<rparr>"
  by (simp add: db_view_def)

lemma message_lookup_view:
  "message_lookup (db_view d) m = map_option message_of_row (find (\<lambda>r. gc_id r = m) (tb_messages d))"
  by (simp add: message_lookup_def db_view_def find_map comp_def)

lemma message_lookup_exists: "message_lookup (db_view d) m \<noteq> None \<longleftrightarrow> message_exists d m"
  by (auto simp: message_lookup_view message_exists_def find_None_iff)

lemma message_unused_view: "message_unused (db_view d) m \<longleftrightarrow> \<not> message_exists d m"
  by (auto simp: message_unused_def message_exists_def db_view_def)

lemma member_exists_wf:
  "pg_wf d \<Longrightarrow> is_member (db_view d) c u \<Longrightarrow> chat_exists d c \<and> user_exists d u"
  by (auto simp: is_member_view member_exists_def dest: pg_tables.member_exists_fk)

section \<open>Reads of messages\<close>

lemma pg_scanMessage_eq: "pg_scanMessage r = Inr (message_of_row r)"
  by (simp add: pg_scanMessage_def message_of_row_def)

lemma pg_msg_GetByID_sim:
  "simulates (pg_at t0) quiet view_of True id v (pg_msg_GetByID m) (sm_GetByID m)"
  unfolding pg_msg_GetByID_def
  by (rule sim_queryRow)
    (auto simp: pg_scanMessage_eq sm_GetByID_def message_lookup_view find_filter_hd split: list.splits)

definition sender_row :: "db \<Rightarrow> message_row \<Rightarrow> user_row" where
  "sender_row d m = the (find (\<lambda>u. uc_id u = gc_sender_id m) (tb_users d))"

lemma filter_some_user:
  assumes "db_wf d" "user_exists d u"
  shows "filter (\<lambda>r. uc_id r = u) (tb_users d) = [the (find (\<lambda>r. uc_id r = u) (tb_users d))]"
proof -
  from assms(2) have "find (\<lambda>r. uc_id r = u) (tb_users d) \<noteq> None"
    by (auto simp: user_exists_def find_None_iff)
  then obtain r where "find (\<lambda>r. uc_id r = u) (tb_users d) = Some r" by blast
  moreover have "distinct (map uc_id (tb_users d))" using assms(1) by (simp add: db_wf_def)
  ultimately show ?thesis by (simp add: filter_key_find)
qed

lemma concat_single_map:
  "(\<And>x. x \<in> set xs \<Longrightarrow> f x = [g x]) \<Longrightarrow> concat (map f xs) = map g xs"
  by (induction xs) auto

lemma concat_if_filter: "concat (map (\<lambda>u. if P u then [(m, u)] else []) us) = map (Pair m) (filter P us)"
  by (induction us) auto

lemma messages_join_senders_eq:
  assumes "db_wf d"
  shows "messages_join_senders d = map (\<lambda>m. (m, sender_row d m)) (tb_messages d)"
proof -
  have "concat (map (\<lambda>m. map (Pair m) (filter (\<lambda>u. uc_id u = gc_sender_id m) (tb_users d)))
      (tb_messages d)) = map (\<lambda>m. (m, sender_row d m)) (tb_messages d)"
  proof (rule concat_single_map)
    fix m assume "m \<in> set (tb_messages d)"
    then have "user_exists d (gc_sender_id m)" using assms by (simp add: db_wf_def)
    with assms show "map (Pair m) (filter (\<lambda>u. uc_id u = gc_sender_id m) (tb_users d)) = [(m, sender_row d m)]"
      by (simp add: filter_some_user sender_row_def)
  qed
  then show ?thesis by (simp add: messages_join_senders_def concat_if_filter)
qed

lemma sender_row_in:
  assumes "db_wf d" "m \<in> set (tb_messages d)"
  shows "sender_row d m \<in> set (tb_users d)"
proof -
  have "user_exists d (gc_sender_id m)" using assms by (simp add: db_wf_def)
  from filter_some_user [OF assms(1) this]
  have "sender_row d m \<in> set (filter (\<lambda>r. uc_id r = gc_sender_id m) (tb_users d))"
    by (simp add: sender_row_def)
  then show ?thesis by simp
qed

lemma pg_scan_with_sender:
  assumes "pg_wf d" "m \<in> set (tb_messages d)"
  shows "\<exists>x. pg_scanMessageWithSender (m, sender_row d m) = Inr x \<and> strip_message x = message_of_row m"
  using assms sender_row_in [OF pg_wfD [OF assms(1)] assms(2)]
  by (auto simp: pg_wf_def pg_scanMessageWithSender_def strip_message_def message_of_row_def)

lemma live_messages_view:
  "live_messages (db_view d) c = map message_of_row
     (filter (\<lambda>r. gc_chat_id r = c \<and> gc_deleted_at r = None) (tb_messages d))"
  by (simp add: live_messages_def db_view_def filter_map comp_def)

definition cursor_row :: "MessageCursor option \<Rightarrow> message_row \<Rightarrow> bool" where
  "cursor_row cursor r \<longleftrightarrow> (case cursor of None \<Rightarrow> True
     | Some c \<Rightarrow> (gc_created_at r, gc_id r) < (cur_CreatedAt c, cur_ID c))"

lemma history_rows:
  "filter (before_cursor cursor) (history (db_view d) c) = map message_of_row
     (sort_key (\<lambda>r. (- int (gc_created_at r), - uint (gc_id r)))
        (filter (\<lambda>r. gc_chat_id r = c \<and> gc_deleted_at r = None \<and> cursor_row cursor r) (tb_messages d)))"
  by (cases cursor) (simp_all add: history_def live_messages_view filter_sort filter_map
      sort_key_map comp_def newest_first_def before_cursor_def cursor_row_def conj_ac)

lemma pg_history_rows:
  assumes "db_wf d"
  shows "sort_key pg_history_key (case cursor of
        None \<Rightarrow> [p \<leftarrow> messages_join_senders d. gc_chat_id (fst p) = c \<and> gc_deleted_at (fst p) = None]
      | Some k \<Rightarrow> [p \<leftarrow> messages_join_senders d. gc_chat_id (fst p) = c \<and> gc_deleted_at (fst p) = None
              \<and> (gc_created_at (fst p), gc_id (fst p)) < (cur_CreatedAt k, cur_ID k)]) =
     map (\<lambda>m. (m, sender_row d m)) (sort_key (\<lambda>r. (- int (gc_created_at r), - uint (gc_id r)))
        (filter (\<lambda>r. gc_chat_id r = c \<and> gc_deleted_at r = None \<and> cursor_row cursor r) (tb_messages d)))"
  by (cases cursor) (simp_all add: messages_join_senders_eq [OF assms] filter_map sort_key_map
      comp_def pg_history_key_def cursor_row_def)

lemma set_take_sort: "x \<in> set (take n (sort_key k xs)) \<Longrightarrow> x \<in> set xs"
  using set_take_subset [of n "sort_key k xs"] by auto

lemma pg_msg_GetChatMessages_sim:
  assumes "0 \<le> limit"
  shows "simulates (pg_at t0) quiet view_of True (map strip_message) v
     (pg_msg_GetChatMessages c cursor limit) (sm_GetChatMessages c cursor limit)"
proof -
  let ?rows = "\<lambda>d. sort_key (\<lambda>r. (- int (gc_created_at r), - uint (gc_id r)))
        (filter (\<lambda>r. gc_chat_id r = c \<and> gc_deleted_at r = None \<and> cursor_row cursor r) (tb_messages d))"
  let ?q = "\<lambda>d. take (nat limit) (sort_key pg_history_key (case cursor of
        None \<Rightarrow> [p \<leftarrow> messages_join_senders d. gc_chat_id (fst p) = c \<and> gc_deleted_at (fst p) = None]
      | Some k \<Rightarrow> [p \<leftarrow> messages_join_senders d. gc_chat_id (fst p) = c \<and> gc_deleted_at (fst p) = None
              \<and> (gc_created_at (fst p), gc_id (fst p)) < (cur_CreatedAt k, cur_ID k)]))"
  have q: "?q d = map (\<lambda>m. (m, sender_row d m)) (take (nat limit) (?rows d))" if "pg_wf d" for d
    unfolding pg_history_rows [OF pg_wfD [OF that]] by (simp add: take_map)
  have row: "\<exists>m x. p = (m, sender_row d m) \<and> m \<in> set (tb_messages d) \<and>
      pg_scanMessageWithSender p = Inr x \<and> strip_message x = message_of_row m"
    if d: "pg_wf d" and p: "p \<in> set (?q d)" for d p
  proof -
    from p obtain m where m: "m \<in> set (take (nat limit) (?rows d))" "p = (m, sender_row d m)"
      unfolding q [OF d] by auto
    from set_take_sort [OF m(1)] have "m \<in> set (tb_messages d)" by simp
    with pg_scan_with_sender [OF d this] m(2) show ?thesis by auto
  qed
  have "simulates (pg_at t0) quiet view_of True (map strip_message) v
      (db_query ?q pg_scanMessageWithSender) (sm_GetChatMessages c cursor limit)"
  proof (rule sim_query)
    fix d p assume "pg_wf d" "p \<in> set (?q d)"
    from row [OF this] show "pg_scanMessageWithSender p = Inr (scanned (pg_scanMessageWithSender p))"
      by (auto simp: scanned_def)
  next
    fix d assume d: "pg_wf d" "db_view d = v"
    have "map (strip_message \<circ> (\<lambda>p. scanned (pg_scanMessageWithSender p))) (?q d) =
        map (message_of_row \<circ> fst) (?q d)"
    proof (rule map_cong [OF refl])
      fix p assume "p \<in> set (?q d)"
      from row [OF d(1) this] show "(strip_message \<circ> (\<lambda>p. scanned (pg_scanMessageWithSender p))) p =
          (message_of_row \<circ> fst) p"
        by (auto simp: scanned_def)
    qed
    also have "\<dots> = take (nat limit) (filter (before_cursor cursor) (history v c))"
      unfolding q [OF d(1)] d(2) [symmetric] history_rows by (simp add: take_map comp_def)
    finally show "sm_GetChatMessages c cursor limit v =
        (Ok (map strip_message (map (\<lambda>p. scanned (pg_scanMessageWithSender p)) (?q d))), v)"
      by (simp add: sm_GetChatMessages_def)
  qed
  then show ?thesis
    using assms by (simp add: pg_msg_GetChatMessages_def Let_def)
qed

section \<open>Writes of messages\<close>

lemma message_of_insert:
  assumes "msg_EditedAt m = None" "msg_DeletedAt m = None" "msg_Sender m = None" "msg_Reactions m = []"
  shows "message_of_row \<lparr>gc_id = msg_ID m, gc_chat_id = msg_ChatID m, gc_sender_id = msg_SenderID m,
     gc_content = msg_Content m, gc_type = msg_Type m, gc_reply_to_id = msg_ReplyToID m,
     gc_edited_at = None, gc_deleted_at = None, gc_created_at = msg_CreatedAt m,
     gc_updated_at = msg_UpdatedAt m\<rparr> = m"
  using assms by (cases m) (simp add: message_of_row_def)

lemma message_types_valid:
  "t \<in> {MessageTypeText, MessageTypeImage, MessageTypeFile} \<Longrightarrow> valid_message_type t"
  by (auto simp: valid_message_type_def MessageTypeText_def MessageTypeImage_def MessageTypeFile_def)

lemma pg_message_checks_ok:
  "content_ok (gc_content r) \<Longrightarrow> valid_message_type (gc_type r) \<Longrightarrow> pg_text (gc_content r) \<Longrightarrow>
     first_violation (pg_message_checks r) = None"
  by (auto simp: pg_message_checks_def pg_content_checks_def content_ok_def)

lemma first_violation_append:
  "first_violation (xs @ ys) = (case first_violation xs of None \<Rightarrow> first_violation ys | Some e \<Rightarrow> Some e)"
  by (induction xs rule: first_violation.induct) auto

lemma pg_msg_Create_sim:
  assumes pre: "message_pre v m"
  shows "simulates (pg_at t0) quiet view_of (pg_text (msg_Content m)) id v (pg_msg_Create m) (sm_Create m)"
proof -
  define r where "r = \<lparr>gc_id = msg_ID m, gc_chat_id = msg_ChatID m, gc_sender_id = msg_SenderID m,
     gc_content = msg_Content m, gc_type = msg_Type m, gc_reply_to_id = msg_ReplyToID m,
     gc_edited_at = None, gc_deleted_at = None, gc_created_at = msg_CreatedAt m,
     gc_updated_at = msg_UpdatedAt m\<rparr>"
  have keys: "first_violation (pg_message_keys d r) = None" if "pg_wf d" "db_view d = v" for d
  proof -
    have "chat_exists d (msg_ChatID m) \<and> user_exists d (msg_SenderID m)"
      using pre that member_exists_wf by (auto simp: message_pre_def)
    moreover have "\<not> message_exists d (msg_ID m)"
      using pre that by (auto simp: message_pre_def message_unused_view)
    moreover have "message_exists d x" if "msg_ReplyToID m = Some x" for x
      using pre that \<open>db_view d = v\<close> message_lookup_exists [of d x] by (auto simp: message_pre_def)
    ultimately show ?thesis
      by (auto simp: pg_message_keys_def r_def split: option.split)
  qed
  show ?thesis
    unfolding pg_msg_Create_def db_exec_def r_def [symmetric] Let_def
  proof (rule sim_call_stmt)
    fix d :: db and t :: time and a d' and w :: world
    assume d: "pg_wf d" "db_view d = v"
      and f: "(case first_violation (pg_message_checks r @ pg_message_keys d r) of
        Some e \<Rightarrow> Inl e | None \<Rightarrow> Inr (1::nat, d\<lparr>tb_messages := tb_messages d @ [r]\<rparr>)) = Inr (a, d')"
    then have d': "d' = d\<lparr>tb_messages := tb_messages d @ [r]\<rparr>" by (auto split: option.splits)
    from keys [OF d] have "\<not> message_exists d (gc_id r)" "chat_exists d (gc_chat_id r)"
      "user_exists d (gc_sender_id r)"
      by (auto simp: pg_message_keys_def split: if_splits)
    then have "pg_wf d'"
      using d(1) unfolding d'
      by (intro pg_wf_messages) (auto simp: pg_wf_def db_wf_def message_exists_def)
    moreover have "message_of_row r = m"
      unfolding r_def using pre by (intro message_of_insert) (auto simp: message_pre_def)
    then have "db_view d' = snd (sm_Create m v)"
      unfolding d' db_view_messages sm_Create_def d(2) [symmetric] by (simp add: db_view_def)
    ultimately show "pg_wf d' \<and> map_outcome id id (fst (ret () w)) = fst (sm_Create m v) \<and>
        db_view d' = snd (sm_Create m v)"
      by (simp add: ret_def sm_Create_def)
  next
    fix d :: db and t :: time and e
    assume d: "pg_wf d" "db_view d = v"
      and f: "(case first_violation (pg_message_checks r @ pg_message_keys d r) of
        Some e \<Rightarrow> Inl e | None \<Rightarrow> Inr (1::nat, d\<lparr>tb_messages := tb_messages d @ [r]\<rparr>)) = Inl e"
    have "valid_message_type (msg_Type m)"
      using pre by (intro message_types_valid) (auto simp: message_pre_def)
    then have "first_violation (pg_message_checks r) = None" if "pg_text (msg_Content m)"
      using pre that by (intro pg_message_checks_ok) (auto simp: message_pre_def r_def)
    with keys [OF d] f show "\<not> pg_text (msg_Content m)"
      by (auto simp: first_violation_append)
  qed (simp add: ret_def)
qed

text \<open>A write to the live row of a message, on the tables and on the abstract store.\<close>

lemma on_live_rows:
  assumes d: "pg_wf d"
    and keep: "\<And>r. gc_id (f r) = gc_id r \<and> gc_chat_id (f r) = gc_chat_id r \<and> gc_sender_id (f r) = gc_sender_id r"
    and row: "\<And>r. message_of_row (f r) = g (message_of_row r)"
    and d': "d' = d\<lparr>tb_messages := map (\<lambda>r. if gc_id r = m \<and> gc_deleted_at r = None then f r else r)
        (tb_messages d)\<rparr>"
    and n: "n = length (filter (\<lambda>r. gc_id r = m \<and> gc_deleted_at r = None) (tb_messages d))"
  shows "pg_wf d' \<and> map_outcome id id (fst ((if n = 0 then throw (Dom ErrMessageNotFound) else ret ()) w)) =
      fst (on_live_message m g (db_view d)) \<and> db_view d' = snd (on_live_message m g (db_view d))"
proof -
  let ?P = "\<lambda>r. gc_id r = m \<and> gc_deleted_at r = None"
  have some: "(\<exists>x \<in> set (av_messages (db_view d)). msg_ID x = m \<and> msg_DeletedAt x = None) \<longleftrightarrow> n \<noteq> 0"
    unfolding n length_filter_eq_0 by (auto simp: db_view_def)
  have "distinct (map gc_id (map (\<lambda>r. if ?P r then f r else r) (tb_messages d)))"
    using d keep by (subst distinct_map_update) (auto simp: pg_wf_def db_wf_def)
  then have "pg_wf d'"
    using d keep unfolding d' by (intro pg_wf_messages) (auto simp: pg_wf_def db_wf_def)
  moreover have "db_view d' = (db_view d)\<lparr>av_messages := map (\<lambda>x. if msg_ID x = m \<and>
      msg_DeletedAt x = None then g x else x) (av_messages (db_view d))\<rparr>"
    unfolding d' db_view_messages by (auto simp: db_view_def row)
  moreover have "map (\<lambda>r. if ?P r then f r else r) (tb_messages d) = tb_messages d" if "n = 0"
    using that unfolding n length_filter_eq_0 by (intro map_idI) auto
  then have "db_view d' = db_view d" if "n = 0"
    using that unfolding d' by simp
  ultimately show ?thesis
    using some by (cases "n = 0") (simp_all add: on_live_message_def throw_def ret_def)
qed

lemma pg_msg_Delete_sim:
  "sim_now pg_at t0 quiet view_of True id v (pg_msg_Delete m) (\<lambda>t. sm_Delete t m)"
  unfolding pg_msg_Delete_def db_exec_def
proof (rule sim_now_stmt)
  fix d :: db and t n d' and w :: world
  assume d: "pg_wf d" "db_view d = v"
    and f: "(let (n, rs) = sql_update (\<lambda>r. gc_id r = m \<and> gc_deleted_at r = None)
        (\<lambda>r. r\<lparr>gc_deleted_at := Some t, gc_updated_at := t\<rparr>) (tb_messages d)
      in Inr (n, d\<lparr>tb_messages := rs\<rparr>)) = Inr (n, d')"
  show "pg_wf d' \<and> map_outcome id id (fst ((if n = 0 then throw (Dom ErrMessageNotFound) else ret ()) w)) =
      fst (sm_Delete t m v) \<and> db_view d' = snd (sm_Delete t m v)"
    unfolding sm_Delete_def d(2) [symmetric]
    using d(1) f by (intro on_live_rows [where f = "\<lambda>r. r\<lparr>gc_deleted_at := Some t, gc_updated_at := t\<rparr>"])
      (auto simp: sql_update_def message_of_row_def)
qed (auto simp: ret_def throw_def sql_update_def)

lemma pg_msg_Update_sim:
  assumes c: "content_ok (msg_Content m)"
  shows "simulates (pg_at t0) quiet view_of (pg_text (msg_Content m)) id v (pg_msg_Update m) (sm_Update m)"
proof -
  let ?P = "\<lambda>r. gc_id r = msg_ID m \<and> gc_deleted_at r = None"
  let ?f = "\<lambda>r. r\<lparr>gc_content := msg_Content m, gc_edited_at := msg_EditedAt m,
      gc_updated_at := msg_UpdatedAt m\<rparr>"
  define F where "F = (\<lambda>d :: db. case first_violation ((\<not> pg_text (msg_Content m), bad_encoding)
        # (if length (filter ?P (tb_messages d)) = 0 then [] else pg_content_checks (msg_Content m))) of
      Some e \<Rightarrow> Inl e
    | None \<Rightarrow> Inr (length (filter ?P (tb_messages d)),
        d\<lparr>tb_messages := map (\<lambda>r. if ?P r then ?f r else r) (tb_messages d)\<rparr>))"
  have op: "pg_msg_Update m = call (db_stmt (\<lambda>_. F)) (\<lambda>n.
      if n = 0 then throw (Dom ErrMessageNotFound) else ret ())"
    unfolding pg_msg_Update_def db_exec_def F_def Let_def sql_update_def by (simp only: prod.case)
  show ?thesis
    unfolding op
  proof (rule sim_call_stmt)
    fix d :: db and t :: time and n d' and w :: world
    assume d: "pg_wf d" "db_view d = v" and f: "F d = Inr (n, d')"
    show "pg_wf d' \<and> map_outcome id id (fst ((if n = 0 then throw (Dom ErrMessageNotFound) else ret ()) w)) =
        fst (sm_Update m v) \<and> db_view d' = snd (sm_Update m v)"
      unfolding sm_Update_def d(2) [symmetric]
      using d(1) f by (intro on_live_rows [where f = ?f])
        (auto simp: F_def message_of_row_def split: option.splits)
  next
    fix d e assume "F d = Inl e"
    then show "\<not> pg_text (msg_Content m)"
      using c by (auto simp: F_def pg_content_checks_def content_ok_def split: option.splits if_splits)
  qed (simp add: ret_def throw_def)
qed

section \<open>Read receipts\<close>

lemma set_mark_map:
  assumes "distinct (map key rs)"
  shows "set_mark k t (map (\<lambda>r. (key r, val r)) rs) =
     (if \<exists>r \<in> set rs. key r = k then map (\<lambda>r. if key r = k then (k, t) else (key r, val r)) rs
      else map (\<lambda>r. (key r, val r)) rs @ [(k, t)])"
  using assms
proof (induction rs)
  case (Cons r rs)
  show ?case
  proof (cases "key r = k")
    case True
    have "key x \<noteq> k" if "x \<in> set rs" for x
    proof
      assume "key x = k"
      with True have "key r = key x" by simp
      with that have "key r \<in> key ` set rs" by (rule image_eqI [rotated])
      with Cons.prems show False by simp
    qed
    then have "map (\<lambda>r. if key r = k then (k, t) else (key r, val r)) rs = map (\<lambda>r. (key r, val r)) rs"
      by (intro map_cong) auto
    with True show ?thesis by simp
  qed (use Cons in auto)
qed simp

lemma pg_msg_MarkRead_sim:
  assumes m: "is_member v c u"
  shows "sim_now pg_at t0 quiet view_of True id v (pg_msg_MarkRead c u) (\<lambda>t. sm_MarkRead t c u)"
proof -
  let ?key = "\<lambda>r. (rc_chat_id r, rc_user_id r)"
  let ?P = "\<lambda>r. rc_chat_id r = c \<and> rc_user_id r = u"
  let ?upd = "\<lambda>t d. d\<lparr>tb_receipts := map (\<lambda>r. if ?P r then r\<lparr>rc_last_read_at := t\<rparr> else r) (tb_receipts d)\<rparr>"
  let ?add = "\<lambda>t d. d\<lparr>tb_receipts := tb_receipts d @
      [\<lparr>rc_chat_id = c, rc_user_id = u, rc_last_read_at = t\<rparr>]\<rparr>"
  define F where "F = (\<lambda>t (d :: db). if length (filter ?P (tb_receipts d)) \<noteq> 0
      then Inr (length (filter ?P (tb_receipts d)), ?upd t d)
      else (case first_violation
              [(\<not> chat_exists d c, fk_violation ''chat_read_receipts_chat_id_fkey''),
               (\<not> user_exists d u, fk_violation ''chat_read_receipts_user_id_fkey'')] of
             Some e \<Rightarrow> Inl e | None \<Rightarrow> Inr (1, ?add t d)))"
  have op: "pg_msg_MarkRead c u = call (db_stmt F) (\<lambda>_. ret ())"
    unfolding pg_msg_MarkRead_def db_exec_def F_def Let_def sql_update_def by (simp only: prod.case)
  have F: "F t d = Inr (a, d') \<Longrightarrow> d' = (if \<exists>r \<in> set (tb_receipts d). ?P r then ?upd t d else ?add t d)"
    and F_ok: "\<exists>r. F t d = Inr r" if "pg_wf d" "db_view d = v" for t d a d'
    using member_exists_wf [OF that(1), of c u] m that(2)
    unfolding F_def length_filter_eq_0 by (auto split: if_splits)
  have wf: "pg_wf d'" and view: "db_view d' = snd (sm_MarkRead t c u v)"
    if d: "pg_wf d" "db_view d = v" and f: "F t d = Inr (a, d')" for d t a d'
  proof -
    have dist: "distinct (map ?key (tb_receipts d))" using d(1) by (simp add: pg_wf_def db_wf_def)
    have key: "?key r = (c, u) \<longleftrightarrow> ?P r" for r by simp
    show "pg_wf d'"
    proof (cases "\<exists>r \<in> set (tb_receipts d). ?P r")
      case True
      with F [OF d f] have "d' = ?upd t d" by simp
      moreover have "distinct (map ?key (map (\<lambda>r. if ?P r then r\<lparr>rc_last_read_at := t\<rparr> else r) (tb_receipts d)))"
        using dist by (subst distinct_map_update) auto
      ultimately show ?thesis using d(1) by (auto intro: pg_wf_receipts)
    next
      case False
      with F [OF d f] have "d' = ?add t d" by simp
      moreover have "distinct (map ?key (tb_receipts d @ [\<lparr>rc_chat_id = c, rc_user_id = u, rc_last_read_at = t\<rparr>]))"
        using dist False by auto
      ultimately show ?thesis using d(1) by (auto intro: pg_wf_receipts)
    qed
    have "av_receipts v = map (\<lambda>r. (?key r, rc_last_read_at r)) (tb_receipts d)"
      using d(2) by (auto simp: db_view_def)
    then have "set_mark (c, u) t (av_receipts v) =
        (if \<exists>r \<in> set (tb_receipts d). ?P r
         then map (\<lambda>r. if ?P r then ((c, u), t) else (?key r, rc_last_read_at r)) (tb_receipts d)
         else map (\<lambda>r. (?key r, rc_last_read_at r)) (tb_receipts d) @ [((c, u), t)])"
      using set_mark_map [OF dist, of "(c, u)" t rc_last_read_at] by (simp only: key)
    with F [OF d f] d(2) show "db_view d' = snd (sm_MarkRead t c u v)"
      by (auto simp: sm_MarkRead_def db_view_def)
  qed
  show ?thesis
    unfolding op
  proof (rule sim_now_stmt)
    fix d t a d' and w :: world
    assume "pg_wf d" "db_view d = v" "F t d = Inr (a, d')"
    from wf [OF this] view [OF this] show "pg_wf d' \<and> map_outcome id id (fst (ret () w)) =
        fst (sm_MarkRead t c u v) \<and> db_view d' = snd (sm_MarkRead t c u v)"
      by (simp add: ret_def sm_MarkRead_def)
  next
    fix d t e
    assume d: "pg_wf d" "db_view d = v" "F t d = Inl e"
    from F_ok [OF d(1,2), of t] d(3) show "\<not> True" by auto
  qed (simp add: ret_def)
qed

lemma pg_msg_GetUnreadCount_sim:
  "simulates (pg_at t0) quiet view_of True id v (pg_msg_GetUnreadCount c u) (sm_GetUnreadCount c u)"
  unfolding pg_msg_GetUnreadCount_def db_queryRow_def
  by (rule sim_call_stmt)
    (auto simp: ret_def sm_GetUnreadCount_def unread_count_view pg_last_read_def Let_def)

section \<open>Reactions\<close>

lemma same_reaction_row:
  "same_reaction m u e (reaction_of_row x) \<longleftrightarrow> xc_message_id x = m \<and> xc_user_id x = u \<and> xc_emoji x = e"
  by (simp add: same_reaction_def reaction_of_row_def)

lemma reaction_of_insert:
  "rx_User r = None \<Longrightarrow> reaction_of_row \<lparr>xc_message_id = rx_MessageID r, xc_user_id = rx_UserID r,
     xc_emoji = rx_Emoji r, xc_created_at = rx_CreatedAt r\<rparr> = r"
  by (cases r) (simp add: reaction_of_row_def)

lemma pg_msg_AddReaction_sim:
  assumes pre: "reaction_pre v c rx"
  shows "simulates (pg_at t0) quiet view_of (pg_text (rx_Emoji rx)) id v
     (pg_msg_AddReaction rx) (sm_AddReaction rx)"
proof -
  define r where "r = \<lparr>xc_message_id = rx_MessageID rx, xc_user_id = rx_UserID rx,
    xc_emoji = rx_Emoji rx, xc_created_at = rx_CreatedAt rx\<rparr>"
  let ?dup = "\<lambda>d. \<exists>x \<in> set (tb_reactions d). xc_message_id x = xc_message_id r
      \<and> xc_user_id x = xc_user_id r \<and> xc_emoji x = xc_emoji r"
  define F where "F = (\<lambda>d. case first_violation (pg_reaction_checks r) of
      Some e \<Rightarrow> Inl e
    | None \<Rightarrow> if ?dup d then Inr (0, d)
        else (case first_violation (pg_reaction_fks d r) of
           Some e \<Rightarrow> Inl e
         | None \<Rightarrow> Inr (1 :: nat, d\<lparr>tb_reactions := tb_reactions d @ [r]\<rparr>)))"
  have op: "pg_msg_AddReaction rx = call (db_stmt (\<lambda>_. F)) (\<lambda>_. ret ())"
    unfolding pg_msg_AddReaction_def db_exec_def r_def [symmetric] F_def Let_def ..
  have row: "reaction_of_row r = rx"
    unfolding r_def using pre by (intro reaction_of_insert) (simp add: reaction_pre_def)
  have fks: "first_violation (pg_reaction_fks d r) = None" if "pg_wf d" "db_view d = v" for d
    using pre that member_exists_wf [OF that(1), of c "rx_UserID rx"]
      message_lookup_exists [of d "rx_MessageID rx"]
    by (auto simp: pg_reaction_fks_def r_def reaction_pre_def)
  have checks: "first_violation (pg_reaction_checks r) = None" if "pg_text (rx_Emoji rx)"
    using pre that by (auto simp: pg_reaction_checks_def r_def reaction_pre_def)
  have dup: "(\<exists>x \<in> set (av_reactions v). same_reaction (rx_MessageID rx) (rx_UserID rx) (rx_Emoji rx) x)
      \<longleftrightarrow> ?dup d" if "db_view d = v" for d
    unfolding that [symmetric] by (simp add: db_view_def same_reaction_row r_def)
  show ?thesis
    unfolding op
  proof (rule sim_call_stmt)
    fix d :: db and t :: time and a d' and w :: world
    assume d: "pg_wf d" "db_view d = v" and f: "F d = Inr (a, d')"
    show "pg_wf d' \<and> map_outcome id id (fst (ret () w)) = fst (sm_AddReaction rx v) \<and>
        db_view d' = snd (sm_AddReaction rx v)"
    proof (cases "?dup d")
      case True
      with f have "d' = d" by (auto simp: F_def split: option.splits)
      with True d dup [OF d(2)] show ?thesis by (simp add: ret_def sm_AddReaction_def)
    next
      case False
      with f have d': "d' = d\<lparr>tb_reactions := tb_reactions d @ [r]\<rparr>"
        by (auto simp: F_def split: option.splits if_splits)
      have "distinct (map (\<lambda>r. (xc_message_id r, xc_user_id r, xc_emoji r)) (tb_reactions d @ [r]))"
        using d(1) False by (auto simp: pg_wf_def db_wf_def)
      then have "pg_wf d'" unfolding d' by (rule pg_wf_reactions [OF d(1)])
      moreover have "db_view d' = v\<lparr>av_reactions := av_reactions v @ [rx]\<rparr>"
        unfolding d' db_view_reactions using d(2) row by (auto simp: db_view_def)
      ultimately show ?thesis
        using False dup [OF d(2)] by (simp add: ret_def sm_AddReaction_def)
    qed
  next
    fix d e assume "pg_wf d" "db_view d = v" "F d = Inl e"
    with fks checks show "\<not> pg_text (rx_Emoji rx)"
      by (auto simp: F_def split: option.splits if_splits)
  qed (simp add: ret_def)
qed

lemma pg_msg_RemoveReaction_sim:
  "simulates (pg_at t0) quiet view_of (pg_text e) id v
     (pg_msg_RemoveReaction m u e) (sm_RemoveReaction m u e)"
  unfolding pg_msg_RemoveReaction_def db_exec_def sql_delete_def
proof (rule sim_call_stmt)
  let ?P = "\<lambda>r. xc_message_id r = m \<and> xc_user_id r = u \<and> xc_emoji r = e"
  fix d :: db and t :: time and a d' and w :: world
  assume d: "pg_wf d" "db_view d = v"
    and f: "(let (n, rs) = (length (filter ?P (tb_reactions d)), filter (\<lambda>r. \<not> ?P r) (tb_reactions d))
      in if \<not> pg_text e then Inl bad_encoding else Inr (n, d\<lparr>tb_reactions := rs\<rparr>)) = Inr (a, d')"
  then have d': "d' = d\<lparr>tb_reactions := filter (\<lambda>r. \<not> ?P r) (tb_reactions d)\<rparr>"
    by (auto split: if_splits)
  have "pg_wf d'"
    unfolding d' using d(1)
    by (intro pg_wf_reactions distinct_map_filter) (auto simp: pg_wf_def db_wf_def)
  moreover have "db_view d' = snd (sm_RemoveReaction m u e v)"
    using d(2) unfolding d' db_view_reactions
    by (auto simp: sm_RemoveReaction_def db_view_def filter_map comp_def same_reaction_row)
  ultimately show "pg_wf d' \<and> map_outcome id id (fst (ret () w)) = fst (sm_RemoveReaction m u e v) \<and>
      db_view d' = snd (sm_RemoveReaction m u e v)"
    by (simp add: ret_def sm_RemoveReaction_def)
qed (auto simp: ret_def split: if_splits)

lemma filter_active:
  assumes "db_wf d"
  shows "filter (\<lambda>r. uc_id r = u \<and> uc_deleted_at r = None) (tb_users d) =
     (case active_user d u of None \<Rightarrow> [] | Some r \<Rightarrow> [r])"
proof (cases "user_exists d u")
  case True
  with active_users [OF assms] show ?thesis by (simp add: active_user_def)
next
  case False
  then have "filter (\<lambda>r. uc_id r = u \<and> uc_deleted_at r = None) (tb_users d) = []"
    by (auto simp: filter_empty_conv user_exists_def)
  then show ?thesis by (simp add: active_user_def find_filter_hd)
qed

lemma concat_optional_map:
  "concat (map (\<lambda>x. map (Pair x) (case f x of None \<Rightarrow> [] | Some r \<Rightarrow> [r])) xs) =
     map (\<lambda>x. (x, the (f x))) (filter (\<lambda>x. f x \<noteq> None) xs)"
  by (induction xs) (auto split: option.split)

lemma reactions_join_users_eq:
  assumes "db_wf d"
  shows "reactions_join_users d = map (\<lambda>x. (x, the (active_user d (xc_user_id x))))
     (filter (\<lambda>x. active_user d (xc_user_id x) \<noteq> None) (tb_reactions d))"
  unfolding reactions_join_users_def concat_if_filter filter_active [OF assms]
  by (rule concat_optional_map)

lemma pg_scan_reaction:
  assumes "pg_wf d" "p \<in> set (reactions_join_users d)"
  shows "\<exists>x. pg_scanReaction p = Inr x \<and> strip_reaction x = reaction_of_row (fst p)"
proof -
  from assms(2) obtain r u where "p = (r, u)" "active_user d (xc_user_id r) = Some u"
    by (auto simp: reactions_join_users_eq [OF pg_wfD [OF assms(1)]])
  with active_user_row [OF this(2)] assms(1) show ?thesis
    by (auto simp: pg_wf_def pg_scanReaction_def strip_reaction_def reaction_of_row_def)
qed

lemma reactions_of_rows:
  assumes "pg_wf d"
  shows "reactions_of coll (db_view d) m = map (reaction_of_row \<circ> fst)
     (sort_key (\<lambda>p. (xc_created_at (fst p), xc_user_id (fst p), coll (xc_emoji (fst p))))
        (filter (\<lambda>p. xc_message_id (fst p) = m) (reactions_join_users d)))"
proof -
  have "av_reactions (db_view d) = map reaction_of_row (tb_reactions d)" by (simp add: db_view_def)
  then show ?thesis
    by (simp add: reactions_of_def reactions_join_users_eq [OF pg_wfD [OF assms]] filter_map
        sort_key_map comp_def active_user_view reaction_key_def reaction_of_row_def conj_commute)
qed

text \<open>A query over the joined rows, stripped of the users.\<close>

lemma scanned_reactions:
  assumes "pg_wf d" "set ps \<subseteq> set (reactions_join_users d)"
  shows "map strip_reaction (map (\<lambda>p. scanned (pg_scanReaction p)) ps) = map (reaction_of_row \<circ> fst) ps"
  unfolding map_map
proof (rule map_cong [OF refl])
  fix p assume "p \<in> set ps"
  with assms(2) have "p \<in> set (reactions_join_users d)" by blast
  from pg_scan_reaction [OF assms(1) this]
  show "(strip_reaction \<circ> (\<lambda>p. scanned (pg_scanReaction p))) p = (reaction_of_row \<circ> fst) p"
    by (auto simp: scanned_def)
qed

lemma pg_scan_reaction_Inr:
  assumes "pg_wf d" "p \<in> set (reactions_join_users d)"
  shows "pg_scanReaction p = Inr (scanned (pg_scanReaction p))"
  using pg_scan_reaction [OF assms] by (auto simp: scanned_def)

lemma pg_msg_GetReactions_sim:
  "simulates (pg_at t0) quiet view_of True (map strip_reaction) v
     (pg_msg_GetReactions coll m) (sm_GetReactions coll m)"
  unfolding pg_msg_GetReactions_def
proof (rule sim_query)
  let ?q = "\<lambda>d. sort_key (\<lambda>p. (xc_created_at (fst p), xc_user_id (fst p), coll (xc_emoji (fst p))))
        (filter (\<lambda>p. xc_message_id (fst p) = m) (reactions_join_users d))"
  fix d p assume "pg_wf d" "p \<in> set (?q d)"
  then show "pg_scanReaction p = Inr (scanned (pg_scanReaction p))"
    by (auto intro: pg_scan_reaction_Inr)
next
  let ?q = "\<lambda>d. sort_key (\<lambda>p. (xc_created_at (fst p), xc_user_id (fst p), coll (xc_emoji (fst p))))
        (filter (\<lambda>p. xc_message_id (fst p) = m) (reactions_join_users d))"
  fix d assume d: "pg_wf d" "db_view d = v"
  have "map strip_reaction (map (\<lambda>p. scanned (pg_scanReaction p)) (?q d)) =
      map (reaction_of_row \<circ> fst) (?q d)"
    by (rule scanned_reactions [OF d(1)]) auto
  then show "sm_GetReactions coll m v = (Ok (map strip_reaction (map (\<lambda>p. scanned (pg_scanReaction p)) (?q d))), v)"
    unfolding sm_GetReactions_def d(2) [symmetric] reactions_of_rows [OF d(1)] by simp
qed

text \<open>The map the loop builds holds, for every message, its rows in query order.\<close>

lemma foldl_append_reaction:
  "foldl append_reaction f rxs m =
     (case filter (\<lambda>r. rx_MessageID r = m) rxs of [] \<Rightarrow> f m
      | xs \<Rightarrow> Some ((case f m of None \<Rightarrow> [] | Some ys \<Rightarrow> ys) @ xs))"
proof (induction rxs arbitrary: f)
  case (Cons r rxs)
  then show ?case by (auto simp: append_reaction_def split: list.split option.split)
qed simp

lemma grouped_reactions:
  assumes d: "pg_wf d"
  shows "map_option (map strip_reaction) (foldl append_reaction Map.empty
      (map (\<lambda>p. scanned (pg_scanReaction p)) (sort_key (\<lambda>p. (xc_message_id (fst p),
          xc_created_at (fst p), xc_user_id (fst p), coll (xc_emoji (fst p))))
        (filter (\<lambda>p. xc_message_id (fst p) \<in> set ids) (reactions_join_users d)))) m) =
    (if m \<in> set ids \<and> reactions_of coll (db_view d) m \<noteq> []
     then Some (reactions_of coll (db_view d) m) else None)"
proof -
  let ?J = "reactions_join_users d"
  let ?scan = "\<lambda>p. scanned (pg_scanReaction p)"
  let ?k4 = "\<lambda>p :: reaction_row \<times> user_row. (xc_message_id (fst p), xc_created_at (fst p),
      xc_user_id (fst p), coll (xc_emoji (fst p)))"
  let ?k3 = "\<lambda>p :: reaction_row \<times> user_row. (xc_created_at (fst p), xc_user_id (fst p), coll (xc_emoji (fst p)))"
  let ?rows = "sort_key ?k4 (filter (\<lambda>p. xc_message_id (fst p) \<in> set ids) ?J)"
  let ?m = "sort_key ?k3 (filter (\<lambda>p. xc_message_id (fst p) = m) ?J)"
  have id_scan: "rx_MessageID (?scan p) = xc_message_id (fst p)" if "p \<in> set ?J" for p
  proof -
    from pg_scan_reaction [OF d that] obtain x where
      x: "pg_scanReaction p = Inr x" "strip_reaction x = reaction_of_row (fst p)" by blast
    from arg_cong [OF x(2), of rx_MessageID] x(1) show ?thesis
      by (simp add: scanned_def strip_reaction_def reaction_of_row_def)
  qed
  have "filter (\<lambda>r. rx_MessageID r = m) (map ?scan ?rows) =
      map ?scan (filter (\<lambda>p. xc_message_id (fst p) = m) ?rows)"
    unfolding filter_map by (intro arg_cong [where f = "map ?scan"] filter_cong) (auto simp: id_scan)
  also have "filter (\<lambda>p. xc_message_id (fst p) = m) ?rows = (if m \<in> set ids then ?m else [])"
  proof -
    have same: "sort_key ?k4 ps = sort_key ?k3 ps" if "\<forall>p \<in> set ps. xc_message_id (fst p) = m" for ps
      using that
    proof (induction ps)
      case (Cons p ps)
      have "insort_key ?k4 p qs = insort_key ?k3 p qs"
        if "\<forall>q \<in> set qs. xc_message_id (fst q) = m" "xc_message_id (fst p) = m" for qs
        using that by (induction qs) auto
      with Cons show ?case by simp
    qed simp
    have "filter (\<lambda>p. xc_message_id (fst p) = m) (filter (\<lambda>p. xc_message_id (fst p) \<in> set ids) ?J) =
        (if m \<in> set ids then filter (\<lambda>p. xc_message_id (fst p) = m) ?J else [])"
      by (auto simp: filter_empty_conv intro: filter_cong)
    then show ?thesis
      unfolding filter_sort by (simp add: same)
  qed
  finally have f: "filter (\<lambda>r. rx_MessageID r = m) (map ?scan ?rows) =
      (if m \<in> set ids then map ?scan ?m else [])" by simp
  have strip: "map strip_reaction (map ?scan ?m) = reactions_of coll (db_view d) m"
    unfolding reactions_of_rows [OF d] by (rule scanned_reactions [OF d]) auto
  show ?thesis
    unfolding foldl_append_reaction f strip [symmetric]
    by (auto split: list.split)
qed

lemma pg_msg_GetReactionsBatch_sim:
  "simulates (pg_at t0) quiet view_of True (\<lambda>f. map_option (map strip_reaction) \<circ> f) v
     (pg_msg_GetReactionsBatch coll ids) (sm_GetReactionsBatch coll ids)"
proof (cases "ids = []")
  case True
  then have "sm_GetReactionsBatch coll ids = ret Map.empty"
    by (auto simp: sm_GetReactionsBatch_def ret_def)
  with True show ?thesis by (auto simp: pg_msg_GetReactionsBatch_def intro: simulates_ret)
next
  case False
  let ?q = "\<lambda>d. sort_key (\<lambda>p. (xc_message_id (fst p), xc_created_at (fst p), xc_user_id (fst p),
      coll (xc_emoji (fst p)))) (filter (\<lambda>p. xc_message_id (fst p) \<in> set ids) (reactions_join_users d))"
  have scan: "scan_all pg_scanReaction (?q d) = Inr (map (\<lambda>p. scanned (pg_scanReaction p)) (?q d))"
    if "pg_wf d" for d
    by (rule scan_all_Inr) (use pg_scan_reaction_Inr [OF that] in auto)
  from False show ?thesis
    unfolding pg_msg_GetReactionsBatch_def db_query_def
    by simp (rule sim_call_stmt, auto simp: ret_def scan grouped_reactions sm_GetReactionsBatch_def)
qed

section \<open>The port\<close>

interpretation pgm: message_port "pg_NewMessageRepository coll" pg_NewChatRepository pg_user_GetByID
  pg_at quiet view_of pg_chat_ok pg_text coll
  by (intro message_port.intro)
    (simp_all add: chat_port_pg pg_NewMessageRepository_def pg_msg_Create_sim pg_msg_GetByID_sim
      pg_msg_GetChatMessages_sim pg_msg_Update_sim pg_msg_Delete_sim pg_msg_MarkRead_sim
      pg_msg_GetUnreadCount_sim pg_msg_AddReaction_sim pg_msg_RemoveReaction_sim
      pg_msg_GetReactions_sim pg_msg_GetReactionsBatch_sim)

end
