(* ===== verification/MsgProps.thy ===== *)
theory MsgProps
  imports Demo PgMessageSim
begin

text \<open>
  The properties of the message use cases on PostgreSQL, from internal/usecase/message down to
  the tables, obtained from the interpretation \<open>pgm\<close> of the message port.
\<close>

abbreviation pg_messages :: "(string \<Rightarrow> 'k::linorder) \<Rightarrow> world MessageRepository" where
  "pg_messages \<equiv> pg_NewMessageRepository"

lemma demo_members [simp]: "is_member demo_view 10 u \<longleftrightarrow> u \<in> {1, 2, 3}"
  by (auto simp: is_member_iff demo_view_def demo_db_def demo_member_def)

lemma demo_message_lookup [simp]:
  "message_lookup demo_view 20 = Some (message_of_row (demo_message 20 10 2 30))"
  "message_lookup demo_view 23 = Some (message_of_row (demo_message 23 10 1 40))"
  by (simp_all add: message_lookup_def demo_view_def demo_db_def demo_message_def)

lemma demo_unused [simp]: "message_unused demo_view 24"
  by (simp add: message_unused_def demo_view_def demo_db_def demo_message_def)

lemma demo_text: "RuneCountInString ''yo'' = 2" "pg_text ''yo''"
  by (simp_all add: pg_text_def RuneCount_ascii ValidString_ascii is_ascii_def)

lemma demo_may_rewrite:
  "may_rewrite demo_view 2 (message_of_row (demo_message 20 10 2 30))"
  "\<not> (\<exists>x. msg_ID x = 20 \<and> may_rewrite demo_view 1 x)"
  by (auto simp: may_rewrite_def message_of_row_def demo_message_def)

section \<open>Writing messages\<close>

text \<open>C14: Send stores exactly the message it returns, for a member of the chat, with valid
  content, and, for a reply, to a message of the same chat; every refused or failed run changes
  nothing, and an allowed one fails only if a statement fails.\<close>

theorem pg_Send_correct:
  assumes "pg_inv w" "message_unused (view_of w) newID"
  shows "guarded pg_inv quiet view_of (pg_text (si_Content inp))
     (messages_Send (pg_messages coll) pg_NewChatRepository now newID u inp)
     (\<lambda>m. may_send (view_of w) u inp \<and> m = new_message now newID u inp)
     (\<lambda>m. (view_of w)\<lparr>av_messages := av_messages (view_of w) @ [m]\<rparr>) w"
  by (rule pgm.Send_guarded [OF assms])

theorem pg_Send_correct_witness:
  "fst (messages_Send (pg_messages demo_coll) pg_NewChatRepository 50 24 3
      \<lparr>si_ChatID = 10, si_Content = ''yo'', si_Type = ''text'', si_ReplyToID = Some 20\<rparr> demo) =
    Ok (new_message 50 24 3 \<lparr>si_ChatID = 10, si_Content = ''yo'', si_Type = ''text'', si_ReplyToID = Some 20\<rparr>)"
proof -
  let ?inp = "\<lparr>si_ChatID = 10, si_Content = ''yo'', si_Type = ''text'', si_ReplyToID = Some 20\<rparr>"
  have "may_send demo_view 3 ?inp"
    by (simp add: may_send_def SendInput_ok content_ok_def demo_text uuid_Nil_def MessageTypeText_def)
      (simp add: demo_message_def)
  then show ?thesis
    using pg_Send_correct [of demo 24 ?inp demo_coll 50 3] demo_text by (auto simp: guarded_def)
qed

text \<open>C15: Edit rewrites content and edit time of one message and nothing else, only for its
  author while a member of its chat, and never a deleted message.\<close>

theorem pg_Edit_correct:
  assumes "pg_inv w"
  shows "guarded pg_inv quiet view_of (pg_text (ei_Content inp))
     (messages_Edit (pg_messages coll) pg_NewChatRepository now m u inp)
     (\<lambda>m'. EditInput_Validate inp = None \<and>
        (\<exists>x. msg_ID x = m \<and> may_rewrite (view_of w) u x \<and> m' = edited_message now inp x))
     (\<lambda>m'. with_message (view_of w) m') w"
  by (rule pgm.Edit_guarded [OF assms])

theorem pg_Edit_correct_witness:
  "(\<exists>m. fst (messages_Edit (pg_messages demo_coll) pg_NewChatRepository 50 20 2 \<lparr>ei_Content = ''yo''\<rparr> demo) = Ok m) \<and>
   view_of (snd (messages_Edit (pg_messages demo_coll) pg_NewChatRepository 50 20 1 \<lparr>ei_Content = ''yo''\<rparr> demo)) =
     demo_view"
proof -
  have "EditInput_Validate \<lparr>ei_Content = ''yo''\<rparr> = None"
    by (simp add: EditInput_ok content_ok_def demo_text)
  moreover have "msg_ID (message_of_row (demo_message 20 10 2 30)) = 20" by (simp add: demo_message_def)
  ultimately show ?thesis
    using pg_Edit_correct [of demo "\<lparr>ei_Content = ''yo''\<rparr>" demo_coll 50 20 2] demo_may_rewrite demo_text
      pg_Edit_correct [of demo "\<lparr>ei_Content = ''yo''\<rparr>" demo_coll 50 20 1]
    unfolding guarded_def view_demo by auto
qed

text \<open>C16: Delete marks one message as deleted, at a time not before the call, only for its author
  while a member of its chat; a deleted message is never deleted again.\<close>

theorem pg_Delete_correct:
  assumes "pg_at t0 w"
  shows "\<exists>t \<ge> t0. guarded (pg_at t0) quiet view_of True
     (messages_Delete (pg_messages coll) pg_NewChatRepository m u)
     (\<lambda>_. \<exists>x. msg_ID x = m \<and> may_rewrite (view_of w) u x) (\<lambda>_. with_deleted (view_of w) m t) w"
  by (rule pgm.Delete_guarded [OF assms])

theorem pg_Delete_correct_witness:
  "fst (messages_Delete (pg_messages demo_coll) pg_NewChatRepository 20 2 demo) = Ok () \<and>
   view_of (snd (messages_Delete (pg_messages demo_coll) pg_NewChatRepository 20 1 demo)) = demo_view"
proof -
  have "msg_ID (message_of_row (demo_message 20 10 2 30)) = 20" by (simp add: demo_message_def)
  then show ?thesis
    using pg_Delete_correct [of 0 demo demo_coll 20 2] demo_may_rewrite
      pg_Delete_correct [of 0 demo demo_coll 20 1]
    unfolding guarded_def view_demo by auto
qed

section \<open>Reading\<close>

text \<open>C17: Following the cursors of GetHistory from the start enumerates the live messages of the
  chat, each exactly once and newest first, with the reactions of live users attached, in at
  most \<open>n\<close> requests whenever \<open>n\<close> pages hold more than the whole history; nothing is written.\<close>

theorem pg_history_enumerated:
  assumes "pg_inv w" "quiet w" "is_member (view_of w) c u" "1 \<le> limit"
    and "length (history (view_of w) c) < n * nat limit"
  shows "\<exists>ms w'. fetch_history n (pg_messages coll) pg_NewChatRepository u
       \<lparr>li_ChatID = c, li_Cursor = None, li_Limit = limit\<rparr> w = (Ok ms, w') \<and>
     map bare_message ms = map (with_reactions coll (view_of w)) (history (view_of w) c) \<and>
     view_of w' = view_of w"
proof -
  let ?inp = "\<lparr>li_ChatID = c, li_Cursor = None, li_Limit = limit\<rparr>"
  have "filter (before_cursor None) ms = ms" for ms by (simp add: before_cursor_def)
  with pgm.fetch_history_run [of 0 w "view_of w" ?inp u n coll] assms show ?thesis by auto
qed

theorem pg_history_enumerated_witness:
  "\<exists>ms w'. fetch_history 3 (pg_messages demo_coll) pg_NewChatRepository 3
       \<lparr>li_ChatID = 10, li_Cursor = None, li_Limit = 2\<rparr> demo = (Ok ms, w') \<and>
     map bare_message ms = map (with_reactions demo_coll demo_view) (history demo_view 10)"
proof -
  have "length (history demo_view 10) = 4"
    by (simp add: history_def live_messages_def demo_view_def demo_db_def demo_message_def)
  then show ?thesis
    using pg_history_enumerated [of demo 10 3 2 3 demo_coll] by auto
qed

text \<open>C18: One request of GetHistory returns, to members only, the page of at most \<open>limit\<close> messages
  before the cursor with the cursor of the next page, never panics when the limit is positive,
  and writes nothing.\<close>

theorem pg_GetHistory_page:
  assumes "pg_inv w" "quiet w" "1 \<le> li_Limit inp"
  shows "map_outcome id strip_page
       (fst (messages_GetHistory (pg_messages coll) pg_NewChatRepository u inp w)) =
     (if is_member (view_of w) (li_ChatID inp) u then Ok (history_page coll (view_of w) inp)
      else Err (Dom ErrNotChatMember)) \<and>
   view_of (snd (messages_GetHistory (pg_messages coll) pg_NewChatRepository u inp w)) = view_of w"
  using pgm.GetHistory_run [OF assms(1,3), of coll u] assms(2) by blast

theorem pg_GetHistory_page_witness:
  "fst (messages_GetHistory (pg_messages demo_coll) pg_NewChatRepository 4
     \<lparr>li_ChatID = 10, li_Cursor = None, li_Limit = 2\<rparr> demo) = Err (Dom ErrNotChatMember)"
  using pg_GetHistory_page [of demo "\<lparr>li_ChatID = 10, li_Cursor = None, li_Limit = 2\<rparr>" demo_coll 4]
  by (cases "fst (messages_GetHistory (pg_messages demo_coll) pg_NewChatRepository 4
     \<lparr>li_ChatID = 10, li_Cursor = None, li_Limit = 2\<rparr> demo)") auto

section \<open>Unread counters\<close>

text \<open>C19: After a successful MarkRead nothing that was sent before the call is unread for the
  caller in this chat, and no other counter changes.\<close>

theorem pg_MarkRead_clears:
  assumes "pg_at t0 w" "\<forall>m \<in> set (live_messages (view_of w) c). msg_CreatedAt m \<le> t0"
    and "fst (messages_MarkRead (pg_messages coll) pg_NewChatRepository c u w) = Ok ()"
  shows "unread_count (view_of (snd (messages_MarkRead (pg_messages coll) pg_NewChatRepository c u w))) c u = 0 \<and>
     (\<forall>c' u'. (c', u') \<noteq> (c, u) \<longrightarrow>
        unread_count (view_of (snd (messages_MarkRead (pg_messages coll) pg_NewChatRepository c u w))) c' u' =
        unread_count (view_of w) c' u')"
  by (rule pgm.MarkRead_clears [OF assms(1) _ assms(3)]) (use assms(2) in blast)

lemma demo_mark_ok: "fst (messages_MarkRead (pg_messages demo_coll) pg_NewChatRepository 10 3 demo) = Ok ()"
  using pgm.MarkRead_guarded [of 0 demo demo_coll 10 3] by (auto simp: guarded_def)

theorem pg_MarkRead_clears_witness:
  "unread_count (view_of (snd (messages_MarkRead (pg_messages demo_coll) pg_NewChatRepository 10 3 demo))) 10 3 = 0"
proof -
  have "pg_at 40 demo" using demo_wf by (simp add: table_inv_def demo_def quiet_env_def)
  moreover have "\<forall>m \<in> set (live_messages demo_view 10). msg_CreatedAt m \<le> 40"
    by (auto simp: live_messages_def demo_view_def demo_db_def demo_message_def)
  ultimately show ?thesis
    using pg_MarkRead_clears [of 40 demo 10 demo_coll 3] demo_mark_ok by simp
qed

section \<open>Reactions\<close>

text \<open>A reaction is stored at most once: AddReaction by a member to a live message adds it if
  the same user had not reacted with the same emoji, and changes nothing otherwise.\<close>

theorem pg_AddReaction_correct:
  assumes "pg_inv w"
  shows "guarded pg_inv quiet view_of (pg_text (ri_Emoji inp))
     (messages_AddReaction (pg_messages coll) pg_NewChatRepository now m u inp)
     (\<lambda>_. may_react (view_of w) m u inp)
     (\<lambda>_. if \<exists>x \<in> set (av_reactions (view_of w)). same_reaction m u (ri_Emoji inp) x then view_of w
          else (view_of w)\<lparr>av_reactions := av_reactions (view_of w) @ [new_reaction now m u inp]\<rparr>) w"
  using pgm.AddReaction_guarded [OF assms, of inp coll now m u]
  by (cases "\<exists>x \<in> set (av_reactions (view_of w)). same_reaction m u (ri_Emoji inp) x")
    (simp_all add: sm_AddReaction_def new_reaction_def)

lemma demo_may_react: "may_react demo_view 23 3 \<lparr>ri_Emoji = ''yo''\<rparr>"
  by (simp add: may_react_def ReactInput_ok emoji_ok_def demo_text) (simp add: demo_message_def)

theorem pg_AddReaction_correct_witness:
  "fst (messages_AddReaction (pg_messages demo_coll) pg_NewChatRepository 50 23 3 \<lparr>ri_Emoji = ''yo''\<rparr> demo) = Ok ()"
  using pg_AddReaction_correct [of demo "\<lparr>ri_Emoji = ''yo''\<rparr>" demo_coll 50 23 3] demo_may_react demo_text
  by (auto simp: guarded_def)

text \<open>RemoveReaction undoes AddReaction: adding a reaction that was not there and removing it
  again leaves the store as it was.\<close>

theorem pg_reaction_roundtrip:
  assumes "pg_inv w" "quiet w" "pg_text (ri_Emoji inp)" "may_react (view_of w) m u inp"
    and "\<forall>x \<in> set (av_reactions (view_of w)). \<not> same_reaction m u (ri_Emoji inp) x"
  shows "view_of (snd (call (messages_AddReaction (pg_messages coll) pg_NewChatRepository now m u inp)
     (\<lambda>_. messages_RemoveReaction (pg_messages coll) pg_NewChatRepository m u inp) w)) = view_of w"
proof -
  let ?add = "messages_AddReaction (pg_messages coll) pg_NewChatRepository now m u inp"
  let ?v1 = "(view_of w)\<lparr>av_reactions := av_reactions (view_of w) @ [new_reaction now m u inp]\<rparr>"
  from pgm.AddReaction_guarded [OF assms(1), of inp coll now m u] assms(2-5) obtain w1 where
    add: "?add w = (Ok (), w1)" and w1: "pg_inv w1" "quiet w1" "view_of w1 = ?v1"
    by (cases "?add w") (auto simp: guarded_def sm_AddReaction_def new_reaction_def)
  have "may_react (view_of w1) m u inp"
    using assms(4) by (simp add: w1 may_react_def message_lookup_def is_member_def member_lookup_def)
  with pgm.RemoveReaction_guarded [OF w1(1), of inp coll m u] w1(2) assms(3)
  have "view_of (snd (messages_RemoveReaction (pg_messages coll) pg_NewChatRepository m u inp w1)) =
      snd (sm_RemoveReaction m u (ri_Emoji inp) ?v1)"
    by (auto simp: guarded_def w1(3))
  moreover have "same_reaction m u (ri_Emoji inp) (new_reaction now m u inp)"
    by (simp add: same_reaction_def new_reaction_def)
  then have "filter (\<lambda>r. \<not> same_reaction m u (ri_Emoji inp) r)
      (av_reactions (view_of w) @ [new_reaction now m u inp]) = av_reactions (view_of w)"
    using assms(5) by (simp add: filter_id_conv)
  ultimately show ?thesis
    using add by (simp add: call_eval sm_RemoveReaction_def)
qed

theorem pg_reaction_roundtrip_witness:
  "view_of (snd (call (messages_AddReaction (pg_messages demo_coll) pg_NewChatRepository 50 23 3 \<lparr>ri_Emoji = ''yo''\<rparr>)
     (\<lambda>_. messages_RemoveReaction (pg_messages demo_coll) pg_NewChatRepository 23 3 \<lparr>ri_Emoji = ''yo''\<rparr>) demo)) = demo_view"
proof -
  have "av_reactions demo_view = []" by (simp add: demo_view_def)
  then show ?thesis
    using pg_reaction_roundtrip [of demo "\<lparr>ri_Emoji = ''yo''\<rparr>" 23 3 demo_coll 50] demo_may_react demo_text
    by simp
qed

section \<open>Chats and messages together\<close>

text \<open>C20: When the last member leaves a group, the group is deleted but the membership row stays,
  so that member can go on sending messages to the deleted group.\<close>

theorem pg_deleted_group_writable:
  assumes w: "pg_inv w" "quiet w" and own: "active_role (view_of w) c u = Some MemberRoleOwner"
    and alone: "nextOwner (roster (view_of w) c) u = None"
    and left: "chats_LeaveChat pg_NewChatRepository c u w = (Ok (), w1)"
    and inp: "SendInput_Validate inp = None" "si_ChatID inp = c" "si_ReplyToID inp = None"
    and fresh: "message_unused (view_of w) newID" and enc: "pg_text (si_Content inp)"
  shows "chat_lookup (view_of w1) c = None \<and>
     fst (messages_Send (pg_messages coll) pg_NewChatRepository now newID u inp w1) =
       Ok (new_message now newID u inp)"
proof -
  let ?v = "view_of w"
  have run: "pg_inv w1" "quiet w1" "chats_LeaveChat spec_chats c u ?v = (Ok (), view_of w1)"
    using pg.LeaveChat_exact [OF w, of c u] alone left by (auto simp: prod_eq_iff)
  from run(3) own alone have v1: "view_of w1 = without_chat ?v c"
    by (auto simp: LeaveChat_spec)
  have "is_member ?v c u"
    using own by (auto simp: active_role_def role_of_def is_member_def split: if_splits)
  then have "may_send (view_of w1) u inp"
    using inp by (simp add: may_send_def v1 without_chat_def is_member_def member_lookup_def)
  moreover have "message_unused (view_of w1) newID"
    using fresh by (simp add: v1 without_chat_def message_unused_def)
  ultimately have "fst (messages_Send (pg_messages coll) pg_NewChatRepository now newID u inp w1) =
      Ok (new_message now newID u inp)"
    using pgm.Send_guarded [OF run(1), of newID inp coll now u] run(2) enc by (auto simp: guarded_def)
  moreover have "chat_lookup (view_of w1) c = None"
    by (auto simp: v1 without_chat_def chat_lookup_def find_None_iff split: if_splits)
  ultimately show ?thesis by blast
qed

theorem pg_deleted_group_writable_witness:
  "\<exists>w1. chats_LeaveChat pg_NewChatRepository 13 4 demo = (Ok (), w1) \<and> chat_lookup (view_of w1) 13 = None \<and>
     fst (messages_Send (pg_messages demo_coll) pg_NewChatRepository 50 24 4
       \<lparr>si_ChatID = 13, si_Content = ''yo'', si_Type = ''text'', si_ReplyToID = None\<rparr> w1) =
     Ok (new_message 50 24 4 \<lparr>si_ChatID = 13, si_Content = ''yo'', si_Type = ''text'', si_ReplyToID = None\<rparr>)"
proof -
  let ?inp = "\<lparr>si_ChatID = 13, si_Content = ''yo'', si_Type = ''text'', si_ReplyToID = None\<rparr>"
  have alone: "nextOwner (roster demo_view 13) 4 = None" by (simp add: demo_alone)
  have "chats_LeaveChat spec_chats 13 4 demo_view = (Ok (), without_chat demo_view 13)"
    by (simp add: LeaveChat_spec demo_alone)
  then obtain w1 where left: "chats_LeaveChat pg_NewChatRepository 13 4 demo = (Ok (), w1)"
    using pg.LeaveChat_exact [of demo 13 4] alone
    by (cases "chats_LeaveChat pg_NewChatRepository 13 4 demo") simp
  have "SendInput_Validate ?inp = None"
    by (simp add: SendInput_ok content_ok_def demo_text uuid_Nil_def MessageTypeText_def)
  with pg_deleted_group_writable [OF _ _ _ _ left, of ?inp 24 demo_coll 50] alone demo_text left
  show ?thesis by (simp add: demo_alone)
qed

end
