(* ===== verification/UcUser.thy ===== *)
theory UcUser
  imports Validate
begin

text \<open>
  internal/usecase/user (user.go, dto.go): the user use cases, one definition per method, over any
  user repository, password hasher and token manager.  The reading of the clock and the fresh
  identifier that a method takes are arguments \<open>now\<close> and \<open>newID\<close>.  The log lines are left out.
\<close>

section \<open>Collaborators\<close>

record 'w tokenManager =
  tm_GenerateAccessToken :: "uuid \<Rightarrow> ('w, string) io"
  tm_GenerateRefreshToken :: "uuid \<Rightarrow> ('w, string) io"
  tm_ValidateRefreshToken :: "string \<Rightarrow> ('w, uuid) io"

record 'w passwordHasher =
  ph_Hash :: "string \<Rightarrow> ('w, string) io"
  ph_Check :: "string \<Rightarrow> string \<Rightarrow> bool"

section \<open>Inputs and results (dto.go)\<close>

record RegisterInput =
  rgi_Username :: string
  rgi_Email :: string
  rgi_Password :: string

definition RegisterInput_Validate :: "RegisterInput \<Rightarrow> V" where
  "RegisterInput_Validate inp =
     Check (MaxLen (rgi_Password inp) 72) ''password must be at most 72 characters''
    (Check (MinLen (rgi_Password inp) 8) ''password must be at least 8 characters''
    (Check (IsEmail (rgi_Email inp)) ''invalid email address''
    (Check (IsAlphanumeric (rgi_Username inp)) ''username must contain only letters and digits''
    (Check (MaxLen (rgi_Username inp) 50) ''username must be at most 50 characters''
    (Check (MinLen (rgi_Username inp) 3) ''username must be at least 3 characters'' V_New)))))"

record LoginInput =
  lgi_Email :: string
  lgi_Password :: string

definition LoginInput_Validate :: "LoginInput \<Rightarrow> V" where
  "LoginInput_Validate inp =
     Check (NonEmpty (lgi_Password inp)) ''password is required''
    (Check (NonEmpty (lgi_Email inp)) ''email is required'' V_New)"

record UpdateProfileInput =
  upi_Username :: "string option"
  upi_Bio :: "string option"
  upi_AvatarURL :: "string option"

definition UpdateProfileInput_Validate :: "UpdateProfileInput \<Rightarrow> V" where
  "UpdateProfileInput_Validate inp =
     (let v0 = V_New;
          v1 = (case upi_Username inp of None \<Rightarrow> v0
                | Some n \<Rightarrow>
                    Check (IsAlphanumeric n) ''username must contain only letters and digits''
                   (Check (MaxLen n 50) ''username must be at most 50 characters''
                   (Check (MinLen n 3) ''username must be at least 3 characters'' v0)));
          v2 = (case upi_Bio inp of None \<Rightarrow> v1
                | Some b \<Rightarrow> Check (MaxLen b 500) ''bio must be at most 500 characters'' v1);
          v3 = (case upi_AvatarURL inp of None \<Rightarrow> v2
                | Some a \<Rightarrow> Check (IsURL a) ''avatar_url must be a valid HTTP/HTTPS URL'' v2)
      in v3)"

record SearchInput =
  sri_Query :: string
  sri_Limit :: int
  sri_Offset :: int

definition SearchInput_Validate :: "SearchInput \<Rightarrow> V" where
  "SearchInput_Validate inp =
     Check (sri_Offset inp \<ge> 0) ''offset must be non-negative''
    (Check (InRange (sri_Limit inp) 1 100) ''limit must be between 1 and 100''
    (Check (NonEmpty (sri_Query inp)) ''query is required'' V_New))"

record TokenPair =
  tp_AccessToken :: string
  tp_RefreshToken :: string

section \<open>The service (user.go)\<close>

definition issueTokens :: "'w tokenManager \<Rightarrow> uuid \<Rightarrow> ('w, TokenPair) io" where
  "issueTokens jwt userID =
     branch (tm_GenerateAccessToken jwt userID)
       (\<lambda>access.
        branch (tm_GenerateRefreshToken jwt userID)
          (\<lambda>refresh. ret \<lparr>tp_AccessToken = access, tp_RefreshToken = refresh\<rparr>)
          (\<lambda>_. throw (Dom ErrInternal)))
       (\<lambda>_. throw (Dom ErrInternal))"

text \<open>\<open>if _, err := m; err == nil { return taken } else if !errors.Is(err, ErrUserNotFound) { return err }\<close>.\<close>

definition must_be_free :: "('w, User) io \<Rightarrow> domain_error \<Rightarrow> ('w, unit) io" where
  "must_be_free m taken = branch m (\<lambda>_. throw (Dom taken))
     (\<lambda>err. if \<not> errors_Is err ErrUserNotFound then throw err else ret ())"

definition users_Register ::
  "'w UserRepository \<Rightarrow> 'w passwordHasher \<Rightarrow> 'w tokenManager \<Rightarrow> time \<Rightarrow> uuid \<Rightarrow> RegisterInput \<Rightarrow>
     ('w, User \<times> TokenPair) io" where
  "users_Register users hasher jwt now newID inp =
     call (V_Err (RegisterInput_Validate inp)) (\<lambda>_.
     call (must_be_free (ur_GetByEmail users (rgi_Email inp)) ErrEmailTaken) (\<lambda>_.
     call (must_be_free (ur_GetByUsername users (rgi_Username inp)) ErrUsernameTaken) (\<lambda>_.
     branch (ph_Hash hasher (rgi_Password inp))
       (\<lambda>hash.
        let u = \<lparr>user_ID = newID, user_Username = rgi_Username inp, user_Email = rgi_Email inp,
              user_PasswordHash = hash, user_AvatarURL = [], user_Bio = [],
              user_Status = UserStatusOffline, user_LastSeen = now, user_CreatedAt = now,
              user_UpdatedAt = now\<rparr>
        in call (ur_Create users u) (\<lambda>_.
           branch (issueTokens jwt (user_ID u))
             (\<lambda>tokens. ret (u, tokens))
             (\<lambda>err. call (ignore_err (ur_Delete users (user_ID u))) (\<lambda>_. throw err))))
       (\<lambda>_. throw (Dom ErrInternal)))))"

definition users_Login ::
  "'w UserRepository \<Rightarrow> 'w passwordHasher \<Rightarrow> 'w tokenManager \<Rightarrow> LoginInput \<Rightarrow>
     ('w, User \<times> TokenPair) io" where
  "users_Login users hasher jwt inp =
     call (V_Err (LoginInput_Validate inp)) (\<lambda>_.
     branch (ur_GetByEmail users (lgi_Email inp))
       (\<lambda>u.
        if \<not> ph_Check hasher (lgi_Password inp) (user_PasswordHash u)
        then throw (Dom ErrInvalidCredentials)
        else call (issueTokens jwt (user_ID u)) (\<lambda>tokens. ret (u, tokens)))
       (\<lambda>err. if errors_Is err ErrUserNotFound then throw (Dom ErrInvalidCredentials) else throw err))"

definition users_RefreshToken ::
  "'w UserRepository \<Rightarrow> 'w tokenManager \<Rightarrow> string \<Rightarrow> ('w, TokenPair) io" where
  "users_RefreshToken users jwt refreshToken =
     call (tm_ValidateRefreshToken jwt refreshToken) (\<lambda>userID.
     call (ur_GetByID users userID) (\<lambda>_.
     issueTokens jwt userID))"

definition users_GetProfile :: "'w UserRepository \<Rightarrow> uuid \<Rightarrow> ('w, User) io" where
  "users_GetProfile users uid = ur_GetByID users uid"

text \<open>The lookup of a new username: taken by someone else, or an error other than not found.\<close>

definition check_username :: "'w UserRepository \<Rightarrow> uuid \<Rightarrow> User \<Rightarrow> string option \<Rightarrow> ('w, unit) io" where
  "check_username users uid u name =
     (case name of
        None \<Rightarrow> ret ()
      | Some n \<Rightarrow>
          if n \<noteq> user_Username u then
            branch (ur_GetByUsername users n)
              (\<lambda>existing. if user_ID existing \<noteq> uid then throw (Dom ErrUsernameTaken) else ret ())
              (\<lambda>err. if \<not> errors_Is err ErrUserNotFound then throw err else ret ())
          else ret ())"

definition edited_profile :: "time \<Rightarrow> UpdateProfileInput \<Rightarrow> User \<Rightarrow> User" where
  "edited_profile now inp u = u\<lparr>
     user_Username := (case upi_Username inp of None \<Rightarrow> user_Username u | Some n \<Rightarrow> n),
     user_Bio := (case upi_Bio inp of None \<Rightarrow> user_Bio u | Some b \<Rightarrow> b),
     user_AvatarURL := (case upi_AvatarURL inp of None \<Rightarrow> user_AvatarURL u | Some a \<Rightarrow> a),
     user_UpdatedAt := now\<rparr>"

definition users_UpdateProfile ::
  "'w UserRepository \<Rightarrow> time \<Rightarrow> uuid \<Rightarrow> UpdateProfileInput \<Rightarrow> ('w, User) io" where
  "users_UpdateProfile users now uid inp =
     call (V_Err (UpdateProfileInput_Validate inp)) (\<lambda>_.
     call (ur_GetByID users uid) (\<lambda>u.
     call (check_username users uid u (upi_Username inp)) (\<lambda>_.
     let u = edited_profile now inp u
     in call (ur_Update users u) (\<lambda>_. ret u))))"

definition users_Search :: "'w UserRepository \<Rightarrow> SearchInput \<Rightarrow> ('w, User list) io" where
  "users_Search users inp =
     call (V_Err (SearchInput_Validate inp)) (\<lambda>_.
     ur_Search users (sri_Query inp) (sri_Limit inp) (sri_Offset inp))"

definition users_SetOnline :: "'w UserRepository \<Rightarrow> time \<Rightarrow> uuid \<Rightarrow> ('w, unit) io" where
  "users_SetOnline users now uid = ur_UpdateStatus users uid UserStatusOnline now"

definition users_SetOffline :: "'w UserRepository \<Rightarrow> time \<Rightarrow> uuid \<Rightarrow> ('w, unit) io" where
  "users_SetOffline users now uid = ur_UpdateStatus users uid UserStatusOffline now"

section \<open>What validation accepts\<close>

definition username_ok :: "string \<Rightarrow> bool" where
  "username_ok n \<longleftrightarrow> 3 \<le> RuneCountInString n \<and> RuneCountInString n \<le> 50 \<and> IsAlphanumeric n"

lemma RegisterInput_ok:
  "RegisterInput_Validate inp = None \<longleftrightarrow> username_ok (rgi_Username inp) \<and> IsEmail (rgi_Email inp) \<and>
     8 \<le> RuneCountInString (rgi_Password inp) \<and> RuneCountInString (rgi_Password inp) \<le> 72"
  by (auto simp: RegisterInput_Validate_def MinLen_def MaxLen_def username_ok_def)

lemma UpdateProfileInput_ok:
  "UpdateProfileInput_Validate inp = None \<longleftrightarrow>
     (\<forall>n. upi_Username inp = Some n \<longrightarrow> username_ok n) \<and>
     (\<forall>b. upi_Bio inp = Some b \<longrightarrow> RuneCountInString b \<le> 500) \<and>
     (\<forall>a. upi_AvatarURL inp = Some a \<longrightarrow> IsURL a)"
  by (auto simp: UpdateProfileInput_Validate_def MinLen_def MaxLen_def username_ok_def Let_def
      split: option.split)

lemma SearchInput_ok:
  "SearchInput_Validate inp = None \<longleftrightarrow> NonEmpty (sri_Query inp) \<and> 1 \<le> sri_Limit inp \<and>
     sri_Limit inp \<le> 100 \<and> 0 \<le> sri_Offset inp"
  by (auto simp: SearchInput_Validate_def InRange_def)

end
