(* ===== verification/UserPort.thy ===== *)
theory UserPort
  imports Contract UcUser
begin

text \<open>
  The user port as an interface: the accounts a store holds, the operations of
  domain.UserRepository over them, and \<open>user_port\<close>, what every storage back end promises the use
  cases.  \<open>ck\<close> is the key by which the store compares emails and usernames (the text itself in
  PostgreSQL, the weight of the collation in MySQL).
\<close>

section \<open>Accounts\<close>

text \<open>The live users in the order of the table, and every identifier that a row uses, deleted ones
  included.\<close>

record accounts =
  ac_users :: "User list"
  ac_ids :: "uuid list"

definition account :: "accounts \<Rightarrow> uuid \<Rightarrow> User option" where
  "account v u = find (\<lambda>x. user_ID x = u) (ac_users v)"

definition by_email :: "(string \<Rightarrow> 'k) \<Rightarrow> accounts \<Rightarrow> string \<Rightarrow> User option" where
  "by_email ck v e = find (\<lambda>x. ck (user_Email x) = ck e) (ac_users v)"

definition by_username :: "(string \<Rightarrow> 'k) \<Rightarrow> accounts \<Rightarrow> string \<Rightarrow> User option" where
  "by_username ck v n = find (\<lambda>x. ck (user_Username x) = ck n) (ac_users v)"

text \<open>No two live users share an identifier, an email or a username.\<close>

definition accounts_wf :: "(string \<Rightarrow> 'k) \<Rightarrow> accounts \<Rightarrow> bool" where
  "accounts_wf ck v \<longleftrightarrow> distinct (map user_ID (ac_users v)) \<and>
     distinct (map (ck \<circ> user_Email) (ac_users v)) \<and>
     distinct (map (ck \<circ> user_Username) (ac_users v)) \<and>
     (\<forall>x \<in> set (ac_users v). user_ID x \<in> set (ac_ids v))"

section \<open>Abstract operations\<close>

definition found :: "User option \<Rightarrow> (accounts, User) io" where
  "found r v = (case r of None \<Rightarrow> (Err (Dom ErrUserNotFound), v) | Some x \<Rightarrow> (Ok x, v))"

definition other_has :: "(User \<Rightarrow> 'k) \<Rightarrow> User \<Rightarrow> accounts \<Rightarrow> bool" where
  "other_has f u v \<longleftrightarrow> (\<exists>x \<in> set (ac_users v). user_ID x \<noteq> user_ID u \<and> f x = f u)"

text \<open>The two unique indexes, in the order in which they are checked.\<close>

definition unless_taken :: "(string \<Rightarrow> 'k) \<Rightarrow> User \<Rightarrow> (accounts, unit) io \<Rightarrow> (accounts, unit) io" where
  "unless_taken ck u m v =
     (if other_has (ck \<circ> user_Email) u v then (Err (Dom ErrEmailTaken), v)
      else if other_has (ck \<circ> user_Username) u v then (Err (Dom ErrUsernameTaken), v)
      else m v)"

definition sp_Create :: "(string \<Rightarrow> 'k) \<Rightarrow> User \<Rightarrow> (accounts, unit) io" where
  "sp_Create ck u = unless_taken ck u (\<lambda>v.
     (Ok (), v\<lparr>ac_users := ac_users v @ [u], ac_ids := ac_ids v @ [user_ID u]\<rparr>))"

text \<open>The columns that \<open>Update\<close> writes; not the password hash.\<close>

definition with_profile :: "User \<Rightarrow> User \<Rightarrow> User" where
  "with_profile u x = x\<lparr>user_Username := user_Username u, user_Email := user_Email u,
     user_AvatarURL := user_AvatarURL u, user_Bio := user_Bio u, user_UpdatedAt := user_UpdatedAt u\<rparr>"

definition change_user :: "uuid \<Rightarrow> (User \<Rightarrow> User) \<Rightarrow> accounts \<Rightarrow> accounts" where
  "change_user uid f v = v\<lparr>ac_users := map (\<lambda>x. if user_ID x = uid then f x else x) (ac_users v)\<rparr>"

definition sp_UpdateUser :: "(string \<Rightarrow> 'k) \<Rightarrow> User \<Rightarrow> (accounts, unit) io" where
  "sp_UpdateUser ck u v =
     (if account v (user_ID u) = None then (Err (Dom ErrUserNotFound), v)
      else unless_taken ck u (\<lambda>v. (Ok (), change_user (user_ID u) (with_profile u) v)) v)"

definition sp_UpdateStatus :: "uuid \<Rightarrow> UserStatus \<Rightarrow> time \<Rightarrow> time \<Rightarrow> (accounts, unit) io" where
  "sp_UpdateStatus uid status seen now v =
     (Ok (), change_user uid (\<lambda>x. x\<lparr>user_Status := status, user_LastSeen := seen, user_UpdatedAt := now\<rparr>) v)"

definition sp_DeleteUser :: "uuid \<Rightarrow> (accounts, unit) io" where
  "sp_DeleteUser uid v = (Ok (), v\<lparr>ac_users := filter (\<lambda>x. user_ID x \<noteq> uid) (ac_users v)\<rparr>)"

section \<open>The port\<close>

locale user_port =
  fixes R :: "'w UserRepository"
    and I :: "'w \<Rightarrow> bool" and qt :: "'w \<Rightarrow> bool" and view :: "'w \<Rightarrow> accounts"
    and ck :: "string \<Rightarrow> 'k" and text_ok :: "string \<Rightarrow> bool" and user_ok :: "User \<Rightarrow> bool"
  assumes accounts_ok: "I w \<Longrightarrow> accounts_wf ck (view w)"
    and sim_GetByID: "simulates I qt view True id v (ur_GetByID R uid) (found (account v uid))"
    and sim_GetByEmail:
      "simulates I qt view (text_ok e) id v (ur_GetByEmail R e) (found (by_email ck v e))"
    and sim_GetByUsername:
      "simulates I qt view (text_ok n) id v (ur_GetByUsername R n) (found (by_username ck v n))"
    and sim_Create: "user_ID u \<notin> set (ac_ids v) \<Longrightarrow>
      simulates I qt view (user_ok u) id v (ur_Create R u) (sp_Create ck u)"
    and sim_Update: "(\<And>x. account v (user_ID u) = Some x \<Longrightarrow> with_profile u x \<noteq> x) \<Longrightarrow>
      simulates I qt view (user_ok u) id v (ur_Update R u) (sp_UpdateUser ck u)"
    and sim_UpdateStatus: "status \<in> {UserStatusOnline, UserStatusOffline} \<Longrightarrow> I w \<Longrightarrow> view w = v \<Longrightarrow>
      \<exists>now. sim_at I qt view True id v (ur_UpdateStatus R uid status seen) (sp_UpdateStatus uid status seen now) w"
    and sim_Delete: "simulates I qt view True id v (ur_Delete R uid) (sp_DeleteUser uid)"

section \<open>Facts on accounts\<close>

lemma account_some: "accounts_wf ck v \<Longrightarrow> x \<in> set (ac_users v) \<Longrightarrow> account v (user_ID x) = Some x"
  by (auto simp: account_def accounts_wf_def filter_distinct_key find_filter_hd)

lemma account_in: "account v u = Some x \<Longrightarrow> x \<in> set (ac_users v) \<and> user_ID x = u"
  by (auto simp: account_def dest: find_Some_set)

lemma by_email_in: "by_email ck v e = Some x \<Longrightarrow> x \<in> set (ac_users v) \<and> ck (user_Email x) = ck e"
  by (auto simp: by_email_def dest: find_Some_set)

lemma by_username_in:
  "by_username ck v n = Some x \<Longrightarrow> x \<in> set (ac_users v) \<and> ck (user_Username x) = ck n"
  by (auto simp: by_username_def dest: find_Some_set)

lemma by_email_none: "by_email ck v e = None \<longleftrightarrow> (\<forall>x \<in> set (ac_users v). ck (user_Email x) \<noteq> ck e)"
  by (auto simp: by_email_def find_None_iff)

lemma by_username_none:
  "by_username ck v n = None \<longleftrightarrow> (\<forall>x \<in> set (ac_users v). ck (user_Username x) \<noteq> ck n)"
  by (auto simp: by_username_def find_None_iff)

lemma account_none: "account v u = None \<longleftrightarrow> (\<forall>x \<in> set (ac_users v). user_ID x \<noteq> u)"
  by (auto simp: account_def find_None_iff)

lemma found_simps [simp]:
  "found (Some x) v = (Ok x, v)" "found None v = (Err (Dom ErrUserNotFound), v)" "snd (found r v) = v"
  by (simp_all add: found_def split: option.split)

end
