(* ===== verification/PgUserSim.thy ===== *)
theory PgUserSim
  imports PgChatSim UserPort
begin

text \<open>
  The PostgreSQL user repository implements the user port: every method of storage/postgres/user.go
  simulates the abstract operation on accounts, on tables that satisfy \<open>pg_users_wf\<close>.
\<close>

section \<open>Integrity of the user table\<close>

abbreviation live :: "user_row \<Rightarrow> bool" where
  "live r \<equiv> uc_deleted_at r = None"

definition live_users :: "db \<Rightarrow> user_row list" where
  "live_users d = filter live (tb_users d)"

definition accounts_of :: "db \<Rightarrow> accounts" where
  "accounts_of d = \<lparr>ac_users = map user_of_row (live_users d), ac_ids = map uc_id (tb_users d)\<rparr>"

definition pg_users_wf :: "db \<Rightarrow> bool" where
  "pg_users_wf d \<longleftrightarrow> pg_wf d \<and>
     (\<forall>r \<in> set (tb_users d). first_violation (pg_user_checks r) = None) \<and>
     distinct (map uc_email (live_users d)) \<and> distinct (map uc_username (live_users d))"

abbreviation pg_accounts :: "world \<Rightarrow> accounts" where
  "pg_accounts \<equiv> \<lambda>w. accounts_of (w_db w)"

abbreviation pg_users_at :: "time \<Rightarrow> world \<Rightarrow> bool" where
  "pg_users_at \<equiv> table_inv pg_users_wf"

text \<open>Data that the table takes.\<close>

definition pg_user_ok :: "User \<Rightarrow> bool" where
  "pg_user_ok u \<longleftrightarrow> list_all pg_text [user_Username u, user_Email u, user_PasswordHash u,
       user_AvatarURL u, user_Bio u] \<and> valid_user_status (user_Status u) \<and>
     3 \<le> RuneCountInString (user_Username u) \<and> RuneCountInString (user_Username u) \<le> 50 \<and>
     list_all is_alnum_byte (user_Username u) \<and>
     user_Email u \<noteq> [] \<and> RuneCountInString (user_Email u) \<le> 255 \<and> RuneCountInString (user_Bio u) \<le> 500"

lemma user_of_row_columns [simp]:
  "user_Email (user_of_row r) = uc_email r" "user_Username (user_of_row r) = uc_username r"
  "user_PasswordHash (user_of_row r) = uc_password_hash r"
  by (simp_all add: user_of_row_def)

lemma accounts_of_frame [simp]:
  "accounts_of (d\<lparr>tb_chats := cs\<rparr>) = accounts_of d" "accounts_of (d\<lparr>tb_members := ms\<rparr>) = accounts_of d"
  "accounts_of (d\<lparr>tb_messages := gs\<rparr>) = accounts_of d" "accounts_of (d\<lparr>tb_receipts := rs\<rparr>) = accounts_of d"
  "accounts_of (d\<lparr>tb_reactions := xs\<rparr>) = accounts_of d"
  by (simp_all add: accounts_of_def live_users_def)

lemma live_users_set: "r \<in> set (live_users d) \<longleftrightarrow> r \<in> set (tb_users d) \<and> live r"
  by (auto simp: live_users_def)

lemma live_ids_distinct: "distinct (map uc_id (tb_users d)) \<Longrightarrow> distinct (map uc_id (live_users d))"
  by (simp add: live_users_def distinct_map_filter)

lemma pg_users_wfD:
  assumes "pg_users_wf d"
  shows "pg_wf d" "distinct (map uc_id (tb_users d))"
    "r \<in> set (tb_users d) \<Longrightarrow> uc_avatar_url r \<noteq> None \<and> uc_bio r \<noteq> None"
  using assms by (auto simp: pg_users_wf_def pg_wf_def db_wf_def)

lemma accounts_wf_pg: "pg_users_wf d \<Longrightarrow> accounts_wf id (accounts_of d)"
  using live_ids_distinct [of d]
  by (auto simp: pg_users_wf_def pg_wf_def db_wf_def accounts_wf_def accounts_of_def comp_def live_users_set)

section \<open>Reads\<close>

lemma find_live:
  "find P (ac_users (accounts_of d)) = map_option user_of_row (find (\<lambda>r. live r \<and> P (user_of_row r)) (tb_users d))"
  by (simp add: accounts_of_def live_users_def find_map find_filter comp_def)

lemma pg_scanUser_wf:
  assumes "pg_users_wf d" "r \<in> set (tb_users d)"
  shows "pg_scanUser r = Inr (user_of_row r)"
  using pg_users_wfD(3) [OF assms] by (auto simp: pg_scanUser_def user_of_row_def)

lemma pg_scanOne_sim:
  assumes P: "\<And>r. P r \<longleftrightarrow> Q (user_of_row r) \<and> live r"
  shows "simulates (pg_users_at t0) quiet pg_accounts (list_all pg_text params) id v
     (pg_user_scanOne params P) (found (find Q (ac_users v)))"
proof -
  have P': "P = (\<lambda>r. live r \<and> Q (user_of_row r))" by (intro ext) (auto simp: P)
  show ?thesis
  unfolding pg_user_scanOne_def pg_queryRow_def
proof (rule branch_stmt_sim)
  fix d t a d' w
  assume d: "pg_users_wf d" "accounts_of d = v"
    and f: "(if \<not> list_all pg_text params then Inl bad_encoding
      else case filter P (tb_users d) of [] \<Rightarrow> Inl ErrNoRows
        | r # rs \<Rightarrow> (case pg_scanUser r of Inl e \<Rightarrow> Inl e | Inr a \<Rightarrow> Inr (a, d))) = Inr (a, d')"
  then obtain r rs where r: "filter P (tb_users d) = r # rs" "pg_scanUser r = Inr a" "d' = d"
    by (auto split: if_splits list.splits sum.splits)
  from r(1) have "r \<in> set (filter P (tb_users d))" by simp
  then have "a = user_of_row r" using r(2) pg_scanUser_wf [OF d(1)] by auto
  moreover have "find (\<lambda>r. live r \<and> Q (user_of_row r)) (tb_users d) = Some r"
    using r(1) by (simp add: find_filter_hd P')
  ultimately show "pg_users_wf d' \<and> map_outcome id id (fst (ret a w)) = fst (found (find Q (ac_users v)) v) \<and>
      accounts_of d' = snd (found (find Q (ac_users v)) v)"
    using d r(3) by (auto simp: ret_def find_live)
next
  fix d t e w
  assume d: "pg_users_wf d" "accounts_of d = v"
    and f: "(if \<not> list_all pg_text params then Inl bad_encoding
      else case filter P (tb_users d) of [] \<Rightarrow> Inl ErrNoRows
        | r # rs \<Rightarrow> (case pg_scanUser r of Inl e \<Rightarrow> Inl e | Inr a \<Rightarrow> Inr (a, d))) = Inl e"
  show "map_outcome id id (fst ((if is_ErrNoRows (Db e) then throw (Dom ErrUserNotFound) else throw (Db e)) w)) =
        fst (found (find Q (ac_users v)) v) \<and> snd (found (find Q (ac_users v)) v) = v \<or>
      \<not> list_all pg_text params \<and>
        (\<exists>x. fst ((if is_ErrNoRows (Db e) then throw (Dom ErrUserNotFound) else throw (Db e)) w) = Err (Db x))"
  proof (cases "filter P (tb_users d)")
    case Nil
    then have "find (\<lambda>r. live r \<and> Q (user_of_row r)) (tb_users d) = None"
      by (simp add: find_None_iff_filter P')
    with Nil f d(2) show ?thesis
      by (auto simp: find_live throw_def bad_encoding_def split: if_splits)
  next
    case (Cons r rs)
    then have "r \<in> set (filter P (tb_users d))" by simp
    then have "r \<in> set (tb_users d)" by simp
    with f Cons pg_scanUser_wf [OF d(1), of r] show ?thesis
      by (auto simp: throw_def bad_encoding_def split: if_splits)
  qed
qed (simp_all add: ret_def throw_def fun_eq_iff)
qed

lemma pg_user_GetByID_accounts:
  "simulates (pg_users_at t0) quiet pg_accounts True id v (pg_user_GetByID uid) (found (account v uid))"
  using pg_scanOne_sim [of "\<lambda>r. uc_id r = uid \<and> live r" "\<lambda>x. user_ID x = uid" t0 "[]" v]
  by (simp add: pg_user_GetByID_def account_def)

lemma pg_user_GetByEmail_accounts:
  "simulates (pg_users_at t0) quiet pg_accounts (pg_text e) id v (pg_user_GetByEmail e) (found (by_email id v e))"
  using pg_scanOne_sim [of "\<lambda>r. uc_email r = e \<and> live r" "\<lambda>x. user_Email x = e" t0 "[e]" v]
  by (simp add: pg_user_GetByEmail_def by_email_def)

lemma pg_user_GetByUsername_accounts:
  "simulates (pg_users_at t0) quiet pg_accounts (pg_text n) id v (pg_user_GetByUsername n)
     (found (by_username id v n))"
  using pg_scanOne_sim [of "\<lambda>r. uc_username r = n \<and> live r" "\<lambda>x. user_Username x = n" t0 "[n]" v]
  by (simp add: pg_user_GetByUsername_def by_username_def)

section \<open>Writes\<close>

definition new_user_row :: "User \<Rightarrow> user_row" where
  "new_user_row u = \<lparr>uc_id = user_ID u, uc_username = user_Username u, uc_email = user_Email u,
     uc_password_hash = user_PasswordHash u, uc_avatar_url = Some (user_AvatarURL u),
     uc_bio = Some (user_Bio u), uc_status = user_Status u, uc_last_seen = user_LastSeen u,
     uc_created_at = user_CreatedAt u, uc_updated_at = user_UpdatedAt u, uc_deleted_at = None\<rparr>"

lemma new_user_row_simps [simp]:
  "user_of_row (new_user_row u) = u" "uc_id (new_user_row u) = user_ID u"
  "uc_email (new_user_row u) = user_Email u" "uc_username (new_user_row u) = user_Username u"
  "uc_avatar_url (new_user_row u) = Some (user_AvatarURL u)" "uc_bio (new_user_row u) = Some (user_Bio u)"
  "uc_deleted_at (new_user_row u) = None"
  by (simp_all add: new_user_row_def user_of_row_def)

lemma pg_user_checks_row:
  assumes "uc_avatar_url r \<noteq> None" "uc_bio r \<noteq> None"
  shows "first_violation (pg_user_checks r) = None \<longleftrightarrow> pg_user_ok (user_of_row r)"
  using assms by (auto simp: pg_user_checks_def pg_user_ok_def user_of_row_def not_less)

lemma other_has_email: "other_has user_Email u (accounts_of d) = email_used d (user_ID u) (user_Email u)"
  by (auto simp: other_has_def accounts_of_def live_users_def email_used_def)

lemma other_has_username:
  "other_has user_Username u (accounts_of d) = username_used d (user_ID u) (user_Username u)"
  by (auto simp: other_has_def accounts_of_def live_users_def username_used_def)

lemma violation_append:
  "first_violation (xs @ ys) = (case first_violation xs of None \<Rightarrow> first_violation ys | Some e \<Rightarrow> Some e)"
  by (induction xs rule: first_violation.induct) auto

lemma mapUser_unique [simp]:
  "mapUserConstraintErr (Db (unique_violation ''uidx_users_email'')) = Dom ErrEmailTaken"
  "mapUserConstraintErr (Db (unique_violation ''uidx_users_username'')) = Dom ErrUsernameTaken"
  "mapUserConstraintErr (Db (DriverErr s)) = Db (DriverErr s)"
  by (simp_all add: mapUserConstraintErr_def unique_violation_def)

lemma mapUser_checks:
  assumes "first_violation (pg_user_checks r) = Some e"
  shows "mapUserConstraintErr (Db e) = Db e"
  using assms
  by (auto simp: pg_user_checks_def mapUserConstraintErr_def bad_encoding_def bad_enum_def too_long_def
      check_violation_def split: if_splits)

lemma unique_free:
  assumes "user_ID u = uc_id r" "user_Email u = uc_email r" "user_Username u = uc_username r"
    and "first_violation (pg_user_uniques d r) = None"
  shows "unless_taken id u m (accounts_of d) = m (accounts_of d)"
  using assms
  by (auto simp: pg_user_uniques_def unless_taken_def other_has_email other_has_username split: if_splits)

lemma unique_taken:
  assumes "user_ID u = uc_id r" "user_Email u = uc_email r" "user_Username u = uc_username r"
    and "first_violation (pg_user_uniques d r) = Some e"
  obtains x where "mapUserConstraintErr (Db e) = Dom x"
    "\<And>m. unless_taken id u m (accounts_of d) = (Err (Dom x), accounts_of d)"
proof -
  have "mapUserConstraintErr (Db e) = Dom ErrEmailTaken \<and>
        (\<forall>m. unless_taken id u m (accounts_of d) = (Err (Dom ErrEmailTaken), accounts_of d)) \<or>
      mapUserConstraintErr (Db e) = Dom ErrUsernameTaken \<and>
        (\<forall>m. unless_taken id u m (accounts_of d) = (Err (Dom ErrUsernameTaken), accounts_of d))"
    using assms
    by (auto simp: pg_user_uniques_def unless_taken_def other_has_email other_has_username split: if_splits)
  then show ?thesis using that by blast
qed

lemma fresh_image: "y \<notin> f ` A \<longleftrightarrow> (\<forall>x \<in> A. f x \<noteq> y)"
  by blast

lemma pg_users_wf_add:
  assumes "pg_users_wf d" "user_ID u \<notin> set (map uc_id (tb_users d))" "pg_user_ok u"
    and "first_violation (pg_user_uniques d (new_user_row u)) = None"
  shows "pg_users_wf (d\<lparr>tb_users := tb_users d @ [new_user_row u]\<rparr>)"
proof -
  have "user_exists (d\<lparr>tb_users := tb_users d @ [new_user_row u]\<rparr>) x" if "user_exists d x" for x
    using that by (auto simp: user_exists_def)
  then have "db_wf (d\<lparr>tb_users := tb_users d @ [new_user_row u]\<rparr>)"
    using assms(1,2) by (auto simp: pg_users_wf_def pg_wf_def db_wf_def)
  moreover have free: "\<not> email_used d (user_ID u) (user_Email u)" "\<not> username_used d (user_ID u) (user_Username u)"
    using assms(4) by (auto simp: pg_user_uniques_def split: if_splits)
  have "uc_email r \<noteq> user_Email u \<and> uc_username r \<noteq> user_Username u" if r: "r \<in> set (live_users d)" for r
  proof -
    from r have "r \<in> set (tb_users d)" "live r" by (simp_all add: live_users_set)
    moreover from this have "uc_id r \<noteq> user_ID u" using assms(2) by (auto simp: fresh_image)
    ultimately show ?thesis using free unfolding email_used_def username_used_def by blast
  qed
  then have "user_Email u \<notin> set (map uc_email (live_users d))"
    "user_Username u \<notin> set (map uc_username (live_users d))"
    by (simp_all add: fresh_image)
  ultimately show ?thesis
    using assms(1,3) by (auto simp: pg_users_wf_def pg_wf_def live_users_def pg_user_checks_row)
qed

lemma pg_user_Create_accounts:
  assumes new: "user_ID u \<notin> set (ac_ids v)"
  shows "simulates (pg_users_at t0) quiet pg_accounts (pg_user_ok u) id v (pg_user_Create u) (sp_Create id u)"
  unfolding pg_user_Create_def db_exec_def new_user_row_def [symmetric] Let_def
proof (rule branch_stmt_sim)
  fix d t a d' w
  assume d: "pg_users_wf d" "accounts_of d = v"
    and f: "(case first_violation (pg_user_checks (new_user_row u) @
          [(user_exists d (uc_id (new_user_row u)), unique_violation ''users_pkey'')] @
          pg_user_uniques d (new_user_row u)) of None \<Rightarrow> Inr (1, d\<lparr>tb_users := tb_users d @ [new_user_row u]\<rparr>)
        | Some e \<Rightarrow> Inl e) = Inr (a, d')"
  then have ok: "pg_user_ok u" "first_violation (pg_user_uniques d (new_user_row u)) = None"
    and d': "d' = d\<lparr>tb_users := tb_users d @ [new_user_row u]\<rparr>"
    by (auto simp: violation_append pg_user_checks_row split: option.splits if_splits)
  from new d have "user_ID u \<notin> set (map uc_id (tb_users d))" by (auto simp: accounts_of_def)
  from pg_users_wf_add [OF d(1) this ok] ok(2) d(2) d'
    unique_free [where u = u and r = "new_user_row u" and d = d] show
    "pg_users_wf d' \<and> map_outcome id id (fst (ret () w)) = fst (sp_Create id u v) \<and>
      accounts_of d' = snd (sp_Create id u v)"
    by (auto simp: ret_def sp_Create_def accounts_of_def live_users_def)
next
  fix d t e w
  assume d: "pg_users_wf d" "accounts_of d = v"
    and f: "(case first_violation (pg_user_checks (new_user_row u) @
          [(user_exists d (uc_id (new_user_row u)), unique_violation ''users_pkey'')] @
          pg_user_uniques d (new_user_row u)) of None \<Rightarrow> Inr (1, d\<lparr>tb_users := tb_users d @ [new_user_row u]\<rparr>)
        | Some e \<Rightarrow> Inl e) = Inl e"
  from new d have id: "\<not> user_exists d (user_ID u)" by (auto simp: accounts_of_def user_exists_def fresh_image)
  show "map_outcome id id (fst (throw (mapUserConstraintErr (Db e)) w)) = fst (sp_Create id u v) \<and>
      snd (sp_Create id u v) = v \<or>
      \<not> pg_user_ok u \<and> (\<exists>x. fst (throw (mapUserConstraintErr (Db e)) w) = Err (Db x))"
  proof (cases "first_violation (pg_user_checks (new_user_row u))")
    case None
    with f id have "first_violation (pg_user_uniques d (new_user_row u)) = Some e"
      by (auto simp: violation_append split: option.splits)
    then obtain x where "mapUserConstraintErr (Db e) = Dom x"
      "\<And>m. unless_taken id u m (accounts_of d) = (Err (Dom x), accounts_of d)"
      by (rule unique_taken [of u, rotated 3]) simp_all
    with d(2) show ?thesis by (auto simp: throw_def sp_Create_def)
  next
    case (Some x)
    with f have "x = e" by (simp add: violation_append)
    with Some mapUser_checks [of "new_user_row u" e] pg_user_checks_row [of "new_user_row u"] show ?thesis
      by (auto simp: throw_def)
  qed
qed (simp_all add: ret_def throw_def fun_eq_iff)

text \<open>Rewriting the row of one user.\<close>

definition profile_row :: "User \<Rightarrow> user_row \<Rightarrow> user_row" where
  "profile_row u r = r\<lparr>uc_username := user_Username u, uc_email := user_Email u,
     uc_avatar_url := Some (user_AvatarURL u), uc_bio := Some (user_Bio u), uc_updated_at := user_UpdatedAt u\<rparr>"

definition set_row :: "uuid \<Rightarrow> (user_row \<Rightarrow> user_row) \<Rightarrow> db \<Rightarrow> db" where
  "set_row uid f d = d\<lparr>tb_users := map (\<lambda>r. if uc_id r = uid \<and> live r then f r else r) (tb_users d)\<rparr>"

definition keeps_row :: "(user_row \<Rightarrow> user_row) \<Rightarrow> bool" where
  "keeps_row f \<longleftrightarrow> (\<forall>r. uc_id (f r) = uc_id r \<and> uc_deleted_at (f r) = uc_deleted_at r)"

lemma live_users_set_row:
  "keeps_row f \<Longrightarrow> live_users (set_row uid f d) = map (\<lambda>r. if uc_id r = uid then f r else r) (live_users d)"
proof -
  assume f: "keeps_row f"
  have "filter live (map (\<lambda>r. if uc_id r = uid \<and> live r then f r else r) rs) =
      map (\<lambda>r. if uc_id r = uid then f r else r) (filter live rs)" for rs
    using f by (induction rs) (auto simp: keeps_row_def)
  then show ?thesis by (simp add: live_users_def set_row_def)
qed

lemma user_exists_ids: "user_exists d x \<longleftrightarrow> x \<in> set (map uc_id (tb_users d))"
  by (auto simp: user_exists_def)

lemma accounts_of_set_row:
  assumes "keeps_row f" "\<And>r. user_of_row (f r) = g (user_of_row r)"
  shows "accounts_of (set_row uid f d) = change_user uid g (accounts_of d)"
proof -
  have "map uc_id (tb_users (set_row uid f d)) = map uc_id (tb_users d)"
    using assms(1) by (simp add: set_row_def keeps_row_def)
  with assms show ?thesis
    by (simp add: accounts_of_def live_users_set_row change_user_def assms(2) if_distrib [of user_of_row])
qed

lemma distinct_set_key:
  assumes "distinct (map key xs)" "distinct (map idf xs)" "\<And>r. r \<in> set xs \<Longrightarrow> idf r \<noteq> k \<Longrightarrow> key r \<noteq> x"
  shows "distinct (map (\<lambda>r. if idf r = k then x else key r) xs)"
  using assms by (induction xs) (auto simp: image_iff)

lemma pg_users_wf_set_row:
  assumes d: "pg_users_wf d" and f: "keeps_row f"
    and row: "\<And>r. r \<in> set (tb_users d) \<Longrightarrow> uc_id r = uid \<Longrightarrow> live r \<Longrightarrow>
        uc_avatar_url (f r) \<noteq> None \<and> uc_bio (f r) \<noteq> None \<and> pg_user_ok (user_of_row (f r)) \<and>
        first_violation (pg_user_uniques d (f r)) = None"
  shows "pg_users_wf (set_row uid f d)"
proof -
  let ?d = "set_row uid f d"
  have ids: "map uc_id (tb_users ?d) = map uc_id (tb_users d)"
    using f by (simp add: set_row_def keeps_row_def)
  have "user_exists ?d x = user_exists d x" for x
    by (simp only: user_exists_ids ids)
  moreover have "chat_exists ?d c = chat_exists d c" for c by (simp add: set_row_def)
  ultimately have "db_wf ?d"
    using d ids by (simp add: pg_users_wf_def pg_wf_def db_wf_def) (simp add: set_row_def)
  moreover have "\<forall>r \<in> set (tb_users ?d). uc_avatar_url r \<noteq> None \<and> uc_bio r \<noteq> None \<and>
      first_violation (pg_user_checks r) = None"
    using d row by (auto simp: set_row_def pg_users_wf_def pg_wf_def pg_user_checks_row)
  moreover have dist: "distinct (map key (live_users ?d))"
    if "distinct (map key (live_users d))"
      "\<And>r x. r \<in> set (live_users d) \<Longrightarrow> uc_id r = uid \<Longrightarrow> x \<in> set (live_users d) \<Longrightarrow> uc_id x \<noteq> uid \<Longrightarrow>
          key x \<noteq> key (f r)" for key :: "user_row \<Rightarrow> string"
  proof (cases "\<exists>r \<in> set (live_users d). uc_id r = uid")
    case True
    then obtain r0 where r0: "r0 \<in> set (live_users d)" "uc_id r0 = uid" by blast
    have "distinct (map uc_id (live_users d))" by (rule live_ids_distinct) (rule pg_users_wfD(2) [OF d])
    then have one: "r = r0" if "r \<in> set (live_users d)" "uc_id r = uid" for r
      using that r0 by (auto intro: distinct_map_inj)
    have "map key (live_users ?d) = map (\<lambda>r. if uc_id r = uid then key (f r0) else key r) (live_users d)"
      using one by (simp add: live_users_set_row [OF f])
    with distinct_set_key [OF that(1) \<open>distinct (map uc_id (live_users d))\<close>, of uid "key (f r0)"] that(2) r0
    show ?thesis by simp
  next
    case False
    then have "live_users ?d = live_users d"
      by (auto simp: live_users_set_row [OF f] intro: map_idI)
    with that(1) show ?thesis by simp
  qed
  moreover have "distinct (map uc_email (live_users ?d))" "distinct (map uc_username (live_users ?d))"
  proof -
    have free: "uc_email x \<noteq> uc_email (f r) \<and> uc_username x \<noteq> uc_username (f r)"
      if "r \<in> set (live_users d)" "uc_id r = uid" "x \<in> set (live_users d)" "uc_id x \<noteq> uid" for r x
      using row [of r] that f
      by (auto simp: pg_user_uniques_def email_used_def username_used_def live_users_set keeps_row_def
          split: if_splits)
    show "distinct (map uc_email (live_users ?d))" "distinct (map uc_username (live_users ?d))"
      using d free by (auto simp: pg_users_wf_def intro!: dist)
  qed
  ultimately show ?thesis
    using d by (simp add: pg_users_wf_def pg_wf_def) (simp add: set_row_def)
qed

lemma profile_row_simps [simp]:
  "keeps_row (profile_row u)" "user_of_row (profile_row u r) = with_profile u (user_of_row r)"
  "uc_id (profile_row u r) = uc_id r" "uc_email (profile_row u r) = user_Email u"
  "uc_username (profile_row u r) = user_Username u"
  "uc_avatar_url (profile_row u r) = Some (user_AvatarURL u)" "uc_bio (profile_row u r) = Some (user_Bio u)"
  by (simp_all add: keeps_row_def profile_row_def user_of_row_def with_profile_def)

lemma filter_id_live:
  assumes "distinct (map uc_id rs)"
  shows "filter (\<lambda>r. uc_id r = uid \<and> live r) rs =
     (case find (\<lambda>r. uc_id r = uid \<and> live r) rs of None \<Rightarrow> [] | Some r \<Rightarrow> [r])"
  using assms
proof (induction rs)
  case (Cons r rs)
  then have "filter (\<lambda>x. uc_id x = uid \<and> live x) rs = []" if "uc_id r = uid"
    using that by (auto simp: filter_empty_conv fresh_image)
  with Cons show ?case by auto
qed simp

lemma account_row:
  "account (accounts_of d) uid = map_option user_of_row (find (\<lambda>r. uc_id r = uid \<and> live r) (tb_users d))"
  by (simp add: account_def find_live conj_commute)

lemma pg_profile_ok:
  "pg_user_ok u \<Longrightarrow> pg_user_ok x \<Longrightarrow> pg_user_ok (with_profile u x)"
  by (simp add: pg_user_ok_def with_profile_def)

definition row_of :: "db \<Rightarrow> uuid \<Rightarrow> user_row option" where
  "row_of d uid = find (\<lambda>r. uc_id r = uid \<and> live r) (tb_users d)"

lemma row_of_in: "row_of d uid = Some r \<Longrightarrow> r \<in> set (tb_users d) \<and> uc_id r = uid \<and> live r"
  by (auto simp: row_of_def dest: find_Some_set)

lemma rows_of_id:
  "pg_users_wf d \<Longrightarrow> filter (\<lambda>r. uc_id r = uid \<and> live r) (tb_users d) =
     (case row_of d uid of None \<Rightarrow> [] | Some r \<Rightarrow> [r])"
  unfolding row_of_def by (rule filter_id_live) (rule pg_users_wfD(2))

definition profile_checks :: "User \<Rightarrow> db \<Rightarrow> (bool \<times> db_error) list" where
  "profile_checks u d =
     (\<not> (pg_text (user_Username u) \<and> pg_text (user_Email u) \<and> pg_text (user_AvatarURL u)
        \<and> pg_text (user_Bio u)), bad_encoding)
     # concat (map (\<lambda>r. pg_user_checks (profile_row u r) @ pg_user_uniques d (profile_row u r))
         (filter (\<lambda>r. uc_id r = user_ID u \<and> live r) (tb_users d)))"

lemma profile_checks_run:
  assumes "pg_users_wf d"
  shows "row_of d (user_ID u) = None \<Longrightarrow> pg_user_ok u \<Longrightarrow> first_violation (profile_checks u d) = None"
    and "row_of d (user_ID u) = None \<Longrightarrow> first_violation (profile_checks u d) = Some e \<Longrightarrow> e = bad_encoding"
    and "row_of d (user_ID u) = Some r \<Longrightarrow> first_violation (profile_checks u d) = None \<Longrightarrow>
      pg_user_ok (with_profile u (user_of_row r)) \<and> first_violation (pg_user_uniques d (profile_row u r)) = None"
    and "row_of d (user_ID u) = Some r \<Longrightarrow> first_violation (profile_checks u d) = Some e \<Longrightarrow>
      mapUserConstraintErr (Db e) = Db e \<and> \<not> pg_user_ok u \<or> first_violation (pg_user_uniques d (profile_row u r)) = Some e"
proof -
  note rows = rows_of_id [OF assms, of "user_ID u"]
  show "first_violation (profile_checks u d) = None" if "row_of d (user_ID u) = None" "pg_user_ok u"
    using that by (simp add: profile_checks_def rows pg_user_ok_def)
  show "e = bad_encoding" if "row_of d (user_ID u) = None" "first_violation (profile_checks u d) = Some e"
    using that by (simp add: profile_checks_def rows split: if_splits)
  show "pg_user_ok (with_profile u (user_of_row r)) \<and> first_violation (pg_user_uniques d (profile_row u r)) = None"
    if "row_of d (user_ID u) = Some r" "first_violation (profile_checks u d) = None"
    using that by (simp add: profile_checks_def rows violation_append pg_user_checks_row
        split: if_splits option.splits)
  assume r: "row_of d (user_ID u) = Some r" and e: "first_violation (profile_checks u d) = Some e"
  have ok: "pg_user_ok (user_of_row r)"
    using row_of_in [OF r] assms pg_users_wfD(3) [OF assms, of r]
    by (auto simp: pg_users_wf_def simp flip: pg_user_checks_row)
  show "mapUserConstraintErr (Db e) = Db e \<and> \<not> pg_user_ok u \<or>
      first_violation (pg_user_uniques d (profile_row u r)) = Some e"
  proof (cases "first_violation (pg_user_checks (profile_row u r))")
    case None
    with e show ?thesis
      by (auto simp: profile_checks_def rows r violation_append pg_user_ok_def mapUserConstraintErr_def
          bad_encoding_def split: if_splits)
  next
    case (Some x)
    with ok pg_profile_ok [of u "user_of_row r"] have "\<not> pg_user_ok u"
      using pg_user_checks_row [of "profile_row u r"] by auto
    moreover from e Some have "e = bad_encoding \<or> e = x"
      by (auto simp: profile_checks_def rows r violation_append split: if_splits)
    ultimately show ?thesis using mapUser_checks [OF Some]
      by (auto simp: mapUserConstraintErr_def bad_encoding_def)
  qed
qed

lemma profile_written:
  assumes d: "pg_users_wf d" and none: "first_violation (profile_checks u d) = None"
    and r: "uc_id r = user_ID u \<and> live r" "r \<in> set (tb_users d)"
  shows "pg_user_ok (with_profile u (user_of_row r)) \<and> first_violation (pg_user_uniques d (profile_row u r)) = None"
proof -
  from r have "r \<in> set (filter (\<lambda>r. uc_id r = user_ID u \<and> live r) (tb_users d))" by simp
  with rows_of_id [OF d, of "user_ID u"] have "row_of d (user_ID u) = Some r" by (auto split: option.splits)
  then show ?thesis by (rule profile_checks_run(3) [OF d _ none])
qed

lemma pg_user_Update_accounts:
  "simulates (pg_users_at t0) quiet pg_accounts (pg_user_ok u) id v (pg_user_Update u) (sp_UpdateUser id u)"
  unfolding pg_user_Update_def db_exec_def Let_def sql_update_def prod.case profile_row_def [symmetric]
    profile_checks_def [symmetric]
proof (rule branch_stmt_sim)
  fix d t a d' w
  let ?P = "\<lambda>r. uc_id r = user_ID u \<and> live r"
  assume d: "pg_users_wf d" "accounts_of d = v"
    and f: "(case first_violation (profile_checks u d) of
        None \<Rightarrow> Inr (length (filter ?P (tb_users d)),
          d\<lparr>tb_users := map (\<lambda>r. if ?P r then profile_row u r else r) (tb_users d)\<rparr>)
      | Some e \<Rightarrow> Inl e) = Inr (a, d')"
  then have d': "d' = set_row (user_ID u) (profile_row u) d" "a = length (filter ?P (tb_users d))"
    and none: "first_violation (profile_checks u d) = None"
    by (auto simp: set_row_def split: option.splits)
  note rows = rows_of_id [OF d(1), of "user_ID u"]
  note row = profile_written [OF d(1) none]
  then have wf: "pg_users_wf d'"
    unfolding d' by (intro pg_users_wf_set_row [OF d(1)]) auto
  show "pg_users_wf d' \<and>
      map_outcome id id (fst ((if a = 0 then throw (Dom ErrUserNotFound) else ret ()) w)) =
        fst (sp_UpdateUser id u v) \<and> accounts_of d' = snd (sp_UpdateUser id u v)"
  proof (cases "row_of d (user_ID u)")
    case None
    then have "map (\<lambda>r. if ?P r then profile_row u r else r) (tb_users d) = tb_users d"
      by (auto simp: row_of_def find_None_iff intro!: map_idI)
    then have "set_row (user_ID u) (profile_row u) d = d" by (simp add: set_row_def)
    with None rows wf d d' show ?thesis
      by (simp add: sp_UpdateUser_def throw_def account_row row_of_def flip: d(2))
  next
    case (Some r)
    with row row_of_in [OF Some]
    have "unless_taken id u (\<lambda>v. (Ok (), change_user (user_ID u) (with_profile u) v)) (accounts_of d) =
        (Ok (), change_user (user_ID u) (with_profile u) (accounts_of d))"
      by (intro unique_free [where r = "profile_row u r"]) auto
    with Some rows wf d d' show ?thesis
      by (simp add: sp_UpdateUser_def ret_def account_row accounts_of_set_row row_of_def flip: d(2))
  qed
next
  fix d t e w
  assume d: "pg_users_wf d" "accounts_of d = v"
    and f: "(case first_violation (profile_checks u d) of
        None \<Rightarrow> Inr (length (filter (\<lambda>r. uc_id r = user_ID u \<and> live r) (tb_users d)),
          d\<lparr>tb_users := map (\<lambda>r. if uc_id r = user_ID u \<and> live r then profile_row u r else r) (tb_users d)\<rparr>)
      | Some e \<Rightarrow> Inl e) = Inl e"
  then have e: "first_violation (profile_checks u d) = Some e" by (auto split: option.splits)
  show "map_outcome id id (fst (throw (mapUserConstraintErr (Db e)) w)) = fst (sp_UpdateUser id u v) \<and>
      snd (sp_UpdateUser id u v) = v \<or>
      \<not> pg_user_ok u \<and> (\<exists>x. fst (throw (mapUserConstraintErr (Db e)) w) = Err (Db x))"
  proof (cases "row_of d (user_ID u)")
    case None
    with profile_checks_run(1,2) [OF d(1) None] e show ?thesis
      by (auto simp: throw_def mapUserConstraintErr_def bad_encoding_def)
  next
    case (Some r)
    from profile_checks_run(4) [OF d(1) Some e] show ?thesis
    proof
      assume "first_violation (pg_user_uniques d (profile_row u r)) = Some e"
      then obtain x where "mapUserConstraintErr (Db e) = Dom x"
        "\<And>m. unless_taken id u m (accounts_of d) = (Err (Dom x), accounts_of d)"
        by (rule unique_taken [of u, rotated 3]) (use row_of_in [OF Some] in simp_all)
      with d(2) Some show ?thesis by (auto simp: throw_def sp_UpdateUser_def account_row row_of_def)
    qed (simp add: throw_def)
  qed
qed (simp_all add: ret_def throw_def fun_eq_iff)

definition status_row :: "UserStatus \<Rightarrow> time \<Rightarrow> time \<Rightarrow> user_row \<Rightarrow> user_row" where
  "status_row status seen now r = r\<lparr>uc_status := status, uc_last_seen := seen, uc_updated_at := now\<rparr>"

lemma status_row_simps [simp]:
  "keeps_row (status_row st seen now)"
  "user_of_row (status_row st seen now r) =
     (user_of_row r)\<lparr>user_Status := st, user_LastSeen := seen, user_UpdatedAt := now\<rparr>"
  "uc_id (status_row st seen now r) = uc_id r" "uc_email (status_row st seen now r) = uc_email r"
  "uc_username (status_row st seen now r) = uc_username r"
  "uc_avatar_url (status_row st seen now r) = uc_avatar_url r" "uc_bio (status_row st seen now r) = uc_bio r"
  by (simp_all add: keeps_row_def status_row_def user_of_row_def)

lemma stored_unique:
  assumes "pg_users_wf d" "r \<in> set (tb_users d)" "live r"
  shows "first_violation (pg_user_uniques d (status_row st seen now r)) = None"
proof -
  from assms have "distinct (map uc_email (live_users d))" "distinct (map uc_username (live_users d))"
    by (auto simp: pg_users_wf_def)
  moreover have r: "r \<in> set (live_users d)" using assms by (simp add: live_users_set)
  ultimately have "x = r" if "x \<in> set (live_users d)" "uc_email x = uc_email r \<or> uc_username x = uc_username r" for x
    using that by (metis distinct_map_inj)
  then have "\<not> email_used d (uc_id r) (uc_email r)" "\<not> username_used d (uc_id r) (uc_username r)"
    unfolding email_used_def username_used_def live_users_set by blast+
  then show ?thesis by (simp add: pg_user_uniques_def)
qed

lemma pg_user_UpdateStatus_accounts:
  assumes "status \<in> {UserStatusOnline, UserStatusOffline}" "pg_users_at t0 w" "pg_accounts w = v"
  shows "\<exists>now. sim_at (pg_users_at t0) quiet pg_accounts True id v (pg_user_UpdateStatus uid status seen)
     (sp_UpdateStatus uid status seen now) w"
proof -
  let ?f = "\<lambda>now d. let (n, rs) = sql_update (\<lambda>r. uc_id r = uid \<and> live r)
      (\<lambda>r. r\<lparr>uc_status := status, uc_last_seen := seen, uc_updated_at := now\<rparr>) (tb_users d)
    in if \<not> valid_user_status status then Inl bad_enum else Inr (n, d\<lparr>tb_users := rs\<rparr>)"
  have valid: "valid_user_status status"
    using assms(1) by (auto simp: valid_user_status_def UserStatusOnline_def UserStatusOffline_def)
  have f: "?f now d = Inr (length (filter (\<lambda>r. uc_id r = uid \<and> live r) (tb_users d)),
      set_row uid (status_row status seen now) d)" for now d
    using valid by (simp add: sql_update_def set_row_def status_row_def)
  from assms(2) have d: "pg_users_wf (w_db w)" by (simp add: table_inv_def)
  have ok: "pg_user_ok (user_of_row r)" if "r \<in> set (tb_users (w_db w))" for r
    using that d pg_users_wfD(3) [OF d that] by (auto simp: pg_users_wf_def simp flip: pg_user_checks_row)
  have wf: "pg_users_wf (set_row uid (status_row status seen now) (w_db w))" for now
    using d ok valid pg_users_wfD(3) [OF d] stored_unique [OF d]
    by (intro pg_users_wf_set_row) (auto simp: pg_user_ok_def)
  show ?thesis
    unfolding pg_user_UpdateStatus_def db_exec_def
  proof (cases rule: db_stmt_cases [of w ?f])
    case (fault e)
    with assms(2,3) show "\<exists>now. sim_at (pg_users_at t0) quiet pg_accounts True id v
        (call (db_stmt ?f) (\<lambda>_. ret ())) (sp_UpdateStatus uid status seen now) w"
      by (auto simp: sim_at_def call_def branch_def throw_def)
  next
    case (error e t)
    with f show "\<exists>now. sim_at (pg_users_at t0) quiet pg_accounts True id v
        (call (db_stmt ?f) (\<lambda>_. ret ())) (sp_UpdateStatus uid status seen now) w"
      by simp
  next
    case (ok a d t)
    with f have "d = set_row uid (status_row status seen t) (w_db w)" by simp
    with ok wf assms(2,3) show "\<exists>now. sim_at (pg_users_at t0) quiet pg_accounts True id v
        (call (db_stmt ?f) (\<lambda>_. ret ())) (sp_UpdateStatus uid status seen now) w"
      by (intro exI [of _ t]) (auto simp: sim_at_def call_def branch_def ret_def sp_UpdateStatus_def
          accounts_of_set_row [where g = "\<lambda>x. x\<lparr>user_Status := status, user_LastSeen := seen, user_UpdatedAt := t\<rparr>"])
  qed
qed

lemma pg_user_Delete_accounts:
  "simulates (pg_users_at t0) quiet pg_accounts True id v (pg_user_Delete uid) (sp_DeleteUser uid)"
  unfolding pg_user_Delete_def db_exec_def call_def
proof (rule branch_stmt_sim)
  fix d t a d' w
  assume d: "pg_users_wf d" "accounts_of d = v"
    and f: "(let (n, rs) = sql_update (\<lambda>r. uc_id r = uid \<and> live r) (\<lambda>r. r\<lparr>uc_deleted_at := Some t\<rparr>) (tb_users d)
      in Inr (n, d\<lparr>tb_users := rs\<rparr>)) = Inr (a, d')"
  let ?upd = "map (\<lambda>r. if uc_id r = uid \<and> live r then r\<lparr>uc_deleted_at := Some t\<rparr> else r)"
  from f have d': "d' = d\<lparr>tb_users := ?upd (tb_users d)\<rparr>" by (simp add: sql_update_def)
  have "filter live (?upd rs) = filter (\<lambda>r. uc_id r \<noteq> uid) (filter live rs)" for rs
    by (induction rs) auto
  then have lv: "live_users d' = filter (\<lambda>r. uc_id r \<noteq> uid) (live_users d)"
    by (simp add: live_users_def d')
  have ids: "map uc_id (tb_users d') = map uc_id (tb_users d)" by (auto simp: d')
  then have "user_exists d' x = user_exists d x" for x by (simp only: user_exists_ids)
  moreover have "chat_exists d' c = chat_exists d c" for c by (simp add: d')
  ultimately have "db_wf d'"
    using d(1) ids by (simp add: pg_users_wf_def pg_wf_def db_wf_def) (simp add: d')
  moreover have "pg_user_checks (r\<lparr>uc_deleted_at := Some t\<rparr>) = pg_user_checks r" for r
    by (simp add: pg_user_checks_def)
  ultimately have "pg_users_wf d'"
    using d(1) lv by (auto simp: pg_users_wf_def pg_wf_def d' distinct_map_filter)
  moreover have "accounts_of d' = v\<lparr>ac_users := filter (\<lambda>x. user_ID x \<noteq> uid) (ac_users v)\<rparr>"
    using d(2) lv ids by (auto simp: accounts_of_def filter_map comp_def)
  ultimately show "pg_users_wf d' \<and> map_outcome id id (fst (ret () w)) = fst (sp_DeleteUser uid v) \<and>
      accounts_of d' = snd (sp_DeleteUser uid v)"
    by (simp add: ret_def sp_DeleteUser_def)
qed (simp_all add: ret_def throw_def fun_eq_iff sql_update_def)

section \<open>The port\<close>

interpretation pg_users: user_port "pg_NewUserRepository lc coll" "pg_users_at t0" quiet pg_accounts id
    pg_text pg_user_ok
  by unfold_locales
    (simp_all add: pg_NewUserRepository_def pg_user_GetByID_accounts pg_user_GetByEmail_accounts
      pg_user_GetByUsername_accounts pg_user_Create_accounts pg_user_Update_accounts
      pg_user_UpdateStatus_accounts pg_user_Delete_accounts table_inv_def accounts_wf_pg)

end
