(* ===== verification/PgText.thy ===== *)
theory PgText
  imports PgUserSim
begin

text \<open>
  Texts that pass the validation of usernames and emails are texts that PostgreSQL stores: they are
  valid UTF-8 without NUL, and a username has the form that the column's check asks for.
\<close>

section \<open>Runes and bytes\<close>

lemma seq_len_cases:
  obtains "b < 0x80" "seq_len b = 1" | "0x80 \<le> b" "seq_len b = 0"
  | "0xC2 \<le> b" "seq_len b = 2" | "0xE0 \<le> b" "seq_len b = 3" | "0xF0 \<le> b" "seq_len b = 4"
  by (cases "b < 0x80"; cases "b < 0xC2"; cases "b < 0xE0"; cases "b < 0xF0"; cases "b < 0xF5")
    (auto simp: seq_len_def)

lemma second_range: "second_lo b \<le> c \<Longrightarrow> 0x80 \<le> c"
  by (simp add: second_lo_def split: if_splits)

lemma decode_rune_bytes:
  assumes "bs \<noteq> []" "decode_rune bs \<noteq> (RuneError, 1)" "x \<in> set (take (snd (decode_rune bs)) bs)"
  shows "x = fst (decode_rune bs) \<and> snd (decode_rune bs) = 1 \<or> 0x80 \<le> x"
proof (cases bs)
  case (Cons b cs)
  show ?thesis
    using assms(2,3) unfolding Cons
    by (cases rule: seq_len_cases [of b]; cases cs; cases "tl cs"; cases "tl (tl cs)")
      (auto simp: is_cont_def dest: second_range split: if_splits)
qed (use assms(1) in simp)

lemma decode_rune_small:
  assumes "bs \<noteq> []" "fst (decode_rune bs) < 0x80"
  shows "snd (decode_rune bs) = 1 \<and> fst (decode_rune bs) = hd bs"
  using assms
  by (cases bs) (auto simp: seq_len_def second_lo_def second_hi_def is_cont_def RuneError_def
      split: if_splits list.splits)

lemma valid_bytes_runes: "RuneError \<notin> set (decode_runes bs) \<Longrightarrow> valid_bytes bs"
proof (induction bs rule: decode_runes.induct)
  case (1 bs)
  then show ?case
    by (cases "bs = []") (auto simp: decode_runes.simps [of bs] valid_bytes.simps [of bs])
qed

lemma nul_bytes_runes: "0 \<notin> set (decode_runes bs) \<Longrightarrow> valid_bytes bs \<Longrightarrow> 0 \<notin> set bs"
proof (induction bs rule: decode_runes.induct)
  case (1 bs)
  show ?case
  proof (cases "bs = []")
    case False
    let ?n = "snd (decode_rune bs)"
    from 1 False have "0 \<notin> set (drop ?n bs)"
      by (simp add: decode_runes.simps [of bs] valid_bytes.simps [of bs] split: if_splits)
    moreover have "0 \<notin> set (take ?n bs)"
      using decode_rune_bytes [OF False, of 0] 1(2,3) False
      by (auto simp: decode_runes.simps [of bs] valid_bytes.simps [of bs] split: if_splits)
    ultimately show ?thesis
      using set_append [of "take ?n bs" "drop ?n bs"] by simp
  qed simp
qed

lemma ascii_runes: "(\<forall>c \<in> set (decode_runes bs). c < 0x80) \<Longrightarrow> decode_runes bs = bs"
proof (induction bs rule: decode_runes.induct)
  case (1 bs)
  show ?case
  proof (cases "bs = []")
    case False
    from 1(2) False have small: "fst (decode_rune bs) < 0x80"
      and rest: "\<forall>c \<in> set (decode_runes (drop (snd (decode_rune bs)) bs)). c < 0x80"
      by (simp_all add: decode_runes.simps [of bs])
    with decode_rune_small [OF False small] 1(1) [OF False] False show ?thesis
      by (cases bs) (simp_all add: decode_runes.simps [of "_ # _"])
  qed simp
qed

lemma pg_text_runes:
  assumes "RuneError \<notin> set (runes s)" "0 \<notin> set (runes s)"
  shows "pg_text s"
proof -
  have "valid_bytes (bytes_of s)" using assms(1) by (simp add: runes_def valid_bytes_runes)
  moreover from this have "0 \<notin> set (bytes_of s)" using assms(2) by (simp add: runes_def nul_bytes_runes)
  ultimately show ?thesis by (force simp: pg_text_def ValidString_def bytes_of_def)
qed

section \<open>Validated texts\<close>

lemma username_alnum: "IsAlphanumeric n \<Longrightarrow> list_all is_alnum_byte n"
proof -
  assume n: "IsAlphanumeric n"
  then have "\<forall>c \<in> set (decode_runes (bytes_of n)). c < 0x80"
    by (auto simp: IsAlphanumeric_iff runes_def lower_az_def upper_az_def digit09_def list_all_iff)
  then have runes: "runes n = bytes_of n" unfolding runes_def by (rule ascii_runes)
  have "is_alnum_byte c" if "c \<in> set n" for c
  proof -
    from that have "of_char c \<in> set (runes n)" by (simp add: runes bytes_of_def)
    with n have "lower_az (of_char c) \<or> upper_az (of_char c) \<or> digit09 (of_char c)"
      unfolding IsAlphanumeric_iff list_all_iff by blast
    then show ?thesis
      unfolding lower_az_def upper_az_def digit09_def is_alnum_byte_def Let_def by blast
  qed
  then show ?thesis by (simp add: list_all_iff)
qed

lemma username_text: "IsAlphanumeric n \<Longrightarrow> pg_text n"
  by (rule pg_text_runes) (auto simp: IsAlphanumeric_iff list_all_iff lower_az_def upper_az_def digit09_def RuneError_def)

lemma lang_list_all:
  "cs \<in> lang (RSeq a b) \<Longrightarrow> (\<And>u. u \<in> lang a \<Longrightarrow> list_all p u) \<Longrightarrow> (\<And>u. u \<in> lang b \<Longrightarrow> list_all p u) \<Longrightarrow>
     list_all p cs"
  by auto

lemma lang_RLit: "lang (RLit cs) = {cs}"
  by (induction cs) auto

definition email_rune :: "nat \<Rightarrow> bool" where
  "email_rune c \<longleftrightarrow> c \<noteq> 0 \<and> c \<noteq> RuneError"

lemma email_runes: "IsEmail e \<Longrightarrow> list_all email_rune (runes e)"
  unfolding IsEmail_def re_match_lang emailRe_def
  by (elim lang_list_all)
    (auto simp: lang_RPlus_RCls lang_RLit email_rune_def fold_az_def lower_az_def upper_az_def digit09_def
      ascii_of_def RuneError_def elim!: list.pred_mono_strong)

lemma email_text: "IsEmail e \<Longrightarrow> pg_text e \<and> e \<noteq> []"
proof -
  assume e: "IsEmail e"
  have "e \<noteq> []"
  proof
    assume "e = []"
    with e have "re_match emailRe []" by (simp add: IsEmail_def runes_def bytes_of_def)
    then show False by (simp add: re_match_def emailRe_def RPlus_def)
  qed
  with email_runes [OF e] show ?thesis
    by (intro conjI pg_text_runes) (auto simp: email_rune_def list_all_iff)
qed

lemma email_NonEmpty: "IsEmail e \<Longrightarrow> NonEmpty e"
proof -
  assume "IsEmail e"
  then have "64 \<in> set (runes e)"
    by (auto simp: IsEmail_def re_match_lang emailRe_def lang_RLit ascii_of_def)
  moreover have "\<not> IsSpace 64" by (simp add: IsSpace_def)
  ultimately show ?thesis by (auto simp: NonEmpty_def TrimSpace_runes_Nil_iff)
qed

end
