(* ===== verification/UserSpec.thy ===== *)
theory UserSpec
  imports UserPort
begin

text \<open>
  The user use cases over any store that implements the user port: what a run of Register, Login,
  RefreshToken and UpdateProfile does to the accounts, whatever statements fail.  The hasher and the
  token manager are a second interface, \<open>credentials\<close>: they do not touch the accounts.
\<close>

section \<open>Postconditions of a run\<close>

definition run_post :: "('w, 'a) io \<Rightarrow> 'w \<Rightarrow> ((goerr, 'a) outcome \<Rightarrow> 'w \<Rightarrow> bool) \<Rightarrow> bool" where
  "run_post m w Q \<longleftrightarrow> Q (fst (m w)) (snd (m w))"

lemma post_ret [simp]: "run_post (ret a) w Q = Q (Ok a) w"
  by (simp add: run_post_def ret_def)

lemma post_throw [simp]: "run_post (throw e) w Q = Q (Err e) w"
  by (simp add: run_post_def throw_def)

definition on_ok :: "('a \<Rightarrow> 'w \<Rightarrow> bool) \<Rightarrow> ((goerr, 'b) outcome \<Rightarrow> 'w \<Rightarrow> bool) \<Rightarrow> (goerr \<Rightarrow> 'w \<Rightarrow> bool) \<Rightarrow>
    (goerr, 'a) outcome \<Rightarrow> 'w \<Rightarrow> bool" where
  "on_ok K Q H r w = (case r of Ok a \<Rightarrow> K a w | Err e \<Rightarrow> H e w | Panic s \<Rightarrow> Q (Panic s) w)"

lemma on_ok_simps [simp]:
  "on_ok K Q H (Ok a) w = K a w" "on_ok K Q H (Err e) w = H e w" "on_ok K Q H (Panic s) w = Q (Panic s) w"
  by (simp_all add: on_ok_def)

lemma post_branch:
  "run_post m w (on_ok (\<lambda>a w'. run_post (k a) w' Q) Q (\<lambda>e w'. run_post (h e) w' Q)) \<Longrightarrow>
     run_post (branch m k h) w Q"
  by (cases "fst (m w)") (simp_all add: run_post_def branch_def)

lemma post_call:
  "run_post m w (on_ok (\<lambda>a w'. run_post (k a) w' Q) Q (\<lambda>e. Q (Err e))) \<Longrightarrow> run_post (call m k) w Q"
  unfolding call_def by (rule post_branch) simp

lemma post_mono: "run_post m w P \<Longrightarrow> (\<And>r w'. P r w' \<Longrightarrow> Q r w') \<Longrightarrow> run_post m w Q"
  by (simp add: run_post_def)

lemma post_ignore_err:
  "run_post m w (on_ok (\<lambda>_. Q (Ok ())) Q (\<lambda>_. Q (Ok ()))) \<Longrightarrow> run_post (ignore_err m) w Q"
  unfolding ignore_err_def by (rule post_branch) simp

lemma post_sim:
  assumes "sim_at I qt view ok id v m aop w"
    and "\<And>w'. I w' \<Longrightarrow> (qt w \<Longrightarrow> qt w') \<Longrightarrow> view w' = snd (aop v) \<Longrightarrow> Q (fst (aop v)) w'"
    and "\<And>x w'. I w' \<Longrightarrow> (qt w \<Longrightarrow> qt w') \<Longrightarrow> view w' = v \<Longrightarrow> \<not> qt w \<or> \<not> ok \<Longrightarrow> Q (Err (Db x)) w'"
  shows "run_post m w Q"
  using assms(1)
proof (cases rule: sim_atE)
  case exact
  from exact(3) have "fst (m w) = fst (aop v)" by (cases "fst (m w)") simp_all
  with assms(2) [OF exact(1,2,4)] show ?thesis by (simp add: run_post_def)
next
  case (storage e)
  with assms(3) [OF storage(1,2,6,3)] show ?thesis by (auto simp: run_post_def is_storage_error_iff)
qed

lemma post_simulates:
  assumes "simulates I qt view ok id v m aop" "I w" "view w = v"
    and "\<And>w'. I w' \<Longrightarrow> (qt w \<Longrightarrow> qt w') \<Longrightarrow> view w' = snd (aop v) \<Longrightarrow> Q (fst (aop v)) w'"
    and "\<And>x w'. I w' \<Longrightarrow> (qt w \<Longrightarrow> qt w') \<Longrightarrow> view w' = v \<Longrightarrow> \<not> qt w \<or> \<not> ok \<Longrightarrow> Q (Err (Db x)) w'"
  shows "run_post m w Q"
proof -
  have "sim_at I qt view ok id v m aop w" using assms(1-3) by (simp add: simulates_def)
  then show ?thesis by (rule post_sim) (fact assms(4), fact assms(5))
qed

section \<open>Credentials\<close>

text \<open>A step that leaves the accounts alone and does not panic.\<close>

definition neutral :: "('w \<Rightarrow> bool) \<Rightarrow> ('w \<Rightarrow> bool) \<Rightarrow> ('w \<Rightarrow> 'v) \<Rightarrow> ('w, 'a) io \<Rightarrow> bool" where
  "neutral I qt view m \<longleftrightarrow> (\<forall>w. I w \<longrightarrow> I (snd (m w)) \<and> view (snd (m w)) = view w \<and>
     (qt w \<longrightarrow> qt (snd (m w))) \<and> (\<forall>s. fst (m w) \<noteq> Panic s))"

lemma post_neutral:
  assumes "neutral I qt view m" "I w"
    and "\<And>a w'. fst (m w) = Ok a \<Longrightarrow> I w' \<Longrightarrow> (qt w \<Longrightarrow> qt w') \<Longrightarrow> view w' = view w \<Longrightarrow> Q (Ok a) w'"
    and "\<And>e w'. fst (m w) = Err e \<Longrightarrow> I w' \<Longrightarrow> (qt w \<Longrightarrow> qt w') \<Longrightarrow> view w' = view w \<Longrightarrow> Q (Err e) w'"
  shows "run_post m w Q"
  using assms by (cases "fst (m w)") (auto simp: neutral_def run_post_def)

lemma neutral_branch:
  assumes "neutral I qt view m" "\<And>a. neutral I qt view (k a)" "\<And>e. neutral I qt view (h e)"
  shows "neutral I qt view (branch m k h)"
  using assms unfolding neutral_def branch_def by (auto split: outcome.split)

lemma neutral_call: "neutral I qt view m \<Longrightarrow> (\<And>a. neutral I qt view (k a)) \<Longrightarrow> neutral I qt view (call m k)"
  unfolding call_def by (rule neutral_branch) (simp_all add: neutral_def throw_def)

lemma neutral_ret: "neutral I qt view (ret a)" and neutral_throw: "neutral I qt view (throw e)"
  by (simp_all add: neutral_def ret_def throw_def)

definition fails :: "('w, 'a) io \<Rightarrow> bool" where
  "fails m \<longleftrightarrow> (\<exists>w e. fst (m w) = Err e)"

lemma failsI: "fst (m w) = Err e \<Longrightarrow> fails m"
  by (auto simp: fails_def)

text \<open>Some run of the hasher made \<open>h\<close> from the password.\<close>

definition hashes :: "'w passwordHasher \<Rightarrow> string \<Rightarrow> string \<Rightarrow> bool" where
  "hashes H p h \<longleftrightarrow> (\<exists>w. fst (ph_Hash H p w) = Ok h)"

lemma hashesI: "fst (ph_Hash H p w) = Ok h \<Longrightarrow> hashes H p h"
  by (auto simp: hashes_def)

locale credentials =
  fixes I :: "'w \<Rightarrow> bool" and qt :: "'w \<Rightarrow> bool" and view :: "'w \<Rightarrow> accounts"
    and H :: "'w passwordHasher" and jwt :: "'w tokenManager"
  assumes hash_neutral: "neutral I qt view (ph_Hash H p)"
    and access_neutral: "neutral I qt view (tm_GenerateAccessToken jwt u)"
    and refresh_neutral: "neutral I qt view (tm_GenerateRefreshToken jwt u)"
    and validate_neutral: "neutral I qt view (tm_ValidateRefreshToken jwt token)"
begin

lemma issueTokens_neutral: "neutral I qt view (issueTokens jwt u)"
  unfolding issueTokens_def
  by (intro neutral_branch access_neutral refresh_neutral neutral_ret neutral_throw)

lemma issueTokens_Err: "fst (issueTokens jwt u w) = Err e \<Longrightarrow> e = Dom ErrInternal \<and> fails (issueTokens jwt u)"
  by (auto simp: fails_def) (auto simp: issueTokens_def branch_def ret_def throw_def split: outcome.splits)

end

section \<open>What the use cases do\<close>

definition new_user :: "uuid \<Rightarrow> time \<Rightarrow> RegisterInput \<Rightarrow> string \<Rightarrow> User" where
  "new_user newID now inp hash = \<lparr>user_ID = newID, user_Username = rgi_Username inp,
     user_Email = rgi_Email inp, user_PasswordHash = hash, user_AvatarURL = [], user_Bio = [],
     user_Status = UserStatusOffline, user_LastSeen = now, user_CreatedAt = now, user_UpdatedAt = now\<rparr>"

lemma new_user_ID [simp]: "user_ID (new_user newID now inp h) = newID"
  by (simp add: new_user_def)

text \<open>Why a registration is refused, in the order of the checks.\<close>

definition register_refused :: "(string \<Rightarrow> 'k) \<Rightarrow> accounts \<Rightarrow> RegisterInput \<Rightarrow> goerr option" where
  "register_refused ck v inp =
     (case RegisterInput_Validate inp of
        Some e \<Rightarrow> Some e
      | None \<Rightarrow>
          if by_email ck v (rgi_Email inp) \<noteq> None then Some (Dom ErrEmailTaken)
          else if by_username ck v (rgi_Username inp) \<noteq> None then Some (Dom ErrUsernameTaken)
          else None)"

text \<open>The account that a login opens, or why it is refused.\<close>

definition login_account :: "(string \<Rightarrow> 'k) \<Rightarrow> (string \<Rightarrow> string \<Rightarrow> bool) \<Rightarrow> accounts \<Rightarrow> LoginInput \<Rightarrow> goerr + User" where
  "login_account ck check v inp =
     (case LoginInput_Validate inp of
        Some e \<Rightarrow> Inl e
      | None \<Rightarrow>
          (case by_email ck v (lgi_Email inp) of
             None \<Rightarrow> Inl (Dom ErrInvalidCredentials)
           | Some u \<Rightarrow> if check (lgi_Password inp) (user_PasswordHash u) then Inr u
                       else Inl (Dom ErrInvalidCredentials)))"

definition update_refused :: "(string \<Rightarrow> 'k) \<Rightarrow> accounts \<Rightarrow> uuid \<Rightarrow> UpdateProfileInput \<Rightarrow> goerr option" where
  "update_refused ck v uid inp =
     (case UpdateProfileInput_Validate inp of
        Some e \<Rightarrow> Some e
      | None \<Rightarrow>
          (case account v uid of
             None \<Rightarrow> Some (Dom ErrUserNotFound)
           | Some u \<Rightarrow>
               (case upi_Username inp of
                  None \<Rightarrow> None
                | Some n \<Rightarrow>
                    (case by_username ck v n of
                       None \<Rightarrow> None
                     | Some x \<Rightarrow> if n \<noteq> user_Username u \<and> user_ID x \<noteq> uid
                         then Some (Dom ErrUsernameTaken) else None))))"

lemma register_free:
  "register_refused ck v inp = None \<longleftrightarrow> RegisterInput_Validate inp = None \<and>
     by_email ck v (rgi_Email inp) = None \<and> by_username ck v (rgi_Username inp) = None"
  by (simp add: register_refused_def split: option.splits)

lemma sp_Create_free:
  assumes "register_refused ck v inp = None"
  shows "sp_Create ck (new_user newID now inp h) v = (Ok (), v\<lparr>ac_users := ac_users v @ [new_user newID now inp h],
     ac_ids := ac_ids v @ [newID]\<rparr>)"
  using assms
  by (auto simp: register_free sp_Create_def unless_taken_def other_has_def new_user_def by_email_none by_username_none)

lemma edited_profile_ID [simp]: "user_ID (edited_profile now inp x) = user_ID x"
  by (simp add: edited_profile_def)

lemma with_edited_profile [simp]: "with_profile (edited_profile now inp x) x = edited_profile now inp x"
  by (simp add: edited_profile_def with_profile_def)

lemma same_key:
  "distinct (map f xs) \<Longrightarrow> x \<in> set xs \<Longrightarrow> y \<in> set xs \<Longrightarrow> f x = f y \<Longrightarrow> x = y"
  by (rule distinct_map_inj)

lemma update_not_taken:
  assumes wf: "accounts_wf ck v" and x: "account v uid = Some x" and "update_refused ck v uid inp = None"
  shows "unless_taken ck (edited_profile now inp x) m v = m v"
proof -
  from account_in [OF x] have x': "x \<in> set (ac_users v)" "user_ID x = uid" by simp_all
  have email: "y = x" if "y \<in> set (ac_users v)" "ck (user_Email y) = ck (user_Email x)" for y
    using wf x' that by (auto simp: accounts_wf_def intro: same_key [where f = "ck \<circ> user_Email"])
  have name: "y = z" if "y \<in> set (ac_users v)" "z \<in> set (ac_users v)" "ck (user_Username y) = ck (user_Username z)" for y z
    using wf that by (auto simp: accounts_wf_def intro: same_key [where f = "ck \<circ> user_Username"])
  let ?u = "edited_profile now inp x"
  have "\<not> other_has (ck \<circ> user_Email) ?u v"
    using email by (auto simp: other_has_def edited_profile_def)
  moreover have "\<not> other_has (ck \<circ> user_Username) ?u v"
  proof (cases "upi_Username inp")
    case None
    with name x' show ?thesis by (auto simp: other_has_def edited_profile_def)
  next
    case (Some n)
    have "user_ID y = uid" if y: "y \<in> set (ac_users v)" "ck (user_Username y) = ck n" for y
    proof (cases "n = user_Username x")
      case True
      with y name x' show ?thesis by auto
    next
      case False
      from y obtain z where z: "by_username ck v n = Some z"
        using by_username_none [of ck v n] by (cases "by_username ck v n") auto
      with y name by_username_in [OF z] have "y = z" by auto
      moreover from assms(3) Some x z False have "user_ID z = uid"
        by (auto simp: update_refused_def split: option.splits if_splits)
      ultimately show ?thesis by simp
    qed
    with Some x' show ?thesis by (auto simp: other_has_def edited_profile_def)
  qed
  ultimately show ?thesis by (simp add: unless_taken_def)
qed

locale user_service = user_port R I qt view ck text_ok user_ok + credentials I qt view H jwt
  for R :: "'w UserRepository" and I :: "'w \<Rightarrow> bool" and qt :: "'w \<Rightarrow> bool" and view :: "'w \<Rightarrow> accounts"
    and ck :: "string \<Rightarrow> 'k" and text_ok :: "string \<Rightarrow> bool" and user_ok :: "User \<Rightarrow> bool"
    and H :: "'w passwordHasher" and jwt :: "'w tokenManager"
begin

lemma must_be_free_post:
  assumes sim: "simulates I qt view ok id (view w) m (found r)" and "I w"
    and "\<And>w'. r = None \<Longrightarrow> I w' \<Longrightarrow> (qt w \<Longrightarrow> qt w') \<Longrightarrow> view w' = view w \<Longrightarrow> Q (Ok ()) w'"
    and "\<And>x w'. r = Some x \<Longrightarrow> I w' \<Longrightarrow> (qt w \<Longrightarrow> qt w') \<Longrightarrow> view w' = view w \<Longrightarrow> Q (Err (Dom taken)) w'"
    and "\<And>x w'. I w' \<Longrightarrow> (qt w \<Longrightarrow> qt w') \<Longrightarrow> view w' = view w \<Longrightarrow> \<not> qt w \<or> \<not> ok \<Longrightarrow> Q (Err (Db x)) w'"
  shows "run_post (must_be_free m taken) w Q"
  unfolding must_be_free_def
  by (rule post_branch, rule post_simulates [OF sim \<open>I w\<close> refl])
    (use assms(3-5) in \<open>cases r; simp\<close>)+

text \<open>The outcome of a registration from the accounts \<open>v\<close>.\<close>

definition registered :: "uuid \<Rightarrow> time \<Rightarrow> RegisterInput \<Rightarrow> 'w \<Rightarrow> (goerr, User \<times> TokenPair) outcome \<Rightarrow> 'w \<Rightarrow> bool" where
  "registered newID now inp w r w' \<longleftrightarrow> I w' \<and> (qt w \<longrightarrow> qt w') \<and>
     (case r of
        Ok (u, tokens) \<Rightarrow> register_refused ck (view w) inp = None \<and>
          (\<exists>h. u = new_user newID now inp h \<and> hashes H (rgi_Password inp) h) \<and>
          ac_users (view w') = ac_users (view w) @ [u]
      | Err e \<Rightarrow>
          (ac_users (view w') = ac_users (view w) \<or>
             \<not> qt w \<and> (\<exists>h. ac_users (view w') = ac_users (view w) @ [new_user newID now inp h])) \<and>
          (qt w \<and> (RegisterInput_Validate inp = None \<longrightarrow> text_ok (rgi_Email inp) \<and> text_ok (rgi_Username inp) \<and>
               (\<forall>h. hashes H (rgi_Password inp) h \<longrightarrow> user_ok (new_user newID now inp h))) \<longrightarrow>
             (case register_refused ck (view w) inp of
                Some e' \<Rightarrow> e = e'
              | None \<Rightarrow> e = Dom ErrInternal \<and> (fails (ph_Hash H (rgi_Password inp)) \<or> fails (issueTokens jwt newID))))
      | Panic s \<Rightarrow> False)"

lemma Register_run:
  assumes "I w" "newID \<notin> set (ac_ids (view w))"
  shows "run_post (users_Register R H jwt now newID inp) w (registered newID now inp w)"
proof -
  let ?v = "view w"
  let ?u = "new_user newID now inp"
  have roll: "filter (\<lambda>x. user_ID x \<noteq> newID) (ac_users ?v) = ac_users ?v"
    using accounts_ok [OF assms(1)] assms(2) by (auto simp: accounts_wf_def filter_id_conv)
  have issue: "run_post (branch (issueTokens jwt newID) (\<lambda>tokens. ret (?u h, tokens))
        (\<lambda>err. call (ignore_err (ur_Delete R newID)) (\<lambda>_. throw err))) w1 (registered newID now inp w)"
    if "I w1" "qt w \<Longrightarrow> qt w1" "register_refused ck ?v inp = None" "hashes H (rgi_Password inp) h"
      "view w1 = ?v\<lparr>ac_users := ac_users ?v @ [?u h], ac_ids := ac_ids ?v @ [newID]\<rparr>" for w1 h
  proof (rule post_branch, rule post_neutral [OF issueTokens_neutral that(1)])
    fix e w2 assume e: "fst (issueTokens jwt newID w1) = Err e" and w2: "I w2" "qt w1 \<Longrightarrow> qt w2" "view w2 = view w1"
    from e have "e = Dom ErrInternal \<and> fails (issueTokens jwt newID)" by (rule issueTokens_Err)
    with that w2 roll show "on_ok (\<lambda>a w'. run_post (ret (?u h, a)) w' (registered newID now inp w))
        (registered newID now inp w)
        (\<lambda>e w'. run_post (call (ignore_err (ur_Delete R newID)) (\<lambda>_. throw e)) w' (registered newID now inp w)) (Err e) w2"
      by (auto intro!: post_call post_ignore_err post_simulates [OF sim_Delete]
          simp: registered_def sp_DeleteUser_def new_user_def)
  qed (use that in \<open>auto simp: registered_def\<close>)
  have create: "run_post (call (ur_Create R (?u h)) (\<lambda>_. branch (issueTokens jwt newID) (\<lambda>tokens. ret (?u h, tokens))
        (\<lambda>err. call (ignore_err (ur_Delete R newID)) (\<lambda>_. throw err)))) w1 (registered newID now inp w)"
    if "I w1" "qt w \<Longrightarrow> qt w1" "view w1 = ?v" "register_refused ck ?v inp = None" "hashes H (rgi_Password inp) h"
    for w1 h
  proof (rule post_call, rule post_simulates [OF sim_Create that(1,3)])
    show "user_ID (?u h) \<notin> set (ac_ids ?v)" using assms(2) by (simp add: new_user_def)
  qed (use that issue in \<open>auto simp: sp_Create_free registered_def register_free\<close>)
  have hash: "run_post (branch (ph_Hash H (rgi_Password inp)) (\<lambda>h. call (ur_Create R (?u h)) (\<lambda>_.
        branch (issueTokens jwt newID) (\<lambda>tokens. ret (?u h, tokens))
        (\<lambda>err. call (ignore_err (ur_Delete R newID)) (\<lambda>_. throw err)))) (\<lambda>_. throw (Dom ErrInternal))) w1
        (registered newID now inp w)"
    if "I w1" "qt w \<Longrightarrow> qt w1" "view w1 = ?v" "register_refused ck ?v inp = None" for w1
    by (rule post_branch, rule post_neutral [OF hash_neutral that(1)])
      (use that create in \<open>auto simp: registered_def dest: hashesI failsI\<close>)
  show ?thesis
  proof (cases "RegisterInput_Validate inp")
    case (Some e)
    then show ?thesis
      using assms(1) by (simp add: users_Register_def registered_def register_refused_def)
  next
    case None
    note refused = register_refused_def [of ck ?v inp, unfolded None, simplified]
    from hash None have hash': "run_post (branch (ph_Hash H (rgi_Password inp)) (\<lambda>h. call (ur_Create R (?u h)) (\<lambda>_.
        branch (issueTokens jwt newID) (\<lambda>tokens. ret (?u h, tokens))
        (\<lambda>err. call (ignore_err (ur_Delete R newID)) (\<lambda>_. throw err)))) (\<lambda>_. throw (Dom ErrInternal))) w1
        (registered newID now inp w)"
      if "I w1" "qt w \<longrightarrow> qt w1" "view w1 = ?v" "by_email ck ?v (rgi_Email inp) = None"
        "by_username ck ?v (rgi_Username inp) = None" for w1
      using that by (simp add: register_free)
    have name: "run_post (must_be_free (ur_GetByUsername R (rgi_Username inp)) ErrUsernameTaken) w1
        (on_ok (\<lambda>_ w'. run_post (branch (ph_Hash H (rgi_Password inp)) (\<lambda>h. call (ur_Create R (?u h)) (\<lambda>_.
          branch (issueTokens jwt newID) (\<lambda>tokens. ret (?u h, tokens))
          (\<lambda>err. call (ignore_err (ur_Delete R newID)) (\<lambda>_. throw err)))) (\<lambda>_. throw (Dom ErrInternal))) w'
          (registered newID now inp w)) (registered newID now inp w) (\<lambda>e. registered newID now inp w (Err e)))"
      if w1: "I w1" "qt w \<longrightarrow> qt w1" "view w1 = ?v" "by_email ck ?v (rgi_Email inp) = None" for w1
      by (rule must_be_free_post [OF sim_GetByUsername w1(1)])
        (use w1 hash' None in \<open>auto simp: registered_def refused\<close>)
    show ?thesis
      unfolding users_Register_def None V_Err_None call_ret Let_def new_user_def [symmetric] new_user_ID
      by (rule post_call, rule must_be_free_post [OF sim_GetByEmail assms(1)])
        (use name None in \<open>auto simp: registered_def refused intro!: post_call\<close>)
  qed
qed

text \<open>Logging in opens the account with the email and the password, and changes nothing.\<close>

definition logged_in :: "LoginInput \<Rightarrow> 'w \<Rightarrow> (goerr, User \<times> TokenPair) outcome \<Rightarrow> 'w \<Rightarrow> bool" where
  "logged_in inp w r w' \<longleftrightarrow> I w' \<and> (qt w \<longrightarrow> qt w') \<and> view w' = view w \<and>
     (case r of
        Ok (u, tokens) \<Rightarrow> login_account ck (ph_Check H) (view w) inp = Inr u
      | Err e \<Rightarrow> qt w \<and> text_ok (lgi_Email inp) \<longrightarrow>
          (case login_account ck (ph_Check H) (view w) inp of Inl e' \<Rightarrow> e = e' | Inr u \<Rightarrow> e = Dom ErrInternal \<and> fails (issueTokens jwt (user_ID u)))
      | Panic s \<Rightarrow> False)"

lemma Login_run:
  assumes "I w"
  shows "run_post (users_Login R H jwt inp) w (logged_in inp w)"
proof (cases "LoginInput_Validate inp")
  case (Some e)
  then show ?thesis
    using assms by (simp add: users_Login_def logged_in_def login_account_def)
next
  case None
  note account = login_account_def [of ck "ph_Check H" "view w" inp, unfolded None, simplified]
  have issue: "run_post (call (issueTokens jwt (user_ID u)) (\<lambda>tokens. ret (u, tokens))) w1 (logged_in inp w)"
    if w1: "I w1" "qt w \<longrightarrow> qt w1" "view w1 = view w" "by_email ck (view w) (lgi_Email inp) = Some u"
      "ph_Check H (lgi_Password inp) (user_PasswordHash u)" for u w1
    by (rule post_call, rule post_neutral [OF issueTokens_neutral w1(1)])
      (use w1 in \<open>auto simp: logged_in_def account dest: issueTokens_Err\<close>)
  show ?thesis
    unfolding users_Login_def None V_Err_None call_ret
    by (rule post_branch, rule post_simulates [OF sim_GetByEmail assms refl];
        cases "by_email ck (view w) (lgi_Email inp)")
      (use None issue in \<open>auto simp: logged_in_def account\<close>)
qed

text \<open>New tokens are issued only for a refresh token that validates, to a user who still exists.\<close>

definition refreshed :: "string \<Rightarrow> 'w \<Rightarrow> (goerr, TokenPair) outcome \<Rightarrow> 'w \<Rightarrow> bool" where
  "refreshed token w r w' \<longleftrightarrow> I w' \<and> view w' = view w \<and>
     (case r of
        Ok tokens \<Rightarrow> (\<exists>u. fst (tm_ValidateRefreshToken jwt token w) = Ok u \<and> account (view w) u \<noteq> None)
      | Err e \<Rightarrow> qt w \<longrightarrow>
          (case fst (tm_ValidateRefreshToken jwt token w) of
             Ok u \<Rightarrow> (if account (view w) u = None then e = Dom ErrUserNotFound
               else e = Dom ErrInternal \<and> fails (issueTokens jwt u))
           | Err e' \<Rightarrow> e = e'
           | Panic s \<Rightarrow> False)
      | Panic s \<Rightarrow> False)"

lemma RefreshToken_run:
  assumes "I w"
  shows "run_post (users_RefreshToken R jwt token) w (refreshed token w)"
proof -
  have issue: "run_post (issueTokens jwt u) w1 (refreshed token w)"
    if w1: "I w1" "view w1 = view w" "fst (tm_ValidateRefreshToken jwt token w) = Ok u"
      "account (view w) u = Some x" for u x w1
    by (rule post_neutral [OF issueTokens_neutral w1(1)])
      (use w1 in \<open>auto simp: refreshed_def dest: issueTokens_Err\<close>)
  have look: "run_post (call (ur_GetByID R u) (\<lambda>_. issueTokens jwt u)) w1 (refreshed token w)"
    if w1: "I w1" "qt w \<longrightarrow> qt w1" "view w1 = view w" "fst (tm_ValidateRefreshToken jwt token w) = Ok u" for u w1
    by (rule post_call, rule post_simulates [OF sim_GetByID w1(1,3)]; cases "account (view w) u")
      (use w1 issue in \<open>auto simp: refreshed_def\<close>)
  show ?thesis
    unfolding users_RefreshToken_def
    by (rule post_call, rule post_neutral [OF validate_neutral assms])
      (use look in \<open>auto simp: refreshed_def\<close>)
qed

text \<open>An update of a profile writes the named fields of the caller's account and nothing else.\<close>

definition profile_updated :: "time \<Rightarrow> uuid \<Rightarrow> UpdateProfileInput \<Rightarrow> 'w \<Rightarrow> (goerr, User) outcome \<Rightarrow> 'w \<Rightarrow> bool" where
  "profile_updated now uid inp w r w' \<longleftrightarrow> I w' \<and>
     (case r of
        Ok u \<Rightarrow> update_refused ck (view w) uid inp = None \<and>
          map_option (edited_profile now inp) (account (view w) uid) = Some u \<and>
          view w' = change_user uid (with_profile u) (view w)
      | Err e \<Rightarrow> view w' = view w \<and>
          (qt w \<and> (\<forall>n. upi_Username inp = Some n \<and> UpdateProfileInput_Validate inp = None \<longrightarrow> text_ok n) \<and>
             (\<forall>x. account (view w) uid = Some x \<and> UpdateProfileInput_Validate inp = None \<longrightarrow>
                user_ok (edited_profile now inp x)) \<longrightarrow>
           update_refused ck (view w) uid inp = Some e)
      | Panic s \<Rightarrow> False)"

lemma UpdateProfile_run:
  assumes "I w" "\<And>x. account (view w) uid = Some x \<Longrightarrow> user_UpdatedAt x \<noteq> now"
  shows "run_post (users_UpdateProfile R now uid inp) w (profile_updated now uid inp w)"
proof (cases "UpdateProfileInput_Validate inp")
  case (Some e)
  then show ?thesis
    using assms(1) by (simp add: users_UpdateProfile_def profile_updated_def update_refused_def)
next
  case valid: None
  let ?v = "view w"
  note refused = update_refused_def [of ck ?v uid inp, unfolded valid, simplified]
  have store: "run_post (call (ur_Update R (edited_profile now inp x)) (\<lambda>_. ret (edited_profile now inp x))) w1
      (profile_updated now uid inp w)"
    if w1: "I w1" "qt w \<longrightarrow> qt w1" "view w1 = ?v" "account ?v uid = Some x" "update_refused ck ?v uid inp = None" for x w1
  proof (rule post_call, rule post_simulates [OF sim_Update w1(1,3)])
    have "user_ID x = uid" using account_in [OF w1(4)] by simp
    moreover have "user_UpdatedAt (edited_profile now inp x) = now" by (simp add: edited_profile_def)
    ultimately show "with_profile (edited_profile now inp x) y \<noteq> y"
      if "account ?v (user_ID (edited_profile now inp x)) = Some y" for y
      using that assms(2) w1(4) by auto
  qed (use w1 valid account_in [OF w1(4)] update_not_taken [OF accounts_ok [OF assms(1)] w1(4,5)] in
      \<open>auto simp: profile_updated_def sp_UpdateUser_def\<close>)
  have check: "run_post (call (check_username R uid x (upi_Username inp))
        (\<lambda>_. call (ur_Update R (edited_profile now inp x)) (\<lambda>_. ret (edited_profile now inp x)))) w1
        (profile_updated now uid inp w)"
    if w1: "I w1" "qt w \<longrightarrow> qt w1" "view w1 = ?v" "account ?v uid = Some x" for x w1
  proof (cases "upi_Username inp")
    case None
    with store w1 show ?thesis by (simp add: check_username_def refused)
  next
    case (Some n)
    show ?thesis
    proof (cases "n = user_Username x")
      case True
      with store w1 Some show ?thesis
        by (simp add: check_username_def refused split: option.splits)
    next
      case False
      have "run_post (branch (ur_GetByUsername R n)
          (\<lambda>existing. if user_ID existing \<noteq> uid then throw (Dom ErrUsernameTaken) else ret ())
          (\<lambda>err. if \<not> errors_Is err ErrUserNotFound then throw err else ret ())) w1
          (on_ok (\<lambda>_ w'. run_post (call (ur_Update R (edited_profile now inp x)) (\<lambda>_. ret (edited_profile now inp x))) w'
            (profile_updated now uid inp w)) (profile_updated now uid inp w) (\<lambda>e. profile_updated now uid inp w (Err e)))"
        by (rule post_branch, rule post_simulates [OF sim_GetByUsername w1(1,3)]; cases "by_username ck ?v n")
          (use w1 valid Some False store in \<open>auto simp: profile_updated_def refused\<close>)
      with Some False show ?thesis by (simp add: check_username_def post_call)
    qed
  qed
  show ?thesis
    unfolding users_UpdateProfile_def valid V_Err_None call_ret Let_def
    by (rule post_call, rule post_simulates [OF sim_GetByID assms(1) refl]; cases "account ?v uid")
      (use valid check in \<open>auto simp: profile_updated_def refused\<close>)
qed

lemma status_run:
  assumes "I w" "status \<in> {UserStatusOnline, UserStatusOffline}"
  shows "run_post (ur_UpdateStatus R uid status seen) w (\<lambda>r w'. I w' \<and> (\<forall>s. r \<noteq> Panic s) \<and>
     map (\<lambda>x. (user_ID x, user_Email x, user_Username x, user_PasswordHash x)) (ac_users (view w')) =
       map (\<lambda>x. (user_ID x, user_Email x, user_Username x, user_PasswordHash x)) (ac_users (view w)))"
proof -
  obtain now where "sim_at I qt view True id (view w) (ur_UpdateStatus R uid status seen)
      (sp_UpdateStatus uid status seen now) w"
    using sim_UpdateStatus [OF assms(2,1) refl] by blast
  then show ?thesis
    by (rule post_sim) (auto simp: sp_UpdateStatus_def change_user_def)
qed

end

section \<open>Histories\<close>

text \<open>States that the user use cases reach from \<open>w0\<close>; a new identifier is fresh, and the clock has
  moved since the profile was last written.\<close>

inductive user_reach ::
  "'w UserRepository \<Rightarrow> 'w passwordHasher \<Rightarrow> 'w tokenManager \<Rightarrow> ('w \<Rightarrow> accounts) \<Rightarrow> 'w \<Rightarrow> 'w \<Rightarrow> bool"
  for R H jwt view w0 where
  acc_start: "user_reach R H jwt view w0 w0"
| acc_Register: "user_reach R H jwt view w0 w \<Longrightarrow> newID \<notin> set (ac_ids (view w)) \<Longrightarrow>
    user_reach R H jwt view w0 (snd (users_Register R H jwt now newID inp w))"
| acc_Login: "user_reach R H jwt view w0 w \<Longrightarrow> user_reach R H jwt view w0 (snd (users_Login R H jwt linp w))"
| acc_Refresh: "user_reach R H jwt view w0 w \<Longrightarrow>
    user_reach R H jwt view w0 (snd (users_RefreshToken R jwt token w))"
| acc_Update: "user_reach R H jwt view w0 w \<Longrightarrow>
    (\<And>x. account (view w) uid = Some x \<Longrightarrow> user_UpdatedAt x \<noteq> now) \<Longrightarrow>
    user_reach R H jwt view w0 (snd (users_UpdateProfile R now uid uinp w))"
| acc_Online: "user_reach R H jwt view w0 w \<Longrightarrow> user_reach R H jwt view w0 (snd (users_SetOnline R now uid w))"
| acc_Offline: "user_reach R H jwt view w0 w \<Longrightarrow> user_reach R H jwt view w0 (snd (users_SetOffline R now uid w))"
| acc_Profile: "user_reach R H jwt view w0 w \<Longrightarrow> user_reach R H jwt view w0 (snd (users_GetProfile R uid w))"

lemma find_snoc: "find P xs = None \<Longrightarrow> find P (xs @ [x]) = (if P x then Some x else None)"
  by (induction xs) (auto split: if_splits)

context user_service
begin

lemma reach_invariant:
  assumes "user_reach R H jwt view w0 w" "I w0"
  shows "I w"
  using assms
proof induction
  case (acc_Register w newID now inp)
  with Register_run [of w newID now inp] show ?case by (simp add: run_post_def registered_def)
next
  case (acc_Login w linp)
  with Login_run [of w linp] show ?case by (simp add: run_post_def logged_in_def)
next
  case (acc_Refresh w token)
  with RefreshToken_run [of w token] show ?case by (simp add: run_post_def refreshed_def)
next
  case (acc_Update w uid now uinp)
  with UpdateProfile_run [of w uid now uinp] show ?case by (simp add: run_post_def profile_updated_def)
next
  case (acc_Online w now uid)
  with status_run [of w UserStatusOnline uid now] show ?case by (simp add: run_post_def users_SetOnline_def)
next
  case (acc_Offline w now uid)
  with status_run [of w UserStatusOffline uid now] show ?case by (simp add: run_post_def users_SetOffline_def)
next
  case (acc_Profile w uid)
  have "run_post (ur_GetByID R uid) w (\<lambda>r. I)"
    by (rule post_simulates [OF sim_GetByID, of w]) (use acc_Profile in simp_all)
  then show ?case by (simp add: users_GetProfile_def run_post_def)
qed

text \<open>A user who registered can log in with the password, and gets the same account.\<close>

lemma login_after_register:
  assumes "registered newID now inp w (Ok (u, tokens)) w'" "I w"
    and "lgi_Email linp = rgi_Email inp" "lgi_Password linp = rgi_Password inp" "LoginInput_Validate linp = None"
    and "\<And>h. hashes H (rgi_Password inp) h \<Longrightarrow> ph_Check H (rgi_Password inp) h"
  shows "login_account ck (ph_Check H) (view w') linp = Inr u"
proof -
  obtain h where u: "u = new_user newID now inp h" "hashes H (rgi_Password inp) h"
    and v: "ac_users (view w') = ac_users (view w) @ [u]"
    and free: "by_email ck (view w) (rgi_Email inp) = None"
    using assms(1) by (auto simp: registered_def register_free)
  from v free u have "by_email ck (view w') (rgi_Email inp) = Some u"
    by (simp add: by_email_def find_snoc new_user_def)
  with u assms(3-6) show ?thesis by (simp add: login_account_def new_user_def)
qed

end

end
