(* ===== verification/Auth.thy ===== *)
theory Auth
  imports Prelude Domain UcUser World
begin

text \<open>
  utils/jwt/jwt.go and utils/hasher/hasher.go.  The libraries golang-jwt and bcrypt are parameters:
  \<open>jwtlib\<close> and \<open>bcrypt\<close> hold the functions that the code calls, and what the code relies on is
  stated as the predicates \<open>jwtlib_ok\<close> and \<open>bcrypt_ok\<close> over them.
\<close>

section \<open>Tokens (jwt.go)\<close>

record claims =
  clm_UserID :: uuid
  clm_ExpiresAt :: time
  clm_IssuedAt :: time
  clm_ID :: uuid

text \<open>A parsed token as the key function sees it: whether its method is of the HMAC family.\<close>

record jwt_token =
  tok_hmac :: bool

datatype jwt_error = ErrTokenExpired | ErrTokenOther | ErrKeyfunc goerr

record jwtlib =
  jl_date :: "time \<Rightarrow> time"
  jl_sign :: "string \<Rightarrow> claims \<Rightarrow> string + string"
  jl_parse :: "time \<Rightarrow> string \<Rightarrow> (jwt_token \<Rightarrow> goerr + string) \<Rightarrow> jwt_error + (claims \<times> bool)"

record jwt_config =
  jc_AccessSecret :: string
  jc_RefreshSecret :: string
  jc_AccessTokenTTL :: duration
  jc_RefreshTokenTTL :: duration

text \<open>Go reads the clock twice, for the expiry and for the time of issue.\<close>

definition jwt_sign :: "jwtlib \<Rightarrow> uuid \<Rightarrow> uuid \<Rightarrow> string \<Rightarrow> duration \<Rightarrow> (world, string) io" where
  "jwt_sign L jti userID secret ttl =
     call clock_now (\<lambda>now1.
     call clock_now (\<lambda>now2.
     let c = \<lparr>clm_UserID = userID, clm_ExpiresAt = jl_date L (time_Add now1 ttl),
           clm_IssuedAt = jl_date L now2, clm_ID = jti\<rparr>
     in case jl_sign L secret c of
          Inl e \<Rightarrow> throw (Wrapf ''jwt: sign: '' (Lib e) [])
        | Inr token \<Rightarrow> ret token))"

definition jwt_keyfunc :: "string \<Rightarrow> jwt_token \<Rightarrow> goerr + string" where
  "jwt_keyfunc secret t = (if \<not> tok_hmac t then Inl (Dom ErrInvalidToken) else Inr secret)"

definition jwt_parse :: "jwtlib \<Rightarrow> string \<Rightarrow> string \<Rightarrow> (world, uuid) io" where
  "jwt_parse L tokenStr secret =
     call clock_now (\<lambda>now.
     case jl_parse L now tokenStr (jwt_keyfunc secret) of
       Inl e \<Rightarrow> (if e = ErrTokenExpired then throw (Dom ErrExpiredToken) else throw (Dom ErrInvalidToken))
     | Inr (c, valid) \<Rightarrow> (if \<not> valid then throw (Dom ErrInvalidToken) else ret (clm_UserID c)))"

definition GenerateAccessToken :: "jwtlib \<Rightarrow> jwt_config \<Rightarrow> uuid \<Rightarrow> uuid \<Rightarrow> (world, string) io" where
  "GenerateAccessToken L cfg jti userID = jwt_sign L jti userID (jc_AccessSecret cfg) (jc_AccessTokenTTL cfg)"

definition GenerateRefreshToken :: "jwtlib \<Rightarrow> jwt_config \<Rightarrow> uuid \<Rightarrow> uuid \<Rightarrow> (world, string) io" where
  "GenerateRefreshToken L cfg jti userID = jwt_sign L jti userID (jc_RefreshSecret cfg) (jc_RefreshTokenTTL cfg)"

definition ValidateAccessToken :: "jwtlib \<Rightarrow> jwt_config \<Rightarrow> string \<Rightarrow> (world, uuid) io" where
  "ValidateAccessToken L cfg token = jwt_parse L token (jc_AccessSecret cfg)"

definition ValidateRefreshToken :: "jwtlib \<Rightarrow> jwt_config \<Rightarrow> string \<Rightarrow> (world, uuid) io" where
  "ValidateRefreshToken L cfg token = jwt_parse L token (jc_RefreshSecret cfg)"

text \<open>The manager as the use cases hold it; \<open>jti1\<close> and \<open>jti2\<close> are the fresh token identifiers.\<close>

definition JWTManager :: "jwtlib \<Rightarrow> jwt_config \<Rightarrow> uuid \<Rightarrow> uuid \<Rightarrow> world tokenManager" where
  "JWTManager L cfg jti1 jti2 = \<lparr>tm_GenerateAccessToken = GenerateAccessToken L cfg jti1,
     tm_GenerateRefreshToken = GenerateRefreshToken L cfg jti2,
     tm_ValidateRefreshToken = ValidateRefreshToken L cfg\<rparr>"

text \<open>What the code relies on: a signed token, whose times are numeric dates, parses with its own secret
  to its claims as long as it has not expired; afterwards it is reported as expired; with another
  secret it is refused.  A numeric date never lies after the time it was made from.\<close>

definition jwtlib_ok :: "jwtlib \<Rightarrow> bool" where
  "jwtlib_ok L \<longleftrightarrow> (\<forall>t. jl_date L t \<le> t) \<and>
     (\<forall>secret c tok now kf t1 t2. jl_sign L secret c = Inr tok \<longrightarrow>
        clm_ExpiresAt c = jl_date L t1 \<longrightarrow> clm_IssuedAt c = jl_date L t2 \<longrightarrow>
        (case kf \<lparr>tok_hmac = True\<rparr> of
           Inl e \<Rightarrow> jl_parse L now tok kf = Inl (ErrKeyfunc e)
         | Inr key \<Rightarrow>
             if key \<noteq> secret then jl_parse L now tok kf = Inl ErrTokenOther
             else if clm_ExpiresAt c \<le> now then jl_parse L now tok kf = Inl ErrTokenExpired
             else jl_parse L now tok kf = Inr (c, True)))"

section \<open>Passwords (hasher.go)\<close>

record bcrypt =
  bc_Generate :: "nat \<Rightarrow> string \<Rightarrow> int \<Rightarrow> string + string"
  bc_Compare :: "string \<Rightarrow> string \<Rightarrow> string option"

text \<open>The first argument of \<open>bc_Generate\<close> is the random salt.\<close>

definition Hasher_Hash :: "bcrypt \<Rightarrow> int \<Rightarrow> nat \<Rightarrow> string \<Rightarrow> ('w, string) io" where
  "Hasher_Hash B cost salt password =
     (case bc_Generate B salt password cost of Inl e \<Rightarrow> throw (Lib e) | Inr b \<Rightarrow> ret b)"

definition Hasher_Check :: "bcrypt \<Rightarrow> string \<Rightarrow> string \<Rightarrow> bool" where
  "Hasher_Check B password hash \<longleftrightarrow> bc_Compare B hash password = None"

definition Hasher :: "bcrypt \<Rightarrow> int \<Rightarrow> nat \<Rightarrow> 'w passwordHasher" where
  "Hasher B cost salt = \<lparr>ph_Hash = Hasher_Hash B cost salt, ph_Check = Hasher_Check B\<rparr>"

text \<open>A generated hash matches the password it was made from; passwords of more than 72 bytes are
  refused.\<close>

definition bcrypt_ok :: "bcrypt \<Rightarrow> bool" where
  "bcrypt_ok B \<longleftrightarrow>
     (\<forall>salt p cost h. bc_Generate B salt p cost = Inr h \<longrightarrow> bc_Compare B h p = None) \<and>
     (\<forall>salt p cost. length p > 72 \<longrightarrow> (\<exists>e. bc_Generate B salt p cost = Inl e))"

end
