(* ===== verification/TokenProps.thy ===== *)
theory TokenProps
  imports Auth Demo
begin

text \<open>
  Tokens: what an access token that was issued is good for, and for how long.  \<open>demo_signer\<close> is a
  concrete library that satisfies \<open>jwtlib_ok\<close>: a token spells its claims in unary, then the secret.
\<close>

section \<open>A library that satisfies the contract\<close>

definition tally :: "nat \<Rightarrow> string" where
  "tally n = replicate n (CHR ''1'') @ ''.''"

definition untally :: "string \<Rightarrow> nat \<times> string" where
  "untally s = (length (takeWhile (\<lambda>c. c = CHR ''1'') s), drop 1 (dropWhile (\<lambda>c. c = CHR ''1'') s))"

lemma untally_tally [simp]: "untally (tally n @ s) = (n, s)"
  by (simp add: untally_def tally_def takeWhile_append dropWhile_append)

definition spell :: "string \<Rightarrow> claims \<Rightarrow> string" where
  "spell secret c = tally (unat (clm_UserID c)) @ tally (clm_ExpiresAt c) @ tally (clm_IssuedAt c) @
     tally (unat (clm_ID c)) @ secret"

definition unspell :: "string \<Rightarrow> claims \<times> string" where
  "unspell s = (let (u, s) = untally s; (x, s) = untally s; (i, s) = untally s; (j, s) = untally s
     in (\<lparr>clm_UserID = of_nat u, clm_ExpiresAt = x, clm_IssuedAt = i, clm_ID = of_nat j\<rparr>, s))"

lemma unspell_spell [simp]: "unspell (spell secret c) = (c, secret)"
  by (simp add: unspell_def spell_def Let_def)

definition demo_signer :: jwtlib where
  "demo_signer = \<lparr>jl_date = (\<lambda>t. t div 1000000000 * 1000000000), jl_sign = (\<lambda>secret c. Inr (spell secret c)),
     jl_parse = (\<lambda>now tok kf. let (c, secret) = unspell tok
       in if spell secret c \<noteq> tok then Inl ErrTokenOther
          else (case kf \<lparr>tok_hmac = True\<rparr> of
             Inl e \<Rightarrow> Inl (ErrKeyfunc e)
           | Inr key \<Rightarrow> if key \<noteq> secret then Inl ErrTokenOther
               else if clm_ExpiresAt c \<le> now then Inl ErrTokenExpired else Inr (c, True)))\<rparr>"

lemma demo_signer_ok: "jwtlib_ok demo_signer"
  by (auto simp: jwtlib_ok_def demo_signer_def split: sum.split)

section \<open>Issuing and validating\<close>

lemma jwt_keyfunc_hmac [simp]: "jwt_keyfunc secret \<lparr>tok_hmac = True\<rparr> = Inr secret"
  by (simp add: jwt_keyfunc_def)

lemma signed:
  assumes "jwt_sign L jti u secret ttl w = (Ok tok, w1)"
  obtains t1 t2 where "env_now (w_env w) \<le> t1" "t1 \<le> env_now (w_env w1)"
    "jl_sign L secret \<lparr>clm_UserID = u, clm_ExpiresAt = jl_date L (time_Add t1 ttl), clm_IssuedAt = jl_date L t2,
       clm_ID = jti\<rparr> = Inr tok" "w_db w1 = w_db w"
proof -
  from assms have s: "jl_sign L secret \<lparr>clm_UserID = u,
      clm_ExpiresAt = jl_date L (time_Add (env_now (w_env (w_step w))) ttl),
      clm_IssuedAt = jl_date L (env_now (w_env (w_step (w_step w)))), clm_ID = jti\<rparr> = Inr tok"
    and w1: "w1 = w_step (w_step w)"
    by (auto simp: jwt_sign_def clock_now_def call_def branch_def Let_def throw_def ret_def split: sum.splits)
  show ?thesis
    by (rule that [OF _ _ s]) (simp_all add: w1 env_now_step)
qed

lemma parse_signed:
  assumes "jwtlib_ok L" "jl_sign L secret c = Inr tok"
    "clm_ExpiresAt c = jl_date L t1" "clm_IssuedAt c = jl_date L t2"
  shows "jwt_parse L tok key w = (if key \<noteq> secret then Err (Dom ErrInvalidToken)
      else if clm_ExpiresAt c \<le> env_now (w_env (w_step w)) then Err (Dom ErrExpiredToken)
      else Ok (clm_UserID c), w_step w)"
proof -
  have "jl_parse L now tok (jwt_keyfunc key) = (if key \<noteq> secret then Inl ErrTokenOther
      else if clm_ExpiresAt c \<le> now then Inl ErrTokenExpired else Inr (c, True))" for now
  proof -
    have "case jwt_keyfunc key \<lparr>tok_hmac = True\<rparr> of
        Inl e \<Rightarrow> jl_parse L now tok (jwt_keyfunc key) = Inl (ErrKeyfunc e)
      | Inr k \<Rightarrow>
          if k \<noteq> secret then jl_parse L now tok (jwt_keyfunc key) = Inl ErrTokenOther
          else if clm_ExpiresAt c \<le> now then jl_parse L now tok (jwt_keyfunc key) = Inl ErrTokenExpired
          else jl_parse L now tok (jwt_keyfunc key) = Inr (c, True)"
      using assms unfolding jwtlib_ok_def by blast
    then show ?thesis by (simp split: if_splits)
  qed
  then show ?thesis
    by (simp add: jwt_parse_def clock_now_def call_def branch_def throw_def ret_def)
qed

section \<open>Properties\<close>

text \<open>C25: An access token names its user until it expires, its lifetime after it was issued at the latest;
  afterwards it is reported as expired.  As a refresh token it is refused at any time, whatever
  the store holds.\<close>

theorem access_token_correct:
  assumes "jwtlib_ok L" "GenerateAccessToken L cfg jti u w = (Ok tok, w1)"
    and "jc_AccessSecret cfg \<noteq> jc_RefreshSecret cfg"
  shows "\<exists>expiry. expiry \<le> time_Add (env_now (w_env w1)) (jc_AccessTokenTTL cfg) \<and>
     (\<forall>w2. fst (ValidateAccessToken L cfg tok w2) =
        (if expiry \<le> env_now (w_env (w_step w2)) then Err (Dom ErrExpiredToken) else Ok u)) \<and>
     (\<forall>w2 users j1 j2. users_RefreshToken users (JWTManager L cfg j1 j2) tok w2 =
        (Err (Dom ErrInvalidToken), w_step w2))"
proof -
  from assms(2) have "jwt_sign L jti u (jc_AccessSecret cfg) (jc_AccessTokenTTL cfg) w = (Ok tok, w1)"
    by (simp add: GenerateAccessToken_def)
  then obtain t1 t2 where t: "t1 \<le> env_now (w_env w1)"
    and s: "jl_sign L (jc_AccessSecret cfg) \<lparr>clm_UserID = u,
      clm_ExpiresAt = jl_date L (time_Add t1 (jc_AccessTokenTTL cfg)), clm_IssuedAt = jl_date L t2,
      clm_ID = jti\<rparr> = Inr tok"
    by (rule signed)
  note parse = parse_signed [OF assms(1) s, of "time_Add t1 (jc_AccessTokenTTL cfg)" t2]
  have "jl_date L (time_Add t1 (jc_AccessTokenTTL cfg)) \<le> time_Add t1 (jc_AccessTokenTTL cfg)"
    using assms(1) by (simp add: jwtlib_ok_def)
  also have "\<dots> \<le> time_Add (env_now (w_env w1)) (jc_AccessTokenTTL cfg)"
    using t by (simp add: time_Add_def)
  finally show ?thesis
    using assms(3) parse
    by (intro exI [of _ "jl_date L (time_Add t1 (jc_AccessTokenTTL cfg))"])
      (simp add: ValidateAccessToken_def users_RefreshToken_def JWTManager_def ValidateRefreshToken_def
        call_def branch_def throw_def)
qed

definition demo_keys_config :: jwt_config where
  "demo_keys_config = \<lparr>jc_AccessSecret = ''access'', jc_RefreshSecret = ''refresh'',
     jc_AccessTokenTTL = 900000000000, jc_RefreshTokenTTL = 604800000000000\<rparr>"

lemma demo_sign: "\<exists>tok. GenerateAccessToken demo_signer cfg j u demo = (Ok tok, w_step (w_step demo))"
  by (simp add: GenerateAccessToken_def jwt_sign_def demo_signer_def clock_now_def call_def branch_def Let_def ret_def)

theorem access_token_correct_witness:
  "\<exists>tok w1. GenerateAccessToken demo_signer demo_keys_config 7 1 demo = (Ok tok, w1) \<and>
     fst (users_RefreshToken (pg_NewUserRepository (\<lambda>c. c) demo_coll) (JWTManager demo_signer demo_keys_config 1 2) tok w1) =
       Err (Dom ErrInvalidToken)"
proof -
  obtain tok where tok: "GenerateAccessToken demo_signer demo_keys_config 7 1 demo = (Ok tok, w_step (w_step demo))"
    using demo_sign by blast
  have "jc_AccessSecret demo_keys_config \<noteq> jc_RefreshSecret demo_keys_config"
    by (simp add: demo_keys_config_def)
  from access_token_correct [OF demo_signer_ok tok this] tok show ?thesis by auto
qed

end
