(* ===== verification/Http.thy ===== *)
theory Http
  imports World
begin

text \<open>
  The HTTP layer below the handlers: requests and response writers as net/http has them,
  internal/delivery/http/response and internal/delivery/http/middleware.

  A handler is a state transformer on a connection \<open>'w conn\<close>: the state \<open>'w\<close> behind the use
  cases, the response written so far, the log lines emitted and the table of the rate limiter.
  It ends with \<open>Ok\<close> or, where the Go code panics, with \<open>Panic\<close>.  A middleware takes the next
  handler and gives a handler, as in the source.
\<close>

section \<open>Requests and responses\<close>

text \<open>The body of a request: the length of its first JSON value with what precedes it, and the
  value, unless the bytes are not JSON.\<close>

record body =
  bd_len :: nat
  bd_json :: "json option"

text \<open>The values in a request's context: the fields of the logger, the caller, the request id.\<close>

record req_context =
  cx_logger :: "(string \<times> string) list option"
  cx_userID :: "uuid option"
  cx_requestID :: "string option"

text \<open>\<open>rq_path\<close> holds the segments of the cleaned and unescaped path.\<close>

record request =
  rq_Method :: string
  rq_path :: "string list"
  rq_query :: "(string \<times> string) list"
  rq_header :: "(string \<times> string) list"
  rq_RemoteAddr :: string
  rq_body :: body
  rq_pathvalue :: "(string \<times> string) list"
  rq_ctx :: req_context

text \<open>\<open>r.Header.Get\<close>, \<open>r.URL.Query().Get\<close> and \<open>r.PathValue\<close>: the first value, or the empty text.\<close>

definition first_value :: "(string \<times> string) list \<Rightarrow> string \<Rightarrow> string" where
  "first_value kvs k = (case map_of kvs k of None \<Rightarrow> [] | Some v \<Rightarrow> v)"

text \<open>The writer: headers so far, status and headers once sent, the body, the status that the last
  \<open>WriteHeader\<close> passed to \<open>statusWriter\<close>, and whether the writer is an \<open>http.Hijacker\<close>.\<close>

record writer =
  wr_header :: "(string \<times> string) list"
  wr_sent :: "(nat \<times> (string \<times> string) list) option"
  wr_body :: "raw list"
  wr_status :: nat
  wr_hijacker :: bool

datatype log_level = LDebug | LWarn | LError

record log_line =
  ll_level :: log_level
  ll_fields :: "(string \<times> string) list"
  ll_msg :: string

record rate_entry =
  re_count :: int
  re_resetAt :: time

record 'w conn =
  cn_world :: 'w
  cn_out :: writer
  cn_log :: "log_line list"
  cn_rate :: "string \<rightharpoonup> rate_entry"

type_synonym 'w handler = "request \<Rightarrow> ('w conn, unit) io"

text \<open>What the layer takes from libraries: \<open>uuid.Parse\<close>, \<open>uuid.UUID.String\<close>, \<open>time.Parse\<close> with
  \<open>RFC3339Nano\<close>, the texts of driver errors, and zerolog's \<open>DefaultContextLogger\<close>.\<close>

record golib =
  gl_uuid_Parse :: "string \<Rightarrow> uuid option"
  gl_uuid_String :: "uuid \<Rightarrow> string"
  gl_time_Parse :: "string \<Rightarrow> time option"
  gl_db_text :: "db_error \<Rightarrow> string"
  gl_DefaultContextLogger :: "(string \<times> string) list option"

definition StatusOK :: nat where "StatusOK = 200"
definition StatusCreated :: nat where "StatusCreated = 201"
definition StatusNoContent :: nat where "StatusNoContent = 204"
definition StatusBadRequest :: nat where "StatusBadRequest = 400"
definition StatusUnauthorized :: nat where "StatusUnauthorized = 401"
definition StatusForbidden :: nat where "StatusForbidden = 403"
definition StatusNotFound :: nat where "StatusNotFound = 404"
definition StatusMethodNotAllowed :: nat where "StatusMethodNotAllowed = 405"
definition StatusConflict :: nat where "StatusConflict = 409"
definition StatusGone :: nat where "StatusGone = 410"
definition StatusUnprocessableEntity :: nat where "StatusUnprocessableEntity = 422"
definition StatusTooManyRequests :: nat where "StatusTooManyRequests = 429"
definition StatusInternalServerError :: nat where "StatusInternalServerError = 500"
definition StatusServiceUnavailable :: nat where "StatusServiceUnavailable = 503"

lemmas Status_defs = StatusOK_def StatusCreated_def StatusNoContent_def StatusBadRequest_def
  StatusUnauthorized_def StatusForbidden_def StatusNotFound_def StatusMethodNotAllowed_def
  StatusConflict_def StatusGone_def StatusUnprocessableEntity_def StatusTooManyRequests_def
  StatusInternalServerError_def StatusServiceUnavailable_def

section \<open>Writing\<close>

definition on_out :: "(writer \<Rightarrow> writer) \<Rightarrow> ('w conn, unit) io" where
  "on_out f s = (Ok (), s\<lparr>cn_out := f (cn_out s)\<rparr>)"

definition header_Set :: "string \<Rightarrow> string \<Rightarrow> ('w conn, unit) io" where
  "header_Set k v = on_out (\<lambda>out. out\<lparr>wr_header := filter (\<lambda>(k', _). k' \<noteq> k) (wr_header out) @ [(k, v)]\<rparr>)"

definition header_Add :: "string \<Rightarrow> string \<Rightarrow> ('w conn, unit) io" where
  "header_Add k v = on_out (\<lambda>out. out\<lparr>wr_header := wr_header out @ [(k, v)]\<rparr>)"

text \<open>The first \<open>WriteHeader\<close> sends; a later one is superfluous.\<close>

definition out_WriteHeader :: "nat \<Rightarrow> writer \<Rightarrow> writer" where
  "out_WriteHeader status out =
     (case wr_sent out of
        None \<Rightarrow> out\<lparr>wr_sent := Some (status, wr_header out), wr_status := status\<rparr>
      | Some _ \<Rightarrow> out\<lparr>wr_status := status\<rparr>)"

definition WriteHeader :: "nat \<Rightarrow> ('w conn, unit) io" where
  "WriteHeader status = on_out (out_WriteHeader status)"

text \<open>\<open>Write\<close> sends 200 first when nothing was sent; \<open>statusWriter\<close> does not see that.\<close>

definition out_Write :: "raw \<Rightarrow> writer \<Rightarrow> writer" where
  "out_Write b out =
     (let sent = (if wr_sent out = None then out\<lparr>wr_sent := Some (StatusOK, wr_header out)\<rparr> else out)
      in sent\<lparr>wr_body := wr_body sent @ [b]\<rparr>)"

definition Write :: "raw \<Rightarrow> ('w conn, unit) io" where
  "Write b = on_out (out_Write b)"

text \<open>Run an operation on the state behind the use cases.\<close>

definition on_world :: "('w, 'a) io \<Rightarrow> ('w conn, 'a) io" where
  "on_world m s = (fst (m (cn_world s)), s\<lparr>cn_world := snd (m (cn_world s))\<rparr>)"

text \<open>\<open>zerolog.Ctx(ctx)\<close> and a line through it: the context's logger, else the library's default,
  else the disabled logger.\<close>

definition log_ctx :: "golib \<Rightarrow> req_context \<Rightarrow> log_level \<Rightarrow> (string \<times> string) list \<Rightarrow> string \<Rightarrow> ('w conn, unit) io" where
  "log_ctx L ctx level extra msg s =
     (case (case cx_logger ctx of Some fs \<Rightarrow> Some fs | None \<Rightarrow> gl_DefaultContextLogger L) of
        None \<Rightarrow> (Ok (), s)
      | Some fs \<Rightarrow> (Ok (), s\<lparr>cn_log := cn_log s @ [\<lparr>ll_level = level, ll_fields = fs @ extra, ll_msg = msg\<rparr>]\<rparr>))"

section \<open>Package response\<close>

record Body =
  body_Data :: "json option"
  body_Error :: string

definition json_of_Body :: "Body \<Rightarrow> json" where
  "json_of_Body b = JObj (opt_ptr ''data'' (\<lambda>j. j) (body_Data b) @ opt_str ''error'' (body_Error b))"

definition response_JSON :: "nat \<Rightarrow> Body \<Rightarrow> ('w conn, unit) io" where
  "response_JSON status v =
     call (header_Set ''Content-Type'' ''application/json'') (\<lambda>_.
     call (WriteHeader status) (\<lambda>_. Write (Json (json_of_Body v))))"

definition response_OK :: "json \<Rightarrow> ('w conn, unit) io" where
  "response_OK data = response_JSON StatusOK \<lparr>body_Data = Some data, body_Error = []\<rparr>"

definition response_Created :: "json \<Rightarrow> ('w conn, unit) io" where
  "response_Created data = response_JSON StatusCreated \<lparr>body_Data = Some data, body_Error = []\<rparr>"

definition response_NoContent :: "('w conn, unit) io" where
  "response_NoContent = WriteHeader StatusNoContent"

definition response_BadRequest :: "('w conn, unit) io" where
  "response_BadRequest = response_JSON StatusBadRequest \<lparr>body_Data = None, body_Error = ''bad request''\<rparr>"

definition statusCode :: "goerr \<Rightarrow> nat" where
  "statusCode err =
     (if errors_Is err ErrUserNotFound \<or> errors_Is err ErrChatNotFound \<or> errors_Is err ErrMessageNotFound
      then StatusNotFound
      else if errors_Is err ErrInvalidCredentials \<or> errors_Is err ErrInvalidToken \<or> errors_Is err ErrExpiredToken
      then StatusUnauthorized
      else if errors_Is err ErrEmailTaken \<or> errors_Is err ErrUsernameTaken \<or> errors_Is err ErrAlreadyChatMember
      then StatusConflict
      else if errors_Is err ErrNotChatMember \<or> errors_Is err ErrInsufficientRights
        \<or> errors_Is err ErrNotMessageAuthor \<or> errors_Is err ErrForbidden \<or> errors_Is err ErrCannotRemoveOwner
      then StatusForbidden
      else if errors_Is err ErrMessageDeleted then StatusGone
      else if errors_Is err ErrValidation then StatusUnprocessableEntity
      else StatusInternalServerError)"

text \<open>\<open>err.Error()\<close>.\<close>

fun error_text :: "golib \<Rightarrow> goerr \<Rightarrow> string" where
  "error_text L (Dom d) = domain_text d"
| "error_text L (Wrapf pre e post) = pre @ error_text L e @ post"
| "error_text L (Db e) = gl_db_text L e"
| "error_text L (Lib s) = s"

definition response_Err :: "golib \<Rightarrow> request \<Rightarrow> goerr \<Rightarrow> ('w conn, unit) io" where
  "response_Err L r err =
     (let status = statusCode err in
      call (if status \<ge> 500
            then log_ctx L (rq_ctx r) LError [(''error'', error_text L err)] ''internal error''
            else ret ()) (\<lambda>_.
      response_JSON status \<lparr>body_Data = None, body_Error = error_text L err\<rparr>))"

end
