(* ===== verification/Middleware.thy ===== *)
theory Middleware
  imports Http
begin

text \<open>
  internal/delivery/http/middleware, one definition per middleware, in the order of the source
  files.  The state of the rate limiter is a field of the connection and its clock is a
  parameter.
\<close>

section \<open>Authentication (auth.go)\<close>

definition unauthorized :: "('w conn, unit) io" where
  "unauthorized = response_JSON StatusUnauthorized \<lparr>body_Data = None, body_Error = ''unauthorized''\<rparr>"

text \<open>\<open>zerolog.Ctx(ctx).With().Str(k, v).Logger()\<close> put back on the context: a disabled logger is not
  stored.\<close>

definition with_log_field :: "golib \<Rightarrow> string \<Rightarrow> string \<Rightarrow> req_context \<Rightarrow> req_context" where
  "with_log_field L k v ctx =
     (case (case cx_logger ctx of Some fs \<Rightarrow> Some fs | None \<Rightarrow> gl_DefaultContextLogger L) of
        None \<Rightarrow> ctx
      | Some fs \<Rightarrow> ctx\<lparr>cx_logger := Some (fs @ [(k, v)])\<rparr>)"

definition mw_Auth :: "golib \<Rightarrow> (string \<Rightarrow> ('w, uuid) io) \<Rightarrow> 'w handler \<Rightarrow> 'w handler" where
  "mw_Auth L validate next r =
     (let hdr = first_value (rq_header r) ''Authorization'' in
      if hdr = [] then unauthorized
      else
      case SplitN2 (CHR '' '') hdr of
        [scheme, token] \<Rightarrow>
          if \<not> EqualFold scheme ''bearer'' then unauthorized
          else
          branch (on_world (validate token))
            (\<lambda>userID. next (r\<lparr>rq_ctx :=
               (with_log_field L ''user_id'' (gl_uuid_String L userID) (rq_ctx r))\<lparr>cx_userID := Some userID\<rparr>\<rparr>))
            (\<lambda>err. call (log_ctx L (rq_ctx r) LDebug [(''error'', error_text L err)] ''auth: invalid token'')
               (\<lambda>_. unauthorized))
      | _ \<Rightarrow> unauthorized)"

definition mw_UserID :: "request \<Rightarrow> ('w conn, uuid) io" where
  "mw_UserID r =
     (case cx_userID (rq_ctx r) of
        None \<Rightarrow> panic ''interface conversion: interface {} is nil, not uuid.UUID''
      | Some u \<Rightarrow> ret u)"

section \<open>Cross-origin requests (cors.go)\<close>

definition corsAllowMethods :: string where
  "corsAllowMethods = ''GET, POST, PUT, PATCH, DELETE, OPTIONS''"

definition corsAllowHeaders :: string where
  "corsAllowHeaders = ''Content-Type, Authorization, X-Request-ID''"

definition corsExposeHeaders :: string where
  "corsExposeHeaders = ''X-Request-ID''"

definition corsMaxAge :: string where
  "corsMaxAge = ''3600''"

definition cors_allowAll :: "string list \<Rightarrow> bool" where
  "cors_allowAll allowedOrigins \<longleftrightarrow> allowedOrigins = [] \<or> allowedOrigins = [''*'']"

definition cors_isAllowed :: "string list \<Rightarrow> string \<Rightarrow> bool" where
  "cors_isAllowed allowedOrigins origin \<longleftrightarrow>
     cors_allowAll allowedOrigins \<or> list_ex (\<lambda>a. EqualFold a origin) allowedOrigins"

definition mw_CORS :: "string list \<Rightarrow> 'w handler \<Rightarrow> 'w handler" where
  "mw_CORS allowedOrigins next r =
     (let origin = first_value (rq_header r) ''Origin'' in
      call (if origin \<noteq> [] \<and> cors_isAllowed allowedOrigins origin then
              (if cors_allowAll allowedOrigins then header_Set ''Access-Control-Allow-Origin'' ''*''
               else
               call (header_Set ''Access-Control-Allow-Origin'' origin) (\<lambda>_.
               call (header_Set ''Access-Control-Allow-Credentials'' ''true'') (\<lambda>_.
               header_Add ''Vary'' ''Origin'')))
            else ret ()) (\<lambda>_.
      if rq_Method r = ''OPTIONS'' then
        call (header_Set ''Access-Control-Allow-Methods'' corsAllowMethods) (\<lambda>_.
        call (header_Set ''Access-Control-Allow-Headers'' corsAllowHeaders) (\<lambda>_.
        call (header_Set ''Access-Control-Max-Age'' corsMaxAge) (\<lambda>_.
        WriteHeader StatusNoContent)))
      else
        call (header_Set ''Access-Control-Expose-Headers'' corsExposeHeaders) (\<lambda>_. next r)))"

section \<open>Logging, body limit, recovery (logger.go)\<close>

definition logEvent :: "nat \<Rightarrow> log_level" where
  "logEvent status = (if status \<ge> 500 then LError else if status \<ge> 400 then LWarn else LDebug)"

text \<open>\<open>strings.LastIndex(s, ":")\<close> and the text before it.\<close>

definition before_last_colon :: "string \<Rightarrow> string option" where
  "before_last_colon s =
     (if CHR '':'' \<in> set s then Some (rev (tl (dropWhile (\<lambda>c. c \<noteq> CHR '':'') (rev s)))) else None)"

definition clientIP :: "request \<Rightarrow> string" where
  "clientIP r =
     (let real = first_value (rq_header r) ''X-Real-IP''; fwd = first_value (rq_header r) ''X-Forwarded-For''
      in if real \<noteq> [] then real
         else if fwd \<noteq> [] then TrimSpace (hd (SplitN2 (CHR '','') fwd))
         else case before_last_colon (rq_RemoteAddr r) of Some s \<Rightarrow> s | None \<Rightarrow> rq_RemoteAddr r)"

text \<open>\<open>statusWriter\<close> embeds the interface \<open>http.ResponseWriter\<close>: it has the three methods of the
  interface and hides every other one of the writer it wraps, \<open>Hijack\<close> included.\<close>

definition wrap_status :: "writer \<Rightarrow> writer" where
  "wrap_status out = out\<lparr>wr_status := StatusOK, wr_hijacker := False\<rparr>"

text \<open>\<open>r.URL.Path\<close>.\<close>

definition url_path :: "request \<Rightarrow> string" where
  "url_path r = (if rq_path r = [] then ''/'' else concat (map (\<lambda>p. CHR ''/'' # p) (rq_path r)))"

text \<open>The fields of a line are texts; the latency, which the clock decides, is left out of it.\<close>

definition mw_RequestLogger :: "golib \<Rightarrow> 'w handler \<Rightarrow> 'w handler" where
  "mw_RequestLogger L next r =
     call (on_out wrap_status) (\<lambda>_.
     call (next r) (\<lambda>_ s.
     log_ctx L (rq_ctx r) (logEvent (wr_status (cn_out s)))
       [(''method'', rq_Method r), (''path'', url_path r), (''status'', nat_text (wr_status (cn_out s))), (''ip'', clientIP r)] ''http'' s))"

definition mw_LimitBody :: "int \<Rightarrow> 'w handler \<Rightarrow> 'w handler" where
  "mw_LimitBody maxBytes next r =
     next (if int (bd_len (rq_body r)) > maxBytes
           then r\<lparr>rq_body := (rq_body r)\<lparr>bd_json := None\<rparr>\<rparr> else r)"

definition mw_Recovery :: "golib \<Rightarrow> 'w handler \<Rightarrow> 'w handler" where
  "mw_Recovery L next r s =
     (case next r s of
        (Panic rv, s') \<Rightarrow>
          call (log_ctx L (rq_ctx r) LError [(''panic'', rv)] ''recovered from panic'') (\<lambda>_.
          call (header_Set ''Content-Type'' ''application/json'') (\<lambda>_.
          call (WriteHeader StatusInternalServerError) (\<lambda>_.
          Write (Json (JObj [(''error'', JStr ''internal server error'')]))))) s'
      | r \<Rightarrow> r)"

section \<open>Rate limiting (ratelimit.go)\<close>

text \<open>\<open>time.NewTicker(window * 10)\<close> panics unless the period is positive; the product wraps.
  It runs in a goroutine of its own, where a panic ends the process.\<close>

definition cleanup_period :: "duration \<Rightarrow> duration" where
  "cleanup_period window = sint (word_of_int (window * 10) :: 64 word)"

definition start_cleanup :: "duration \<Rightarrow> ('w, unit) io" where
  "start_cleanup window =
     (if cleanup_period window \<le> 0 then panic ''non-positive interval for NewTicker'' else ret ())"

definition purge_stale :: "time \<Rightarrow> (string \<rightharpoonup> rate_entry) \<Rightarrow> (string \<rightharpoonup> rate_entry)" where
  "purge_stale now clients = (\<lambda>ip. case clients ip of
     None \<Rightarrow> None | Some e \<Rightarrow> if time_After now (re_resetAt e) then None else Some e)"

text \<open>The section under the mutex: whether the request is over the limit, and the new table.\<close>

definition rate_step ::
  "int \<Rightarrow> duration \<Rightarrow> time \<Rightarrow> string \<Rightarrow> (string \<rightharpoonup> rate_entry) \<Rightarrow> bool \<times> (string \<rightharpoonup> rate_entry)" where
  "rate_step maxReqs window now ip clients =
     (case clients ip of
        None \<Rightarrow> (False, clients(ip \<mapsto> \<lparr>re_count = 1, re_resetAt = time_Add now window\<rparr>))
      | Some e \<Rightarrow>
          if time_After now (re_resetAt e)
          then (False, clients(ip \<mapsto> \<lparr>re_count = 1, re_resetAt = time_Add now window\<rparr>))
          else let count = re_count e + 1
               in (count > maxReqs, clients(ip \<mapsto> e\<lparr>re_count := count\<rparr>)))"

definition mw_RateLimit :: "golib \<Rightarrow> ('w, time) io \<Rightarrow> int \<Rightarrow> duration \<Rightarrow> 'w handler \<Rightarrow> 'w handler" where
  "mw_RateLimit L clock maxReqs window next r =
     call (on_world clock) (\<lambda>now s.
     let ip = clientIP r; (over, clients) = rate_step maxReqs window now ip (cn_rate s);
         s' = s\<lparr>cn_rate := clients\<rparr>
     in if over then
          call (log_ctx L (rq_ctx r) LWarn [(''ip'', ip)] ''rate limit exceeded'') (\<lambda>_.
          call (header_Set ''Content-Type'' ''application/json'') (\<lambda>_.
          call (WriteHeader StatusTooManyRequests) (\<lambda>_.
          Write (Json (JObj [(''error'', JStr ''too many requests'')]))))) s'
        else next r s')"

section \<open>Request identifiers (requestid.go)\<close>

definition mw_RequestID :: "golib \<Rightarrow> uuid \<Rightarrow> 'w handler \<Rightarrow> 'w handler" where
  "mw_RequestID L newID next r =
     (let rid = (let h = first_value (rq_header r) ''X-Request-ID''
                 in if h = [] then gl_uuid_String L newID else h)
      in call (header_Set ''X-Request-ID'' rid) (\<lambda>_.
         next (r\<lparr>rq_ctx := (rq_ctx r)\<lparr>cx_logger := Some [(''request_id'', rid)], cx_requestID := Some rid\<rparr>\<rparr>)))"

definition mw_GetRequestID :: "request \<Rightarrow> string" where
  "mw_GetRequestID r = (case cx_requestID (rq_ctx r) of Some rid \<Rightarrow> rid | None \<Rightarrow> [])"

end
