(* ===== verification/UseCases.thy ===== *)
theory UseCases
  imports UcUser UcChat UcMessage
begin

text \<open>
  internal/usecase: the interfaces that the handlers hold (usecase.go of the three packages) as
  records of operations, and the constructors \<open>New\<close> that fill them with the services.  The
  constructors take the clock reading and the fresh identifier that one request uses.
\<close>

record 'w UserUseCase =
  uu_Register :: "RegisterInput \<Rightarrow> ('w, User \<times> TokenPair) io"
  uu_Login :: "LoginInput \<Rightarrow> ('w, User \<times> TokenPair) io"
  uu_RefreshToken :: "string \<Rightarrow> ('w, TokenPair) io"
  uu_GetProfile :: "uuid \<Rightarrow> ('w, User) io"
  uu_UpdateProfile :: "uuid \<Rightarrow> UpdateProfileInput \<Rightarrow> ('w, User) io"
  uu_Search :: "SearchInput \<Rightarrow> ('w, User list) io"
  uu_SetOnline :: "uuid \<Rightarrow> ('w, unit) io"
  uu_SetOffline :: "uuid \<Rightarrow> ('w, unit) io"

record 'w ChatUseCase =
  cu_CreateDirect :: "uuid \<Rightarrow> CreateDirectInput \<Rightarrow> ('w, Chat \<times> bool) io"
  cu_CreateGroup :: "uuid \<Rightarrow> CreateGroupInput \<Rightarrow> ('w, Chat) io"
  cu_GetChat :: "uuid \<Rightarrow> uuid \<Rightarrow> ('w, Chat) io"
  cu_GetUserChats :: "uuid \<Rightarrow> ('w, ChatPreview list) io"
  cu_UpdateGroup :: "uuid \<Rightarrow> uuid \<Rightarrow> UpdateGroupInput \<Rightarrow> ('w, Chat) io"
  cu_AddMember :: "uuid \<Rightarrow> uuid \<Rightarrow> AddMemberInput \<Rightarrow> ('w, unit) io"
  cu_RemoveMember :: "uuid \<Rightarrow> uuid \<Rightarrow> uuid \<Rightarrow> ('w, unit) io"
  cu_ChangeMemberRole :: "uuid \<Rightarrow> uuid \<Rightarrow> ChangeMemberRoleInput \<Rightarrow> ('w, unit) io"
  cu_LeaveChat :: "uuid \<Rightarrow> uuid \<Rightarrow> ('w, unit) io"
  cu_GetMembers :: "uuid \<Rightarrow> uuid \<Rightarrow> ('w, ChatMember list) io"

record 'w MessageUseCase =
  mu_Send :: "uuid \<Rightarrow> SendInput \<Rightarrow> ('w, Message) io"
  mu_GetHistory :: "uuid \<Rightarrow> ListInput \<Rightarrow> ('w, PageResult) io"
  mu_Edit :: "uuid \<Rightarrow> uuid \<Rightarrow> EditInput \<Rightarrow> ('w, Message) io"
  mu_Delete :: "uuid \<Rightarrow> uuid \<Rightarrow> ('w, unit) io"
  mu_MarkRead :: "uuid \<Rightarrow> uuid \<Rightarrow> ('w, unit) io"
  mu_AddReaction :: "uuid \<Rightarrow> uuid \<Rightarrow> ReactInput \<Rightarrow> ('w, unit) io"
  mu_RemoveReaction :: "uuid \<Rightarrow> uuid \<Rightarrow> ReactInput \<Rightarrow> ('w, unit) io"

definition users_New ::
  "'w UserRepository \<Rightarrow> 'w passwordHasher \<Rightarrow> 'w tokenManager \<Rightarrow> time \<Rightarrow> uuid \<Rightarrow> 'w UserUseCase" where
  "users_New users h j now newID = \<lparr>
     uu_Register = users_Register users h j now newID,
     uu_Login = users_Login users h j,
     uu_RefreshToken = users_RefreshToken users j,
     uu_GetProfile = users_GetProfile users,
     uu_UpdateProfile = users_UpdateProfile users now,
     uu_Search = users_Search users,
     uu_SetOnline = users_SetOnline users now,
     uu_SetOffline = users_SetOffline users now\<rparr>"

definition chats_New ::
  "'w ChatRepository \<Rightarrow> 'w UserRepository \<Rightarrow> time \<Rightarrow> uuid \<Rightarrow> 'w ChatUseCase" where
  "chats_New chats users now newID = \<lparr>
     cu_CreateDirect = chats_CreateDirect chats (ur_GetByID users) now newID,
     cu_CreateGroup = chats_CreateGroup chats (ur_GetByID users) now newID,
     cu_GetChat = chats_GetChat chats,
     cu_GetUserChats = chats_GetUserChats chats,
     cu_UpdateGroup = chats_UpdateGroup chats now,
     cu_AddMember = chats_AddMember chats (ur_GetByID users) now,
     cu_RemoveMember = chats_RemoveMember chats,
     cu_ChangeMemberRole = chats_ChangeMemberRole chats,
     cu_LeaveChat = chats_LeaveChat chats,
     cu_GetMembers = chats_GetMembers chats\<rparr>"

definition messages_New ::
  "'w MessageRepository \<Rightarrow> 'w ChatRepository \<Rightarrow> time \<Rightarrow> uuid \<Rightarrow> 'w MessageUseCase" where
  "messages_New messages chats now newID = \<lparr>
     mu_Send = messages_Send messages chats now newID,
     mu_GetHistory = messages_GetHistory messages chats,
     mu_Edit = messages_Edit messages chats now,
     mu_Delete = messages_Delete messages chats,
     mu_MarkRead = messages_MarkRead messages chats,
     mu_AddReaction = messages_AddReaction messages chats now,
     mu_RemoveReaction = messages_RemoveReaction messages chats\<rparr>"

end
