(* ===== verification/Handlers.thy ===== *)
theory Handlers
  imports Middleware UseCases
begin

text \<open>
  internal/delivery/http/handler: the handlers of user.go, chat.go and message.go, over the
  use-case interfaces, with the decoding of their JSON bodies and query parameters.
\<close>

section \<open>Bodies\<close>

text \<open>
  \<open>json.NewDecoder(r.Body).Decode(&in)\<close>: keys match the tag with or without case, a later key
  overwrites an earlier one, unknown keys are skipped, \<open>null\<close> leaves a value alone and clears a
  pointer or a slice, a value of another type is an error.
\<close>

definition decode_key ::
  "(string \<times> json) list \<Rightarrow> string \<Rightarrow> (json \<Rightarrow> 'a \<Rightarrow> 'a option) \<Rightarrow> 'a \<Rightarrow> 'a option" where
  "decode_key fs name assign zero =
     foldl (\<lambda>acc (k, j). if EqualFold k name then Option.bind acc (assign j) else acc) (Some zero) fs"

definition decode_struct :: "((string \<times> json) list \<Rightarrow> 'a option) \<Rightarrow> json \<Rightarrow> 'a option" where
  "decode_struct f j = (case j of JNull \<Rightarrow> f [] | JObj fs \<Rightarrow> f fs | _ \<Rightarrow> None)"

fun assign_str :: "json \<Rightarrow> string \<Rightarrow> string option" where
  "assign_str JNull v = Some v"
| "assign_str (JStr s) v = Some s"
| "assign_str j v = None"

fun assign_str_ptr :: "json \<Rightarrow> string option \<Rightarrow> string option option" where
  "assign_str_ptr JNull v = Some None"
| "assign_str_ptr (JStr s) v = Some (Some s)"
| "assign_str_ptr j v = None"

fun assign_uuid :: "golib \<Rightarrow> json \<Rightarrow> uuid \<Rightarrow> uuid option" where
  "assign_uuid L JNull v = Some v"
| "assign_uuid L (JStr s) v = gl_uuid_Parse L s"
| "assign_uuid L j v = None"

fun assign_uuid_ptr :: "golib \<Rightarrow> json \<Rightarrow> uuid option \<Rightarrow> uuid option option" where
  "assign_uuid_ptr L JNull v = Some None"
| "assign_uuid_ptr L (JStr s) v = map_option Some (gl_uuid_Parse L s)"
| "assign_uuid_ptr L j v = None"

fun assign_uuids :: "golib \<Rightarrow> json \<Rightarrow> uuid list \<Rightarrow> uuid list option" where
  "assign_uuids L JNull v = Some []"
| "assign_uuids L (JArr js) v = those (map (\<lambda>j. assign_uuid L j uuid_Nil) js)"
| "assign_uuids L j v = None"

definition RegisterInput_of_json :: "json \<Rightarrow> RegisterInput option" where
  "RegisterInput_of_json = decode_struct (\<lambda>fs.
     Option.bind (decode_key fs ''username'' assign_str []) (\<lambda>n.
     Option.bind (decode_key fs ''email'' assign_str []) (\<lambda>e.
     Option.bind (decode_key fs ''password'' assign_str []) (\<lambda>p.
     Some \<lparr>rgi_Username = n, rgi_Email = e, rgi_Password = p\<rparr>))))"

definition LoginInput_of_json :: "json \<Rightarrow> LoginInput option" where
  "LoginInput_of_json = decode_struct (\<lambda>fs.
     Option.bind (decode_key fs ''email'' assign_str []) (\<lambda>e.
     Option.bind (decode_key fs ''password'' assign_str []) (\<lambda>p.
     Some \<lparr>lgi_Email = e, lgi_Password = p\<rparr>)))"

definition refresh_of_json :: "json \<Rightarrow> string option" where
  "refresh_of_json = decode_struct (\<lambda>fs. decode_key fs ''refresh_token'' assign_str [])"

definition UpdateProfileInput_of_json :: "json \<Rightarrow> UpdateProfileInput option" where
  "UpdateProfileInput_of_json = decode_struct (\<lambda>fs.
     Option.bind (decode_key fs ''username'' assign_str_ptr None) (\<lambda>n.
     Option.bind (decode_key fs ''bio'' assign_str_ptr None) (\<lambda>b.
     Option.bind (decode_key fs ''avatar_url'' assign_str_ptr None) (\<lambda>a.
     Some \<lparr>upi_Username = n, upi_Bio = b, upi_AvatarURL = a\<rparr>))))"

definition CreateDirectInput_of_json :: "golib \<Rightarrow> json \<Rightarrow> CreateDirectInput option" where
  "CreateDirectInput_of_json L = decode_struct (\<lambda>fs.
     Option.bind (decode_key fs ''target_user_id'' (assign_uuid L) uuid_Nil) (\<lambda>u.
     Some \<lparr>cdi_TargetUserID = u\<rparr>))"

definition CreateGroupInput_of_json :: "golib \<Rightarrow> json \<Rightarrow> CreateGroupInput option" where
  "CreateGroupInput_of_json L = decode_struct (\<lambda>fs.
     Option.bind (decode_key fs ''name'' assign_str []) (\<lambda>n.
     Option.bind (decode_key fs ''description'' assign_str []) (\<lambda>d.
     Option.bind (decode_key fs ''member_ids'' (assign_uuids L) []) (\<lambda>ms.
     Some \<lparr>cgi_Name = n, cgi_Description = d, cgi_MemberIDs = ms\<rparr>))))"

definition UpdateGroupInput_of_json :: "json \<Rightarrow> UpdateGroupInput option" where
  "UpdateGroupInput_of_json = decode_struct (\<lambda>fs.
     Option.bind (decode_key fs ''name'' assign_str_ptr None) (\<lambda>n.
     Option.bind (decode_key fs ''description'' assign_str_ptr None) (\<lambda>d.
     Option.bind (decode_key fs ''avatar_url'' assign_str_ptr None) (\<lambda>a.
     Some \<lparr>ugi_Name = n, ugi_Description = d, ugi_AvatarURL = a\<rparr>))))"

definition AddMemberInput_of_json :: "golib \<Rightarrow> json \<Rightarrow> AddMemberInput option" where
  "AddMemberInput_of_json L = decode_struct (\<lambda>fs.
     Option.bind (decode_key fs ''user_id'' (assign_uuid L) uuid_Nil) (\<lambda>u.
     Some \<lparr>ami_UserID = u\<rparr>))"

definition ChangeMemberRoleInput_of_json :: "golib \<Rightarrow> json \<Rightarrow> ChangeMemberRoleInput option" where
  "ChangeMemberRoleInput_of_json L = decode_struct (\<lambda>fs.
     Option.bind (decode_key fs ''user_id'' (assign_uuid L) uuid_Nil) (\<lambda>u.
     Option.bind (decode_key fs ''role'' assign_str []) (\<lambda>r.
     Some \<lparr>cri_UserID = u, cri_Role = r\<rparr>)))"

record SendBody =
  sb_Content :: string
  sb_Type :: MessageType
  sb_ReplyToID :: "uuid option"

definition SendBody_of_json :: "golib \<Rightarrow> json \<Rightarrow> SendBody option" where
  "SendBody_of_json L = decode_struct (\<lambda>fs.
     Option.bind (decode_key fs ''content'' assign_str []) (\<lambda>c.
     Option.bind (decode_key fs ''type'' assign_str []) (\<lambda>t.
     Option.bind (decode_key fs ''reply_to_id'' (assign_uuid_ptr L) None) (\<lambda>r.
     Some \<lparr>sb_Content = c, sb_Type = t, sb_ReplyToID = r\<rparr>))))"

definition EditInput_of_json :: "json \<Rightarrow> EditInput option" where
  "EditInput_of_json = decode_struct (\<lambda>fs.
     Option.bind (decode_key fs ''content'' assign_str []) (\<lambda>c. Some \<lparr>ei_Content = c\<rparr>))"

definition ReactInput_of_json :: "json \<Rightarrow> ReactInput option" where
  "ReactInput_of_json = decode_struct (\<lambda>fs.
     Option.bind (decode_key fs ''emoji'' assign_str []) (\<lambda>e. Some \<lparr>ri_Emoji = e\<rparr>))"

section \<open>Answers\<close>

text \<open>A Go slice: the repositories build their results with \<open>append\<close> on a nil slice, so an empty
  result is nil and encodes as \<open>null\<close>.\<close>

definition json_of_slice :: "('a \<Rightarrow> json) \<Rightarrow> 'a list \<Rightarrow> json" where
  "json_of_slice f xs = (if xs = [] then JNull else JArr (map f xs))"

definition json_of_TokenPair :: "TokenPair \<Rightarrow> json" where
  "json_of_TokenPair t = JObj [(''access_token'', JStr (tp_AccessToken t)),
     (''refresh_token'', JStr (tp_RefreshToken t))]"

definition json_of_PageResult :: "PageResult \<Rightarrow> json" where
  "json_of_PageResult p = JObj ([(''messages'', json_of_slice json_of_Message (pg_Messages p))]
     @ opt_ptr ''next_cursor'' json_of_MessageCursor (pg_NextCursor p))"

section \<open>Parameters (user.go)\<close>

definition is_digit :: "char \<Rightarrow> bool" where
  "is_digit c \<longleftrightarrow> (let n = of_char c :: nat in 48 \<le> n \<and> n \<le> 57)"

definition digit_value :: "char \<Rightarrow> int" where
  "digit_value c = of_char c - 48"

text \<open>\<open>strconv.Atoi\<close>: an optional sign and decimal digits in the range of a 64-bit \<open>int\<close>.\<close>

definition Atoi :: "string \<Rightarrow> int option" where
  "Atoi s =
     (let neg = (s \<noteq> [] \<and> hd s = CHR ''-'');
          ds = (if s \<noteq> [] \<and> (hd s = CHR ''-'' \<or> hd s = CHR ''+'') then tl s else s);
          v = foldl (\<lambda>n c. 10 * n + digit_value c) 0 ds;
          i = (if neg then - v else v)
      in if ds = [] \<or> \<not> list_all is_digit ds then None
         else if - (2 ^ 63) \<le> i \<and> i < 2 ^ 63 then Some i else None)"

definition queryInt :: "string \<Rightarrow> int \<Rightarrow> int" where
  "queryInt s defaultVal =
     (if s = [] then defaultVal else case Atoi s of None \<Rightarrow> defaultVal | Some v \<Rightarrow> v)"

definition parseUUID :: "golib \<Rightarrow> request \<Rightarrow> string \<Rightarrow> uuid option" where
  "parseUUID L r key = gl_uuid_Parse L (first_value (rq_pathvalue r) key)"

text \<open>The idioms of every handler: decode or 400, parse or 400, call the use case or report.\<close>

definition with_body :: "request \<Rightarrow> (json \<Rightarrow> 'i option) \<Rightarrow> ('i \<Rightarrow> ('w conn, unit) io) \<Rightarrow> ('w conn, unit) io" where
  "with_body r decode k =
     (case Option.bind (bd_json (rq_body r)) decode of
        None \<Rightarrow> response_BadRequest | Some inp \<Rightarrow> k inp)"

definition with_uuid :: "golib \<Rightarrow> request \<Rightarrow> string \<Rightarrow> (uuid \<Rightarrow> ('w conn, unit) io) \<Rightarrow> ('w conn, unit) io" where
  "with_uuid L r key k =
     (case parseUUID L r key of None \<Rightarrow> response_BadRequest | Some u \<Rightarrow> k u)"

definition answer :: "golib \<Rightarrow> request \<Rightarrow> ('w, 'a) io \<Rightarrow> ('a \<Rightarrow> ('w conn, unit) io) \<Rightarrow> ('w conn, unit) io" where
  "answer L r m k = branch (on_world m) k (response_Err L r)"

section \<open>Users (user.go)\<close>

definition json_of_session :: "User \<times> TokenPair \<Rightarrow> json" where
  "json_of_session ut = JObj [(''tokens'', json_of_TokenPair (snd ut)), (''user'', json_of_User (fst ut))]"

definition h_Register :: "golib \<Rightarrow> 'w UserUseCase \<Rightarrow> 'w handler" where
  "h_Register L uc r = with_body r RegisterInput_of_json (\<lambda>inp.
     answer L r (uu_Register uc inp) (\<lambda>ut. response_Created (json_of_session ut)))"

definition h_Login :: "golib \<Rightarrow> 'w UserUseCase \<Rightarrow> 'w handler" where
  "h_Login L uc r = with_body r LoginInput_of_json (\<lambda>inp.
     answer L r (uu_Login uc inp) (\<lambda>ut. response_OK (json_of_session ut)))"

definition h_RefreshToken :: "golib \<Rightarrow> 'w UserUseCase \<Rightarrow> 'w handler" where
  "h_RefreshToken L uc r = with_body r refresh_of_json (\<lambda>token.
     if token = [] then response_BadRequest
     else answer L r (uu_RefreshToken uc token) (\<lambda>tokens. response_OK (json_of_TokenPair tokens)))"

definition h_GetMe :: "golib \<Rightarrow> 'w UserUseCase \<Rightarrow> 'w handler" where
  "h_GetMe L uc r = call (mw_UserID r) (\<lambda>userID.
     answer L r (uu_GetProfile uc userID) (\<lambda>u. response_OK (json_of_User u)))"

definition h_UpdateMe :: "golib \<Rightarrow> 'w UserUseCase \<Rightarrow> 'w handler" where
  "h_UpdateMe L uc r = with_body r UpdateProfileInput_of_json (\<lambda>inp.
     call (mw_UserID r) (\<lambda>userID.
     answer L r (uu_UpdateProfile uc userID inp) (\<lambda>u. response_OK (json_of_User u))))"

definition h_GetProfile :: "golib \<Rightarrow> 'w UserUseCase \<Rightarrow> 'w handler" where
  "h_GetProfile L uc r = with_uuid L r ''user_id'' (\<lambda>uid.
     answer L r (uu_GetProfile uc uid) (\<lambda>u. response_OK (json_of_User u)))"

definition search_input :: "request \<Rightarrow> SearchInput" where
  "search_input r =
     (let limit = queryInt (first_value (rq_query r) ''limit'') 20
      in \<lparr>sri_Query = first_value (rq_query r) ''q'', sri_Limit = (if limit < 1 then 20 else limit),
          sri_Offset = queryInt (first_value (rq_query r) ''offset'') 0\<rparr>)"

definition h_Search :: "golib \<Rightarrow> 'w UserUseCase \<Rightarrow> 'w handler" where
  "h_Search L uc r =
     answer L r (uu_Search uc (search_input r)) (\<lambda>us. response_OK (json_of_slice json_of_User us))"

section \<open>Chats (chat.go)\<close>

definition h_CreateDirect :: "golib \<Rightarrow> 'w ChatUseCase \<Rightarrow> 'w handler" where
  "h_CreateDirect L uc r = with_body r (CreateDirectInput_of_json L) (\<lambda>inp.
     call (mw_UserID r) (\<lambda>userID.
     answer L r (cu_CreateDirect uc userID inp) (\<lambda>(ch, created).
       if created then response_Created (json_of_Chat ch) else response_OK (json_of_Chat ch))))"

definition h_CreateGroup :: "golib \<Rightarrow> 'w ChatUseCase \<Rightarrow> 'w handler" where
  "h_CreateGroup L uc r = with_body r (CreateGroupInput_of_json L) (\<lambda>inp.
     call (mw_UserID r) (\<lambda>userID.
     answer L r (cu_CreateGroup uc userID inp) (\<lambda>ch. response_Created (json_of_Chat ch))))"

definition h_GetUserChats :: "golib \<Rightarrow> 'w ChatUseCase \<Rightarrow> 'w handler" where
  "h_GetUserChats L uc r = call (mw_UserID r) (\<lambda>userID.
     answer L r (cu_GetUserChats uc userID) (\<lambda>ps. response_OK (json_of_slice json_of_ChatPreview ps)))"

definition h_GetChat :: "golib \<Rightarrow> 'w ChatUseCase \<Rightarrow> 'w handler" where
  "h_GetChat L uc r = with_uuid L r ''chat_id'' (\<lambda>chatID.
     call (mw_UserID r) (\<lambda>userID.
     answer L r (cu_GetChat uc chatID userID) (\<lambda>ch. response_OK (json_of_Chat ch))))"

definition h_UpdateGroup :: "golib \<Rightarrow> 'w ChatUseCase \<Rightarrow> 'w handler" where
  "h_UpdateGroup L uc r = with_uuid L r ''chat_id'' (\<lambda>chatID.
     with_body r UpdateGroupInput_of_json (\<lambda>inp.
     call (mw_UserID r) (\<lambda>userID.
     answer L r (cu_UpdateGroup uc chatID userID inp) (\<lambda>ch. response_OK (json_of_Chat ch)))))"

definition h_GetMembers :: "golib \<Rightarrow> 'w ChatUseCase \<Rightarrow> 'w handler" where
  "h_GetMembers L uc r = with_uuid L r ''chat_id'' (\<lambda>chatID.
     call (mw_UserID r) (\<lambda>userID.
     answer L r (cu_GetMembers uc chatID userID) (\<lambda>ms. response_OK (json_of_slice json_of_ChatMember ms))))"

definition h_AddMember :: "golib \<Rightarrow> 'w ChatUseCase \<Rightarrow> 'w handler" where
  "h_AddMember L uc r = with_uuid L r ''chat_id'' (\<lambda>chatID.
     with_body r (AddMemberInput_of_json L) (\<lambda>inp.
     call (mw_UserID r) (\<lambda>userID.
     answer L r (cu_AddMember uc chatID userID inp) (\<lambda>_. response_NoContent))))"

definition h_RemoveMember :: "golib \<Rightarrow> 'w ChatUseCase \<Rightarrow> 'w handler" where
  "h_RemoveMember L uc r = with_uuid L r ''chat_id'' (\<lambda>chatID.
     with_uuid L r ''user_id'' (\<lambda>targetID.
     call (mw_UserID r) (\<lambda>userID.
     answer L r (cu_RemoveMember uc chatID userID targetID) (\<lambda>_. response_NoContent))))"

definition h_ChangeMemberRole :: "golib \<Rightarrow> 'w ChatUseCase \<Rightarrow> 'w handler" where
  "h_ChangeMemberRole L uc r = with_uuid L r ''chat_id'' (\<lambda>chatID.
     with_uuid L r ''user_id'' (\<lambda>targetID.
     with_body r (ChangeMemberRoleInput_of_json L) (\<lambda>inp.
     call (mw_UserID r) (\<lambda>userID.
     answer L r (cu_ChangeMemberRole uc chatID userID (inp\<lparr>cri_UserID := targetID\<rparr>))
       (\<lambda>_. response_NoContent)))))"

definition h_LeaveChat :: "golib \<Rightarrow> 'w ChatUseCase \<Rightarrow> 'w handler" where
  "h_LeaveChat L uc r = with_uuid L r ''chat_id'' (\<lambda>chatID.
     call (mw_UserID r) (\<lambda>userID.
     answer L r (cu_LeaveChat uc chatID userID) (\<lambda>_. response_NoContent)))"

section \<open>Messages (message.go)\<close>

definition send_input :: "uuid \<Rightarrow> SendBody \<Rightarrow> SendInput" where
  "send_input chatID b = \<lparr>si_ChatID = chatID, si_Content = sb_Content b,
     si_Type = (if sb_Type b = [] then MessageTypeText else sb_Type b),
     si_ReplyToID = (if sb_ReplyToID b = Some uuid_Nil then None else sb_ReplyToID b)\<rparr>"

definition h_Send :: "golib \<Rightarrow> 'w MessageUseCase \<Rightarrow> 'w handler" where
  "h_Send L uc r = with_uuid L r ''chat_id'' (\<lambda>chatID.
     with_body r (SendBody_of_json L) (\<lambda>b.
     call (mw_UserID r) (\<lambda>userID.
     answer L r (mu_Send uc userID (send_input chatID b)) (\<lambda>msg. response_Created (json_of_Message msg)))))"

definition history_limit :: "request \<Rightarrow> int" where
  "history_limit r =
     (let limit = queryInt (first_value (rq_query r) ''limit'') 30
      in if limit < 1 then 30 else if limit > 100 then 100 else limit)"

text \<open>No cursor, a cursor, or a bad request.\<close>

definition history_cursor :: "golib \<Rightarrow> request \<Rightarrow> MessageCursor option option" where
  "history_cursor L r =
     (let cursorID = first_value (rq_query r) ''cursor_id'' in
      if cursorID = [] then Some None
      else case (gl_uuid_Parse L cursorID, gl_time_Parse L (first_value (rq_query r) ''cursor_ts'')) of
        (Some i, Some t) \<Rightarrow> Some (Some \<lparr>cur_CreatedAt = t, cur_ID = i\<rparr>)
      | _ \<Rightarrow> None)"

definition h_GetHistory :: "golib \<Rightarrow> 'w MessageUseCase \<Rightarrow> 'w handler" where
  "h_GetHistory L uc r = with_uuid L r ''chat_id'' (\<lambda>chatID.
     case history_cursor L r of
       None \<Rightarrow> response_BadRequest
     | Some cursor \<Rightarrow>
         call (mw_UserID r) (\<lambda>userID.
         answer L r (mu_GetHistory uc userID
             \<lparr>li_ChatID = chatID, li_Cursor = cursor, li_Limit = history_limit r\<rparr>)
           (\<lambda>page. response_OK (json_of_PageResult page))))"

definition h_Edit :: "golib \<Rightarrow> 'w MessageUseCase \<Rightarrow> 'w handler" where
  "h_Edit L uc r = with_uuid L r ''msg_id'' (\<lambda>msgID.
     with_body r EditInput_of_json (\<lambda>inp.
     call (mw_UserID r) (\<lambda>userID.
     answer L r (mu_Edit uc msgID userID inp) (\<lambda>msg. response_OK (json_of_Message msg)))))"

definition h_Delete :: "golib \<Rightarrow> 'w MessageUseCase \<Rightarrow> 'w handler" where
  "h_Delete L uc r = with_uuid L r ''msg_id'' (\<lambda>msgID.
     call (mw_UserID r) (\<lambda>userID.
     answer L r (mu_Delete uc msgID userID) (\<lambda>_. response_NoContent)))"

definition h_MarkRead :: "golib \<Rightarrow> 'w MessageUseCase \<Rightarrow> 'w handler" where
  "h_MarkRead L uc r = with_uuid L r ''chat_id'' (\<lambda>chatID.
     call (mw_UserID r) (\<lambda>userID.
     answer L r (mu_MarkRead uc chatID userID) (\<lambda>_. response_NoContent)))"

definition h_AddReaction :: "golib \<Rightarrow> 'w MessageUseCase \<Rightarrow> 'w handler" where
  "h_AddReaction L uc r = with_uuid L r ''msg_id'' (\<lambda>msgID.
     with_body r ReactInput_of_json (\<lambda>inp.
     call (mw_UserID r) (\<lambda>userID.
     answer L r (mu_AddReaction uc msgID userID inp) (\<lambda>_. response_NoContent))))"

definition h_RemoveReaction :: "golib \<Rightarrow> 'w MessageUseCase \<Rightarrow> 'w handler" where
  "h_RemoveReaction L uc r = with_uuid L r ''msg_id'' (\<lambda>msgID.
     let emoji = first_value (rq_query r) ''emoji'' in
     if emoji = [] then response_BadRequest
     else
     call (mw_UserID r) (\<lambda>userID.
     answer L r (mu_RemoveReaction uc msgID userID \<lparr>ri_Emoji = emoji\<rparr>) (\<lambda>_. response_NoContent)))"

end
