(* ===== verification/Router.thy ===== *)
theory Router
  imports Handlers
begin

text \<open>
  internal/delivery/http/router.go on net/http's \<open>ServeMux\<close>: a pattern is a method and a path of
  literal and wildcard segments, \<open>GET\<close> also serves \<open>HEAD\<close>, a wildcard matches one non-empty
  segment, and of the patterns that match the most specific one serves the request.
\<close>

section \<open>Patterns\<close>

datatype seg = Lit string | Wild string

fun split_path :: "string \<Rightarrow> string \<Rightarrow> string list" where
  "split_path cur [] = [rev cur]"
| "split_path cur (c # cs) = (if c = CHR ''/'' then rev cur # split_path [] cs else split_path (c # cur) cs)"

definition seg_of :: "string \<Rightarrow> seg" where
  "seg_of s = (if s \<noteq> [] \<and> hd s = CHR ''{'' then Wild (butlast (tl s)) else Lit s)"

text \<open>\<open>"METHOD /a/{b}"\<close>.\<close>

definition parse_pattern :: "string \<Rightarrow> string \<times> seg list" where
  "parse_pattern s =
     (takeWhile (\<lambda>c. c \<noteq> CHR '' '') s,
      map seg_of (split_path [] (drop 2 (dropWhile (\<lambda>c. c \<noteq> CHR '' '') s))))"

fun match_path :: "seg list \<Rightarrow> string list \<Rightarrow> (string \<times> string) list option" where
  "match_path [] [] = Some []"
| "match_path (Lit l # ps) (s # ss) = (if s = l then match_path ps ss else None)"
| "match_path (Wild n # ps) (s # ss) =
     (if s = [] then None else map_option (\<lambda>b. (n, s) # b) (match_path ps ss))"
| "match_path _ _ = None"

fun more_specific :: "seg list \<Rightarrow> seg list \<Rightarrow> bool" where
  "more_specific [] [] = True"
| "more_specific (Lit l # ps) (Lit k # qs) = (l = k \<and> more_specific ps qs)"
| "more_specific (p # ps) (Wild n # qs) = more_specific ps qs"
| "more_specific _ _ = False"

record 'w route =
  rt_pattern :: string
  rt_handler :: "'w handler"

definition method_matches :: "string \<Rightarrow> string \<Rightarrow> bool" where
  "method_matches m rm \<longleftrightarrow> m = rm \<or> m = ''GET'' \<and> rm = ''HEAD''"

definition route_matches :: "request \<Rightarrow> 'w route \<Rightarrow> bool" where
  "route_matches r rt \<longleftrightarrow> (let (m, p) = parse_pattern (rt_pattern rt)
     in method_matches m (rq_Method r) \<and> match_path p (rq_path r) \<noteq> None)"

definition find_route :: "'w route list \<Rightarrow> request \<Rightarrow> 'w route option" where
  "find_route routes r =
     (let ms = filter (route_matches r) routes
      in find (\<lambda>rt. list_all (\<lambda>q. more_specific (snd (parse_pattern (rt_pattern rt)))
           (snd (parse_pattern (rt_pattern q)))) ms) ms)"

text \<open>\<open>http.Error\<close>.\<close>

definition http_Error :: "string \<Rightarrow> nat \<Rightarrow> ('w conn, unit) io" where
  "http_Error msg code =
     call (header_Set ''Content-Type'' ''text/plain; charset=utf-8'') (\<lambda>_.
     call (header_Set ''X-Content-Type-Options'' ''nosniff'') (\<lambda>_.
     call (WriteHeader code) (\<lambda>_. Write (Text (msg @ [CHR 0x0A])))))"

definition mux_ServeHTTP :: "'w route list \<Rightarrow> 'w handler" where
  "mux_ServeHTTP routes r =
     (case find_route routes r of
        Some rt \<Rightarrow>
          (case match_path (snd (parse_pattern (rt_pattern rt))) (rq_path r) of
             Some vs \<Rightarrow> rt_handler rt (r\<lparr>rq_pathvalue := vs\<rparr>)
           | None \<Rightarrow> http_Error ''404 page not found'' StatusNotFound)
      | None \<Rightarrow>
          if list_ex (\<lambda>rt. match_path (snd (parse_pattern (rt_pattern rt))) (rq_path r) \<noteq> None) routes
          then http_Error ''Method Not Allowed'' StatusMethodNotAllowed
          else http_Error ''404 page not found'' StatusNotFound)"

section \<open>Routes (router.go)\<close>

record 'w Deps =
  d_User :: "'w UserUseCase"
  d_Chat :: "'w ChatUseCase"
  d_Message :: "'w MessageUseCase"
  d_JWT :: "string \<Rightarrow> ('w, uuid) io"
  d_Health :: "('w, unit) io option"
  d_RateLimiter :: "('w handler \<Rightarrow> 'w handler) option"

definition h_Health :: "golib \<Rightarrow> ('w, unit) io option \<Rightarrow> 'w handler" where
  "h_Health L health r =
     call (header_Set ''Content-Type'' ''application/json'') (\<lambda>_.
     let healthy = call (WriteHeader StatusOK) (\<lambda>_. Write (Json (JObj [(''status'', JStr ''ok'')])))
     in case health of
          None \<Rightarrow> healthy
        | Some check \<Rightarrow>
            branch (on_world check) (\<lambda>_. healthy)
              (\<lambda>err. call (WriteHeader StatusServiceUnavailable) (\<lambda>_.
                 Write (Json (JObj [(''error'', JStr (error_text L err)), (''status'', JStr ''unhealthy'')])))))"

definition auth_route :: "'w Deps \<Rightarrow> string \<Rightarrow> 'w handler \<Rightarrow> 'w route" where
  "auth_route d pattern fn = \<lparr>rt_pattern = pattern,
     rt_handler = (case d_RateLimiter d of None \<Rightarrow> fn | Some limit \<Rightarrow> limit fn)\<rparr>"

definition protected_route :: "golib \<Rightarrow> 'w Deps \<Rightarrow> string \<Rightarrow> 'w handler \<Rightarrow> 'w route" where
  "protected_route L d pattern fn = \<lparr>rt_pattern = pattern, rt_handler = mw_Auth L (d_JWT d) fn\<rparr>"

definition public_routes :: "golib \<Rightarrow> 'w Deps \<Rightarrow> 'w route list" where
  "public_routes L d =
     [\<lparr>rt_pattern = ''GET /health'', rt_handler = h_Health L (d_Health d)\<rparr>,
      auth_route d ''POST /api/v1/auth/register'' (h_Register L (d_User d)),
      auth_route d ''POST /api/v1/auth/login'' (h_Login L (d_User d)),
      auth_route d ''POST /api/v1/auth/refresh'' (h_RefreshToken L (d_User d))]"

definition api_handlers :: "golib \<Rightarrow> 'w Deps \<Rightarrow> (string \<times> 'w handler) list" where
  "api_handlers L d =
     [(''GET /api/v1/users/me'', h_GetMe L (d_User d)),
      (''PUT /api/v1/users/me'', h_UpdateMe L (d_User d)),
      (''GET /api/v1/users/search'', h_Search L (d_User d)),
      (''GET /api/v1/users/{user_id}'', h_GetProfile L (d_User d)),
      (''GET /api/v1/chats'', h_GetUserChats L (d_Chat d)),
      (''POST /api/v1/chats/direct'', h_CreateDirect L (d_Chat d)),
      (''POST /api/v1/chats/group'', h_CreateGroup L (d_Chat d)),
      (''GET /api/v1/chats/{chat_id}'', h_GetChat L (d_Chat d)),
      (''PUT /api/v1/chats/{chat_id}'', h_UpdateGroup L (d_Chat d)),
      (''GET /api/v1/chats/{chat_id}/members'', h_GetMembers L (d_Chat d)),
      (''POST /api/v1/chats/{chat_id}/members'', h_AddMember L (d_Chat d)),
      (''DELETE /api/v1/chats/{chat_id}/members/me'', h_LeaveChat L (d_Chat d)),
      (''DELETE /api/v1/chats/{chat_id}/members/{user_id}'', h_RemoveMember L (d_Chat d)),
      (''PATCH /api/v1/chats/{chat_id}/members/{user_id}/role'', h_ChangeMemberRole L (d_Chat d)),
      (''POST /api/v1/chats/{chat_id}/messages'', h_Send L (d_Message d)),
      (''GET /api/v1/chats/{chat_id}/messages'', h_GetHistory L (d_Message d)),
      (''POST /api/v1/chats/{chat_id}/read'', h_MarkRead L (d_Message d)),
      (''PUT /api/v1/chats/{chat_id}/messages/{msg_id}'', h_Edit L (d_Message d)),
      (''DELETE /api/v1/chats/{chat_id}/messages/{msg_id}'', h_Delete L (d_Message d)),
      (''POST /api/v1/chats/{chat_id}/messages/{msg_id}/reactions'', h_AddReaction L (d_Message d)),
      (''DELETE /api/v1/chats/{chat_id}/messages/{msg_id}/reactions'', h_RemoveReaction L (d_Message d))]"

definition SetupRoutes :: "golib \<Rightarrow> 'w Deps \<Rightarrow> 'w route list" where
  "SetupRoutes L d =
     public_routes L d @ map (\<lambda>(p, fn). protected_route L d p fn) (api_handlers L d)"

end
