(* ===== verification/Ws.thy ===== *)
theory Ws
  imports Router
begin

text \<open>
  internal/delivery/ws: the hub with its rooms, the read and write pumps of a client, and the
  handler that upgrades a request.  Clients are named by numbers (Go compares their pointers).  A
  room is the list of its clients; \<open>sync.Map.Range\<close> visits them in some order, and since every
  client has a send buffer of its own the order does not show.
\<close>

section \<open>Events (event.go)\<close>

record Event =
  ev_Type :: string
  ev_Payload :: "json option"
  ev_SenderID :: uuid
  ev_ChatID :: uuid

record clientEvent =
  ce_Type :: string
  ce_ChatID :: uuid
  ce_Payload :: "json option"

text \<open>\<open>SenderID\<close> and \<open>ChatID\<close> are tagged \<open>json:"-"\<close>; a nil \<open>RawMessage\<close> encodes as \<open>null\<close>.\<close>

definition json_of_Event :: "Event \<Rightarrow> json" where
  "json_of_Event e = JObj [(''type'', JStr (ev_Type e)),
     (''payload'', case ev_Payload e of None \<Rightarrow> JNull | Some j \<Rightarrow> j)]"

definition assign_raw :: "json \<Rightarrow> json option \<Rightarrow> json option option" where
  "assign_raw j v = Some (Some j)"

definition clientEvent_of_json :: "golib \<Rightarrow> json \<Rightarrow> clientEvent option" where
  "clientEvent_of_json L = decode_struct (\<lambda>fs.
     Option.bind (decode_key fs ''type'' assign_str []) (\<lambda>t.
     Option.bind (decode_key fs ''chat_id'' (assign_uuid L) uuid_Nil) (\<lambda>c.
     Option.bind (decode_key fs ''payload'' assign_raw None) (\<lambda>p.
     Some \<lparr>ce_Type = t, ce_ChatID = c, ce_Payload = p\<rparr>))))"

section \<open>Clients and the hub (client.go, hub.go)\<close>

definition sendBufferSize :: nat where
  "sendBufferSize = 256"

record wsclient =
  cl_userID :: uuid
  cl_chatIDs :: "uuid list"
  cl_send :: "json list"

record hub =
  hub_rooms :: "uuid \<rightharpoonup> nat list"
  hub_clients :: "nat \<rightharpoonup> wsclient"

definition NewHub :: hub where
  "NewHub = \<lparr>hub_rooms = Map.empty, hub_clients = Map.empty\<rparr>"

text \<open>\<open>LoadOrStore\<close>.\<close>

definition hub_room :: "uuid \<Rightarrow> hub \<Rightarrow> nat list" where
  "hub_room chatID h = (case hub_rooms h chatID of None \<Rightarrow> [] | Some cs \<Rightarrow> cs)"

definition room_Store :: "nat \<Rightarrow> uuid \<Rightarrow> hub \<Rightarrow> hub" where
  "room_Store client chatID h =
     h\<lparr>hub_rooms := (hub_rooms h)(chatID \<mapsto> List.insert client (hub_room chatID h))\<rparr>"

definition hub_Subscribe :: "nat \<Rightarrow> uuid list \<Rightarrow> hub \<Rightarrow> hub" where
  "hub_Subscribe client chatIDs h = fold (room_Store client) chatIDs h"

definition room_Delete :: "nat \<Rightarrow> uuid \<Rightarrow> hub \<Rightarrow> hub" where
  "room_Delete client chatID h =
     (case hub_rooms h chatID of
        None \<Rightarrow> h
      | Some cs \<Rightarrow> h\<lparr>hub_rooms := (hub_rooms h)(chatID \<mapsto> removeAll client cs)\<rparr>)"

definition hub_Unsubscribe :: "nat \<Rightarrow> uuid list \<Rightarrow> hub \<Rightarrow> hub" where
  "hub_Unsubscribe client chatIDs h = fold (room_Delete client) chatIDs h"

text \<open>The \<open>select\<close> of the broadcast: the echo is skipped, a full buffer drops the message.\<close>

definition offer :: "json \<Rightarrow> uuid \<Rightarrow> wsclient \<Rightarrow> wsclient" where
  "offer data excludeUserID c =
     (if cl_userID c = excludeUserID then c
      else if length (cl_send c) < sendBufferSize then c\<lparr>cl_send := cl_send c @ [data]\<rparr> else c)"

definition offer_to :: "json \<Rightarrow> uuid \<Rightarrow> nat \<Rightarrow> hub \<Rightarrow> hub" where
  "offer_to data excludeUserID client h =
     h\<lparr>hub_clients := (hub_clients h)(client := map_option (offer data excludeUserID) (hub_clients h client))\<rparr>"

definition BroadcastToChat :: "uuid \<Rightarrow> Event \<Rightarrow> uuid \<Rightarrow> hub \<Rightarrow> hub" where
  "BroadcastToChat chatID event excludeUserID h =
     (case hub_rooms h chatID of
        None \<Rightarrow> h
      | Some cs \<Rightarrow> fold (offer_to (json_of_Event event) excludeUserID) cs h)"

text \<open>\<open>Dispatch\<close>: what the two channels deliver, one item at a time.\<close>

datatype dispatch_input = CtxDone | EventsClosed | Incoming Event

fun hub_Dispatch :: "dispatch_input list \<Rightarrow> hub \<Rightarrow> hub" where
  "hub_Dispatch [] h = h"
| "hub_Dispatch (CtxDone # ins) h = h"
| "hub_Dispatch (EventsClosed # ins) h = h"
| "hub_Dispatch (Incoming e # ins) h = hub_Dispatch ins (BroadcastToChat (ev_ChatID e) e (ev_SenderID e) h)"

definition ws_NewClient :: "nat \<Rightarrow> uuid \<Rightarrow> uuid list \<Rightarrow> hub \<Rightarrow> hub" where
  "ws_NewClient client userID chatIDs h = hub_Subscribe client chatIDs
     (h\<lparr>hub_clients := (hub_clients h)(client \<mapsto>
        \<lparr>cl_userID = userID, cl_chatIDs = chatIDs, cl_send = []\<rparr>)\<rparr>)"

definition cl_isMember :: "wsclient \<Rightarrow> uuid \<Rightarrow> bool" where
  "cl_isMember c chatID \<longleftrightarrow> chatID \<in> set (cl_chatIDs c)"

text \<open>What \<open>conn.ReadMessage\<close> returns: the document in the frame, if it is JSON, or an error.\<close>

datatype read_result = Frame "json option" | ReadErr

text \<open>The body of the read loop for a frame.\<close>

definition client_event :: "golib \<Rightarrow> wsclient \<Rightarrow> json option \<Rightarrow> Event option" where
  "client_event L c data =
     (case Option.bind data (clientEvent_of_json L) of
        None \<Rightarrow> None
      | Some ce \<Rightarrow>
          if \<not> cl_isMember c (ce_ChatID ce) then None
          else Some \<lparr>ev_Type = ce_Type ce, ev_Payload = ce_Payload ce, ev_SenderID = cl_userID c,
                 ev_ChatID = ce_ChatID ce\<rparr>)"

definition on_frame :: "golib \<Rightarrow> nat \<Rightarrow> json option \<Rightarrow> hub \<Rightarrow> hub" where
  "on_frame L client data h =
     (case hub_clients h client of
        None \<Rightarrow> h
      | Some c \<Rightarrow>
          (case client_event L c data of
             None \<Rightarrow> h
           | Some e \<Rightarrow> BroadcastToChat (ev_ChatID e) e (cl_userID c) h))"

definition on_close :: "nat \<Rightarrow> hub \<Rightarrow> hub" where
  "on_close client h =
     (case hub_clients h client of None \<Rightarrow> h | Some c \<Rightarrow> hub_Unsubscribe client (cl_chatIDs c) h)"

fun readPump :: "golib \<Rightarrow> nat \<Rightarrow> read_result list \<Rightarrow> hub \<Rightarrow> hub" where
  "readPump L client [] h = h"
| "readPump L client (ReadErr # rs) h = on_close client h"
| "readPump L client (Frame data # rs) h = readPump L client rs (on_frame L client data h)"

text \<open>One receive of the write pump, with the \<open>n = len(c.send)\<close> further messages it takes with
  it: the buffer is written out in order.  \<open>n\<close> is read after the first receive.\<close>

definition write_batch :: "wsclient \<Rightarrow> json list \<times> wsclient" where
  "write_batch c = (case cl_send c of
     [] \<Rightarrow> ([], c)
   | msg # rest \<Rightarrow> (msg # take (length rest) rest, c\<lparr>cl_send := drop (length rest) rest\<rparr>))"

section \<open>The upgrade handler (handler.go)\<close>

definition ws_checkOrigin :: "string list \<Rightarrow> request \<Rightarrow> bool" where
  "ws_checkOrigin allowedOrigins r \<longleftrightarrow>
     set allowedOrigins = {} \<or> first_value (rq_header r) ''Origin'' \<in> set allowedOrigins"

text \<open>\<open>defer d(); m\<close>: \<open>d\<close> runs however \<open>m\<close> ends.\<close>

definition with_defer :: "('w, unit) io \<Rightarrow> ('w, 'a) io \<Rightarrow> ('w, 'a) io" where
  "with_defer d m w = (fst (m w), snd (d (snd (m w))))"

text \<open>\<open>upgrade\<close> is gorilla's \<open>Upgrader.Upgrade\<close> with the given origin check, \<open>run\<close> the life of the
  client: \<open>NewClient(hub, conn, userID, chatIDs, cfg).Run()\<close>.\<close>

definition ws_ServeHTTP ::
  "golib \<Rightarrow> 'w ChatUseCase \<Rightarrow> 'w UserUseCase \<Rightarrow> string list \<Rightarrow>
     ((request \<Rightarrow> bool) \<Rightarrow> 'w handler) \<Rightarrow> (uuid \<Rightarrow> uuid list \<Rightarrow> ('w conn, unit) io) \<Rightarrow> 'w handler" where
  "ws_ServeHTTP L chatUC userUC allowedOrigins upgrade run r =
     call (mw_UserID r) (\<lambda>userID.
     branch (on_world (cu_GetUserChats chatUC userID))
       (\<lambda>previews.
        let chatIDs = map (\<lambda>p. chat_ID (pv_Chat p)) previews in
        branch (upgrade (ws_checkOrigin allowedOrigins) r)
          (\<lambda>_.
           call (ignore_err (on_world (uu_SetOnline userUC userID))) (\<lambda>_.
           with_defer (ignore_err (on_world (uu_SetOffline userUC userID))) (run userID chatIDs)))
          (\<lambda>_. ret ()))
       (\<lambda>err. call (log_ctx L (rq_ctx r) LError [(''error'', error_text L err)] ''ws: load user chats failed'')
          (\<lambda>_. http_Error ''internal server error'' StatusInternalServerError)))"

end
