(* ===== verification/Config.thy ===== *)
theory Config
  imports Http Auth
begin

text \<open>
  Configuration: utils/config, the config.go of every package and internal/config.  A
  \<open>*ValidationError\<close> is its list of field errors.  A Go \<open>int\<close> and a \<open>time.Duration\<close> are
  integers; a pointer field is an option.
\<close>

section \<open>Accumulated errors (utils/config/errors.go)\<close>

record fieldError =
  fe_field :: string
  fe_message :: string

type_synonym ValidationError = "fieldError list"

datatype config_error = Validation ValidationError | OtherError string

definition ve_Add :: "string \<Rightarrow> string \<Rightarrow> ValidationError \<Rightarrow> ValidationError" where
  "ve_Add field message ve = ve @ [\<lparr>fe_field = field, fe_message = message\<rparr>]"

definition ve_HasErrors :: "ValidationError \<Rightarrow> bool" where
  "ve_HasErrors ve \<longleftrightarrow> length ve > 0"

definition ve_Err :: "ValidationError \<Rightarrow> config_error option" where
  "ve_Err ve = (if \<not> ve_HasErrors ve then None else Some (Validation ve))"

definition pad20 :: "string \<Rightarrow> string" where
  "pad20 s = s @ replicate (20 - RuneCountInString s) (CHR '' '')"

fun join_lines :: "string list \<Rightarrow> string" where
  "join_lines [] = []"
| "join_lines [l] = l"
| "join_lines (l # ls) = l @ [CHR 0x0A] @ join_lines ls"

definition ve_Error :: "ValidationError \<Rightarrow> string" where
  "ve_Error ve = ''config validation failed:'' @ [CHR 0x0A] @
     join_lines (map (\<lambda>fe. ''  '' @ pad20 (fe_field fe @ '':'') @ '' '' @ fe_message fe) ve)"

fun config_error_text :: "config_error \<Rightarrow> string" where
  "config_error_text (Validation ve) = ve_Error ve"
| "config_error_text (OtherError s) = s"

definition ve_AddFrom :: "string \<Rightarrow> config_error option \<Rightarrow> ValidationError \<Rightarrow> ValidationError" where
  "ve_AddFrom section_name other ve =
     (case other of
        None \<Rightarrow> ve
      | Some (Validation es) \<Rightarrow>
          fold (\<lambda>fe. ve_Add (section_name @ ''.'' @ fe_field fe) (fe_message fe)) es ve
      | Some (OtherError s) \<Rightarrow> ve_Add section_name s ve)"

text \<open>\<open>if cond { ve.Add(field, message) }\<close>.\<close>

definition ve_when :: "bool \<Rightarrow> string \<Rightarrow> string \<Rightarrow> ValidationError \<Rightarrow> ValidationError" where
  "ve_when bad field message ve = (if bad then ve_Add field message ve else ve)"

text \<open>\<open>%d\<close>, and the non-ASCII signs of the messages in UTF-8.\<close>

definition int_text :: "int \<Rightarrow> string" where
  "int_text i = (if i < 0 then CHR ''-'' # nat_text (nat (- i)) else nat_text (nat i))"

definition en_dash :: string where "en_dash = [CHR 0xE2, CHR 0x80, CHR 0x93]"
definition ge_sign :: string where "ge_sign = [CHR 0xE2, CHR 0x89, CHR 0xA5]"
definition le_sign :: string where "le_sign = [CHR 0xE2, CHR 0x89, CHR 0xA4]"

definition seconds :: "int \<Rightarrow> duration" where
  "seconds n = n * 1000000000"

section \<open>Durations (utils/config/duration.go)\<close>

text \<open>\<open>time.ParseDuration\<close>, \<open>time.Duration.String\<close> and the decoding of a YAML scalar as \<open>int64\<close>.\<close>

record durlib =
  dl_Parse :: "string \<Rightarrow> duration option"
  dl_String :: "duration \<Rightarrow> string"
  dl_yaml_int :: "string \<Rightarrow> int option"

definition Duration_MarshalJSON :: "durlib \<Rightarrow> duration \<Rightarrow> json" where
  "Duration_MarshalJSON L d = JStr (dl_String L d)"

text \<open>\<open>null\<close> decodes into the text as the empty text; a number must be an \<open>int64\<close>.\<close>

definition Duration_UnmarshalJSON :: "durlib \<Rightarrow> json \<Rightarrow> string + duration" where
  "Duration_UnmarshalJSON L j =
     (let text = (case j of JStr s \<Rightarrow> Some s | JNull \<Rightarrow> Some [] | _ \<Rightarrow> None) in
      case text of
        Some s \<Rightarrow>
          (case dl_Parse L s of
             None \<Rightarrow> Inl (''config: parse duration '' @ quoted s)
           | Some d \<Rightarrow> Inr d)
      | None \<Rightarrow>
          (case j of
             JInt n \<Rightarrow> if - (2 ^ 63) \<le> n \<and> n < 2 ^ 63 then Inr n
                else Inl ''config: duration must be a string or integer nanoseconds''
           | _ \<Rightarrow> Inl ''config: duration must be a string or integer nanoseconds''))"

definition Duration_MarshalYAML :: "durlib \<Rightarrow> duration \<Rightarrow> string" where
  "Duration_MarshalYAML L d = dl_String L d"

definition Duration_UnmarshalYAML :: "durlib \<Rightarrow> string \<Rightarrow> string + duration" where
  "Duration_UnmarshalYAML L v =
     (case dl_Parse L v of
        Some d \<Rightarrow> Inr d
      | None \<Rightarrow>
          (case dl_yaml_int L v of
             Some n \<Rightarrow> Inr n
           | None \<Rightarrow> Inl (''config: parse duration '' @ quoted v)))"

section \<open>PostgreSQL (storage/postgres/config.go, db.go)\<close>

record pg_Config =
  pgc_Host :: string
  pgc_Port :: int
  pgc_User :: string
  pgc_Password :: string
  pgc_DBName :: string
  pgc_SSLMode :: string
  pgc_MaxConns :: int
  pgc_MinConns :: int
  pgc_MigrationsPath :: string

definition pg_DefaultConfig :: pg_Config where
  [simp]: "pg_DefaultConfig = \<lparr>pgc_Host = [], pgc_Port = 5432, pgc_User = [], pgc_Password = [], pgc_DBName = [],
     pgc_SSLMode = ''disable'', pgc_MaxConns = 10, pgc_MinConns = 2, pgc_MigrationsPath = ''migrations/postgres''\<rparr>"

definition pg_SetDefaults :: "pg_Config \<Rightarrow> pg_Config" where
  "pg_SetDefaults c = c\<lparr>
     pgc_Port := (if pgc_Port c = 0 then pgc_Port pg_DefaultConfig else pgc_Port c),
     pgc_SSLMode := (if pgc_SSLMode c = [] then pgc_SSLMode pg_DefaultConfig else pgc_SSLMode c),
     pgc_MaxConns := (if pgc_MaxConns c = 0 then pgc_MaxConns pg_DefaultConfig else pgc_MaxConns c),
     pgc_MinConns := (if pgc_MinConns c = 0 then pgc_MinConns pg_DefaultConfig else pgc_MinConns c),
     pgc_MigrationsPath := (if pgc_MigrationsPath c = [] then pgc_MigrationsPath pg_DefaultConfig else pgc_MigrationsPath c)\<rparr>"

definition port_range :: "int \<Rightarrow> string" where
  "port_range p = ''must be 1'' @ en_dash @ ''65535, got '' @ int_text p"

definition pg_Validate :: "pg_Config \<Rightarrow> config_error option" where
  "pg_Validate c = ve_Err
    (ve_when (pgc_MaxConns c > 0 \<and> pgc_MinConns c > pgc_MaxConns c) ''min_conns''
       (''must be '' @ le_sign @ '' max_conns ('' @ int_text (pgc_MaxConns c) @ ''), got '' @ int_text (pgc_MinConns c))
    (ve_when (pgc_MinConns c < 0) ''min_conns'' (''must be '' @ ge_sign @ '' 0, got '' @ int_text (pgc_MinConns c))
    (ve_when (pgc_MaxConns c < 1) ''max_conns'' (''must be '' @ ge_sign @ '' 1, got '' @ int_text (pgc_MaxConns c))
    (ve_when (pgc_DBName c = []) ''dbname'' ''required''
    (ve_when (pgc_Password c = []) ''password'' ''required''
    (ve_when (pgc_User c = []) ''user'' ''required''
    (ve_when (pgc_Port c \<le> 0 \<or> pgc_Port c > 65535) ''port'' (port_range (pgc_Port c))
    (ve_when (pgc_Host c = []) ''host'' ''required'' []))))))))"

definition pg_dsn :: "pg_Config \<Rightarrow> string" where
  "pg_dsn c = ''host='' @ pgc_Host c @ '' port='' @ int_text (pgc_Port c) @ '' user='' @ pgc_User c
     @ '' password='' @ pgc_Password c @ '' dbname='' @ pgc_DBName c @ '' sslmode='' @ pgc_SSLMode c
     @ '' pool_max_conns='' @ int_text (pgc_MaxConns c) @ '' pool_min_conns='' @ int_text (pgc_MinConns c)"

section \<open>MySQL (storage/mysql/config.go)\<close>

record my_Config =
  myc_Host :: string
  myc_Port :: int
  myc_User :: string
  myc_Password :: string
  myc_DBName :: string
  myc_MaxConns :: int
  myc_MinConns :: int
  myc_MigrationsPath :: string

definition my_DefaultConfig :: my_Config where
  [simp]: "my_DefaultConfig = \<lparr>myc_Host = [], myc_Port = 3306, myc_User = [], myc_Password = [], myc_DBName = [],
     myc_MaxConns = 10, myc_MinConns = 2, myc_MigrationsPath = ''migrations/mysql''\<rparr>"

definition my_SetDefaults :: "my_Config \<Rightarrow> my_Config" where
  "my_SetDefaults c = c\<lparr>
     myc_Port := (if myc_Port c = 0 then myc_Port my_DefaultConfig else myc_Port c),
     myc_MaxConns := (if myc_MaxConns c = 0 then myc_MaxConns my_DefaultConfig else myc_MaxConns c),
     myc_MinConns := (if myc_MinConns c = 0 then myc_MinConns my_DefaultConfig else myc_MinConns c),
     myc_MigrationsPath := (if myc_MigrationsPath c = [] then myc_MigrationsPath my_DefaultConfig else myc_MigrationsPath c)\<rparr>"

definition my_Validate :: "my_Config \<Rightarrow> config_error option" where
  "my_Validate c = ve_Err
    (ve_when (myc_MaxConns c > 0 \<and> myc_MinConns c > myc_MaxConns c) ''min_conns''
       (''must be '' @ le_sign @ '' max_conns ('' @ int_text (myc_MaxConns c) @ ''), got '' @ int_text (myc_MinConns c))
    (ve_when (myc_MinConns c < 0) ''min_conns'' (''must be '' @ ge_sign @ '' 0, got '' @ int_text (myc_MinConns c))
    (ve_when (myc_MaxConns c < 1) ''max_conns'' (''must be '' @ ge_sign @ '' 1, got '' @ int_text (myc_MaxConns c))
    (ve_when (myc_DBName c = []) ''dbname'' ''required''
    (ve_when (myc_Password c = []) ''password'' ''required''
    (ve_when (myc_User c = []) ''user'' ''required''
    (ve_when (myc_Port c \<le> 0 \<or> myc_Port c > 65535) ''port'' (port_range (myc_Port c))
    (ve_when (myc_Host c = []) ''host'' ''required'' []))))))))"

text \<open>\<open>url.Values.Encode\<close> sorts by key; no value needs escaping.\<close>

definition my_address :: "my_Config \<Rightarrow> string" where
  "my_address c = myc_User c @ '':'' @ myc_Password c @ ''@tcp('' @ myc_Host c @ '':''
     @ int_text (myc_Port c) @ '')/'' @ myc_DBName c"

definition my_DSN :: "my_Config \<Rightarrow> string" where
  "my_DSN c = my_address c @ ''?charset=utf8mb4&collation=utf8mb4_unicode_ci&loc=UTC&parseTime=true''"

definition my_MigrateDSN :: "my_Config \<Rightarrow> string" where
  "my_MigrateDSN c = ''mysql://'' @ my_address c @ ''?charset=utf8mb4&multiStatements=true&parseTime=true''"

section \<open>Storage (storage/config.go)\<close>

record storage_Config =
  stc_Type :: string
  stc_Postgres :: "pg_Config option"
  stc_MySQL :: "my_Config option"

definition storage_DefaultConfig :: storage_Config where
  [simp]: "storage_DefaultConfig = \<lparr>stc_Type = ''postgres'', stc_Postgres = Some pg_DefaultConfig, stc_MySQL = None\<rparr>"

definition storage_SetDefaults :: "storage_Config \<Rightarrow> storage_Config" where
  "storage_SetDefaults c = c\<lparr>
     stc_Type := (if stc_Type c = [] then ''postgres'' else stc_Type c),
     stc_Postgres := map_option pg_SetDefaults (stc_Postgres c),
     stc_MySQL := map_option my_SetDefaults (stc_MySQL c)\<rparr>"

definition storage_Validate :: "storage_Config \<Rightarrow> config_error option" where
  "storage_Validate c = ve_Err
     (if stc_Type c = ''postgres'' then
        (case stc_Postgres c of
           None \<Rightarrow> ve_Add ''postgres'' ''required for type postgres'' []
         | Some p \<Rightarrow> ve_AddFrom ''postgres'' (pg_Validate p) [])
      else if stc_Type c = ''mysql'' then
        (case stc_MySQL c of
           None \<Rightarrow> ve_Add ''mysql'' ''required for type mysql'' []
         | Some m \<Rightarrow> ve_AddFrom ''mysql'' (my_Validate m) [])
      else ve_Add ''type'' (''unknown storage type '' @ quoted (stc_Type c)) [])"

end
