(* ===== verification/AppConfig.thy ===== *)
theory AppConfig
  imports Config
begin

text \<open>
  The configuration of the remaining packages (cache, tokens, password hashing, logging, HTTP,
  WebSocket, delivery) and of the two programs (internal/config): defaults, validation, loading.
\<close>

section \<open>Cache (cache/config.go)\<close>

record redis_Config =
  rdc_Addr :: string
  rdc_Password :: string
  rdc_DB :: int

record TTLConfig =
  ttl_User :: duration
  ttl_Chat :: duration
  ttl_Member :: duration

record cache_Config =
  cac_Type :: string
  cac_Redis :: "redis_Config option"
  cac_TTL :: TTLConfig

definition cache_DefaultConfig :: cache_Config where
  [simp]: "cache_DefaultConfig = \<lparr>cac_Type = ''mock'', cac_Redis = None,
     cac_TTL = \<lparr>ttl_User = seconds 300, ttl_Chat = seconds 600, ttl_Member = seconds 120\<rparr>\<rparr>"

definition ttl_SetDefaults :: "TTLConfig \<Rightarrow> TTLConfig" where
  "ttl_SetDefaults t = \<lparr>
     ttl_User = (if ttl_User t = 0 then ttl_User (cac_TTL cache_DefaultConfig) else ttl_User t),
     ttl_Chat = (if ttl_Chat t = 0 then ttl_Chat (cac_TTL cache_DefaultConfig) else ttl_Chat t),
     ttl_Member = (if ttl_Member t = 0 then ttl_Member (cac_TTL cache_DefaultConfig) else ttl_Member t)\<rparr>"

definition redis_SetDefaults :: "redis_Config \<Rightarrow> redis_Config" where
  "redis_SetDefaults r = r\<lparr>rdc_Addr := (if rdc_Addr r = [] then ''localhost:6379'' else rdc_Addr r)\<rparr>"

definition cache_SetDefaults :: "cache_Config \<Rightarrow> cache_Config" where
  "cache_SetDefaults c = c\<lparr>
     cac_Type := (if cac_Type c = [] then cac_Type cache_DefaultConfig else cac_Type c),
     cac_Redis := map_option redis_SetDefaults (cac_Redis c),
     cac_TTL := ttl_SetDefaults (cac_TTL c)\<rparr>"

definition cache_Validate :: "cache_Config \<Rightarrow> config_error option" where
  "cache_Validate c = ve_Err
    (ve_when (cac_Type c = ''redis'' \<and> (case cac_Redis c of Some r \<Rightarrow> rdc_Addr r = [] | None \<Rightarrow> False))
       ''redis.addr'' ''required''
    (ve_when (cac_Type c = ''redis'' \<and> cac_Redis c = None) ''redis'' (''required when type is '' @ quoted ''redis'')
    (ve_when (cac_Type c \<notin> {''redis'', ''mock''}) ''type''
       (''must be '' @ quoted ''redis'' @ '' or '' @ quoted ''mock'' @ '', got '' @ quoted (cac_Type c)) [])))"

section \<open>Tokens (utils/jwt/config.go)\<close>

definition jwt_DefaultConfig :: jwt_config where
  [simp]: "jwt_DefaultConfig = \<lparr>jc_AccessSecret = [], jc_RefreshSecret = [], jc_AccessTokenTTL = seconds 900,
     jc_RefreshTokenTTL = seconds 604800\<rparr>"

definition jwt_SetDefaults :: "jwt_config \<Rightarrow> jwt_config" where
  "jwt_SetDefaults c = c\<lparr>
     jc_AccessTokenTTL := (if jc_AccessTokenTTL c = 0 then jc_AccessTokenTTL jwt_DefaultConfig else jc_AccessTokenTTL c),
     jc_RefreshTokenTTL := (if jc_RefreshTokenTTL c = 0 then jc_RefreshTokenTTL jwt_DefaultConfig else jc_RefreshTokenTTL c)\<rparr>"

definition secret_errors :: "string \<Rightarrow> string \<Rightarrow> ValidationError \<Rightarrow> ValidationError" where
  "secret_errors field secret ve =
     (if secret = [] then ve_Add field ''required'' ve
      else ve_when (length secret < 32) field
        (''must be '' @ ge_sign @ '' 32 bytes for HS256 security, got '' @ nat_text (length secret)) ve)"

definition jwt_Validate :: "jwt_config \<Rightarrow> config_error option" where
  "jwt_Validate c = ve_Err
    (ve_when (jc_AccessTokenTTL c > 0 \<and> jc_RefreshTokenTTL c > 0 \<and> jc_RefreshTokenTTL c \<le> jc_AccessTokenTTL c)
       ''refresh_token_ttl'' ''must be greater than AccessTokenTTL''
    (ve_when (jc_RefreshTokenTTL c \<le> 0) ''refresh_token_ttl'' ''must be positive''
    (ve_when (jc_AccessTokenTTL c \<le> 0) ''access_token_ttl'' ''must be positive''
    (ve_when (jc_AccessSecret c \<noteq> [] \<and> jc_RefreshSecret c \<noteq> [] \<and> jc_AccessSecret c = jc_RefreshSecret c)
       ''refresh_secret'' ''must differ from access_secret''
    (secret_errors ''refresh_secret'' (jc_RefreshSecret c)
    (secret_errors ''access_secret'' (jc_AccessSecret c) []))))))"

section \<open>Password hashing (utils/hasher/config.go)\<close>

text \<open>The constants of the bcrypt package.\<close>

record bcrypt_costs =
  bcc_MinCost :: int
  bcc_MaxCost :: int
  bcc_DefaultCost :: int

record hasher_Config =
  hsc_Cost :: int

definition hasher_DefaultConfig :: "bcrypt_costs \<Rightarrow> hasher_Config" where
  [simp]: "hasher_DefaultConfig B = \<lparr>hsc_Cost = bcc_DefaultCost B\<rparr>"

definition hasher_SetDefaults :: "bcrypt_costs \<Rightarrow> hasher_Config \<Rightarrow> hasher_Config" where
  "hasher_SetDefaults B c = c\<lparr>hsc_Cost := (if hsc_Cost c = 0 then hsc_Cost (hasher_DefaultConfig B) else hsc_Cost c)\<rparr>"

definition hasher_Validate :: "bcrypt_costs \<Rightarrow> hasher_Config \<Rightarrow> config_error option" where
  "hasher_Validate B c = ve_Err
    (ve_when (hsc_Cost c < bcc_MinCost B \<or> hsc_Cost c > bcc_MaxCost B) ''cost''
       (''must be '' @ int_text (bcc_MinCost B) @ en_dash @ int_text (bcc_MaxCost B) @ '', got '' @ int_text (hsc_Cost c)) [])"

section \<open>Logging (utils/logger/config.go)\<close>

record FileConfig =
  lfc_Path :: string
  lfc_Owner :: string
  lfc_Group :: string
  lfc_Mode :: nat
  lfc_MaxBackups :: int
  lfc_MaxSizeMB :: int

record logger_Config =
  lgc_Type :: string
  lgc_Level :: string
  lgc_File :: "FileConfig option"

definition logger_DefaultConfig :: logger_Config where
  [simp]: "logger_DefaultConfig = \<lparr>lgc_Type = ''stdout'', lgc_Level = ''info'', lgc_File = None\<rparr>"

definition file_SetDefaults :: "FileConfig \<Rightarrow> FileConfig" where
  "file_SetDefaults f = f\<lparr>
     lfc_Mode := (if lfc_Mode f = 0 then 420 else lfc_Mode f),
     lfc_MaxSizeMB := (if lfc_MaxSizeMB f = 0 then 256 else lfc_MaxSizeMB f),
     lfc_MaxBackups := (if lfc_MaxBackups f = 0 then 3 else lfc_MaxBackups f)\<rparr>"

definition logger_SetDefaults :: "logger_Config \<Rightarrow> logger_Config" where
  "logger_SetDefaults c = c\<lparr>
     lgc_Type := (if lgc_Type c = [] then ''stdout'' else lgc_Type c),
     lgc_Level := (if lgc_Level c = [] then ''info'' else lgc_Level c),
     lgc_File := map_option file_SetDefaults (lgc_File c)\<rparr>"

definition validLevels :: "string list" where
  "validLevels = [''trace'', ''debug'', ''info'', ''warn'', ''error'', ''fatal'', ''panic'']"

text \<open>\<open>strings.ToLower\<close> as far as ASCII results go: beside the capital letters only the dotted capital I
  (U+0130) and the Kelvin sign (U+212A) have an ASCII lower case.\<close>

definition lower_rune :: "nat \<Rightarrow> nat" where
  "lower_rune r = (if 65 \<le> r \<and> r \<le> 90 then r + 32 else if r = 0x130 then 0x69
     else if r = 0x212A then 0x6B else r)"

definition level_valid :: "string \<Rightarrow> bool" where
  "level_valid s \<longleftrightarrow> map lower_rune (runes s) \<in> set (map runes validLevels)"

definition logger_Validate :: "logger_Config \<Rightarrow> config_error option" where
  "logger_Validate c =
     (let ve = ve_when (lgc_Level c \<noteq> [] \<and> \<not> level_valid (lgc_Level c)) ''level''
            (''unknown value '' @ quoted (lgc_Level c) @ ''; valid: trace debug info warn error fatal panic'') []
      in ve_Err
        (if lgc_Type c = ''stdout'' \<or> lgc_Type c = ''console'' then ve
         else if lgc_Type c = ''file'' then
           (case lgc_File c of
              None \<Rightarrow> ve_Add ''file'' ''required for type file'' ve
            | Some f \<Rightarrow> ve_when (lfc_Path f = []) ''file.path'' ''required'' ve)
         else ve_Add ''type'' (''unknown value '' @ quoted (lgc_Type c) @ ''; valid: stdout console file'') ve))"

section \<open>HTTP (delivery/http/config.go)\<close>

record TLSConfig =
  tls_CertFile :: string
  tls_KeyFile :: string

record RateLimitConfig =
  rlc_MaxRequests :: int
  rlc_Window :: duration

record http_Config =
  htc_Host :: string
  htc_Port :: int
  htc_ReadTimeout :: duration
  htc_WriteTimeout :: duration
  htc_IdleTimeout :: duration
  htc_AllowedOrigins :: "string list"
  htc_RateLimit :: RateLimitConfig
  htc_MaxBodyBytes :: int
  htc_TLS :: "TLSConfig option"

definition http_DefaultConfig :: http_Config where
  [simp]: "http_DefaultConfig = \<lparr>htc_Host = ''0.0.0.0'', htc_Port = 8080, htc_ReadTimeout = seconds 5,
     htc_WriteTimeout = seconds 10, htc_IdleTimeout = seconds 60, htc_AllowedOrigins = [],
     htc_RateLimit = \<lparr>rlc_MaxRequests = 20, rlc_Window = seconds 60\<rparr>, htc_MaxBodyBytes = 4 * 2 ^ 20,
     htc_TLS = None\<rparr>"

definition http_SetDefaults :: "http_Config \<Rightarrow> http_Config" where
  "http_SetDefaults c = c\<lparr>
     htc_Host := (if htc_Host c = [] then htc_Host http_DefaultConfig else htc_Host c),
     htc_Port := (if htc_Port c = 0 then htc_Port http_DefaultConfig else htc_Port c),
     htc_ReadTimeout := (if htc_ReadTimeout c = 0 then htc_ReadTimeout http_DefaultConfig else htc_ReadTimeout c),
     htc_WriteTimeout := (if htc_WriteTimeout c = 0 then htc_WriteTimeout http_DefaultConfig else htc_WriteTimeout c),
     htc_IdleTimeout := (if htc_IdleTimeout c = 0 then htc_IdleTimeout http_DefaultConfig else htc_IdleTimeout c),
     htc_RateLimit := (if rlc_MaxRequests (htc_RateLimit c) = 0
       then htc_RateLimit http_DefaultConfig else htc_RateLimit c),
     htc_MaxBodyBytes := (if htc_MaxBodyBytes c = 0 then htc_MaxBodyBytes http_DefaultConfig else htc_MaxBodyBytes c)\<rparr>"

definition TLSEnabled :: "http_Config \<Rightarrow> bool" where
  "TLSEnabled c \<longleftrightarrow> (case htc_TLS c of None \<Rightarrow> False | Some t \<Rightarrow> tls_CertFile t \<noteq> [] \<and> tls_KeyFile t \<noteq> [])"

definition http_Validate :: "http_Config \<Rightarrow> config_error option" where
  "http_Validate c =
     (let ve =
        ve_when (htc_IdleTimeout c \<le> 0) ''idle_timeout'' ''must be positive''
       (ve_when (htc_WriteTimeout c \<le> 0) ''write_timeout'' ''must be positive''
       (ve_when (htc_ReadTimeout c \<le> 0) ''read_timeout'' ''must be positive''
       (ve_when (htc_MaxBodyBytes c \<le> 0) ''max_body_bytes'' ''must be positive''
       (ve_when (rlc_Window (htc_RateLimit c) \<le> 0) ''rate_limit.window'' ''must be positive''
       (ve_when (rlc_MaxRequests (htc_RateLimit c) \<le> 0) ''rate_limit.max_requests'' ''must be positive''
       (ve_when (htc_Port c \<le> 0 \<or> htc_Port c > 65535) ''port'' (port_range (htc_Port c)) []))))))
      in ve_Err
        (case htc_TLS c of
           None \<Rightarrow> ve
         | Some t \<Rightarrow>
             ve_when (tls_KeyFile t = []) ''tls.key_file'' ''required when tls section is present''
            (ve_when (tls_CertFile t = []) ''tls.cert_file'' ''required when tls section is present'' ve)))"

section \<open>WebSocket and delivery (delivery/ws/config.go, delivery/config.go)\<close>

record ws_Config =
  wsc_MaxMessageSize :: int

definition ws_DefaultConfig :: ws_Config where
  [simp]: "ws_DefaultConfig = \<lparr>wsc_MaxMessageSize = 4096\<rparr>"

definition ws_SetDefaults :: "ws_Config \<Rightarrow> ws_Config" where
  "ws_SetDefaults c = c\<lparr>wsc_MaxMessageSize := (if wsc_MaxMessageSize c = 0 then wsc_MaxMessageSize ws_DefaultConfig else wsc_MaxMessageSize c)\<rparr>"

record delivery_Config =
  dlc_Enabled :: "string list"
  dlc_HTTP :: http_Config
  dlc_WS :: ws_Config

definition IsEnabled :: "delivery_Config \<Rightarrow> string \<Rightarrow> bool" where
  "IsEnabled c api \<longleftrightarrow> api \<in> set (dlc_Enabled c)"

definition delivery_DefaultConfig :: delivery_Config where
  [simp]: "delivery_DefaultConfig = \<lparr>dlc_Enabled = [''http'', ''ws''], dlc_HTTP = http_DefaultConfig,
     dlc_WS = ws_DefaultConfig\<rparr>"

definition delivery_SetDefaults :: "delivery_Config \<Rightarrow> delivery_Config" where
  "delivery_SetDefaults c = c\<lparr>
     dlc_Enabled := (if length (dlc_Enabled c) = 0 then dlc_Enabled delivery_DefaultConfig else dlc_Enabled c),
     dlc_HTTP := http_SetDefaults (dlc_HTTP c),
     dlc_WS := ws_SetDefaults (dlc_WS c)\<rparr>"

definition delivery_Validate :: "delivery_Config \<Rightarrow> config_error option" where
  "delivery_Validate c = ve_Err
     (if IsEnabled c ''http'' then ve_AddFrom ''http'' (http_Validate (dlc_HTTP c)) [] else [])"

section \<open>The programs (internal/config/config.go, migrate.go)\<close>

record ProfileConfig =
  prc_Enabled :: bool
  prc_Addr :: string

definition profile_SetDefaults :: "ProfileConfig \<Rightarrow> ProfileConfig" where
  "profile_SetDefaults c = c\<lparr>prc_Addr := (if prc_Addr c = [] then ''localhost:8082'' else prc_Addr c)\<rparr>"

record AppConfig =
  apc_Storage :: storage_Config
  apc_Cache :: "cache_Config option"
  apc_JWT :: jwt_config
  apc_Logger :: logger_Config
  apc_Hasher :: hasher_Config
  apc_Delivery :: delivery_Config
  apc_Profile :: ProfileConfig

definition app_DefaultConfig :: "bcrypt_costs \<Rightarrow> AppConfig" where
  "app_DefaultConfig B = \<lparr>apc_Storage = storage_DefaultConfig, apc_Cache = None, apc_JWT = jwt_DefaultConfig,
     apc_Logger = logger_DefaultConfig, apc_Hasher = hasher_DefaultConfig B, apc_Delivery = delivery_DefaultConfig,
     apc_Profile = \<lparr>prc_Enabled = False, prc_Addr = ''localhost:8082''\<rparr>\<rparr>"

definition app_SetDefaults :: "bcrypt_costs \<Rightarrow> AppConfig \<Rightarrow> AppConfig" where
  "app_SetDefaults B c = \<lparr>apc_Storage = storage_SetDefaults (apc_Storage c),
     apc_Cache = map_option cache_SetDefaults (apc_Cache c), apc_JWT = jwt_SetDefaults (apc_JWT c),
     apc_Logger = logger_SetDefaults (apc_Logger c), apc_Hasher = hasher_SetDefaults B (apc_Hasher c),
     apc_Delivery = delivery_SetDefaults (apc_Delivery c),
     apc_Profile = profile_SetDefaults (apc_Profile c)\<rparr>"

definition app_Validate :: "bcrypt_costs \<Rightarrow> AppConfig \<Rightarrow> config_error option" where
  "app_Validate B c = ve_Err
    (ve_AddFrom ''delivery'' (delivery_Validate (apc_Delivery c))
    (ve_AddFrom ''hasher'' (hasher_Validate B (apc_Hasher c))
    (ve_AddFrom ''logger'' (logger_Validate (apc_Logger c))
    (ve_AddFrom ''jwt'' (jwt_Validate (apc_JWT c))
    (ve_AddFrom ''cache'' (case apc_Cache c of None \<Rightarrow> None | Some k \<Rightarrow> cache_Validate k)
    (ve_AddFrom ''storage'' (storage_Validate (apc_Storage c)) []))))))"

text \<open>A configuration file: whether it opens, and what the two decoders make of its bytes.\<close>

record 'c config_file =
  cf_open :: "string option"
  cf_yaml :: "string + 'c"
  cf_json :: "string + 'c"

text \<open>\<open>filepath.Ext\<close>: from the last dot of the last path element.\<close>

definition filepath_Ext :: "string \<Rightarrow> string" where
  "filepath_Ext path =
     (let suffix = takeWhile (\<lambda>c. c \<noteq> CHR ''.'' \<and> c \<noteq> CHR ''/'') (rev path)
      in case drop (length suffix) (rev path) of
           c # _ \<Rightarrow> if c = CHR ''.'' then CHR ''.'' # rev suffix else []
         | [] \<Rightarrow> [])"

definition load_config ::
  "('c \<Rightarrow> 'c) \<Rightarrow> ('c \<Rightarrow> config_error option) \<Rightarrow> (string \<Rightarrow> string) \<Rightarrow> string \<Rightarrow> 'c config_file \<Rightarrow>
     config_error + 'c" where
  "load_config SetDefaults Validate ext_error path f =
     (let ext = filepath_Ext path in
      case cf_open f of
        Some e \<Rightarrow> Inl (OtherError (''config: open file `'' @ path @ ''`: '' @ e))
      | None \<Rightarrow>
          (case (if ext = ''.yaml'' \<or> ext = ''.yml'' then
                   (case cf_yaml f of Inl e \<Rightarrow> Inl (''config: decode yaml: '' @ e) | Inr c \<Rightarrow> Inr c)
                 else if ext = ''.json'' then
                   (case cf_json f of Inl e \<Rightarrow> Inl (''config: decode json: '' @ e) | Inr c \<Rightarrow> Inr c)
                 else Inl (ext_error ext)) of
             Inl e \<Rightarrow> Inl (OtherError e)
           | Inr c \<Rightarrow>
               (case Validate (SetDefaults c) of
                  Some e \<Rightarrow> Inl e | None \<Rightarrow> Inr (SetDefaults c))))"

definition app_Load :: "bcrypt_costs \<Rightarrow> string \<Rightarrow> AppConfig config_file \<Rightarrow> config_error + AppConfig" where
  "app_Load B = load_config (app_SetDefaults B) (app_Validate B)
     (\<lambda>ext. ''config: unsupported extension `'' @ quoted ext @ ''`'')"

record MigrateConfig =
  mgc_Storage :: storage_Config
  mgc_Logger :: logger_Config

definition migrate_SetDefaults :: "MigrateConfig \<Rightarrow> MigrateConfig" where
  "migrate_SetDefaults c = \<lparr>mgc_Storage = storage_SetDefaults (mgc_Storage c),
     mgc_Logger = logger_SetDefaults (mgc_Logger c)\<rparr>"

definition migrate_Validate :: "MigrateConfig \<Rightarrow> config_error option" where
  "migrate_Validate c = ve_Err
    (ve_AddFrom ''logger'' (logger_Validate (mgc_Logger c))
    (ve_AddFrom ''storage'' (storage_Validate (mgc_Storage c)) []))"

definition migrate_Load :: "string \<Rightarrow> MigrateConfig config_file \<Rightarrow> config_error + MigrateConfig" where
  "migrate_Load = load_config migrate_SetDefaults migrate_Validate
     (\<lambda>ext. ''config: unsupported extension '' @ quoted ext)"

section \<open>The migration program (cmd/migrate/main.go)\<close>

text \<open>The source, the database URL and the directory, or the text of the failure.\<close>

definition migrate_target :: "storage_Config \<Rightarrow> string + (string \<times> string)" where
  "migrate_target c =
     (if stc_Type c = ''postgres'' then
        (case stc_Postgres c of
           None \<Rightarrow> Inl ''postgres config is required for type postgres''
         | Some p \<Rightarrow> Inr (''postgres://'' @ pgc_User p @ '':'' @ pgc_Password p @ ''@'' @ pgc_Host p @ '':''
               @ int_text (pgc_Port p) @ ''/'' @ pgc_DBName p @ ''?sslmode='' @ pgc_SSLMode p, pgc_MigrationsPath p))
      else if stc_Type c = ''mysql'' then
        (case stc_MySQL c of
           None \<Rightarrow> Inl ''mysql config is required for type mysql''
         | Some m \<Rightarrow> Inr (my_MigrateDSN m, myc_MigrationsPath m))
      else Inl (''unsupported storage type '' @ quoted (stc_Type c)))"

text \<open>\<open>new\<close> and \<open>up\<close> are golang-migrate's constructor and its run; \<open>ErrNoChange\<close> is a success.
  The result is the exit status and the line printed.\<close>

datatype migrate_result = UpOk | UpNoChange | UpFailed string

definition migrate_main ::
  "(string \<Rightarrow> string \<Rightarrow> string option) \<Rightarrow> (string \<Rightarrow> string \<Rightarrow> migrate_result) \<Rightarrow> config_error + MigrateConfig \<Rightarrow>
     nat \<times> string" where
  "migrate_main new up loaded =
     (case loaded of
        Inl e \<Rightarrow> (1, ''load config: '' @ config_error_text e)
      | Inr cfg \<Rightarrow>
          (case migrate_target (mgc_Storage cfg) of
             Inl e \<Rightarrow> (1, e)
           | Inr (dsn, path) \<Rightarrow>
               (case new (''file://'' @ path) dsn of
                  Some e \<Rightarrow> (1, ''migrate: '' @ e)
                | None \<Rightarrow>
                    (case up (''file://'' @ path) dsn of
                       UpFailed e \<Rightarrow> (1, ''migrate up: '' @ e)
                     | _ \<Rightarrow> (0, ''migrations applied'')))))"

end
