(* ===== verification/Cache.thy ===== *)
theory Cache
  imports World
begin

text \<open>
  internal/infrastructure/cache: the cache interface of cache.go and the in-memory store of
  mock/mock.go.  A cached value is the output of \<open>json.Marshal\<close> or another text (type \<open>raw\<close>).
  The mutex makes every operation atomic.
\<close>

record 'w Cache =
  cache_Get :: "string \<Rightarrow> ('w, raw) io"
  cache_Set :: "string \<Rightarrow> raw \<Rightarrow> duration \<Rightarrow> ('w, unit) io"
  cache_Del :: "string \<Rightarrow> ('w, unit) io"
  cache_Ping :: "('w, unit) io"
  cache_Close :: "('w, unit) io"

section \<open>The in-memory store (mock.go)\<close>

definition entry_expired :: "time \<Rightarrow> cache_entry \<Rightarrow> bool" where
  "entry_expired now e \<longleftrightarrow> ce_expiresAt e \<noteq> zero_time \<and> time_After now (ce_expiresAt e)"

definition mock_deleteExpired :: "(world, unit) io" where
  "mock_deleteExpired =
     call clock_now (\<lambda>now w.
     (Ok (), w\<lparr>w_cache := (\<lambda>k. case w_cache w k of
        None \<Rightarrow> None | Some e \<Rightarrow> if entry_expired now e then None else Some e)\<rparr>))"

definition mock_Get :: "string \<Rightarrow> (world, raw) io" where
  "mock_Get key w =
     (case w_cache w key of
        None \<Rightarrow> (Err (Lib (''mock cache: key '' @ quoted key @ '' not found'')), w)
      | Some e \<Rightarrow>
          if ce_expiresAt e = zero_time then (Ok (ce_value e), w)
          else call clock_now (\<lambda>now w.
            if time_After now (ce_expiresAt e)
            then (Err (Lib (''mock cache: key '' @ quoted key @ '' expired'')), w\<lparr>w_cache := (w_cache w)(key := None)\<rparr>)
            else (Ok (ce_value e), w)) w)"

definition mock_Set :: "string \<Rightarrow> raw \<Rightarrow> duration \<Rightarrow> (world, unit) io" where
  "mock_Set key val ttl =
     call (if ttl > 0 then call clock_now (\<lambda>now. ret (time_Add now ttl)) else ret zero_time) (\<lambda>exp w.
     (Ok (), w\<lparr>w_cache := (w_cache w)(key \<mapsto> \<lparr>ce_value = val, ce_expiresAt = exp\<rparr>)\<rparr>))"

definition mock_Del :: "string \<Rightarrow> (world, unit) io" where
  "mock_Del key w = (Ok (), w\<lparr>w_cache := (w_cache w)(key := None)\<rparr>)"

definition mock_Ping :: "(world, unit) io" where
  "mock_Ping = ret ()"

definition mock_Close :: "(world, unit) io" where
  "mock_Close = ret ()"

definition mock_New :: "string \<rightharpoonup> cache_entry" where
  "mock_New = Map.empty"

definition mock_cache :: "world Cache" where
  "mock_cache = \<lparr>cache_Get = mock_Get, cache_Set = mock_Set, cache_Del = mock_Del, cache_Ping = mock_Ping,
     cache_Close = mock_Close\<rparr>"

text \<open>The background sweep: what its \<open>select\<close> receives, one item at a time.\<close>

datatype sweep_input = SweepTick | SweepDone

fun mock_runCleanup :: "sweep_input list \<Rightarrow> (world, unit) io" where
  "mock_runCleanup [] = ret ()"
| "mock_runCleanup (SweepTick # ins) = call mock_deleteExpired (\<lambda>_. mock_runCleanup ins)"
| "mock_runCleanup (SweepDone # ins) = ret ()"

section \<open>The choice of the back end (cache.go)\<close>

datatype cache_backend = RedisBackend | MockBackend

definition cache_New :: "string \<Rightarrow> bool \<Rightarrow> goerr + cache_backend" where
  "cache_New typ has_redis =
     (if typ = ''redis'' then
        (if \<not> has_redis then Inl (Lib (''cache: redis config is required when type is '' @ quoted ''redis''))
         else Inr RedisBackend)
      else if typ = ''mock'' \<or> typ = [] then Inr MockBackend
      else Inl (Lib (''cache: unknown type '' @ quoted typ)))"

end
