(* ===== verification/Cached.thy ===== *)
theory Cached
  imports Cache
begin

text \<open>
  internal/infrastructure/storage/cached (user.go, chat.go): the read-through, write-invalidate
  repositories, over any origin and any cache.  \<open>us\<close> is \<open>uuid.UUID.String\<close>.  The log lines are
  left out.
\<close>

section \<open>Encoding\<close>

text \<open>\<open>json.Unmarshal([]byte(raw), &x)\<close>: a text that is not the output of \<open>json.Marshal\<close> does not
  decode into a struct.\<close>

definition unmarshal :: "(json \<Rightarrow> 'a option) \<Rightarrow> raw \<Rightarrow> 'a option" where
  "unmarshal f r = (case r of Text s \<Rightarrow> None | Json j \<Rightarrow> f j)"

section \<open>Users (user.go)\<close>

definition userKey :: "(uuid \<Rightarrow> string) \<Rightarrow> uuid \<Rightarrow> string" where
  "userKey us uid = ''user:'' @ us uid"

text \<open>A hit that decodes, or the origin and a store of its answer; errors of the store are logged.\<close>

definition read_through ::
  "'w Cache \<Rightarrow> string \<Rightarrow> (raw \<Rightarrow> 'a option) \<Rightarrow> ('a \<Rightarrow> raw) \<Rightarrow> duration \<Rightarrow> ('w, 'a) io \<Rightarrow> ('w, 'a) io" where
  "read_through c key decode encode ttl origin =
     (let miss = call origin (\<lambda>x. call (ignore_err (cache_Set c key (encode x) ttl)) (\<lambda>_. ret x))
      in branch (cache_Get c key)
           (\<lambda>raw. case decode raw of Some x \<Rightarrow> ret x | None \<Rightarrow> miss)
           (\<lambda>_. miss))"

definition cached_user_GetByID ::
  "(uuid \<Rightarrow> string) \<Rightarrow> 'w Cache \<Rightarrow> duration \<Rightarrow> 'w UserRepository \<Rightarrow> uuid \<Rightarrow> ('w, User) io" where
  "cached_user_GetByID us c ttl origin uid =
     read_through c (userKey us uid) (unmarshal User_of_json) (\<lambda>u. Json (json_of_User u)) ttl
       (ur_GetByID origin uid)"

definition cached_user_Update ::
  "(uuid \<Rightarrow> string) \<Rightarrow> 'w Cache \<Rightarrow> 'w UserRepository \<Rightarrow> User \<Rightarrow> ('w, unit) io" where
  "cached_user_Update us c origin user =
     call (ur_Update origin user) (\<lambda>_. ignore_err (cache_Del c (userKey us (user_ID user))))"

definition cached_user_UpdateStatus ::
  "(uuid \<Rightarrow> string) \<Rightarrow> 'w Cache \<Rightarrow> 'w UserRepository \<Rightarrow> uuid \<Rightarrow> UserStatus \<Rightarrow> time \<Rightarrow> ('w, unit) io" where
  "cached_user_UpdateStatus us c origin uid status lastSeen =
     call (ur_UpdateStatus origin uid status lastSeen) (\<lambda>_. ignore_err (cache_Del c (userKey us uid)))"

definition cached_user_Delete ::
  "(uuid \<Rightarrow> string) \<Rightarrow> 'w Cache \<Rightarrow> 'w UserRepository \<Rightarrow> uuid \<Rightarrow> ('w, unit) io" where
  "cached_user_Delete us c origin uid =
     call (ur_Delete origin uid) (\<lambda>_. ignore_err (cache_Del c (userKey us uid)))"

text \<open>Methods without a cache.\<close>

definition cached_user_Create :: "'w UserRepository \<Rightarrow> User \<Rightarrow> ('w, unit) io" where
  "cached_user_Create origin user = ur_Create origin user"

definition cached_user_GetByEmail :: "'w UserRepository \<Rightarrow> string \<Rightarrow> ('w, User) io" where
  "cached_user_GetByEmail origin email = ur_GetByEmail origin email"

definition cached_user_GetByUsername :: "'w UserRepository \<Rightarrow> string \<Rightarrow> ('w, User) io" where
  "cached_user_GetByUsername origin username = ur_GetByUsername origin username"

definition cached_user_Search :: "'w UserRepository \<Rightarrow> string \<Rightarrow> int \<Rightarrow> int \<Rightarrow> ('w, User list) io" where
  "cached_user_Search origin query lim off = ur_Search origin query lim off"

text \<open>\<open>if c == nil { return origin }\<close>.\<close>

definition cached_NewUserRepository ::
  "(uuid \<Rightarrow> string) \<Rightarrow> 'w UserRepository \<Rightarrow> 'w Cache option \<Rightarrow> duration \<Rightarrow> 'w UserRepository" where
  "cached_NewUserRepository us origin c ttl =
     (case c of
        None \<Rightarrow> origin
      | Some c \<Rightarrow> \<lparr>ur_Create = cached_user_Create origin, ur_GetByID = cached_user_GetByID us c ttl origin,
          ur_GetByEmail = cached_user_GetByEmail origin,
          ur_GetByUsername = cached_user_GetByUsername origin,
          ur_Update = cached_user_Update us c origin,
          ur_UpdateStatus = cached_user_UpdateStatus us c origin,
          ur_Search = cached_user_Search origin, ur_Delete = cached_user_Delete us c origin\<rparr>)"

section \<open>Chats (chat.go)\<close>

definition chatKey :: "(uuid \<Rightarrow> string) \<Rightarrow> uuid \<Rightarrow> string" where
  "chatKey us c = ''chat:'' @ us c"

definition memberKey :: "(uuid \<Rightarrow> string) \<Rightarrow> uuid \<Rightarrow> uuid \<Rightarrow> string" where
  "memberKey us chatID userID = ''chatmember:'' @ us chatID @ '':'' @ us userID"

definition isMemberKey :: "(uuid \<Rightarrow> string) \<Rightarrow> uuid \<Rightarrow> uuid \<Rightarrow> string" where
  "isMemberKey us chatID userID = ''ismember:'' @ us chatID @ '':'' @ us userID"

definition cached_chat_GetByID ::
  "(uuid \<Rightarrow> string) \<Rightarrow> 'w Cache \<Rightarrow> duration \<Rightarrow> 'w ChatRepository \<Rightarrow> uuid \<Rightarrow> ('w, Chat) io" where
  "cached_chat_GetByID us c chatTTL origin chatID =
     read_through c (chatKey us chatID) (unmarshal Chat_of_json) (\<lambda>x. Json (json_of_Chat x)) chatTTL
       (cr_GetByID origin chatID)"

text \<open>The flag: any text other than \<open>"1"\<close> reads as false, and is never looked up again.\<close>

definition decode_flag :: "raw \<Rightarrow> bool option" where
  "decode_flag r = Some (r = Text ''1'')"

definition encode_flag :: "bool \<Rightarrow> raw" where
  "encode_flag b = Text (if b then ''1'' else ''0'')"

definition cached_chat_IsMember ::
  "(uuid \<Rightarrow> string) \<Rightarrow> 'w Cache \<Rightarrow> duration \<Rightarrow> 'w ChatRepository \<Rightarrow> uuid \<Rightarrow> uuid \<Rightarrow> ('w, bool) io" where
  "cached_chat_IsMember us c memberTTL origin chatID userID =
     read_through c (isMemberKey us chatID userID) decode_flag encode_flag memberTTL
       (cr_IsMember origin chatID userID)"

definition cached_chat_GetMember ::
  "(uuid \<Rightarrow> string) \<Rightarrow> 'w Cache \<Rightarrow> duration \<Rightarrow> 'w ChatRepository \<Rightarrow> uuid \<Rightarrow> uuid \<Rightarrow> ('w, ChatMember) io" where
  "cached_chat_GetMember us c memberTTL origin chatID userID =
     read_through c (memberKey us chatID userID) (unmarshal ChatMember_of_json)
       (\<lambda>m. Json (json_of_ChatMember m)) memberTTL (cr_GetMember origin chatID userID)"

definition seed_member ::
  "(uuid \<Rightarrow> string) \<Rightarrow> 'w Cache \<Rightarrow> duration \<Rightarrow> uuid \<Rightarrow> ChatMember \<Rightarrow> ('w, unit) io" where
  "seed_member us c memberTTL chatID m =
     call (ignore_err (cache_Set c (isMemberKey us chatID (mem_UserID m)) (Text ''1'') memberTTL)) (\<lambda>_.
     ignore_err (cache_Set c (memberKey us chatID (mem_UserID m)) (Json (json_of_ChatMember m)) memberTTL))"

definition cached_chat_CreateWithMembers ::
  "(uuid \<Rightarrow> string) \<Rightarrow> 'w Cache \<Rightarrow> duration \<Rightarrow> 'w ChatRepository \<Rightarrow> Chat \<Rightarrow> ChatMember list \<Rightarrow> ('w, unit) io" where
  "cached_chat_CreateWithMembers us c memberTTL origin chat members =
     call (cr_CreateWithMembers origin chat members) (\<lambda>_.
     for_each (seed_member us c memberTTL (chat_ID chat)) members)"

definition cached_chat_Update ::
  "(uuid \<Rightarrow> string) \<Rightarrow> 'w Cache \<Rightarrow> 'w ChatRepository \<Rightarrow> Chat \<Rightarrow> ('w, unit) io" where
  "cached_chat_Update us c origin chat =
     call (ignore_err (cache_Del c (chatKey us (chat_ID chat)))) (\<lambda>_. cr_Update origin chat)"

definition forget_member ::
  "(uuid \<Rightarrow> string) \<Rightarrow> 'w Cache \<Rightarrow> uuid \<Rightarrow> uuid \<Rightarrow> ('w, unit) io" where
  "forget_member us c chatID userID =
     call (ignore_err (cache_Del c (isMemberKey us chatID userID))) (\<lambda>_.
     ignore_err (cache_Del c (memberKey us chatID userID)))"

text \<open>\<open>members, _ := r.origin.GetMembers(ctx, id)\<close>: after an error the list is nil.\<close>

definition cached_chat_Delete ::
  "(uuid \<Rightarrow> string) \<Rightarrow> 'w Cache \<Rightarrow> 'w ChatRepository \<Rightarrow> uuid \<Rightarrow> ('w, unit) io" where
  "cached_chat_Delete us c origin chatID =
     call (branch (cr_GetMembers origin chatID) ret (\<lambda>_. ret [])) (\<lambda>members.
     call (cr_Delete origin chatID) (\<lambda>_.
     call (ignore_err (cache_Del c (chatKey us chatID))) (\<lambda>_.
     for_each (\<lambda>m. forget_member us c chatID (mem_UserID m)) members)))"

definition cached_chat_AddMember ::
  "(uuid \<Rightarrow> string) \<Rightarrow> 'w Cache \<Rightarrow> duration \<Rightarrow> 'w ChatRepository \<Rightarrow> ChatMember \<Rightarrow> ('w, unit) io" where
  "cached_chat_AddMember us c memberTTL origin member =
     call (cr_AddMember origin member) (\<lambda>_. seed_member us c memberTTL (mem_ChatID member) member)"

definition cached_chat_RemoveMember ::
  "(uuid \<Rightarrow> string) \<Rightarrow> 'w Cache \<Rightarrow> 'w ChatRepository \<Rightarrow> uuid \<Rightarrow> uuid \<Rightarrow> ('w, unit) io" where
  "cached_chat_RemoveMember us c origin chatID userID =
     call (cr_RemoveMember origin chatID userID) (\<lambda>_. forget_member us c chatID userID)"

definition cached_chat_UpdateMemberRole ::
  "(uuid \<Rightarrow> string) \<Rightarrow> 'w Cache \<Rightarrow> 'w ChatRepository \<Rightarrow> uuid \<Rightarrow> uuid \<Rightarrow> MemberRole \<Rightarrow> ('w, unit) io" where
  "cached_chat_UpdateMemberRole us c origin chatID userID role =
     call (cr_UpdateMemberRole origin chatID userID role) (\<lambda>_.
     ignore_err (cache_Del c (memberKey us chatID userID)))"

text \<open>Methods without a cache.\<close>

definition cached_chat_GetUserChats :: "'w ChatRepository \<Rightarrow> uuid \<Rightarrow> ('w, ChatPreview list) io" where
  "cached_chat_GetUserChats origin userID = cr_GetUserChats origin userID"

definition cached_chat_GetDirectChat :: "'w ChatRepository \<Rightarrow> uuid \<Rightarrow> uuid \<Rightarrow> ('w, Chat) io" where
  "cached_chat_GetDirectChat origin user1ID user2ID = cr_GetDirectChat origin user1ID user2ID"

definition cached_chat_GetMembers :: "'w ChatRepository \<Rightarrow> uuid \<Rightarrow> ('w, ChatMember list) io" where
  "cached_chat_GetMembers origin chatID = cr_GetMembers origin chatID"

definition cached_NewChatRepository ::
  "(uuid \<Rightarrow> string) \<Rightarrow> 'w ChatRepository \<Rightarrow> 'w Cache option \<Rightarrow> duration \<Rightarrow> duration \<Rightarrow> 'w ChatRepository" where
  "cached_NewChatRepository us origin c chatTTL memberTTL =
     (case c of
        None \<Rightarrow> origin
      | Some c \<Rightarrow> \<lparr>cr_CreateWithMembers = cached_chat_CreateWithMembers us c memberTTL origin,
          cr_GetByID = cached_chat_GetByID us c chatTTL origin,
          cr_Update = cached_chat_Update us c origin, cr_Delete = cached_chat_Delete us c origin,
          cr_AddMember = cached_chat_AddMember us c memberTTL origin,
          cr_RemoveMember = cached_chat_RemoveMember us c origin,
          cr_GetMember = cached_chat_GetMember us c memberTTL origin,
          cr_GetMembers = cached_chat_GetMembers origin,
          cr_UpdateMemberRole = cached_chat_UpdateMemberRole us c origin,
          cr_GetUserChats = cached_chat_GetUserChats origin,
          cr_GetDirectChat = cached_chat_GetDirectChat origin,
          cr_IsMember = cached_chat_IsMember us c memberTTL origin\<rparr>)"

end
