(* ===== verification/MySql.thy ===== *)
theory MySql
  imports Sql
begin

text \<open>
  What the MySQL repositories share: the column checks and constraints of
  migrations/mysql/000001_init.up.sql in strict SQL mode and the errors a violation reports.

  The record \<open>mysql\<close> holds what belongs to the server and not to the code: the weight that the
  collation \<open>utf8mb4_unicode_ci\<close> gives a text (two texts with the same weight are equal to
  \<open>=\<close>, to unique indexes and to \<open>ORDER BY\<close>), its \<open>LIKE\<close>, and the value to which
  \<open>INSERT IGNORE\<close> turns a text that a column refuses.  \<open>RowsAffected\<close> counts the rows that an
  \<open>UPDATE\<close> changed, because mysql/config.go does not set \<open>clientFoundRows\<close>.
\<close>

record 'k mysql =
  my_weight :: "string \<Rightarrow> 'k"
  my_like :: "string \<Rightarrow> string \<Rightarrow> bool"
  my_coerce :: "string \<Rightarrow> string"

definition my_nullableStr :: "string \<Rightarrow> string option" where
  "my_nullableStr s = (if s = [] then None else Some s)"

definition opt_valid :: "string option \<Rightarrow> bool" where
  "opt_valid s \<longleftrightarrow> (case s of None \<Rightarrow> True | Some t \<Rightarrow> ValidString t)"

definition opt_runes :: "string option \<Rightarrow> nat" where
  "opt_runes s = (case s of None \<Rightarrow> 0 | Some t \<Rightarrow> RuneCountInString t)"

definition opt_bytes :: "string option \<Rightarrow> nat" where
  "opt_bytes s = (case s of None \<Rightarrow> 0 | Some t \<Rightarrow> length t)"

text \<open>The capacity of a \<open>TEXT\<close> column in bytes.\<close>

definition text_limit :: nat where
  "text_limit = 65535"

definition incorrect_string :: db_error where
  "incorrect_string = MySQLError 1366 []"

definition data_truncated :: db_error where
  "data_truncated = MySQLError 1265 []"

definition data_too_long :: db_error where
  "data_too_long = MySQLError 1406 []"

definition my_check_violation :: db_error where
  "my_check_violation = MySQLError 3819 []"

definition my_fk_violation :: db_error where
  "my_fk_violation = MySQLError 1452 []"

text \<open>\<open>Duplicate entry '...' for key 'table.index'\<close>.\<close>

definition duplicate_entry :: "string \<Rightarrow> string \<Rightarrow> db_error" where
  "duplicate_entry entry key =
     MySQLError 1062 (''Duplicate entry '' @ [CHR 0x27] @ entry @ [CHR 0x27] @ '' for key '' @
       [CHR 0x27] @ key @ [CHR 0x27])"

definition bad_arguments :: db_error where
  "bad_arguments = MySQLError 1210 []"

definition enum_member :: "string \<Rightarrow> string list \<Rightarrow> bool" where
  "enum_member s vs \<longleftrightarrow> s \<in> set vs"

section \<open>Constraints\<close>

definition my_chat_checks :: "chat_row \<Rightarrow> (bool \<times> db_error) list" where
  "my_chat_checks r =
     [(\<not> (opt_valid (cc_name r) \<and> opt_valid (cc_avatar_url r) \<and> opt_valid (cc_description r)),
         incorrect_string),
      (\<not> enum_member (cc_type r) [''direct'', ''group''], data_truncated),
      (opt_runes (cc_name r) > 100, data_too_long),
      (opt_bytes (cc_avatar_url r) > text_limit, data_too_long),
      (opt_runes (cc_description r) > 500, data_too_long),
      (cc_type r = ''group'' \<and> cc_name r = None, my_check_violation),
      (cc_type r = ''direct'' \<and> cc_name r \<noteq> None, my_check_violation)]"

definition my_chat_keys :: "db \<Rightarrow> chat_row \<Rightarrow> (bool \<times> db_error) list" where
  "my_chat_keys d r =
     [(chat_exists d (cc_id r), duplicate_entry [] ''chats.PRIMARY''),
      (\<not> user_exists d (cc_created_by r), my_fk_violation)]"

definition my_insert_chat :: "chat_row \<Rightarrow> db \<Rightarrow> db_error + (nat \<times> db)" where
  "my_insert_chat r d =
     (case first_violation (my_chat_checks r @ my_chat_keys d r) of
        Some e \<Rightarrow> Inl e
      | None \<Rightarrow> Inr (1, d\<lparr>tb_chats := tb_chats d @ [r]\<rparr>))"

definition my_role_values :: "string list" where
  "my_role_values = [''owner'', ''admin'', ''member'']"

definition my_member_fks :: "db \<Rightarrow> member_row \<Rightarrow> bool" where
  "my_member_fks d r \<longleftrightarrow> chat_exists d (mc_chat_id r) \<and> user_exists d (mc_user_id r)"

definition my_insert_member :: "member_row \<Rightarrow> db \<Rightarrow> db_error + (nat \<times> db)" where
  "my_insert_member r d =
     (case first_violation
        [(\<not> enum_member (mc_role r) my_role_values, data_truncated),
         (member_exists d (mc_chat_id r) (mc_user_id r), duplicate_entry [] ''chat_members.PRIMARY''),
         (\<not> my_member_fks d r, my_fk_violation)] of
        Some e \<Rightarrow> Inl e
      | None \<Rightarrow> Inr (1, d\<lparr>tb_members := tb_members d @ [r]\<rparr>))"

text \<open>\<open>INSERT IGNORE\<close>: a duplicate key or a missing parent row is a warning, and no row is
  inserted; a value outside the enumeration becomes the empty string.\<close>

definition my_insert_ignore_member :: "member_row \<Rightarrow> db \<Rightarrow> db_error + (nat \<times> db)" where
  "my_insert_ignore_member r d =
     (let r = (if enum_member (mc_role r) my_role_values then r else r\<lparr>mc_role := []\<rparr>)
      in if member_exists d (mc_chat_id r) (mc_user_id r) \<or> \<not> my_member_fks d r then Inr (0, d)
         else Inr (1, d\<lparr>tb_members := tb_members d @ [r]\<rparr>))"

end
