(* ===== verification/MyUser.thy ===== *)
theory MyUser
  imports MySql
begin

text \<open>
  internal/infrastructure/storage/mysql/user.go: the MySQL user repository.  Emails and usernames
  are compared under the collation of the columns, so \<open>S\<close>, the server, is a parameter.
\<close>

section \<open>Rows and constraints\<close>

definition my_scanUser :: "user_row \<Rightarrow> db_error + User" where
  "my_scanUser r = Inr \<lparr>user_ID = uc_id r, user_Username = uc_username r,
     user_Email = uc_email r, user_PasswordHash = uc_password_hash r,
     user_AvatarURL = null_text (uc_avatar_url r), user_Bio = null_text (uc_bio r),
     user_Status = uc_status r, user_LastSeen = uc_last_seen r,
     user_CreatedAt = uc_created_at r, user_UpdatedAt = uc_updated_at r\<rparr>"

text \<open>The columns \<open>Search\<close> selects: not the password hash.\<close>

definition my_scanUserPublic :: "user_row \<Rightarrow> db_error + User" where
  "my_scanUserPublic r = Inr (zero_User\<lparr>user_ID := uc_id r, user_Username := uc_username r,
     user_Email := uc_email r, user_AvatarURL := null_text (uc_avatar_url r),
     user_Bio := null_text (uc_bio r), user_Status := uc_status r,
     user_LastSeen := uc_last_seen r, user_CreatedAt := uc_created_at r,
     user_UpdatedAt := uc_updated_at r\<rparr>)"

definition my_user_checks :: "user_row \<Rightarrow> (bool \<times> db_error) list" where
  "my_user_checks r =
     [(\<not> (ValidString (uc_username r) \<and> ValidString (uc_email r) \<and> ValidString (uc_password_hash r)
          \<and> opt_valid (uc_avatar_url r) \<and> opt_valid (uc_bio r)), incorrect_string),
      (\<not> enum_member (uc_status r) [''online'', ''offline'', ''away''], data_truncated),
      (RuneCountInString (uc_username r) > 50, data_too_long),
      (RuneCountInString (uc_email r) > 255, data_too_long),
      (length (uc_password_hash r) > text_limit, data_too_long),
      (opt_bytes (uc_avatar_url r) > text_limit, data_too_long),
      (opt_runes (uc_bio r) > 500, data_too_long),
      (RuneCountInString (uc_username r) < 3, my_check_violation),
      (uc_email r = [], my_check_violation)]"

text \<open>\<open>UNIQUE (email, active_flag)\<close>: \<open>active_flag\<close> is NULL for deleted rows, which never conflict.
  The entry in the message is the value and the flag.\<close>

definition my_user_uniques :: "('k, 'b) mysql_scheme \<Rightarrow> db \<Rightarrow> user_row \<Rightarrow> (bool \<times> db_error) list" where
  "my_user_uniques S d r =
     [(\<exists>x \<in> set (tb_users d). uc_deleted_at x = None \<and> uc_id x \<noteq> uc_id r
          \<and> my_weight S (uc_email x) = my_weight S (uc_email r),
         duplicate_entry (uc_email r @ ''-1'') ''users.uidx_users_email''),
      (\<exists>x \<in> set (tb_users d). uc_deleted_at x = None \<and> uc_id x \<noteq> uc_id r
          \<and> my_weight S (uc_username x) = my_weight S (uc_username r),
         duplicate_entry (uc_username r @ ''-1'') ''users.uidx_users_username'')]"

definition my_mapUserConstraintErr :: "goerr \<Rightarrow> goerr" where
  "my_mapUserConstraintErr err =
     (case err of
        Db (MySQLError number msg) \<Rightarrow>
          if number = 1062 then
            (if Contains msg ''uidx_users_email'' then Dom ErrEmailTaken
             else if Contains msg ''uidx_users_username'' then Dom ErrUsernameTaken
             else err)
          else err
      | _ \<Rightarrow> err)"

section \<open>The methods\<close>

definition my_user_Create :: "('k, 'b) mysql_scheme \<Rightarrow> User \<Rightarrow> (world, unit) io" where
  "my_user_Create S u =
     branch (db_exec (\<lambda>_ d.
       let r = \<lparr>uc_id = user_ID u, uc_username = user_Username u, uc_email = user_Email u,
                uc_password_hash = user_PasswordHash u,
                uc_avatar_url = my_nullableStr (user_AvatarURL u),
                uc_bio = my_nullableStr (user_Bio u), uc_status = user_Status u,
                uc_last_seen = user_LastSeen u, uc_created_at = user_CreatedAt u,
                uc_updated_at = user_UpdatedAt u, uc_deleted_at = None\<rparr>
       in case first_violation (my_user_checks r
              @ [(user_exists d (uc_id r), duplicate_entry [] ''users.PRIMARY'')]
              @ my_user_uniques S d r) of
            Some e \<Rightarrow> Inl e
          | None \<Rightarrow> Inr (1, d\<lparr>tb_users := tb_users d @ [r]\<rparr>)))
       (\<lambda>_. ret ()) (\<lambda>err. throw (my_mapUserConstraintErr err))"

definition my_user_scanOne :: "(user_row \<Rightarrow> bool) \<Rightarrow> (world, User) io" where
  "my_user_scanOne P =
     branch (db_queryRow (\<lambda>d. filter P (tb_users d)) my_scanUser)
       ret
       (\<lambda>err. if is_ErrNoRows err then throw (Dom ErrUserNotFound) else throw err)"

definition my_user_GetByID :: "uuid \<Rightarrow> (world, User) io" where
  "my_user_GetByID uid = my_user_scanOne (\<lambda>r. uc_id r = uid \<and> uc_deleted_at r = None)"

definition my_user_GetByEmail :: "('k, 'b) mysql_scheme \<Rightarrow> string \<Rightarrow> (world, User) io" where
  "my_user_GetByEmail S email =
     my_user_scanOne (\<lambda>r. my_weight S (uc_email r) = my_weight S email \<and> uc_deleted_at r = None)"

definition my_user_GetByUsername :: "('k, 'b) mysql_scheme \<Rightarrow> string \<Rightarrow> (world, User) io" where
  "my_user_GetByUsername S username =
     my_user_scanOne (\<lambda>r. my_weight S (uc_username r) = my_weight S username \<and> uc_deleted_at r = None)"

definition my_user_Update :: "('k, 'b) mysql_scheme \<Rightarrow> User \<Rightarrow> (world, unit) io" where
  "my_user_Update S u =
     branch (db_exec (\<lambda>_ d.
       let P = (\<lambda>r. uc_id r = user_ID u \<and> uc_deleted_at r = None);
           f = (\<lambda>r. r\<lparr>uc_username := user_Username u, uc_email := user_Email u,
                      uc_avatar_url := my_nullableStr (user_AvatarURL u),
                      uc_bio := my_nullableStr (user_Bio u),
                      uc_updated_at := user_UpdatedAt u\<rparr>);
           (n, rs) = sql_update_changed P f (tb_users d)
       in case first_violation
              (concat (map (\<lambda>r. my_user_checks (f r) @ my_user_uniques S d (f r)) (filter P (tb_users d)))) of
            Some e \<Rightarrow> Inl e
          | None \<Rightarrow> Inr (n, d\<lparr>tb_users := rs\<rparr>)))
       (\<lambda>n. if n = 0 then throw (Dom ErrUserNotFound) else ret ())
       (\<lambda>err. throw (my_mapUserConstraintErr err))"

definition my_user_UpdateStatus :: "uuid \<Rightarrow> UserStatus \<Rightarrow> time \<Rightarrow> (world, unit) io" where
  "my_user_UpdateStatus uid status lastSeen =
     call (db_exec (\<lambda>now d.
       let P = (\<lambda>r. uc_id r = uid \<and> uc_deleted_at r = None);
           (n, rs) = sql_update_changed P
             (\<lambda>r. r\<lparr>uc_status := status, uc_last_seen := lastSeen, uc_updated_at := now\<rparr>) (tb_users d)
       in if filter P (tb_users d) \<noteq> [] \<and> \<not> enum_member status [''online'', ''offline'', ''away'']
          then Inl data_truncated
          else Inr (n, d\<lparr>tb_users := rs\<rparr>))) (\<lambda>_. ret ())"

definition my_user_Search ::
  "('k::linorder, 'b) mysql_scheme \<Rightarrow> string \<Rightarrow> int \<Rightarrow> int \<Rightarrow> (world, User list) io" where
  "my_user_Search S query limit offset =
     (let pattern = ''%'' @ query @ ''%''
      in if limit < 0 \<or> offset < 0 then call (db_exec (\<lambda>_ _. Inl bad_arguments)) (\<lambda>_. ret [])
         else db_query (\<lambda>d. take (nat limit) (drop (nat offset) (sort_key (\<lambda>r. my_weight S (uc_username r))
                [r \<leftarrow> tb_users d. (my_like S (uc_username r) pattern \<or> my_like S (uc_email r) pattern)
                  \<and> uc_deleted_at r = None])))
                my_scanUserPublic)"

definition my_user_Delete :: "uuid \<Rightarrow> (world, unit) io" where
  "my_user_Delete uid =
     call (db_exec (\<lambda>now d.
       let (n, rs) = sql_update_changed (\<lambda>r. uc_id r = uid \<and> uc_deleted_at r = None)
                       (\<lambda>r. r\<lparr>uc_deleted_at := Some now, uc_updated_at := now\<rparr>) (tb_users d)
       in Inr (n, d\<lparr>tb_users := rs\<rparr>))) (\<lambda>_. ret ())"

definition my_NewUserRepository :: "('k::linorder, 'b) mysql_scheme \<Rightarrow> world UserRepository" where
  "my_NewUserRepository S = \<lparr>ur_Create = my_user_Create S, ur_GetByID = my_user_GetByID,
     ur_GetByEmail = my_user_GetByEmail S, ur_GetByUsername = my_user_GetByUsername S,
     ur_Update = my_user_Update S, ur_UpdateStatus = my_user_UpdateStatus,
     ur_Search = my_user_Search S, ur_Delete = my_user_Delete\<rparr>"

end
