(* ===== verification/MyMessage.thy ===== *)
theory MyMessage
  imports MySql
begin

text \<open>
  internal/infrastructure/storage/mysql/message.go: the MySQL message repository.  The emoji of a
  reaction is compared under the collation of its column, so \<open>S\<close>, the server, is a parameter.
\<close>

section \<open>Constraints\<close>

definition my_content_checks :: "string \<Rightarrow> (bool \<times> db_error) list" where
  "my_content_checks content =
     [(\<not> ValidString content, incorrect_string),
      (length content > text_limit, data_too_long),
      (RuneCountInString content = 0, my_check_violation),
      (RuneCountInString content > 4096, my_check_violation)]"

definition my_message_checks :: "message_row \<Rightarrow> (bool \<times> db_error) list" where
  "my_message_checks r =
     my_content_checks (gc_content r)
     @ [(\<not> enum_member (gc_type r) [''text'', ''image'', ''file''], data_truncated)]"

definition my_message_keys :: "db \<Rightarrow> message_row \<Rightarrow> (bool \<times> db_error) list" where
  "my_message_keys d r =
     [(message_exists d (gc_id r), duplicate_entry [] ''messages.PRIMARY''),
      (\<not> chat_exists d (gc_chat_id r), my_fk_violation),
      (\<not> user_exists d (gc_sender_id r), my_fk_violation),
      (case gc_reply_to_id r of None \<Rightarrow> False
       | Some x \<Rightarrow> \<not> message_exists d x \<and> x \<noteq> gc_id r, my_fk_violation)]"

section \<open>Scan helpers\<close>

definition my_scanMessage :: "message_row \<Rightarrow> db_error + Message" where
  "my_scanMessage r = Inr (zero_Message\<lparr>msg_ID := gc_id r, msg_ChatID := gc_chat_id r,
     msg_SenderID := gc_sender_id r, msg_Content := gc_content r, msg_Type := gc_type r,
     msg_ReplyToID := gc_reply_to_id r, msg_EditedAt := gc_edited_at r,
     msg_DeletedAt := gc_deleted_at r, msg_CreatedAt := gc_created_at r,
     msg_UpdatedAt := gc_updated_at r\<rparr>)"

definition my_scanMessageWithSender :: "message_row \<times> user_row \<Rightarrow> db_error + Message" where
  "my_scanMessageWithSender row =
     (let (r, u) = row in
      Inr (zero_Message\<lparr>msg_ID := gc_id r, msg_ChatID := gc_chat_id r,
        msg_SenderID := gc_sender_id r, msg_Content := gc_content r, msg_Type := gc_type r,
        msg_ReplyToID := gc_reply_to_id r, msg_EditedAt := gc_edited_at r,
        msg_DeletedAt := gc_deleted_at r, msg_CreatedAt := gc_created_at r,
        msg_UpdatedAt := gc_updated_at r,
        msg_Sender := Some (zero_User\<lparr>user_ID := uc_id u, user_Username := uc_username u,
          user_Email := uc_email u, user_AvatarURL := null_text (uc_avatar_url u),
          user_Bio := null_text (uc_bio u), user_Status := uc_status u,
          user_LastSeen := uc_last_seen u, user_CreatedAt := uc_created_at u,
          user_UpdatedAt := uc_updated_at u\<rparr>)\<rparr>))"

definition my_scanReaction :: "reaction_row \<times> user_row \<Rightarrow> db_error + Reaction" where
  "my_scanReaction row =
     (let (r, u) = row in
      Inr \<lparr>rx_MessageID = xc_message_id r, rx_UserID = xc_user_id r,
        rx_Emoji = xc_emoji r, rx_CreatedAt = xc_created_at r,
        rx_User = Some (zero_User\<lparr>user_ID := uc_id u, user_Username := uc_username u,
          user_AvatarURL := null_text (uc_avatar_url u)\<rparr>)\<rparr>)"

section \<open>Messages\<close>

definition my_msg_Create :: "Message \<Rightarrow> (world, unit) io" where
  "my_msg_Create m =
     call (db_exec (\<lambda>_ d.
       let r = \<lparr>gc_id = msg_ID m, gc_chat_id = msg_ChatID m, gc_sender_id = msg_SenderID m,
                gc_content = msg_Content m, gc_type = msg_Type m, gc_reply_to_id = msg_ReplyToID m,
                gc_edited_at = None, gc_deleted_at = None, gc_created_at = msg_CreatedAt m,
                gc_updated_at = msg_UpdatedAt m\<rparr>
       in case first_violation (my_message_checks r @ my_message_keys d r) of
            Some e \<Rightarrow> Inl e
          | None \<Rightarrow> Inr (1, d\<lparr>tb_messages := tb_messages d @ [r]\<rparr>))) (\<lambda>_. ret ())"

definition my_msg_GetByID :: "uuid \<Rightarrow> (world, Message) io" where
  "my_msg_GetByID mid =
     branch (db_queryRow (\<lambda>d. [m \<leftarrow> tb_messages d. gc_id m = mid]) my_scanMessage)
       ret
       (\<lambda>err. if is_ErrNoRows err then throw (Dom ErrMessageNotFound) else throw err)"

definition my_msg_GetChatMessages ::
  "uuid \<Rightarrow> MessageCursor option \<Rightarrow> int \<Rightarrow> (world, Message list) io" where
  "my_msg_GetChatMessages chatID cursor limit =
     (let rows = (\<lambda>d. case cursor of
            None \<Rightarrow> [p \<leftarrow> messages_join_senders d.
              gc_chat_id (fst p) = chatID \<and> gc_deleted_at (fst p) = None]
          | Some c \<Rightarrow> [p \<leftarrow> messages_join_senders d.
              gc_chat_id (fst p) = chatID \<and> gc_deleted_at (fst p) = None
              \<and> (gc_created_at (fst p), gc_id (fst p)) < (cur_CreatedAt c, cur_ID c)])
      in if limit < 0 then call (db_exec (\<lambda>_ _. Inl bad_arguments)) (\<lambda>_. ret [])
         else db_query (\<lambda>d. take (nat limit)
                (sort_key (\<lambda>p. (- int (gc_created_at (fst p)), - uint (gc_id (fst p)))) (rows d)))
                my_scanMessageWithSender)"

definition my_msg_Update :: "Message \<Rightarrow> (world, unit) io" where
  "my_msg_Update m =
     call (db_exec (\<lambda>_ d.
       let P = (\<lambda>r. gc_id r = msg_ID m \<and> gc_deleted_at r = None);
           f = (\<lambda>r. r\<lparr>gc_content := msg_Content m, gc_edited_at := msg_EditedAt m,
                      gc_updated_at := msg_UpdatedAt m\<rparr>);
           (n, rs) = sql_update_changed P f (tb_messages d)
       in case first_violation
              (if filter P (tb_messages d) = [] then [] else my_content_checks (msg_Content m)) of
            Some e \<Rightarrow> Inl e
          | None \<Rightarrow> Inr (n, d\<lparr>tb_messages := rs\<rparr>))) (\<lambda>n.
     if n = 0 then throw (Dom ErrMessageNotFound) else ret ())"

definition my_msg_Delete :: "uuid \<Rightarrow> (world, unit) io" where
  "my_msg_Delete mid =
     call (db_exec (\<lambda>now d.
       let (n, rs) = sql_update_changed (\<lambda>r. gc_id r = mid \<and> gc_deleted_at r = None)
                       (\<lambda>r. r\<lparr>gc_deleted_at := Some now, gc_updated_at := now\<rparr>) (tb_messages d)
       in Inr (n, d\<lparr>tb_messages := rs\<rparr>))) (\<lambda>n.
     if n = 0 then throw (Dom ErrMessageNotFound) else ret ())"

section \<open>Read receipts\<close>

text \<open>\<open>ON DUPLICATE KEY UPDATE last_read_at = NOW(6)\<close>.\<close>

definition my_msg_MarkRead :: "uuid \<Rightarrow> uuid \<Rightarrow> (world, unit) io" where
  "my_msg_MarkRead chatID userID =
     call (db_exec (\<lambda>now d.
       let P = (\<lambda>r. rc_chat_id r = chatID \<and> rc_user_id r = userID)
       in if filter P (tb_receipts d) \<noteq> []
          then (let (n, rs) = sql_update_changed P (\<lambda>r. r\<lparr>rc_last_read_at := now\<rparr>) (tb_receipts d)
                in Inr (2 * n, d\<lparr>tb_receipts := rs\<rparr>))
          else if \<not> chat_exists d chatID \<or> \<not> user_exists d userID then Inl my_fk_violation
          else Inr (1, d\<lparr>tb_receipts := tb_receipts d @
                 [\<lparr>rc_chat_id = chatID, rc_user_id = userID, rc_last_read_at = now\<rparr>]\<rparr>)))
     (\<lambda>_. ret ())"

definition my_msg_GetUnreadCount :: "uuid \<Rightarrow> uuid \<Rightarrow> (world, nat) io" where
  "my_msg_GetUnreadCount chatID userID =
     call (db_queryRow (\<lambda>d.
       let mark = (case [r \<leftarrow> tb_receipts d. rc_chat_id r = chatID \<and> rc_user_id r = userID] of
             [] \<Rightarrow> unix_epoch | r # _ \<Rightarrow> rc_last_read_at r)
       in [length [m \<leftarrow> tb_messages d. gc_chat_id m = chatID \<and> gc_sender_id m \<noteq> userID
             \<and> gc_deleted_at m = None \<and> gc_created_at m > mark]]) Inr) ret"

section \<open>Reactions\<close>

text \<open>Two emojis of equal weight are one key.  \<open>INSERT IGNORE\<close> coerces a value the column refuses and
  skips a row that violates a key, a foreign key or the check constraint.\<close>

definition my_same_reaction :: "('k, 'b) mysql_scheme \<Rightarrow> uuid \<Rightarrow> uuid \<Rightarrow> string \<Rightarrow> reaction_row \<Rightarrow> bool" where
  "my_same_reaction S m u e r \<longleftrightarrow> xc_message_id r = m \<and> xc_user_id r = u
     \<and> my_weight S (xc_emoji r) = my_weight S e"

definition my_msg_AddReaction :: "('k, 'b) mysql_scheme \<Rightarrow> Reaction \<Rightarrow> (world, unit) io" where
  "my_msg_AddReaction S rx =
     call (db_exec (\<lambda>_ d.
       let emoji = (if ValidString (rx_Emoji rx) \<and> RuneCountInString (rx_Emoji rx) \<le> 10
                    then rx_Emoji rx else my_coerce S (rx_Emoji rx));
           r = \<lparr>xc_message_id = rx_MessageID rx, xc_user_id = rx_UserID rx,
                xc_emoji = emoji, xc_created_at = rx_CreatedAt rx\<rparr>
       in if (\<exists>x \<in> set (tb_reactions d). my_same_reaction S (xc_message_id r) (xc_user_id r) emoji x)
             \<or> RuneCountInString emoji < 1 \<or> RuneCountInString emoji > 10
             \<or> \<not> message_exists d (xc_message_id r) \<or> \<not> user_exists d (xc_user_id r)
          then Inr (0, d)
          else Inr (1, d\<lparr>tb_reactions := tb_reactions d @ [r]\<rparr>)))
     (\<lambda>_. ret ())"

definition my_msg_RemoveReaction ::
  "('k, 'b) mysql_scheme \<Rightarrow> uuid \<Rightarrow> uuid \<Rightarrow> string \<Rightarrow> (world, unit) io" where
  "my_msg_RemoveReaction S messageID userID emoji =
     call (db_exec (\<lambda>_ d.
       let (n, rs) = sql_delete (my_same_reaction S messageID userID emoji) (tb_reactions d)
       in Inr (n, d\<lparr>tb_reactions := rs\<rparr>)))
     (\<lambda>_. ret ())"

definition my_msg_GetReactions :: "('k::linorder, 'b) mysql_scheme \<Rightarrow> uuid \<Rightarrow> (world, Reaction list) io" where
  "my_msg_GetReactions S messageID =
     db_query (\<lambda>d. sort_key (\<lambda>p. (xc_created_at (fst p), xc_user_id (fst p), my_weight S (xc_emoji (fst p))))
       [p \<leftarrow> reactions_join_users d. xc_message_id (fst p) = messageID]) my_scanReaction"

text \<open>The list of placeholders has one \<open>?\<close> per identifier, so the clause is membership in the list.\<close>

definition my_msg_GetReactionsBatch ::
  "('k::linorder, 'b) mysql_scheme \<Rightarrow> uuid list \<Rightarrow> (world, uuid \<rightharpoonup> Reaction list) io" where
  "my_msg_GetReactionsBatch S messageIDs =
     (if messageIDs = [] then ret Map.empty
      else call (db_query (\<lambda>d. sort_key (\<lambda>p. (xc_message_id (fst p), xc_created_at (fst p),
                      xc_user_id (fst p), my_weight S (xc_emoji (fst p))))
             [p \<leftarrow> reactions_join_users d. xc_message_id (fst p) \<in> set messageIDs]) my_scanReaction)
        (\<lambda>rows. ret (foldl append_reaction Map.empty rows)))"

definition my_NewMessageRepository :: "('k::linorder, 'b) mysql_scheme \<Rightarrow> world MessageRepository" where
  "my_NewMessageRepository S = \<lparr>mr_Create = my_msg_Create, mr_GetByID = my_msg_GetByID,
     mr_GetChatMessages = my_msg_GetChatMessages, mr_Update = my_msg_Update,
     mr_Delete = my_msg_Delete, mr_MarkRead = my_msg_MarkRead,
     mr_GetUnreadCount = my_msg_GetUnreadCount, mr_AddReaction = my_msg_AddReaction S,
     mr_RemoveReaction = my_msg_RemoveReaction S, mr_GetReactions = my_msg_GetReactions S,
     mr_GetReactionsBatch = my_msg_GetReactionsBatch S\<rparr>"

end
