(* ===== verification/MyChat.thy ===== *)
theory MyChat
  imports MySql
begin

text \<open>
  internal/infrastructure/storage/mysql/chat.go: the MySQL chat repository, one definition per
  method.  Two columns of the schema act on their own: \<open>updated_at\<close> of \<open>chats\<close> moves to the
  time of the statement whenever an \<open>UPDATE\<close> changes the row without setting it.
\<close>

section \<open>Scan helpers\<close>

text \<open>\<open>sql.NullString\<close> reads NULL as the empty string.\<close>

definition my_scanChat :: "chat_row \<Rightarrow> db_error + Chat" where
  "my_scanChat r = Inr \<lparr>chat_ID = cc_id r, chat_Type = cc_type r, chat_Name = null_text (cc_name r),
     chat_AvatarURL = null_text (cc_avatar_url r),
     chat_Description = null_text (cc_description r), chat_CreatedBy = cc_created_by r,
     chat_CreatedAt = cc_created_at r, chat_UpdatedAt = cc_updated_at r\<rparr>"

definition my_scanMemberWithUser :: "member_row \<times> user_row \<Rightarrow> db_error + ChatMember" where
  "my_scanMemberWithUser p =
     (let (m, u) = p in
      Inr \<lparr>mem_ChatID = mc_chat_id m, mem_UserID = mc_user_id m,
          mem_Role = mc_role m, mem_JoinedAt = mc_joined_at m,
          mem_User = Some \<lparr>user_ID = uc_id u, user_Username = uc_username u,
            user_Email = uc_email u, user_PasswordHash = uc_password_hash u,
            user_AvatarURL = null_text (uc_avatar_url u), user_Bio = null_text (uc_bio u),
            user_Status = uc_status u, user_LastSeen = uc_last_seen u,
            user_CreatedAt = uc_created_at u, user_UpdatedAt = uc_updated_at u\<rparr>\<rparr>)"

text \<open>\<open>scanMemberWithUserRows\<close> is the same function on \<open>*sql.Rows\<close>.\<close>

definition my_scanMemberWithUserRows :: "member_row \<times> user_row \<Rightarrow> db_error + ChatMember" where
  "my_scanMemberWithUserRows p =
     (let (m, u) = p in
      Inr \<lparr>mem_ChatID = mc_chat_id m, mem_UserID = mc_user_id m,
          mem_Role = mc_role m, mem_JoinedAt = mc_joined_at m,
          mem_User = Some \<lparr>user_ID = uc_id u, user_Username = uc_username u,
            user_Email = uc_email u, user_PasswordHash = uc_password_hash u,
            user_AvatarURL = null_text (uc_avatar_url u), user_Bio = null_text (uc_bio u),
            user_Status = uc_status u, user_LastSeen = uc_last_seen u,
            user_CreatedAt = uc_created_at u, user_UpdatedAt = uc_updated_at u\<rparr>\<rparr>)"

section \<open>The methods\<close>

definition my_chat_CreateWithMembers :: "Chat \<Rightarrow> ChatMember list \<Rightarrow> (world, unit) io" where
  "my_chat_CreateWithMembers c members = in_tx
     (call (db_exec (\<lambda>_. my_insert_chat
        \<lparr>cc_id = chat_ID c, cc_type = chat_Type c, cc_name = my_nullableStr (chat_Name c),
         cc_avatar_url = my_nullableStr (chat_AvatarURL c),
         cc_description = my_nullableStr (chat_Description c), cc_created_by = chat_CreatedBy c,
         cc_created_at = chat_CreatedAt c, cc_updated_at = chat_UpdatedAt c,
         cc_deleted_at = None\<rparr>)) (\<lambda>_.
      for_each (\<lambda>m. call (db_exec (\<lambda>_. my_insert_member
        \<lparr>mc_chat_id = mem_ChatID m, mc_user_id = mem_UserID m, mc_role = mem_Role m,
         mc_joined_at = mem_JoinedAt m\<rparr>)) (\<lambda>_. ret ())) members))"

definition my_chat_GetByID :: "uuid \<Rightarrow> (world, Chat) io" where
  "my_chat_GetByID chatID =
     branch (db_queryRow (\<lambda>d. [r \<leftarrow> tb_chats d. cc_id r = chatID \<and> cc_deleted_at r = None]) my_scanChat)
       ret
       (\<lambda>err. if is_ErrNoRows err then throw (Dom ErrChatNotFound) else throw err)"

definition my_chat_Update :: "Chat \<Rightarrow> (world, unit) io" where
  "my_chat_Update c =
     call (db_exec (\<lambda>_ d.
       let P = (\<lambda>r. cc_id r = chat_ID c \<and> cc_deleted_at r = None);
           f = (\<lambda>r. r\<lparr>cc_name := my_nullableStr (chat_Name c),
                      cc_avatar_url := my_nullableStr (chat_AvatarURL c),
                      cc_description := my_nullableStr (chat_Description c),
                      cc_updated_at := chat_UpdatedAt c\<rparr>);
           (n, rs) = sql_update_changed P f (tb_chats d)
       in case first_violation (concat (map (\<lambda>r. my_chat_checks (f r)) (filter P (tb_chats d)))) of
            Some e \<Rightarrow> Inl e
          | None \<Rightarrow> Inr (n, d\<lparr>tb_chats := rs\<rparr>))) (\<lambda>n.
     if n = 0 then throw (Dom ErrChatNotFound) else ret ())"

definition my_chat_Delete :: "uuid \<Rightarrow> (world, unit) io" where
  "my_chat_Delete chatID =
     call (db_exec (\<lambda>now d.
       let (n, rs) = sql_update_changed (\<lambda>r. cc_id r = chatID \<and> cc_deleted_at r = None)
                       (\<lambda>r. r\<lparr>cc_deleted_at := Some now, cc_updated_at := now\<rparr>) (tb_chats d)
       in Inr (n, d\<lparr>tb_chats := rs\<rparr>))) (\<lambda>_. ret ())"

definition my_chat_AddMember :: "ChatMember \<Rightarrow> (world, unit) io" where
  "my_chat_AddMember m =
     call (db_exec (\<lambda>_. my_insert_ignore_member
       \<lparr>mc_chat_id = mem_ChatID m, mc_user_id = mem_UserID m, mc_role = mem_Role m,
        mc_joined_at = mem_JoinedAt m\<rparr>)) (\<lambda>n.
     if n = 0 then throw (Dom ErrAlreadyChatMember) else ret ())"

definition my_chat_RemoveMember :: "uuid \<Rightarrow> uuid \<Rightarrow> (world, unit) io" where
  "my_chat_RemoveMember chatID userID =
     call (db_exec (\<lambda>_ d.
       let (n, rs) = sql_delete (\<lambda>r. mc_chat_id r = chatID \<and> mc_user_id r = userID) (tb_members d)
       in Inr (n, d\<lparr>tb_members := rs\<rparr>))) (\<lambda>n.
     if n = 0 then throw (Dom ErrNotChatMember) else ret ())"

definition my_chat_GetMember :: "uuid \<Rightarrow> uuid \<Rightarrow> (world, ChatMember) io" where
  "my_chat_GetMember chatID userID =
     branch (db_queryRow (\<lambda>d. [p \<leftarrow> members_join_users d.
                mc_chat_id (fst p) = chatID \<and> mc_user_id (fst p) = userID]) my_scanMemberWithUser)
       ret
       (\<lambda>err. if is_ErrNoRows err then throw (Dom ErrNotChatMember) else throw err)"

definition my_chat_GetMembers :: "uuid \<Rightarrow> (world, ChatMember list) io" where
  "my_chat_GetMembers chatID =
     db_query (\<lambda>d. sort_key (\<lambda>p. (mc_joined_at (fst p), mc_user_id (fst p)))
       [p \<leftarrow> members_join_users d. mc_chat_id (fst p) = chatID]) my_scanMemberWithUserRows"

definition my_chat_UpdateMemberRole :: "uuid \<Rightarrow> uuid \<Rightarrow> MemberRole \<Rightarrow> (world, unit) io" where
  "my_chat_UpdateMemberRole chatID userID role =
     call (db_exec (\<lambda>_ d.
       let P = (\<lambda>r. mc_chat_id r = chatID \<and> mc_user_id r = userID);
           (n, rs) = sql_update_changed P (\<lambda>r. r\<lparr>mc_role := role\<rparr>) (tb_members d)
       in if filter P (tb_members d) \<noteq> [] \<and> \<not> enum_member role my_role_values then Inl data_truncated
          else Inr (n, d\<lparr>tb_members := rs\<rparr>))) (\<lambda>n.
     if n = 0 then throw (Dom ErrNotChatMember) else ret ())"

definition my_chat_GetDirectChat :: "uuid \<Rightarrow> uuid \<Rightarrow> (world, Chat) io" where
  "my_chat_GetDirectChat user1ID user2ID =
     branch (db_queryRow (\<lambda>d. take 1 [c \<leftarrow> tb_chats d.
                cc_type c = ''direct'' \<and> cc_deleted_at c = None
                \<and> member_exists d (cc_id c) user1ID \<and> member_exists d (cc_id c) user2ID])
              my_scanChat)
       ret
       (\<lambda>err. if is_ErrNoRows err then throw (Dom ErrChatNotFound) else throw err)"

text \<open>\<open>SELECT EXISTS(...)\<close> yields 0 or 1.\<close>

definition my_chat_IsMember :: "uuid \<Rightarrow> uuid \<Rightarrow> (world, bool) io" where
  "my_chat_IsMember chatID userID =
     call (db_queryRow (\<lambda>d. [if member_exists d chatID userID then 1 else 0]) Inr)
       (\<lambda>n. ret (n = (1 :: int)))"

section \<open>The chat list\<close>

text \<open>\<open>ROW_NUMBER() OVER (PARTITION BY chat_id ORDER BY created_at DESC, id DESC)\<close>.\<close>

definition my_row_number :: "message_row list \<Rightarrow> message_row \<Rightarrow> nat" where
  "my_row_number ms m = Suc (length [n \<leftarrow> ms. gc_chat_id n = gc_chat_id m
     \<and> (gc_created_at m, gc_id m) < (gc_created_at n, gc_id n)])"

definition my_last_messages :: "db \<Rightarrow> chat_row list \<Rightarrow> message_row list" where
  "my_last_messages d ucs =
     (let ms = [m \<leftarrow> tb_messages d. gc_chat_id m \<in> set (map cc_id ucs) \<and> gc_deleted_at m = None]
      in [m \<leftarrow> ms. my_row_number ms m = 1])"

definition my_last_read :: "db \<Rightarrow> uuid \<Rightarrow> uuid \<Rightarrow> time" where
  "my_last_read d chatID userID =
     (case [r \<leftarrow> tb_receipts d. rc_chat_id r = chatID \<and> rc_user_id r = userID] of
        [] \<Rightarrow> unix_epoch | r # _ \<Rightarrow> rc_last_read_at r)"

definition my_unread :: "db \<Rightarrow> chat_row list \<Rightarrow> uuid \<Rightarrow> (uuid \<times> nat) list" where
  "my_unread d ucs userID =
     (let ms = [m \<leftarrow> tb_messages d. gc_chat_id m \<in> set (map cc_id ucs) \<and> gc_sender_id m \<noteq> userID
                 \<and> gc_deleted_at m = None
                 \<and> gc_created_at m > my_last_read d (gc_chat_id m) userID]
      in map (\<lambda>c. (c, length (filter (\<lambda>m. gc_chat_id m = c) ms))) (remdups (map gc_chat_id ms)))"

definition my_user_chat_rows :: "db \<Rightarrow> uuid \<Rightarrow> (chat_row \<times> message_row option \<times> nat) list" where
  "my_user_chat_rows d userID =
     (let ucs = user_chats d userID;
          lms = my_last_messages d ucs;
          urs = my_unread d ucs userID
      in sort_key (\<lambda>(uc, lm, cnt). - int (case lm of None \<Rightarrow> cc_created_at uc | Some m \<Rightarrow> gc_created_at m))
           [(uc, lm, case u of None \<Rightarrow> 0 | Some (_, cnt) \<Rightarrow> cnt). uc \<leftarrow> ucs,
              lm \<leftarrow> left_join [m \<leftarrow> lms. gc_chat_id m = cc_id uc],
              u \<leftarrow> left_join [p \<leftarrow> urs. fst p = cc_id uc]])"

definition my_scanPreview :: "chat_row \<times> message_row option \<times> nat \<Rightarrow> db_error + ChatPreview" where
  "my_scanPreview row =
     (let (r, lm, cnt) = row;
          c = \<lparr>chat_ID = cc_id r, chat_Type = cc_type r, chat_Name = null_text (cc_name r),
               chat_AvatarURL = null_text (cc_avatar_url r),
               chat_Description = null_text (cc_description r),
               chat_CreatedBy = cc_created_by r, chat_CreatedAt = cc_created_at r,
               chat_UpdatedAt = cc_updated_at r\<rparr>
      in Inr \<lparr>pv_Chat = c, pv_Members = [],
           pv_LastMessage = (case lm of
              None \<Rightarrow> None
            | Some m \<Rightarrow> Some (zero_Message\<lparr>msg_ID := gc_id m, msg_ChatID := chat_ID c,
                msg_SenderID := gc_sender_id m, msg_Content := gc_content m,
                msg_Type := gc_type m, msg_CreatedAt := gc_created_at m,
                msg_UpdatedAt := gc_updated_at m\<rparr>)),
           pv_UnreadCount = cnt\<rparr>)"

definition my_chat_GetUserChats :: "uuid \<Rightarrow> (world, ChatPreview list) io" where
  "my_chat_GetUserChats userID = db_query (\<lambda>d. my_user_chat_rows d userID) my_scanPreview"

definition my_NewChatRepository :: "world ChatRepository" where
  "my_NewChatRepository = \<lparr>cr_CreateWithMembers = my_chat_CreateWithMembers,
     cr_GetByID = my_chat_GetByID, cr_Update = my_chat_Update, cr_Delete = my_chat_Delete,
     cr_AddMember = my_chat_AddMember, cr_RemoveMember = my_chat_RemoveMember,
     cr_GetMember = my_chat_GetMember, cr_GetMembers = my_chat_GetMembers,
     cr_UpdateMemberRole = my_chat_UpdateMemberRole, cr_GetUserChats = my_chat_GetUserChats,
     cr_GetDirectChat = my_chat_GetDirectChat, cr_IsMember = my_chat_IsMember\<rparr>"

end
