(* ===== verification/App.thy ===== *)
theory App
  imports Ws AppConfig Cached PgUser PgMessage MyUser MyMessage MyChat PgChat
begin

text \<open>
  How the parts are put together: the Redis client of cache/redis, storage.New, and cmd/app/main.go
  with the chain of middleware around the routes.  What runs beside the requests (listening,
  signals, shutdown, pprof) is left out.
\<close>

section \<open>Redis (cache/redis/redis.go)\<close>

text \<open>The calls of go-redis; \<open>RNil\<close> is its sentinel \<open>Nil\<close>.\<close>

datatype redis_reply = RVal raw | RNil | RErr string

record 'w redis_client =
  rdl_Get :: "string \<Rightarrow> 'w \<Rightarrow> redis_reply \<times> 'w"
  rdl_Set :: "string \<Rightarrow> raw \<Rightarrow> duration \<Rightarrow> ('w, unit) io"
  rdl_Del :: "string \<Rightarrow> ('w, unit) io"
  rdl_Ping :: "('w, unit) io"
  rdl_Close :: "('w, unit) io"

definition redis_Get :: "'w redis_client \<Rightarrow> string \<Rightarrow> ('w, raw) io" where
  "redis_Get c key w =
     (case rdl_Get c key w of
        (RVal v, w') \<Rightarrow> (Ok v, w')
      | (RNil, w') \<Rightarrow> (Err (Lib (''redis cache: key '' @ quoted key @ '' not found'')), w')
      | (RErr e, w') \<Rightarrow> (Err (Lib e), w'))"

definition redis_Set :: "'w redis_client \<Rightarrow> string \<Rightarrow> raw \<Rightarrow> duration \<Rightarrow> ('w, unit) io" where
  "redis_Set c = rdl_Set c"

definition redis_Del :: "'w redis_client \<Rightarrow> string \<Rightarrow> ('w, unit) io" where
  "redis_Del c = rdl_Del c"

definition redis_Ping :: "'w redis_client \<Rightarrow> ('w, unit) io" where
  "redis_Ping c = rdl_Ping c"

definition redis_Close :: "'w redis_client \<Rightarrow> ('w, unit) io" where
  "redis_Close c = rdl_Close c"

definition redis_cache :: "'w redis_client \<Rightarrow> 'w Cache" where
  "redis_cache c = \<lparr>cache_Get = redis_Get c, cache_Set = redis_Set c, cache_Del = redis_Del c,
     cache_Ping = redis_Ping c, cache_Close = redis_Close c\<rparr>"

definition redis_New :: "'w redis_client \<Rightarrow> redis_Config \<Rightarrow> ('w, 'w Cache) io" where
  "redis_New client cfg =
     (if rdc_Addr cfg = [] then throw (Lib ''redis cache: addr is required'')
      else branch (rdl_Ping client)
        (\<lambda>_. ret (redis_cache client))
        (\<lambda>err. call (ignore_err (rdl_Close client)) (\<lambda>_. throw (Wrapf ''redis cache: ping failed: '' err []))))"

section \<open>Storage (storage/storage.go)\<close>

record 'w Storage =
  st_Users :: "'w UserRepository"
  st_Chats :: "'w ChatRepository"
  st_Messages :: "'w MessageRepository"
  st_closer :: "('w, unit) io"
  st_pinger :: "('w, unit) io option"

text \<open>What the two databases and their drivers bring: pgx and database/sql with the MySQL driver, and the
  parameters of the repositories.\<close>

record ('k, 'j) databases =
  pgx_ParseConfig :: "string \<Rightarrow> (world, unit) io"
  pgx_NewWithConfig :: "string \<Rightarrow> (world, unit) io"
  pgx_Ping :: "(world, unit) io"
  pgx_Close :: "(world, unit) io"
  sql_Open :: "string \<Rightarrow> (world, unit) io"
  sql_SetMaxOpenConns :: "int \<Rightarrow> (world, unit) io"
  sql_SetMaxIdleConns :: "int \<Rightarrow> (world, unit) io"
  sql_Ping :: "(world, unit) io"
  sql_Close :: "(world, unit) io"
  dbs_lc :: "nat \<Rightarrow> nat"
  dbs_coll :: "string \<Rightarrow> 'k"
  dbs_mysql :: "'j mysql"

definition wrap_err :: "string \<Rightarrow> ('w, 'a) io \<Rightarrow> ('w, 'a) io" where
  "wrap_err pre m = branch m ret (\<lambda>err. throw (Wrapf pre err []))"

text \<open>postgres/db.go: a pool whose first ping fails stays open.\<close>

definition pg_NewPool :: "('k, 'j) databases \<Rightarrow> pg_Config \<Rightarrow> (world, unit) io" where
  "pg_NewPool D cfg =
     call (wrap_err ''postgres: parse config: '' (pgx_ParseConfig D (pg_dsn cfg))) (\<lambda>_.
     call (wrap_err ''postgres: connect: '' (pgx_NewWithConfig D (pg_dsn cfg))) (\<lambda>_.
     wrap_err ''postgres: ping: '' (pgx_Ping D)))"

text \<open>mysql/mysql.go.\<close>

definition my_NewDB :: "('k, 'j) databases \<Rightarrow> my_Config \<Rightarrow> (world, unit) io" where
  "my_NewDB D cfg =
     call (wrap_err ''mysql: open: '' (sql_Open D (my_DSN cfg))) (\<lambda>_.
     call (sql_SetMaxOpenConns D (myc_MaxConns cfg)) (\<lambda>_.
     call (sql_SetMaxIdleConns D (myc_MinConns cfg)) (\<lambda>_.
     branch (sql_Ping D) ret
       (\<lambda>err. call (ignore_err (sql_Close D)) (\<lambda>_. throw (Wrapf ''mysql: ping: '' err []))))))"

definition storage_New :: "('k::linorder, 'j::linorder) databases \<Rightarrow> storage_Config \<Rightarrow> (world, world Storage) io" where
  "storage_New D cfg =
     (if stc_Type cfg = ''postgres'' then
        (case stc_Postgres cfg of
           None \<Rightarrow> throw (Lib (''storage: postgres config required for type '' @ quoted (stc_Type cfg)))
         | Some p \<Rightarrow> call (pg_NewPool D p) (\<lambda>_. ret \<lparr>
             st_Users = pg_NewUserRepository (dbs_lc D) (dbs_coll D), st_Chats = pg_NewChatRepository,
             st_Messages = pg_NewMessageRepository (dbs_coll D), st_closer = pgx_Close D,
             st_pinger = Some (pgx_Ping D)\<rparr>))
      else if stc_Type cfg = ''mysql'' then
        (case stc_MySQL cfg of
           None \<Rightarrow> throw (Lib (''storage: mysql config required for type '' @ quoted (stc_Type cfg)))
         | Some m \<Rightarrow> call (my_NewDB D m) (\<lambda>_. ret \<lparr>
             st_Users = my_NewUserRepository (dbs_mysql D), st_Chats = my_NewChatRepository,
             st_Messages = my_NewMessageRepository (dbs_mysql D), st_closer = ignore_err (sql_Close D),
             st_pinger = Some (sql_Ping D)\<rparr>))
      else throw (Lib (''storage: unknown type '' @ quoted (stc_Type cfg))))"

definition storage_Ping :: "'w Storage \<Rightarrow> ('w, unit) io" where
  "storage_Ping s = (case st_pinger s of Some p \<Rightarrow> p | None \<Rightarrow> ret ())"

definition storage_Close :: "'w Storage \<Rightarrow> ('w, unit) io" where
  "storage_Close s = st_closer s"

section \<open>The application (cmd/app/main.go)\<close>

text \<open>\<open>healthCheck\<close> and \<open>close\<close> over the store and the cache, both optional.\<close>

definition healthCheck :: "'w Storage option \<Rightarrow> 'w Cache option \<Rightarrow> ('w, unit) io" where
  "healthCheck store cache =
     call (case store of
             None \<Rightarrow> ret ()
           | Some s \<Rightarrow> branch (storage_Ping s) ret (\<lambda>err. throw (Wrapf ''storage: '' err []))) (\<lambda>_.
     case cache of
       None \<Rightarrow> ret ()
     | Some c \<Rightarrow> branch (cache_Ping c) ret (\<lambda>err. throw (Wrapf ''cache: '' err [])))"

definition application_close :: "'w Storage option \<Rightarrow> 'w Cache option \<Rightarrow> ('w, unit) io" where
  "application_close store cache =
     call (case store of None \<Rightarrow> ret () | Some s \<Rightarrow> storage_Close s) (\<lambda>_.
     case cache of None \<Rightarrow> ret () | Some c \<Rightarrow> ignore_err (cache_Close c))"

text \<open>The middleware around the mux, innermost first in the source.\<close>

definition app_chain :: "golib \<Rightarrow> http_Config \<Rightarrow> uuid \<Rightarrow> 'w handler \<Rightarrow> 'w handler" where
  "app_chain L cfg newID mux =
     mw_Recovery L (mw_RequestLogger L (mw_RequestID L newID
       (mw_CORS (htc_AllowedOrigins cfg) (mw_LimitBody (htc_MaxBodyBytes cfg) mux))))"

text \<open>What the libraries and the moment give to one request.\<close>

record 'w host =
  ho_lib :: golib
  ho_jwtlib :: jwtlib
  ho_bcrypt :: bcrypt
  ho_redis :: "'w redis_client"
  ho_clock :: "('w, time) io"
  ho_upgrade :: "(request \<Rightarrow> bool) \<Rightarrow> 'w handler"
  ho_run :: "uuid \<Rightarrow> uuid list \<Rightarrow> ('w conn, unit) io"
  ho_now :: time
  ho_newID :: uuid
  ho_jti1 :: uuid
  ho_jti2 :: uuid
  ho_salt :: nat
  ho_requestID :: uuid

text \<open>\<open>cache.New\<close> when a cache is configured.\<close>

definition app_cache :: "world host \<Rightarrow> cache_Config option \<Rightarrow> (world, world Cache option) io" where
  "app_cache H cfg =
     (case cfg of
        None \<Rightarrow> ret None
      | Some c \<Rightarrow>
          (case cache_New (cac_Type c) (cac_Redis c \<noteq> None) of
             Inl e \<Rightarrow> throw (Wrapf ''cache: '' e [])
           | Inr MockBackend \<Rightarrow> ret (Some mock_cache)
           | Inr RedisBackend \<Rightarrow>
               branch (redis_New (ho_redis H) (the (cac_Redis c)))
                 (\<lambda>k. ret (Some k))
                 (\<lambda>e. throw (Wrapf ''cache: '' e []))))"

definition app_ttl :: "cache_Config option \<Rightarrow> TTLConfig" where
  "app_ttl c = (case c of None \<Rightarrow> \<lparr>ttl_User = 0, ttl_Chat = 0, ttl_Member = 0\<rparr> | Some k \<Rightarrow> cac_TTL k)"

text \<open>The use cases over the repositories, with the cache in front of users and chats.  The chat use
  cases read users from the store itself.\<close>

definition app_users ::
  "world host \<Rightarrow> AppConfig \<Rightarrow> world Storage \<Rightarrow> world Cache option \<Rightarrow> world UserUseCase" where
  "app_users H cfg store c =
     users_New (cached_NewUserRepository (gl_uuid_String (ho_lib H)) (st_Users store) c (ttl_User (app_ttl (apc_Cache cfg))))
       (Hasher (ho_bcrypt H) (hsc_Cost (apc_Hasher cfg)) (ho_salt H))
       (JWTManager (ho_jwtlib H) (apc_JWT cfg) (ho_jti1 H) (ho_jti2 H)) (ho_now H) (ho_newID H)"

definition app_chat_repo ::
  "world host \<Rightarrow> AppConfig \<Rightarrow> world Storage \<Rightarrow> world Cache option \<Rightarrow> world ChatRepository" where
  "app_chat_repo H cfg store c =
     cached_NewChatRepository (gl_uuid_String (ho_lib H)) (st_Chats store) c
       (ttl_Chat (app_ttl (apc_Cache cfg))) (ttl_Member (app_ttl (apc_Cache cfg)))"

definition app_chats ::
  "world host \<Rightarrow> AppConfig \<Rightarrow> world Storage \<Rightarrow> world Cache option \<Rightarrow> world ChatUseCase" where
  "app_chats H cfg store c =
     chats_New (app_chat_repo H cfg store c) (st_Users store) (ho_now H) (ho_newID H)"

definition app_messages ::
  "world host \<Rightarrow> AppConfig \<Rightarrow> world Storage \<Rightarrow> world Cache option \<Rightarrow> world MessageUseCase" where
  "app_messages H cfg store c =
     messages_New (st_Messages store) (app_chat_repo H cfg store c) (ho_now H) (ho_newID H)"

definition ws_route ::
  "golib \<Rightarrow> (string \<Rightarrow> ('w, uuid) io) \<Rightarrow> 'w handler \<Rightarrow> 'w route" where
  "ws_route L validate h = \<lparr>rt_pattern = ''GET /ws'', rt_handler = mw_Auth L validate h\<rparr>"

definition app_routes ::
  "golib \<Rightarrow> ('w, time) io \<Rightarrow> delivery_Config \<Rightarrow> 'w Deps \<Rightarrow> 'w handler \<Rightarrow> 'w route list" where
  "app_routes L clock cfg deps wsHandler =
     (if IsEnabled cfg ''ws'' then [ws_route L (d_JWT deps) wsHandler] else [])
     @ (if IsEnabled cfg ''http'' then
          SetupRoutes L (deps\<lparr>d_RateLimiter := Some (mw_RateLimit L clock
            (rlc_MaxRequests (htc_RateLimit (dlc_HTTP cfg))) (rlc_Window (htc_RateLimit (dlc_HTTP cfg))))\<rparr>)
        else [])"

definition newApplication ::
  "('k::linorder, 'j::linorder) databases \<Rightarrow> world host \<Rightarrow> AppConfig \<Rightarrow> (world, world handler) io" where
  "newApplication D H cfg =
     branch (storage_New D (apc_Storage cfg))
       (\<lambda>store.
        call (app_cache H (apc_Cache cfg)) (\<lambda>c.
        let L = ho_lib H;
            users = app_users H cfg store c; chats = app_chats H cfg store c;
            deps = \<lparr>d_User = users, d_Chat = chats, d_Message = app_messages H cfg store c,
              d_JWT = ValidateAccessToken (ho_jwtlib H) (apc_JWT cfg),
              d_Health = Some (healthCheck (Some store) c), d_RateLimiter = None\<rparr>;
            wsHandler = ws_ServeHTTP L chats users (htc_AllowedOrigins (dlc_HTTP (apc_Delivery cfg)))
              (ho_upgrade H) (ho_run H)
        in call (if IsEnabled (apc_Delivery cfg) ''http''
                 then start_cleanup (rlc_Window (htc_RateLimit (dlc_HTTP (apc_Delivery cfg)))) else ret ()) (\<lambda>_.
           ret (app_chain L (dlc_HTTP (apc_Delivery cfg)) (ho_requestID H)
             (mux_ServeHTTP (app_routes L (ho_clock H) (apc_Delivery cfg) deps wsHandler))))))
       (\<lambda>err. throw (Wrapf ''storage: '' err []))"

end
