(* ===== verification/HttpDemo.thy ===== *)
theory HttpDemo
  imports Demo App
begin

text \<open>
  A concrete deployment for the witnesses: simple stand-ins for the libraries, the PostgreSQL
  repositories on the demo tables, and connections and requests of it.
\<close>

definition demo_lib :: golib where
  "demo_lib = \<lparr>gl_uuid_Parse = (\<lambda>s. if s = ''ten'' then Some 10 else None), gl_uuid_String = (\<lambda>_. ''id''),
     gl_time_Parse = (\<lambda>_. None), gl_db_text = (\<lambda>_. ''db''), gl_DefaultContextLogger = None\<rparr>"

text \<open>Tokens are \<open>secret ! digit\<close>; they name users by their length and expire at \<open>clm_ExpiresAt\<close>.\<close>

definition demo_jwtlib :: jwtlib where
  "demo_jwtlib = \<lparr>jl_date = (\<lambda>t. t), jl_sign = (\<lambda>_ _. Inl ''no key''),
     jl_parse = (\<lambda>now tok kf. if tok = ''ann-token'' then
        (case kf \<lparr>tok_hmac = True\<rparr> of Inl e \<Rightarrow> Inl (ErrKeyfunc e)
         | Inr key \<Rightarrow> if key = ''access'' then Inr (\<lparr>clm_UserID = 1, clm_ExpiresAt = now + 1,
             clm_IssuedAt = 0, clm_ID = 0\<rparr>, True) else Inl ErrTokenOther) else Inl ErrTokenOther)\<rparr>"

definition demo_bcrypt :: bcrypt where
  "demo_bcrypt = \<lparr>bc_Generate = (\<lambda>salt p cost. if length p > 72 then Inl ''too long'' else Inr (CHR ''#'' # p)),
     bc_Compare = (\<lambda>h p. if h = CHR ''#'' # p then None else Some ''mismatch'')\<rparr>"

definition demo_jwt_config :: jwt_config where
  "demo_jwt_config = \<lparr>jc_AccessSecret = ''access'', jc_RefreshSecret = ''refresh'',
     jc_AccessTokenTTL = seconds 900, jc_RefreshTokenTTL = seconds 604800\<rparr>"

definition demo_user_uc :: "world UserUseCase" where
  "demo_user_uc = users_New (pg_NewUserRepository (\<lambda>c. c) demo_coll)
     (Hasher demo_bcrypt 10 0) (JWTManager demo_jwtlib demo_jwt_config 1 2) 50 24"

definition demo_chat_uc :: "world ChatUseCase" where
  "demo_chat_uc = chats_New pg_NewChatRepository (pg_NewUserRepository (\<lambda>c. c) demo_coll) 50 24"

definition demo_deps :: "world Deps" where
  "demo_deps = \<lparr>d_User = demo_user_uc, d_Chat = demo_chat_uc,
     d_Message = messages_New (pg_NewMessageRepository demo_coll) pg_NewChatRepository 50 24,
     d_JWT = ValidateAccessToken demo_jwtlib demo_jwt_config, d_Health = None, d_RateLimiter = None\<rparr>"

definition demo_conn :: "world conn" where
  "demo_conn = \<lparr>cn_world = demo, cn_out = \<lparr>wr_header = [], wr_sent = None, wr_body = [], wr_status = 0,
     wr_hijacker = True\<rparr>, cn_log = [], cn_rate = Map.empty\<rparr>"

definition demo_request :: "string \<Rightarrow> string list \<Rightarrow> (string \<times> string) list \<Rightarrow> request" where
  "demo_request meth path headers = \<lparr>rq_Method = meth, rq_path = path, rq_query = [], rq_header = headers,
     rq_RemoteAddr = ''10.0.0.1:99'', rq_body = \<lparr>bd_len = 0, bd_json = None\<rparr>, rq_pathvalue = [],
     rq_ctx = \<lparr>cx_logger = None, cx_userID = None, cx_requestID = None\<rparr>\<rparr>"

lemma demo_conn_fields [simp]:
  "cn_world demo_conn = demo" "wr_sent (cn_out demo_conn) = None" "wr_hijacker (cn_out demo_conn) = True"
  "cn_log demo_conn = []"
  by (simp_all add: demo_conn_def)

lemma demo_request_fields [simp]:
  "rq_path (demo_request m p h) = p" "rq_header (demo_request m p h) = h" "rq_Method (demo_request m p h) = m"
  "cx_logger (rq_ctx (demo_request m p h)) = None" "rq_query (demo_request m p h) = []"
  by (simp_all add: demo_request_def)

definition demo_upgrade :: "(request \<Rightarrow> bool) \<Rightarrow> 'w handler" where
  "demo_upgrade check r s =
     (if wr_hijacker (cn_out s) \<and> check r then (Ok (), s) else (Err (Lib ''not a hijacker''), s))"

definition demo_http :: http_Config where
  "demo_http = \<lparr>htc_Host = ''h'', htc_Port = 8080, htc_ReadTimeout = 1, htc_WriteTimeout = 1, htc_IdleTimeout = 1,
     htc_AllowedOrigins = [], htc_RateLimit = \<lparr>rlc_MaxRequests = 20, rlc_Window = seconds 60\<rparr>,
     htc_MaxBodyBytes = 100, htc_TLS = None\<rparr>"

definition demo_delivery :: delivery_Config where
  "demo_delivery = \<lparr>dlc_Enabled = [''http'', ''ws''], dlc_HTTP = demo_http, dlc_WS = \<lparr>wsc_MaxMessageSize = 4096\<rparr>\<rparr>"

end
