(* ===== verification/UserProps.thy ===== *)
theory UserProps
  imports PgText UserSpec TokenProps HttpDemo
begin

text \<open>
  The user use cases on PostgreSQL with the JWT manager and the bcrypt hasher of the code.
\<close>

section \<open>The service on PostgreSQL\<close>

lemma clock_neutral: "neutral (pg_users_at t0) quiet pg_accounts clock_now"
  by (simp add: neutral_def clock_now_def)

lemma jwt_sign_neutral: "neutral (pg_users_at t0) quiet pg_accounts (jwt_sign L jti u secret ttl)"
  unfolding jwt_sign_def
  by (intro neutral_call clock_neutral) (simp add: Let_def neutral_ret neutral_throw split: sum.split)

lemma jwt_parse_neutral: "neutral (pg_users_at t0) quiet pg_accounts (jwt_parse L tok secret)"
  unfolding jwt_parse_def
  by (intro neutral_call clock_neutral) (simp add: neutral_ret neutral_throw split: sum.split prod.split)

lemma Hash_neutral: "neutral (pg_users_at t0) quiet pg_accounts (Hasher_Hash B cost salt p)"
  by (simp add: Hasher_Hash_def neutral_ret neutral_throw split: sum.split)

interpretation pg_service: user_service "pg_NewUserRepository lc coll" "pg_users_at t0" quiet pg_accounts id
    pg_text pg_user_ok "Hasher B cost salt" "JWTManager L cfg j1 j2"
  by unfold_locales
    (simp_all add: Hasher_def JWTManager_def Hash_neutral GenerateAccessToken_def GenerateRefreshToken_def
      ValidateRefreshToken_def jwt_sign_neutral jwt_parse_neutral)

abbreviation pg_users_inv :: "world \<Rightarrow> bool" where
  "pg_users_inv \<equiv> pg_users_at 0"

lemma hashes_bcrypt:
  "hashes (Hasher B cost salt) p h \<longleftrightarrow> bc_Generate B salt p cost = Inr h"
  by (auto simp: hashes_def Hasher_def Hasher_Hash_def throw_def ret_def split: sum.split)

lemma Check_Hasher [simp]: "ph_Check (Hasher B cost salt) p h \<longleftrightarrow> bc_Compare B h p = None"
  by (simp add: Hasher_def Hasher_Check_def)

lemma new_user_ok:
  assumes "RegisterInput_Validate inp = None" "RuneCountInString (rgi_Email inp) \<le> 255" "pg_text h"
  shows "pg_user_ok (new_user newID now inp h)"
  using assms email_text [of "rgi_Email inp"] username_text [of "rgi_Username inp"] username_alnum [of "rgi_Username inp"]
  by (simp add: pg_user_ok_def new_user_def RegisterInput_ok username_ok_def valid_user_status_def UserStatusOffline_def)

lemma fails_Hash: "fails (ph_Hash (Hasher B cost salt) p) \<longleftrightarrow> (\<exists>x. bc_Generate B salt p cost = Inl x)"
  by (auto simp: fails_def Hasher_def Hasher_Hash_def throw_def ret_def split: sum.split)

lemma sign_Err: "fst (jwt_sign L jti u secret ttl w) = Err e \<Longrightarrow> \<exists>c x. jl_sign L secret c = Inl x"
  by (auto simp: jwt_sign_def clock_now_def call_def branch_def Let_def throw_def ret_def split: sum.splits)

lemma sign_no_Panic: "fst (jwt_sign L jti u secret ttl w) \<noteq> Panic s"
  by (auto simp: jwt_sign_def clock_now_def call_def branch_def Let_def throw_def ret_def split: sum.splits)

lemma fails_issue:
  assumes "fails (issueTokens (JWTManager L cfg j1 j2) u)"
  shows "\<exists>secret c x. jl_sign L secret c = Inl x"
proof (rule ccontr)
  assume no: "\<not> ?thesis"
  have "\<exists>t. fst (jwt_sign L jti u secret ttl w) = Ok t" for jti secret ttl w
    using no sign_Err [of L jti u secret ttl w] sign_no_Panic [of L jti u secret ttl w]
    by (cases "fst (jwt_sign L jti u secret ttl w)") auto
  then obtain f where "\<And>jti secret ttl w. fst (jwt_sign L jti u secret ttl w) = Ok (f jti secret ttl w)" by metis
  then have "fst (issueTokens (JWTManager L cfg j1 j2) u w) \<noteq> Err e" for w e
    by (simp add: issueTokens_def JWTManager_def GenerateAccessToken_def GenerateRefreshToken_def branch_def ret_def)
  with assms show False by (simp add: fails_def)
qed

section \<open>Witness data\<close>

definition demo_register :: RegisterInput where
  "demo_register = \<lparr>rgi_Username = ''eve'', rgi_Email = ''eve@x.io'', rgi_Password = ''secret77''\<rparr>"

lemma demo_runes:
  "runes ''eve'' = map of_char ''eve''" "runes ''eve@x.io'' = map of_char ''eve@x.io''"
  "runes ''secret77'' = map of_char ''secret77''" "runes ''ann'' = map of_char ''ann''"
  "runes ''bob'' = map of_char ''bob''" "runes ''cat'' = map of_char ''cat''" "runes ''dan'' = map of_char ''dan''"
  by (simp_all add: runes_ascii is_ascii_def bytes_of_def)

lemma demo_register_valid: "RegisterInput_Validate demo_register = None"
  by (simp add: RegisterInput_ok demo_register_def username_ok_def RuneCountInString_def demo_runes
      IsAlphanumeric_def IsEmail_def) code_simp

lemma demo_users_wf: "pg_users_wf demo_db"
proof -
  have "list_all (\<lambda>r. pg_user_ok (user_of_row r)) (tb_users demo_db)"
    by (simp add: demo_db_def demo_user_def user_of_row_def pg_user_ok_def pg_text_def ValidString_ascii
        is_ascii_def RuneCount_ascii valid_user_status_def is_alnum_byte_def)
  moreover have "\<forall>r \<in> set (tb_users demo_db). uc_avatar_url r \<noteq> None \<and> uc_bio r \<noteq> None"
    by (simp add: demo_db_def demo_user_def)
  moreover have "distinct (map uc_email (live_users demo_db))" "distinct (map uc_username (live_users demo_db))"
    by (simp_all add: live_users_def demo_db_def demo_user_def)
  ultimately show ?thesis
    using demo_wf by (auto simp: pg_users_wf_def list_all_iff pg_user_checks_row)
qed

lemma demo_users_inv [simp]: "pg_users_inv demo" "pg_users_inv (demo_fault p)"
  using demo_users_wf by (simp_all add: table_inv_def demo_def demo_fault_def)

lemma demo_accounts:
  "ac_users (pg_accounts demo) = map user_of_row (tb_users demo_db)" "ac_ids (pg_accounts demo) = [1, 2, 3, 4]"
  by (simp_all add: accounts_of_def live_users_def demo_def demo_db_def demo_user_def)

lemma demo_register_free: "register_refused id (pg_accounts demo) demo_register = None"
  by (simp add: register_free demo_register_valid by_email_none by_username_none demo_accounts)
    (simp add: demo_db_def demo_user_def demo_register_def)

lemma demo_bcrypt_ok: "bcrypt_ok demo_bcrypt"
  by (simp add: bcrypt_ok_def demo_bcrypt_def)

section \<open>Properties\<close>

text \<open>C21: Register appends exactly the account it returns, with a hash of the password, and only if the
  input is valid and email and username are free; a refused or failed registration leaves no
  account, unless the rollback's own statement fails.  Without failing statements the error is the
  first reason for refusal, or \<open>ErrInternal\<close> when the hasher or the signer fails.\<close>

theorem pg_Register_correct:
  assumes "pg_users_inv w" "newID \<notin> set (ac_ids (pg_accounts w))"
  shows "let res = users_Register (pg_NewUserRepository lc coll) (Hasher B cost salt) (JWTManager L cfg j1 j2)
         now newID inp w;
       v = pg_accounts w; v' = pg_accounts (snd res); refused = register_refused id v inp
     in pg_users_inv (snd res) \<and>
       (case fst res of
          Ok (u, tokens) \<Rightarrow> refused = None \<and> ac_users v' = ac_users v @ [u] \<and>
            (\<exists>h. u = new_user newID now inp h \<and> bc_Generate B salt (rgi_Password inp) cost = Inr h)
        | Err e \<Rightarrow> (ac_users v' = ac_users v \<or>
              \<not> quiet w \<and> (\<exists>h. ac_users v' = ac_users v @ [new_user newID now inp h])) \<and>
            (quiet w \<and> RuneCountInString (rgi_Email inp) \<le> 255 \<and>
               (\<forall>h. bc_Generate B salt (rgi_Password inp) cost = Inr h \<longrightarrow> pg_text h) \<longrightarrow>
             (case refused of Some e' \<Rightarrow> e = e'
              | None \<Rightarrow> e = Dom ErrInternal \<and> ((\<exists>x. bc_Generate B salt (rgi_Password inp) cost = Inl x) \<or>
                  (\<exists>secret c x. jl_sign L secret c = Inl x))))
        | Panic s \<Rightarrow> False)"
  using pg_service.Register_run [OF assms, of lc coll B cost salt L cfg j1 j2 now inp]
    new_user_ok [of inp _ newID now] fails_issue [of L cfg j1 j2 newID] username_text [of "rgi_Username inp"]
    email_text [of "rgi_Email inp"]
  unfolding run_post_def pg_service.registered_def
  by (auto simp: Let_def hashes_bcrypt fails_Hash RegisterInput_ok username_ok_def split: outcome.splits option.splits)

theorem pg_Register_correct_witness:
  "let res = users_Register (pg_NewUserRepository (\<lambda>c. c) demo_coll) (Hasher demo_bcrypt 10 0)
       (JWTManager demo_signer demo_keys_config 1 2) 50 24 demo_register demo
   in pg_users_inv (snd res) \<and> (\<exists>u t. fst res = Ok (u, t) \<and> user_Email u = ''eve@x.io'')"
proof -
  have pw: "bc_Generate demo_bcrypt 0 (rgi_Password demo_register) 10 = Inr ''#secret77''"
    by (simp add: demo_bcrypt_def demo_register_def)
  have h: "pg_text ''#secret77''" "RuneCountInString (rgi_Email demo_register) \<le> 255"
    by (simp_all add: pg_text_def ValidString_ascii is_ascii_def RuneCount_ascii demo_register_def)
  have "newID \<notin> set (ac_ids (pg_accounts demo))" if "newID = 24" for newID :: uuid
    using that by (simp add: demo_accounts)
  from pg_Register_correct [OF demo_users_inv(1) this [OF refl], of "\<lambda>c. c" demo_coll demo_bcrypt 10 0 demo_signer
      demo_keys_config 1 2 50 demo_register]
  show ?thesis
    unfolding demo_register_free Let_def using pw h
    by (auto simp: demo_signer_def demo_register_def new_user_def split: outcome.splits prod.splits)
qed

text \<open>C23: Who registered can log in with the same email and password, if no statement fails, and is given
  the account that was created.  A password of blanks only, which registration accepts, is the
  exception: Login refuses it as missing.\<close>

theorem pg_register_login:
  assumes "pg_users_inv w" "newID \<notin> set (ac_ids (pg_accounts w))" "quiet w"
    and "register_refused id (pg_accounts w) inp = None" "RuneCountInString (rgi_Email inp) \<le> 255"
    and "bcrypt_ok B" "bc_Generate B salt (rgi_Password inp) cost = Inr h" "pg_text h"
    and "\<And>secret c. \<exists>t. jl_sign L secret c = Inr t"
  shows "let users = pg_NewUserRepository lc coll; hasher = Hasher B cost salt; jwt = JWTManager L cfg j1 j2;
       res = users_Register users hasher jwt now newID inp w;
       login = users_Login users hasher jwt \<lparr>lgi_Email = rgi_Email inp, lgi_Password = rgi_Password inp\<rparr> (snd res)
     in \<exists>u t. fst res = Ok (u, t) \<and> user_ID u = newID \<and>
       (if NonEmpty (rgi_Password inp) then \<exists>t'. fst login = Ok (u, t')
        else \<exists>e. fst login = Err e \<and> errors_Is e ErrValidation)"
proof -
  let ?R = "pg_NewUserRepository lc coll" let ?H = "Hasher B cost salt :: world passwordHasher" let ?J = "JWTManager L cfg j1 j2"
  let ?res = "users_Register ?R ?H ?J now newID inp w"
  let ?l = "\<lparr>lgi_Email = rgi_Email inp, lgi_Password = rgi_Password inp\<rparr>"
  let ?login = "users_Login ?R ?H ?J ?l (snd ?res)"
  have valid: "RegisterInput_Validate inp = None" using assms(4) by (simp add: register_free)
  have sign: "\<not> fails (issueTokens ?J u)" for u using fails_issue assms(9) by (metis Inl_Inr_False)
  have reg: "pg_service.registered 0 B cost salt L cfg j1 j2 newID now inp w (fst ?res) (snd ?res)"
    using pg_service.Register_run [OF assms(1,2), of lc coll B cost salt L cfg j1 j2 now inp]
    by (simp add: run_post_def)
  have "fst ?res \<noteq> Err e" for e
    using reg assms(3,4,5,7,8) valid sign new_user_ok [OF valid assms(5)] email_text [of "rgi_Email inp"]
      username_text [of "rgi_Username inp"]
    by (auto simp: pg_service.registered_def hashes_bcrypt fails_Hash RegisterInput_ok username_ok_def)
  then obtain u t where u: "fst ?res = Ok (u, t)"
    using reg by (cases "fst ?res") (auto simp: pg_service.registered_def)
  with reg have reg': "pg_service.registered 0 B cost salt L cfg j1 j2 newID now inp w (Ok (u, t)) (snd ?res)" by simp
  then have w': "pg_users_inv (snd ?res)" "quiet (snd ?res)" "user_ID u = newID"
    using assms(3) by (auto simp: pg_service.registered_def)
  have email: "pg_text (rgi_Email inp)" "NonEmpty (rgi_Email inp)"
    using valid email_text [of "rgi_Email inp"] email_NonEmpty by (simp_all add: RegisterInput_ok)
  have log: "pg_service.logged_in 0 B cost salt L cfg j1 j2 ?l (snd ?res) (fst ?login) (snd ?login)"
    using pg_service.Login_run [OF w'(1), of lc coll B cost salt L cfg j1 j2 ?l] by (simp add: run_post_def)
  have "if NonEmpty (rgi_Password inp) then \<exists>t'. fst ?login = Ok (u, t')
      else \<exists>e. fst ?login = Err e \<and> errors_Is e ErrValidation"
  proof (cases "NonEmpty (rgi_Password inp)")
    case True
    with email have l: "LoginInput_Validate ?l = None" by (simp add: LoginInput_Validate_def)
    have "login_account id (ph_Check ?H) (pg_accounts (snd ?res)) ?l = Inr u"
      by (rule pg_service.login_after_register [OF reg' assms(1)])
        (use assms(6,7) l in \<open>auto simp: hashes_bcrypt bcrypt_ok_def\<close>)
    with log w' email True sign show ?thesis
      by (cases "fst ?login") (auto simp: pg_service.logged_in_def)
  next
    case False
    with email obtain e where e: "LoginInput_Validate ?l = Some e" "errors_Is e ErrValidation"
      by (auto simp: LoginInput_Validate_def Check_def)
    then have "fst ?login = Err e" by (simp add: users_Login_def call_def branch_def throw_def)
    with e False show ?thesis by simp
  qed
  with u w'(3) show ?thesis unfolding Let_def by blast
qed

theorem pg_register_login_witness:
  "let users = pg_NewUserRepository (\<lambda>c. c) demo_coll; hasher = Hasher demo_bcrypt 10 0;
     jwt = JWTManager demo_signer demo_keys_config 1 2;
     res = users_Register users hasher jwt 50 24 demo_register demo
   in \<exists>u t t'. fst res = Ok (u, t) \<and>
     fst (users_Login users hasher jwt \<lparr>lgi_Email = ''eve@x.io'', lgi_Password = ''secret77''\<rparr> (snd res)) = Ok (u, t')"
proof -
  have pw: "bc_Generate demo_bcrypt 0 (rgi_Password demo_register) 10 = Inr ''#secret77''"
    by (simp add: demo_bcrypt_def demo_register_def)
  have h: "pg_text ''#secret77''" "RuneCountInString (rgi_Email demo_register) \<le> 255"
    by (simp_all add: pg_text_def ValidString_ascii is_ascii_def RuneCount_ascii demo_register_def)
  have id: "newID \<notin> set (ac_ids (pg_accounts demo))" if "newID = 24" for newID :: uuid
    using that by (simp add: demo_accounts)
  have sign: "\<exists>t. jl_sign demo_signer secret c = Inr t" for secret c by (simp add: demo_signer_def)
  have "NonEmpty (rgi_Password demo_register)"
    by (simp add: NonEmpty_def TrimSpace_runes_Nil_iff demo_register_def demo_runes IsSpace_def)
  with pg_register_login [OF demo_users_inv(1) id [OF refl] quiet_demo demo_register_free h(2) demo_bcrypt_ok pw h(1) sign,
      of "\<lambda>c. c" demo_coll demo_keys_config 1 2 50]
  show ?thesis unfolding Let_def by (simp add: demo_register_def) blast
qed

text \<open>C24: Login opens the live account with the given email and the password its hash was made from, and
  changes no account.  Without failing statements the answer to an unknown email and to a wrong
  password is the same, so it does not show which emails are registered.\<close>

theorem pg_Login_correct:
  assumes "pg_users_inv w"
  shows "let res = users_Login (pg_NewUserRepository lc coll) (Hasher B cost salt) (JWTManager L cfg j1 j2) inp w;
       v = pg_accounts w;
       opens = (\<lambda>u. u \<in> set (ac_users v) \<and> user_Email u = lgi_Email inp \<and>
         bc_Compare B (user_PasswordHash u) (lgi_Password inp) = None)
     in pg_accounts (snd res) = v \<and>
       (case fst res of
          Ok (u, tokens) \<Rightarrow> LoginInput_Validate inp = None \<and> opens u
        | Err e \<Rightarrow> quiet w \<and> pg_text (lgi_Email inp) \<and> LoginInput_Validate inp = None \<longrightarrow>
            e = Dom (if \<exists>u. opens u then ErrInternal else ErrInvalidCredentials)
        | Panic s \<Rightarrow> False)"
proof -
  let ?v = "pg_accounts w" let ?H = "Hasher B cost salt :: world passwordHasher"
  have wf: "accounts_wf id ?v" using assms by (simp add: table_inv_def accounts_wf_pg)
  have one: "u = x" if "u \<in> set (ac_users ?v)" "x \<in> set (ac_users ?v)" "user_Email u = user_Email x" for u x
    using wf that by (auto simp: accounts_wf_def dest: distinct_map_inj)
  have email: "by_email id ?v (lgi_Email inp) = Some u \<longleftrightarrow> u \<in> set (ac_users ?v) \<and> user_Email u = lgi_Email inp" for u
    using one by_email_none [of id ?v "lgi_Email inp"]
    by (cases "by_email id ?v (lgi_Email inp)") (auto dest!: by_email_in)
  have found: "login_account id (ph_Check ?H) ?v inp = Inr u \<longleftrightarrow> LoginInput_Validate inp = None \<and>
      u \<in> set (ac_users ?v) \<and> user_Email u = lgi_Email inp \<and> bc_Compare B (user_PasswordHash u) (lgi_Password inp) = None" for u
    using email [of u]
    by (cases "by_email id ?v (lgi_Email inp)") (auto simp: login_account_def split: option.splits if_splits)
  have none: "login_account id (ph_Check ?H) ?v inp = Inl e \<Longrightarrow> LoginInput_Validate inp = None \<Longrightarrow>
      u \<in> set (ac_users ?v) \<Longrightarrow> user_Email u = lgi_Email inp \<Longrightarrow>
      bc_Compare B (user_PasswordHash u) (lgi_Password inp) \<noteq> None" for u e
    using found [of u] by auto
  have lost: "login_account id (ph_Check ?H) ?v inp = Inl e \<Longrightarrow> LoginInput_Validate inp = None \<Longrightarrow>
      e = Dom ErrInvalidCredentials" for e
    by (auto simp: login_account_def split: option.splits if_splits)
  from pg_service.Login_run [OF assms, of lc coll B cost salt L cfg j1 j2 inp] show ?thesis
    unfolding run_post_def pg_service.logged_in_def Let_def
    by (auto simp: found split: outcome.splits sum.splits dest: lost none)
qed

theorem pg_Login_correct_witness:
  "fst (users_Login (pg_NewUserRepository (\<lambda>c. c) demo_coll) (Hasher demo_bcrypt 10 0)
     (JWTManager demo_signer demo_keys_config 1 2) \<lparr>lgi_Email = ''ann@x.io'', lgi_Password = ''guess''\<rparr> demo) =
     Err (Dom ErrInvalidCredentials)"
proof -
  let ?inp = "\<lparr>lgi_Email = ''ann@x.io'', lgi_Password = ''guess''\<rparr>"
  have "runes ''ann@x.io'' = map of_char ''ann@x.io''" "runes ''guess'' = map of_char ''guess''"
    by (simp_all add: runes_ascii is_ascii_def bytes_of_def)
  then have "LoginInput_Validate ?inp = None"
    by (simp add: LoginInput_Validate_def NonEmpty_def TrimSpace_runes_Nil_iff IsSpace_def)
  moreover have "pg_text ''ann@x.io''"
    by (simp add: pg_text_def ValidString_ascii is_ascii_def)
  moreover have "\<forall>u \<in> set (ac_users (pg_accounts demo)). bc_Compare demo_bcrypt (user_PasswordHash u) ''guess'' \<noteq> None"
    by (simp add: demo_accounts demo_db_def demo_user_def demo_bcrypt_def)
  ultimately show ?thesis
    using pg_Login_correct [OF demo_users_inv(1), of "\<lambda>c. c" demo_coll demo_bcrypt 10 0 demo_signer demo_keys_config 1 2 ?inp]
    by (auto simp: Let_def split: outcome.splits prod.splits)
qed

text \<open>UpdateProfile writes exactly the named fields and the time of change of the caller's account, and
  only if nobody else has the username; the password hash, the email and every other account stay.
  A refused or failed update changes nothing.\<close>

theorem pg_UpdateProfile_correct:
  assumes "pg_users_inv w" "\<And>x. account (pg_accounts w) uid = Some x \<Longrightarrow> user_UpdatedAt x \<noteq> now"
  shows "let res = users_UpdateProfile (pg_NewUserRepository lc coll) now uid inp w;
       v = pg_accounts w; v' = pg_accounts (snd res)
     in pg_users_inv (snd res) \<and> ac_ids v' = ac_ids v \<and>
       (case fst res of
          Ok u \<Rightarrow> (\<exists>x \<in> set (ac_users v). user_ID x = uid \<and> u = edited_profile now inp x) \<and>
            (\<forall>y \<in> set (ac_users v). user_ID y \<noteq> uid \<longrightarrow> user_Username y \<noteq> user_Username u) \<and>
            ac_users v' = map (\<lambda>x. if user_ID x = uid then u else x) (ac_users v)
        | Err e \<Rightarrow> ac_users v' = ac_users v
        | Panic s \<Rightarrow> False)"
proof -
  let ?res = "users_UpdateProfile (pg_NewUserRepository lc coll) now uid inp w"
  let ?v = "pg_accounts w" let ?v' = "pg_accounts (snd ?res)"
  have run: "pg_service.profile_updated 0 now uid inp w (fst ?res) (snd ?res)"
    using pg_service.UpdateProfile_run [of 0 w uid now lc coll inp] assms by (simp add: run_post_def)
  have wf: "accounts_wf id ?v" "accounts_wf id ?v'"
    using assms(1) run by (simp_all add: pg_service.profile_updated_def table_inv_def accounts_wf_pg)
  show ?thesis
  proof (cases "fst ?res")
    case (Ok u)
    with run obtain x where x: "account ?v uid = Some x" "u = edited_profile now inp x"
      and v': "?v' = change_user uid (with_profile u) ?v" and inv: "pg_users_inv (snd ?res)"
      by (auto simp: pg_service.profile_updated_def)
    from account_in [OF x(1)] have x': "x \<in> set (ac_users ?v)" "user_ID x = uid" by simp_all
    have "y = x" if "y \<in> set (ac_users ?v)" "user_ID y = uid" for y
      using wf(1) x' that by (auto simp: accounts_wf_def dest: distinct_map_inj)
    then have users: "ac_users ?v' = map (\<lambda>x. if user_ID x = uid then u else x) (ac_users ?v)"
      using x(2) by (auto simp: v' change_user_def)
    have "user_Username y \<noteq> user_Username u" if "y \<in> set (ac_users ?v)" "user_ID y \<noteq> uid" for y
    proof
      assume "user_Username y = user_Username u"
      moreover have "y \<in> set (ac_users ?v')" "u \<in> set (ac_users ?v')" using that x' by (auto simp: users)
      ultimately have "y = u" using wf(2) by (auto simp: accounts_wf_def dest: distinct_map_inj)
      with that(2) x(2) x'(2) show False by simp
    qed
    with Ok users x x' inv show ?thesis by (auto simp: Let_def v' change_user_def)
  qed (use run in \<open>auto simp: pg_service.profile_updated_def Let_def\<close>)
qed

theorem pg_UpdateProfile_correct_witness:
  "let w' = snd (users_UpdateProfile (pg_NewUserRepository (\<lambda>c. c) demo_coll) 50 1
       \<lparr>upi_Username = None, upi_Bio = Some ''hello'', upi_AvatarURL = None\<rparr> demo)
   in pg_users_inv w' \<and> length (ac_users (pg_accounts w')) = 4"
proof -
  have "user_UpdatedAt x \<noteq> 50" if "account (pg_accounts demo) 1 = Some x" for x
    using account_in [OF that] by (auto simp: demo_accounts demo_db_def demo_user_def user_of_row_def)
  moreover have "length (ac_users (pg_accounts demo)) = 4" by (simp add: demo_accounts demo_db_def)
  ultimately show ?thesis
    using pg_UpdateProfile_correct [OF demo_users_inv(1), of 1 50 "\<lambda>c. c" demo_coll
        "\<lparr>upi_Username = None, upi_Bio = Some ''hello'', upi_AvatarURL = None\<rparr>"]
    by (auto simp: Let_def split: outcome.splits)
qed

text \<open>C22: Through any sequence of user use cases, with any inputs and any failing statements, no two live
  accounts share an identifier, an email or a username.\<close>

theorem pg_accounts_unique:
  assumes "pg_users_inv w0"
    and "user_reach (pg_NewUserRepository lc coll) (Hasher B cost salt) (JWTManager L cfg j1 j2) pg_accounts w0 w"
  shows "let us = ac_users (pg_accounts w) in distinct (map user_ID us) \<and> distinct (map user_Email us) \<and>
     distinct (map user_Username us)"
proof -
  from pg_service.reach_invariant [OF assms(2,1)] have "accounts_wf id (pg_accounts w)"
    by (simp add: table_inv_def accounts_wf_pg)
  then show ?thesis by (simp add: accounts_wf_def Let_def)
qed

theorem pg_accounts_unique_witness:
  "let us = ac_users (pg_accounts (snd (users_Register (pg_NewUserRepository (\<lambda>c. c) demo_coll) (Hasher demo_bcrypt 10 0)
       (JWTManager demo_signer demo_keys_config 1 2) 50 24 demo_register (demo_fault 3))))
   in distinct (map user_Email us)"
proof -
  have "(24 :: uuid) \<notin> set (ac_ids (pg_accounts (demo_fault 3)))"
    by (simp add: demo_fault_def demo_accounts)
  from pg_accounts_unique [OF demo_users_inv(2) acc_Register [where view = pg_accounts, OF acc_start this],
      of "\<lambda>c. c" demo_coll demo_bcrypt 10 0 demo_signer demo_keys_config 1 2 50 demo_register]
  show ?thesis by (simp add: Let_def)
qed

end
