(* ===== verification/RateProps.thy ===== *)
theory RateProps
  imports Middleware
begin

text \<open>
  What the rate limiter promises: purging the table never changes a decision, and in any span of one
  window at most twice the configured number of requests of one address pass (a fixed window lets
  a burst at its end and a burst at the start of the next one through).
\<close>

section \<open>Runs\<close>

datatype rl_event = Request time string | Sweep time

fun ev_time :: "rl_event \<Rightarrow> time" where
  "ev_time (Request t ip) = t"
| "ev_time (Sweep t) = t"

text \<open>The requests that pass, from a table and a sequence of requests and sweeps.\<close>

fun rl_run :: "int \<Rightarrow> duration \<Rightarrow> (string \<rightharpoonup> rate_entry) \<Rightarrow> rl_event list \<Rightarrow> (time \<times> string) list" where
  "rl_run m w cl [] = []"
| "rl_run m w cl (Request t ip # es) =
     (if fst (rate_step m w t ip cl) then [] else [(t, ip)]) @ rl_run m w (snd (rate_step m w t ip cl)) es"
| "rl_run m w cl (Sweep t # es) = rl_run m w (purge_stale t cl) es"

section \<open>Sweeping is invisible\<close>

definition stale_at :: "time \<Rightarrow> rate_entry option \<Rightarrow> bool" where
  "stale_at t e \<longleftrightarrow> (case e of None \<Rightarrow> True | Some x \<Rightarrow> time_After t (re_resetAt x))"

text \<open>Tables that agree up to stale entries.\<close>

definition same_live :: "time \<Rightarrow> (string \<rightharpoonup> rate_entry) \<Rightarrow> (string \<rightharpoonup> rate_entry) \<Rightarrow> bool" where
  "same_live t cl cl' \<longleftrightarrow> (\<forall>ip. cl ip = cl' ip \<or> stale_at t (cl ip) \<and> stale_at t (cl' ip))"

lemma stale_mono: "stale_at t e \<Longrightarrow> t \<le> t' \<Longrightarrow> stale_at t' e"
  by (auto simp: stale_at_def time_After_def split: option.splits)

lemma same_live_mono: "same_live t cl cl' \<Longrightarrow> t \<le> t' \<Longrightarrow> same_live t' cl cl'"
  unfolding same_live_def using stale_mono by blast

lemma rate_step_stale:
  "stale_at t (cl ip) \<Longrightarrow>
     rate_step m w t ip cl = (False, cl(ip \<mapsto> \<lparr>re_count = 1, re_resetAt = time_Add t w\<rparr>))"
  by (auto simp: rate_step_def stale_at_def split: option.splits)

lemma rate_step_live:
  "cl ip = Some e \<Longrightarrow> \<not> time_After t (re_resetAt e) \<Longrightarrow>
     rate_step m w t ip cl = (re_count e + 1 > m, cl(ip \<mapsto> e\<lparr>re_count := re_count e + 1\<rparr>))"
  by (simp add: rate_step_def Let_def)

lemma rate_step_same_live:
  assumes "same_live t cl cl'"
  shows "fst (rate_step m w t ip cl) = fst (rate_step m w t ip cl') \<and>
    same_live t (snd (rate_step m w t ip cl)) (snd (rate_step m w t ip cl'))"
proof (cases "stale_at t (cl ip)")
  case True
  with assms have "stale_at t (cl' ip)" unfolding same_live_def by metis
  with True assms show ?thesis by (simp add: rate_step_stale same_live_def)
next
  case False
  with assms have eq: "cl ip = cl' ip" unfolding same_live_def by blast
  from False obtain e where e: "cl ip = Some e" "\<not> time_After t (re_resetAt e)"
    by (auto simp: stale_at_def split: option.splits)
  with eq have e': "cl' ip = Some e" by simp
  from assms show ?thesis
    unfolding rate_step_live [where cl = cl and ip = ip, OF e] rate_step_live [where cl = cl' and ip = ip, OF e' e(2)]
    by (simp add: same_live_def)
qed

lemma purge_cases: "purge_stale t cl ip = cl ip \<or> purge_stale t cl ip = None \<and> stale_at t (cl ip)"
  by (auto simp: purge_stale_def stale_at_def split: option.split)

lemma stale_None [simp]: "stale_at t None"
  by (simp add: stale_at_def)

lemma purge_same_live: "same_live t cl cl' \<Longrightarrow> same_live t (purge_stale t cl) cl'"
  unfolding same_live_def by (metis purge_cases stale_None)

lemma rl_run_same_live:
  "same_live t cl cl' \<Longrightarrow> sorted (t # map ev_time es) \<Longrightarrow>
     rl_run m w cl es = rl_run m w cl' (filter (\<lambda>e. case e of Request t ip \<Rightarrow> True | Sweep t \<Rightarrow> False) es)"
proof (induction es arbitrary: t cl cl')
  case (Cons e es)
  have live: "same_live (ev_time e) cl cl'" using Cons.prems same_live_mono by simp
  have sorted: "sorted (ev_time e # map ev_time es)" using Cons.prems by simp
  show ?case
  proof (cases e)
    case (Request t' ip)
    with live have step: "fst (rate_step m w t' ip cl) = fst (rate_step m w t' ip cl')"
        "same_live t' (snd (rate_step m w t' ip cl)) (snd (rate_step m w t' ip cl'))"
      using rate_step_same_live [of t' cl cl' m w ip] by simp_all
    from Cons.IH [OF step(2)] sorted step(1) show ?thesis by (simp add: Request)
  next
    case (Sweep t')
    with live have "same_live t' (purge_stale t' cl) cl'"
      using purge_same_live [of t' cl cl'] by simp
    from Cons.IH [OF this] sorted show ?thesis by (simp add: Sweep)
  qed
qed simp

section \<open>The bound\<close>

text \<open>The passing requests of one address in a span.\<close>

definition passed :: "string \<Rightarrow> time \<Rightarrow> time \<Rightarrow> (time \<times> string) list \<Rightarrow> nat" where
  "passed ip lo hi xs = length (filter (\<lambda>(t, i). i = ip \<and> lo \<le> t \<and> t \<le> hi) xs)"

lemma passed_simps [simp]:
  "passed ip lo hi [] = 0"
  "passed ip lo hi ((t, i) # xs) = (if i = ip \<and> lo \<le> t \<and> t \<le> hi then 1 else 0) + passed ip lo hi xs"
  by (auto simp: passed_def)

definition requests_only :: "rl_event list \<Rightarrow> bool" where
  "requests_only es \<longleftrightarrow> (\<forall>e \<in> set es. \<exists>t ip. e = Request t ip)"

lemma rl_run_times: "x \<in> set (rl_run m w cl es) \<Longrightarrow> sorted (t # map ev_time es) \<Longrightarrow> t \<le> fst x"
proof (induction es arbitrary: cl)
  case (Cons e es)
  then show ?case by (cases e) (auto split: if_splits)
qed simp

lemma passed_late: "(\<And>x. x \<in> set xs \<Longrightarrow> hi < fst x) \<Longrightarrow> passed ip lo hi xs = 0"
  by (auto simp: passed_def filter_empty_conv) fastforce

text \<open>Up to the end of a live window.\<close>

lemma passed_window:
  assumes "cl ip = Some e" "hi \<le> re_resetAt e" "sorted (map ev_time es)" "requests_only es"
  shows "passed ip lo hi (rl_run m w cl es) \<le> nat (m - re_count e)"
  using assms
proof (induction es arbitrary: cl e)
  case (Cons ev es)
  then obtain t i where ev: "ev = Request t i" by (auto simp: requests_only_def)
  have rest: "requests_only es" "sorted (map ev_time es)" using Cons.prems by (auto simp: requests_only_def)
  show ?case
  proof (cases "i = ip")
    case False
    have "snd (rate_step m w t i cl) ip = Some e"
      using False Cons.prems(1) by (auto simp: rate_step_def Let_def split: option.splits)
    from Cons.IH [where cl = "snd (rate_step m w t i cl)", OF this Cons.prems(2) rest(2,1)] False show ?thesis
      by (simp add: ev)
  next
    case True
    show ?thesis
    proof (cases "hi < t")
      case late: True
      have "\<And>x. x \<in> set (rl_run m w cl (ev # es)) \<Longrightarrow> hi < fst x"
        using rl_run_times [of _ m w cl "ev # es" t] Cons.prems(3) late by (fastforce simp: ev)
      then show ?thesis by (simp add: passed_late)
    next
      case early: False
      then have live: "\<not> time_After t (re_resetAt e)" using Cons.prems(2) by (simp add: time_After_def)
      let ?e = "e\<lparr>re_count := re_count e + 1\<rparr>"
      let ?cl = "cl(ip \<mapsto> ?e)"
      have step: "rate_step m w t ip cl = (re_count e + 1 > m, ?cl)"
        by (rule rate_step_live [where cl = cl and ip = ip, OF Cons.prems(1) live])
      have "passed ip lo hi (rl_run m w ?cl es) \<le> nat (m - re_count ?e)"
        by (rule Cons.IH) (use Cons.prems rest in simp_all)
      then show ?thesis by (auto simp: ev True step)
    qed
  qed
qed simp

text \<open>From the opening of a window on.\<close>

lemma passed_open:
  assumes "stale_at t (cl ip)" "0 < w" "1 \<le> m" "lo \<le> t" "int hi \<le> int lo + w"
    "sorted (t # map ev_time es)" "requests_only es"
  shows "passed ip lo hi (rl_run m w cl (Request t ip # es)) \<le> nat m"
proof -
  let ?e = "\<lparr>re_count = 1, re_resetAt = time_Add t w\<rparr>"
  have "hi \<le> time_Add t w" using assms(2,4,5) by (simp add: time_Add_def)
  then have "passed ip lo hi (rl_run m w (cl(ip \<mapsto> ?e)) es) \<le> nat (m - 1)"
    using passed_window [of "cl(ip \<mapsto> ?e)" ip ?e hi es lo m w] assms(6,7) by simp
  moreover have "Suc (nat (m - 1)) = nat m" using assms(3) by simp
  ultimately show ?thesis by (simp add: rate_step_stale [where cl = cl and ip = ip, OF assms(1)])
qed

text \<open>A live window that reaches into the span, then at most one more.\<close>

lemma passed_after_live:
  assumes "cl ip = Some e" "lo \<le> re_resetAt e" "0 < w" "1 \<le> m" "int hi \<le> int lo + w"
    "sorted (map ev_time es)" "requests_only es"
  shows "passed ip lo hi (rl_run m w cl es) \<le> nat (m - re_count e) + nat m"
  using assms
proof (induction es arbitrary: cl e)
  case (Cons ev es)
  then obtain t i where ev: "ev = Request t i" by (auto simp: requests_only_def)
  have rest: "requests_only es" "sorted (map ev_time es)" "sorted (t # map ev_time es)"
    using Cons.prems by (auto simp: requests_only_def ev)
  consider (other) "i \<noteq> ip" | (opens) "i = ip" "stale_at t (cl ip)" | (live) "i = ip" "\<not> stale_at t (cl ip)"
    by blast
  then show ?case
  proof cases
    case other
    have "snd (rate_step m w t i cl) ip = Some e"
      using other Cons.prems(1) by (auto simp: rate_step_def Let_def split: option.splits)
    from Cons.IH [where cl = "snd (rate_step m w t i cl)", OF this Cons.prems(2-5) rest(2,1)] other show ?thesis by (simp add: ev)
  next
    case opens
    then have "lo \<le> t" using Cons.prems(1,2) by (simp add: stale_at_def time_After_def)
    from passed_open [where cl = cl and ip = ip, OF opens(2) Cons.prems(3,4) this Cons.prems(5) rest(3,1)] opens(1) show ?thesis
      by (simp add: ev)
  next
    case live
    then have l: "\<not> time_After t (re_resetAt e)" using Cons.prems(1) by (simp add: stale_at_def)
    let ?e = "e\<lparr>re_count := re_count e + 1\<rparr>"
    have step: "rate_step m w t ip cl = (re_count e + 1 > m, cl(ip \<mapsto> ?e))"
      by (rule rate_step_live [where cl = cl and ip = ip, OF Cons.prems(1) l])
    have "passed ip lo hi (rl_run m w (cl(ip \<mapsto> ?e)) es) \<le> nat (m - re_count ?e) + nat m"
      by (rule Cons.IH) (use Cons.prems rest in simp_all)
    then show ?thesis by (auto simp: ev live(1) step)
  qed
qed simp

lemma passed_bound:
  assumes "0 < w" "1 \<le> m" "int hi \<le> int lo + w" "sorted (map ev_time es)" "requests_only es"
    and counts: "\<And>e. cl ip = Some e \<Longrightarrow> 1 \<le> re_count e"
  shows "passed ip lo hi (rl_run m w cl es) \<le> 2 * nat m"
  using assms
proof (induction es arbitrary: cl)
  case (Cons ev es)
  then obtain t i where ev: "ev = Request t i" by (auto simp: requests_only_def)
  have rest: "requests_only es" "sorted (map ev_time es)" "sorted (t # map ev_time es)"
    using Cons.prems by (auto simp: requests_only_def ev)
  let ?cl = "snd (rate_step m w t i cl)"
  have counts': "\<And>e. ?cl ip = Some e \<Longrightarrow> 1 \<le> re_count e"
    using Cons.prems(6) by (fastforce simp: rate_step_def Let_def split: option.splits if_splits)
  have IH: "passed ip lo hi (rl_run m w ?cl es) \<le> 2 * nat m"
    by (rule Cons.IH [OF Cons.prems(1-3) rest(2,1) counts'])
  show ?case
  proof (cases "i = ip \<and> lo \<le> t")
    case False
    with IH show ?thesis by (auto simp: ev)
  next
    case True
    show ?thesis
    proof (cases "stale_at t (cl ip)")
      case opens: True
      from passed_open [where cl = cl and ip = ip, OF this Cons.prems(1,2) _ Cons.prems(3) rest(3,1)] True show ?thesis
        by (simp add: ev)
    next
      case False
      then obtain e where e: "cl ip = Some e" "\<not> time_After t (re_resetAt e)"
        by (auto simp: stale_at_def split: option.splits)
      then have "lo \<le> re_resetAt e" using True by (simp add: time_After_def)
      from passed_after_live [where cl = cl and ip = ip and es = "ev # es", OF e(1) this Cons.prems(1-5)] Cons.prems(6) [OF e(1)]
      show ?thesis by linarith
    qed
  qed
qed simp

section \<open>Properties\<close>

definition is_request :: "rl_event \<Rightarrow> bool" where
  "is_request e = (case e of Request t ip \<Rightarrow> True | Sweep t \<Rightarrow> False)"

lemma without_sweeps:
  assumes "sorted (map ev_time es)"
  shows "rl_run m w cl es = rl_run m w cl (filter is_request es)"
proof (cases es)
  case (Cons e es')
  have "same_live (ev_time e) cl cl" by (simp add: same_live_def)
  from rl_run_same_live [OF this, of es m w] assms Cons show ?thesis
    by (simp add: is_request_def [abs_def])
qed simp

text \<open>The background sweep of the rate limiter never changes a decision: with a clock that does not
  run backwards, the requests that pass are the same with and without the sweeps.\<close>

theorem sweep_never_decides:
  assumes "sorted (map ev_time es)"
  shows "rl_run maxReqs window cl es = rl_run maxReqs window cl (filter is_request es)"
  using assms by (rule without_sweeps)

theorem sweep_never_decides_witness:
  "rl_run 1 10 Map.empty [Request 5 ''a'', Sweep 20, Request 30 ''a'', Request 31 ''a''] =
     rl_run 1 10 Map.empty [Request 5 ''a'', Request 30 ''a'', Request 31 ''a'']"
  using sweep_never_decides [of "[Request 5 ''a'', Sweep 20, Request 30 ''a'', Request 31 ''a'']" 1 10 Map.empty]
  by (simp add: is_request_def)

text \<open>C30: In any span of one window at most twice \<open>maxReqs\<close> requests of one address pass the rate
  limiter, whatever other addresses send and whenever the table is swept.\<close>

theorem rate_limit_bound:
  assumes "0 < window" "1 \<le> maxReqs" "sorted (map ev_time es)" "int hi \<le> int lo + window"
  shows "int (passed ip lo hi (rl_run maxReqs window Map.empty es)) \<le> 2 * maxReqs"
proof -
  have "sorted (map ev_time (filter is_request es))"
    using assms(3) by (induction es) auto
  moreover have "requests_only (filter is_request es)"
    by (auto simp: requests_only_def is_request_def split: rl_event.splits)
  ultimately have "passed ip lo hi (rl_run maxReqs window Map.empty (filter is_request es)) \<le> 2 * nat maxReqs"
    by (intro passed_bound [OF assms(1,2,4)]) simp_all
  with without_sweeps [OF assms(3)] assms(2) show ?thesis by simp
qed

theorem rate_limit_bound_witness:
  "int (passed ''a'' 9 19 (rl_run 1 10 Map.empty
     [Request 5 ''a'', Request 9 ''b'', Request 15 ''a'', Request 16 ''a'', Request 17 ''a''])) \<le> 2"
  using rate_limit_bound [where window = 10 and maxReqs = 1 and lo = 9 and hi = 19 and ip = "''a''"
      and es = "[Request 5 ''a'', Request 9 ''b'', Request 15 ''a'', Request 16 ''a'', Request 17 ''a'']"]
  by simp

end
