(* ===== verification/HttpLemmas.thy ===== *)
theory HttpLemmas
  imports Router
begin

text \<open>
  How the pieces of the HTTP layer run: the effect of the writing operations on a connection whose
  response has not been sent, of the authentication middleware, and of the route table.
\<close>

section \<open>Writing\<close>

definition status_of :: "'w conn \<Rightarrow> nat option" where
  "status_of s = map_option fst (wr_sent (cn_out s))"

text \<open>A step of the connection that leaves the state behind the use cases and the limiter alone.\<close>

definition out_only :: "('w conn, unit) io \<Rightarrow> bool" where
  "out_only m \<longleftrightarrow> (\<forall>s. fst (m s) = Ok () \<and> cn_world (snd (m s)) = cn_world s \<and> cn_rate (snd (m s)) = cn_rate s)"

lemma out_only_on_out [simp]: "out_only (on_out f)"
  by (simp add: out_only_def on_out_def)

lemma out_only_ret [simp]: "out_only (ret ())"
  by (simp add: out_only_def ret_def)

lemma out_only_ops [simp]:
  "out_only (header_Set k v)" "out_only (header_Add k v)" "out_only (WriteHeader n)" "out_only (Write b)"
  "out_only (log_ctx L ctx level extra msg)"
  by (simp_all add: header_Set_def header_Add_def WriteHeader_def Write_def out_only_def on_out_def log_ctx_def
      split: option.split)

lemma out_only_call: "out_only m \<Longrightarrow> out_only n \<Longrightarrow> out_only (call m (\<lambda>_. n))"
  by (auto simp: out_only_def call_def branch_def)

lemma out_only_if: "out_only m \<Longrightarrow> out_only n \<Longrightarrow> out_only (if b then m else n)"
  by simp

lemma response_out_only [simp]:
  "out_only (response_JSON n b)" "out_only (response_OK j)" "out_only (response_Created j)"
  "out_only response_NoContent" "out_only response_BadRequest" "out_only unauthorized"
  "out_only (http_Error t n)" "out_only (response_Err L r e)"
  by (auto simp: response_JSON_def response_OK_def response_Created_def response_NoContent_def unauthorized_def
      response_BadRequest_def http_Error_def response_Err_def Let_def intro!: out_only_call out_only_if)

lemma out_only_run: "out_only m \<Longrightarrow> fst (m s) = Ok () \<and> cn_world (snd (m s)) = cn_world s \<and> cn_rate (snd (m s)) = cn_rate s"
  by (simp add: out_only_def)

lemma out_only_run_call: "out_only m \<Longrightarrow> call m k s = k () (snd (m s))"
  by (simp add: out_only_def call_def branch_def)

lemma status_response:
  assumes "wr_sent (cn_out s) = None"
  shows "status_of (snd (response_JSON n b s)) = Some n" "status_of (snd (http_Error t n s)) = Some n"
    "wr_body (cn_out (snd (response_JSON n b s))) = wr_body (cn_out s) @ [Json (json_of_Body b)]"
    "status_of (snd (response_NoContent s)) = Some StatusNoContent"
  using assms
  by (simp_all add: response_JSON_def http_Error_def response_NoContent_def header_Set_def WriteHeader_def Write_def on_out_def call_def
      branch_def status_of_def out_WriteHeader_def out_Write_def Let_def)

lemma status_kept: "wr_sent (cn_out s) \<noteq> None \<Longrightarrow> wr_sent (out_WriteHeader n (cn_out s)) = wr_sent (cn_out s)"
  by (auto simp: out_WriteHeader_def)

lemma log_ctx_out [simp]: "cn_out (snd (log_ctx L ctx level extra msg s)) = cn_out s"
  by (auto simp: log_ctx_def split: option.split)

lemma response_Err_run:
  fixes s :: "'w conn"
  assumes "wr_sent (cn_out s) = None"
  shows "status_of (snd (response_Err L r e s)) = Some (statusCode e)"
    "wr_body (cn_out (snd (response_Err L r e s))) = wr_body (cn_out s)
      @ [Json (json_of_Body \<lparr>body_Data = None, body_Error = error_text L e\<rparr>)]"
proof -
  define log :: "('w conn, unit) io" where "log = (if statusCode e \<ge> 500
    then log_ctx L (rq_ctx r) LError [(''error'', error_text L e)] ''internal error'' else ret ())"
  have "out_only log" by (simp add: log_def)
  then have run: "response_Err L r e s =
      response_JSON (statusCode e) \<lparr>body_Data = None, body_Error = error_text L e\<rparr> (snd (log s))"
    unfolding response_Err_def Let_def log_def [symmetric] by (rule out_only_run_call)
  have fresh: "cn_out (snd (log s)) = cn_out s"
    by (cases "statusCode e \<ge> 500") (simp_all add: log_def ret_def)
  show "status_of (snd (response_Err L r e s)) = Some (statusCode e)"
    "wr_body (cn_out (snd (response_Err L r e s))) = wr_body (cn_out s)
      @ [Json (json_of_Body \<lparr>body_Data = None, body_Error = error_text L e\<rparr>)]"
    unfolding run using assms fresh status_response [of "snd (log s)"] by simp_all
qed

section \<open>Authentication\<close>

text \<open>The token of a request: what follows the scheme in a bearer header.\<close>

definition bearer_token :: "request \<Rightarrow> string option" where
  "bearer_token r =
     (case SplitN2 (CHR '' '') (first_value (rq_header r) ''Authorization'') of
        [scheme, token] \<Rightarrow> if EqualFold scheme ''bearer'' then Some token else None
      | _ \<Rightarrow> None)"

lemma SplitN2_Nil [simp]: "SplitN2 c [] = [[]]"
  by (simp add: SplitN2_def)

lemma mw_Auth_eq:
  "mw_Auth L validate next r =
     (case bearer_token r of
        None \<Rightarrow> unauthorized
      | Some token \<Rightarrow>
          branch (on_world (validate token))
            (\<lambda>userID. next (r\<lparr>rq_ctx :=
               (with_log_field L ''user_id'' (gl_uuid_String L userID) (rq_ctx r))\<lparr>cx_userID := Some userID\<rparr>\<rparr>))
            (\<lambda>err. call (log_ctx L (rq_ctx r) LDebug [(''error'', error_text L err)] ''auth: invalid token'')
               (\<lambda>_. unauthorized)))"
  unfolding mw_Auth_def bearer_token_def Let_def
  by (cases "first_value (rq_header r) ''Authorization''") (auto split: list.split)

text \<open>A request without a token that the validator accepts in the current state.\<close>

definition no_token :: "(string \<Rightarrow> ('w, uuid) io) \<Rightarrow> request \<Rightarrow> 'w \<Rightarrow> bool" where
  "no_token validate r w \<longleftrightarrow>
     (case bearer_token r of None \<Rightarrow> True | Some token \<Rightarrow> (\<exists>e. fst (validate token w) = Err e))"

definition token_tried :: "(string \<Rightarrow> ('w, uuid) io) \<Rightarrow> request \<Rightarrow> 'w \<Rightarrow> 'w" where
  "token_tried validate r w =
     (case bearer_token r of None \<Rightarrow> w | Some token \<Rightarrow> snd (validate token w))"

lemma mw_Auth_refuses:
  fixes s :: "'w conn"
  assumes "no_token validate r (cn_world s)" "wr_sent (cn_out s) = None"
  shows "fst (mw_Auth L validate next r s) = Ok ()"
    "status_of (snd (mw_Auth L validate next r s)) = Some StatusUnauthorized"
    "cn_world (snd (mw_Auth L validate next r s)) = token_tried validate r (cn_world s)"
    "cn_rate (snd (mw_Auth L validate next r s)) = cn_rate s"
proof -
  have un: "out_only (unauthorized :: ('w conn, unit) io)" by simp
  note run_un = out_only_run [OF un]
  have st: "wr_sent (cn_out s') = None \<Longrightarrow> status_of (snd (unauthorized s')) = Some StatusUnauthorized"
    for s' :: "'w conn"
    unfolding unauthorized_def by (rule status_response)
  have all: "fst (mw_Auth L validate next r s) = Ok () \<and>
    status_of (snd (mw_Auth L validate next r s)) = Some StatusUnauthorized \<and>
    cn_world (snd (mw_Auth L validate next r s)) = token_tried validate r (cn_world s) \<and>
    cn_rate (snd (mw_Auth L validate next r s)) = cn_rate s"
  proof (cases "bearer_token r")
    case None
    then show ?thesis
      using run_un [of s] st [OF assms(2)] by (simp add: mw_Auth_eq token_tried_def)
  next
    case (Some token)
    with assms(1) obtain e w' where v: "validate token (cn_world s) = (Err e, w')"
      by (auto simp: no_token_def prod_eq_iff)
    define s1 where "s1 = s\<lparr>cn_world := w'\<rparr>"
    have ow: "on_world (validate token) s = (Err e, s1)"
      using v by (simp add: on_world_def s1_def)
    define log :: "('w conn, unit) io"
      where "log = log_ctx L (rq_ctx r) LDebug [(''error'', error_text L e)] ''auth: invalid token''"
    have "out_only log" by (simp add: log_def)
    note rl = out_only_run [OF this, of s1]
    have run: "mw_Auth L validate next r s = unauthorized (snd (log s1))"
      unfolding mw_Auth_eq Some option.case
      by (simp add: branch_def ow out_only_run_call log_def)
    have o1: "cn_out (snd (log s1)) = cn_out s" by (simp add: log_def s1_def)
    then have "wr_sent (cn_out (snd (log s1))) = None" using assms(2) by simp
    from st [OF this] run_un [of "snd (log s1)"] rl
    show ?thesis unfolding run by (simp add: token_tried_def Some v s1_def)
  qed
  then show "fst (mw_Auth L validate next r s) = Ok ()"
    "status_of (snd (mw_Auth L validate next r s)) = Some StatusUnauthorized"
    "cn_world (snd (mw_Auth L validate next r s)) = token_tried validate r (cn_world s)"
    "cn_rate (snd (mw_Auth L validate next r s)) = cn_rate s"
    by blast+
qed

lemma mw_Auth_accepts:
  assumes "bearer_token r = Some token" "validate token (cn_world s) = (Ok u, w')"
  shows "mw_Auth L validate next r s =
     next (r\<lparr>rq_ctx := (with_log_field L ''user_id'' (gl_uuid_String L u) (rq_ctx r))\<lparr>cx_userID := Some u\<rparr>\<rparr>)
       (s\<lparr>cn_world := w'\<rparr>)"
  using assms by (simp add: mw_Auth_eq branch_def on_world_def)

section \<open>Routes\<close>

text \<open>The routes as methods and parsed paths.\<close>

definition route_key :: "'w route \<Rightarrow> string \<times> seg list" where
  "route_key rt = parse_pattern (rt_pattern rt)"

definition fits :: "seg list \<Rightarrow> string list \<Rightarrow> bool" where
  "fits ps p \<longleftrightarrow> match_path ps p \<noteq> None"

lemma fits_simps [simp]:
  "fits [] p \<longleftrightarrow> p = []"
  "fits (Lit l # ps) p \<longleftrightarrow> (\<exists>ss. p = l # ss \<and> fits ps ss)"
  "fits (Wild n # ps) p \<longleftrightarrow> (\<exists>s ss. p = s # ss \<and> s \<noteq> [] \<and> fits ps ss)"
  by (cases p; auto simp: fits_def)+

lemma route_matches_fits:
  "route_matches r rt \<longleftrightarrow> method_matches (fst (route_key rt)) (rq_Method r) \<and> fits (snd (route_key rt)) (rq_path r)"
  for rt :: "'w route"
  by (simp add: route_matches_def route_key_def fits_def split_beta)

lemmas pattern_defs = parse_pattern_def seg_of_def

definition apiv1 :: "seg list \<Rightarrow> seg list" where
  "apiv1 ps = Lit ''api'' # Lit ''v1'' # ps"

lemma public_keys:
  "map route_key (public_routes L d) =
     [(''GET'', [Lit ''health'']), (''POST'', apiv1 [Lit ''auth'', Lit ''register'']),
      (''POST'', apiv1 [Lit ''auth'', Lit ''login'']), (''POST'', apiv1 [Lit ''auth'', Lit ''refresh''])]"
  by (simp add: public_routes_def auth_route_def route_key_def pattern_defs apiv1_def)

lemma api_keys:
  "map (parse_pattern \<circ> fst) (api_handlers L d) =
     [(''GET'', apiv1 [Lit ''users'', Lit ''me'']),
      (''PUT'', apiv1 [Lit ''users'', Lit ''me'']),
      (''GET'', apiv1 [Lit ''users'', Lit ''search'']),
      (''GET'', apiv1 [Lit ''users'', Wild ''user_id'']),
      (''GET'', apiv1 [Lit ''chats'']),
      (''POST'', apiv1 [Lit ''chats'', Lit ''direct'']),
      (''POST'', apiv1 [Lit ''chats'', Lit ''group'']),
      (''GET'', apiv1 [Lit ''chats'', Wild ''chat_id'']),
      (''PUT'', apiv1 [Lit ''chats'', Wild ''chat_id'']),
      (''GET'', apiv1 [Lit ''chats'', Wild ''chat_id'', Lit ''members'']),
      (''POST'', apiv1 [Lit ''chats'', Wild ''chat_id'', Lit ''members'']),
      (''DELETE'', apiv1 [Lit ''chats'', Wild ''chat_id'', Lit ''members'', Lit ''me'']),
      (''DELETE'', apiv1 [Lit ''chats'', Wild ''chat_id'', Lit ''members'', Wild ''user_id'']),
      (''PATCH'', apiv1 [Lit ''chats'', Wild ''chat_id'', Lit ''members'', Wild ''user_id'', Lit ''role'']),
      (''POST'', apiv1 [Lit ''chats'', Wild ''chat_id'', Lit ''messages'']),
      (''GET'', apiv1 [Lit ''chats'', Wild ''chat_id'', Lit ''messages'']),
      (''POST'', apiv1 [Lit ''chats'', Wild ''chat_id'', Lit ''read'']),
      (''PUT'', apiv1 [Lit ''chats'', Wild ''chat_id'', Lit ''messages'', Wild ''msg_id'']),
      (''DELETE'', apiv1 [Lit ''chats'', Wild ''chat_id'', Lit ''messages'', Wild ''msg_id'']),
      (''POST'', apiv1 [Lit ''chats'', Wild ''chat_id'', Lit ''messages'', Wild ''msg_id'', Lit ''reactions'']),
      (''DELETE'', apiv1 [Lit ''chats'', Wild ''chat_id'', Lit ''messages'', Wild ''msg_id'', Lit ''reactions''])]"
  by (simp add: api_handlers_def pattern_defs apiv1_def)

section \<open>Specificity\<close>

text \<open>Patterns that no path fits both of.\<close>

fun clash :: "seg list \<Rightarrow> seg list \<Rightarrow> bool" where
  "clash [] [] = False"
| "clash (Lit a # ps) (Lit b # qs) = (a \<noteq> b \<or> clash ps qs)"
| "clash (p # ps) (q # qs) = clash ps qs"
| "clash _ _ = True"

lemma fits_Cons: "fits (p # ps) s \<Longrightarrow> \<exists>a ss. s = a # ss \<and> fits ps ss"
  by (cases p) auto

lemma clash_fits: "clash p q \<Longrightarrow> fits p s \<Longrightarrow> \<not> fits q s"
  by (induction p q arbitrary: s rule: clash.induct) (auto dest: fits_Cons)

lemma more_specific_refl [simp]: "more_specific p p"
  by (induction p) (auto, metis more_specific.simps(2,3) seg.exhaust)

lemma more_specific_trans: "more_specific p q \<Longrightarrow> more_specific q r \<Longrightarrow> more_specific p r"
proof (induction p q arbitrary: r rule: more_specific.induct)
  case (2 l ps k qs)
  then show ?case by (cases "(Lit k # qs, r)" rule: more_specific.cases) auto
next
  case (3 p ps n qs)
  then show ?case by (cases "(Wild n # qs, r)" rule: more_specific.cases) auto
qed simp_all

lemma least_in_list:
  assumes "xs \<noteq> []" "\<And>x y. x \<in> set xs \<Longrightarrow> y \<in> set xs \<Longrightarrow> R x y \<or> R y x"
    and "\<And>x y z. R x y \<Longrightarrow> R y z \<Longrightarrow> R x z"
  shows "\<exists>x \<in> set xs. \<forall>y \<in> set xs. R x y"
  using assms
proof (induction xs)
  case (Cons a xs)
  show ?case
  proof (cases "xs = []")
    case True
    with Cons.prems(2) show ?thesis by auto
  next
    case False
    with Cons obtain x where x: "x \<in> set xs" "\<forall>y \<in> set xs. R x y" by auto
    show ?thesis
    proof (cases "R x a")
      case True
      with x show ?thesis by auto
    next
      case False
      with Cons.prems(2) [of x a] x have "R a x" by auto
      moreover have "R a a" using Cons.prems(2) [of a a] by auto
      ultimately have "\<forall>y \<in> set (a # xs). R a y" using x Cons.prems(3) by (metis set_ConsD)
      then show ?thesis by auto
    qed
  qed
qed simp

text \<open>Tables in which two routes of one method clash or are comparable serve every request they
  match.\<close>

definition comparable :: "(string \<times> seg list) list \<Rightarrow> bool" where
  "comparable ks \<longleftrightarrow> list_all (\<lambda>k. list_all (\<lambda>l. fst k \<noteq> fst l \<or> clash (snd k) (snd l)
     \<or> more_specific (snd k) (snd l) \<or> more_specific (snd l) (snd k)) ks) ks"

lemma find_route_complete:
  assumes "comparable (map route_key rts)" "\<And>rt. rt \<in> set rts \<Longrightarrow> fst (route_key rt) \<noteq> ''HEAD''"
    and "rt \<in> set rts" "route_matches r rt"
  shows "find_route rts r \<noteq> None"
proof -
  let ?ms = "filter (route_matches r) rts"
  let ?R = "\<lambda>a b. more_specific (snd (route_key a)) (snd (route_key b))"
  have tot: "?R a b \<or> ?R b a" if "a \<in> set ?ms" "b \<in> set ?ms" for a b
  proof -
    have m: "route_matches r a" "route_matches r b" and s: "a \<in> set rts" "b \<in> set rts" using that by auto
    then have "fst (route_key a) = fst (route_key b)"
      using assms(2) by (auto simp: route_matches_fits method_matches_def)
    moreover have "\<not> clash (snd (route_key a)) (snd (route_key b))"
      using m clash_fits by (auto simp: route_matches_fits)
    ultimately show ?thesis using assms(1) s by (auto simp: comparable_def list_all_iff)
  qed
  have "?ms \<noteq> []" using assms(3,4) by (auto simp: filter_empty_conv)
  then obtain x where "x \<in> set ?ms" "\<forall>y \<in> set ?ms. ?R x y"
    using least_in_list [of ?ms ?R] tot more_specific_trans by blast
  then have "find (\<lambda>a. list_all (\<lambda>b. ?R a b) ?ms) ?ms \<noteq> None"
    unfolding find_None_iff list_all_iff by blast
  then show ?thesis by (simp add: find_route_def Let_def route_key_def)
qed

lemma SetupRoutes_keys: "map route_key (SetupRoutes L d) =
    map route_key (public_routes L d) @ map (parse_pattern \<circ> fst) (api_handlers L d)"
  by (simp add: SetupRoutes_def route_key_def protected_route_def split_beta)

lemma SetupRoutes_comparable: "comparable (map route_key (SetupRoutes L d))"
  unfolding SetupRoutes_keys public_keys api_keys apiv1_def comparable_def by code_simp

lemma SetupRoutes_methods: "rt \<in> set (SetupRoutes L d) \<Longrightarrow> fst (route_key rt) \<noteq> ''HEAD''"
proof -
  assume "rt \<in> set (SetupRoutes L d)"
  then have "fst (route_key rt) \<in> set (map fst (map route_key (SetupRoutes L d)))" by simp
  then show ?thesis unfolding SetupRoutes_keys public_keys api_keys by auto
qed

end
