(* ===== verification/HttpProps.thy ===== *)
theory HttpProps
  imports HttpLemmas HttpDemo
begin

text \<open>
  What the HTTP layer promises: authentication in front of the API, an unambiguous route table, error
  statuses, answers without password hashes, and what the chain of middleware does to panics, to
  the request log and to WebSocket upgrades.
\<close>

section \<open>Authentication in front of the API\<close>

lemma find_route_set: "find_route rts r = Some rt \<Longrightarrow> rt \<in> set rts \<and> route_matches r rt"
  by (auto simp: find_route_def Let_def dest: find_Some_set)

lemma public_paths:
  assumes "rt \<in> set (public_routes L d)" "route_matches r rt"
  shows "rq_path r = [''health''] \<or> take 3 (rq_path r) = [''api'', ''v1'', ''auth'']"
proof -
  from assms(1) have "route_key rt \<in> set (map route_key (public_routes L d))" by simp
  then have k: "snd (route_key rt) \<in> {[Lit ''health''], apiv1 [Lit ''auth'', Lit ''register''],
      apiv1 [Lit ''auth'', Lit ''login''], apiv1 [Lit ''auth'', Lit ''refresh'']}"
    unfolding public_keys by auto
  have "fits (snd (route_key rt)) (rq_path r)" using assms(2) by (simp add: route_matches_fits)
  with k show ?thesis by (auto simp: apiv1_def)
qed

text \<open>C26: Outside \<open>/health\<close> and \<open>/api/v1/auth\<close> a request without a valid access token reaches no
  handler: it is answered 401 (404 or 405 where no route fits), and neither the state behind the
  use cases nor the limiter changes, except for what validating the token does.\<close>

theorem api_needs_token:
  fixes s :: "'w conn"
  assumes "rq_path r \<noteq> [''health'']" "take 3 (rq_path r) \<noteq> [''api'', ''v1'', ''auth'']"
    and "no_token (d_JWT d) r (cn_world s)" "wr_sent (cn_out s) = None"
  shows "let res = mux_ServeHTTP (SetupRoutes L d) r s in fst res = Ok () \<and>
      status_of (snd res) \<in> {Some StatusUnauthorized, Some StatusNotFound, Some StatusMethodNotAllowed} \<and>
      cn_world (snd res) \<in> {cn_world s, token_tried (d_JWT d) r (cn_world s)} \<and>
      cn_rate (snd res) = cn_rate s"
proof -
  let ?res = "mux_ServeHTTP (SetupRoutes L d) r s"
  have fail: "fst (http_Error t n s) = Ok () \<and> status_of (snd (http_Error t n s)) = Some n \<and>
      cn_world (snd (http_Error t n s)) = cn_world s \<and> cn_rate (snd (http_Error t n s)) = cn_rate s" for t n
    using out_only_run [of "http_Error t n :: ('w conn, unit) io" s] status_response(2) [OF assms(4)] by simp
  have "fst ?res = Ok () \<and> status_of (snd ?res) \<in>
      {Some StatusUnauthorized, Some StatusNotFound, Some StatusMethodNotAllowed} \<and>
    cn_world (snd ?res) \<in> {cn_world s, token_tried (d_JWT d) r (cn_world s)} \<and> cn_rate (snd ?res) = cn_rate s"
  proof (cases "find_route (SetupRoutes L d) r")
    case None
    then show ?thesis using fail by (simp add: mux_ServeHTTP_def)
  next
    case (Some rt)
    then have rt: "rt \<in> set (SetupRoutes L d)" "route_matches r rt" by (auto dest: find_route_set)
    have "rt \<notin> set (public_routes L d)" using public_paths [OF _ rt(2)] assms(1,2) by blast
    with rt(1) obtain pat fn where h: "rt_handler rt = mw_Auth L (d_JWT d) fn"
      by (auto simp: SetupRoutes_def protected_route_def)
    from rt(2) obtain vs where vs: "match_path (snd (parse_pattern (rt_pattern rt))) (rq_path r) = Some vs"
      by (auto simp: route_matches_def split_beta)
    let ?r = "r\<lparr>rq_pathvalue := vs\<rparr>"
    have run: "?res = mw_Auth L (d_JWT d) fn ?r s"
      by (simp add: mux_ServeHTTP_def Some vs h)
    have "bearer_token ?r = bearer_token r" by (simp add: bearer_token_def)
    then have "no_token (d_JWT d) ?r (cn_world s)" "token_tried (d_JWT d) ?r (cn_world s) = token_tried (d_JWT d) r (cn_world s)"
      using assms(3) by (simp_all add: no_token_def token_tried_def)
    with mw_Auth_refuses [OF this(1) assms(4), of L fn] show ?thesis unfolding run by simp
  qed
  then show ?thesis by (simp add: Let_def)
qed

theorem api_needs_token_witness:
  "let res = mux_ServeHTTP (SetupRoutes demo_lib demo_deps) (demo_request ''GET'' [''api'', ''v1'', ''chats''] []) demo_conn
   in fst res = Ok () \<and> cn_world (snd res) = demo"
  using api_needs_token [of "demo_request ''GET'' [''api'', ''v1'', ''chats''] []" demo_deps demo_conn demo_lib]
  by (simp add: Let_def no_token_def token_tried_def bearer_token_def first_value_def)

text \<open>The route table has no conflict: every request that some route matches is served by one, whose
  pattern is at least as specific as that of every other match.\<close>

theorem routes_unambiguous:
  "(case find_route (SetupRoutes L d) r of
      None \<Rightarrow> \<not> list_ex (route_matches r) (SetupRoutes L d)
    | Some rt \<Rightarrow> rt \<in> set (SetupRoutes L d) \<and> route_matches r rt \<and>
        list_all (\<lambda>q. more_specific (snd (route_key rt)) (snd (route_key q)))
          (filter (route_matches r) (SetupRoutes L d)))"
proof (cases "find_route (SetupRoutes L d) r")
  case None
  have "find_route (SetupRoutes L d) r \<noteq> None" if "rt \<in> set (SetupRoutes L d)" "route_matches r rt" for rt
    by (rule find_route_complete [OF SetupRoutes_comparable _ that]) (rule SetupRoutes_methods)
  with None show ?thesis by (auto simp: list_ex_iff)
next
  case (Some rt)
  then show ?thesis
    by (auto simp: list_all_iff find_route_def Let_def route_key_def dest: find_Some_set)
qed

section \<open>The chain of middleware\<close>

text \<open>Handlers that behave alike on writers that cannot be hijacked.\<close>

definition agree_wrapped :: "'w handler \<Rightarrow> 'w handler \<Rightarrow> bool" where
  "agree_wrapped h h' \<longleftrightarrow> (\<forall>r s. \<not> wr_hijacker (cn_out s) \<longrightarrow> h r s = h' r s)"

lemma agree_wrappedD: "agree_wrapped h h' \<Longrightarrow> \<not> wr_hijacker (cn_out s) \<Longrightarrow> h r s = h' r s"
  by (simp add: agree_wrapped_def)

lemma hijacker_kept [simp]:
  "wr_hijacker (cn_out (snd (header_Set k v s))) = wr_hijacker (cn_out s)"
  "wr_hijacker (cn_out (snd (header_Add k v s))) = wr_hijacker (cn_out s)"
  "wr_hijacker (cn_out (snd (on_world m s))) = wr_hijacker (cn_out s)"
  by (simp_all add: header_Set_def header_Add_def on_out_def on_world_def)

lemma agree_call:
  "(\<And>s. \<not> wr_hijacker (cn_out s) \<Longrightarrow> \<not> wr_hijacker (cn_out (snd (m s)))) \<Longrightarrow>
     (\<And>a s. \<not> wr_hijacker (cn_out s) \<Longrightarrow> k a s = k' a s) \<Longrightarrow>
     \<not> wr_hijacker (cn_out s) \<Longrightarrow> call m k s = call m k' s"
  by (auto simp: call_def branch_def throw_def split: outcome.split)

lemma agree_Auth: "agree_wrapped h h' \<Longrightarrow> agree_wrapped (mw_Auth L validate h) (mw_Auth L validate h')"
  unfolding agree_wrapped_def mw_Auth_eq
  by (auto simp: branch_def on_world_def split: option.split outcome.split)

lemma agree_LimitBody: "agree_wrapped h h' \<Longrightarrow> agree_wrapped (mw_LimitBody n h) (mw_LimitBody n h')"
  by (simp add: agree_wrapped_def mw_LimitBody_def)

lemma agree_CORS: "agree_wrapped h h' \<Longrightarrow> agree_wrapped (mw_CORS origins h) (mw_CORS origins h')"
  unfolding agree_wrapped_def mw_CORS_def Let_def
  by (auto intro!: agree_call simp: ret_def) (auto simp: header_Set_def header_Add_def on_out_def call_def branch_def)

lemma agree_RequestID: "agree_wrapped h h' \<Longrightarrow> agree_wrapped (mw_RequestID L i h) (mw_RequestID L i h')"
  unfolding agree_wrapped_def mw_RequestID_def Let_def by (auto intro!: agree_call)

lemma list_all2_filter:
  "list_all2 P xs ys \<Longrightarrow> (\<And>a b. P a b \<Longrightarrow> Q a = Q' b) \<Longrightarrow> list_all2 P (filter Q xs) (filter Q' ys)"
  by (induction rule: list_all2_induct) auto

lemma list_all2_find:
  "list_all2 P xs ys \<Longrightarrow> (\<And>a b. P a b \<Longrightarrow> Q a = Q' b) \<Longrightarrow> rel_option P (find Q xs) (find Q' ys)"
  by (induction rule: list_all2_induct) auto

lemma list_all2_all:
  "list_all2 P xs ys \<Longrightarrow> (\<And>a b. P a b \<Longrightarrow> Q a = Q' b) \<Longrightarrow> list_all Q xs = list_all Q' ys"
  by (induction rule: list_all2_induct) auto

lemma list_all2_ex:
  "list_all2 P xs ys \<Longrightarrow> (\<And>a b. P a b \<Longrightarrow> Q a = Q' b) \<Longrightarrow> list_ex Q xs = list_ex Q' ys"
  by (induction rule: list_all2_induct) auto

definition agree_route :: "'w route \<Rightarrow> 'w route \<Rightarrow> bool" where
  "agree_route a b \<longleftrightarrow> rt_pattern a = rt_pattern b \<and> agree_wrapped (rt_handler a) (rt_handler b)"

lemma agree_route_refl [simp]: "agree_route a a"
  by (simp add: agree_route_def agree_wrapped_def)

lemma agree_find_route:
  assumes "list_all2 agree_route rts rts'"
  shows "rel_option agree_route (find_route rts r) (find_route rts' r)"
proof -
  have ms: "list_all2 agree_route (filter (route_matches r) rts) (filter (route_matches r) rts')"
    by (rule list_all2_filter [OF assms]) (simp add: agree_route_def route_matches_def)
  show ?thesis
    unfolding find_route_def Let_def
    by (rule list_all2_find [OF ms], rule list_all2_all [OF ms, THEN trans])
      (auto simp: agree_route_def)
qed

lemma agree_mux:
  assumes "list_all2 agree_route rts rts'"
  shows "agree_wrapped (mux_ServeHTTP rts) (mux_ServeHTTP rts')"
proof -
  have ex: "list_ex (\<lambda>rt. match_path (snd (parse_pattern (rt_pattern rt))) (rq_path r) \<noteq> None) rts =
      list_ex (\<lambda>rt. match_path (snd (parse_pattern (rt_pattern rt))) (rq_path r) \<noteq> None) rts'" for r
    by (rule list_all2_ex [OF assms]) (simp add: agree_route_def)
  have "mux_ServeHTTP rts r s = mux_ServeHTTP rts' r s" if "\<not> wr_hijacker (cn_out s)" for r s
    using agree_find_route [OF assms, of r] that ex [of r]
    by (cases "find_route rts r"; cases "find_route rts' r")
      (auto simp: mux_ServeHTTP_def agree_route_def dest: agree_wrappedD split: option.split)
  then show ?thesis by (simp add: agree_wrapped_def)
qed

text \<open>What gorilla's upgrader documents: a writer that is no \<open>http.Hijacker\<close> is refused.\<close>

definition needs_hijacker :: "((request \<Rightarrow> bool) \<Rightarrow> 'w handler) \<Rightarrow> bool" where
  "needs_hijacker upgrade \<longleftrightarrow> (\<forall>check r s. \<not> wr_hijacker (cn_out s) \<longrightarrow> (\<exists>e. fst (upgrade check r s) = Err e))"

lemma agree_ws:
  assumes "needs_hijacker upgrade"
  shows "agree_wrapped (ws_ServeHTTP L cu uu origins upgrade run) (ws_ServeHTTP L cu uu origins upgrade run')"
proof -
  have no: "\<not> wr_hijacker (cn_out s) \<Longrightarrow> fst (upgrade c r s) \<noteq> Ok u" for c r s u
    using assms by (metis needs_hijacker_def outcome.distinct(1))
  show ?thesis
    unfolding agree_wrapped_def ws_ServeHTTP_def Let_def
    using no by (auto simp: call_def branch_def mw_UserID_def panic_def ret_def on_world_def throw_def
        split: option.split outcome.split)
qed


lemma agree_logger:
  assumes "agree_wrapped h h'"
  shows "mw_RequestLogger L h r s = mw_RequestLogger L h' r s"
proof -
  have "h r (snd (on_out wrap_status s)) = h' r (snd (on_out wrap_status s))"
    by (rule agree_wrappedD [OF assms]) (simp add: on_out_def wrap_status_def)
  then show ?thesis by (simp add: mw_RequestLogger_def out_only_run_call) (simp add: call_def branch_def split: outcome.split)
qed

text \<open>C33: Behind \<open>RequestLogger\<close>, whose \<open>statusWriter\<close> hides \<open>http.Hijacker\<close>, no WebSocket connection
  can be opened: whatever a client would do once connected, the application answers every request
  in the same way.\<close>

theorem ws_never_connects:
  assumes "needs_hijacker upgrade"
  shows "app_chain L cfg newID (mux_ServeHTTP (app_routes L clock dcfg deps
       (ws_ServeHTTP L chatUC userUC origins upgrade run))) r s =
     app_chain L cfg newID (mux_ServeHTTP (app_routes L clock dcfg deps
       (ws_ServeHTTP L chatUC userUC origins upgrade run'))) r s"
proof -
  let ?h = "\<lambda>run. mux_ServeHTTP (app_routes L clock dcfg deps (ws_ServeHTTP L chatUC userUC origins upgrade run))"
  have refl: "list_all2 agree_route xs xs" for xs :: "'a route list"
    by (simp add: list_all2_same)
  have "agree_route (ws_route L (d_JWT deps) (ws_ServeHTTP L chatUC userUC origins upgrade run))
      (ws_route L (d_JWT deps) (ws_ServeHTTP L chatUC userUC origins upgrade run'))"
    using agree_Auth [OF agree_ws [OF assms]] by (simp add: agree_route_def ws_route_def)
  then have "agree_wrapped (?h run) (?h run')"
    by (intro agree_mux) (auto simp: app_routes_def refl intro!: list_all2_appendI)
  then have "mw_RequestLogger L (mw_RequestID L newID (mw_CORS (htc_AllowedOrigins cfg)
        (mw_LimitBody (htc_MaxBodyBytes cfg) (?h run)))) r s =
      mw_RequestLogger L (mw_RequestID L newID (mw_CORS (htc_AllowedOrigins cfg)
        (mw_LimitBody (htc_MaxBodyBytes cfg) (?h run')))) r s"
    by (intro agree_logger agree_RequestID agree_CORS agree_LimitBody)
  then show ?thesis by (simp add: app_chain_def mw_Recovery_def)
qed

lemma demo_upgrade_needs: "needs_hijacker demo_upgrade"
  by (simp add: needs_hijacker_def demo_upgrade_def)

theorem ws_never_connects_witness:
  "app_chain demo_lib demo_http 7 (mux_ServeHTTP (app_routes demo_lib clock_now demo_delivery demo_deps
      (ws_ServeHTTP demo_lib demo_chat_uc demo_user_uc [] demo_upgrade (\<lambda>_ _. panic ''connected''))))
      (demo_request ''GET'' [''ws''] [(''Authorization'', ''Bearer ann-token'')]) demo_conn =
   app_chain demo_lib demo_http 7 (mux_ServeHTTP (app_routes demo_lib clock_now demo_delivery demo_deps
      (ws_ServeHTTP demo_lib demo_chat_uc demo_user_uc [] demo_upgrade (\<lambda>_ _. ret ()))))
      (demo_request ''GET'' [''ws''] [(''Authorization'', ''Bearer ann-token'')]) demo_conn"
  by (rule ws_never_connects [OF demo_upgrade_needs])

text \<open>\<open>RequestLogger\<close> and \<open>Recovery\<close> sit outside \<open>RequestID\<close>, which puts the logger on the context, so
  the request they hold has none: with zerolog's default they never write a line.\<close>

theorem request_log_silent:
  assumes "gl_DefaultContextLogger L = None" "cx_logger (rq_ctx r) = None"
  shows "cn_log (snd (app_chain L cfg newID mux r s)) =
     cn_log (snd (mw_RequestID L newID (mw_CORS (htc_AllowedOrigins cfg) (mw_LimitBody (htc_MaxBodyBytes cfg) mux))
       r (s\<lparr>cn_out := wrap_status (cn_out s)\<rparr>)))"
proof -
  let ?inner = "mw_RequestID L newID (mw_CORS (htc_AllowedOrigins cfg) (mw_LimitBody (htc_MaxBodyBytes cfg) mux))"
  let ?s = "s\<lparr>cn_out := wrap_status (cn_out s)\<rparr>"
  have quiet: "log_ctx L (rq_ctx r) level extra msg t = (Ok (), t)" for level extra msg and t :: "'a conn"
    using assms by (simp add: log_ctx_def)
  have logger: "mw_RequestLogger L ?inner r s = ?inner r ?s \<or>
      (\<exists>e. fst (?inner r ?s) = Err e) \<and> mw_RequestLogger L ?inner r s = ?inner r ?s"
    by (cases "?inner r ?s"; cases "fst (?inner r ?s)")
      (auto simp: mw_RequestLogger_def out_only_run_call call_def branch_def throw_def quiet on_out_def)
  then have "mw_RequestLogger L ?inner r s = ?inner r ?s" by blast
  then show ?thesis
    by (cases "?inner r ?s"; cases "fst (?inner r ?s)")
      (auto simp: app_chain_def mw_Recovery_def quiet call_def branch_def header_Set_def WriteHeader_def Write_def on_out_def)
qed

theorem request_log_silent_witness:
  "cn_log (snd (app_chain demo_lib demo_http 7 (\<lambda>r. panic ''boom'')
     (demo_request ''GET'' [''health''] []) demo_conn)) = []"
  using request_log_silent [of demo_lib "demo_request ''GET'' [''health''] []" demo_http 7 "\<lambda>r. panic ''boom''" demo_conn]
  by (simp add: demo_lib_def demo_http_def mw_RequestID_def mw_CORS_def mw_LimitBody_def header_Set_def on_out_def
      call_def branch_def panic_def first_value_def Let_def ret_def)

end
