(* ===== verification/HandlerProps.thy ===== *)
theory HandlerProps
  imports HttpLemmas HttpDemo MsgProps
begin

text \<open>
  What the handlers promise: the status and body of an error, answers that carry no password hash,
  paging parameters that keep the history from panicking, panics contained by the middleware, and the
  two origin policies compared.
\<close>

section \<open>Errors\<close>

lemma errors_Is_unique: "errors_Is e d \<Longrightarrow> errors_Is e d' \<Longrightarrow> d = d'"
  by (induction e d rule: errors_Is.induct) auto

lemma statusCode_wrap [simp]: "statusCode (Wrapf pre e post) = statusCode e"
  by (simp add: statusCode_def)

lemma statusCode_internal:
  "statusCode e = StatusInternalServerError \<longleftrightarrow> (\<forall>d. errors_Is e d \<longrightarrow> d = ErrInternal)"
proof (cases "\<exists>d. errors_Is e d")
  case True
  then obtain d where d: "errors_Is e d" by blast
  then have "errors_Is e d' \<longleftrightarrow> d' = d" for d' using errors_Is_unique by blast
  then show ?thesis by (cases d) (simp_all add: statusCode_def Status_defs)
next
  case False
  then show ?thesis by (simp add: statusCode_def)
qed

text \<open>An error is answered with its text in the envelope and a status that depends on the sentinel it
  wraps only; everything that wraps no sentinel but \<open>ErrInternal\<close>, storage errors included, is a 500,
  and its text goes to the client as well.\<close>

theorem response_Err_correct:
  fixes s :: "'w conn"
  assumes "wr_sent (cn_out s) = None"
  shows "let res = response_Err L r e s in
     status_of (snd res) = Some (statusCode e) \<and> cn_world (snd res) = cn_world s \<and>
     wr_body (cn_out (snd res)) = wr_body (cn_out s) @ [Json (JObj (opt_str ''error'' (error_text L e)))] \<and>
     (statusCode e = StatusInternalServerError \<longleftrightarrow> (\<forall>d. errors_Is e d \<longrightarrow> d = ErrInternal))"
  using response_Err_run [OF assms, of L r e] out_only_run [of "response_Err L r e :: ('w conn, unit) io" s]
    statusCode_internal [of e]
  by (simp add: Let_def json_of_Body_def opt_ptr_def)

theorem response_Err_correct_witness:
  "let res = response_Err demo_lib (demo_request ''GET'' [] []) (Db (DriverErr ''dial tcp 10.0.0.5'')) demo_conn in
     status_of (snd res) = Some 500 \<and> wr_body (cn_out (snd res)) = [Json (JObj [(''error'', JStr ''db'')])]"
  using response_Err_correct [of demo_conn demo_lib "demo_request ''GET'' [] []" "Db (DriverErr ''dial tcp 10.0.0.5'')"]
  by (simp add: Let_def statusCode_def Status_defs demo_lib_def opt_str_def demo_conn_def)

section \<open>No password hash in an answer\<close>

definition map_ok :: "('a \<Rightarrow> 'b) \<Rightarrow> ('w, 'a) io \<Rightarrow> ('w, 'b) io" where
  "map_ok f m = call m (\<lambda>a. ret (f a))"

text \<open>The use cases with the hashes taken out of every user they return.\<close>

definition hide_hashes :: "'w UserUseCase \<Rightarrow> 'w UserUseCase" where
  "hide_hashes uc = uc\<lparr>
     uu_Register := (\<lambda>i. map_ok (\<lambda>(u, t). (without_hash u, t)) (uu_Register uc i)),
     uu_Login := (\<lambda>i. map_ok (\<lambda>(u, t). (without_hash u, t)) (uu_Login uc i)),
     uu_GetProfile := (\<lambda>i. map_ok without_hash (uu_GetProfile uc i)),
     uu_UpdateProfile := (\<lambda>i p. map_ok without_hash (uu_UpdateProfile uc i p)),
     uu_Search := (\<lambda>i. map_ok (map without_hash) (uu_Search uc i))\<rparr>"

lemma json_without_hash [simp]: "json_of_User (without_hash u) = json_of_User u"
  by (rule json_of_User_hash_indep) simp

lemma answer_map_ok: "(\<And>a. k (f a) = k' a) \<Longrightarrow> answer L r (map_ok f m) k = answer L r m k'"
  by (rule ext) (auto simp: answer_def map_ok_def branch_def on_world_def call_def ret_def throw_def split: outcome.split)

lemma map_without_hash [simp]: "json_of_slice json_of_User (map without_hash us) = json_of_slice json_of_User us"
  by (simp add: json_of_slice_def comp_def)

text \<open>C29: What the user handlers answer does not depend on the password hashes of the users that the use
  cases return.\<close>

theorem answers_hide_hashes:
  "h_Register L (hide_hashes uc) = h_Register L uc \<and> h_Login L (hide_hashes uc) = h_Login L uc \<and>
   h_GetMe L (hide_hashes uc) = h_GetMe L uc \<and> h_UpdateMe L (hide_hashes uc) = h_UpdateMe L uc \<and>
   h_GetProfile L (hide_hashes uc) = h_GetProfile L uc \<and> h_Search L (hide_hashes uc) = h_Search L uc"
proof -
  have session: "json_of_session (case ut of (u, t) \<Rightarrow> (without_hash u, t)) = json_of_session ut" for ut
    by (simp add: json_of_session_def split_beta)
  show ?thesis
    unfolding fun_eq_iff [where f = "h_Register L (hide_hashes uc)"] fun_eq_iff [where f = "h_Login L (hide_hashes uc)"]
      fun_eq_iff [where f = "h_GetMe L (hide_hashes uc)"] fun_eq_iff [where f = "h_UpdateMe L (hide_hashes uc)"]
      fun_eq_iff [where f = "h_GetProfile L (hide_hashes uc)"] fun_eq_iff [where f = "h_Search L (hide_hashes uc)"]
    by (simp add: h_Register_def h_Login_def h_GetMe_def h_UpdateMe_def h_GetProfile_def h_Search_def
        hide_hashes_def answer_map_ok [where k' = "\<lambda>ut. response_Created (json_of_session ut)"]
        answer_map_ok [where k' = "\<lambda>ut. response_OK (json_of_session ut)"]
        answer_map_ok [where k' = "\<lambda>u. response_OK (json_of_User u)"]
        answer_map_ok [where k' = "\<lambda>us. response_OK (json_of_slice json_of_User us)"] session)
qed

section \<open>Paging parameters\<close>

lemma history_limit_range: "1 \<le> history_limit r \<and> history_limit r \<le> 100"
  by (simp add: history_limit_def Let_def)

lemma answer_run:
  assumes "m (cn_world s) = (res, w')"
  shows "answer L r m k s = (case res of
      Ok a \<Rightarrow> k a (s\<lparr>cn_world := w'\<rparr>) | Err e \<Rightarrow> response_Err L r e (s\<lparr>cn_world := w'\<rparr>)
    | Panic p \<Rightarrow> (Panic p, s\<lparr>cn_world := w'\<rparr>))"
  using assms by (simp add: answer_def branch_def on_world_def split: outcome.split)

lemma statusCode_storage: "is_storage_error e \<Longrightarrow> statusCode e = StatusInternalServerError"
  by (cases e) (auto simp: statusCode_def)

text \<open>C27: Whatever the query parameters are, the history handler on PostgreSQL does not panic and writes
  nothing: it answers 400 for a malformed chat or cursor, 403 to a caller who is not a member, 200
  with a page to a member, and 500 only when a statement fails.\<close>

theorem pg_history_served:
  assumes "pg_inv (cn_world s)" "wr_sent (cn_out s) = None" "cx_userID (rq_ctx r) = Some u"
  shows "let res = h_GetHistory L (messages_New (pg_messages coll) pg_NewChatRepository now newID) r s;
       v = view_of (cn_world s)
     in fst res = Ok () \<and> view_of (cn_world (snd res)) = v \<and>
       (case (parseUUID L r ''chat_id'', history_cursor L r) of
          (Some c, Some cur) \<Rightarrow>
            status_of (snd res) = Some (if is_member v c u then StatusOK else StatusForbidden) \<or>
            \<not> quiet (cn_world s) \<and> status_of (snd res) = Some StatusInternalServerError
        | _ \<Rightarrow> status_of (snd res) = Some StatusBadRequest)"
proof -
  let ?uc = "messages_New (pg_messages coll) pg_NewChatRepository now newID"
  have bad: "fst (response_BadRequest s) = Ok () \<and> cn_world (snd (response_BadRequest s)) = cn_world s \<and>
      status_of (snd (response_BadRequest s)) = Some StatusBadRequest"
    using out_only_run [of response_BadRequest s] status_response(1) [OF assms(2)]
    by (simp add: response_BadRequest_def)
  show ?thesis
  proof (cases "parseUUID L r ''chat_id''")
    case None
    with bad show ?thesis by (simp add: h_GetHistory_def with_uuid_def Let_def)
  next
    case c: (Some c)
    show ?thesis
    proof (cases "history_cursor L r")
      case None
      with c bad show ?thesis by (simp add: h_GetHistory_def with_uuid_def Let_def)
    next
      case cur: (Some cur)
      define inp where "inp = \<lparr>li_ChatID = c, li_Cursor = cur, li_Limit = history_limit r\<rparr>"
      have lim: "1 \<le> li_Limit inp" using history_limit_range by (simp add: inp_def)
      obtain res w' where run: "messages_GetHistory (pg_messages coll) pg_NewChatRepository u inp (cn_world s) = (res, w')"
        by (cases "messages_GetHistory (pg_messages coll) pg_NewChatRepository u inp (cn_world s)")
      let ?s = "s\<lparr>cn_world := w'\<rparr>"
      have h: "h_GetHistory L ?uc r s = (case res of
          Ok a \<Rightarrow> response_OK (json_of_PageResult a) ?s | Err e \<Rightarrow> response_Err L r e ?s | Panic p \<Rightarrow> (Panic p, ?s))"
        using c cur assms(3) answer_run [where m = "messages_GetHistory (pg_messages coll) pg_NewChatRepository u inp" and s = s, OF run]
        by (simp add: h_GetHistory_def with_uuid_def mw_UserID_def messages_New_def inp_def)
      have fresh: "wr_sent (cn_out ?s) = None" using assms(2) by simp
      have gh: "view_of w' = view_of (cn_world s) \<and>
          (map_outcome id strip_page res = (if is_member (view_of (cn_world s)) c u
             then Ok (history_page coll (view_of (cn_world s)) inp) else Err (Dom ErrNotChatMember)) \<or>
           \<not> quiet (cn_world s) \<and> (\<exists>e. res = Err e \<and> is_storage_error e))"
        using pgm.GetHistory_run [OF assms(1) lim, of coll u] run by (auto simp: inp_def)
      have ok: "fst (response_OK j ?s) = Ok () \<and> cn_world (snd (response_OK j ?s)) = w' \<and>
          status_of (snd (response_OK j ?s)) = Some StatusOK" for j
        using out_only_run [of "response_OK j" ?s] status_response(1) [OF fresh] by (simp add: response_OK_def)
      have err: "fst (response_Err L r e ?s) = Ok () \<and> cn_world (snd (response_Err L r e ?s)) = w' \<and>
          status_of (snd (response_Err L r e ?s)) = Some (statusCode e)" for e
        using out_only_run [of "response_Err L r e" ?s] response_Err_run(1) [OF fresh] by simp
      have forbidden: "statusCode (Dom ErrNotChatMember) = StatusForbidden" by (simp add: statusCode_def)
      show ?thesis
        using gh ok err forbidden c cur
        by (cases res) (auto simp: Let_def h statusCode_storage split: if_splits)
    qed
  qed
qed

theorem pg_history_served_witness:
  "let r = (demo_request ''GET'' [] [])\<lparr>rq_pathvalue := [(''chat_id'', ''ten'')], rq_query := [(''limit'', ''0'')],
         rq_ctx := \<lparr>cx_logger = None, cx_userID = Some 2, cx_requestID = None\<rparr>\<rparr>
   in status_of (snd (h_GetHistory demo_lib (messages_New (pg_messages demo_coll) pg_NewChatRepository 50 24) r demo_conn)) = Some StatusOK"
  using pg_history_served [of demo_conn "(demo_request ''GET'' [] [])\<lparr>rq_pathvalue := [(''chat_id'', ''ten'')],
      rq_query := [(''limit'', ''0'')], rq_ctx := \<lparr>cx_logger = None, cx_userID = Some 2, cx_requestID = None\<rparr>\<rparr>"
      2 demo_lib demo_coll 50 24]
  by (simp add: Let_def parseUUID_def history_cursor_def first_value_def demo_lib_def)

section \<open>Panics\<close>

lemma set_run [simp]:
  "call (header_Set k v) m s = m () (snd (header_Set k v s))"
  "call (header_Add k v) m s = m () (snd (header_Add k v s))"
  by (simp_all add: out_only_run_call)

lemma unsent_kept [simp]:
  "wr_sent (cn_out (snd (header_Set k v t))) = wr_sent (cn_out t)"
  "wr_sent (cn_out (snd (header_Add k v t))) = wr_sent (cn_out t)"
  "wr_body (cn_out (snd (header_Set k v t))) = wr_body (cn_out t)"
  "wr_body (cn_out (snd (header_Add k v t))) = wr_body (cn_out t)"
  "cn_world (snd (header_Set k v t)) = cn_world t"
  "cn_world (snd (header_Add k v t)) = cn_world t"
  by (simp_all add: header_Set_def header_Add_def on_out_def)

lemma log_ctx_run [simp]:
  "fst (log_ctx L ctx level extra msg s) = Ok ()" "cn_world (snd (log_ctx L ctx level extra msg s)) = cn_world s"
  by (simp_all add: log_ctx_def split: option.split)

text \<open>Two runs with the same result, as far as the client and the state behind the use cases can tell.\<close>

definition same_answer :: "(goerr, unit) outcome \<times> 'w conn \<Rightarrow> (goerr, unit) outcome \<times> 'w conn \<Rightarrow> bool" where
  "same_answer p q \<longleftrightarrow> fst p = fst q \<and> cn_world (snd p) = cn_world (snd q) \<and>
     wr_sent (cn_out (snd p)) = wr_sent (cn_out (snd q)) \<and> wr_body (cn_out (snd p)) = wr_body (cn_out (snd q))"

text \<open>A handler around the routes: a preflight request it answers itself, any other one it passes on,
  with a context and a body of its own, on a connection on which nothing was sent yet.\<close>

definition passes_to :: "'w handler \<Rightarrow> 'w handler \<Rightarrow> bool" where
  "passes_to mux h \<longleftrightarrow> (\<forall>r s. wr_sent (cn_out s) = None \<longrightarrow>
     (if rq_Method r = ''OPTIONS''
      then fst (h r s) = Ok () \<and> cn_world (snd (h r s)) = cn_world s \<and> status_of (snd (h r s)) = Some StatusNoContent
      else (\<exists>ctx body t. wr_sent (cn_out t) = None \<and> cn_world t = cn_world s \<and>
        wr_body (cn_out t) = wr_body (cn_out s) \<and>
        same_answer (h r s) (mux (r\<lparr>rq_ctx := ctx, rq_body := body\<rparr>) t))))"

text \<open>A middleware that changes the context and unsent headers only keeps this.\<close>

lemma passes_to_before:
  fixes h :: "'w handler"
  assumes "passes_to mux h"
    and k: "\<And>r s. wr_sent (cn_out s) = None \<Longrightarrow> \<exists>ctx t. wr_sent (cn_out t) = None \<and> cn_world t = cn_world s \<and>
      wr_body (cn_out t) = wr_body (cn_out s) \<and> same_answer (k r s) (h (r\<lparr>rq_ctx := ctx\<rparr>) t)"
  shows "passes_to mux k"
  unfolding passes_to_def
proof (intro allI impI)
  fix r :: request and s :: "'w conn"
  assume "wr_sent (cn_out s) = None"
  from k [OF this, of r] obtain ctx t where t: "wr_sent (cn_out t) = None" "cn_world t = cn_world s"
    "wr_body (cn_out t) = wr_body (cn_out s)" and same: "same_answer (k r s) (h (r\<lparr>rq_ctx := ctx\<rparr>) t)"
    by blast
  note h = assms(1) [unfolded passes_to_def, rule_format, OF t(1), of "r\<lparr>rq_ctx := ctx\<rparr>"]
  show "if rq_Method r = ''OPTIONS''
      then fst (k r s) = Ok () \<and> cn_world (snd (k r s)) = cn_world s \<and> status_of (snd (k r s)) = Some StatusNoContent
      else (\<exists>ctx body t. wr_sent (cn_out t) = None \<and> cn_world t = cn_world s \<and>
        wr_body (cn_out t) = wr_body (cn_out s) \<and>
        same_answer (k r s) (mux (r\<lparr>rq_ctx := ctx, rq_body := body\<rparr>) t))"
  proof (cases "rq_Method r = ''OPTIONS''")
    case True
    with h same t show ?thesis by (simp add: same_answer_def status_of_def)
  next
    case False
    with h obtain c body t' where "wr_sent (cn_out t') = None" "cn_world t' = cn_world t"
      "wr_body (cn_out t') = wr_body (cn_out t)"
      "same_answer (h (r\<lparr>rq_ctx := ctx\<rparr>) t) (mux (r\<lparr>rq_ctx := c, rq_body := body\<rparr>) t')"
      by auto
    with same t False show ?thesis unfolding same_answer_def by auto
  qed
qed

lemma passes_to_CORS:
  fixes mux :: "'w handler"
  shows "passes_to mux (mw_CORS origins (mw_LimitBody n mux))"
  unfolding passes_to_def
proof (intro allI impI)
  fix r :: request and s :: "'w conn"
  assume s: "wr_sent (cn_out s) = None"
  let ?origin = "first_value (rq_header r) ''Origin''"
  define pre :: "('w conn, unit) io" where "pre = (if ?origin \<noteq> [] \<and> cors_isAllowed origins ?origin then
      (if cors_allowAll origins then header_Set ''Access-Control-Allow-Origin'' ''*''
       else call (header_Set ''Access-Control-Allow-Origin'' ?origin) (\<lambda>_.
         call (header_Set ''Access-Control-Allow-Credentials'' ''true'') (\<lambda>_. header_Add ''Vary'' ''Origin'')))
      else ret ())"
  have pre: "out_only pre" "wr_sent (cn_out (snd (pre s))) = None"
    "wr_body (cn_out (snd (pre s))) = wr_body (cn_out s)" "cn_world (snd (pre s)) = cn_world s"
    using s by (auto simp: pre_def ret_def intro!: out_only_call)
  let ?t = "snd (header_Set ''Access-Control-Expose-Headers'' corsExposeHeaders (snd (pre s)))"
  have run: "mw_CORS origins h r s = (if rq_Method r = ''OPTIONS'' then
      call (header_Set ''Access-Control-Allow-Methods'' corsAllowMethods) (\<lambda>_.
      call (header_Set ''Access-Control-Allow-Headers'' corsAllowHeaders) (\<lambda>_.
      call (header_Set ''Access-Control-Max-Age'' corsMaxAge) (\<lambda>_. WriteHeader StatusNoContent))) (snd (pre s))
    else h r ?t)" for h
    by (simp add: mw_CORS_def Let_def pre_def [symmetric] out_only_run_call [OF pre(1)])
  have limit: "\<exists>body. mw_LimitBody n mux r = mux (r\<lparr>rq_ctx := rq_ctx r, rq_body := body\<rparr>)"
    by (cases "int (bd_len (rq_body r)) > n") (auto simp: mw_LimitBody_def intro: exI [of _ "rq_body r"])
  show "if rq_Method r = ''OPTIONS''
      then fst (mw_CORS origins (mw_LimitBody n mux) r s) = Ok () \<and>
        cn_world (snd (mw_CORS origins (mw_LimitBody n mux) r s)) = cn_world s \<and>
        status_of (snd (mw_CORS origins (mw_LimitBody n mux) r s)) = Some StatusNoContent
      else (\<exists>ctx body t. wr_sent (cn_out t) = None \<and> cn_world t = cn_world s \<and>
        wr_body (cn_out t) = wr_body (cn_out s) \<and>
        same_answer (mw_CORS origins (mw_LimitBody n mux) r s) (mux (r\<lparr>rq_ctx := ctx, rq_body := body\<rparr>) t))"
  proof (cases "rq_Method r = ''OPTIONS''")
    case True
    then show ?thesis using pre by (simp add: run WriteHeader_def on_out_def out_WriteHeader_def status_of_def)
  next
    case False
    from limit obtain body where "mw_LimitBody n mux r ?t = mux (r\<lparr>rq_ctx := rq_ctx r, rq_body := body\<rparr>) ?t" by metis
    then have "same_answer (mw_CORS origins (mw_LimitBody n mux) r s) (mux (r\<lparr>rq_ctx := rq_ctx r, rq_body := body\<rparr>) ?t)"
      using False by (simp add: run same_answer_def)
    moreover have "wr_sent (cn_out ?t) = None \<and> cn_world ?t = cn_world s \<and> wr_body (cn_out ?t) = wr_body (cn_out s)"
      using pre by simp
    ultimately show ?thesis using False by (simp only: if_False) blast
  qed
qed

lemma passes_to_RequestID:
  assumes "passes_to mux h"
  shows "passes_to mux (mw_RequestID L i h)"
proof (rule passes_to_before [OF assms])
  fix r :: request and s :: "'a conn"
  assume s: "wr_sent (cn_out s) = None"
  define rid where "rid = (let x = first_value (rq_header r) ''X-Request-ID'' in if x = [] then gl_uuid_String L i else x)"
  have "mw_RequestID L i h r s = h (r\<lparr>rq_ctx := (rq_ctx r)\<lparr>cx_logger := Some [(''request_id'', rid)], cx_requestID := Some rid\<rparr>\<rparr>)
      (snd (header_Set ''X-Request-ID'' rid s))"
    by (simp add: mw_RequestID_def rid_def Let_def)
  with s show "\<exists>ctx t. wr_sent (cn_out t) = None \<and> cn_world t = cn_world s \<and>
      wr_body (cn_out t) = wr_body (cn_out s) \<and> same_answer (mw_RequestID L i h r s) (h (r\<lparr>rq_ctx := ctx\<rparr>) t)"
    by (intro exI [of _ "(rq_ctx r)\<lparr>cx_logger := Some [(''request_id'', rid)], cx_requestID := Some rid\<rparr>"]
      exI [of _ "snd (header_Set ''X-Request-ID'' rid s)"]) (simp add: same_answer_def)
qed

lemma passes_to_RequestLogger:
  assumes "passes_to mux h"
  shows "passes_to mux (mw_RequestLogger L h)"
proof (rule passes_to_before [OF assms])
  fix r :: request and s :: "'a conn"
  assume s: "wr_sent (cn_out s) = None"
  let ?t = "snd (on_out wrap_status s)"
  have "same_answer (mw_RequestLogger L h r s) (h (r\<lparr>rq_ctx := rq_ctx r\<rparr>) ?t)"
    by (simp add: mw_RequestLogger_def out_only_run_call same_answer_def call_def [of "h r"] branch_def throw_def
        split: prod.split outcome.split)
  with s show "\<exists>ctx t. wr_sent (cn_out t) = None \<and> cn_world t = cn_world s \<and>
      wr_body (cn_out t) = wr_body (cn_out s) \<and> same_answer (mw_RequestLogger L h r s) (h (r\<lparr>rq_ctx := ctx\<rparr>) t)"
    by (intro exI [of _ "rq_ctx r"] exI [of _ ?t]) (simp add: on_out_def wrap_status_def)
qed

text \<open>The recovery: a panic becomes a 500 unless a status is out already, and a body in any case.\<close>

definition error_body :: raw where
  "error_body = Json (JObj [(''error'', JStr ''internal server error'')])"

lemma Recovery_run:
  assumes "h r s = (Panic m, s')"
  shows "fst (mw_Recovery L h r s) = Ok () \<and> cn_world (snd (mw_Recovery L h r s)) = cn_world s' \<and>
    status_of (snd (mw_Recovery L h r s)) =
      (if wr_sent (cn_out s') = None then Some StatusInternalServerError else status_of s') \<and>
    wr_body (cn_out (snd (mw_Recovery L h r s))) = wr_body (cn_out s') @ [error_body]"
proof -
  let ?s = "snd (header_Set ''Content-Type'' ''application/json''
      (snd (log_ctx L (rq_ctx r) LError [(''panic'', m)] ''recovered from panic'' s')))"
  have run: "mw_Recovery L h r s = call (WriteHeader StatusInternalServerError) (\<lambda>_. Write error_body) ?s"
    by (simp add: mw_Recovery_def assms(1) out_only_run_call error_body_def)
  have same: "wr_sent (cn_out ?s) = wr_sent (cn_out s')" "wr_body (cn_out ?s) = wr_body (cn_out s')"
    "cn_world ?s = cn_world s'"
    by simp_all
  show ?thesis unfolding run using same
    by (cases "wr_sent (cn_out s')") (simp_all add: out_only_run_call WriteHeader_def Write_def on_out_def
        out_WriteHeader_def out_Write_def status_of_def Let_def)
qed

text \<open>C28: The middleware contains the panics of the routes, whatever the use cases, the health check, the
  validator and the WebSocket handler behind them do.  No panic leaves the chain.  A preflight request is
  answered 204 and reaches no route.  Any other request is run by the routes, on the state as it was, and
  what they do decides the answer: if they panic before a status is out, the client gets a 500, if they
  panic after, it keeps the status that is out; in both cases the error is appended to the body and the
  state stays as the panic left it.  If they do not panic, their answer is untouched.\<close>

theorem chain_contains_panics:
  fixes s :: "'w conn"
  assumes "wr_sent (cn_out s) = None"
  shows "let mux = mux_ServeHTTP (app_routes L clock dcfg deps wsHandler);
      res = app_chain L cfg newID mux r s in
    (\<forall>m. fst res \<noteq> Panic m) \<and>
    (if rq_Method r = ''OPTIONS''
     then fst res = Ok () \<and> cn_world (snd res) = cn_world s \<and> status_of (snd res) = Some StatusNoContent
     else (\<exists>ctx body t. wr_sent (cn_out t) = None \<and> cn_world t = cn_world s \<and>
       wr_body (cn_out t) = wr_body (cn_out s) \<and>
       (case mux (r\<lparr>rq_ctx := ctx, rq_body := body\<rparr>) t of
          (Panic m, t') \<Rightarrow> fst res = Ok () \<and> cn_world (snd res) = cn_world t' \<and>
            status_of (snd res) = (if wr_sent (cn_out t') = None then Some StatusInternalServerError else status_of t') \<and>
            wr_body (cn_out (snd res)) = wr_body (cn_out t') @ [error_body]
        | (out, t') \<Rightarrow> fst res = out \<and> cn_world (snd res) = cn_world t' \<and>
            status_of (snd res) = status_of t' \<and> wr_body (cn_out (snd res)) = wr_body (cn_out t'))))"
proof -
  define mux where "mux = mux_ServeHTTP (app_routes L clock dcfg deps wsHandler)"
  define inner where "inner = mw_RequestLogger L (mw_RequestID L newID
    (mw_CORS (htc_AllowedOrigins cfg) (mw_LimitBody (htc_MaxBodyBytes cfg) mux)))"
  have chain: "app_chain L cfg newID mux = mw_Recovery L inner" by (simp add: app_chain_def inner_def)
  have kept: "mw_Recovery L inner r s = (x, u)" if "inner r s = (x, u)" "\<And>m. x \<noteq> Panic m" for x u
    using that by (cases x) (auto simp: mw_Recovery_def)
  have inner: "passes_to mux inner" unfolding inner_def
    by (intro passes_to_RequestLogger passes_to_RequestID passes_to_CORS)
  note inner = inner [unfolded passes_to_def, rule_format, OF assms, of r]
  obtain x u where i: "inner r s = (x, u)" by fastforce
  show ?thesis
  proof (cases "rq_Method r = ''OPTIONS''")
    case True
    with inner i kept [OF i] show ?thesis by (simp add: Let_def mux_def [symmetric] chain)
  next
    case False
    with inner obtain ctx body t where t: "wr_sent (cn_out t) = None" "cn_world t = cn_world s"
      "wr_body (cn_out t) = wr_body (cn_out s)"
      and same: "same_answer (x, u) (mux (r\<lparr>rq_ctx := ctx, rq_body := body\<rparr>) t)" using i by auto
    obtain y t' where m: "mux (r\<lparr>rq_ctx := ctx, rq_body := body\<rparr>) t = (y, t')" by fastforce
    let ?res = "mw_Recovery L inner r s"
    have "(\<forall>m. fst ?res \<noteq> Panic m) \<and> (case (y, t') of
          (Panic m, t') \<Rightarrow> fst ?res = Ok () \<and> cn_world (snd ?res) = cn_world t' \<and>
            status_of (snd ?res) = (if wr_sent (cn_out t') = None then Some StatusInternalServerError else status_of t') \<and>
            wr_body (cn_out (snd ?res)) = wr_body (cn_out t') @ [error_body]
        | (out, t') \<Rightarrow> fst ?res = out \<and> cn_world (snd ?res) = cn_world t' \<and>
            status_of (snd ?res) = status_of t' \<and> wr_body (cn_out (snd ?res)) = wr_body (cn_out t'))"
      using same m kept [OF i] Recovery_run [where h = inner and r = r and s = s and L = L] i
      by (cases y) (auto simp: same_answer_def status_of_def)
    with m t False show ?thesis unfolding Let_def mux_def [symmetric] chain by (metis (no_types, lifting))
  qed
qed

lemma health_route:
  assumes "rq_Method r = ''GET''" "rq_path r = [''health'']" "IsEnabled cfg ''http''"
  shows "mux_ServeHTTP (app_routes L clock cfg deps h) r = h_Health L (d_Health deps) (r\<lparr>rq_pathvalue := []\<rparr>)"
proof -
  have api: "\<not> route_matches r (protected_route L d p fn)" if "(p, fn) \<in> set (api_handlers L d)" for d p fn
  proof -
    have "parse_pattern p \<in> set (map (parse_pattern \<circ> fst) (api_handlers L d))" using that by force
    then have "snd (parse_pattern p) \<noteq> [] \<and> hd (snd (parse_pattern p)) = Lit ''api''"
      unfolding api_keys by (auto simp: apiv1_def)
    then obtain ps where "snd (parse_pattern p) = Lit ''api'' # ps" by (cases "snd (parse_pattern p)") auto
    then show ?thesis using assms by (simp add: route_matches_fits route_key_def protected_route_def)
  qed
  then have none: "filter (route_matches r) (map (\<lambda>(p, fn). protected_route L d p fn) (api_handlers L d)) = []" for d
    by (auto simp: filter_empty_conv)
  let ?d = "deps\<lparr>d_RateLimiter := Some (mw_RateLimit L clock
    (rlc_MaxRequests (htc_RateLimit (dlc_HTTP cfg))) (rlc_Window (htc_RateLimit (dlc_HTTP cfg))))\<rparr>"
  have "filter (route_matches r) (app_routes L clock cfg deps h) = filter (route_matches r) (public_routes L ?d)"
    using assms none [of ?d] by (simp add: app_routes_def SetupRoutes_def ws_route_def
        route_matches_def pattern_defs Let_def)
  then have "filter (route_matches r) (app_routes L clock cfg deps h) =
      [\<lparr>rt_pattern = ''GET /health'', rt_handler = h_Health L (d_Health deps)\<rparr>]"
    using assms by (simp add: public_routes_def auth_route_def route_matches_def pattern_defs Let_def method_matches_def)
  then have "find_route (app_routes L clock cfg deps h) r =
      Some \<lparr>rt_pattern = ''GET /health'', rt_handler = h_Health L (d_Health deps)\<rparr>"
    by (simp add: find_route_def Let_def pattern_defs)
  then show ?thesis using assms by (simp add: mux_ServeHTTP_def pattern_defs)
qed

theorem chain_contains_panics_witness:
  "let deps = demo_deps\<lparr>d_Health := Some (panic ''nil pointer dereference'')\<rparr>;
       res = app_chain demo_lib demo_http 7 (mux_ServeHTTP (app_routes demo_lib clock_now demo_delivery deps
         (\<lambda>r. panic ''not reached''))) (demo_request ''GET'' [''health''] []) demo_conn
   in fst res = Ok () \<and> status_of (snd res) = Some 500 \<and> cn_world (snd res) = demo"
proof -
  let ?deps = "demo_deps\<lparr>d_Health := Some (panic ''nil pointer dereference'')\<rparr>"
  let ?r = "demo_request ''GET'' [''health''] []"
  have run: "mux_ServeHTTP (app_routes demo_lib clock_now demo_delivery ?deps (\<lambda>r. panic ''not reached''))
      (?r\<lparr>rq_ctx := ctx, rq_body := body\<rparr>) t =
    (Panic ''nil pointer dereference'', snd (header_Set ''Content-Type'' ''application/json'' t))" for ctx body t
    by (subst health_route) (simp_all add: demo_delivery_def IsEnabled_def h_Health_def out_only_run_call branch_def
        on_world_def panic_def)
  show ?thesis
    using chain_contains_panics [of demo_conn demo_lib clock_now demo_delivery ?deps "\<lambda>r. panic ''not reached''"
      demo_http 7 ?r]
    by (auto simp: Let_def run StatusInternalServerError_def)
qed

section \<open>Origins\<close>

text \<open>The origin check of WebSockets is stricter than the CORS policy of the same list: what it accepts
  CORS accepts, and a list of just \<open>*\<close>, which opens CORS to every origin, closes WebSockets to
  every origin but the text \<open>*\<close>.\<close>

theorem ws_origin_stricter:
  "(ws_checkOrigin origins r \<longrightarrow> cors_isAllowed origins (first_value (rq_header r) ''Origin'')) \<and>
   (ws_checkOrigin [''*''] r \<longleftrightarrow> first_value (rq_header r) ''Origin'' = ''*'')"
  by (auto simp: ws_checkOrigin_def cors_isAllowed_def cors_allowAll_def list_ex_iff intro: EqualFold_refl)

theorem ws_origin_stricter_witness:
  "cors_isAllowed [''https://a.io''] ''https://a.io'' \<and>
   \<not> ws_checkOrigin [''*''] (demo_request ''GET'' [''ws''] [(''Origin'', ''https://a.io'')])"
  using ws_origin_stricter [of "[''https://a.io'']" "demo_request ''GET'' [''ws''] [(''Origin'', ''https://a.io'')]"]
  by (simp add: ws_checkOrigin_def first_value_def)

end
