(* ===== verification/ConfigProps.thy ===== *)
theory ConfigProps
  imports AppConfig Middleware
begin

text \<open>
  What loading a configuration guarantees to the rest of the program, and where the checks stop short.
\<close>

section \<open>Accumulated errors\<close>

lemma ve_Err_None [simp]: "ve_Err ve = None \<longleftrightarrow> ve = []"
  by (simp add: ve_Err_def ve_HasErrors_def)

lemma ve_Add_not_Nil [simp]: "ve_Add field message ve \<noteq> []"
  by (simp add: ve_Add_def)

lemma ve_when_Nil [simp]: "ve_when bad field message ve = [] \<longleftrightarrow> \<not> bad \<and> ve = []"
  by (simp add: ve_when_def)

lemma fold_Add_Nil: "fold (\<lambda>fe. ve_Add (f fe) (g fe)) es ve = [] \<longleftrightarrow> es = [] \<and> ve = []"
  by (induction es arbitrary: ve) auto

lemma ve_AddFrom_None [simp]: "ve_AddFrom section_name None ve = ve"
  by (simp add: ve_AddFrom_def)

lemma ve_AddFrom_Nil [simp]: "ve_AddFrom section_name (ve_Err es) ve = [] \<longleftrightarrow> es = [] \<and> ve = []"
  by (auto simp: ve_AddFrom_def ve_Err_def ve_HasErrors_def fold_Add_Nil)

lemma secret_errors_Nil [simp]: "secret_errors field secret ve = [] \<longleftrightarrow> 32 \<le> length secret \<and> ve = []"
  by (auto simp: secret_errors_def)

section \<open>Defaults\<close>

lemma defaults_idem [simp]:
  "pg_SetDefaults (pg_SetDefaults p) = pg_SetDefaults p"
  "my_SetDefaults (my_SetDefaults m) = my_SetDefaults m"
  "storage_SetDefaults (storage_SetDefaults s) = storage_SetDefaults s"
  "cache_SetDefaults (cache_SetDefaults k) = cache_SetDefaults k"
  "jwt_SetDefaults (jwt_SetDefaults j) = jwt_SetDefaults j"
  "logger_SetDefaults (logger_SetDefaults l) = logger_SetDefaults l"
  "hasher_SetDefaults B (hasher_SetDefaults B h) = hasher_SetDefaults B h"
  "http_SetDefaults (http_SetDefaults t) = http_SetDefaults t"
  "delivery_SetDefaults (delivery_SetDefaults d) = delivery_SetDefaults d"
proof -
  show pg: "pg_SetDefaults (pg_SetDefaults p) = pg_SetDefaults p" for p
    by (cases p) (simp add: pg_SetDefaults_def)
  show my: "my_SetDefaults (my_SetDefaults m) = my_SetDefaults m" for m
    by (cases m) (simp add: my_SetDefaults_def)
  have comp: "pg_SetDefaults \<circ> pg_SetDefaults = pg_SetDefaults" "my_SetDefaults \<circ> my_SetDefaults = my_SetDefaults"
    by (simp_all add: fun_eq_iff pg my)
  show "storage_SetDefaults (storage_SetDefaults s) = storage_SetDefaults s"
    by (cases s) (simp add: storage_SetDefaults_def option.map_comp comp)
  have redis: "redis_SetDefaults \<circ> redis_SetDefaults = redis_SetDefaults"
    by (simp add: fun_eq_iff redis_SetDefaults_def)
  have ttl: "ttl_SetDefaults (ttl_SetDefaults t) = ttl_SetDefaults t" for t
    by (cases t) (simp add: ttl_SetDefaults_def seconds_def)
  show "cache_SetDefaults (cache_SetDefaults k) = cache_SetDefaults k"
    by (cases k) (simp add: cache_SetDefaults_def option.map_comp redis ttl)
  show "jwt_SetDefaults (jwt_SetDefaults j) = jwt_SetDefaults j"
    by (cases j) (simp add: jwt_SetDefaults_def seconds_def)
  have log_file: "file_SetDefaults \<circ> file_SetDefaults = file_SetDefaults"
    by (simp add: fun_eq_iff file_SetDefaults_def)
  show "logger_SetDefaults (logger_SetDefaults l) = logger_SetDefaults l"
    by (cases l) (simp add: logger_SetDefaults_def option.map_comp log_file)
  show "hasher_SetDefaults B (hasher_SetDefaults B h) = hasher_SetDefaults B h"
    by (cases h) (simp add: hasher_SetDefaults_def)
  show http: "http_SetDefaults (http_SetDefaults t) = http_SetDefaults t" for t
    by (cases t) (simp add: http_SetDefaults_def seconds_def)
  show "delivery_SetDefaults (delivery_SetDefaults d) = delivery_SetDefaults d"
    by (cases d) (simp add: delivery_SetDefaults_def http ws_SetDefaults_def)
qed

lemma app_defaults_idem: "app_SetDefaults B (app_SetDefaults B c) = app_SetDefaults B c"
proof -
  have comp: "cache_SetDefaults \<circ> cache_SetDefaults = cache_SetDefaults" by (simp add: fun_eq_iff)
  show ?thesis by (simp add: app_SetDefaults_def option.map_comp comp profile_SetDefaults_def)
qed

section \<open>Loading\<close>

lemma load_config_Inr:
  "load_config SetDefaults Validate ext_error path f = Inr c \<Longrightarrow>
     \<exists>c0. c = SetDefaults c0 \<and> Validate c = None"
  by (auto simp: load_config_def Let_def split: option.splits sum.splits if_splits)

lemma AddFrom_Nil_iff: "e = ve_Err es \<Longrightarrow> ve_AddFrom section_name e ve = [] \<longleftrightarrow> e = None \<and> ve = []"
  by simp

lemma app_Validate_None:
  assumes "app_Validate B c = None"
  shows "jwt_Validate (apc_JWT c) = None" "delivery_Validate (apc_Delivery c) = None"
    "storage_Validate (apc_Storage c) = None" "hasher_Validate B (apc_Hasher c) = None"
proof -
  note iffs = AddFrom_Nil_iff [OF delivery_Validate_def] AddFrom_Nil_iff [OF hasher_Validate_def]
    AddFrom_Nil_iff [OF logger_Validate_def [unfolded Let_def]] AddFrom_Nil_iff [OF jwt_Validate_def]
    AddFrom_Nil_iff [OF storage_Validate_def]
  show "jwt_Validate (apc_JWT c) = None" "delivery_Validate (apc_Delivery c) = None"
    "storage_Validate (apc_Storage c) = None" "hasher_Validate B (apc_Hasher c) = None"
    using assms
    by (cases "apc_Cache c"; simp add: app_Validate_def iffs AddFrom_Nil_iff [OF cache_Validate_def])+
qed

lemma jwt_Validate_None:
  assumes "jwt_Validate j = None"
  shows "32 \<le> length (jc_AccessSecret j) \<and> 32 \<le> length (jc_RefreshSecret j) \<and>
     jc_AccessSecret j \<noteq> jc_RefreshSecret j \<and> 0 < jc_AccessTokenTTL j \<and> jc_AccessTokenTTL j < jc_RefreshTokenTTL j"
  using assms by (simp add: jwt_Validate_def) (metis list.size(3) not_numeral_le_zero not_less)

lemma http_Validate_None:
  assumes "http_Validate h = None"
  shows "1 \<le> htc_Port h \<and> htc_Port h \<le> 65535 \<and> 1 \<le> rlc_MaxRequests (htc_RateLimit h) \<and>
     0 < rlc_Window (htc_RateLimit h) \<and> 0 < htc_MaxBodyBytes h"
  using assms by (cases "htc_TLS h") (simp_all add: http_Validate_def Let_def)

lemma delivery_Validate_None:
  assumes "delivery_Validate d = None" "IsEnabled d ''http''"
  shows "http_Validate (dlc_HTTP d) = None"
  using assms by (simp add: delivery_Validate_def AddFrom_Nil_iff [OF http_Validate_def [unfolded Let_def]])

text \<open>C34: A configuration that loads is its own completion by defaults, its token secrets are long and
  differ, and access tokens expire before refresh tokens; if it enables HTTP, the port, the limiter
  and the body limit are in range.  If it enables WebSockets alone they are not checked
  (\<open>ws_only_port_unchecked\<close> in LifecycleProps).\<close>

theorem loaded_config_valid:
  assumes "app_Load B path f = Inr c"
  shows "app_SetDefaults B c = c \<and>
     (let j = apc_JWT c in 32 \<le> length (jc_AccessSecret j) \<and> 32 \<le> length (jc_RefreshSecret j) \<and>
        jc_AccessSecret j \<noteq> jc_RefreshSecret j \<and>
        0 < jc_AccessTokenTTL j \<and> jc_AccessTokenTTL j < jc_RefreshTokenTTL j) \<and>
     (IsEnabled (apc_Delivery c) ''http'' \<longrightarrow>
        (let h = dlc_HTTP (apc_Delivery c) in 1 \<le> htc_Port h \<and> htc_Port h \<le> 65535 \<and>
           1 \<le> rlc_MaxRequests (htc_RateLimit h) \<and> 0 < rlc_Window (htc_RateLimit h) \<and> 0 < htc_MaxBodyBytes h))"
proof -
  obtain c0 where c: "c = app_SetDefaults B c0" "app_Validate B c = None"
    using load_config_Inr [OF assms [unfolded app_Load_def]] by blast
  have "app_SetDefaults B c = c" by (simp add: c(1) app_defaults_idem)
  then show ?thesis
    using jwt_Validate_None [OF app_Validate_None(1) [OF c(2)]]
      http_Validate_None [OF delivery_Validate_None [OF app_Validate_None(2) [OF c(2)]]]
    by (simp add: Let_def)
qed

definition demo_costs :: bcrypt_costs where
  "demo_costs = \<lparr>bcc_MinCost = 4, bcc_MaxCost = 31, bcc_DefaultCost = 10\<rparr>"

text \<open>A file that names the database and the secrets and leaves the rest to the defaults.\<close>

definition minimal_app :: AppConfig where
  "minimal_app = \<lparr>
     apc_Storage = \<lparr>stc_Type = [], stc_Postgres = Some \<lparr>pgc_Host = ''db'', pgc_Port = 0, pgc_User = ''u'',
       pgc_Password = ''p'', pgc_DBName = ''d'', pgc_SSLMode = [], pgc_MaxConns = 0, pgc_MinConns = 0,
       pgc_MigrationsPath = []\<rparr>, stc_MySQL = None\<rparr>,
     apc_Cache = None,
     apc_JWT = \<lparr>jc_AccessSecret = replicate 32 CHR ''a'', jc_RefreshSecret = replicate 32 CHR ''r'',
       jc_AccessTokenTTL = 0, jc_RefreshTokenTTL = 0\<rparr>,
     apc_Logger = \<lparr>lgc_Type = [], lgc_Level = [], lgc_File = None\<rparr>,
     apc_Hasher = \<lparr>hsc_Cost = 0\<rparr>,
     apc_Delivery = \<lparr>dlc_Enabled = [], dlc_HTTP = \<lparr>htc_Host = [], htc_Port = 0, htc_ReadTimeout = 0,
       htc_WriteTimeout = 0, htc_IdleTimeout = 0, htc_AllowedOrigins = [],
       htc_RateLimit = \<lparr>rlc_MaxRequests = 0, rlc_Window = 0\<rparr>, htc_MaxBodyBytes = 0, htc_TLS = None\<rparr>,
       dlc_WS = \<lparr>wsc_MaxMessageSize = 0\<rparr>\<rparr>,
     apc_Profile = \<lparr>prc_Enabled = False, prc_Addr = []\<rparr>\<rparr>"

definition app_file :: "'c \<Rightarrow> 'c config_file" where
  "app_file c = \<lparr>cf_open = None, cf_yaml = Inr c, cf_json = Inl ''not json''\<rparr>"

lemma level_info: "level_valid ''info''"
  by code_simp

lemma minimal_app_loads:
  "app_Load demo_costs ''configs/app.yaml'' (app_file minimal_app) = Inr (app_SetDefaults demo_costs minimal_app)"
proof -
  have "filepath_Ext ''configs/app.yaml'' = ''.yaml''" by (simp add: filepath_Ext_def)
  moreover have "app_Validate demo_costs (app_SetDefaults demo_costs minimal_app) = None"
    by (simp add: app_Validate_def app_SetDefaults_def minimal_app_def storage_SetDefaults_def storage_Validate_def
        pg_SetDefaults_def pg_Validate_def jwt_SetDefaults_def jwt_Validate_def logger_SetDefaults_def logger_Validate_def
        hasher_SetDefaults_def hasher_Validate_def demo_costs_def delivery_SetDefaults_def delivery_Validate_def
        http_SetDefaults_def http_Validate_def seconds_def level_info Let_def IsEnabled_def)
  ultimately show ?thesis by (simp add: app_Load_def load_config_def app_file_def Let_def)
qed

theorem loaded_config_valid_witness:
  "app_SetDefaults demo_costs (app_SetDefaults demo_costs minimal_app) = app_SetDefaults demo_costs minimal_app \<and>
   1 \<le> rlc_MaxRequests (htc_RateLimit (dlc_HTTP (apc_Delivery (app_SetDefaults demo_costs minimal_app))))"
  using loaded_config_valid [OF minimal_app_loads]
  by (simp add: Let_def IsEnabled_def app_SetDefaults_def delivery_SetDefaults_def minimal_app_def)

section \<open>The default configurations\<close>

text \<open>The exported defaults are what an empty section is filled with: they need no filling themselves.\<close>

lemma default_configs_filled:
  "app_SetDefaults B (app_DefaultConfig B) = app_DefaultConfig B"
  "cache_SetDefaults cache_DefaultConfig = cache_DefaultConfig" "my_SetDefaults my_DefaultConfig = my_DefaultConfig"
  by (simp_all add: app_SetDefaults_def app_DefaultConfig_def storage_SetDefaults_def pg_SetDefaults_def my_SetDefaults_def
      jwt_SetDefaults_def logger_SetDefaults_def hasher_SetDefaults_def delivery_SetDefaults_def http_SetDefaults_def
      ws_SetDefaults_def profile_SetDefaults_def cache_SetDefaults_def ttl_SetDefaults_def)

section \<open>Where the checks stop short\<close>

text \<open>A PostgreSQL pool of one connection cannot be configured without naming \<open>min_conns\<close>: an absent
  (or zero) minimum becomes 2, which validation then refuses; every larger pool passes.\<close>

theorem single_connection_refused:
  assumes "pgc_Host c \<noteq> []" "pgc_User c \<noteq> []" "pgc_Password c \<noteq> []" "pgc_DBName c \<noteq> []"
    and "pgc_Port c = 0" "pgc_MinConns c = 0" "1 \<le> pgc_MaxConns c"
  shows "pg_Validate (pg_SetDefaults c) = None \<longleftrightarrow> pgc_MaxConns c \<noteq> 1"
  using assms by (auto simp: pg_Validate_def pg_SetDefaults_def)

theorem single_connection_refused_witness:
  "pg_Validate (pg_SetDefaults \<lparr>pgc_Host = ''db'', pgc_Port = 0, pgc_User = ''u'', pgc_Password = ''p'',
     pgc_DBName = ''d'', pgc_SSLMode = [], pgc_MaxConns = 1, pgc_MinConns = 0, pgc_MigrationsPath = []\<rparr>) \<noteq> None"
  using single_connection_refused [of "\<lparr>pgc_Host = ''db'', pgc_Port = 0, pgc_User = ''u'', pgc_Password = ''p'',
     pgc_DBName = ''d'', pgc_SSLMode = [], pgc_MaxConns = 1, pgc_MinConns = 0, pgc_MigrationsPath = []\<rparr>"]
  by simp

text \<open>The limiter's cleanup starts for every window up to a tenth of the range of a duration, some 29
  years; a longer one, which validation accepts, can make the ticker's period wrap to a negative
  number, and then the process panics.\<close>

theorem limiter_starts:
  assumes "0 < window" "window * 10 < 2 ^ 63"
  shows "start_cleanup window = (ret () :: ('w, unit) io) \<and>
     start_cleanup (seconds 1000000000) = (panic ''non-positive interval for NewTicker'' :: ('w, unit) io)"
proof -
  have "cleanup_period window = window * 10"
    unfolding cleanup_period_def by (subst sint_sbintrunc') (use assms in \<open>simp add: signed_take_bit_int_eq_self\<close>)
  moreover have "cleanup_period (seconds 1000000000) < 0"
    by (simp add: cleanup_period_def seconds_def) 
  ultimately show ?thesis using assms by (simp add: start_cleanup_def)
qed

theorem limiter_starts_witness: "start_cleanup (seconds 60) = (ret () :: (unit, unit) io)"
  by (rule limiter_starts [THEN conjunct1]) (simp_all add: seconds_def)

section \<open>Durations\<close>

text \<open>A duration survives both encodings, given that \<open>time.ParseDuration\<close> reads what
  \<open>Duration.String\<close> writes.\<close>

theorem duration_roundtrip:
  assumes "\<And>d. dl_Parse L (dl_String L d) = Some d"
  shows "Duration_UnmarshalJSON L (Duration_MarshalJSON L d) = Inr d \<and>
     Duration_UnmarshalYAML L (Duration_MarshalYAML L d) = Inr d"
  by (simp add: Duration_UnmarshalJSON_def Duration_MarshalJSON_def Duration_UnmarshalYAML_def
      Duration_MarshalYAML_def assms)

text \<open>A notation for the witness: a duration in unary, \<open>p\<close> for positive and \<open>m\<close> for negative.\<close>

definition unary_lib :: durlib where
  "unary_lib = \<lparr>
     dl_Parse = (\<lambda>s. Some (if CHR ''m'' \<in> set s then - int (length s) else int (length s))),
     dl_String = (\<lambda>d. if d < 0 then replicate (nat (- d)) CHR ''m'' else replicate (nat d) CHR ''p''),
     dl_yaml_int = (\<lambda>_. None)\<rparr>"

theorem duration_roundtrip_witness:
  "Duration_UnmarshalJSON unary_lib (Duration_MarshalJSON unary_lib (seconds 60)) = Inr (seconds 60)"
proof -
  have "dl_Parse unary_lib (dl_String unary_lib d) = Some d" for d
    by (auto simp: unary_lib_def)
  from duration_roundtrip [of unary_lib, OF this] show ?thesis by blast
qed

end
