(* ===== verification/WsProps.thy ===== *)
theory WsProps
  imports Ws Demo HttpDemo
begin

text \<open>
  What the hub promises: an event reaches the clients of its room except its sender, buffers stay
  bounded, and in any interleaving of connections, frames, deliveries and disconnections every
  message in a client's buffer was sent by another user, in a chat that client is subscribed to,
  by someone subscribed to it.
\<close>

section \<open>Rooms\<close>

lemma room_fold_Store:
  "hub_rooms (fold (room_Store c) cs h) chat =
     (if chat \<in> set cs then Some (List.insert c (hub_room chat h)) else hub_rooms h chat)"
proof (induction cs arbitrary: h)
  case (Cons x cs)
  then show ?case
    by (auto simp: room_Store_def hub_room_def split: option.split)
qed simp

lemma room_fold_Delete:
  "hub_rooms (fold (room_Delete c) cs h) chat =
     (if chat \<in> set cs then map_option (removeAll c) (hub_rooms h chat) else hub_rooms h chat)"
proof (induction cs arbitrary: h)
  case (Cons x cs)
  show ?case
    unfolding fold_simps o_apply Cons.IH
    by (auto simp: room_Delete_def option.map_comp comp_def split: option.split)
qed simp

lemma fold_clients [simp]:
  "hub_clients (fold (room_Store c) cs h) = hub_clients h"
  "hub_clients (fold (room_Delete c) cs h) = hub_clients h"
  by (induction cs arbitrary: h) (simp_all add: room_Store_def room_Delete_def split: option.split)

section \<open>Broadcasts\<close>

lemma fold_offer_rooms [simp]: "hub_rooms (fold (offer_to data u) cs h) = hub_rooms h"
  by (induction cs arbitrary: h) (simp_all add: offer_to_def)

lemma fold_offer_clients:
  "distinct cs \<Longrightarrow> hub_clients (fold (offer_to data u) cs h) c =
     (if c \<in> set cs then map_option (offer data u) (hub_clients h c) else hub_clients h c)"
proof (induction cs arbitrary: h)
  case (Cons x cs)
  then show ?case by (auto simp: offer_to_def)
qed simp

section \<open>The invariant of the hub\<close>

text \<open>Rooms hold each client once, the clients of a room are connected and subscribed to it, and
  no buffer exceeds its size.\<close>

definition hub_wf :: "hub \<Rightarrow> bool" where
  "hub_wf h \<longleftrightarrow>
     (\<forall>chat cs. hub_rooms h chat = Some cs \<longrightarrow> distinct cs \<and>
        (\<forall>c \<in> set cs. \<exists>k. hub_clients h c = Some k \<and> chat \<in> set (cl_chatIDs k))) \<and>
     (\<forall>c k. hub_clients h c = Some k \<longrightarrow> length (cl_send k) \<le> sendBufferSize)"

lemma hub_wfI:
  "(\<And>chat cs. hub_rooms h chat = Some cs \<Longrightarrow> distinct cs) \<Longrightarrow>
   (\<And>chat cs c. hub_rooms h chat = Some cs \<Longrightarrow> c \<in> set cs \<Longrightarrow> \<exists>k. hub_clients h c = Some k \<and> chat \<in> set (cl_chatIDs k)) \<Longrightarrow>
   (\<And>c k. hub_clients h c = Some k \<Longrightarrow> length (cl_send k) \<le> sendBufferSize) \<Longrightarrow> hub_wf h"
  unfolding hub_wf_def by blast

lemma hub_wfD:
  assumes "hub_wf h"
  shows "hub_rooms h chat = Some cs \<Longrightarrow> distinct cs"
    "hub_rooms h chat = Some cs \<Longrightarrow> c \<in> set cs \<Longrightarrow> \<exists>k. hub_clients h c = Some k \<and> chat \<in> set (cl_chatIDs k)"
    "hub_clients h c = Some k \<Longrightarrow> length (cl_send k) \<le> sendBufferSize"
  using assms unfolding hub_wf_def by blast+

lemma offer_fields [simp]:
  "cl_userID (offer d u k) = cl_userID k" "cl_chatIDs (offer d u k) = cl_chatIDs k"
  by (simp_all add: offer_def)

lemma offer_bound: "length (cl_send k) \<le> sendBufferSize \<Longrightarrow> length (cl_send (offer d u k)) \<le> sendBufferSize"
  by (simp add: offer_def)

lemma broadcast_clients:
  assumes "hub_wf h"
  shows "hub_clients (BroadcastToChat chat e u h) c =
     (if c \<in> set (hub_room chat h) then map_option (offer (json_of_Event e) u) (hub_clients h c) else hub_clients h c)"
  using hub_wfD(1) [OF assms] by (auto simp: BroadcastToChat_def hub_room_def fold_offer_clients split: option.split)

lemma broadcast_rooms [simp]: "hub_rooms (BroadcastToChat chat e u h) = hub_rooms h"
  by (simp add: BroadcastToChat_def split: option.split)

lemma broadcast_wf: "hub_wf h \<Longrightarrow> hub_wf (BroadcastToChat chat e u h)"
proof (rule hub_wfI)
  assume h: "hub_wf h"
  fix chat' cs c k
  show "distinct cs" if "hub_rooms (BroadcastToChat chat e u h) chat' = Some cs"
    using that hub_wfD(1) [OF h] by simp
  show "\<exists>k. hub_clients (BroadcastToChat chat e u h) c = Some k \<and> chat' \<in> set (cl_chatIDs k)"
    if "hub_rooms (BroadcastToChat chat e u h) chat' = Some cs" "c \<in> set cs"
    using that hub_wfD(2) [OF h, of chat' cs c] by (auto simp: broadcast_clients [OF h])
  show "length (cl_send k) \<le> sendBufferSize" if "hub_clients (BroadcastToChat chat e u h) c = Some k"
    using that hub_wfD(3) [OF h] offer_bound by (auto simp: broadcast_clients [OF h] split: if_splits)
qed

lemma NewClient_room:
  "hub_rooms (ws_NewClient c u chats h) chat =
     (if chat \<in> set chats then Some (List.insert c (hub_room chat h)) else hub_rooms h chat)"
  by (simp add: ws_NewClient_def hub_Subscribe_def room_fold_Store hub_room_def)

lemma NewClient_clients:
  "hub_clients (ws_NewClient c u chats h) = (hub_clients h)(c \<mapsto> \<lparr>cl_userID = u, cl_chatIDs = chats, cl_send = []\<rparr>)"
  by (simp add: ws_NewClient_def hub_Subscribe_def)

lemma NewClient_wf:
  assumes h: "hub_wf h" and new: "hub_clients h c = None"
  shows "hub_wf (ws_NewClient c u chats h)"
proof (rule hub_wfI)
  have not: "c \<notin> set cs" if "hub_rooms h chat = Some cs" for chat cs
    using hub_wfD(2) [OF h that] new by fastforce
  fix chat cs c' k
  show "distinct cs" if "hub_rooms (ws_NewClient c u chats h) chat = Some cs"
    using that hub_wfD(1) [OF h]
    by (auto simp: NewClient_room hub_room_def distinct_insert split: if_splits option.splits)
  show "\<exists>k. hub_clients (ws_NewClient c u chats h) c' = Some k \<and> chat \<in> set (cl_chatIDs k)"
    if room: "hub_rooms (ws_NewClient c u chats h) chat = Some cs" and c': "c' \<in> set cs"
  proof (cases "c' = c")
    case True
    with room c' not show ?thesis by (auto simp: NewClient_room NewClient_clients split: if_splits)
  next
    case False
    with room c' obtain cs' where "hub_rooms h chat = Some cs'" "c' \<in> set cs'"
      by (auto simp: NewClient_room hub_room_def split: if_splits option.splits)
    from hub_wfD(2) [OF h this] False show ?thesis by (simp add: NewClient_clients)
  qed
  show "length (cl_send k) \<le> sendBufferSize" if "hub_clients (ws_NewClient c u chats h) c' = Some k"
    using that hub_wfD(3) [OF h] by (auto simp: NewClient_clients split: if_splits)
qed

lemma on_close_clients [simp]: "hub_clients (on_close c h) = hub_clients h"
  by (simp add: on_close_def hub_Unsubscribe_def split: option.split)

lemma on_close_rooms:
  "hub_clients h c = Some k \<Longrightarrow> hub_rooms (on_close c h) chat =
     (if chat \<in> set (cl_chatIDs k) then map_option (removeAll c) (hub_rooms h chat) else hub_rooms h chat)"
  by (simp add: on_close_def hub_Unsubscribe_def room_fold_Delete)

lemma on_close_sub:
  assumes "hub_rooms (on_close c h) chat = Some cs"
  shows "\<exists>cs'. hub_rooms h chat = Some cs' \<and> (cs = cs' \<or> cs = removeAll c cs')"
proof (cases "hub_clients h c")
  case None
  with assms show ?thesis by (simp add: on_close_def)
next
  case (Some k)
  with assms show ?thesis by (auto simp: on_close_rooms split: if_splits)
qed

lemma on_close_wf: "hub_wf h \<Longrightarrow> hub_wf (on_close c h)"
proof (rule hub_wfI)
  assume h: "hub_wf h"
  fix chat cs c' k
  show "distinct cs" if "hub_rooms (on_close c h) chat = Some cs"
    using on_close_sub [OF that] hub_wfD(1) [OF h] by (auto simp: distinct_removeAll)
  show "\<exists>k. hub_clients (on_close c h) c' = Some k \<and> chat \<in> set (cl_chatIDs k)"
    if "hub_rooms (on_close c h) chat = Some cs" "c' \<in> set cs"
    using on_close_sub [OF that(1)] that(2) hub_wfD(2) [OF h] by fastforce
  show "length (cl_send k) \<le> sendBufferSize" if "hub_clients (on_close c h) c' = Some k"
    using that hub_wfD(3) [OF h] by simp
qed

lemma on_frame_event:
  "hub_clients h c = Some k \<Longrightarrow> client_event L k data = Some e \<Longrightarrow>
     on_frame L c data h = BroadcastToChat (ev_ChatID e) e (cl_userID k) h"
  by (simp add: on_frame_def)

lemma on_frame_cases: "on_frame L c data h = h \<or> (\<exists>chat e u. on_frame L c data h = BroadcastToChat chat e u h)"
  by (auto simp: on_frame_def split: option.split)

lemma client_event_fields:
  "client_event L k data = Some e \<Longrightarrow> ev_SenderID e = cl_userID k \<and> ev_ChatID e \<in> set (cl_chatIDs k)"
  by (auto simp: client_event_def cl_isMember_def split: option.splits if_splits)

lemma write_batch_fields:
  "cl_userID (snd (write_batch k)) = cl_userID k" "cl_chatIDs (snd (write_batch k)) = cl_chatIDs k"
  "cl_send (snd (write_batch k)) = []" "fst (write_batch k) = cl_send k"
  by (auto simp: write_batch_def split: list.split)

section \<open>Runs\<close>

text \<open>The hubs that connections, frames, deliveries and disconnections lead to in any order, with the
  events that were broadcast on the way.\<close>

inductive ws_reach :: "golib \<Rightarrow> hub \<Rightarrow> Event list \<Rightarrow> bool" for L where
  ws_start: "ws_reach L NewHub []"
| ws_connect: "ws_reach L h es \<Longrightarrow> hub_clients h c = None \<Longrightarrow> ws_reach L (ws_NewClient c u chats h) es"
| ws_frame: "ws_reach L h es \<Longrightarrow> hub_clients h c = Some k \<Longrightarrow> client_event L k data = Some e \<Longrightarrow>
    ws_reach L (on_frame L c data h) (es @ [e])"
| ws_deliver: "ws_reach L h es \<Longrightarrow> hub_clients h c = Some k \<Longrightarrow>
    ws_reach L (h\<lparr>hub_clients := (hub_clients h)(c \<mapsto> snd (write_batch k))\<rparr>) es"
| ws_close: "ws_reach L h es \<Longrightarrow> ws_reach L (on_close c h) es"

lemma deliver_wf:
  assumes h: "hub_wf h" and c: "hub_clients h c = Some k"
  shows "hub_wf (h\<lparr>hub_clients := (hub_clients h)(c \<mapsto> snd (write_batch k))\<rparr>)"
  by (rule hub_wfI) (use hub_wfD [OF h] c in \<open>auto simp: write_batch_fields split: if_splits\<close>, fastforce)

lemma ws_reach_wf: "ws_reach L h es \<Longrightarrow> hub_wf h"
proof (induction rule: ws_reach.induct)
  case ws_start
  show ?case by (simp add: hub_wf_def NewHub_def)
next
  case (ws_frame h es c k data e)
  then show ?case by (simp add: on_frame_event broadcast_wf)
qed (simp_all add: NewClient_wf deliver_wf on_close_wf)

definition sender_connected :: "hub \<Rightarrow> Event \<Rightarrow> bool" where
  "sender_connected h e \<longleftrightarrow>
     (\<exists>c k. hub_clients h c = Some k \<and> cl_userID k = ev_SenderID e \<and> ev_ChatID e \<in> set (cl_chatIDs k))"

definition entitled :: "Event list \<Rightarrow> wsclient \<Rightarrow> json \<Rightarrow> bool" where
  "entitled es k m \<longleftrightarrow>
     (\<exists>e \<in> set es. m = json_of_Event e \<and> ev_ChatID e \<in> set (cl_chatIDs k) \<and> ev_SenderID e \<noteq> cl_userID k)"

lemma entitled_mono: "entitled es k m \<Longrightarrow> entitled (es @ fs) k m"
  by (auto simp: entitled_def)

text \<open>A step that keeps identities and subscriptions keeps the senders.\<close>

lemma sender_kept:
  assumes "sender_connected h e"
    "\<And>c k. hub_clients h c = Some k \<Longrightarrow> \<exists>k'. hub_clients h' c = Some k' \<and> cl_userID k' = cl_userID k \<and> cl_chatIDs k' = cl_chatIDs k"
  shows "sender_connected h' e"
  using assms unfolding sender_connected_def by metis

lemma ws_reach_senders: "ws_reach L h es \<Longrightarrow> e \<in> set es \<Longrightarrow> sender_connected h e"
proof (induction arbitrary: e rule: ws_reach.induct)
  case (ws_connect h es c u chats)
  show ?case
    by (rule sender_kept [OF ws_connect.IH [OF ws_connect.prems]]) (use ws_connect.hyps in \<open>auto simp: NewClient_clients\<close>)
next
  case (ws_frame h es c k data e0)
  note wf = ws_reach_wf [OF ws_frame.hyps(1)]
  have kept: "sender_connected (on_frame L c data h) e" if "sender_connected h e" for e
    by (rule sender_kept [OF that])
      (use ws_frame.hyps in \<open>auto simp: on_frame_event broadcast_clients [OF wf]\<close>)
  have "sender_connected h e0"
    using client_event_fields [OF ws_frame.hyps(3)] ws_frame.hyps(2) unfolding sender_connected_def by metis
  with kept ws_frame.IH ws_frame.prems show ?case by auto
next
  case (ws_deliver h es c k)
  show ?case
    by (rule sender_kept [OF ws_deliver.IH [OF ws_deliver.prems]])
      (use ws_deliver.hyps in \<open>auto simp: write_batch_fields\<close>)
next
  case (ws_close h es c)
  then show ?case by (simp add: sender_connected_def)
qed simp

lemma ws_reach_entitled:
  "ws_reach L h es \<Longrightarrow> hub_clients h c = Some k \<Longrightarrow> m \<in> set (cl_send k) \<Longrightarrow> entitled es k m"
proof (induction arbitrary: c k m rule: ws_reach.induct)
  case ws_start
  then show ?case by (simp add: NewHub_def)
next
  case (ws_connect h es c0 u chats)
  then show ?case by (auto simp: NewClient_clients split: if_splits)
next
  case (ws_frame h es c0 k0 data e)
  note wf = ws_reach_wf [OF ws_frame.hyps(1)]
  note ev = client_event_fields [OF ws_frame.hyps(3)]
  obtain k1 where k1: "hub_clients h c = Some k1" and
    k: "k = k1 \<or> c \<in> set (hub_room (ev_ChatID e) h) \<and> k = offer (json_of_Event e) (cl_userID k0) k1"
    using ws_frame.prems(1) ws_frame.hyps
    by (auto simp: on_frame_event broadcast_clients [OF wf] split: if_splits)
  have old: "entitled (es @ [e]) k1 m" if "m \<in> set (cl_send k1)"
    by (rule entitled_mono [OF ws_frame.IH [OF k1 that]])
  from k show ?case
  proof
    assume "k = k1"
    with old ws_frame.prems(2) show ?thesis by simp
  next
    assume new: "c \<in> set (hub_room (ev_ChatID e) h) \<and> k = offer (json_of_Event e) (cl_userID k0) k1"
    then obtain cs where "hub_rooms h (ev_ChatID e) = Some cs" "c \<in> set cs"
      by (cases "hub_rooms h (ev_ChatID e)") (auto simp: hub_room_def)
    from hub_wfD(2) [OF wf this] k1 have sub: "ev_ChatID e \<in> set (cl_chatIDs k1)" by simp
    show ?thesis
    proof (cases "m \<in> set (cl_send k1)")
      case True
      with old new show ?thesis by (simp add: entitled_def)
    next
      case False
      with new ws_frame.prems(2) have "m = json_of_Event e" "cl_userID k1 \<noteq> cl_userID k0"
        by (auto simp: offer_def split: if_splits)
      with sub new ev show ?thesis by (auto simp: entitled_def)
    qed
  qed
next
  case (ws_deliver h es c0 k0)
  then show ?case by (auto simp: write_batch_fields split: if_splits)
next
  case (ws_close h es c0)
  then show ?case by simp
qed

section \<open>Properties\<close>

text \<open>C31: In any interleaving of connections, frames, deliveries and disconnections no buffer exceeds
  256 messages, and every message waiting for a client was sent in a chat that the client is
  subscribed to, by another user with a connection subscribed to that chat.\<close>

theorem hub_delivers_to_members:
  assumes "ws_reach L h es" "hub_clients h c = Some k"
  shows "length (cl_send k) \<le> 256 \<and>
     (\<forall>m \<in> set (cl_send k). \<exists>e \<in> set es. m = json_of_Event e \<and> ev_ChatID e \<in> set (cl_chatIDs k) \<and>
        ev_SenderID e \<noteq> cl_userID k \<and> sender_connected h e)"
proof -
  have "length (cl_send k) \<le> 256"
    using hub_wfD(3) [OF ws_reach_wf [OF assms(1)] assms(2)] by (simp add: sendBufferSize_def)
  moreover have "\<exists>e \<in> set es. m = json_of_Event e \<and> ev_ChatID e \<in> set (cl_chatIDs k) \<and>
      ev_SenderID e \<noteq> cl_userID k \<and> sender_connected h e" if "m \<in> set (cl_send k)" for m
    using ws_reach_entitled [OF assms that] ws_reach_senders [OF assms(1)] unfolding entitled_def by blast
  ultimately show ?thesis by blast
qed

definition demo_doc :: json where
  "demo_doc = JObj [(''type'', JStr ''msg''), (''chat_id'', JStr ''ten'')]"

definition demo_event :: Event where
  "demo_event = \<lparr>ev_Type = ''msg'', ev_Payload = None, ev_SenderID = 1, ev_ChatID = 10\<rparr>"

definition demo_hub :: hub where
  "demo_hub = ws_NewClient 1 2 [10] (ws_NewClient 0 1 [10] NewHub)"

lemma demo_keys [simp]:
  "EqualFold ''type'' ''chat_id'' = False" "EqualFold ''type'' ''payload'' = False"
  "EqualFold ''chat_id'' ''type'' = False" "EqualFold ''chat_id'' ''payload'' = False"
  by (simp_all add: EqualFold_def runes_ascii is_ascii_def bytes_of_def fold_rune_def)

lemma demo_client_event:
  "client_event demo_lib \<lparr>cl_userID = 1, cl_chatIDs = [10], cl_send = xs\<rparr> (Some demo_doc) = Some demo_event"
  by (simp add: client_event_def clientEvent_of_json_def demo_doc_def decode_struct_def decode_key_def demo_lib_def
      cl_isMember_def demo_event_def)

lemma demo_hub_clients:
  "hub_clients demo_hub 0 = Some \<lparr>cl_userID = 1, cl_chatIDs = [10], cl_send = []\<rparr>"
  "hub_clients demo_hub (Suc 0) = Some \<lparr>cl_userID = 2, cl_chatIDs = [10], cl_send = []\<rparr>"
  by (simp_all add: demo_hub_def NewClient_clients)

lemma demo_room: "hub_room 10 demo_hub = [Suc 0, 0]"
  by (simp add: hub_room_def demo_hub_def NewClient_room NewHub_def)

lemma demo_reach: "ws_reach demo_lib demo_hub []"
  unfolding demo_hub_def by (intro ws_connect ws_start) (simp_all add: NewClient_clients NewHub_def)

theorem hub_delivers_to_members_witness:
  "\<exists>k. hub_clients (on_frame demo_lib 0 (Some demo_doc) demo_hub) (Suc 0) = Some k \<and> length (cl_send k) \<le> 256 \<and>
     cl_send k = [json_of_Event demo_event]"
proof -
  note wf = ws_reach_wf [OF demo_reach]
  have "hub_clients (on_frame demo_lib 0 (Some demo_doc) demo_hub) (Suc 0) =
      Some \<lparr>cl_userID = 2, cl_chatIDs = [10], cl_send = [json_of_Event demo_event]\<rparr>"
    using on_frame_event [OF demo_hub_clients(1) demo_client_event]
    by (simp add: broadcast_clients [OF wf] demo_hub_clients demo_room offer_def sendBufferSize_def demo_event_def)
  with hub_delivers_to_members [OF ws_frame [OF demo_reach demo_hub_clients(1) demo_client_event], of "Suc 0"]
  show ?thesis by auto
qed

text \<open>C32: A frame of a subscribed client is appended to the buffer of every client of the room with
  space left, except the connections of the sender's own user; no room and no other client changes.\<close>

theorem on_frame_correct:
  assumes "hub_wf h" "hub_clients h c = Some k" "client_event L k data = Some e"
  shows "hub_rooms (on_frame L c data h) = hub_rooms h \<and>
     hub_clients (on_frame L c data h) c' = map_option (\<lambda>k'.
       if c' \<in> set (hub_room (ev_ChatID e) h) \<and> cl_userID k' \<noteq> cl_userID k \<and> length (cl_send k') < 256
       then k'\<lparr>cl_send := cl_send k' @ [json_of_Event e]\<rparr> else k') (hub_clients h c')"
  using on_frame_event [OF assms(2,3)]
  by (cases "hub_clients h c'") (auto simp: broadcast_clients [OF assms(1)] offer_def sendBufferSize_def)

theorem on_frame_correct_witness:
  "hub_clients (on_frame demo_lib 0 (Some demo_doc) demo_hub) 0 = hub_clients demo_hub 0"
  using on_frame_correct [OF ws_reach_wf [OF demo_reach] demo_hub_clients(1) demo_client_event, of 0]
  by (simp add: demo_hub_clients)

lemma readPump_wf: "hub_wf h \<Longrightarrow> hub_wf (readPump L c rs h)"
proof (induction L c rs h rule: readPump.induct)
  case (3 L client data rs h)
  have "hub_wf (on_frame L client data h)"
    using on_frame_cases [of L client data h] broadcast_wf 3(2) by metis
  with 3(1) show ?case by simp
qed (simp_all add: on_close_wf)

text \<open>Once the read loop of a client has seen an error, the client is in no room and receives nothing
  more, whatever frames came before.\<close>

theorem readPump_leaves_rooms:
  assumes "hub_wf h" "ReadErr \<in> set rs"
  shows "c \<notin> set (hub_room chat (readPump L c rs h)) \<and> hub_wf (readPump L c rs h)"
proof -
  have "c \<notin> set (hub_room chat (readPump L c rs h))" if "hub_wf h" "ReadErr \<in> set rs"
    using that
  proof (induction L c rs h rule: readPump.induct)
    case (2 L client rs h)
    show ?case
    proof (cases "hub_clients h client")
      case None
      then have "client \<notin> set cs" if "hub_rooms h chat = Some cs" for cs
        using hub_wfD(2) [OF 2(1) that, of client] by auto
      with None show ?thesis
        by (cases "hub_rooms h chat") (simp_all add: on_close_def hub_room_def)
    next
      case (Some k)
      then have "chat \<in> set (cl_chatIDs k)" if "hub_rooms h chat = Some cs" "client \<in> set cs" for cs
        using hub_wfD(2) [OF 2(1) that] by auto
      with Some show ?thesis
        by (cases "hub_rooms h chat") (auto simp: on_close_rooms hub_room_def)
    qed
  next
    case (3 L client data rs h)
    have "hub_wf (on_frame L client data h)"
      using on_frame_cases [of L client data h] broadcast_wf 3(2) by metis
    with 3 show ?case by simp
  qed simp
  with assms readPump_wf show ?thesis by blast
qed

theorem readPump_leaves_rooms_witness:
  "hub_wf (readPump demo_lib 0 [Frame None, Frame (Some demo_doc), ReadErr, Frame None] demo_hub)"
  using readPump_leaves_rooms [OF ws_reach_wf [OF demo_reach],
      where rs = "[Frame None, Frame (Some demo_doc), ReadErr, Frame None]" and c = 0 and L = demo_lib]
  by simp

end
