(* ===== verification/CachePort.thy ===== *)
theory CachePort
  imports Cached ChatPort
begin

text \<open>
  The cache as an interface, and what the cached chat repository needs of it.  \<open>cache_laws\<close> is the contract
  of a reliable cache: what it returns was stored under that key, a store or a removal takes effect,
  and nothing else appears; entries may vanish at any time.  \<open>coherent\<close> says that every entry of
  the cached chat repository agrees with the store behind it.
\<close>

section \<open>The contract of a cache\<close>

text \<open>A step of the cache that succeeds and leaves at most the entries \<open>f\<close> makes of those before.\<close>

definition upkeep ::
  "('w \<Rightarrow> bool) \<Rightarrow> ('w \<Rightarrow> bool) \<Rightarrow> ('w \<Rightarrow> 'v) \<Rightarrow> ('w \<Rightarrow> string \<rightharpoonup> raw) \<Rightarrow>
     ((string \<rightharpoonup> raw) \<Rightarrow> (string \<rightharpoonup> raw)) \<Rightarrow> ('w, unit) io \<Rightarrow> bool" where
  "upkeep I qt view content f m \<longleftrightarrow> (\<forall>w. I w \<longrightarrow> I (snd (m w)) \<and> (qt w \<longrightarrow> qt (snd (m w))) \<and>
     view (snd (m w)) = view w \<and> content (snd (m w)) \<subseteq>\<^sub>m f (content w) \<and> fst (m w) = Ok ())"

locale cache_laws =
  fixes C :: "'w Cache" and I :: "'w \<Rightarrow> bool" and qt :: "'w \<Rightarrow> bool" and view :: "'w \<Rightarrow> aview"
    and content :: "'w \<Rightarrow> string \<rightharpoonup> raw"
  assumes get_keeps: "I w \<Longrightarrow> I (snd (cache_Get C k w)) \<and> (qt w \<longrightarrow> qt (snd (cache_Get C k w))) \<and>
      view (snd (cache_Get C k w)) = view w \<and> content (snd (cache_Get C k w)) \<subseteq>\<^sub>m content w"
    and get_result: "I w \<Longrightarrow> (case fst (cache_Get C k w) of Ok r \<Rightarrow> content w k = Some r | Err e \<Rightarrow> True | Panic s \<Rightarrow> False)"
    and set_takes: "upkeep I qt view content (\<lambda>ct. ct(k \<mapsto> r)) (cache_Set C k r ttl)"
    and del_takes: "upkeep I qt view content (\<lambda>ct. ct(k := None)) (cache_Del C k)"

lemma map_le_upd: "ct \<subseteq>\<^sub>m ct' \<Longrightarrow> ct(k \<mapsto> r) \<subseteq>\<^sub>m ct'(k \<mapsto> r)" "ct \<subseteq>\<^sub>m ct' \<Longrightarrow> ct(k := None) \<subseteq>\<^sub>m ct'(k := None)"
  by (auto simp: map_le_def)

lemma upkeep_ignore: "upkeep I qt view content f m \<Longrightarrow> upkeep I qt view content f (ignore_err m)"
  unfolding upkeep_def ignore_err_def branch_def by (auto simp: ret_def)

lemma upkeep_call:
  assumes "upkeep I qt view content f m" "upkeep I qt view content g n"
    and "\<And>ct ct'. ct \<subseteq>\<^sub>m ct' \<Longrightarrow> g ct \<subseteq>\<^sub>m g ct'"
  shows "upkeep I qt view content (\<lambda>ct. g (f ct)) (call m (\<lambda>_. n))"
  unfolding upkeep_def
proof (intro allI impI)
  fix w assume w: "I w"
  with assms(1) have m: "I (snd (m w))" "qt w \<longrightarrow> qt (snd (m w))" "view (snd (m w)) = view w"
    "content (snd (m w)) \<subseteq>\<^sub>m f (content w)" "fst (m w) = Ok ()"
    by (simp_all add: upkeep_def)
  with assms(2) have n: "I (snd (n (snd (m w))))" "qt (snd (m w)) \<longrightarrow> qt (snd (n (snd (m w))))"
    "view (snd (n (snd (m w)))) = view w" "content (snd (n (snd (m w)))) \<subseteq>\<^sub>m g (content (snd (m w)))"
    "fst (n (snd (m w))) = Ok ()"
    by (simp_all add: upkeep_def)
  have run: "call m (\<lambda>_. n) w = n (snd (m w))" by (simp add: call_def branch_def m(5))
  show "I (snd (call m (\<lambda>_. n) w)) \<and> (qt w \<longrightarrow> qt (snd (call m (\<lambda>_. n) w))) \<and>
      view (snd (call m (\<lambda>_. n) w)) = view w \<and> content (snd (call m (\<lambda>_. n) w)) \<subseteq>\<^sub>m g (f (content w)) \<and>
      fst (call m (\<lambda>_. n) w) = Ok ()"
    unfolding run using m n map_le_trans [OF n(4) assms(3) [OF m(4)]] by blast
qed

lemma upkeep_for_each:
  assumes "\<And>x. upkeep I qt view content (f x) (m x)" "\<And>x ct ct'. ct \<subseteq>\<^sub>m ct' \<Longrightarrow> f x ct \<subseteq>\<^sub>m f x ct'"
  shows "upkeep I qt view content (fold f xs) (for_each m xs)"
proof (induction xs)
  case (Cons x xs)
  have mono: "fold f ys ct \<subseteq>\<^sub>m fold f ys ct'" if "ct \<subseteq>\<^sub>m ct'" for ct ct' ys
    using that by (induction ys arbitrary: ct ct') (auto intro: assms(2))
  from upkeep_call [OF assms(1) Cons, of x] mono show ?case by simp
qed (simp add: upkeep_def ret_def)

section \<open>Keys\<close>

text \<open>What \<open>uuid.String\<close> writes: 36 characters that determine the identifier.\<close>

definition uuid_text :: "(uuid \<Rightarrow> string) \<Rightarrow> bool" where
  "uuid_text us \<longleftrightarrow> inj us \<and> (\<forall>u. length (us u) = 36)"

lemma keys_distinct [simp]:
  "chatKey us c \<noteq> memberKey us d u" "chatKey us c \<noteq> isMemberKey us d u"
  "memberKey us d u \<noteq> chatKey us c" "isMemberKey us d u \<noteq> chatKey us c"
  "memberKey us c u \<noteq> isMemberKey us d x" "isMemberKey us d x \<noteq> memberKey us c u"
  by (simp_all add: chatKey_def memberKey_def isMemberKey_def)

lemma keys_inj:
  assumes "uuid_text us"
  shows "chatKey us c = chatKey us d \<longleftrightarrow> c = d"
    "memberKey us c u = memberKey us d x \<longleftrightarrow> c = d \<and> u = x"
    "isMemberKey us c u = isMemberKey us d x \<longleftrightarrow> c = d \<and> u = x"
  using assms
  by (auto simp: chatKey_def memberKey_def isMemberKey_def uuid_text_def append_eq_append_conv dest: injD)

section \<open>Coherence\<close>

definition entry_ok :: "(uuid \<Rightarrow> string) \<Rightarrow> aview \<Rightarrow> string \<Rightarrow> raw \<Rightarrow> bool" where
  "entry_ok us v k r \<longleftrightarrow>
     (\<forall>c x. k = chatKey us c \<longrightarrow> unmarshal Chat_of_json r = Some x \<longrightarrow> chat_lookup v c = Some x) \<and>
     (\<forall>c u. k = isMemberKey us c u \<longrightarrow> decode_flag r = Some (is_member v c u)) \<and>
     (\<forall>c u m. k = memberKey us c u \<longrightarrow> unmarshal ChatMember_of_json r = Some m \<longrightarrow>
        member_lookup v c u = Some (strip_user m) \<and> user_lookup v u \<noteq> None)"

definition coherent :: "(uuid \<Rightarrow> string) \<Rightarrow> (string \<rightharpoonup> raw) \<Rightarrow> aview \<Rightarrow> bool" where
  "coherent us ct v \<longleftrightarrow> (\<forall>k r. ct k = Some r \<longrightarrow> entry_ok us v k r)"

lemma map_leD: "ct \<subseteq>\<^sub>m ct' \<Longrightarrow> ct k = Some r \<Longrightarrow> ct' k = Some r"
  by (auto simp: map_le_def dom_def)

lemma coherent_le: "coherent us ct v \<Longrightarrow> ct' \<subseteq>\<^sub>m ct \<Longrightarrow> coherent us ct' v"
  unfolding coherent_def by (meson map_leD)

lemma coherentD: "coherent us ct v \<Longrightarrow> ct k = Some r \<Longrightarrow> entry_ok us v k r"
  by (simp add: coherent_def)

lemma coherent_put: "coherent us ct v \<Longrightarrow> entry_ok us v k r \<Longrightarrow> coherent us (ct(k \<mapsto> r)) v"
  by (simp add: coherent_def)

text \<open>Entries of the three kinds.\<close>

lemma chat_entry:
  "uuid_text us \<Longrightarrow> entry_ok us v (chatKey us c) (Json (json_of_Chat x)) \<longleftrightarrow> chat_lookup v c = Some x"
  by (auto simp: entry_ok_def keys_inj unmarshal_def Chat_roundtrip)

lemma flag_entry:
  "uuid_text us \<Longrightarrow> entry_ok us v (isMemberKey us c u) r \<longleftrightarrow> decode_flag r = Some (is_member v c u)"
  by (auto simp: entry_ok_def keys_inj)

lemma member_entry:
  "uuid_text us \<Longrightarrow> member_lookup v c u = Some (strip_user m) \<Longrightarrow> user_lookup v u \<noteq> None \<Longrightarrow>
     entry_ok us v (memberKey us c u) (Json (json_of_ChatMember m))"
  by (auto simp: entry_ok_def keys_inj unmarshal_def ChatMember_roundtrip strip_user_def)

text \<open>What a hit says.\<close>

lemma entry_hits:
  "entry_ok us v (chatKey us c) r \<Longrightarrow> unmarshal Chat_of_json r = Some x \<Longrightarrow> chat_lookup v c = Some x"
  "entry_ok us v (isMemberKey us c u) r \<Longrightarrow> decode_flag r = Some b \<Longrightarrow> is_member v c u = b"
  "entry_ok us v (memberKey us c u) r \<Longrightarrow> unmarshal ChatMember_of_json r = Some m \<Longrightarrow>
     member_lookup v c u = Some (strip_user m) \<and> user_lookup v u \<noteq> None"
  by (auto simp: entry_ok_def)

text \<open>An entry survives a change of the store that its key does not speak of.\<close>

lemma entry_frame:
  assumes "entry_ok us v k r"
    and "\<And>c x. k = chatKey us c \<Longrightarrow> chat_lookup v c = Some x \<Longrightarrow> chat_lookup v' c = Some x"
    and "\<And>c u. k = isMemberKey us c u \<Longrightarrow> is_member v' c u = is_member v c u"
    and "\<And>c u m. k = memberKey us c u \<Longrightarrow> member_lookup v c u = Some m \<Longrightarrow> member_lookup v' c u = Some m"
    and "\<And>u. user_lookup v' u = user_lookup v u"
  shows "entry_ok us v' k r"
  unfolding entry_ok_def
proof (intro conjI allI impI)
  fix c x assume "k = chatKey us c" "unmarshal Chat_of_json r = Some x"
  with assms(1) assms(2) [of c x] show "chat_lookup v' c = Some x" by (simp add: entry_ok_def)
next
  fix c u assume "k = isMemberKey us c u"
  with assms(1) assms(3) [of c u] show "decode_flag r = Some (is_member v' c u)" by (simp add: entry_ok_def)
next
  fix c u m assume "k = memberKey us c u" "unmarshal ChatMember_of_json r = Some m"
  with assms(1) assms(4) [of c u "strip_user m"]
  show "member_lookup v' c u = Some (strip_user m)" by (simp add: entry_ok_def)
next
  fix c u m assume "k = memberKey us c u" "unmarshal ChatMember_of_json r = Some m"
  with assms(1) show "user_lookup v' u \<noteq> None" unfolding assms(5) entry_ok_def by blast
qed

text \<open>An entry of the flag is always read; an entry of the other kinds only if it decodes.\<close>

lemma decode_encode_flag [simp]: "decode_flag (encode_flag b) = Some b" "decode_flag (Text ''1'') = Some True"
  by (simp_all add: decode_flag_def encode_flag_def)

end
