(* ===== verification/CachedSim.thy ===== *)
theory CachedSim
  imports CachePort StmtSim
begin

text \<open>
  The read-through chat repository of storage/cached implements the chat port over any origin that does
  and any reliable cache: the use cases cannot tell whether the cache is there.
\<close>

lemma simulates_at:
  "simulates I qt view ok obs v m am \<Longrightarrow> I w \<Longrightarrow> view w = v \<Longrightarrow> sim_at I qt view ok obs v m am w"
  by (simp add: simulates_def)

locale cached_store = chat_port R getUser I qt view chat_ok + cache_laws C I qt view content
  for R :: "'w ChatRepository" and getUser :: "uuid \<Rightarrow> ('w, User) io" and I :: "'w \<Rightarrow> bool" and qt :: "'w \<Rightarrow> bool"
    and view :: "'w \<Rightarrow> aview" and chat_ok :: "Chat \<Rightarrow> bool" and C :: "'w Cache"
    and content :: "'w \<Rightarrow> string \<rightharpoonup> raw" +
  fixes us :: "uuid \<Rightarrow> string" and J :: "'w \<Rightarrow> bool"
  assumes J_def: "J w \<longleftrightarrow> I w \<and> uuid_text us \<and> coherent us (content w) (view w)"
    and origin_content:
      "content (snd (cr_CreateWithMembers R ch ms w)) = content w" "content (snd (cr_GetByID R c w)) = content w"
      "content (snd (cr_Update R ch w)) = content w" "content (snd (cr_Delete R c w)) = content w"
      "content (snd (cr_AddMember R mem w)) = content w" "content (snd (cr_RemoveMember R c u w)) = content w"
      "content (snd (cr_GetMember R c u w)) = content w" "content (snd (cr_GetMembers R c w)) = content w"
      "content (snd (cr_UpdateMemberRole R c u r w)) = content w" "content (snd (cr_GetUserChats R u w)) = content w"
      "content (snd (cr_GetDirectChat R a b w)) = content w" "content (snd (cr_IsMember R c u w)) = content w"
      "content (snd (getUser u w)) = content w"
begin

lemma J_intro: "I w \<Longrightarrow> uuid_text us \<Longrightarrow> coherent us ct (view w) \<Longrightarrow> content w \<subseteq>\<^sub>m ct \<Longrightarrow> J w"
  by (auto simp: J_def intro: coherent_le)

lemma J_origin:
  assumes "simulates I qt view ok obs v m am" "\<And>w. content (snd (m w)) = content w" "snd (am v) = v"
  shows "simulates J qt view ok obs v m am"
proof (rule simulatesI)
  fix w assume "J w" "view w = v"
  then have w: "I w" "uuid_text us" "coherent us (content w) v" "view w = v" by (auto simp: J_def)
  have "sim_at I qt view ok obs v m am w" by (rule simulates_at [OF assms(1) w(1,4)])
  then show "sim_at J qt view ok obs v m am w"
    using w assms(2,3) by (cases rule: sim_atE) (auto simp: J_def sim_at_def)
qed

lemma J_upkeep:
  assumes n: "upkeep I qt view content f n" and m: "simulates J qt view ok obs v m am"
    and coh: "\<And>ct. uuid_text us \<Longrightarrow> coherent us ct v \<Longrightarrow> coherent us (f ct) v"
  shows "simulates J qt view ok obs v (call n (\<lambda>_. m)) am"
proof (rule simulatesI)
  fix w assume w: "J w" "view w = v"
  let ?w1 = "snd (n w)"
  from n w have n': "I ?w1" "qt w \<longrightarrow> qt ?w1" "view ?w1 = v" "content ?w1 \<subseteq>\<^sub>m f (content w)" "fst (n w) = Ok ()"
    by (simp_all add: upkeep_def J_def)
  with w coh have J1: "J ?w1" by (intro J_intro [of _ "f (content w)"]) (auto simp: J_def)
  have "call n (\<lambda>_. m) w = m ?w1" by (simp add: call_def branch_def n'(5))
  with simulates_at [OF m J1 n'(3)] n'(2) show "sim_at J qt view ok obs v (call n (\<lambda>_. m)) am w"
    by (auto simp: sim_at_def)
qed

lemma J_read_through:
  assumes sim: "simulates I qt view True obs v m am" and keep: "\<And>w. content (snd (m w)) = content w"
    and pure: "snd (am v) = v"
    and hit: "\<And>r x. uuid_text us \<Longrightarrow> entry_ok us v k r \<Longrightarrow> decode r = Some x \<Longrightarrow> fst (am v) = Ok (obs x)"
    and store: "\<And>x. uuid_text us \<Longrightarrow> fst (am v) = Ok (obs x) \<Longrightarrow> entry_ok us v k (encode x)"
  shows "simulates J qt view True obs v (read_through C k decode encode ttl m) am"
proof -
  let ?miss = "call m (\<lambda>x. call (ignore_err (cache_Set C k (encode x) ttl)) (\<lambda>_. ret x))"
  have "simulates J qt view True obs v ?miss (call am ret)"
  proof (rule simulates_call [OF J_origin [OF sim keep pure] pure])
    fix x assume x: "fst (am v) = Ok (obs x)"
    show "simulates J qt view True obs v (call (ignore_err (cache_Set C k (encode x) ttl)) (\<lambda>_. ret x)) (ret (obs x))"
      by (rule J_upkeep [OF upkeep_ignore [OF set_takes] simulates_ret [OF refl]]) (rule coherent_put, assumption, rule store [OF _ x])
  qed
  then have miss: "simulates J qt view True obs v ?miss am" by (simp add: call_ret_right)
  show ?thesis
  proof (rule simulatesI)
    fix w assume w: "J w" "view w = v"
    let ?w1 = "snd (cache_Get C k w)"
    from w have get: "I ?w1" "qt w \<longrightarrow> qt ?w1" "view ?w1 = v" "content ?w1 \<subseteq>\<^sub>m content w"
      using get_keeps [of w k] by (simp_all add: J_def)
    with w have J1: "J ?w1" by (intro J_intro [of _ "content w"]) (auto simp: J_def)
    note at1 = simulates_at [OF miss J1 get(3)]
    show "sim_at J qt view True obs v (read_through C k decode encode ttl m) am w"
    proof (cases "fst (cache_Get C k w)")
      case (Ok r)
      with w get_result [of w k] have r: "content w k = Some r" by (simp add: J_def)
      show ?thesis
      proof (cases "decode r")
        case (Some x)
        from w have "uuid_text us" "coherent us (content w) v" by (simp_all add: J_def)
        from hit [OF this(1) coherentD [where ct = "content w" and k = k, OF this(2) r] Some]
        have "fst (am v) = Ok (obs x)" .
        moreover have "read_through C k decode encode ttl m w = (Ok x, ?w1)"
          by (simp add: read_through_def Let_def branch_def ret_def Ok Some)
        ultimately show ?thesis using J1 get(2,3) pure by (auto simp: sim_at_def)
      next
        case None
        then have "read_through C k decode encode ttl m w = ?miss ?w1"
          by (simp add: read_through_def Let_def branch_def Ok)
        with at1 get(2) show ?thesis by (auto simp: sim_at_def)
      qed
    next
      case (Err e)
      then have "read_through C k decode encode ttl m w = ?miss ?w1"
        by (simp add: read_through_def Let_def branch_def)
      with at1 get(2) show ?thesis by (auto simp: sim_at_def)
    next
      case (Panic s)
      with w get_result [of w k] show ?thesis by (simp add: J_def)
    qed
  qed
qed

lemma J_write:
  assumes sim: "simulates I qt view ok id v m am" and keep: "\<And>w. content (snd (m w)) = content w"
    and n: "upkeep I qt view content f n"
    and wrote: "\<And>ct. aview_wf v \<Longrightarrow> uuid_text us \<Longrightarrow> coherent us ct v \<Longrightarrow> fst (am v) = Ok () \<Longrightarrow> coherent us (f ct) (snd (am v))"
    and refused: "fst (am v) \<noteq> Ok () \<Longrightarrow> snd (am v) = v"
  shows "simulates J qt view ok id v (call m (\<lambda>_. n)) am"
proof (rule simulatesI)
  fix w assume w: "J w" "view w = v"
  let ?w1 = "snd (m w)"
  from w have Iw: "I w" by (simp add: J_def)
  with view_wf w(2) have wf: "aview_wf v" by auto
  have un: "map_outcome id id r = r" for r :: "(goerr, unit) outcome" by (cases r) simp_all
  from sim Iw w(2) show "sim_at J qt view ok id v (call m (\<lambda>_. n)) am w"
  proof (cases rule: simulatesE)
    case exact
    show ?thesis
    proof (cases "fst (m w)")
      case (Ok a)
      with exact(3) have am: "fst (am v) = Ok ()" by simp
      from n exact(1) have n': "I (snd (n ?w1))" "qt ?w1 \<longrightarrow> qt (snd (n ?w1))" "view (snd (n ?w1)) = view ?w1"
        "content (snd (n ?w1)) \<subseteq>\<^sub>m f (content ?w1)" "fst (n ?w1) = Ok ()"
        by (simp_all add: upkeep_def)
      with w wrote [OF wf _ _ am, of "content w"] exact have "J (snd (n ?w1))"
        by (intro J_intro [of _ "f (content w)"]) (auto simp: J_def keep)
      moreover have "call m (\<lambda>_. n) w = n ?w1" by (simp add: call_def branch_def Ok)
      ultimately show ?thesis using n' exact am by (auto simp: sim_at_def)
    next
      case (Err e)
      with exact(3) have am: "fst (am v) = Err e" by simp
      have "call m (\<lambda>_. n) w = (Err e, ?w1)" by (simp add: call_def branch_def throw_def Err)
      with am exact w keep refused show ?thesis by (auto simp: sim_at_def J_def)
    next
      case (Panic s)
      with exact(3) have am: "fst (am v) = Panic s" by simp
      have "call m (\<lambda>_. n) w = (Panic s, ?w1)" by (simp add: call_def branch_def Panic)
      with am exact w keep refused show ?thesis by (auto simp: sim_at_def J_def)
    qed
  next
    case (storage e)
    with w keep show ?thesis
      by (auto simp: sim_at_def call_def branch_def throw_def J_def)
  qed
qed

lemma cached_GetByID_sim:
  "simulates J qt view True id v (cached_chat_GetByID us C chatTTL R c) (sp_GetByID c)"
  unfolding cached_chat_GetByID_def
  by (rule J_read_through [OF sim_GetByID origin_content(2)])
    (auto simp: sp_GetByID_def chat_entry split: option.splits dest: entry_hits(1))

lemma cached_IsMember_sim:
  "simulates J qt view True id v (cached_chat_IsMember us C memberTTL R c u) (sp_IsMember c u)"
  unfolding cached_chat_IsMember_def
  by (rule J_read_through [OF sim_IsMember origin_content(12)])
    (auto simp: sp_IsMember_def flag_entry dest: entry_hits(2))

lemma cached_GetMember_sim:
  "simulates J qt view True strip_user v (cached_chat_GetMember us C memberTTL R c u) (sp_GetMember c u)"
  unfolding cached_chat_GetMember_def
  by (rule J_read_through [OF sim_GetMember origin_content(7)])
    (auto simp: sp_GetMember_def split: option.splits if_splits intro: member_entry dest: entry_hits(3))

end

end
