(* ===== verification/CachedChats.thy ===== *)
theory CachedChats
  imports CachedSim ChatOwner
begin

text \<open>
  The cached chat repository implements the chat port: the writing operations keep every cache entry
  in agreement with the store, and a caller sees what the origin shows.
\<close>

section \<open>Lookups after a write\<close>

lemma find_append: "find P (xs @ ys) = (case find P xs of Some x \<Rightarrow> Some x | None \<Rightarrow> find P ys)"
  by (induction xs) auto

lemma user_lookup_writes [simp]:
  "user_lookup (without_member v c u) x = user_lookup v x" "user_lookup (with_role v c u r) x = user_lookup v x"
  "user_lookup (without_chat v c) x = user_lookup v x" "user_lookup (with_chat v ch) x = user_lookup v x"
  "user_lookup (v\<lparr>av_chats := cs\<rparr>) x = user_lookup v x"
  "user_lookup (v\<lparr>av_members := ms\<rparr>) x = user_lookup v x"
  by (simp_all add: user_lookup_def without_member_def with_role_def without_chat_def with_chat_def)

lemma chat_lookup_writes [simp]:
  "chat_lookup (without_member v c u) d = chat_lookup v d" "chat_lookup (with_role v c u r) d = chat_lookup v d"
  "chat_lookup (v\<lparr>av_members := ms\<rparr>) d = chat_lookup v d"
  by (simp_all add: chat_lookup_def without_member_def with_role_def)

lemma member_lookup_writes [simp]:
  "member_lookup (without_chat v c) d x = member_lookup v d x" "member_lookup (with_chat v ch) d x = member_lookup v d x"
  by (simp_all add: member_lookup_def without_chat_def with_chat_def)

lemma chat_lookup_new: "chat_lookup v d = Some y \<Longrightarrow>
    chat_lookup (v\<lparr>av_chats := av_chats v @ cs\<rparr>) d = Some y"
  by (auto simp: chat_lookup_def find_append)

lemma chat_lookup_without: "d \<noteq> c \<Longrightarrow> chat_lookup (without_chat v c) d = chat_lookup v d"
proof -
  assume d: "d \<noteq> c"
  have "find (\<lambda>(x, live). chat_ID x = d \<and> live) (map (\<lambda>(x, live).
      if live \<and> chat_ID x = c then (buried x, False) else (x, live)) xs) =
      find (\<lambda>(x, live). chat_ID x = d \<and> live) xs" for xs
    using d by (induction xs) (auto split: if_splits)
  then show ?thesis by (simp add: chat_lookup_def without_chat_def)
qed

lemma chat_lookup_with: "d \<noteq> chat_ID ch \<Longrightarrow> chat_lookup (with_chat v ch) d = chat_lookup v d"
proof -
  assume d: "d \<noteq> chat_ID ch"
  have "find (\<lambda>(x, live). chat_ID x = d \<and> live) (map (\<lambda>(x, live). if chat_ID x = chat_ID ch \<and> live
       then (x\<lparr>chat_Name := chat_Name ch, chat_AvatarURL := chat_AvatarURL ch,
               chat_Description := chat_Description ch, chat_UpdatedAt := chat_UpdatedAt ch\<rparr>, live)
       else (x, live)) xs) = find (\<lambda>(x, live). chat_ID x = d \<and> live) xs" for xs :: "(Chat \<times> bool) list"
    using d by (induction xs) (auto split: if_splits)
  then show ?thesis by (simp add: chat_lookup_def with_chat_def)
qed

lemma member_lookup_more:
  "member_lookup (v\<lparr>av_members := av_members v @ ms\<rparr>) c u =
     (case member_lookup v c u of Some m \<Rightarrow> Some m | None \<Rightarrow> find (\<lambda>m. mem_ChatID m = c \<and> mem_UserID m = u) ms)"
  "member_lookup (v\<lparr>av_chats := cs, av_members := av_members v @ ms\<rparr>) c u =
     (case member_lookup v c u of Some m \<Rightarrow> Some m | None \<Rightarrow> find (\<lambda>m. mem_ChatID m = c \<and> mem_UserID m = u) ms)"
  by (simp_all add: member_lookup_def find_append)

lemma member_lookup_keys: "member_lookup v c u = Some m \<Longrightarrow> mem_ChatID m = c \<and> mem_UserID m = u"
  by (auto simp: member_lookup_def dest: find_Some_set)

lemma member_lookup_without:
  "\<not> (d = c \<and> x = u) \<Longrightarrow> member_lookup (without_member v c u) d x = member_lookup v d x"
  unfolding member_lookup_def without_member_def
  by (simp add: find_filter) (metis (mono_tags, lifting))

section \<open>Coherence after a write\<close>

text \<open>The effect of seeding and of forgetting members, on the entries.\<close>

definition seeded :: "(uuid \<Rightarrow> string) \<Rightarrow> uuid \<Rightarrow> ChatMember \<Rightarrow> (string \<rightharpoonup> raw) \<Rightarrow> (string \<rightharpoonup> raw)" where
  "seeded us c m ct = ct(isMemberKey us c (mem_UserID m) \<mapsto> Text ''1'',
     memberKey us c (mem_UserID m) \<mapsto> Json (json_of_ChatMember m))"

definition forgotten :: "(uuid \<Rightarrow> string) \<Rightarrow> uuid \<Rightarrow> uuid \<Rightarrow> (string \<rightharpoonup> raw) \<Rightarrow> (string \<rightharpoonup> raw)" where
  "forgotten us c u ct = ct(isMemberKey us c u := None, memberKey us c u := None)"

lemma seeded_fold:
  "fold (seeded us c) ms ct k = Some r \<Longrightarrow>
     (\<exists>m \<in> set ms. k = isMemberKey us c (mem_UserID m) \<and> r = Text ''1'' \<or>
        k = memberKey us c (mem_UserID m) \<and> r = Json (json_of_ChatMember m)) \<or>
     ct k = Some r \<and> (\<forall>m \<in> set ms. k \<noteq> isMemberKey us c (mem_UserID m) \<and> k \<noteq> memberKey us c (mem_UserID m))"
  by (induction ms rule: rev_induct) (auto simp: seeded_def split: if_splits)

lemma forgotten_le: "forgotten us c u ct \<subseteq>\<^sub>m ct"
  by (auto simp: forgotten_def map_le_def)

lemma forgotten_fold_le: "fold (\<lambda>m. forgotten us c (f m)) ms ct \<subseteq>\<^sub>m ct"
  by (induction ms rule: rev_induct) (auto intro: map_le_trans [OF forgotten_le])

lemma coherent_change:
  assumes "coherent us ct v" "\<And>u. user_lookup v' u = user_lookup v u"
    and "\<And>k r. ct' k = Some r \<Longrightarrow> entry_ok us v' k r \<or> ct k = Some r \<and>
      (\<forall>c x. k = chatKey us c \<longrightarrow> chat_lookup v c = Some x \<longrightarrow> chat_lookup v' c = Some x) \<and>
      (\<forall>c u. k = isMemberKey us c u \<longrightarrow> is_member v' c u = is_member v c u) \<and>
      (\<forall>c u m. k = memberKey us c u \<longrightarrow> member_lookup v c u = Some m \<longrightarrow> member_lookup v' c u = Some m)"
  shows "coherent us ct' v'"
  unfolding coherent_def
proof (intro allI impI)
  fix k r assume "ct' k = Some r"
  from assms(3) [OF this] show "entry_ok us v' k r"
  proof
    assume keep: "ct k = Some r \<and>
      (\<forall>c x. k = chatKey us c \<longrightarrow> chat_lookup v c = Some x \<longrightarrow> chat_lookup v' c = Some x) \<and>
      (\<forall>c u. k = isMemberKey us c u \<longrightarrow> is_member v' c u = is_member v c u) \<and>
      (\<forall>c u m. k = memberKey us c u \<longrightarrow> member_lookup v c u = Some m \<longrightarrow> member_lookup v' c u = Some m)"
    then have "entry_ok us v k r" using assms(1) by (auto simp: coherent_def)
    then show ?thesis by (rule entry_frame) (use keep assms(2) in auto)
  qed
qed

lemma find_member:
  "distinct (map mem_UserID ms) \<Longrightarrow> m \<in> set ms \<Longrightarrow> \<forall>n \<in> set ms. mem_ChatID n = c \<Longrightarrow>
     find (\<lambda>n. mem_ChatID n = c \<and> mem_UserID n = mem_UserID m) ms = Some m"
  by (induction ms) auto

lemma coherent_join:
  assumes us: "uuid_text us" and coh: "coherent us ct v"
    and ms: "distinct (map mem_UserID ms)"
      "\<forall>m \<in> set ms. mem_ChatID m = c \<and> \<not> is_member v c (mem_UserID m) \<and> user_lookup v (mem_UserID m) \<noteq> None \<and> mem_User m = None"
    and v': "\<And>d x. member_lookup v' d x = (case member_lookup v d x of Some m \<Rightarrow> Some m
        | None \<Rightarrow> find (\<lambda>m. mem_ChatID m = d \<and> mem_UserID m = x) ms)"
      "\<And>u. user_lookup v' u = user_lookup v u"
      "\<And>d x. chat_lookup v d = Some x \<Longrightarrow> chat_lookup v' d = Some x"
  shows "coherent us (fold (seeded us c) ms ct) v'"
proof (rule coherent_change [OF coh v'(2)])
  have new: "member_lookup v' c (mem_UserID m) = Some m" if "m \<in> set ms" for m
    using that ms find_member [OF ms(1) that] by (auto simp: v'(1) is_member_def)
  fix k r assume "fold (seeded us c) ms ct k = Some r"
  from seeded_fold [OF this]
  show "entry_ok us v' k r \<or> ct k = Some r \<and>
      (\<forall>c x. k = chatKey us c \<longrightarrow> chat_lookup v c = Some x \<longrightarrow> chat_lookup v' c = Some x) \<and>
      (\<forall>c u. k = isMemberKey us c u \<longrightarrow> is_member v' c u = is_member v c u) \<and>
      (\<forall>c u m. k = memberKey us c u \<longrightarrow> member_lookup v c u = Some m \<longrightarrow> member_lookup v' c u = Some m)"
  proof (elim disjE bexE conjE)
    fix m assume m: "m \<in> set ms" "k = isMemberKey us c (mem_UserID m)" "r = Text ''1''"
    with new [OF m(1)] have "entry_ok us v' k r" by (simp add: flag_entry [OF us] is_member_def)
    then show ?thesis ..
  next
    fix m assume m: "m \<in> set ms" "k = memberKey us c (mem_UserID m)" "r = Json (json_of_ChatMember m)"
    have "strip_user m = m" using ms(2) m(1) by (simp add: strip_user_def)
    with new [OF m(1)] m ms(2) have "entry_ok us v' k r" by (simp add: member_entry [OF us] v'(2))
    then show ?thesis ..
  next
    assume k: "ct k = Some r"
      "\<forall>m \<in> set ms. k \<noteq> isMemberKey us c (mem_UserID m) \<and> k \<noteq> memberKey us c (mem_UserID m)"
    have "is_member v' d x = is_member v d x" if "k = isMemberKey us d x" for d x
    proof -
      from k(2) ms(2) that have "find (\<lambda>m. mem_ChatID m = d \<and> mem_UserID m = x) ms = None"
        by (auto simp: find_None_iff)
      then show ?thesis by (simp add: is_member_def v'(1) split: option.split)
    qed
    with k(1) v'(1,3) show ?thesis by simp
  qed
qed

lemma coherent_without_member:
  assumes "uuid_text us" "coherent us ct v"
  shows "coherent us (forgotten us c u ct) (without_member v c u)"
  by (rule coherent_change [OF assms(2)])
    (auto simp: forgotten_def is_member_def member_lookup_without keys_inj [OF assms(1)] split: if_splits)

lemma coherent_with_role:
  assumes "uuid_text us" "coherent us ct v"
  shows "coherent us (ct(memberKey us c u := None)) (with_role v c u r)"
  by (rule coherent_change [OF assms(2)])
    (auto simp: member_lookup_with_role keys_inj [OF assms(1)] dest: member_lookup_keys split: if_splits)

lemma coherent_without_chat:
  assumes "uuid_text us" "coherent us ct v" "ct' \<subseteq>\<^sub>m ct(chatKey us c := None)"
  shows "coherent us ct' (without_chat v c)"
proof (rule coherent_change [OF assms(2)])
  fix k r assume "ct' k = Some r"
  from map_leD [OF assms(3) this] have k: "ct k = Some r" "k \<noteq> chatKey us c" by (auto split: if_splits)
  then show "entry_ok us (without_chat v c) k r \<or> ct k = Some r \<and>
      (\<forall>d x. k = chatKey us d \<longrightarrow> chat_lookup v d = Some x \<longrightarrow> chat_lookup (without_chat v c) d = Some x) \<and>
      (\<forall>d u. k = isMemberKey us d u \<longrightarrow> is_member (without_chat v c) d u = is_member v d u) \<and>
      (\<forall>d u m. k = memberKey us d u \<longrightarrow> member_lookup v d u = Some m \<longrightarrow> member_lookup (without_chat v c) d u = Some m)"
    by (auto simp: is_member_def) (metis chat_lookup_without)
qed simp

lemma coherent_with_chat:
  assumes "uuid_text us" "coherent us ct v"
  shows "coherent us (ct(chatKey us (chat_ID ch) := None)) (with_chat v ch)"
proof (rule coherent_change [OF assms(2)])
  fix k r assume "(ct(chatKey us (chat_ID ch) := None)) k = Some r"
  then have k: "ct k = Some r" "k \<noteq> chatKey us (chat_ID ch)" by (auto split: if_splits)
  then show "entry_ok us (with_chat v ch) k r \<or> ct k = Some r \<and>
      (\<forall>d x. k = chatKey us d \<longrightarrow> chat_lookup v d = Some x \<longrightarrow> chat_lookup (with_chat v ch) d = Some x) \<and>
      (\<forall>d u. k = isMemberKey us d u \<longrightarrow> is_member (with_chat v ch) d u = is_member v d u) \<and>
      (\<forall>d u m. k = memberKey us d u \<longrightarrow> member_lookup v d u = Some m \<longrightarrow> member_lookup (with_chat v ch) d u = Some m)"
    by (auto simp: is_member_def) (metis chat_lookup_with)
qed simp

section \<open>The laws of the port\<close>

context cached_store begin

lemma upkeep_seed: "upkeep I qt view content (seeded us c m) (seed_member us C memberTTL c m)"
  unfolding seed_member_def seeded_def by (intro upkeep_call upkeep_ignore set_takes map_le_upd)

lemma upkeep_forget: "upkeep I qt view content (forgotten us c u) (forget_member us C c u)"
  unfolding forget_member_def forgotten_def by (intro upkeep_call upkeep_ignore del_takes map_le_upd)

lemma upkeep_seeds:
  "upkeep I qt view content (fold (seeded us c) ms) (for_each (seed_member us C memberTTL c) ms)"
  by (intro upkeep_for_each upkeep_seed) (auto simp: seeded_def intro: map_le_upd)

lemma upkeep_forgets: "upkeep I qt view content (fold (\<lambda>m. forgotten us c (mem_UserID m)) ms)
    (for_each (\<lambda>m. forget_member us C c (mem_UserID m)) ms)"
  by (intro upkeep_for_each upkeep_forget) (auto simp: forgotten_def intro: map_le_upd)

lemma cached_CreateWithMembers_sim:
  assumes pre: "create_pre v ch ms"
  shows "simulates J qt view (chat_ok ch) id v (cached_chat_CreateWithMembers us C memberTTL R ch ms)
     (sp_CreateWithMembers ch ms)"
  unfolding cached_chat_CreateWithMembers_def
proof (rule J_write [OF sim_CreateWithMembers [OF pre] origin_content(1) upkeep_seeds])
  fix ct assume wf: "aview_wf v" and ct: "uuid_text us" "coherent us ct v"
  show "coherent us (fold (seeded us (chat_ID ch)) ms ct) (snd (sp_CreateWithMembers ch ms v))"
    unfolding sp_CreateWithMembers_def snd_conv
  proof (rule coherent_join [OF ct])
    have "\<not> is_member v (chat_ID ch) u" for u
      using wf pre by (auto simp: create_pre_def is_member_iff aview_wf_def)
    then show "\<forall>m \<in> set ms. mem_ChatID m = chat_ID ch \<and> \<not> is_member v (chat_ID ch) (mem_UserID m) \<and>
        user_lookup v (mem_UserID m) \<noteq> None \<and> mem_User m = None"
      using pre by (auto simp: create_pre_def members_pre_def)
    show "distinct (map mem_UserID ms)" using pre by (simp add: create_pre_def members_pre_def)
  qed (simp_all add: member_lookup_more chat_lookup_new)
qed (simp add: sp_CreateWithMembers_def)

lemma cached_AddMember_sim:
  assumes "add_pre v m"
  shows "simulates J qt view True id v (cached_chat_AddMember us C memberTTL R m) (sp_AddMember m)"
  unfolding cached_chat_AddMember_def
proof (rule J_write [OF sim_AddMember [OF assms] origin_content(5) upkeep_seed])
  fix ct assume ct: "uuid_text us" "coherent us ct v" and "fst (sp_AddMember m v) = Ok ()"
  then have new: "\<not> is_member v (mem_ChatID m) (mem_UserID m)"
    "snd (sp_AddMember m v) = v\<lparr>av_members := av_members v @ [m]\<rparr>"
    by (auto simp: sp_AddMember_def split: if_splits)
  have "coherent us (fold (seeded us (mem_ChatID m)) [m] ct) (v\<lparr>av_members := av_members v @ [m]\<rparr>)"
    using assms new(1) by (intro coherent_join [OF ct]) (auto simp: add_pre_def member_lookup_more)
  then show "coherent us (seeded us (mem_ChatID m) m ct) (snd (sp_AddMember m v))" by (simp add: new(2))
qed (auto simp: sp_AddMember_def split: if_splits)

lemma cached_RemoveMember_sim:
  "simulates J qt view True id v (cached_chat_RemoveMember us C R c u) (sp_RemoveMember c u)"
  unfolding cached_chat_RemoveMember_def
  by (rule J_write [OF sim_RemoveMember origin_content(6) upkeep_forget])
    (auto simp: sp_RemoveMember_def without_member_def simp flip: de_Morgan_conj
      intro: coherent_without_member [unfolded without_member_def] split: if_splits)

lemma cached_UpdateMemberRole_sim_from:
  "simulates I qt view True id v (cr_UpdateMemberRole R c u r) (sp_UpdateMemberRole c u r) \<Longrightarrow>
     simulates J qt view True id v (cached_chat_UpdateMemberRole us C R c u r) (sp_UpdateMemberRole c u r)"
  unfolding cached_chat_UpdateMemberRole_def
  by (rule J_write [OF _ origin_content(9) upkeep_ignore [OF del_takes]], assumption)
    (auto simp: sp_UpdateMemberRole_def with_role_def [symmetric] intro: coherent_with_role split: if_splits)

lemma J_skip:
  assumes n: "\<And>w. J w \<Longrightarrow> view w = v \<Longrightarrow> J (snd (n w)) \<and> (qt w \<longrightarrow> qt (snd (n w))) \<and> view (snd (n w)) = v \<and> (\<exists>a. fst (n w) = Ok a)"
    and m: "\<And>a. simulates J qt view ok obs v (k a) am"
  shows "simulates J qt view ok obs v (call n k) am"
proof (rule simulatesI)
  fix w assume w: "J w" "view w = v"
  from n [OF w] obtain a where a: "fst (n w) = Ok a" by blast
  have "call n k w = k a (snd (n w))" by (simp add: call_def branch_def a)
  with simulates_at [OF m [of a], of "snd (n w)"] n [OF w]
  show "sim_at J qt view ok obs v (call n k) am w" by (auto simp: sim_at_def)
qed

lemma cached_Delete_sim: "simulates J qt view True id v (cached_chat_Delete us C R c) (sp_Delete c)"
  unfolding cached_chat_Delete_def
proof (rule J_skip)
  fix w assume w: "J w" "view w = v"
  from J_origin [OF sim_GetMembers origin_content(8)] have
    "simulates J qt view True (map strip_user) v (cr_GetMembers R c) (sp_GetMembers c)"
    by (simp add: sp_GetMembers_def)
  from this w show "J (snd (branch (cr_GetMembers R c) ret (\<lambda>_. ret []) w)) \<and>
      (qt w \<longrightarrow> qt (snd (branch (cr_GetMembers R c) ret (\<lambda>_. ret []) w))) \<and>
      view (snd (branch (cr_GetMembers R c) ret (\<lambda>_. ret []) w)) = v \<and>
      (\<exists>a. fst (branch (cr_GetMembers R c) ret (\<lambda>_. ret []) w) = Ok a)"
    by (cases rule: simulatesE; cases "fst (cr_GetMembers R c w)")
      (auto simp: branch_def ret_def sp_GetMembers_def)
next
  fix ms
  show "simulates J qt view True id v
      (call (cr_Delete R c) (\<lambda>_. call (ignore_err (cache_Del C (chatKey us c)))
         (\<lambda>_. for_each (\<lambda>m. forget_member us C c (mem_UserID m)) ms))) (sp_Delete c)"
  proof (rule J_write [OF sim_Delete origin_content(4)])
    show "upkeep I qt view content (\<lambda>ct. fold (\<lambda>m. forgotten us c (mem_UserID m)) ms (ct(chatKey us c := None)))
        (call (ignore_err (cache_Del C (chatKey us c))) (\<lambda>_. for_each (\<lambda>m. forget_member us C c (mem_UserID m)) ms))"
    proof (rule upkeep_call [OF upkeep_ignore [OF del_takes] upkeep_forgets])
      fix ct ct' :: "string \<rightharpoonup> raw" assume "ct \<subseteq>\<^sub>m ct'"
      then show "fold (\<lambda>m. forgotten us c (mem_UserID m)) ms ct \<subseteq>\<^sub>m fold (\<lambda>m. forgotten us c (mem_UserID m)) ms ct'"
        by (induction ms arbitrary: ct ct') (auto simp: forgotten_def intro: map_le_upd)
    qed
  qed (auto simp: sp_Delete_def without_chat_def [symmetric] intro: coherent_without_chat forgotten_fold_le)
qed

lemma cached_Update_sim_from:
  assumes "simulates I qt view (chat_ok ch) id v (cr_Update R ch) (sp_Update ch)"
  shows "simulates J qt view (chat_ok ch) id v (cached_chat_Update us C R ch) (sp_Update ch)"
  unfolding cached_chat_Update_def
proof (rule simulatesI)
  fix w assume w: "J w" "view w = v"
  let ?n = "ignore_err (cache_Del C (chatKey us (chat_ID ch)))"
  let ?w1 = "snd (?n w)" and ?ct = "(content w)(chatKey us (chat_ID ch) := None)"
  from w have Jw: "I w" "uuid_text us" "coherent us (content w) v" by (simp_all add: J_def)
  from upkeep_ignore [OF del_takes, of "chatKey us (chat_ID ch)"] w Jw(1)
  have n: "I ?w1" "qt w \<longrightarrow> qt ?w1" "view ?w1 = v" "content ?w1 \<subseteq>\<^sub>m ?ct" "fst (?n w) = Ok ()"
    by (simp_all add: upkeep_def)
  have run: "call ?n (\<lambda>_. cr_Update R ch) w = cr_Update R ch ?w1" by (simp add: call_def branch_def n(5))
  have gone: "coherent us ?ct v" by (rule coherent_le [OF Jw(3)]) (simp add: map_le_def)
  have wrote: "coherent us ?ct (snd (sp_Update ch v))"
    using gone coherent_with_chat [OF Jw(2,3), of ch]
    by (auto simp: sp_Update_def with_chat_def [symmetric])
  from assms n(1,3)
  show "sim_at J qt view (chat_ok ch) id v (call ?n (\<lambda>_. cr_Update R ch)) (sp_Update ch) w"
  proof (cases rule: simulatesE)
    case exact
    with n(2,4) Jw(2) wrote have "J (snd (cr_Update R ch ?w1))"
      by (intro J_intro [of _ ?ct]) (simp_all add: origin_content(3))
    with exact n(2) show ?thesis by (auto simp: sim_at_def run)
  next
    case (storage e)
    with n(4) Jw(2) gone have "J (snd (cr_Update R ch ?w1))"
      by (intro J_intro [of _ ?ct]) (simp_all add: origin_content(3))
    with storage n(2) show ?thesis by (auto simp: sim_at_def run)
  qed
qed

lemma cached_chat_port:
  "chat_port (cached_NewChatRepository us R (Some C) chatTTL memberTTL)
     getUser J qt view chat_ok"
proof (unfold_locales, goal_cases)
  case (1 w) then show ?case by (simp add: J_def view_wf)
next
  case (2 v u)
  have "snd (sp_GetUser u v) = v" by (simp add: sp_GetUser_def split: option.split)
  then show ?case by (rule J_origin [OF sim_GetUser origin_content(13)])
next
  case 3 then show ?case by (simp add: cached_NewChatRepository_def cached_CreateWithMembers_sim)
next
  case 4 show ?case by (simp add: cached_NewChatRepository_def cached_GetByID_sim)
next
  case 5 then show ?case by (simp add: cached_NewChatRepository_def cached_Update_sim_from sim_Update)
next
  case 6 show ?case by (simp add: cached_NewChatRepository_def cached_Delete_sim)
next
  case 7 then show ?case by (simp add: cached_NewChatRepository_def cached_AddMember_sim)
next
  case 8 show ?case by (simp add: cached_NewChatRepository_def cached_RemoveMember_sim)
next
  case 9 show ?case by (simp add: cached_NewChatRepository_def cached_GetMember_sim)
next
  case (10 v c)
  show ?case by (simp add: cached_NewChatRepository_def cached_chat_GetMembers_def J_origin [OF sim_GetMembers origin_content(8)] sp_GetMembers_def)
next
  case (11 r v c u) then show ?case
    by (simp add: cached_NewChatRepository_def cached_UpdateMemberRole_sim_from sim_UpdateMemberRole)
next
  case 12
  show ?case by (simp add: cached_NewChatRepository_def cached_chat_GetUserChats_def J_origin [OF sim_GetUserChats origin_content(10)] sp_GetUserChats_def)
next
  case (13 v a b)
  have "snd (sp_GetDirectChat a b v) = v" by (simp add: sp_GetDirectChat_def split: option.split)
  then show ?case by (simp add: cached_NewChatRepository_def cached_chat_GetDirectChat_def J_origin [OF sim_GetDirectChat origin_content(11)])
next
  case 14 show ?case by (simp add: cached_NewChatRepository_def cached_IsMember_sim)
qed

end

locale cached_store_idempotent = cached_store +
  assumes origin_role_any: "role_pre r \<Longrightarrow>
    simulates I qt view True id v (cr_UpdateMemberRole R c u r) (sp_UpdateMemberRole c u r)"
    and origin_update_any: "update_pre v ch \<Longrightarrow>
      simulates I qt view (chat_ok ch) id v (cr_Update R ch) (sp_Update ch)"
begin

lemma cached_chat_port_idempotent:
  "chat_port_idempotent (cached_NewChatRepository us R (Some C) chatTTL memberTTL)
     getUser J qt view chat_ok"
  by (intro chat_port_idempotent.intro cached_chat_port chat_port_idempotent_axioms.intro)
    (simp_all add: cached_NewChatRepository_def cached_UpdateMemberRole_sim_from origin_role_any
      cached_Update_sim_from origin_update_any)

end

end
