(* ===== verification/CachedPg.thy ===== *)
theory CachedPg
  imports CachedChats PgPreview PgUser
begin

text \<open>
  The cached chat repository over PostgreSQL, with the in-memory store of cache/mock or any other cache
  that keeps the contract, as a chat port.
\<close>

section \<open>Statements leave the cache alone\<close>

definition cache_content :: "world \<Rightarrow> string \<rightharpoonup> raw" where
  "cache_content w = map_option ce_value \<circ> w_cache w"

abbreviation same_cache :: "(string \<rightharpoonup> cache_entry) \<Rightarrow> world \<Rightarrow> bool" where
  "same_cache ct w \<equiv> w_cache w = ct"

lemma keeps_stmt [go_keeps]: "keeps (same_cache ct) (db_stmt f)"
  by (rule keepsI) (auto simp: db_stmt_def split: option.splits sum.splits)

lemma keeps_exec [go_keeps]: "keeps (same_cache ct) (db_exec f)"
  "keeps (same_cache ct) (db_queryRow q scan)" "keeps (same_cache ct) (db_query q scan)"
  "keeps (same_cache ct) tx_begin" "keeps (same_cache ct) tx_commit"
  by (simp_all add: db_exec_def db_queryRow_def db_query_def tx_begin_def tx_commit_def keeps_stmt)

lemma keeps_in_tx [go_keeps]:
  assumes "keeps (same_cache ct) body"
  shows "keeps (same_cache ct) (in_tx body)"
proof (rule keepsI)
  fix w :: world assume w: "w_cache w = ct"
  have "keeps (same_cache ct) (call tx_begin (\<lambda>_. call body (\<lambda>_. tx_commit)))"
    by (intro go_keeps assms)
  then have "same_cache ct (snd (call tx_begin (\<lambda>_. call body (\<lambda>_. tx_commit)) w))" using w by (simp add: keeps_def)
  then show "same_cache ct (snd (in_tx body w))"
    by (auto simp: in_tx_def Let_def split: prod.split outcome.split)
qed

lemma content_same:
  assumes "\<And>ct. keeps (same_cache ct) m"
  shows "cache_content (snd (m w)) = cache_content w"
  using keepsD [OF assms refl, of w] by (simp add: cache_content_def)

lemma pg_chats_content:
  "keeps (same_cache ct) (pg_chat_CreateWithMembers ch ms)" "keeps (same_cache ct) (pg_chat_GetByID c)"
  "keeps (same_cache ct) (pg_chat_Update ch)" "keeps (same_cache ct) (pg_chat_Delete c)"
  "keeps (same_cache ct) (pg_chat_AddMember m)" "keeps (same_cache ct) (pg_chat_RemoveMember c u)"
  "keeps (same_cache ct) (pg_chat_GetMember c u)" "keeps (same_cache ct) (pg_chat_GetMembers c)"
  "keeps (same_cache ct) (pg_chat_UpdateMemberRole c u r)" "keeps (same_cache ct) (pg_chat_GetUserChats u)"
  "keeps (same_cache ct) (pg_chat_GetDirectChat a b)" "keeps (same_cache ct) (pg_chat_IsMember c u)"
  "keeps (same_cache ct) (pg_user_GetByID u)"
  unfolding pg_chat_CreateWithMembers_def pg_chat_GetByID_def pg_chat_Update_def pg_chat_Delete_def
    pg_chat_AddMember_def pg_chat_RemoveMember_def pg_chat_GetMember_def pg_chat_GetMembers_def
    pg_chat_UpdateMemberRole_def pg_chat_GetUserChats_def pg_chat_GetDirectChat_def pg_chat_IsMember_def
    pg_user_GetByID_def pg_user_scanOne_def pg_queryRow_def
  by (intro go_keeps)+

section \<open>The in-memory store keeps the contract\<close>

lemma mock_Set_run:
  "\<exists>w' t. w' \<in> {w, w_step w} \<and> mock_Set k r ttl w =
     (Ok (), w'\<lparr>w_cache := (w_cache w)(k \<mapsto> \<lparr>ce_value = r, ce_expiresAt = t\<rparr>)\<rparr>)"
  by (cases "ttl > 0")
    (auto simp: mock_Set_def call_def branch_def clock_now_def ret_def)

lemma mock_Get_run:
  "w_db (snd (mock_Get k w)) = w_db w" "w_env (snd (mock_Get k w)) \<in> {w_env w, w_env (w_step w)}"
  "w_cache (snd (mock_Get k w)) \<subseteq>\<^sub>m w_cache w"
  "case fst (mock_Get k w) of Ok r \<Rightarrow> cache_content w k = Some r | Err e \<Rightarrow> True | Panic s \<Rightarrow> False"
  by (auto simp: mock_Get_def call_def branch_def clock_now_def map_le_def cache_content_def split: option.split)

lemma run_outside:
  assumes "w_db w' = w_db w" "w_env w' \<in> {w_env w, w_env (w_step w)}"
  shows "table_inv W t0 w \<Longrightarrow> table_inv W t0 w'" "quiet w \<Longrightarrow> quiet w'" "view_of w' = view_of w"
  using assms env_now_step [of w] quiet_step [of w] by (auto simp: table_inv_def quiet_def view_of_def)

lemma cache_content_le: "w_cache w' \<subseteq>\<^sub>m w_cache w \<Longrightarrow> cache_content w' \<subseteq>\<^sub>m cache_content w"
  by (auto simp: cache_content_def map_le_def dom_def)

interpretation mock: cache_laws mock_cache "table_inv W t0" quiet view_of cache_content
proof unfold_locales
  fix w k assume w: "table_inv W t0 w"
  show "table_inv W t0 (snd (cache_Get mock_cache k w)) \<and> (quiet w \<longrightarrow> quiet (snd (cache_Get mock_cache k w))) \<and>
      view_of (snd (cache_Get mock_cache k w)) = view_of w \<and>
      cache_content (snd (cache_Get mock_cache k w)) \<subseteq>\<^sub>m cache_content w"
    using run_outside [OF mock_Get_run(1,2)] cache_content_le [OF mock_Get_run(3)] w
    by (simp add: mock_cache_def)
  show "case fst (cache_Get mock_cache k w) of Ok r \<Rightarrow> cache_content w k = Some r | Err e \<Rightarrow> True | Panic s \<Rightarrow> False"
    using mock_Get_run(4) [of w k] by (simp add: mock_cache_def)
next
  fix k r ttl
  show "upkeep (table_inv W t0) quiet view_of cache_content (\<lambda>ct. ct(k \<mapsto> r)) (cache_Set mock_cache k r ttl)"
    unfolding upkeep_def
  proof (intro allI impI)
    fix w assume w: "table_inv W t0 w"
    from mock_Set_run [of w k r ttl] obtain w' t where
      "w' \<in> {w, w_step w}" "mock_Set k r ttl w = (Ok (), w'\<lparr>w_cache := (w_cache w)(k \<mapsto> \<lparr>ce_value = r, ce_expiresAt = t\<rparr>)\<rparr>)"
      by blast
    with w show "table_inv W t0 (snd (cache_Set mock_cache k r ttl w)) \<and>
        (quiet w \<longrightarrow> quiet (snd (cache_Set mock_cache k r ttl w))) \<and>
        view_of (snd (cache_Set mock_cache k r ttl w)) = view_of w \<and>
        cache_content (snd (cache_Set mock_cache k r ttl w)) \<subseteq>\<^sub>m (cache_content w)(k \<mapsto> r) \<and>
        fst (cache_Set mock_cache k r ttl w) = Ok ()"
      by (auto simp: mock_cache_def cache_content_def map_le_def)
  qed
  show "upkeep (table_inv W t0) quiet view_of cache_content (\<lambda>ct. ct(k := None)) (cache_Del mock_cache k)"
    by (auto simp: upkeep_def mock_cache_def mock_Del_def cache_content_def map_le_def)
qed

section \<open>The cached repository over PostgreSQL\<close>

text \<open>The contract covers a cache that loses entries and answers some lookups with an error.\<close>

abbreviation lawful_cache :: "world Cache \<Rightarrow> bool" where
  "lawful_cache C \<equiv> cache_laws C pg_inv quiet view_of cache_content"

text \<open>The tables keep the schema and the cache agrees with them, as the empty one does.\<close>

definition cached_at :: "(uuid \<Rightarrow> string) \<Rightarrow> time \<Rightarrow> world \<Rightarrow> bool" where
  "cached_at us t0 w \<longleftrightarrow> pg_at t0 w \<and> uuid_text us \<and> coherent us (cache_content w) (view_of w)"

abbreviation cached_inv :: "(uuid \<Rightarrow> string) \<Rightarrow> world \<Rightarrow> bool" where
  "cached_inv us \<equiv> cached_at us 0"

lemma cached_inv_empty: "pg_at t0 w \<Longrightarrow> uuid_text us \<Longrightarrow> w_cache w = Map.empty \<Longrightarrow> cached_at us t0 w"
  by (simp add: cached_at_def coherent_def cache_content_def comp_def)

lemma cached_pg:
  assumes "cache_laws C (pg_at t0) quiet view_of cache_content"
  shows "cached_store_idempotent pg_NewChatRepository pg_user_GetByID (pg_at t0) quiet view_of
     pg_chat_ok C cache_content us (cached_at us t0)"
proof (intro cached_store_idempotent.intro cached_store.intro cached_store_axioms.intro
    cached_store_idempotent_axioms.intro)
  show "chat_port pg_NewChatRepository pg_user_GetByID (pg_at t0) quiet view_of pg_chat_ok" by (rule chat_port_pg)
  show "cache_laws C (pg_at t0) quiet view_of cache_content" by (rule assms)
qed (simp_all add: cached_at_def pg_NewChatRepository_def
    chat_port_idempotent.sim_UpdateMemberRole_any [OF chat_port_idempotent_pg, unfolded pg_NewChatRepository_def, simplified]
    chat_port_idempotent.sim_Update_any [OF chat_port_idempotent_pg, unfolded pg_NewChatRepository_def, simplified]
    pg_chats_content [THEN content_same])

interpretation cached_pg: cached_store_idempotent pg_NewChatRepository pg_user_GetByID
    "pg_at t0" quiet view_of pg_chat_ok mock_cache cache_content us "cached_at us t0"
  by (rule cached_pg [OF mock.cache_laws_axioms])

section \<open>The background sweep\<close>

lemma mock_deleteExpired_run:
  "\<exists>w'. mock_deleteExpired w = (Ok (), w') \<and> w_db w' = w_db w \<and> w_env w' \<in> {w_env w, w_env (w_step w)} \<and>
     w_cache w' \<subseteq>\<^sub>m w_cache w"
  by (auto simp: mock_deleteExpired_def call_def branch_def clock_now_def map_le_def dom_def split: option.splits if_splits)

lemma sweep_keeps:
  "cached_inv us w \<Longrightarrow> cached_inv us (snd (mock_runCleanup ins w)) \<and> view_of (snd (mock_runCleanup ins w)) = view_of w"
proof (induction ins arbitrary: w)
  case (Cons i ins)
  show ?case
  proof (cases i)
    case SweepTick
    obtain w' where w': "mock_deleteExpired w = (Ok (), w')" "w_db w' = w_db w"
      "w_env w' \<in> {w_env w, w_env (w_step w)}" "w_cache w' \<subseteq>\<^sub>m w_cache w"
      using mock_deleteExpired_run by blast
    from run_outside [OF w'(2,3)] coherent_le [OF _ cache_content_le [OF w'(4)]] Cons.prems
    have "cached_inv us w'" "view_of w' = view_of w" by (auto simp: cached_at_def)
    with Cons.IH [of w'] SweepTick w'(1) show ?thesis by (simp add: go_simps)
  next
    case SweepDone
    with Cons.prems show ?thesis by (simp add: ret_def)
  qed
qed (simp add: ret_def)

end
