(* ===== verification/ChatRefine.thy ===== *)
theory ChatRefine
  imports ChatGuard
begin

text \<open>
  The chat service as a whole refines its abstract specification: a sequence of requests answered by
  any back end that keeps the contract gives the answers, one by one, that the abstract store gives.
  Two back ends with the same abstract state therefore cannot be told apart.
\<close>

section \<open>Requests and answers\<close>

datatype chat_req = Write chat_op | ReadChat uuid uuid | ReadMembers uuid uuid | ReadChats uuid

datatype chat_answer = Done | GotChat Chat | GotMembers "ChatMember list" | GotChats "ChatPreview list"

text \<open>The users attached to a member list are no part of the answer compared.\<close>

fun serve :: "'w ChatRepository \<Rightarrow> (uuid \<Rightarrow> ('w, User) io) \<Rightarrow> time \<Rightarrow> uuid \<Rightarrow> chat_req \<Rightarrow> ('w, chat_answer) io" where
  "serve R g now newID (Write op) = call (run_op R g now newID op) (\<lambda>_. ret Done)"
| "serve R g now newID (ReadChat c u) = call (chats_GetChat R c u) (\<lambda>x. ret (GotChat x))"
| "serve R g now newID (ReadMembers c u) = call (chats_GetMembers R c u) (\<lambda>ms. ret (GotMembers (map strip_user ms)))"
| "serve R g now newID (ReadChats u) = call (chats_GetUserChats R u) (\<lambda>ps. ret (GotChats ps))"

fun serve_all :: "'w ChatRepository \<Rightarrow> (uuid \<Rightarrow> ('w, User) io) \<Rightarrow> (time \<times> uuid \<times> chat_req) list \<Rightarrow> 'w \<Rightarrow>
    (goerr, chat_answer) outcome list \<times> 'w" where
  "serve_all R g [] w = ([], w)"
| "serve_all R g ((now, newID, q) # qs) w =
     (let (r, w1) = serve R g now newID q w; (rs, w2) = serve_all R g qs w1 in (r # rs, w2))"

text \<open>New identifiers are fresh and callers exist; the texts are storable.\<close>

fun op_fits :: "(Chat \<Rightarrow> bool) \<Rightarrow> aview \<Rightarrow> time \<Rightarrow> uuid \<Rightarrow> chat_op \<Rightarrow> bool" where
  "op_fits chat_ok v now newID (OpCreateDirect u inp) \<longleftrightarrow> caller_pre v newID u \<and> chat_ok (direct_chat now newID u)"
| "op_fits chat_ok v now newID (OpCreateGroup u inp) \<longleftrightarrow> caller_pre v newID u \<and> chat_ok (new_group now newID u inp)"
| "op_fits chat_ok v now newID (OpUpdateGroup c u inp) \<longleftrightarrow> (\<forall>x. chat_lookup v c = Some x \<longrightarrow>
     UpdateGroupInput_Validate inp = None \<longrightarrow> chat_ok (edited_group now inp x))"
| "op_fits chat_ok v now newID _ \<longleftrightarrow> True"

fun req_fits :: "(Chat \<Rightarrow> bool) \<Rightarrow> aview \<Rightarrow> time \<Rightarrow> uuid \<Rightarrow> chat_req \<Rightarrow> bool" where
  "req_fits chat_ok v now newID (Write op) \<longleftrightarrow> op_fits chat_ok v now newID op"
| "req_fits chat_ok v now newID _ \<longleftrightarrow> True"

text \<open>What a back end that counts changed rows needs in addition: the write changes something.\<close>

fun op_moves :: "aview \<Rightarrow> time \<Rightarrow> chat_op \<Rightarrow> bool" where
  "op_moves v now (OpUpdateGroup c u inp) \<longleftrightarrow> retimed v c now"
| "op_moves v now (OpChangeMemberRole c u inp) \<longleftrightarrow> role_of v c (cri_UserID inp) \<noteq> Some (cri_Role inp)"
| "op_moves v now (OpLeaveChat c u) \<longleftrightarrow> (\<forall>m \<in> set_option (nextOwner (roster v c) u).
     role_of v c (mem_UserID m) \<noteq> Some MemberRoleOwner)"
| "op_moves v now _ \<longleftrightarrow> True"

fun req_moves :: "aview \<Rightarrow> time \<Rightarrow> chat_req \<Rightarrow> bool" where
  "req_moves v now (Write op) \<longleftrightarrow> op_moves v now op"
| "req_moves v now _ \<longleftrightarrow> True"

text \<open>A condition on every request, in the abstract state in which it is served.\<close>

fun all_along :: "(aview \<Rightarrow> time \<Rightarrow> uuid \<Rightarrow> chat_req \<Rightarrow> bool) \<Rightarrow> aview \<Rightarrow> (time \<times> uuid \<times> chat_req) list \<Rightarrow> bool" where
  "all_along P v [] \<longleftrightarrow> True"
| "all_along P v ((now, newID, q) # qs) \<longleftrightarrow> P v now newID q \<and>
     all_along P (snd (serve spec_chats sp_GetUser now newID q v)) qs"

lemma all_along_mono:
  "(\<And>v now newID q. P v now newID q \<Longrightarrow> Q v now newID q) \<Longrightarrow> all_along P v qs \<Longrightarrow> all_along Q v qs"
  by (induction qs arbitrary: v) auto

section \<open>One request\<close>

definition exact_run :: "('w \<Rightarrow> bool) \<Rightarrow> ('w \<Rightarrow> bool) \<Rightarrow> ('w \<Rightarrow> 'v) \<Rightarrow> ('a \<Rightarrow> 'b) \<Rightarrow> ('w, 'a) io \<Rightarrow> ('v, 'b) io \<Rightarrow> 'w \<Rightarrow> bool" where
  "exact_run I qt view obs m am w \<longleftrightarrow> I (snd (m w)) \<and> qt (snd (m w)) \<and>
     map_outcome id obs (fst (m w)) = fst (am (view w)) \<and> view (snd (m w)) = snd (am (view w))"

lemma exact_simulates:
  "simulates I qt view ok obs (view w) m am \<Longrightarrow> I w \<Longrightarrow> qt w \<Longrightarrow> ok \<Longrightarrow> exact_run I qt view obs m am w"
  by (erule simulatesE) (auto simp: exact_run_def)

lemma exact_upto:
  "sim_upto I qt view obs (view w) S m am \<Longrightarrow> I w \<Longrightarrow> qt w \<Longrightarrow> exact_run I qt view obs m am w"
  unfolding sim_upto_def exact_run_def by blast

lemma exact_answer:
  assumes "exact_run I qt view obs m am w" "\<And>a. f a = g (obs a)"
  shows "exact_run I qt view id (call m (\<lambda>a. ret (f a))) (call am (\<lambda>b. ret (g b))) w"
proof -
  from assms(1) have "fst (am (view w)) = map_outcome id obs (fst (m w))" by (simp add: exact_run_def)
  with assms show ?thesis
    by (cases "fst (m w)") (auto simp: exact_run_def call_def branch_def ret_def throw_def)
qed

lemma exact_const:
  "exact_run I qt view obs m am w \<Longrightarrow> exact_run I qt view id (call m (\<lambda>_. ret c)) (call am (\<lambda>_. ret c)) w"
  by (rule exact_answer) simp_all

lemma serve_all_exact_from:
  assumes step: "\<And>w now newID q. I w \<Longrightarrow> qt w \<Longrightarrow> P (view w) now newID q \<Longrightarrow>
      exact_run I qt view id (serve R g now newID q) (serve spec_chats sp_GetUser now newID q) w"
    and "I w" "qt w" "all_along P (view w) qs"
  shows "fst (serve_all R g qs w) = fst (serve_all spec_chats sp_GetUser qs (view w)) \<and>
     view (snd (serve_all R g qs w)) = snd (serve_all spec_chats sp_GetUser qs (view w))"
  using assms(2-4)
proof (induction qs arbitrary: w)
  case (Cons a qs)
  obtain now newID q where a: "a = (now, newID, q)" by (cases a)
  from Cons.prems have "exact_run I qt view id (serve R g now newID q) (serve spec_chats sp_GetUser now newID q) w"
    by (intro step) (simp_all add: a)
  then have one: "I (snd (serve R g now newID q w))" "qt (snd (serve R g now newID q w))"
    "fst (serve R g now newID q w) = fst (serve spec_chats sp_GetUser now newID q (view w))"
    "view (snd (serve R g now newID q w)) = snd (serve spec_chats sp_GetUser now newID q (view w))"
    by (simp_all add: exact_run_def outcome.map_id)
  from Cons.IH [OF one(1,2)] Cons.prems(3) one(3,4) show ?case
    by (simp add: a case_prod_beta Let_def)
qed simp

context chat_port begin

lemma run_op_exact_from:
  assumes w: "I w" "qt w" and fits: "op_fits chat_ok (view w) now newID op"
    and edit: "\<And>c u inp. op = OpUpdateGroup c u inp \<Longrightarrow> simulates I qt view (\<forall>x. chat_lookup (view w) c = Some x \<longrightarrow>
        UpdateGroupInput_Validate inp = None \<longrightarrow> chat_ok (edited_group now inp x)) id (view w)
      (chats_UpdateGroup R now c u inp) (chats_UpdateGroup spec_chats now c u inp)"
    and role: "\<And>c u inp. op = OpChangeMemberRole c u inp \<Longrightarrow> simulates I qt view True id (view w)
      (chats_ChangeMemberRole R c u inp) (chats_ChangeMemberRole spec_chats c u inp)"
    and leave: "\<And>c u. op = OpLeaveChat c u \<Longrightarrow> sim_upto I qt view id (view w) {view w, promoted (view w) c u}
      (chats_LeaveChat R c u) (chats_LeaveChat spec_chats c u)"
  shows "exact_run I qt view id (run_op R getUser now newID op) (run_op spec_chats sp_GetUser now newID op) w"
proof (cases op)
  case (OpCreateDirect u inp)
  with fits w show ?thesis
    by (auto intro!: exact_const exact_simulates [OF CreateDirect_sim])
next
  case (OpCreateGroup u inp)
  with fits w show ?thesis
    by (auto intro!: exact_const exact_simulates [OF CreateGroup_sim])
next
  case (OpUpdateGroup c u inp)
  with fits w show ?thesis
    by (auto intro!: exact_const exact_simulates [OF edit [OF OpUpdateGroup]])
next
  case (OpAddMember c u inp)
  with w show ?thesis by (simp add: exact_simulates [OF AddMember_sim])
next
  case (OpRemoveMember c u t)
  with w show ?thesis by (simp add: exact_simulates [OF RemoveMember_sim])
next
  case (OpChangeMemberRole c u inp)
  with w show ?thesis by (simp add: exact_simulates [OF role [OF OpChangeMemberRole]])
next
  case (OpLeaveChat c u)
  with w show ?thesis by (simp add: exact_upto [OF leave [OF OpLeaveChat]])
qed

lemma serve_exact_from:
  assumes w: "I w" "qt w"
    and run: "\<And>op. q = Write op \<Longrightarrow> exact_run I qt view id (run_op R getUser now newID op)
      (run_op spec_chats sp_GetUser now newID op) w"
  shows "exact_run I qt view id (serve R getUser now newID q) (serve spec_chats sp_GetUser now newID q) w"
proof (cases q)
  case (Write op)
  with run show ?thesis by (auto intro!: exact_const)
next
  case (ReadChat c u)
  then show ?thesis by (auto intro!: exact_answer [OF exact_simulates [OF GetChat_sim w]])
next
  case (ReadMembers c u)
  have "strip_user \<circ> strip_user = strip_user" by (auto simp: strip_user_def)
  with ReadMembers show ?thesis
    by (auto intro!: exact_answer [OF exact_simulates [OF GetMembers_sim w]])
next
  case (ReadChats u)
  then show ?thesis by (auto intro!: exact_answer [OF exact_simulates [OF GetUserChats_sim w]])
qed

lemma serve_all_moving:
  assumes "I w" "qt w" "all_along (\<lambda>v now newID q. req_fits chat_ok v now newID q \<and> req_moves v now q) (view w) qs"
  shows "fst (serve_all R getUser qs w) = fst (serve_all spec_chats sp_GetUser qs (view w)) \<and>
     view (snd (serve_all R getUser qs w)) = snd (serve_all spec_chats sp_GetUser qs (view w))"
proof (rule serve_all_exact_from [where I = I and qt = qt and view = view and w = w, OF _ assms])
  fix w now newID q assume w: "I w" "qt w" and q: "req_fits chat_ok (view w) now newID q \<and> req_moves (view w) now q"
  show "exact_run I qt view id (serve R getUser now newID q) (serve spec_chats sp_GetUser now newID q) w"
  proof (rule serve_exact_from [OF w])
    fix op assume "q = Write op"
    with q w show "exact_run I qt view id (run_op R getUser now newID op) (run_op spec_chats sp_GetUser now newID op) w"
      by (intro run_op_exact_from UpdateGroup_sim ChangeMemberRole_sim LeaveChat_sim view_wf) auto
  qed
qed

end

context chat_port_idempotent begin

lemma run_op_exact:
  "I w \<Longrightarrow> qt w \<Longrightarrow> op_fits chat_ok (view w) now newID op \<Longrightarrow>
     exact_run I qt view id (run_op R getUser now newID op) (run_op spec_chats sp_GetUser now newID op) w"
  by (intro run_op_exact_from UpdateGroup_sim_any ChangeMemberRole_sim_any LeaveChat_sim_any view_wf)

lemma serve_all_exact:
  assumes "I w" "qt w" "all_along (req_fits chat_ok) (view w) qs"
  shows "fst (serve_all R getUser qs w) = fst (serve_all spec_chats sp_GetUser qs (view w)) \<and>
     view (snd (serve_all R getUser qs w)) = snd (serve_all spec_chats sp_GetUser qs (view w))"
proof (rule serve_all_exact_from [where I = I and qt = qt and view = view and w = w, OF _ assms])
  fix w now newID q assume "I w" "qt w" "req_fits chat_ok (view w) now newID q"
  then show "exact_run I qt view id (serve R getUser now newID q) (serve spec_chats sp_GetUser now newID q) w"
    by (intro serve_exact_from run_op_exact) auto
qed

end

end
