(* ===== verification/CachedProps.thy ===== *)
theory CachedProps
  imports CachedPg ChatRefine ChatProps
begin

text \<open>
  The properties of the chat service with its cache in place, as cmd/app/main.go wires it: the cached
  chat repository of storage/cached over PostgreSQL, with any cache that keeps the contract
  \<open>cache_laws\<close>, and the users read from the store itself.
\<close>

text \<open>The wired repository.\<close>

abbreviation wired_chats :: "(uuid \<Rightarrow> string) \<Rightarrow> world Cache \<Rightarrow> duration \<Rightarrow> duration \<Rightarrow> world ChatRepository" where
  "wired_chats us C t1 t2 \<equiv> cached_NewChatRepository us pg_NewChatRepository (Some C) t1 t2"

lemma wired:
  "lawful_cache C \<Longrightarrow> chat_port_idempotent (wired_chats us C t1 t2) pg_user_GetByID (cached_inv us)
     quiet view_of pg_chat_ok"
  by (rule cached_store_idempotent.cached_chat_port_idempotent [OF cached_pg])

section \<open>Witness: hexadecimal identifiers\<close>

definition hex_digit :: "uuid \<Rightarrow> nat \<Rightarrow> char" where
  "hex_digit u i = ''0123456789abcdef'' ! unat (take_bit 4 (drop_bit (4 * i) u))"

definition hex_uuid :: "uuid \<Rightarrow> string" where
  "hex_uuid u = ''uuid'' @ map (hex_digit u) [0..<32]"

lemma hex_digit_inj: "hex_digit u i = hex_digit x i \<Longrightarrow> take_bit 4 (drop_bit (4 * i) u) = take_bit 4 (drop_bit (4 * i) x)"
proof -
  have lt: "unat (take_bit 4 w) < 16" for w :: uuid
    using take_bit_nat_less_exp [of 4 "unat w"] by (simp add: unsigned_take_bit_eq)
  have d: "distinct ''0123456789abcdef''" "length ''0123456789abcdef'' = 16" by simp_all
  show "take_bit 4 (drop_bit (4 * i) u) = take_bit 4 (drop_bit (4 * i) x)" if "hex_digit u i = hex_digit x i"
    using that nth_eq_iff_index_eq [OF d(1)] lt unfolding hex_digit_def d(2) by (metis word_unat_eq_iff)
qed

lemma hex_uuid_text: "uuid_text hex_uuid"
  unfolding uuid_text_def
proof (intro conjI allI injI)
  fix u x :: uuid assume eq: "hex_uuid u = hex_uuid x"
  show "u = x"
  proof (rule bit_word_eqI)
    fix n assume "n < LENGTH(128)"
    then have i: "n div 4 < 32" by simp
    have "map (hex_digit u) [0..<32] = map (hex_digit x) [0..<32]" using eq by (simp add: hex_uuid_def)
    then have "hex_digit u (n div 4) = hex_digit x (n div 4)"
      using i by (metis atLeastLessThan_iff map_eq_conv set_upt zero_le)
    from hex_digit_inj [OF this]
    have "bit (take_bit 4 (drop_bit (4 * (n div 4)) u)) (n mod 4) = bit (take_bit 4 (drop_bit (4 * (n div 4)) x)) (n mod 4)"
      by simp
    then show "bit u n = bit x n" by (simp add: bit_take_bit_iff bit_drop_bit_eq)
  qed
qed (simp add: hex_uuid_def)

lemma demo_cached [simp]: "cached_inv hex_uuid demo" "cached_inv hex_uuid (demo_fault p)"
  using cached_inv_empty [OF pg_inv_demo(1) hex_uuid_text] cached_inv_empty [OF pg_inv_demo(2) hex_uuid_text]
  by (simp_all add: demo_def demo_fault_def)

section \<open>The service refines its specification\<close>

text \<open>C10: Without failures the chat service on PostgreSQL answers every sequence of requests exactly as
  the abstract store does, request by request, and ends in its state.\<close>

theorem pg_chats_refine_spec:
  assumes "pg_inv w" "quiet w" "all_along (req_fits pg_chat_ok) (view_of w) qs"
  shows "fst (serve_all pg_NewChatRepository pg_user_GetByID qs w) = fst (serve_all spec_chats sp_GetUser qs (view_of w)) \<and>
     view_of (snd (serve_all pg_NewChatRepository pg_user_GetByID qs w)) = snd (serve_all spec_chats sp_GetUser qs (view_of w))"
  by (rule chat_port_idempotent.serve_all_exact [OF chat_port_idempotent_pg assms])

text \<open>The admin removes a member, who then asks for the chat; the owner leaves, and the admin, now the
  owner, asks for the members.\<close>

definition demo_requests :: "(time \<times> uuid \<times> chat_req) list" where
  "demo_requests = [(50, 12, Write (OpRemoveMember 10 2 3)), (51, 14, ReadChat 10 3),
     (52, 15, Write (OpLeaveChat 10 1)), (53, 16, ReadMembers 10 2)]"

lemma demo_requests_fit: "all_along (req_fits ok) v demo_requests"
  by (simp add: demo_requests_def)

lemma demo_answers: "fst (serve_all spec_chats sp_GetUser demo_requests demo_view) =
    [Ok Done, Err (Dom ErrNotChatMember), Ok Done,
     Ok (GotMembers [member_of_row (demo_member 10 2 ''owner'' 8)])]"
  unfolding demo_view_def demo_requests_def by code_simp

theorem pg_chats_refine_spec_witness:
  "fst (serve_all pg_NewChatRepository pg_user_GetByID demo_requests demo) =
     [Ok Done, Err (Dom ErrNotChatMember), Ok Done,
      Ok (GotMembers [member_of_row (demo_member 10 2 ''owner'' 8)])]"
  using pg_chats_refine_spec [of demo demo_requests] by (simp add: demo_requests_fit demo_answers)

text \<open>C11: The cache is invisible: over any cache that keeps its contract, whatever it has lost, every
  sequence of requests gets the same answers as without a cache and leaves the same tables.\<close>

theorem cached_chats_invisible:
  assumes "lawful_cache C" "cached_inv us w" "quiet w" "all_along (req_fits pg_chat_ok) (view_of w) qs"
  shows "fst (serve_all (wired_chats us C t1 t2) pg_user_GetByID qs w) =
       fst (serve_all pg_NewChatRepository pg_user_GetByID qs w) \<and>
     view_of (snd (serve_all (wired_chats us C t1 t2) pg_user_GetByID qs w)) =
       view_of (snd (serve_all pg_NewChatRepository pg_user_GetByID qs w))"
proof -
  from assms(2) have "pg_inv w" by (simp add: cached_at_def)
  from chat_port_idempotent.serve_all_exact [OF chat_port_idempotent_pg this assms(3,4)]
    chat_port_idempotent.serve_all_exact [OF wired [OF assms(1)] assms(2-4), of t1 t2]
  show ?thesis by simp
qed

theorem cached_chats_invisible_witness:
  "fst (serve_all (wired_chats hex_uuid mock_cache 60 30) pg_user_GetByID
       demo_requests demo) =
     fst (serve_all pg_NewChatRepository pg_user_GetByID demo_requests demo)"
  using cached_chats_invisible [OF mock.cache_laws_axioms demo_cached(1) quiet_demo, of demo_requests 60 30]
  by (simp add: demo_requests_fit)

text \<open>With the cache in place, and whatever statements fail, every live group keeps an owner.\<close>

theorem cached_groups_always_owned:
  assumes "lawful_cache C" "cached_inv us w0" "groups_owned (view_of w0)"
    and "chat_reach (wired_chats us C t1 t2) pg_user_GetByID view_of w0 w"
  shows "groups_owned (view_of w)"
  using chat_port_idempotent.reach_groups_owned [OF wired [OF assms(1)] assms(4,2,3)] by blast

theorem cached_groups_always_owned_witness:
  "groups_owned (view_of (snd (run_op (wired_chats hex_uuid mock_cache 60 30)
     pg_user_GetByID 50 12 (OpLeaveChat 10 1) (demo_fault 4))))"
  by (rule cached_groups_always_owned [OF mock.cache_laws_axioms demo_cached(2) _ reach_one])
    (simp_all add: demo_owned)

text \<open>C12: Over a cache that obeys its contract, in which no write and no deletion fails (the in-memory
  cache does, Redis need not), a cached membership is never stale: from a state in which the entries
  agree with the tables, after any sequence of chat use cases, whatever SQL statements fail, an answer
  of \<open>IsMember\<close>, by which every read and every message is authorised, is the membership in the
  tables.  Without the contract it is not, as \<open>lost_invalidation_keeps_access\<close> shows.\<close>

theorem cached_membership_fresh:
  assumes "lawful_cache C" "cached_inv us w0"
    and "chat_reach (wired_chats us C t1 t2) pg_user_GetByID view_of w0 w"
    and "fst (cached_chat_IsMember us C t2 pg_NewChatRepository c u w) = Ok b"
  shows "b = is_member (view_of w) c u"
proof -
  note port = wired [OF assms(1), of us t1 t2]
  have "cached_inv us w" by (rule chat_port_idempotent.reach_inv [OF port assms(3,2)])
  moreover have "simulates (cached_inv us) quiet view_of True id (view_of w)
      (cached_chat_IsMember us C t2 pg_NewChatRepository c u) (sp_IsMember c u)"
    using chat_port.sim_IsMember [OF chat_port_idempotent.axioms(1) [OF port], of "view_of w" c u]
    by (simp add: cached_NewChatRepository_def)
  ultimately show ?thesis
    using assms(4) by (elim simulatesE) (auto simp: sp_IsMember_def)
qed

lemma demo_removed:
  fixes t1 t2
  defines "w \<equiv> snd (run_op (wired_chats hex_uuid mock_cache t1 t2) pg_user_GetByID
      50 12 (OpRemoveMember 10 2 3) demo)"
  shows "fst (cached_chat_IsMember hex_uuid mock_cache t2 pg_NewChatRepository 10 3 w) = Ok False"
proof -
  note port = wired [OF mock.cache_laws_axioms, of hex_uuid t1 t2]
  have "exact_run (cached_inv hex_uuid) quiet view_of id
      (run_op (wired_chats hex_uuid mock_cache t1 t2) pg_user_GetByID 50 12 (OpRemoveMember 10 2 3))
      (run_op spec_chats sp_GetUser 50 12 (OpRemoveMember 10 2 3)) demo"
    by (rule chat_port_idempotent.run_op_exact [OF port]) simp_all
  then have w: "cached_inv hex_uuid w" "quiet w"
    "view_of w = snd (run_op spec_chats sp_GetUser 50 12 (OpRemoveMember 10 2 3) demo_view)"
    by (simp_all add: exact_run_def w_def)
  have "exact_run (cached_inv hex_uuid) quiet view_of id
      (cached_chat_IsMember hex_uuid mock_cache t2 pg_NewChatRepository 10 3) (sp_IsMember 10 3) w"
    using chat_port.sim_IsMember [OF chat_port_idempotent.axioms(1) [OF port], of "view_of w" 10 3] w(1,2)
    by (intro exact_simulates) (simp_all add: cached_NewChatRepository_def)
  moreover have "\<not> is_member (snd (run_op spec_chats sp_GetUser 50 12 (OpRemoveMember 10 2 3) demo_view)) 10 3"
    unfolding demo_view_def by code_simp
  ultimately show ?thesis by (simp add: exact_run_def sp_IsMember_def w(3) outcome.map_id)
qed

theorem cached_membership_fresh_witness:
  "\<not> is_member (view_of (snd (run_op (wired_chats hex_uuid mock_cache 60 30)
         pg_user_GetByID 50 12 (OpRemoveMember 10 2 3) demo))) 10 3"
  using cached_membership_fresh [OF mock.cache_laws_axioms demo_cached(1) reach_one demo_removed] by simp

section \<open>What the contract is needed for\<close>

text \<open>The errors of invalidations are dropped: if the cache cannot remove the entries, a removed member
  still passes \<open>IsMember\<close> for as long as the entry lives.\<close>

theorem lost_invalidation_keeps_access:
  assumes "\<And>k w. cache_Del C k w = (Err e, w)"
    and "cached_chat_RemoveMember us C pg_NewChatRepository c u w = (Ok (), w1)" "pg_inv w"
    and "fst (cache_Get C (isMemberKey us c u) w1) = Ok (Text ''1'')"
  shows "fst (cached_chat_IsMember us C ttl pg_NewChatRepository c u w1) = Ok True \<and> \<not> is_member (view_of w1) c u"
proof
  show "fst (cached_chat_IsMember us C ttl pg_NewChatRepository c u w1) = Ok True"
    using assms(4) by (simp add: cached_chat_IsMember_def read_through_def Let_def branch_def ret_def)
  have forget: "forget_member us C c u x = (Ok (), x)" for x
    by (simp add: forget_member_def ignore_err_def branch_def call_def ret_def assms(1))
  from assms(2) have "cr_RemoveMember pg_NewChatRepository c u w = (Ok (), w1)"
    by (auto simp: cached_chat_RemoveMember_def go_elims forget)
  from simulates_Ok [OF pg.sim_RemoveMember assms(3) refl this] show "\<not> is_member (view_of w1) c u"
    by (simp add: sp_write_run(1) without_member_def is_member_iff)
qed

end
