(* ===== verification/MyChatSim.thy ===== *)
theory MyChatSim
  imports TableSim MyChat MyUser PgPreview
begin

text \<open>
  The MySQL chat repository implements the chat port: every method of storage/mysql/chat.go
  simulates the abstract operation of the contract, on tables that satisfy \<open>my_wf\<close>, which every
  method preserves.  MySQL counts changed rows, so an update that changes nothing reports a missing
  row; the plain port, without \<open>chat_port_idempotent\<close>, leaves room for that.
\<close>

section \<open>Integrity of the MySQL tables\<close>

definition my_wf :: "db \<Rightarrow> bool" where
  "my_wf d \<longleftrightarrow> db_wf d \<and>
     (\<forall>r \<in> set (tb_chats d). first_violation (my_chat_checks r) = None \<and> cc_name r \<noteq> Some [])"

abbreviation my_at :: "time \<Rightarrow> world \<Rightarrow> bool" where
  "my_at \<equiv> table_inv my_wf"

abbreviation my_inv :: "world \<Rightarrow> bool" where
  "my_inv \<equiv> my_at 0"

text \<open>The chats whose texts the columns accept: valid UTF-8 within the widths.\<close>

definition my_chat_ok :: "Chat \<Rightarrow> bool" where
  "my_chat_ok c \<longleftrightarrow> ValidString (chat_Name c) \<and> ValidString (chat_AvatarURL c) \<and>
     ValidString (chat_Description c) \<and> RuneCountInString (chat_Name c) \<le> 100 \<and>
     length (chat_AvatarURL c) \<le> text_limit \<and> RuneCountInString (chat_Description c) \<le> 500"

lemma my_nullable_eq: "my_nullableStr = pg_nullableStr"
  by (simp add: my_nullableStr_def pg_nullableStr_def fun_eq_iff)

lemma ValidString_Nil: "ValidString []"
  by (simp add: ValidString_ascii is_ascii_def)

lemma my_nullable_ok [simp]:
  "opt_valid (pg_nullableStr s) \<longleftrightarrow> ValidString s" "opt_runes (pg_nullableStr s) = RuneCountInString s"
  "opt_bytes (pg_nullableStr s) = length s"
  by (auto simp: pg_nullableStr_def opt_valid_def opt_runes_def opt_bytes_def ValidString_Nil
      RuneCountInString_def runes_def bytes_of_def)

lemma my_written_checks:
  assumes "my_chat_ok c" "cc_type r \<in> {ChatTypeDirect, ChatTypeGroup}" "name_rule (cc_type r) (chat_Name c)"
    "cc_name r = pg_nullableStr (chat_Name c)" "cc_avatar_url r = pg_nullableStr (chat_AvatarURL c)"
    "cc_description r = pg_nullableStr (chat_Description c)"
  shows "first_violation (my_chat_checks r) = None"
  using assms
  by (auto simp: my_chat_checks_def my_chat_ok_def name_rule_def enum_member_def ChatTypeDirect_def
      ChatTypeGroup_def)

lemma role_pre_values: "role_pre r \<Longrightarrow> enum_member r my_role_values"
  by (auto simp: role_pre_def enum_member_def my_role_values_def MemberRoleOwner_def MemberRoleAdmin_def
      MemberRoleMember_def)

interpretation my_tables: chat_tables my_wf "\<lambda>_. True"
    "\<lambda>r. first_violation (my_chat_checks r) = None \<and> cc_name r \<noteq> Some []" my_scanMemberWithUser my_chat_ok
    my_insert_chat my_insert_member
proof (unfold_locales, goal_cases)
  case (1 d) then show ?case by (simp add: my_wf_def)
next
  case (2 a m) then show ?case by (simp add: my_scanMemberWithUser_def strip_user_def member_of_row_def)
next
  case (3 r x t) then show ?case by (simp add: my_chat_checks_def)
next
  case (4 r) then show ?case
    by (auto simp: my_chat_checks_def name_rule_def null_text_def split: if_splits option.splits)
next
  case (5 c d n d') then show ?case
    by (auto simp: my_insert_chat_def first_violation_append_None split: option.splits)
next
  case (6 c d e)
  have "\<not> (first_violation (my_chat_checks (new_chat_row c)) = None \<and> first_violation (my_chat_keys d (new_chat_row c)) = None)"
    using 6(1) first_violation_append_None [of "my_chat_checks (new_chat_row c)" "my_chat_keys d (new_chat_row c)"]
    by (auto simp: my_insert_chat_def split: option.splits)
  then have "first_violation (my_chat_checks (new_chat_row c)) \<noteq> None"
    using 6(2,3) by (simp add: my_chat_keys_def)
  with my_written_checks [of c "new_chat_row c"] 6(4,5) show ?case
    by (auto simp: new_chat_row_def)
next
  case (7 d m) then show ?case
    by (simp add: my_insert_member_def my_member_fks_def role_pre_values)
qed

section \<open>Reads\<close>

lemma my_scanChat_eq: "my_scanChat = pg_scanChat"
  by (auto simp: my_scanChat_def pg_scanChat_def null_text_def fun_eq_iff)

lemma my_chat_GetByID_eq: "my_chat_GetByID c = pg_chat_GetByID c"
  by (simp add: my_chat_GetByID_def pg_chat_GetByID_def my_scanChat_eq)

lemma my_chat_GetDirectChat_eq: "my_chat_GetDirectChat a b = pg_chat_GetDirectChat a b"
  by (simp add: my_chat_GetDirectChat_def pg_chat_GetDirectChat_def my_scanChat_eq)

lemma my_chat_IsMember_sim:
  "simulates (my_at t0) quiet view_of True id v (my_chat_IsMember c u) (sp_IsMember c u)"
  unfolding my_chat_IsMember_def db_queryRow_def
  by (rule sim_call_stmt) (auto simp: ret_def sp_IsMember_def is_member_view split: if_splits)

lemma my_chat_GetMember_sim:
  "simulates (my_at t0) quiet view_of True strip_user v (my_chat_GetMember c u) (sp_GetMember c u)"
  unfolding my_chat_GetMember_def by (rule my_tables.GetMember_sim)

lemma my_scanRows_eq: "my_scanMemberWithUserRows = my_scanMemberWithUser"
  by (simp add: my_scanMemberWithUserRows_def my_scanMemberWithUser_def fun_eq_iff)

lemma my_chat_GetMembers_sim:
  "simulates (my_at t0) quiet view_of True (map strip_user) v (my_chat_GetMembers c) (sp_GetMembers c)"
  unfolding my_chat_GetMembers_def my_scanRows_eq by (rule my_tables.GetMembers_sim)

section \<open>Writes\<close>

lemma my_chat_RemoveMember_eq: "my_chat_RemoveMember c u = pg_chat_RemoveMember c u"
  by (simp add: my_chat_RemoveMember_def pg_chat_RemoveMember_def)

lemma my_chat_Delete_sim:
  "simulates (my_at t0) quiet view_of True id v (my_chat_Delete c) (sp_Delete c)"
  unfolding my_chat_Delete_def db_exec_def
proof (rule sim_call_stmt)
  fix d :: db and t a d' and w :: world
  let ?g = "\<lambda>r. r\<lparr>cc_deleted_at := Some t, cc_updated_at := t\<rparr>"
  assume d: "my_wf d" "db_view d = v"
    and f: "(let (n, rs) = sql_update_changed (\<lambda>r. cc_id r = c \<and> cc_deleted_at r = None) ?g (tb_chats d)
        in Inr (n, d\<lparr>tb_chats := rs\<rparr>)) = Inr (a, d')"
  then have "my_wf d' \<and> db_view d' = snd (sp_Delete c v)"
    by (intro my_tables.chat_deleted [OF d, of ?g t]) (auto simp: sql_update_changed_def)
  then show "my_wf d' \<and> map_outcome id id (fst (ret () w)) = fst (sp_Delete c v) \<and>
      db_view d' = snd (sp_Delete c v)"
    by (simp add: ret_def sp_Delete_def)
qed (auto simp: ret_def sql_update_changed_def)

text \<open>A row that matches changes, so the count is that of the matching rows.\<close>

lemma changed_count:
  "(\<And>r. r \<in> set rs \<Longrightarrow> P r \<Longrightarrow> f r \<noteq> r) \<Longrightarrow> length (filter (\<lambda>r. P r \<and> f r \<noteq> r) rs) = length (filter P rs)"
  by (intro arg_cong [where f = length] filter_cong) auto

lemma role_row:
  assumes "db_wf d" "db_view d = v" "m \<in> set (tb_members d)"
  shows "role_of v (mc_chat_id m) (mc_user_id m) = Some (mc_role m)"
proof -
  have "filter (\<lambda>x. (mc_chat_id x, mc_user_id x) = (mc_chat_id m, mc_user_id m)) (tb_members d) = [m]"
    using assms by (intro filter_distinct_key) (auto simp: db_wf_def)
  with assms(2) show ?thesis by (auto simp: role_of_def member_lookup_view find_filter_hd)
qed

lemma my_chat_UpdateMemberRole_sim:
  assumes r: "role_pre r" and change: "role_of v c u \<noteq> Some r"
  shows "simulates (my_at t0) quiet view_of True id v
     (my_chat_UpdateMemberRole c u r) (sp_UpdateMemberRole c u r)"
  unfolding my_chat_UpdateMemberRole_def db_exec_def
proof (rule sim_call_stmt)
  fix d :: db and t n d' and w :: world
  let ?P = "\<lambda>m. mc_chat_id m = c \<and> mc_user_id m = u"
  assume d: "my_wf d" "db_view d = v"
    and f: "(let P = ?P; (n, rs) = sql_update_changed P (mc_role_update (\<lambda>_. r)) (tb_members d)
        in if filter P (tb_members d) \<noteq> [] \<and> \<not> enum_member r my_role_values then Inl data_truncated
           else Inr (n, d\<lparr>tb_members := rs\<rparr>)) = Inr (n, d')"
  have "m\<lparr>mc_role := r\<rparr> \<noteq> m" if "m \<in> set (tb_members d)" "?P m" for m
  proof
    assume "m\<lparr>mc_role := r\<rparr> = m"
    then have "mc_role m = r" by (metis member_row.select_convs(3) member_row.surjective member_row.update_convs(3))
    with role_row [OF my_tables.W_db [OF d(1)] d(2) that(1)] that(2) change show False by simp
  qed
  then have "length (filter (\<lambda>m. ?P m \<and> m\<lparr>mc_role := r\<rparr> \<noteq> m) (tb_members d)) = length (filter ?P (tb_members d))"
    by (rule changed_count)
  with f have d': "d' = d\<lparr>tb_members := map (\<lambda>m. if ?P m then m\<lparr>mc_role := r\<rparr> else m) (tb_members d)\<rparr>"
    "n = length (filter ?P (tb_members d))"
    using role_pre_values [OF r] by (auto simp: sql_update_changed_def Let_def)
  show "my_wf d' \<and> map_outcome id id (fst ((if n = 0 then throw (Dom ErrNotChatMember)
        else ret ()) w)) = fst (sp_UpdateMemberRole c u r v) \<and>
      db_view d' = snd (sp_UpdateMemberRole c u r v)"
    using my_tables.role_written [OF d, of c u r] d(2) unfolding d'
    by (cases "is_member v c u") (auto simp: sp_UpdateMemberRole_def throw_def ret_def)
qed (use role_pre_values [OF r] in \<open>auto simp: ret_def throw_def sql_update_changed_def Let_def\<close>)

lemma my_chat_AddMember_sim:
  assumes pre: "add_pre v m"
  shows "simulates (my_at t0) quiet view_of True id v (my_chat_AddMember m) (sp_AddMember m)"
  unfolding my_chat_AddMember_def new_member_row_def [symmetric]
  by (rule my_tables.AddMember_sim [OF pre])
    (use pre role_pre_values in \<open>simp add: my_insert_ignore_member_def my_member_fks_def add_pre_def\<close>)

lemma my_chat_CreateWithMembers_sim:
  "create_pre v c ms \<Longrightarrow> simulates (my_at t0) quiet view_of (my_chat_ok c) id v
     (my_chat_CreateWithMembers c ms) (sp_CreateWithMembers c ms)"
  unfolding my_chat_CreateWithMembers_def my_nullable_eq new_chat_row_def [symmetric]
    new_member_row_def [symmetric]
  by (rule my_tables.CreateWithMembers_sim)

lemma my_chat_Update_sim:
  assumes pre: "update_pre v ch" and time: "retimed v (chat_ID ch) (chat_UpdatedAt ch)"
  shows "simulates (my_at t0) quiet view_of (my_chat_ok ch) id v (my_chat_Update ch) (sp_Update ch)"
proof -
  let ?P = "\<lambda>r. cc_id r = chat_ID ch \<and> cc_deleted_at r = None"
  let ?f = "\<lambda>r. if ?P r then set_chat_cols ch r else r"
  define F where "F = (\<lambda>d :: db. case first_violation
      (concat (map (\<lambda>r. my_chat_checks (set_chat_cols ch r)) (filter ?P (tb_chats d)))) of
      Some e \<Rightarrow> Inl e
    | None \<Rightarrow> Inr (length (filter (\<lambda>r. ?P r \<and> set_chat_cols ch r \<noteq> r) (tb_chats d)), d\<lparr>tb_chats := map ?f (tb_chats d)\<rparr>))"
  have op: "my_chat_Update ch = call (db_stmt (\<lambda>_. F)) (\<lambda>n.
      if n = 0 then throw (Dom ErrChatNotFound) else ret ())"
    unfolding my_chat_Update_def db_exec_def F_def set_chat_cols_def Let_def sql_update_changed_def my_nullable_eq
    by (simp only: prod.case)
  show ?thesis
    unfolding op
  proof (rule sim_call_stmt)
    fix d :: db and t n d' and w :: world
    assume d: "my_wf d" "db_view d = v" and f: "F d = Inr (n, d')"
    have "set_chat_cols ch r \<noteq> r" if "r \<in> set (tb_chats d)" "?P r" for r
    proof
      assume "set_chat_cols ch r = r"
      then have "cc_updated_at (set_chat_cols ch r) = cc_updated_at r" by (rule arg_cong)
      then have "cc_updated_at r = chat_UpdatedAt ch" by (simp add: set_chat_cols_def)
      with my_tables.updated_row_name(2) [OF d pre that(1)] that(2) time show False
        by (simp add: retimed_def chat_of_row_def)
    qed
    then have "length (filter (\<lambda>r. ?P r \<and> set_chat_cols ch r \<noteq> r) (tb_chats d)) = length (filter ?P (tb_chats d))"
      by (rule changed_count)
    with f have d': "d' = d\<lparr>tb_chats := map ?f (tb_chats d)\<rparr>" "n = length (filter ?P (tb_chats d))"
      and viol: "\<And>r. r \<in> set (tb_chats d) \<Longrightarrow> ?P r \<Longrightarrow>
          first_violation (my_chat_checks (set_chat_cols ch r)) = None \<and> cc_name (set_chat_cols ch r) \<noteq> Some []"
      by (auto simp: F_def first_violation_concat_None split: option.splits if_splits)
    note wrote = my_tables.chat_written [OF d viol]
    show "my_wf d' \<and> map_outcome id id (fst ((if n = 0 then throw (Dom ErrChatNotFound)
        else ret ()) w)) = fst (sp_Update ch v) \<and> db_view d' = snd (sp_Update ch v)"
    proof (cases "chat_lookup v (chat_ID ch) = None")
      case True
      with wrote have "map ?f (tb_chats d) = tb_chats d" "n = 0" unfolding d'(2) by blast+
      then have "d' = d" "n = 0" unfolding d'(1) by simp_all
      with True d show ?thesis by (simp add: sp_Update_def throw_def)
    next
      case False
      with wrote have "n \<noteq> 0" "my_wf d'" "db_view d' = snd (sp_Update ch v)" unfolding d' by blast+
      with False show ?thesis by (simp add: sp_Update_def ret_def)
    qed
  next
    fix d e assume d: "my_wf d" "db_view d = v" and f: "F d = Inl e"
    show "\<not> my_chat_ok ch"
    proof
      assume ok: "my_chat_ok ch"
      have "first_violation (my_chat_checks (set_chat_cols ch r)) = None"
        if r: "r \<in> set (tb_chats d)" "?P r" for r
      proof (rule my_written_checks [OF ok])
        have "first_violation (my_chat_checks r) = None" using d(1) r(1) by (simp add: my_wf_def)
        then show "cc_type (set_chat_cols ch r) \<in> {ChatTypeDirect, ChatTypeGroup}"
          by (auto simp: my_chat_checks_def enum_member_def set_chat_cols_def ChatTypeDirect_def
              ChatTypeGroup_def split: if_splits)
        show "name_rule (cc_type (set_chat_cols ch r)) (chat_Name ch)"
          using my_tables.updated_row_name(1) [OF d pre r(1)] r(2) by (simp add: set_chat_cols_def)
      qed (simp_all add: set_chat_cols_def)
      then have "first_violation (concat (map (\<lambda>r. my_chat_checks (set_chat_cols ch r))
          (filter ?P (tb_chats d)))) = None"
        by (simp add: first_violation_concat_None)
      with f show False by (simp add: F_def)
    qed
  qed (auto simp: ret_def throw_def)
qed

section \<open>The chat list\<close>

lemma filter_unique:
  assumes "distinct xs" "\<And>x y. x \<in> set xs \<Longrightarrow> y \<in> set xs \<Longrightarrow> P x \<Longrightarrow> P y \<Longrightarrow> x = y"
  shows "filter P xs = (case find P xs of None \<Rightarrow> [] | Some x \<Rightarrow> [x])"
  using assms
proof (induction xs)
  case (Cons x xs)
  show ?case
  proof (cases "P x")
    case True
    with Cons.prems have "filter P xs = []" by (auto simp: filter_empty_conv)
    with True show ?thesis by simp
  qed (use Cons in simp)
qed simp

text \<open>The first row of a partition is the row with no later one in its chat.\<close>

lemma my_last_rows:
  assumes "db_wf d" "uc \<in> set (ucs :: chat_row list)"
  shows "filter (\<lambda>m. gc_chat_id m = cc_id uc) (my_last_messages d ucs) =
     filter (\<lambda>m. gc_chat_id m = cc_id uc) (pg_last_messages d ucs)"
proof -
  let ?k = "\<lambda>m. (gc_chat_id m, - int (gc_created_at m), - uint (gc_id m))"
  let ?ms = "filter (\<lambda>m. gc_chat_id m = cc_id uc \<and> gc_deleted_at m = None) (tb_messages d)"
  let ?all = "filter (\<lambda>m. gc_chat_id m \<in> set (map cc_id ucs) \<and> gc_deleted_at m = None) (tb_messages d)"
  let ?last = "\<lambda>x. \<forall>y \<in> set ?ms. \<not> ?k y < ?k x"
  have ids: "distinct (map gc_id (tb_messages d))" using assms(1) by (simp add: db_wf_def)
  have same: "x = y" if "x \<in> set ?ms" "y \<in> set ?ms" "gc_id x = gc_id y" for x y
    using that distinct_map_inj [OF ids] by simp
  have inj: "inj_on ?k (set ?ms)"
    by (rule inj_onI) (use same in \<open>auto simp: word_uint_eq_iff\<close>)
  have all: "filter (\<lambda>m. gc_chat_id m = cc_id uc) ?all = ?ms"
    using assms(2) by (auto intro: filter_cong)
  have "my_row_number ?all m = 1 \<longleftrightarrow> ?last m" if m: "m \<in> set ?ms" for m
  proof -
    let ?L = "\<lambda>n. (gc_created_at m, gc_id m) < (gc_created_at n, gc_id n)"
    have "filter (\<lambda>n. gc_chat_id n = gc_chat_id m \<and> ?L n) ?all = filter ?L (filter (\<lambda>n. gc_chat_id n = gc_chat_id m) ?all)"
      by (simp only: filter_filter conj_assoc)
    also have "gc_chat_id m = cc_id uc" using m by simp
    finally have "my_row_number ?all m = Suc (length (filter ?L ?ms))"
      unfolding my_row_number_def all using m by simp
    then have "my_row_number ?all m = 1 \<longleftrightarrow> (\<forall>n \<in> set ?ms. \<not> ?L n)"
      by (simp only: One_nat_def nat.inject length_0_conv filter_empty_conv)
    also have "\<dots> \<longleftrightarrow> ?last m"
      by (rule ball_cong [OF refl], rule arg_cong [where f = Not])
        (use m in \<open>auto simp: less_prod_def word_less_def\<close>)
    finally show ?thesis .
  qed
  then have "filter (\<lambda>m. my_row_number ?all m = 1) ?ms = filter ?last ?ms"
    by (intro filter_cong) auto
  moreover have "filter (\<lambda>m. gc_chat_id m = cc_id uc) (filter (\<lambda>m. my_row_number ?all m = 1) ?all) =
      filter (\<lambda>m. my_row_number ?all m = 1) (filter (\<lambda>m. gc_chat_id m = cc_id uc) ?all)"
    by (simp only: filter_filter conj_ac)
  ultimately have "filter (\<lambda>m. gc_chat_id m = cc_id uc) (my_last_messages d ucs) = filter ?last ?ms"
    by (simp only: my_last_messages_def Let_def all)
  also have "\<dots> = (case find ?last ?ms of None \<Rightarrow> [] | Some x \<Rightarrow> [x])"
  proof (rule filter_unique)
    show "distinct ?ms" using ids by (simp add: distinct_map)
    fix x y assume "x \<in> set ?ms" "y \<in> set ?ms" "?last x" "?last y"
    then have "?k x = ?k y" by (meson antisym not_less)
    from inj_onD [OF inj this \<open>x \<in> set ?ms\<close> \<open>y \<in> set ?ms\<close>] show "x = y" .
  qed
  also have "\<dots> = take 1 (sort_key ?k ?ms)" by (rule take1_sort_key [OF inj, symmetric])
  also have "\<dots> = filter (\<lambda>m. gc_chat_id m = cc_id uc) (pg_last_messages d ucs)"
  proof -
    have "filter (\<lambda>m. gc_chat_id m = cc_id uc \<and> gc_chat_id m \<in> set (map cc_id ucs) \<and>
        gc_deleted_at m = None) (tb_messages d) = ?ms"
      using assms(2) by (auto intro: filter_cong)
    then show ?thesis
      unfolding pg_last_messages_def filter_distinct_on filter_sort by (simp add: conj_ac)
  qed
  finally show ?thesis .
qed

lemma my_user_chat_rows_eq:
  assumes "db_wf d"
  shows "my_user_chat_rows d u = pg_user_chat_rows d u"
proof -
  have "my_last_read = pg_last_read" by (simp add: my_last_read_def pg_last_read_def fun_eq_iff)
  then have unread: "my_unread = pg_unread" by (simp add: my_unread_def pg_unread_def fun_eq_iff)
  have "concat (map (\<lambda>uc. concat (map (\<lambda>lm. map (\<lambda>x. (uc, lm, case x of None \<Rightarrow> 0 | Some (_, cnt) \<Rightarrow> cnt))
          (left_join (filter (\<lambda>p. fst p = cc_id uc) (pg_unread d ucs u))))
        (left_join (filter (\<lambda>m. gc_chat_id m = cc_id uc) (my_last_messages d ucs))))) ucs) =
      concat (map (\<lambda>uc. concat (map (\<lambda>lm. map (\<lambda>x. (uc, lm, case x of None \<Rightarrow> 0 | Some (_, cnt) \<Rightarrow> cnt))
          (left_join (filter (\<lambda>p. fst p = cc_id uc) (pg_unread d ucs u))))
        (left_join (filter (\<lambda>m. gc_chat_id m = cc_id uc) (pg_last_messages d ucs))))) ucs)" for ucs
    using my_last_rows [OF assms, of _ ucs] by (intro arg_cong [where f = concat] map_cong) auto
  then show ?thesis
    unfolding my_user_chat_rows_def pg_user_chat_rows_def Let_def unread by simp
qed

lemma my_scanPreview_eq: "my_scanPreview = pg_scanPreview"
  by (auto simp: my_scanPreview_def pg_scanPreview_def null_text_def fun_eq_iff)

lemma my_chat_GetUserChats_sim:
  "simulates (my_at t0) quiet view_of True id v (my_chat_GetUserChats u) (sp_GetUserChats u)"
  unfolding my_chat_GetUserChats_def my_scanPreview_eq
proof (rule sim_query)
  fix d r show "pg_scanPreview r = Inr (scanned (pg_scanPreview r))"
    by (rule pg_scanPreview_Inr)
next
  fix d assume d: "my_wf d" "db_view d = v"
  then have wf: "db_wf d" by (simp add: my_wf_def)
  from user_chats_answer [OF wf d(2), of u]
  show "sp_GetUserChats u v = (Ok (id (map (\<lambda>r. scanned (pg_scanPreview r)) (my_user_chat_rows d u))), v)"
    by (simp only: my_user_chat_rows_eq [OF wf])
qed

section \<open>The port\<close>

lemma my_user_GetByID_sim:
  "simulates (my_at t0) quiet view_of True without_hash v (my_user_GetByID u) (sp_GetUser u)"
  unfolding my_user_GetByID_def my_user_scanOne_def
proof (rule sim_queryRow)
  have scan: "my_scanUser r = Inr (user_of_row r)" for r by (simp add: my_scanUser_def user_of_row_def)
  fix d r rs
  assume "db_view d = v" "filter (\<lambda>r. uc_id r = u \<and> uc_deleted_at r = None) (tb_users d) = r # rs"
  then show "\<exists>a. my_scanUser r = Inr a \<and> sp_GetUser u v = (Ok (without_hash a), v)"
    by (auto simp: scan sp_GetUser_def user_lookup_view find_filter_hd)
next
  fix d assume "db_view d = v" "filter (\<lambda>r. uc_id r = u \<and> uc_deleted_at r = None) (tb_users d) = []"
  then show "sp_GetUser u v = (Err (Dom ErrUserNotFound), v)"
    by (auto simp: sp_GetUser_def user_lookup_view find_filter_hd)
qed

lemma chat_port_my:
  "chat_port my_NewChatRepository my_user_GetByID (my_at t0) quiet view_of my_chat_ok"
  by unfold_locales
    (simp_all add: table_inv_def view_of_def my_tables.W_view my_NewChatRepository_def my_user_GetByID_sim
      my_chat_CreateWithMembers_sim my_chat_GetByID_eq chat_GetByID_sim my_chat_Update_sim my_chat_Delete_sim
      my_chat_AddMember_sim my_chat_RemoveMember_eq my_tables.RemoveMember_sim my_chat_GetMember_sim
      my_chat_GetMembers_sim my_chat_UpdateMemberRole_sim my_chat_GetUserChats_sim my_chat_GetDirectChat_eq
      chat_GetDirectChat_sim my_chat_IsMember_sim)

interpretation my: chat_port my_NewChatRepository my_user_GetByID my_inv quiet view_of my_chat_ok
  by (rule chat_port_my)

end
