(* ===== verification/BackendProps.thy ===== *)
theory BackendProps
  imports CachedProps MyChatSim
begin

text \<open>
  The two storage back ends side by side: where PostgreSQL and MySQL give the chat service the same
  answers, and the one place where they do not.  MySQL counts the rows an \<open>UPDATE\<close> changes, so an
  update that changes nothing reports a missing row.
\<close>

section \<open>The back ends agree\<close>

lemma my_inv_demo [simp]: "my_inv demo"
proof -
  have "RuneCountInString ''team'' = 4" "ValidString ''team''"
    by (simp_all add: RuneCount_ascii ValidString_ascii is_ascii_def)
  with demo_wf show ?thesis
    by (simp add: table_inv_def demo_def my_wf_def pg_wf_def demo_db_def my_chat_checks_def enum_member_def
        opt_valid_def opt_runes_def opt_bytes_def text_limit_def)
qed

text \<open>C35: PostgreSQL and MySQL are interchangeable for the chat service: on tables with the same
  content, every sequence of requests whose updates change something gets the same answers from both
  and leaves the same content.\<close>

theorem backends_agree:
  assumes "pg_inv w" "my_inv w'" "quiet w" "quiet w'" "view_of w' = view_of w"
    and "all_along (\<lambda>v now newID q. req_fits pg_chat_ok v now newID q \<and> req_fits my_chat_ok v now newID q \<and>
      req_moves v now q) (view_of w) qs"
  shows "fst (serve_all my_NewChatRepository my_user_GetByID qs w') =
       fst (serve_all pg_NewChatRepository pg_user_GetByID qs w) \<and>
     view_of (snd (serve_all my_NewChatRepository my_user_GetByID qs w')) =
       view_of (snd (serve_all pg_NewChatRepository pg_user_GetByID qs w))"
proof -
  have "all_along (req_fits pg_chat_ok) (view_of w) qs"
    by (rule all_along_mono [OF _ assms(6)]) simp
  note pg = chat_port_idempotent.serve_all_exact [OF chat_port_idempotent_pg assms(1,3) this]
  have "all_along (\<lambda>v now newID q. req_fits my_chat_ok v now newID q \<and> req_moves v now q) (view_of w') qs"
    unfolding assms(5) by (rule all_along_mono [OF _ assms(6)]) simp
  from chat_port.serve_all_moving [OF chat_port_my assms(2,4) this] pg assms(5) show ?thesis by simp
qed

lemma demo_requests_move: "all_along (\<lambda>v now newID q. req_moves v now q) demo_view demo_requests"
  unfolding demo_view_def demo_requests_def by code_simp

theorem backends_agree_witness:
  "fst (serve_all my_NewChatRepository my_user_GetByID demo_requests demo) =
     [Ok Done, Err (Dom ErrNotChatMember), Ok Done,
      Ok (GotMembers [member_of_row (demo_member 10 2 ''owner'' 8)])]"
proof -
  have "all_along (\<lambda>v now newID q. req_fits pg_chat_ok v now newID q \<and> req_fits my_chat_ok v now newID q \<and>
      req_moves v now q) demo_view demo_requests"
    using demo_requests_move by (simp add: demo_requests_def)
  with backends_agree [of demo demo demo_requests]
    chat_port_idempotent.serve_all_exact [OF chat_port_idempotent_pg pg_inv_demo(1) quiet_demo, of demo_requests]
  show ?thesis by (simp add: demo_requests_fit demo_answers)
qed

section \<open>Where they differ\<close>

text \<open>Setting the role a member already has changes no row.\<close>

lemma my_same_role:
  assumes "role_pre r" "role_of v c u = Some r"
  shows "simulates my_inv quiet view_of True id v (my_chat_UpdateMemberRole c u r) (throw (Dom ErrNotChatMember))"
  unfolding my_chat_UpdateMemberRole_def db_exec_def
proof (rule sim_call_stmt)
  fix d :: db and t n d' and w :: world
  let ?P = "\<lambda>m. mc_chat_id m = c \<and> mc_user_id m = u"
  assume d: "my_wf d" "db_view d = v"
    and f: "(let P = ?P; (n, rs) = sql_update_changed P (mc_role_update (\<lambda>_. r)) (tb_members d)
        in if filter P (tb_members d) \<noteq> [] \<and> \<not> enum_member r my_role_values then Inl data_truncated
           else Inr (n, d\<lparr>tb_members := rs\<rparr>)) = Inr (n, d')"
  have same: "m\<lparr>mc_role := r\<rparr> = m" if "m \<in> set (tb_members d)" "?P m" for m
    using role_row [OF my_tables.W_db [OF d(1)] d(2) that(1)] that(2) assms(2) by simp
  then have "filter (\<lambda>m. ?P m \<and> m\<lparr>mc_role := r\<rparr> \<noteq> m) (tb_members d) = []"
    by (auto simp: filter_empty_conv)
  moreover from same have "map (\<lambda>m. if ?P m then m\<lparr>mc_role := r\<rparr> else m) (tb_members d) = tb_members d"
    by (intro map_idI) auto
  ultimately have "n = 0" "d' = d"
    using f role_pre_values [OF assms(1)] by (auto simp: sql_update_changed_def Let_def)
  with d show "my_wf d' \<and> map_outcome id id (fst ((if n = 0 then throw (Dom ErrNotChatMember) else ret ()) w)) =
        fst (throw (Dom ErrNotChatMember) v) \<and> db_view d' = snd (throw (Dom ErrNotChatMember) v)"
    by (simp add: throw_def)
qed (use role_pre_values [OF assms(1)] in \<open>auto simp: ret_def throw_def sql_update_changed_def Let_def\<close>)

lemma quiet_read:
  assumes "simulates I qt view True obs v m am" "I w" "qt w" "view w = v" "am v = (Ok b, v)"
  obtains a w' where "m w = (Ok a, w')" "obs a = b" "I w'" "qt w'" "view w' = v"
  using assms(1,2,4)
proof (cases rule: simulatesE)
  case exact
  with assms that show ?thesis by (cases "m w"; cases "fst (m w)") auto
next
  case (storage e)
  with assms(3) show ?thesis by simp
qed

lemma my_leave_refused:
  assumes "my_inv w" "quiet w" "live_group (view_of w) c" "active_role (view_of w) c u = Some MemberRoleOwner"
    and next_owner: "nextOwner (roster (view_of w) c) u = Some m"
      "role_of (view_of w) c (mem_UserID m) = Some MemberRoleOwner"
  shows "fst (chats_LeaveChat my_NewChatRepository c u w) = Err (Dom ErrNotChatMember) \<and>
     view_of (snd (chats_LeaveChat my_NewChatRepository c u w)) = view_of w \<and>
     my_inv (snd (chats_LeaveChat my_NewChatRepository c u w)) \<and> quiet (snd (chats_LeaveChat my_NewChatRepository c u w))"
proof -
  let ?v = "view_of w" and ?R = my_NewChatRepository
  from assms(3,4) obtain x y where x: "chat_lookup ?v c = Some x" "\<not> IsDirect x"
    and y: "member_lookup ?v c u = Some y" "mem_Role y = MemberRoleOwner" "user_lookup ?v u \<noteq> None"
    by (auto simp: live_group_def active_role_Some)
  obtain x' w1 where r1: "cr_GetByID ?R c w = (Ok x', w1)" "id x' = x" and w1: "my_inv w1" "quiet w1" "view_of w1 = ?v"
    by (rule quiet_read [OF my.sim_GetByID [where c = c] assms(1,2) refl]) (simp_all add: sp_GetByID_def x)
  obtain y' w2 where r2: "cr_GetMember ?R c u w1 = (Ok y', w2)" "strip_user y' = y"
      and w2: "my_inv w2" "quiet w2" "view_of w2 = ?v"
    by (rule quiet_read [OF my.sim_GetMember [where c = c and u = u] w1]) (simp_all add: sp_GetMember_def y)
  obtain ms w3 where r3: "cr_GetMembers ?R c w2 = (Ok ms, w3)" "map strip_user ms = roster ?v c"
      and w3: "my_inv w3" "quiet w3" "view_of w3 = ?v"
    by (rule quiet_read [OF my.sim_GetMembers [where c = c] w2]) (simp_all add: sp_GetMembers_def)
  from next_owner(1) obtain n where n: "nextOwner ms u = Some n" "strip_user n = m"
    unfolding r3(2) [symmetric] by (auto simp: nextOwner_strip)
  have "role_of ?v c (mem_UserID n) = Some MemberRoleOwner"
    using next_owner(2) unfolding n(2) [symmetric] by simp
  from my_same_role [OF _ this]
  have "simulates my_inv quiet view_of True id ?v (cr_UpdateMemberRole ?R c (mem_UserID n) MemberRoleOwner)
      (throw (Dom ErrNotChatMember))"
    by (simp add: my_NewChatRepository_def)
  from this w3(1,3) obtain w4 where r4: "cr_UpdateMemberRole ?R c (mem_UserID n) MemberRoleOwner w3 =
      (Err (Dom ErrNotChatMember), w4)" "view_of w4 = ?v" "my_inv w4" "quiet w4"
  proof (cases rule: simulatesE)
    case exact
    with that show ?thesis
      by (cases "cr_UpdateMemberRole ?R c (mem_UserID n) MemberRoleOwner w3";
          cases "fst (cr_UpdateMemberRole ?R c (mem_UserID n) MemberRoleOwner w3)") (use w3 in \<open>auto simp: throw_def\<close>)
  qed (use w3 in simp)
  from r2(2) y(2) have "mem_Role y' = MemberRoleOwner" by auto
  with r1 x(2) show ?thesis
    by (simp add: chats_LeaveChat_def call_eval r2(1) r3(1) n(1) r4)
qed

text \<open>The promotion keeps the order of the members; the successor is picked again if it comes first and
  no other member is an admin.\<close>

lemma roster_with_role:
  "roster (with_role v c x r) c = map (\<lambda>a. if mem_UserID a = x then a\<lparr>mem_Role := r\<rparr> else a) (roster v c)"
proof -
  let ?f = "\<lambda>a :: ChatMember. if mem_ChatID a = c \<and> mem_UserID a = x then a\<lparr>mem_Role := r\<rparr> else a"
  let ?k = "\<lambda>a :: ChatMember. (mem_JoinedAt a, mem_UserID a)"
  have live: "user_lookup (with_role v c x r) = user_lookup v" by (simp add: user_lookup_def with_role_def fun_eq_iff)
  have "?k \<circ> ?f = ?k" by (simp add: fun_eq_iff)
  moreover have "(\<lambda>m. mem_ChatID m = c \<and> user_lookup v (mem_UserID m) \<noteq> None) \<circ> ?f =
      (\<lambda>m. mem_ChatID m = c \<and> user_lookup v (mem_UserID m) \<noteq> None)" by (auto simp: fun_eq_iff)
  ultimately have "roster (with_role v c x r) c = map ?f (roster v c)"
    unfolding roster_def live by (simp add: with_role_def filter_map sort_key_map)
  also have "\<dots> = map (\<lambda>a. if mem_UserID a = x then a\<lparr>mem_Role := r\<rparr> else a) (roster v c)"
    by (rule map_cong) (auto simp: roster_def)
  finally show ?thesis .
qed

lemma role_of_with_role:
  "is_member v c x \<Longrightarrow> role_of (with_role v c x r) c y = (if y = x then Some r else role_of v c y)"
  by (cases "member_lookup v c y"; cases "y = x")
    (auto simp: role_of_def member_lookup_with_role is_member_def dest: member_lookup_keys)

lemma successor_picked_again:
  assumes others: "filter (\<lambda>a. mem_UserID a \<noteq> u) (roster v c) = m # rest"
    and no_admin: "\<And>a. a \<in> set rest \<Longrightarrow> mem_Role a \<noteq> MemberRoleAdmin"
  shows "nextOwner (roster v c) u = Some m"
    "nextOwner (roster (with_role v c (mem_UserID m) MemberRoleOwner) c) u = Some (m\<lparr>mem_Role := MemberRoleOwner\<rparr>)"
proof -
  let ?f = "\<lambda>a :: ChatMember. if mem_UserID a = mem_UserID m then a\<lparr>mem_Role := MemberRoleOwner\<rparr> else a"
  have pick: "nextOwner ms u = (case filter (\<lambda>a. mem_Role a = MemberRoleAdmin) (filter (\<lambda>a. mem_UserID a \<noteq> u) ms) of
      a # _ \<Rightarrow> Some a | [] \<Rightarrow> (case filter (\<lambda>a. mem_UserID a \<noteq> u) ms of [] \<Rightarrow> None | a # _ \<Rightarrow> Some a))" for ms
    by (simp add: nextOwner_eq conj_commute)
  have "filter (\<lambda>a. mem_Role a = MemberRoleAdmin) rest = []" using no_admin by (auto simp: filter_empty_conv)
  then show "nextOwner (roster v c) u = Some m" unfolding pick others by simp
  have "(\<lambda>a :: ChatMember. mem_UserID a \<noteq> u) \<circ> ?f = (\<lambda>a. mem_UserID a \<noteq> u)" by (auto simp: fun_eq_iff)
  then have "filter (\<lambda>a. mem_UserID a \<noteq> u) (map ?f (roster v c)) = map ?f (m # rest)"
    by (simp add: filter_map others)
  moreover have "filter (\<lambda>a. mem_Role a = MemberRoleAdmin) (map ?f (m # rest)) = []"
    using no_admin by (auto simp: filter_empty_conv)
  ultimately show "nextOwner (roster (with_role v c (mem_UserID m) MemberRoleOwner) c) u = Some (m\<lparr>mem_Role := MemberRoleOwner\<rparr>)"
    unfolding roster_with_role pick by simp
qed

text \<open>C36: On MySQL an owner can be stuck in a group after an interruption.  Let the owner's first attempt
  to leave have stopped between the promotion of the successor and the removal, so that the tables are
  those before it with the successor as an owner.  If the successor is the member who joined first
  and no other member is an admin, as in a group of two, every retry picks the same successor and
  reports \<open>ErrNotChatMember\<close>, and however often it is repeated, the tables stay as they are.\<close>

theorem my_interrupted_leave_stuck:
  assumes "my_inv w" "quiet w" and promoted: "view_of w = with_role v c (mem_UserID m) MemberRoleOwner"
    and "live_group v c" "active_role v c u = Some MemberRoleOwner"
    and others: "filter (\<lambda>a. mem_UserID a \<noteq> u) (roster v c) = m # rest"
      "list_all (\<lambda>a. mem_Role a \<noteq> MemberRoleAdmin) rest"
  shows "let w' = ((\<lambda>w. snd (chats_LeaveChat my_NewChatRepository c u w)) ^^ n) w in
     nextOwner (roster v c) u = Some m \<and> view_of w' = view_of w \<and>
     fst (chats_LeaveChat my_NewChatRepository c u w') = Err (Dom ErrNotChatMember)"
proof -
  let ?next = "\<lambda>w. snd (chats_LeaveChat my_NewChatRepository c u w)"
  note picked = successor_picked_again [OF others(1)] others(2) [unfolded list_all_iff]
  have "m \<in> set (filter (\<lambda>a. mem_UserID a \<noteq> u) (roster v c))" unfolding others(1) by simp
  then have m: "mem_UserID m \<noteq> u" "is_member v c (mem_UserID m)" by (auto simp: roster_def is_member_iff)
  have state: "live_group (view_of w) c" "active_role (view_of w) c u = Some MemberRoleOwner"
    "role_of (view_of w) c (mem_UserID m) = Some MemberRoleOwner"
    using assms(4,5) m unfolding promoted
    by (simp_all add: live_group_def active_role_def role_of_with_role split: if_splits)
  have refused: "fst (chats_LeaveChat my_NewChatRepository c u w') = Err (Dom ErrNotChatMember) \<and>
      view_of (?next w') = view_of w \<and> my_inv (?next w') \<and> quiet (?next w')"
    if "view_of w' = view_of w" "my_inv w'" "quiet w'" for w'
    using my_leave_refused [of w' c u "m\<lparr>mem_Role := MemberRoleOwner\<rparr>"] that picked state by (simp add: promoted)
  have "view_of ((?next ^^ n) w) = view_of w \<and> my_inv ((?next ^^ n) w) \<and> quiet ((?next ^^ n) w)"
    by (induction n) (use assms(1,2) refused in simp_all)
  with refused [of "(?next ^^ n) w"] picked show ?thesis by (simp add: Let_def)
qed

text \<open>The state after the promotion of user 2 and before the removal of user 1.\<close>

definition demo_promoted :: world where
  "demo_promoted = snd (my_chat_UpdateMemberRole 10 2 MemberRoleOwner demo)"

lemma demo_promoted:
  "my_inv demo_promoted" "quiet demo_promoted" "view_of demo_promoted = with_role demo_view 10 2 MemberRoleOwner"
proof -
  have role: "role_of demo_view 10 2 \<noteq> Some MemberRoleOwner" "is_member demo_view 10 2"
    unfolding demo_view_def by code_simp+
  have "exact_run my_inv quiet view_of id (my_chat_UpdateMemberRole 10 2 MemberRoleOwner)
      (sp_UpdateMemberRole 10 2 MemberRoleOwner) demo"
    using role(1) by (intro exact_simulates [OF my_chat_UpdateMemberRole_sim]) simp_all
  then show "my_inv demo_promoted" "quiet demo_promoted" "view_of demo_promoted = with_role demo_view 10 2 MemberRoleOwner"
    using role(2) by (simp_all add: exact_run_def demo_promoted_def sp_UpdateMemberRole_def with_role_def)
qed

theorem my_interrupted_leave_stuck_witness:
  "fst (chats_LeaveChat my_NewChatRepository 10 1
     (((\<lambda>w. snd (chats_LeaveChat my_NewChatRepository 10 1 w)) ^^ 99) demo_promoted)) = Err (Dom ErrNotChatMember)"
proof -
  have "chat_lookup demo_view 10 \<noteq> None" "\<not> IsDirect (the (chat_lookup demo_view 10))"
    "active_role demo_view 10 1 = Some MemberRoleOwner"
    "filter (\<lambda>a. mem_UserID a \<noteq> 1) (roster demo_view 10) =
      [member_of_row (demo_member 10 2 ''admin'' 8), member_of_row (demo_member 10 3 ''member'' 9)]"
    "list_all (\<lambda>a. mem_Role a \<noteq> MemberRoleAdmin) [member_of_row (demo_member 10 3 ''member'' 9)]"
    unfolding demo_view_def by code_simp+
  moreover have "view_of demo_promoted =
      with_role demo_view 10 (mem_UserID (member_of_row (demo_member 10 2 ''admin'' 8))) MemberRoleOwner"
    unfolding demo_promoted(3) by (simp add: demo_member_def member_of_row_def)
  ultimately show ?thesis
    using my_interrupted_leave_stuck [OF demo_promoted(1,2), of demo_view 10 _ 1 _ 99]
    by (fastforce simp: live_group_def Let_def)
qed

end
