(* ===== verification/Logger.thy ===== *)
theory Logger
  imports AppConfig Handlers
begin

text \<open>
  utils/logger/logger.go: where the log goes and the preparation of the log file.  The calls of the
  operating system are a record of operations on an arbitrary state; zerolog's levels are a
  parameter.  The configuration is the one of \<open>logger_Validate\<close>.
\<close>

section \<open>Paths and numbers\<close>

fun split_path :: "string \<Rightarrow> string \<Rightarrow> string list" where
  "split_path acc [] = [rev acc]"
| "split_path acc (c # cs) = (if c = CHR ''/'' then rev acc # split_path [] cs else split_path (c # acc) cs)"

fun join_path :: "string list \<Rightarrow> string" where
  "join_path [] = []"
| "join_path [e] = e"
| "join_path (e # es) = e @ ''/'' @ join_path es"

text \<open>\<open>filepath.Clean\<close>: the elements kept so far are a stack, the last one first.\<close>

definition clean_element :: "bool \<Rightarrow> string \<Rightarrow> string list \<Rightarrow> string list" where
  "clean_element rooted e stack =
     (if e = [] \<or> e = ''.'' then stack
      else if e = ''..'' then
        (case stack of
           el # rest \<Rightarrow> if el = ''..'' then e # stack else rest
         | [] \<Rightarrow> if rooted then [] else [e])
      else e # stack)"

definition filepath_Clean :: "string \<Rightarrow> string" where
  "filepath_Clean p =
     (let rooted = (p \<noteq> [] \<and> hd p = CHR ''/'');
          out = (if rooted then ''/'' else []) @ join_path (rev (fold (clean_element rooted) (split_path [] p) []))
      in if out = [] then ''.'' else out)"

text \<open>\<open>filepath.Dir\<close>: what stands before the last separator, cleaned.\<close>

definition filepath_Dir :: "string \<Rightarrow> string" where
  "filepath_Dir p = filepath_Clean (rev (dropWhile (\<lambda>c. c \<noteq> CHR ''/'') (rev p)))"

text \<open>The first result of \<open>strconv.Atoi\<close>, whatever the error: 0 for a text that is no number, the nearest
  \<open>int\<close> for a number out of range.\<close>

definition Atoi_value :: "string \<Rightarrow> int" where
  "Atoi_value s =
     (case Atoi s of
        Some v \<Rightarrow> v
      | None \<Rightarrow>
          let neg = (s \<noteq> [] \<and> hd s = CHR ''-'');
              ds = (if s \<noteq> [] \<and> (hd s = CHR ''-'' \<or> hd s = CHR ''+'') then tl s else s)
          in if ds = [] \<or> \<not> list_all is_digit ds then 0 else if neg then - (2 ^ 63) else 2 ^ 63 - 1)"

section \<open>The operating system\<close>

record 'w os_calls =
  os_MkdirAll :: "string \<Rightarrow> nat \<Rightarrow> ('w, unit) io"
  os_OpenFile :: "string \<Rightarrow> nat \<Rightarrow> ('w, unit) io"
  os_CloseFile :: "string \<Rightarrow> ('w, unit) io"
  os_Chmod :: "string \<Rightarrow> nat \<Rightarrow> ('w, unit) io"
  os_Chown :: "string \<Rightarrow> int \<Rightarrow> int \<Rightarrow> ('w, unit) io"
  user_Lookup :: "string \<Rightarrow> ('w, string) io"
  user_LookupGroup :: "string \<Rightarrow> ('w, string) io"

section \<open>The log file\<close>

record lumberjack =
  lj_Filename :: string
  lj_MaxSize :: int
  lj_MaxBackups :: int

definition applyOwnership :: "'w os_calls \<Rightarrow> string \<Rightarrow> string \<Rightarrow> string \<Rightarrow> ('w, unit) io" where
  "applyOwnership os path owner grp =
     (if owner = [] \<and> grp = [] then ret ()
      else
        call (if owner \<noteq> [] then branch (user_Lookup os owner) (\<lambda>u. ret (Atoi_value u)) (\<lambda>_. ret (-1))
              else ret (-1)) (\<lambda>uid.
        call (if grp \<noteq> [] then branch (user_LookupGroup os grp) (\<lambda>g. ret (Atoi_value g)) (\<lambda>_. ret (-1))
              else ret (-1)) (\<lambda>gid.
        ignore_err (os_Chown os path uid gid))))"

definition newFileWriter :: "'w os_calls \<Rightarrow> FileConfig \<Rightarrow> ('w, lumberjack) io" where
  "newFileWriter os cfg =
     call (ignore_err (os_MkdirAll os (filepath_Dir (lfc_Path cfg)) 493)) (\<lambda>_.
     call (branch (os_OpenFile os (lfc_Path cfg) (lfc_Mode cfg))
             (\<lambda>_. call (ignore_err (os_CloseFile os (lfc_Path cfg))) (\<lambda>_.
                   ignore_err (os_Chmod os (lfc_Path cfg) (lfc_Mode cfg))))
             (\<lambda>_. ret ())) (\<lambda>_.
     call (applyOwnership os (lfc_Path cfg) (lfc_Owner cfg) (lfc_Group cfg)) (\<lambda>_.
     ret \<lparr>lj_Filename = lfc_Path cfg, lj_MaxSize = lfc_MaxSizeMB cfg, lj_MaxBackups = lfc_MaxBackups cfg\<rparr>)))"

section \<open>The logger\<close>

datatype log_writer = ConsoleWriter string | FileWriter lumberjack | OsStdout

record 'l log_setup =
  ls_writer :: log_writer
  ls_level :: 'l

text \<open>\<open>zerolog.ParseLevel\<close> and \<open>zerolog.InfoLevel\<close>.\<close>

record 'l zerolog_levels =
  zl_ParseLevel :: "string \<Rightarrow> 'l option"
  zl_InfoLevel :: 'l

text \<open>\<open>strings.ToLower\<close> as far as levels go: a text whose lower case is not ASCII names no level.\<close>

definition lower_text :: "string \<Rightarrow> string" where
  "lower_text s =
     (let rs = map lower_rune (runes s)
      in if list_all (\<lambda>r. r < 128) rs then map char_of rs else s)"

text \<open>A nil \<open>File\<close> with the type \<open>file\<close>, which \<open>Validate\<close> excludes, is dereferenced.\<close>

definition logger_Setup :: "'l zerolog_levels \<Rightarrow> 'w os_calls \<Rightarrow> logger_Config \<Rightarrow> ('w, 'l log_setup) io" where
  "logger_Setup Z os cfg =
     (let lvl = (case zl_ParseLevel Z (lower_text (lgc_Level cfg)) of
                   Some l \<Rightarrow> l | None \<Rightarrow> zl_InfoLevel Z)
      in call (if lgc_Type cfg = ''console'' then ret (ConsoleWriter ''15:04:05'')
               else if lgc_Type cfg = ''file'' then
                 (case lgc_File cfg of
                    None \<Rightarrow> panic ''nil pointer dereference''
                  | Some f \<Rightarrow> call (newFileWriter os f) (\<lambda>lj. ret (FileWriter lj)))
               else ret OsStdout) (\<lambda>writer.
         ret \<lparr>ls_writer = writer, ls_level = lvl\<rparr>))"

section \<open>Its runs\<close>

text \<open>The calls of the operating system return, with a result or an error.\<close>

definition returns :: "('w, 'a) io \<Rightarrow> bool" where
  "returns m \<longleftrightarrow> (\<forall>w s. fst (m w) \<noteq> Panic s)"

definition os_returns :: "'w os_calls \<Rightarrow> bool" where
  "os_returns os \<longleftrightarrow> (\<forall>p n u g. returns (os_MkdirAll os p n) \<and> returns (os_OpenFile os p n) \<and>
     returns (os_CloseFile os p) \<and> returns (os_Chmod os p n) \<and> returns (os_Chown os p u g) \<and>
     returns (user_Lookup os p) \<and> returns (user_LookupGroup os p))"

text \<open>A step that always yields a value.\<close>

definition succeeds :: "('w, 'a) io \<Rightarrow> bool" where
  "succeeds m \<longleftrightarrow> (\<forall>w. \<exists>a w'. m w = (Ok a, w'))"

lemma succeeds_ret: "succeeds (ret a)"
  by (simp add: succeeds_def ret_def)

lemma succeeds_ignore: "returns m \<Longrightarrow> succeeds (ignore_err m)"
  unfolding succeeds_def returns_def
proof
  fix w assume "\<forall>w s. fst (m w) \<noteq> Panic s"
  then show "\<exists>a w'. ignore_err m w = (Ok a, w')"
    by (cases "fst (m w)") (auto simp: ignore_err_def branch_def ret_def)
qed

lemma succeeds_branch:
  assumes "returns m" "\<And>a. succeeds (k a)" "\<And>e. succeeds (h e)"
  shows "succeeds (branch m k h)"
  unfolding succeeds_def
proof
  fix w
  show "\<exists>a w'. branch m k h w = (Ok a, w')"
  proof (cases "fst (m w)")
    case (Panic s)
    with assms(1) show ?thesis by (simp add: returns_def)
  qed (use assms(2,3) in \<open>auto simp: branch_def succeeds_def\<close>)
qed

lemma succeeds_call:
  assumes "succeeds m" "\<And>a. succeeds (k a)"
  shows "succeeds (call m k)"
  unfolding succeeds_def
proof
  fix w
  from assms(1) obtain x w1 where "m w = (Ok x, w1)" unfolding succeeds_def by blast
  with assms(2) show "\<exists>a w'. call m k w = (Ok a, w')" by (simp add: go_simps succeeds_def)
qed

lemma succeeds_if: "(b \<Longrightarrow> succeeds m) \<Longrightarrow> (\<not> b \<Longrightarrow> succeeds n) \<Longrightarrow> succeeds (if b then m else n)"
  by simp

lemmas succeeds_intros = succeeds_ret succeeds_ignore succeeds_branch succeeds_call succeeds_if

definition yields :: "('w, 'a) io \<Rightarrow> 'a \<Rightarrow> bool" where
  "yields m a \<longleftrightarrow> (\<forall>w. \<exists>w'. m w = (Ok a, w'))"

lemma yields_ret: "yields (ret a) a"
  by (simp add: yields_def ret_def)

lemma yields_call: "succeeds m \<Longrightarrow> (\<And>x. yields (k x) a) \<Longrightarrow> yields (call m k) a"
  unfolding succeeds_def yields_def
proof
  fix w assume "\<forall>w. \<exists>a w'. m w = (Ok a, w')" and k: "\<And>x. \<forall>w. \<exists>w'. k x w = (Ok a, w')"
  then obtain x w1 where "m w = (Ok x, w1)" by blast
  with k show "\<exists>w'. call m k w = (Ok a, w')" by (simp add: go_simps)
qed

lemma yields_then: "yields m x \<Longrightarrow> yields (k x) a \<Longrightarrow> yields (call m k) a"
  unfolding yields_def by (metis call_run(1))

lemma newFileWriter_yields:
  assumes "os_returns os"
  shows "yields (newFileWriter os f)
     \<lparr>lj_Filename = lfc_Path f, lj_MaxSize = lfc_MaxSizeMB f, lj_MaxBackups = lfc_MaxBackups f\<rparr>"
  unfolding newFileWriter_def applyOwnership_def using assms
  by (intro yields_call yields_ret succeeds_intros) (simp_all add: os_returns_def)

text \<open>The level names, in any case.\<close>

lemma level_lower:
  assumes "level_valid s"
  shows "lower_text s \<in> set validLevels"
proof -
  from assms obtain l where l: "l \<in> set validLevels" "map lower_rune (runes s) = runes l"
    by (auto simp: level_valid_def)
  have "is_ascii l" using l(1) by (auto simp: validLevels_def is_ascii_def)
  then have "runes l = map of_char l" "list_all (\<lambda>r. r < 128) (runes l)"
    by (auto simp: runes_ascii bytes_of_def is_ascii_def list_all_iff)
  with l show ?thesis by (simp add: lower_text_def comp_def)
qed

end
