(* ===== verification/Lifecycle.thy ===== *)
theory Lifecycle
  imports App Logger
begin

text \<open>
  The life of the process in cmd/app/main.go: loading the configuration, building the application,
  serving, and the shutdown after a signal.  Three activities run side by side: \<open>main\<close>, the
  goroutine that runs the server, and the requests; a run is a sequence of their steps in the order
  in which they happen.  The sockets of net/http and the signals are events.
\<close>

section \<open>The server\<close>

record 'w server =
  srv_Addr :: string
  srv_Handler :: "'w handler"
  srv_ReadTimeout :: duration
  srv_WriteTimeout :: duration
  srv_IdleTimeout :: duration
  srv_httpCfg :: http_Config
  srv_pprofEnabled :: bool
  srv_pprofAddr :: string

text \<open>The end of \<open>newApplication\<close>.\<close>

definition new_server :: "AppConfig \<Rightarrow> 'w handler \<Rightarrow> 'w server" where
  "new_server cfg h =
     (let c = dlc_HTTP (apc_Delivery cfg)
      in \<lparr>srv_Addr = htc_Host c @ '':'' @ int_text (htc_Port c), srv_Handler = h,
          srv_ReadTimeout = htc_ReadTimeout c, srv_WriteTimeout = htc_WriteTimeout c,
          srv_IdleTimeout = htc_IdleTimeout c, srv_httpCfg = c,
          srv_pprofEnabled = prc_Enabled (apc_Profile cfg), srv_pprofAddr = prc_Addr (apc_Profile cfg)\<rparr>)"

text \<open>What \<open>Run\<close> calls, and what it returns when the call ends with an error, as it always does.\<close>

datatype listener = ListenAndServe string | ListenAndServeTLS string string string

definition run_listener :: "'w server \<Rightarrow> listener" where
  "run_listener s =
     (case htc_TLS (srv_httpCfg s) of
        Some t \<Rightarrow> if TLSEnabled (srv_httpCfg s) then ListenAndServeTLS (srv_Addr s) (tls_CertFile t) (tls_KeyFile t)
                  else ListenAndServe (srv_Addr s)
      | None \<Rightarrow> ListenAndServe (srv_Addr s))"

datatype listen_error = ErrServerClosed | ListenError string

definition run_result :: "listen_error \<Rightarrow> listen_error option" where
  "run_result err = (if err \<noteq> ErrServerClosed then Some err else None)"

section \<open>The process\<close>

text \<open>\<open>ClosingStore\<close> and \<open>ClosingCache\<close> are the two calls of \<open>a.close()\<close>, which is deferred.\<close>

datatype main_phase = Waiting | StoppingPprof | StoppingHttp | ClosingStore | ClosingCache | Exited

datatype api_phase = Starting | Serving | Returned

text \<open>\<open>pr_pprof\<close>: \<open>s.pprofSrv\<close> is set; \<open>pr_shutdown\<close>: \<open>Shutdown\<close> was called on the HTTP server;
  \<open>pr_expired\<close>: the 30 seconds of \<open>shutdownCtx\<close> are over; \<open>pr_requests\<close> and \<open>pr_profiles\<close>: the
  requests in progress on the two servers; \<open>pr_busy\<close>: the connections of the store's pool that
  requests hold; \<open>pr_store\<close> and \<open>pr_cache\<close>: the store, or the cache, is there and not closed.\<close>

record process =
  pr_main :: main_phase
  pr_api :: api_phase
  pr_pprof :: bool
  pr_signal :: bool
  pr_shutdown :: bool
  pr_expired :: bool
  pr_requests :: nat
  pr_profiles :: nat
  pr_busy :: nat
  pr_store :: bool
  pr_cache :: bool
  pr_log :: "string list"

definition started :: "AppConfig \<Rightarrow> process" where
  "started cfg = \<lparr>pr_main = Waiting, pr_api = Starting, pr_pprof = False, pr_signal = False,
     pr_shutdown = False, pr_expired = False, pr_requests = 0, pr_profiles = 0, pr_busy = 0, pr_store = True,
     pr_cache = (apc_Cache cfg \<noteq> None), pr_log = []\<rparr>"

definition add_log :: "string \<Rightarrow> process \<Rightarrow> process" where
  "add_log m p = p\<lparr>pr_log := pr_log p @ [m]\<rparr>"

datatype life_event =
    PprofStart \<comment> \<open>\<open>Run\<close> creates the profiling server\<close>
  | Listen \<comment> \<open>\<open>Run\<close> listens\<close>
  | ListenEnd listen_error \<comment> \<open>\<open>ListenAndServe\<close> returns\<close>
  | Accept | Finish | ProfileBegin | ProfileEnd
  | Acquire | Release \<comment> \<open>a request takes a connection of the pool, and gives it back\<close>
  | Signal \<comment> \<open>SIGINT or SIGTERM\<close>
  | Wake \<comment> \<open>\<open>main\<close> receives from \<open>ctx.Done()\<close> and calls \<open>Stop\<close>\<close>
  | Expire \<comment> \<open>\<open>shutdownCtx\<close> ends\<close>
  | PprofStopped | HttpStopped \<comment> \<open>the two calls of \<open>Shutdown\<close> return\<close>
  | StoreClosed \<comment> \<open>\<open>a.store.Close()\<close> returns\<close>
  | CacheClosed bool \<comment> \<open>\<open>a.cache.Close()\<close> returns, without an error or with one, and so does \<open>main\<close>\<close>

text \<open>\<open>Stop\<close>: the profiling server first, then the HTTP server; both under one context.\<close>

definition stop_begin :: "process \<Rightarrow> process" where
  "stop_begin p =
     (if pr_pprof p then p\<lparr>pr_main := StoppingPprof\<rparr> else p\<lparr>pr_main := StoppingHttp, pr_shutdown := True\<rparr>)"

text \<open>\<open>Shutdown\<close> returns nil once nothing is in progress, and the error of the context when it ends first.\<close>

definition http_stopped :: "process \<Rightarrow> process option" where
  "http_stopped p =
     (if pr_requests p = 0 then Some (add_log ''shutdown complete'' (p\<lparr>pr_main := ClosingStore\<rparr>))
      else if pr_expired p
           then Some (add_log ''shutdown complete'' (add_log ''server shutdown error'' (p\<lparr>pr_main := ClosingStore\<rparr>)))
      else None)"

text \<open>\<open>close\<close>: the store first.  \<open>pgxpool.Pool.Close\<close> and \<open>sql.DB.Close\<close> refuse new uses of the pool at
  once and wait until the connections in use are given back, so the call returns only when none is
  left.  The error of the cache is logged.\<close>

definition store_closed :: "process \<Rightarrow> process option" where
  "store_closed p = (if pr_busy p = 0 then Some (p\<lparr>pr_store := False, pr_main := ClosingCache\<rparr>) else None)"

definition cache_closed :: "bool \<Rightarrow> process \<Rightarrow> process option" where
  "cache_closed ok p =
     (if ok then Some (p\<lparr>pr_cache := False, pr_main := Exited\<rparr>)
      else if pr_cache p then Some (add_log ''cache close error'' (p\<lparr>pr_cache := False, pr_main := Exited\<rparr>))
      else None)"

text \<open>The pool gives out connections until the store is being closed.\<close>

definition pool_open :: "process \<Rightarrow> bool" where
  "pool_open p \<longleftrightarrow> pr_main p \<notin> {ClosingStore, ClosingCache, Exited}"

definition api_returned :: "listen_error \<Rightarrow> process \<Rightarrow> process" where
  "api_returned err p = (case run_result err of
     None \<Rightarrow> p\<lparr>pr_api := Returned\<rparr> | Some e \<Rightarrow> add_log ''server error'' (p\<lparr>pr_api := Returned\<rparr>))"

text \<open>One step; \<open>None\<close> where the event cannot happen.  A listener ends with \<open>ErrServerClosed\<close> exactly
  when \<open>Shutdown\<close> was called.  A request gives its connections back before it ends.\<close>

definition when_allowed :: "bool \<Rightarrow> process \<Rightarrow> process option" where
  "when_allowed b p = (if b then Some p else None)"

fun life_step :: "'w server \<Rightarrow> life_event \<Rightarrow> process \<Rightarrow> process option" where
  "life_step s PprofStart p = when_allowed (pr_api p = Starting \<and> srv_pprofEnabled s \<and> \<not> pr_pprof p) (p\<lparr>pr_pprof := True\<rparr>)"
| "life_step s Listen p = when_allowed (pr_api p = Starting \<and> (srv_pprofEnabled s \<longrightarrow> pr_pprof p) \<and> \<not> pr_shutdown p)
     (p\<lparr>pr_api := Serving\<rparr>)"
| "life_step s (ListenEnd err) p = when_allowed (pr_api p \<noteq> Returned \<and> (srv_pprofEnabled s \<longrightarrow> pr_pprof p) \<and>
     (err = ErrServerClosed) = pr_shutdown p) (api_returned err p)"
| "life_step s Accept p = when_allowed (pr_api p = Serving \<and> \<not> pr_shutdown p) (p\<lparr>pr_requests := pr_requests p + 1\<rparr>)"
| "life_step s Finish p = when_allowed (pr_requests p > 0 \<and> (pr_requests p = 1 \<longrightarrow> pr_busy p = 0)) (p\<lparr>pr_requests := pr_requests p - 1\<rparr>)"
| "life_step s ProfileBegin p = when_allowed (pr_pprof p \<and> pr_main p = Waiting) (p\<lparr>pr_profiles := pr_profiles p + 1\<rparr>)"
| "life_step s ProfileEnd p = when_allowed (pr_profiles p > 0) (p\<lparr>pr_profiles := pr_profiles p - 1\<rparr>)"
| "life_step s Acquire p = when_allowed (pr_requests p > 0 \<and> pool_open p) (p\<lparr>pr_busy := pr_busy p + 1\<rparr>)"
| "life_step s Release p = when_allowed (pr_busy p > 0) (p\<lparr>pr_busy := pr_busy p - 1\<rparr>)"
| "life_step s Signal p = Some (p\<lparr>pr_signal := True\<rparr>)"
| "life_step s Wake p = when_allowed (pr_main p = Waiting \<and> pr_signal p) (stop_begin (add_log ''shutdown signal received'' p))"
| "life_step s Expire p = when_allowed (pr_main p \<in> {StoppingPprof, StoppingHttp} \<and> \<not> pr_expired p) (p\<lparr>pr_expired := True\<rparr>)"
| "life_step s PprofStopped p = when_allowed (pr_main p = StoppingPprof \<and> (pr_profiles p = 0 \<or> pr_expired p))
     (p\<lparr>pr_main := StoppingHttp, pr_shutdown := True\<rparr>)"
| "life_step s HttpStopped p = (if pr_main p = StoppingHttp then http_stopped p else None)"
| "life_step s StoreClosed p = (if pr_main p = ClosingStore then store_closed p else None)"
| "life_step s (CacheClosed ok) p = (if pr_main p = ClosingCache then cache_closed ok p else None)"

text \<open>Nothing happens after the exit.\<close>

fun life_run :: "'w server \<Rightarrow> life_event list \<Rightarrow> process \<Rightarrow> process option" where
  "life_run s [] p = Some p"
| "life_run s (e # es) p =
     (if pr_main p = Exited then None
      else case life_step s e p of None \<Rightarrow> None | Some p' \<Rightarrow> life_run s es p')"

section \<open>Starting\<close>

datatype 'w start = ExitWith nat string | Running "'w server" process

definition main_start ::
  "('k::linorder, 'j::linorder) databases \<Rightarrow> world host \<Rightarrow> bcrypt_costs \<Rightarrow> 'l zerolog_levels \<Rightarrow> world os_calls \<Rightarrow>
     string \<Rightarrow> AppConfig config_file \<Rightarrow> (world, world start) io" where
  "main_start D H B Z os cfgPath file =
     (case app_Load B cfgPath file of
        Inl err \<Rightarrow> ret (ExitWith 1 (''load config: '' @ config_error_text err @ [CHR 0x0A]))
      | Inr cfg \<Rightarrow>
          call (logger_Setup Z os (apc_Logger cfg)) (\<lambda>_.
          branch (newApplication D H cfg)
            (\<lambda>h. ret (Running (new_server cfg h) (started cfg)))
            (\<lambda>err. ret (ExitWith 1 (''init failed'')))))"

section \<open>Invariants of a run\<close>

lemma when_allowed_Some [simp]: "when_allowed b p = Some q \<longleftrightarrow> b \<and> q = p"
  by (auto simp: when_allowed_def)

lemma add_log_fields [simp]:
  "pr_main (add_log m p) = pr_main p" "pr_api (add_log m p) = pr_api p" "pr_pprof (add_log m p) = pr_pprof p"
  "pr_signal (add_log m p) = pr_signal p" "pr_shutdown (add_log m p) = pr_shutdown p"
  "pr_expired (add_log m p) = pr_expired p" "pr_requests (add_log m p) = pr_requests p"
  "pr_profiles (add_log m p) = pr_profiles p" "pr_store (add_log m p) = pr_store p"
  "pr_busy (add_log m p) = pr_busy p" "pr_cache (add_log m p) = pr_cache p"
  "pr_log (add_log m p) = pr_log p @ [m]"
  by (simp_all add: add_log_def)

lemma api_returned_fields [simp]:
  "pr_main (api_returned e p) = pr_main p" "pr_api (api_returned e p) = Returned"
  "pr_pprof (api_returned e p) = pr_pprof p" "pr_signal (api_returned e p) = pr_signal p"
  "pr_shutdown (api_returned e p) = pr_shutdown p" "pr_expired (api_returned e p) = pr_expired p"
  "pr_requests (api_returned e p) = pr_requests p" "pr_profiles (api_returned e p) = pr_profiles p"
  "pr_store (api_returned e p) = pr_store p" "pr_busy (api_returned e p) = pr_busy p" "pr_cache (api_returned e p) = pr_cache p"
  "set (pr_log p) \<subseteq> set (pr_log (api_returned e p))"
  by (auto simp: api_returned_def split: option.split)

text \<open>A property kept by every allowed step is kept by a run.\<close>

lemma life_run_inv:
  assumes "\<And>e q q'. e \<in> set es \<Longrightarrow> Q q \<Longrightarrow> pr_main q \<noteq> Exited \<Longrightarrow> life_step s e q = Some q' \<Longrightarrow> Q q'"
    and "Q p" "life_run s es p = Some p'"
  shows "Q p'"
  using assms
proof (induction es arbitrary: p)
  case (Cons e es)
  from Cons.prems(3) obtain q where q: "pr_main p \<noteq> Exited" "life_step s e p = Some q" "life_run s es q = Some p'"
    by (auto split: if_splits option.splits)
  have "Q q" by (rule Cons.prems(1) [OF _ Cons.prems(2) q(1,2)]) simp
  with q(3) Cons.prems(1) show ?case by (intro Cons.IH [of q]) auto
qed simp

lemma life_run_append:
  "life_run s (es @ fs) p = (case life_run s es p of None \<Rightarrow> None | Some q \<Rightarrow> life_run s fs q)"
  by (induction es arbitrary: p) (auto split: option.split)

text \<open>The invariant below ties the phases, the flags and the log together.\<close>

definition life_inv :: "process \<Rightarrow> bool" where
  "life_inv p \<longleftrightarrow> (pr_main p \<noteq> Waiting \<longrightarrow> pr_signal p) \<and>
     (pr_shutdown p \<longleftrightarrow> pr_main p \<notin> {Waiting, StoppingPprof}) \<and>
     (pr_store p \<longleftrightarrow> pr_main p \<notin> {ClosingCache, Exited}) \<and>
     (pr_main p = Exited \<longrightarrow> \<not> pr_cache p) \<and>
     (\<not> pr_store p \<longrightarrow> pr_busy p = 0) \<and> (pr_requests p = 0 \<longrightarrow> pr_busy p = 0) \<and>
     (\<not> pool_open p \<longrightarrow> pr_requests p > 0 \<longrightarrow> ''server shutdown error'' \<in> set (pr_log p))"

lemma life_inv_started: "life_inv (started cfg)"
  by (simp add: life_inv_def started_def pool_open_def)

lemma life_inv_step:
  assumes "life_inv p" "pr_main p \<noteq> Exited" "life_step s e p = Some p'"
  shows "life_inv p'"
proof (cases e)
  case (ListenEnd err)
  with assms show ?thesis
    using subsetD [OF api_returned_fields(12) [of p err]] by (auto simp: life_inv_def pool_open_def)
next
  case HttpStopped
  with assms show ?thesis by (auto simp: life_inv_def http_stopped_def pool_open_def split: if_splits)
next
  case StoreClosed
  with assms show ?thesis by (auto simp: life_inv_def store_closed_def pool_open_def split: if_splits)
next
  case (CacheClosed ok)
  with assms show ?thesis by (auto simp: life_inv_def cache_closed_def pool_open_def split: if_splits)
next
  case Wake
  with assms show ?thesis by (auto simp: life_inv_def stop_begin_def pool_open_def split: if_splits)
next
  case Finish
  with assms have p': "p' = p\<lparr>pr_requests := pr_requests p - 1\<rparr>" "pr_requests p > 0" "pr_requests p = 1 \<longrightarrow> pr_busy p = 0"
    by simp_all
  with assms(1) show ?thesis by (simp add: life_inv_def pool_open_def)
next
  case Accept
  with assms have p': "p' = p\<lparr>pr_requests := pr_requests p + 1\<rparr>" "\<not> pr_shutdown p" by simp_all
  with assms(1) show ?thesis by (auto simp: life_inv_def pool_open_def)
next
  case Release
  with assms have p': "p' = p\<lparr>pr_busy := pr_busy p - 1\<rparr>" "pr_busy p > 0" by simp_all
  with assms(1,2) show ?thesis by (auto simp: life_inv_def pool_open_def)
next
  case Signal
  with assms have p': "p' = p\<lparr>pr_signal := True\<rparr>" by simp
  with assms(1) show ?thesis by (simp add: life_inv_def pool_open_def)
qed (use assms in \<open>simp_all add: life_inv_def pool_open_def\<close>)

lemma life_inv_run: "life_run s es (started cfg) = Some p \<Longrightarrow> life_inv p"
  by (rule life_run_inv [where Q = life_inv]) (auto intro: life_inv_step life_inv_started)

end
