(* ===== verification/LifecycleProps.thy ===== *)
theory LifecycleProps
  imports Lifecycle ConfigProps
begin

text \<open>
  The properties of the process: what the shutdown guarantees, that it ends, and two ways in which it
  falls short; and that the logger can always be set up from a loaded configuration.
\<close>

section \<open>The logger\<close>

text \<open>The logger can always be set up from an accepted configuration, whatever the operating system
  answers: its writer and level are the configured ones, and no failure of the log file's
  preparation is reported.\<close>

theorem logger_Setup_correct:
  assumes "logger_Validate (logger_SetDefaults c) = None" "os_returns os"
    and levels: "\<And>l. l \<in> set validLevels \<Longrightarrow> zl_ParseLevel Z l = Some (level l)"
  shows "\<exists>w'. logger_Setup Z os (logger_SetDefaults c) w = (Ok
     \<lparr>ls_writer = (if lgc_Type c = ''console'' then ConsoleWriter ''15:04:05''
        else if lgc_Type c = ''file'' then (case map_option file_SetDefaults (lgc_File c) of
          Some f \<Rightarrow> FileWriter \<lparr>lj_Filename = lfc_Path f, lj_MaxSize = lfc_MaxSizeMB f, lj_MaxBackups = lfc_MaxBackups f\<rparr>
        | None \<Rightarrow> OsStdout)
        else OsStdout),
      ls_level = level (lower_text (if lgc_Level c = [] then ''info'' else lgc_Level c))\<rparr>, w')"
proof -
  let ?c = "logger_SetDefaults c"
  have "lgc_Level ?c \<noteq> []" by (simp add: logger_SetDefaults_def)
  with assms(1) have "level_valid (lgc_Level ?c)" and has_file: "lgc_Type ?c = ''file'' \<Longrightarrow> lgc_File ?c \<noteq> None"
    by (auto simp: logger_Validate_def Let_def ve_when_def ve_Err_def ve_HasErrors_def ve_Add_def split: if_splits option.splits)
  with levels level_lower have lvl: "zl_ParseLevel Z (lower_text (lgc_Level ?c)) = Some (level (lower_text (lgc_Level ?c)))"
    by blast
  have writer: "lgc_Level ?c = (if lgc_Level c = [] then ''info'' else lgc_Level c)"
    "lgc_File ?c = map_option file_SetDefaults (lgc_File c)"
    "lgc_Type ?c = (if lgc_Type c = [] then ''stdout'' else lgc_Type c)"
    by (simp_all add: logger_SetDefaults_def)
  have "yields (call (newFileWriter os f) (\<lambda>lj. ret (FileWriter lj)))
      (FileWriter \<lparr>lj_Filename = lfc_Path f, lj_MaxSize = lfc_MaxSizeMB f, lj_MaxBackups = lfc_MaxBackups f\<rparr>)" for f
    by (rule yields_then [OF newFileWriter_yields [OF assms(2)] yields_ret])
  then have "yields (logger_Setup Z os ?c)
     \<lparr>ls_writer = (if lgc_Type ?c = ''console'' then ConsoleWriter ''15:04:05''
        else if lgc_Type ?c = ''file'' then (case lgc_File ?c of
          Some f \<Rightarrow> FileWriter \<lparr>lj_Filename = lfc_Path f, lj_MaxSize = lfc_MaxSizeMB f, lj_MaxBackups = lfc_MaxBackups f\<rparr>
        | None \<Rightarrow> OsStdout)
        else OsStdout),
      ls_level = level (lower_text (lgc_Level ?c))\<rparr>"
    unfolding logger_Setup_def Let_def lvl option.case
    using has_file by (intro yields_then [OF _ yields_ret]) (auto simp: yields_ret split: option.split)
  then show ?thesis unfolding writer by (auto simp: yields_def split: if_splits)
qed

text \<open>A file on a read-only disk, with an owner nobody knows.\<close>

definition dead_os :: "nat os_calls" where
  "dead_os = \<lparr>os_MkdirAll = (\<lambda>_ _. throw (Lib ''read-only file system'')),
     os_OpenFile = (\<lambda>_ _. throw (Lib ''read-only file system'')), os_CloseFile = (\<lambda>_. ret ()),
     os_Chmod = (\<lambda>_ _. ret ()), os_Chown = (\<lambda>_ _ _. throw (Lib ''operation not permitted'')),
     user_Lookup = (\<lambda>_. throw (Lib ''unknown user'')), user_LookupGroup = (\<lambda>_. throw (Lib ''unknown group''))\<rparr>"

definition demo_logger :: logger_Config where
  "demo_logger = \<lparr>lgc_Type = ''file'', lgc_Level = [], lgc_File = Some \<lparr>lfc_Path = ''/var/log/chat.log'',
     lfc_Owner = ''chat'', lfc_Group = [], lfc_Mode = 0, lfc_MaxBackups = 0, lfc_MaxSizeMB = 0\<rparr>\<rparr>"

theorem logger_Setup_correct_witness:
  "\<exists>w'. logger_Setup \<lparr>zl_ParseLevel = Some, zl_InfoLevel = ''info''\<rparr> dead_os (logger_SetDefaults demo_logger) 0 =
     (Ok \<lparr>ls_writer = FileWriter \<lparr>lj_Filename = ''/var/log/chat.log'', lj_MaxSize = 256, lj_MaxBackups = 3\<rparr>,
          ls_level = ''info''\<rparr>, w')"
proof -
  have "logger_Validate (logger_SetDefaults demo_logger) = None"
    using level_info by (simp add: logger_Validate_def logger_SetDefaults_def file_SetDefaults_def demo_logger_def
        ve_when_def ve_Err_def ve_HasErrors_def)
  moreover have "os_returns dead_os"
    by (simp add: os_returns_def returns_def dead_os_def ret_def throw_def)
  moreover have "lower_text ''info'' = ''info''"
    by code_simp
  ultimately show ?thesis
    using logger_Setup_correct [of demo_logger dead_os "\<lparr>zl_ParseLevel = Some, zl_InfoLevel = ''info''\<rparr>" id 0]
    by (simp add: demo_logger_def file_SetDefaults_def)
qed

section \<open>Shutdown\<close>

definition demo_server :: "nat server" where
  "demo_server = new_server (minimal_app\<lparr>apc_Profile := \<lparr>prc_Enabled = True, prc_Addr = ''localhost:8082''\<rparr>\<rparr>)
     (mux_ServeHTTP [])"

lemma demo_pprof [simp]: "srv_pprofEnabled demo_server"
  by (simp add: demo_server_def new_server_def Let_def)

lemmas life_eval = when_allowed_def started_def stop_begin_def http_stopped_def store_closed_def cache_closed_def
  pool_open_def add_log_def api_returned_def run_result_def

text \<open>C37: In every run of the process the store stays open until \<open>main\<close> closes it, which ends only when no
  request holds a connection of its pool any more; \<open>main\<close> closes it, and returns, only after a signal,
  and it starts to close it while a request is in progress only if \<open>server shutdown error\<close> was logged;
  when \<open>main\<close> has returned, the store and the cache are closed.\<close>

theorem graceful_shutdown:
  assumes "life_run s es (started cfg) = Some p"
  shows "(pr_store p \<longleftrightarrow> pr_main p \<notin> {ClosingCache, Exited}) \<and> (pr_store p \<or> pr_busy p = 0) \<and>
     (pr_main p = Waiting \<or> pr_signal p) \<and>
     (pool_open p \<or> pr_requests p = 0 \<or> ''server shutdown error'' \<in> set (pr_log p)) \<and>
     (pr_main p \<noteq> Exited \<or> \<not> pr_store p \<and> \<not> pr_cache p)"
  using life_inv_run [OF assms] by (auto simp: life_inv_def)

theorem graceful_shutdown_witness:
  "\<exists>p. life_run demo_server [PprofStart, Listen, Accept, Acquire, Signal, Wake, PprofStopped, Release, Finish,
       HttpStopped, StoreClosed, CacheClosed True] (started minimal_app) = Some p \<and>
     pr_main p = Exited \<and> \<not> pr_store p \<and> pr_requests p = 0"
proof -
  obtain p where p: "life_run demo_server [PprofStart, Listen, Accept, Acquire, Signal, Wake, PprofStopped, Release, Finish,
      HttpStopped, StoreClosed, CacheClosed True] (started minimal_app) = Some p" "pr_main p = Exited"
    "''server shutdown error'' \<notin> set (pr_log p)"
    by (simp add: life_eval)
  with graceful_shutdown [OF p(1)] show ?thesis by (auto simp: pool_open_def)
qed

text \<open>The steps of \<open>main\<close> after a signal, its timer among them.\<close>

fun main_event :: "life_event \<Rightarrow> bool" where
  "main_event Wake = True"
| "main_event Expire = True"
| "main_event PprofStopped = True"
| "main_event HttpStopped = True"
| "main_event StoreClosed = True"
| "main_event (CacheClosed ok) = True"
| "main_event _ = False"

text \<open>How many of them are left at most.\<close>

definition steps_left :: "process \<Rightarrow> nat" where
  "steps_left p = (case pr_main p of Waiting \<Rightarrow> 5 | StoppingPprof \<Rightarrow> 4 | StoppingHttp \<Rightarrow> 3 | ClosingStore \<Rightarrow> 2
     | ClosingCache \<Rightarrow> 1 | Exited \<Rightarrow> 0) + (if pr_expired p then 0 else 1)"

lemma main_step_counts:
  assumes "main_event e" "life_step s e p = Some p'"
  shows "steps_left p' < steps_left p"
proof (cases e)
  case HttpStopped
  with assms have "pr_main p = StoppingHttp" "pr_main p' = ClosingStore" "pr_expired p' = pr_expired p"
    by (auto simp: http_stopped_def split: if_splits)
  then show ?thesis by (simp add: steps_left_def)
next
  case (CacheClosed ok)
  with assms have "pr_main p = ClosingCache" "pr_main p' = Exited" "pr_expired p' = pr_expired p"
    by (auto simp: cache_closed_def split: if_splits)
  then show ?thesis by (simp add: steps_left_def)
qed (use assms in \<open>auto simp: steps_left_def stop_begin_def store_closed_def split: if_splits\<close>)

lemma other_step_counts:
  assumes "\<not> main_event e" "life_step s e p = Some p'"
  shows "steps_left p' = steps_left p"
  using assms by (cases e) (auto simp: steps_left_def)

lemma main_steps_bounded:
  "life_run s fs p = Some p' \<Longrightarrow> length (filter main_event fs) + steps_left p' \<le> steps_left p"
proof (induction fs arbitrary: p)
  case (Cons e fs)
  then obtain q where q: "life_step s e p = Some q" "life_run s fs q = Some p'"
    by (auto split: if_splits option.splits)
  from Cons.IH [OF q(2)] main_step_counts [OF _ q(1)] other_step_counts [OF _ q(1)] show ?case by fastforce
qed simp

text \<open>Which step is next, and that \<open>main\<close> waits for nothing else but the pool.\<close>

definition next_step :: "process \<Rightarrow> life_event" where
  "next_step p = (case pr_main p of Waiting \<Rightarrow> Wake
     | StoppingPprof \<Rightarrow> if pr_expired p then PprofStopped else Expire
     | StoppingHttp \<Rightarrow> if pr_expired p then HttpStopped else Expire
     | ClosingStore \<Rightarrow> if pr_busy p = 0 then StoreClosed else Release
     | _ \<Rightarrow> CacheClosed True)"

lemma next_step_moves:
  assumes "pr_signal p" "pr_main p \<noteq> Exited"
  obtains p' where "life_step s (next_step p) p = Some p'" "pr_signal p'"
    "steps_left p' + pr_busy p' < steps_left p + pr_busy p"
    "main_event (next_step p) \<or> next_step p = Release \<and> pr_main p = ClosingStore \<and> pr_busy p > 0"
proof -
  have "\<exists>p'. life_step s (next_step p) p = Some p' \<and> pr_signal p' \<and>
    steps_left p' + pr_busy p' < steps_left p + pr_busy p \<and>
    (main_event (next_step p) \<or> next_step p = Release \<and> pr_main p = ClosingStore \<and> pr_busy p > 0)"
    using assms
    by (cases "pr_main p"; cases "pr_expired p"; cases "pr_busy p = 0"; cases "pr_pprof p")
      (auto simp: next_step_def life_eval steps_left_def)
  with that show ?thesis by blast
qed

lemma exit_reachable:
  assumes "pr_signal p"
  shows "\<exists>fs p'. list_all (\<lambda>e. main_event e \<or> e = Release) fs \<and> length fs \<le> steps_left p + pr_busy p \<and>
     life_run s fs p = Some p' \<and> pr_main p' = Exited"
  using assms
proof (induction "steps_left p + pr_busy p" arbitrary: p rule: less_induct)
  case less
  show ?case
  proof (cases "pr_main p = Exited")
    case True
    then show ?thesis by (intro exI [of _ "[]"]) simp
  next
    case False
    with less.prems obtain q where q: "life_step s (next_step p) p = Some q" "pr_signal q"
      "steps_left q + pr_busy q < steps_left p + pr_busy p" "main_event (next_step p) \<or> next_step p = Release"
      by (rule next_step_moves) blast
    from less.hyps [OF q(3,2)] obtain fs p' where "list_all (\<lambda>e. main_event e \<or> e = Release) fs"
      "length fs \<le> steps_left q + pr_busy q" "life_run s fs q = Some p'" "pr_main p' = Exited" by blast
    with q False show ?thesis by (intro exI [of _ "next_step p # fs"] exI [of _ p']) simp
  qed
qed

text \<open>C38: Once a signal has arrived, the exit is near, and only the store's pool can keep \<open>main\<close> from it:
  at most six steps of \<open>main\<close> and its 30-second timer, and the return of the connections in use, lead
  to the exit; and in every continuation \<open>main\<close> makes at most six steps, and the next one is possible
  unless \<open>main\<close> has returned or closes the store while a request holds a connection.  Requests and
  profiles in progress hold up the servers until the timer ends at most.\<close>

theorem shutdown_ends:
  assumes "life_run s es (started cfg) = Some p" "pr_signal p"
  shows "(\<exists>fs p'. list_all (\<lambda>e. main_event e \<or> e = Release) fs \<and> length fs \<le> 6 + pr_busy p \<and>
       life_run s fs p = Some p' \<and> pr_main p' = Exited) \<and>
     (\<forall>fs p'. life_run s fs p = Some p' \<longrightarrow> length (filter main_event fs) \<le> 6 \<and>
       (pr_main p' = Exited \<or> pr_main p' = ClosingStore \<and> pr_busy p' > 0 \<or>
        (\<exists>e. main_event e \<and> life_step s e p' \<noteq> None)))"
proof (intro conjI allI impI)
  have six: "steps_left p \<le> 6" by (cases "pr_main p") (simp_all add: steps_left_def)
  with exit_reachable [OF assms(2), of s]
  show "\<exists>fs p'. list_all (\<lambda>e. main_event e \<or> e = Release) fs \<and> length fs \<le> 6 + pr_busy p \<and>
      life_run s fs p = Some p' \<and> pr_main p' = Exited"
    by (meson add_right_mono order_trans)
  fix fs p' assume run: "life_run s fs p = Some p'"
  from main_steps_bounded [OF run] six show "length (filter main_event fs) \<le> 6" by simp
  have "pr_signal q'" if "pr_signal q" "life_step s e q = Some q'" for e q q'
    using that by (cases e) (auto simp: stop_begin_def http_stopped_def store_closed_def cache_closed_def split: if_splits)
  then have sig: "pr_signal p'" using life_run_inv [where Q = pr_signal, OF _ assms(2) run] by blast
  show "pr_main p' = Exited \<or> pr_main p' = ClosingStore \<and> pr_busy p' > 0 \<or>
      (\<exists>e. main_event e \<and> life_step s e p' \<noteq> None)"
  proof (cases "pr_main p' = Exited")
    case False
    from next_step_moves [OF sig this, of s] obtain q where "life_step s (next_step p') p' = Some q"
      "main_event (next_step p') \<or> next_step p' = Release \<and> pr_main p' = ClosingStore \<and> pr_busy p' > 0" by blast
    then show ?thesis by auto
  qed simp
qed

theorem shutdown_ends_witness:
  "\<exists>p fs p'. life_run demo_server [PprofStart, Listen, ProfileBegin, Accept, Acquire, Signal] (started minimal_app) = Some p \<and>
     length fs \<le> 7 \<and> life_run demo_server fs p = Some p' \<and> pr_main p' = Exited"
proof -
  obtain p where p: "life_run demo_server [PprofStart, Listen, ProfileBegin, Accept, Acquire, Signal]
      (started minimal_app) = Some p" "pr_signal p" "pr_busy p = 1"
    by (simp add: life_eval)
  from shutdown_ends [OF p(1,2)] p show ?thesis by fastforce
qed

section \<open>Where it falls short\<close>

lemma returned_stays:
  "life_run s fs p = Some p' \<Longrightarrow> pr_api p = Returned \<Longrightarrow> pr_api p' = Returned \<and> Accept \<notin> set fs"
proof (induction fs arbitrary: p)
  case (Cons e fs)
  then obtain q where q: "life_step s e p = Some q" "life_run s fs q = Some p'"
    by (auto split: if_splits option.splits)
  with Cons.prems(2) have "pr_api q = Returned" "e \<noteq> Accept"
    by (cases e; auto simp: life_eval split: if_splits)+
  with Cons.IH [OF q(2)] show ?case by auto
qed simp

lemma waiting_stays:
  "life_run s fs p = Some p' \<Longrightarrow> pr_main p = Waiting \<Longrightarrow> \<not> pr_signal p \<Longrightarrow> Signal \<notin> set fs \<Longrightarrow>
     pr_main p' = Waiting \<and> \<not> pr_signal p'"
proof (induction fs arbitrary: p)
  case (Cons e fs)
  then obtain q where q: "life_step s e p = Some q" "life_run s fs q = Some p'"
    by (auto split: if_splits option.splits)
  with Cons.prems(2-) have "pr_main q = Waiting" "\<not> pr_signal q"
    by (cases e; auto simp: life_eval split: if_splits)+
  with Cons.IH [OF q(2)] Cons.prems(4) show ?case by simp
qed simp

text \<open>The 30 seconds bound the shutdown of the servers, not the exit: \<open>close\<close> comes after them, and
  while a request that was cut off still holds a connection of the pool, \<open>main\<close> stays in the call
  that closes the store, whatever else happens.\<close>

theorem busy_query_keeps_process:
  assumes "life_run s es p = Some p'" "pr_main p = ClosingStore" "pr_busy p > 0" "Release \<notin> set es"
  shows "pr_main p' = ClosingStore \<and> pr_busy p' = pr_busy p \<and> pr_store p' = pr_store p"
proof -
  let ?Q = "\<lambda>q. pr_main q = ClosingStore \<and> pr_busy q = pr_busy p \<and> pr_store q = pr_store p"
  show ?thesis
  proof (rule life_run_inv [where Q = ?Q, OF _ _ assms(1)])
    fix e q q' assume e: "e \<in> set es" and q: "?Q q" and step: "life_step s e q = Some q'"
    from e assms(4) have "e \<noteq> Release" by auto
    with q step assms(3) show "?Q q'"
      by (cases e) (auto simp: store_closed_def pool_open_def split: if_splits)
  qed (use assms in simp)
qed

theorem busy_query_keeps_process_witness:
  "\<exists>p p'. life_run demo_server [PprofStart, Listen, Accept, Acquire, Signal, Wake, PprofStopped, Expire, HttpStopped]
       (started minimal_app) = Some p \<and> life_run demo_server [ListenEnd ErrServerClosed, Signal] p = Some p' \<and>
     pr_main p' = ClosingStore"
proof -
  obtain p p' where p: "life_run demo_server [PprofStart, Listen, Accept, Acquire, Signal, Wake, PprofStopped, Expire,
      HttpStopped] (started minimal_app) = Some p" "pr_main p = ClosingStore" "pr_busy p > 0"
    and p': "life_run demo_server [ListenEnd ErrServerClosed, Signal] p = Some p'"
    by (simp add: life_eval)
  with busy_query_keeps_process [OF p' p(2,3)] show ?thesis by auto
qed

text \<open>\<open>delivery.Config.Validate\<close> looks at the HTTP section only when HTTP is enabled, while the process
  always listens there: a configuration that enables WebSockets alone loads with a port that
  does not exist and a body limit that no request meets, and both are used.\<close>

definition ws_only :: AppConfig where
  "ws_only = minimal_app\<lparr>apc_Delivery := (apc_Delivery minimal_app)\<lparr>dlc_Enabled := [''ws''],
     dlc_HTTP := (dlc_HTTP (apc_Delivery minimal_app))\<lparr>htc_Port := -1, htc_MaxBodyBytes := -5\<rparr>\<rparr>\<rparr>"

theorem ws_only_port_unchecked:
  "\<exists>c. app_Load demo_costs ''configs/app.yaml'' (app_file ws_only) = Inr c \<and>
     htc_MaxBodyBytes (dlc_HTTP (apc_Delivery c)) = -5 \<and>
     run_listener (new_server c h) = ListenAndServe (htc_Host (dlc_HTTP (apc_Delivery c)) @ '':'' @ int_text (-1))"
proof -
  have "filepath_Ext ''configs/app.yaml'' = ''.yaml''" by (simp add: filepath_Ext_def)
  moreover have "app_Validate demo_costs (app_SetDefaults demo_costs ws_only) = None"
    by (simp add: app_Validate_def app_SetDefaults_def ws_only_def minimal_app_def storage_SetDefaults_def storage_Validate_def
        pg_SetDefaults_def pg_Validate_def jwt_SetDefaults_def jwt_Validate_def logger_SetDefaults_def logger_Validate_def
        hasher_SetDefaults_def hasher_Validate_def demo_costs_def delivery_SetDefaults_def delivery_Validate_def
        http_SetDefaults_def http_Validate_def seconds_def level_info Let_def IsEnabled_def)
  ultimately have "app_Load demo_costs ''configs/app.yaml'' (app_file ws_only) = Inr (app_SetDefaults demo_costs ws_only)"
    by (simp add: app_Load_def load_config_def app_file_def Let_def)
  moreover have "dlc_HTTP (apc_Delivery (app_SetDefaults demo_costs ws_only)) =
      http_SetDefaults (dlc_HTTP (apc_Delivery ws_only))"
    by (simp add: app_SetDefaults_def delivery_SetDefaults_def)
  moreover have "htc_Port (http_SetDefaults (dlc_HTTP (apc_Delivery ws_only))) = -1"
    "htc_MaxBodyBytes (http_SetDefaults (dlc_HTTP (apc_Delivery ws_only))) = -5"
    "htc_TLS (http_SetDefaults (dlc_HTTP (apc_Delivery ws_only))) = None"
    by (simp_all add: http_SetDefaults_def ws_only_def minimal_app_def)
  ultimately show ?thesis by (simp add: run_listener_def new_server_def Let_def)
qed

text \<open>A server that cannot listen, or stops listening, keeps its process: the error is logged,
  and until a signal arrives \<open>main\<close> waits while no request is accepted any more.\<close>

theorem failed_server_lingers:
  assumes "life_run s (es @ ListenEnd err # fs) (started cfg) = Some p" "Signal \<notin> set (es @ fs)"
  shows "pr_main p = Waiting \<and> pr_api p = Returned \<and> Accept \<notin> set fs \<and> err \<noteq> ErrServerClosed"
proof -
  from assms(1) obtain q q' where q: "life_run s es (started cfg) = Some q" "life_step s (ListenEnd err) q = Some q'"
    "life_run s fs q' = Some p"
    by (auto simp: life_run_append split: option.splits if_splits)
  from waiting_stays [OF q(1)] assms(2) have w: "pr_main q = Waiting" "\<not> pr_signal q"
    by (simp_all add: started_def)
  with q(2) life_inv_run [OF q(1)] have q': "pr_main q' = Waiting" "\<not> pr_signal q'" "pr_api q' = Returned" "err \<noteq> ErrServerClosed"
    by (auto simp: life_inv_def)
  from waiting_stays [OF q(3) q'(1,2)] returned_stays [OF q(3) q'(3)] assms(2) q'(4) show ?thesis by simp
qed

theorem failed_server_lingers_witness:
  "\<exists>p. life_run demo_server [PprofStart, ListenEnd (ListenError ''address already in use''), ProfileBegin, ProfileEnd]
       (started minimal_app) = Some p \<and> pr_main p = Waiting \<and> pr_log p = [''server error'']"
proof -
  obtain p where p: "life_run demo_server ([PprofStart] @ ListenEnd (ListenError ''address already in use'') #
      [ProfileBegin, ProfileEnd]) (started minimal_app) = Some p" "pr_log p = [''server error'']"
    by (simp add: life_eval)
  from failed_server_lingers [OF p(1)] p show ?thesis by simp
qed

text \<open>The two servers share the 30 seconds: while a profile is being taken \<open>Stop\<close> waits for the
  profiling server, so the HTTP server, which goes on accepting requests, is shut down only when the
  time is over, and its requests are cut off.\<close>

theorem profile_uses_up_the_grace:
  assumes "life_run s es p = Some p'" "pr_main p = StoppingPprof" "pr_profiles p > 0" "ProfileEnd \<notin> set es"
  shows "pr_main p' = StoppingPprof \<or> pr_expired p'"
proof -
  let ?Q = "\<lambda>q. pr_profiles q > 0 \<and> (pr_main q = StoppingPprof \<or> pr_main q \<noteq> Waiting \<and> pr_expired q)"
  have "?Q p'"
  proof (rule life_run_inv [where Q = ?Q, OF _ _ assms(1)])
    fix e q q' assume e: "e \<in> set es" and q: "?Q q" and step: "life_step s e q = Some q'"
    from e assms(4) have "e \<noteq> ProfileEnd" by auto
    with q step show "?Q q'"
      by (cases e) (auto simp: life_eval split: if_splits option.splits)
  qed (use assms in simp)
  then show ?thesis by auto
qed

theorem profile_uses_up_the_grace_witness:
  "\<exists>p p'. life_run demo_server [PprofStart, Listen, ProfileBegin, Signal, Wake] (started minimal_app) = Some p \<and>
     life_run demo_server [Accept, Expire, PprofStopped, HttpStopped, StoreClosed, CacheClosed True] p = Some p' \<and>
     pr_expired p' \<and> pr_main p' = Exited \<and> pr_requests p' = 1"
proof -
  obtain p p' where p: "life_run demo_server [PprofStart, Listen, ProfileBegin, Signal, Wake] (started minimal_app) = Some p"
    "life_run demo_server [Accept, Expire, PprofStopped, HttpStopped, StoreClosed, CacheClosed True] p = Some p'"
    "pr_main p = StoppingPprof" "pr_profiles p > 0" "pr_main p' = Exited" "pr_requests p' = 1"
    by (simp add: life_eval)
  with profile_uses_up_the_grace [OF p(2-4)] show ?thesis by auto
qed

end
