(* ===== verification/WsLife.thy ===== *)
theory WsLife
  imports Ws Config
begin

text \<open>
  The life of one WebSocket connection (delivery/ws/client.go): \<open>Run\<close> with its two goroutines, the
  read deadline, the pings and the write deadline.  A run is a sequence of events with the passing of
  time among them.  Timers are noticed at once by a goroutine that waits for them, and a closed
  connection by the reader; a write, of a ping as of a message, may last until its deadline, and the
  writer does nothing else meanwhile.  What the frames mean to the rooms is in Ws.
\<close>

section \<open>The session\<close>

definition writeWait :: duration where
  "writeWait = seconds 10"

definition pongWait :: duration where
  "pongWait = seconds 60"

definition pingPeriod :: duration where
  "pingPeriod = (pongWait * 9) div 10"

lemma ws_times: "writeWait = 10000000000" "pongWait = 60000000000" "pingPeriod = 54000000000"
  by (simp_all add: writeWait_def pongWait_def pingPeriod_def seconds_def)

datatype ws_out = TextMessage json | PingMessage

text \<open>\<open>se_writing\<close>: what \<open>writePump\<close> is writing and, after the first message of a batch and for a ping,
  how many more it will take; \<open>se_writeDeadline\<close> is set once for the batch.\<close>

record session =
  se_now :: int
  se_readDeadline :: int
  se_writeDeadline :: int
  se_tick :: int
  se_open :: bool
  se_reader :: bool
  se_writer :: bool
  se_subscribed :: bool
  se_send :: "json list"
  se_writing :: "(ws_out \<times> nat option) option"
  se_out :: "ws_out list"

text \<open>\<open>NewClient\<close> and the start of the two pumps.\<close>

definition session_start :: "int \<Rightarrow> session" where
  "session_start t = \<lparr>se_now = t, se_readDeadline = t + pongWait, se_writeDeadline = t, se_tick = t + pingPeriod,
     se_open = True, se_reader = True, se_writer = True, se_subscribed = True, se_send = [],
     se_writing = None, se_out = []\<rparr>"

datatype session_event =
    Elapse int
  | Deliver json \<comment> \<open>the hub offers a message\<close>
  | Pong | DataFrame | ReadTimeout | ReadError
  | Take \<comment> \<open>\<open>writePump\<close> receives from \<open>c.send\<close>\<close>
  | Wrote bool \<comment> \<open>\<open>WriteMessage\<close> returns, without an error or with one\<close>
  | Tick \<comment> \<open>\<open>writePump\<close> receives from \<open>ticker.C\<close>\<close>

section \<open>The pumps\<close>

text \<open>The deferred calls.\<close>

definition reader_exit :: "session \<Rightarrow> session" where
  "reader_exit s = s\<lparr>se_reader := False, se_subscribed := False, se_open := False\<rparr>"

definition writer_exit :: "session \<Rightarrow> session" where
  "writer_exit s = s\<lparr>se_writer := False, se_writing := None, se_open := False\<rparr>"

definition allowed :: "bool \<Rightarrow> session \<Rightarrow> session option" where
  "allowed b s = (if b then Some s else None)"

text \<open>The next message of a batch: \<open>n\<close> is \<open>len(c.send)\<close> after the first write.\<close>

definition next_write :: "ws_out \<Rightarrow> nat option \<Rightarrow> session \<Rightarrow> session" where
  "next_write m k s =
     (let s1 = s\<lparr>se_out := se_out s @ [m], se_writing := None\<rparr>;
          n = (case k of None \<Rightarrow> length (se_send s) | Some j \<Rightarrow> j)
      in case se_send s of
           m' # rest \<Rightarrow> if n = 0 then s1 else s1\<lparr>se_writing := Some (TextMessage m', Some (n - 1)), se_send := rest\<rparr>
         | [] \<Rightarrow> s1)"

definition time_may_pass :: "int \<Rightarrow> session \<Rightarrow> bool" where
  "time_may_pass d s \<longleftrightarrow> 0 < d \<and>
     (se_reader s \<longrightarrow> se_open s \<and> se_now s + d \<le> se_readDeadline s) \<and>
     (se_writer s \<longrightarrow> (if se_writing s = None then se_send s = [] \<and> se_now s + d \<le> se_tick s
                     else se_now s + d \<le> se_writeDeadline s))"

fun session_step :: "session_event \<Rightarrow> session \<Rightarrow> session option" where
  "session_step (Elapse d) s = allowed (time_may_pass d s) (s\<lparr>se_now := se_now s + d\<rparr>)"
| "session_step (Deliver m) s = allowed (se_subscribed s)
     (if length (se_send s) < sendBufferSize then s\<lparr>se_send := se_send s @ [m]\<rparr> else s)"
| "session_step Pong s = allowed (se_reader s \<and> se_open s) (s\<lparr>se_readDeadline := se_now s + pongWait\<rparr>)"
| "session_step DataFrame s = allowed (se_reader s \<and> se_open s) s"
| "session_step ReadTimeout s = allowed (se_reader s \<and> se_readDeadline s \<le> se_now s) (reader_exit s)"
| "session_step ReadError s = allowed (se_reader s) (reader_exit s)"
| "session_step Take s = (case se_send s of
     m # rest \<Rightarrow> allowed (se_writer s \<and> se_writing s = None)
       (s\<lparr>se_writing := Some (TextMessage m, None), se_send := rest, se_writeDeadline := se_now s + writeWait\<rparr>)
   | [] \<Rightarrow> None)"
| "session_step (Wrote ok) s = (case se_writing s of
     Some (m, k) \<Rightarrow> if ok then allowed (se_open s) (next_write m k s) else Some (writer_exit s)
   | None \<Rightarrow> None)"
| "session_step Tick s = allowed (se_writer s \<and> se_writing s = None \<and> se_tick s \<le> se_now s)
     (s\<lparr>se_writing := Some (PingMessage, Some 0), se_writeDeadline := se_now s + writeWait,
        se_tick := se_tick s + pingPeriod\<rparr>)"

fun session_run :: "session_event list \<Rightarrow> session \<Rightarrow> session option" where
  "session_run [] s = Some s"
| "session_run (e # es) s = (case session_step e s of None \<Rightarrow> None | Some s' \<Rightarrow> session_run es s')"

lemma session_run_append:
  "session_run (es @ fs) s = (case session_run es s of None \<Rightarrow> None | Some s' \<Rightarrow> session_run fs s')"
  by (induction es arbitrary: s) (auto split: option.split)

lemma allowed_Some [simp]: "allowed b s = Some s' \<longleftrightarrow> b \<and> s' = s"
  by (auto simp: allowed_def)

lemma next_write_fields [simp]:
  "se_now (next_write m k s) = se_now s" "se_readDeadline (next_write m k s) = se_readDeadline s"
  "se_writeDeadline (next_write m k s) = se_writeDeadline s" "se_tick (next_write m k s) = se_tick s"
  "se_open (next_write m k s) = se_open s" "se_reader (next_write m k s) = se_reader s"
  "se_writer (next_write m k s) = se_writer s" "se_subscribed (next_write m k s) = se_subscribed s"
  by (auto simp: next_write_def Let_def split: list.split)

lemma session_step_cases:
  assumes "session_step e s = Some s'"
  obtains (elapse) d where "e = Elapse d" "time_may_pass d s" "s' = s\<lparr>se_now := se_now s + d\<rparr>"
    | (deliver) m where "e = Deliver m" "se_subscribed s"
        "s' = (if length (se_send s) < sendBufferSize then s\<lparr>se_send := se_send s @ [m]\<rparr> else s)"
    | (pong) "e = Pong" "se_reader s" "se_open s" "s' = s\<lparr>se_readDeadline := se_now s + pongWait\<rparr>"
    | (data) "e = DataFrame" "s' = s"
    | (read_end) "e \<in> {ReadTimeout, ReadError}" "se_reader s" "e = ReadTimeout \<Longrightarrow> se_readDeadline s \<le> se_now s"
        "s' = reader_exit s"
    | (take) m rest where "e = Take" "se_send s = m # rest" "se_writer s" "se_writing s = None"
        "s' = s\<lparr>se_writing := Some (TextMessage m, None), se_send := rest, se_writeDeadline := se_now s + writeWait\<rparr>"
    | (wrote) m k where "e = Wrote True" "se_writing s = Some (m, k)" "se_open s" "s' = next_write m k s"
    | (ping) "e = Tick" "se_writer s" "se_writing s = None" "se_tick s \<le> se_now s"
        "s' = s\<lparr>se_writing := Some (PingMessage, Some 0), se_writeDeadline := se_now s + writeWait,
          se_tick := se_tick s + pingPeriod\<rparr>"
    | (write_end) "e = Wrote False" "s' = writer_exit s"
proof (cases e)
  case (Elapse d)
  with assms that(1) show ?thesis by simp
next
  case (Deliver m)
  with assms that(2) show ?thesis by simp
next
  case Pong
  with assms that(3) show ?thesis by simp
next
  case DataFrame
  with assms that(4) show ?thesis by simp
next
  case ReadTimeout
  with assms that(5) show ?thesis by simp
next
  case ReadError
  with assms that(5) show ?thesis by simp
next
  case Take
  with assms that(6) show ?thesis by (auto split: list.splits)
next
  case (Wrote ok)
  with assms that(7,9) show ?thesis by (cases ok) (auto split: option.splits prod.splits)
next
  case Tick
  with assms that(8) show ?thesis by simp
qed

section \<open>Invariants\<close>

text \<open>The ends of the pumps, and what the timers are set to.\<close>

definition session_inv :: "session \<Rightarrow> bool" where
  "session_inv s \<longleftrightarrow> (se_subscribed s \<longleftrightarrow> se_reader s) \<and> (se_reader s \<and> se_writer s \<or> \<not> se_open s) \<and>
     (se_reader s \<longrightarrow> se_now s \<le> se_readDeadline s) \<and> length (se_send s) \<le> sendBufferSize \<and>
     (se_writing s \<noteq> None \<longrightarrow> se_writer s \<and> se_now s \<le> se_writeDeadline s) \<and>
     se_writeDeadline s \<le> se_now s + writeWait \<and> (se_writer s \<longrightarrow> se_tick s \<le> se_now s + pingPeriod)"

lemma session_inv_start: "session_inv (session_start t)"
  by (simp add: session_inv_def session_start_def ws_times)

lemma next_write_send: "length (se_send (next_write m k s)) \<le> length (se_send s)"
  by (auto simp: next_write_def Let_def split: list.split)

lemma session_inv_step:
  assumes "session_inv s" "session_step e s = Some s'"
  shows "session_inv s'"
  using assms(2)
proof (cases rule: session_step_cases)
  case (wrote m k)
  with assms(1) next_write_send [of m k s] show ?thesis by (auto simp: session_inv_def)
qed (use assms(1) in \<open>auto simp: session_inv_def time_may_pass_def reader_exit_def writer_exit_def ws_times
    split: if_splits\<close>)

lemma session_inv_run: "session_run es s = Some s' \<Longrightarrow> session_inv s \<Longrightarrow> session_inv s'"
  by (induction es arbitrary: s) (auto split: option.splits intro: session_inv_step)

end
