(* ===== verification/WsLifeProps.thy ===== *)
theory WsLifeProps
  imports WsLife
begin

text \<open>
  The keep-alive of a WebSocket connection: a peer whose pings are answered in time keeps it, and a peer
  that falls silent loses it, with everything that belongs to it, within a bounded time.
\<close>

section \<open>A responsive peer\<close>

text \<open>A run in which every ping is written and answered within \<open>pongWait - pingPeriod\<close> of the time it is
  due, however long the messages take; \<open>p\<close> is the time at which the ping still open was due.\<close>

definition ping_due :: "int option \<Rightarrow> session \<Rightarrow> int" where
  "ping_due p s = (case p of None \<Rightarrow> se_tick s | Some t \<Rightarrow> t)"

definition open_ping :: "session_event \<Rightarrow> session \<Rightarrow> int option \<Rightarrow> int option" where
  "open_ping e s p = (case e of Tick \<Rightarrow> Some (se_tick s) | Pong \<Rightarrow> None | _ \<Rightarrow> p)"

fun attentive :: "session_event list \<Rightarrow> int option \<Rightarrow> session \<Rightarrow> bool" where
  "attentive [] p s \<longleftrightarrow> True"
| "attentive (e # es) p s \<longleftrightarrow>
     (case e of Elapse d \<Rightarrow> se_now s + d < ping_due p s + (pongWait - pingPeriod) | _ \<Rightarrow> True) \<and>
     (case session_step e s of None \<Rightarrow> False | Some s' \<Rightarrow> attentive es (open_ping e s p) s')"

definition kept_alive :: "int option \<Rightarrow> session \<Rightarrow> bool" where
  "kept_alive p s \<longleftrightarrow> (se_writer s \<longrightarrow> se_reader s \<longrightarrow>
     se_now s < ping_due p s + (pongWait - pingPeriod) \<and>
     ping_due p s + (pongWait - pingPeriod) \<le> se_readDeadline s \<and> se_tick s \<le> se_now s + pingPeriod \<and>
     (p \<noteq> None \<longrightarrow> se_tick s = ping_due p s + pingPeriod))"

lemma kept_alive_step:
  assumes "kept_alive p s" "attentive (e # es) p s"
  obtains s' where "session_step e s = Some s'" "kept_alive (open_ping e s p) s'" "attentive es (open_ping e s p) s'"
proof -
  from assms(2) obtain s' where s': "session_step e s = Some s'" "attentive es (open_ping e s p) s'"
    by (auto split: option.splits)
  from s'(1) have "kept_alive (open_ping e s p) s'"
  proof (cases rule: session_step_cases)
    case (elapse d)
    with assms show ?thesis
      by (auto simp: kept_alive_def open_ping_def ping_due_def time_may_pass_def split: option.splits)
  next
    case ping
    with assms(1) show ?thesis by (cases p) (auto simp: kept_alive_def open_ping_def ping_due_def ws_times)
  next
    case pong
    with assms(1) show ?thesis by (auto simp: kept_alive_def open_ping_def ping_due_def ws_times)
  qed (use assms(1) in \<open>auto simp: kept_alive_def open_ping_def ping_due_def reader_exit_def writer_exit_def
      split: option.splits\<close>)
  with that s' show ?thesis by blast
qed

lemma kept_alive_run:
  "attentive es p s \<Longrightarrow> kept_alive p s \<Longrightarrow> session_run es s = Some s' \<Longrightarrow> \<exists>p'. kept_alive p' s'"
proof (induction es arbitrary: p s)
  case (Cons e es)
  from kept_alive_step [OF Cons.prems(2,1)] obtain s1 where s1: "session_step e s = Some s1"
    "kept_alive (open_ping e s p) s1" "attentive es (open_ping e s p) s1" .
  with Cons.IH [OF s1(3,2)] Cons.prems(3) show ?case by simp
qed auto

text \<open>C39: A connection whose pings are written and answered within six seconds of the time they are due
  never runs into the read deadline.  The six seconds count from the tick: the end of a message that
  is being written then and the writing of the ping, each of which may take time, are part of them.\<close>

theorem answered_pings_keep_alive:
  assumes "session_run es (session_start t) = Some s" "attentive es None (session_start t)"
    and "se_reader s" "se_writer s"
  shows "se_now s < se_readDeadline s \<and> session_step ReadTimeout s = None"
proof -
  have "kept_alive None (session_start t)" by (simp add: kept_alive_def ping_due_def session_start_def ws_times)
  from kept_alive_run [OF assms(2) this assms(1)] assms(3,4) have "se_now s < se_readDeadline s"
    by (auto simp: kept_alive_def)
  then show ?thesis by (simp add: allowed_def)
qed

lemmas session_eval = session_start_def ws_times allowed_def time_may_pass_def next_write_def reader_exit_def
  writer_exit_def sendBufferSize_def

text \<open>The second ping waits three seconds for a message that takes eight.\<close>

theorem answered_pings_keep_alive_witness:
  "\<exists>s. session_run [Elapse 54000000000, Tick, Elapse 1000000000, Wrote True, Elapse 4000000000, Pong,
       Elapse 44000000000, Deliver JNull, Take, Elapse 8000000000, Wrote True, Tick, Wrote True, Elapse 2000000000]
       (session_start 0) = Some s \<and>
     session_step ReadTimeout s = None \<and> se_out s = [PingMessage, TextMessage JNull, PingMessage]"
proof -
  let ?es = "[Elapse 54000000000, Tick, Elapse 1000000000, Wrote True, Elapse 4000000000, Pong,
       Elapse 44000000000, Deliver JNull, Take, Elapse 8000000000, Wrote True, Tick, Wrote True, Elapse 2000000000]"
  obtain s where s: "session_run ?es (session_start 0) = Some s" "se_reader s" "se_writer s"
    "se_out s = [PingMessage, TextMessage JNull, PingMessage]"
    by (simp add: session_eval)
  have "attentive ?es None (session_start 0)" by (simp add: session_eval open_ping_def ping_due_def)
  from answered_pings_keep_alive [OF s(1) this s(2,3)] s show ?thesis by blast
qed

text \<open>The hypothesis cannot be given up: a write may take longer than the six seconds, and then a peer that
  was never sent a ping is cut off.\<close>

theorem slow_write_cuts_off:
  "\<exists>s s'. session_run [Elapse 53000000000, Deliver m, Take, Elapse 7000000000] (session_start 0) = Some s \<and>
     se_out s = [] \<and> session_step ReadTimeout s = Some s' \<and> \<not> se_open s'"
  by (simp add: session_eval)

section \<open>A silent peer\<close>

text \<open>When the connection is closed nothing keeps the writer beyond its next ping and one write.\<close>

definition fading :: "int \<Rightarrow> session \<Rightarrow> bool" where
  "fading T s \<longleftrightarrow> \<not> se_open s \<and> (se_reader s \<longrightarrow> se_now s \<le> T) \<and>
     (se_writer s \<longrightarrow>
       (if se_writing s = None then se_tick s \<le> T + pingPeriod \<and> se_now s \<le> T + pingPeriod
        else se_now s \<le> se_writeDeadline s \<and> se_writeDeadline s \<le> T + pingPeriod + writeWait))"

lemma fading_start: "session_inv s \<Longrightarrow> \<not> se_open s \<Longrightarrow> se_now s \<le> T \<Longrightarrow> fading T s"
  by (auto simp: session_inv_def fading_def ws_times)

lemma fading_step:
  assumes "fading T s" "session_step e s = Some s'"
  shows "fading T s'"
  using assms(2)
  by (cases rule: session_step_cases)
    (use assms(1) in \<open>auto simp: fading_def ws_times time_may_pass_def reader_exit_def writer_exit_def split: if_splits\<close>)

text \<open>Without a pong the first read deadline stands.\<close>

definition silent :: "int \<Rightarrow> session \<Rightarrow> bool" where
  "silent T s \<longleftrightarrow> (se_reader s \<longrightarrow> se_readDeadline s = T) \<and> (\<not> se_open s \<longrightarrow> fading T s)"

lemma silent_step:
  assumes "session_inv s" "silent T s" "session_step e s = Some s'" "e \<noteq> Pong"
  shows "silent T s'"
proof -
  have inv: "session_inv s'" by (rule session_inv_step [OF assms(1,3)])
  from assms(3,4,2) have deadline: "se_reader s' \<longrightarrow> se_readDeadline s' = T"
    by (cases rule: session_step_cases) (auto simp: silent_def reader_exit_def writer_exit_def)
  have "fading T s'" if closed: "\<not> se_open s'"
  proof (cases "se_open s")
    case True
    with assms(3) closed have now: "se_now s' = se_now s"
      by (cases rule: session_step_cases) (auto simp: reader_exit_def writer_exit_def split: if_splits)
    from True assms(1,2) have "se_now s \<le> T" by (auto simp: session_inv_def silent_def)
    with fading_start [OF inv closed] now show ?thesis by simp
  next
    case False
    with assms(2) fading_step [OF _ assms(3)] show ?thesis by (simp add: silent_def)
  qed
  with deadline show ?thesis by (simp add: silent_def)
qed

lemma silent_run:
  "session_run es s = Some s' \<Longrightarrow> session_inv s \<Longrightarrow> silent T s \<Longrightarrow> Pong \<notin> set es \<Longrightarrow> silent T s' \<and> session_inv s'"
proof (induction es arbitrary: s)
  case (Cons e es)
  then obtain s1 where s1: "session_step e s = Some s1" "session_run es s1 = Some s'"
    by (auto split: option.splits)
  from Cons.prems have "silent T s1" by (intro silent_step [OF _ _ s1(1)]) auto
  with Cons.IH [OF s1(2) session_inv_step [OF _ s1(1)]] Cons.prems show ?case by simp
qed simp

text \<open>C40: A peer that never answers is released: 60 seconds after the start the client is in no room
  any more, and after another ping period and write deadline both goroutines have ended.\<close>

theorem silent_peer_released:
  assumes "session_run es (session_start t) = Some s" "Pong \<notin> set es"
  shows "(se_subscribed s \<longrightarrow> se_now s \<le> t + pongWait) \<and> (se_reader s \<longrightarrow> se_now s \<le> t + pongWait) \<and>
     (se_writer s \<longrightarrow> se_now s \<le> t + pongWait + pingPeriod + writeWait)"
proof -
  have "silent (t + pongWait) (session_start t)" by (simp add: silent_def session_start_def)
  from silent_run [OF assms(1) session_inv_start this assms(2)]
  show ?thesis by (auto simp: silent_def session_inv_def fading_def ws_times split: if_splits)
qed

theorem silent_peer_released_witness:
  "\<exists>s. session_run [Elapse 54000000000, Tick, Wrote True, Elapse 6000000000, ReadTimeout, Elapse 48000000000,
       Tick, Elapse 10000000000, Wrote False]
       (session_start 0) = Some s \<and> \<not> se_subscribed s \<and> \<not> se_reader s \<and> \<not> se_writer s \<and> se_now s = 118000000000"
proof -
  obtain s where s: "session_run [Elapse 54000000000, Tick, Wrote True, Elapse 6000000000, ReadTimeout, Elapse 48000000000,
       Tick, Elapse 10000000000, Wrote False]
      (session_start 0) = Some s" "se_now s = 118000000000" "\<not> se_writer s"
    by (simp add: session_eval)
  from silent_peer_released [OF s(1)] s show ?thesis by (auto simp: ws_times)
qed

end
