(* ===== verification/WiredProps.thy ===== *)
theory WiredProps
  imports CachedPg PgMessageSim CachedProps MsgProps
begin

text \<open>
  The chat and the message service together, over the cached chat repository, as cmd/app/main.go wires
  them: what one service writes is what the other one sees.  For that the message
  repository is put beside the cached chat repository: message operations touch neither the cache nor
  anything its entries speak of, so the wired pair of repositories is a message port again.
\<close>

section \<open>Operations beside the cache\<close>

definition same_chats :: "aview \<Rightarrow> aview \<Rightarrow> bool" where
  "same_chats v v' \<longleftrightarrow> av_chats v' = av_chats v \<and> av_members v' = av_members v \<and> av_users v' = av_users v"

lemma same_chats_refl [simp]: "same_chats v v"
  by (simp add: same_chats_def)

lemma coherent_same_chats:
  assumes "coherent us ct v" "same_chats v v'"
  shows "coherent us ct v'"
proof -
  have "chat_lookup v' = chat_lookup v" "is_member v' = is_member v" "member_lookup v' = member_lookup v"
    "user_lookup v' = user_lookup v"
    using assms(2) by (simp_all add: same_chats_def chat_lookup_def is_member_def member_lookup_def user_lookup_def fun_eq_iff)
  with assms(1) show ?thesis by (simp add: coherent_def entry_ok_def)
qed

context cached_store begin

lemma J_frame_at:
  assumes "sim_at I qt view ok obs v m am w" "J w" "view w = v"
    and "\<And>w. content (snd (m w)) = content w" "same_chats v (snd (am v))"
  shows "sim_at J qt view ok obs v m am w"
proof -
  from assms(2,3) have w: "uuid_text us" "coherent us (content w) v" by (simp_all add: J_def)
  from assms(1) show ?thesis
  proof (cases rule: sim_atE)
    case exact
    with w assms(4) coherent_same_chats [OF w(2) assms(5)] show ?thesis
      by (intro sim_at_exact) (simp_all add: J_def)
  next
    case (storage e)
    with w assms(4) show ?thesis by (intro sim_at_storage) (simp_all add: J_def)
  qed
qed

lemma J_frame:
  assumes "simulates I qt view ok obs v m am"
    and "\<And>w. content (snd (m w)) = content w" "same_chats v (snd (am v))"
  shows "simulates J qt view ok obs v m am"
  using assms by (intro simulatesI J_frame_at) (auto simp: J_def simulates_def)

lemma J_frame_now:
  assumes "sim_now P t0 qt view ok obs v m am" "P t0 = I" "Q t0 = J"
    and "\<And>w. content (snd (m w)) = content w" "\<And>t. same_chats v (snd (am t v))"
  shows "sim_now Q t0 qt view ok obs v m am"
proof (rule sim_nowI)
  fix w assume "Q t0 w" "view w = v"
  with assms(2,3) have w: "J w" "view w = v" "P t0 w" by (simp_all add: J_def)
  from assms(1) w(3,2) obtain t where "t0 \<le> t" "sim_at (P t0) qt view ok obs v m (am t) w" by (rule sim_nowE)
  with J_frame_at [of ok obs v m "am t" w] w assms(2-5)
  show "\<exists>t \<ge> t0. sim_at (Q t0) qt view ok obs v m (am t) w" by auto
qed

end

section \<open>The message operations\<close>

lemma sm_same_chats [simp]:
  "same_chats v (snd (sm_Create m v))" "same_chats v (snd (sm_GetByID i v))"
  "same_chats v (snd (sm_GetChatMessages c cu l v))" "same_chats v (snd (sm_Update m v))"
  "same_chats v (snd (sm_Delete t i v))" "same_chats v (snd (sm_MarkRead t c u v))"
  "same_chats v (snd (sm_GetUnreadCount c u v))" "same_chats v (snd (sm_AddReaction r v))"
  "same_chats v (snd (sm_RemoveReaction i u e v))" "same_chats v (snd (sm_GetReactions coll i v))"
  "same_chats v (snd (sm_GetReactionsBatch coll is v))"
  by (auto simp: same_chats_def sm_Create_def sm_GetByID_def sm_GetChatMessages_def sm_Update_def sm_Delete_def
      on_live_message_def sm_MarkRead_def sm_GetUnreadCount_def sm_AddReaction_def sm_RemoveReaction_def
      sm_GetReactions_def sm_GetReactionsBatch_def split: option.split)

lemma pg_msgs_content:
  "keeps (same_cache ct) (pg_msg_Create m)" "keeps (same_cache ct) (pg_msg_GetByID i)"
  "keeps (same_cache ct) (pg_msg_GetChatMessages c cu l)" "keeps (same_cache ct) (pg_msg_Update m)"
  "keeps (same_cache ct) (pg_msg_Delete i)" "keeps (same_cache ct) (pg_msg_MarkRead c u)"
  "keeps (same_cache ct) (pg_msg_GetUnreadCount c u)" "keeps (same_cache ct) (pg_msg_AddReaction r)"
  "keeps (same_cache ct) (pg_msg_RemoveReaction i u e)" "keeps (same_cache ct) (pg_msg_GetReactions coll i)"
  "keeps (same_cache ct) (pg_msg_GetReactionsBatch coll is)"
  unfolding pg_msg_Create_def pg_msg_GetByID_def pg_msg_GetChatMessages_def pg_msg_Update_def pg_msg_Delete_def
    pg_msg_MarkRead_def pg_msg_GetUnreadCount_def pg_msg_AddReaction_def pg_msg_RemoveReaction_def
    pg_msg_GetReactions_def pg_msg_GetReactionsBatch_def pg_queryRow_def Let_def
  by (intro go_keeps)+

text \<open>A cache that keeps its contract whatever the clock shows.\<close>

abbreviation timed_cache :: "world Cache \<Rightarrow> bool" where
  "timed_cache C \<equiv> (\<forall>t0. cache_laws C (pg_at t0) quiet view_of cache_content)"

lemma cached_message_port:
  assumes C: "timed_cache C"
  shows "message_port (pg_NewMessageRepository coll) (cached_NewChatRepository us pg_NewChatRepository (Some C) t1 t2)
     pg_user_GetByID (cached_at us) quiet view_of pg_chat_ok pg_text coll"
proof -
  have store: "cached_store pg_NewChatRepository pg_user_GetByID (pg_at t0) quiet view_of pg_chat_ok C
      cache_content us (cached_at us t0)" for t0
    by (rule cached_store_idempotent.axioms(1) [OF cached_pg]) (use C in blast)
  note frames = cached_store.J_frame [OF store]
  note kept = pg_msgs_content [THEN content_same]
  let ?M = "pg_NewMessageRepository coll"
  show ?thesis
  proof (intro message_port.intro)
    show "chat_port (cached_NewChatRepository us pg_NewChatRepository (Some C) t1 t2) pg_user_GetByID
        (cached_at us t0) quiet view_of pg_chat_ok" for t0
      by (rule chat_port_idempotent.axioms(1) [OF cached_store_idempotent.cached_chat_port_idempotent [OF cached_pg]])
        (use C in blast)
    show "simulates (cached_at us t0) quiet view_of True id v (mr_GetByID ?M i) (sm_GetByID i)" for t0 v i
      using frames [OF pg_msg_GetByID_sim] by (simp add: pg_NewMessageRepository_def kept)
    show "simulates (cached_at us t0) quiet view_of True (map strip_message) v (mr_GetChatMessages ?M c cursor limit)
        (sm_GetChatMessages c cursor limit)" if "0 \<le> limit" for t0 v c cursor and limit :: int
      using frames [OF pg_msg_GetChatMessages_sim [OF that]] by (simp add: pg_NewMessageRepository_def kept)
    show "sim_now (cached_at us) t0 quiet view_of True id v (mr_Delete ?M i) (\<lambda>t. sm_Delete t i)" for t0 v i
      using cached_store.J_frame_now [where Q = "cached_at us" and ?t0.0 = t0, OF store pg_msg_Delete_sim refl refl] by (simp add: pg_NewMessageRepository_def kept)
    show "sim_now (cached_at us) t0 quiet view_of True id v (mr_MarkRead ?M c u) (\<lambda>t. sm_MarkRead t c u)"
      if "is_member v c u" for t0 v c u
      using cached_store.J_frame_now [where Q = "cached_at us" and ?t0.0 = t0, OF store pg_msg_MarkRead_sim [OF that] refl refl]
      by (simp add: pg_NewMessageRepository_def kept)
    show "simulates (cached_at us t0) quiet view_of True (\<lambda>f. map_option (map strip_reaction) \<circ> f) v
        (mr_GetReactionsBatch ?M ids) (sm_GetReactionsBatch coll ids)" for t0 v ids
      using frames [OF pg_msg_GetReactionsBatch_sim] by (simp add: pg_NewMessageRepository_def kept)
  qed (simp_all add: frames pg_NewMessageRepository_def kept pg_msg_Create_sim pg_msg_Update_sim
      pg_msg_GetUnreadCount_sim pg_msg_AddReaction_sim pg_msg_RemoveReaction_sim pg_msg_GetReactions_sim)
qed

interpretation cached_msgs: message_port "pg_NewMessageRepository coll"
    "cached_NewChatRepository us pg_NewChatRepository (Some mock_cache) t1 t2" pg_user_GetByID "cached_at us"
    quiet view_of pg_chat_ok pg_text coll
  by (rule cached_message_port) (intro allI mock.cache_laws_axioms)

section \<open>Locked out\<close>

text \<open>A removal that was reported as done took place.\<close>

lemma wired_removed:
  assumes "cache_laws C (pg_at 0) quiet view_of cache_content" "cached_inv us w"
    and "chats_RemoveMember (wired_chats us C t1 t2) c caller target w = (Ok (), w1)"
  shows "cached_inv us w1 \<and> \<not> is_member (view_of w1) c target \<and> av_messages (view_of w1) = av_messages (view_of w)"
proof -
  note port = chat_port_idempotent.axioms(1) [OF wired [OF assms(1)]]
  from simulates_Ok [OF chat_port.RemoveMember_sim [OF port] assms(2) refl assms(3)]
  have run: "chats_RemoveMember spec_chats c caller target (view_of w) = (Ok (), view_of w1)" "cached_inv us w1"
    by simp_all
  from run(1) have "view_of w1 = without_member (view_of w) c target"
    using RemoveMember_spec by auto
  with run(2) show ?thesis by (simp add: without_member_def is_member_iff)
qed

text \<open>C13: Over a cache whose invalidations do not fail and whose entries agree with the tables, a member
  who was removed is locked out at once, across both services, also if the cache held their
  membership: no message of theirs is stored, and neither the chat nor its history is shown to them.
  A failed invalidation leaves them access until the entry expires
  (\<open>lost_invalidation_keeps_access\<close> in CachedProps).\<close>

theorem removed_member_locked_out:
  assumes "timed_cache C" "cached_inv us w"
    and "chats_RemoveMember (wired_chats us C t1 t2) c caller target w = (Ok (), w1)"
    and "message_unused (view_of w) newID" "si_ChatID inp = c" "li_ChatID page = c" "1 \<le> li_Limit page"
  shows "(\<forall>m. fst (messages_Send (pg_messages coll) (wired_chats us C t1 t2) now newID target inp w1) \<noteq> Ok m) \<and>
     view_of (snd (messages_Send (pg_messages coll) (wired_chats us C t1 t2) now newID target inp w1)) = view_of w1 \<and>
     (\<forall>p. fst (messages_GetHistory (pg_messages coll) (wired_chats us C t1 t2) target page w1) \<noteq> Ok p) \<and>
     (\<forall>x. fst (chats_GetChat (wired_chats us C t1 t2) c target w1) \<noteq> Ok x)"
proof -
  from assms(1) have C: "lawful_cache C" by blast
  from wired_removed [OF C assms(2,3)]
  have w1: "cached_inv us w1" "\<not> is_member (view_of w1) c target" "message_unused (view_of w1) newID"
    using assms(4) by (auto simp: message_unused_def)
  note msgs = cached_message_port [OF assms(1)]
  have send: "\<forall>m. fst (messages_Send (pg_messages coll) (wired_chats us C t1 t2) now newID target inp w1) \<noteq> Ok m"
    using message_port.Send_guarded [OF msgs w1(1,3), of inp coll t1 t2 now target] w1(2) assms(5)
    by (auto simp: guarded_def may_send_def)
  moreover from send have "view_of (snd (messages_Send (pg_messages coll) (wired_chats us C t1 t2) now newID target inp w1)) =
      view_of w1"
    using message_port.Send_guarded [OF msgs w1(1,3), of inp coll t1 t2 now target] by (simp add: guarded_def)
  moreover have "fst (messages_GetHistory (pg_messages coll) (wired_chats us C t1 t2) target page w1) \<noteq> Ok p" for p
    using message_port.GetHistory_run [OF msgs w1(1) assms(7), of coll t1 t2 target] w1(2) assms(6) by auto
  moreover have "fst (chats_GetChat (wired_chats us C t1 t2) c target w1) \<noteq> Ok x" for x
    using chat_port.GetChat_read [OF chat_port_idempotent.axioms(1) [OF wired [OF C]] w1(1)] w1(2) by blast
  ultimately show ?thesis by blast
qed

text \<open>Member 3 was in the cache as a member when the admin removed them.\<close>

definition demo_seen :: world where
  "demo_seen = snd (cached_chat_IsMember hex_uuid mock_cache 30 pg_NewChatRepository 10 3 demo)"

abbreviation demo_wired :: "world ChatRepository" where
  "demo_wired \<equiv> wired_chats hex_uuid mock_cache 60 30"

lemma demo_seen: "cached_inv hex_uuid demo_seen" "quiet demo_seen" "view_of demo_seen = demo_view"
proof -
  note port = chat_port_idempotent.axioms(1) [OF wired [OF mock.cache_laws_axioms, of hex_uuid 60 30]]
  have "exact_run (cached_inv hex_uuid) quiet view_of id
      (cached_chat_IsMember hex_uuid mock_cache 30 pg_NewChatRepository 10 3) (sp_IsMember 10 3) demo"
    using chat_port.sim_IsMember [OF port, of demo_view 10 3]
    by (intro exact_simulates) (simp_all add: cached_NewChatRepository_def)
  then show "cached_inv hex_uuid demo_seen" "quiet demo_seen" "view_of demo_seen = demo_view"
    by (simp_all add: exact_run_def demo_seen_def sp_IsMember_def)
qed

lemma demo_seen_removed: "fst (chats_RemoveMember demo_wired 10 2 3 demo_seen) = Ok ()"
proof -
  note port = chat_port_idempotent.axioms(1) [OF wired [OF mock.cache_laws_axioms, of hex_uuid 60 30]]
  have "exact_run (cached_inv hex_uuid) quiet view_of id (chats_RemoveMember demo_wired 10 2 3)
      (chats_RemoveMember spec_chats 10 2 3) demo_seen"
    by (intro exact_simulates [where ok = True] chat_port.RemoveMember_sim [OF port]) (simp_all add: demo_seen)
  moreover have "fst (chats_RemoveMember spec_chats 10 2 3 demo_view) = Ok ()"
    unfolding demo_view_def by code_simp
  ultimately show ?thesis by (simp add: exact_run_def demo_seen(3) outcome.map_id)
qed

theorem removed_member_locked_out_witness:
  "\<exists>w1. chats_RemoveMember demo_wired 10 2 3 demo_seen = (Ok (), w1) \<and>
     (\<forall>x. fst (chats_GetChat demo_wired 10 3 w1) \<noteq> Ok x) \<and>
     (\<forall>m. fst (messages_Send (pg_messages demo_coll) demo_wired 50 24 3
        \<lparr>si_ChatID = 10, si_Content = ''yo'', si_Type = ''text'', si_ReplyToID = None\<rparr> w1) \<noteq> Ok m)"
proof -
  let ?inp = "\<lparr>si_ChatID = 10, si_Content = ''yo'', si_Type = ''text'', si_ReplyToID = None\<rparr>"
  let ?page = "\<lparr>li_ChatID = 10, li_Cursor = None, li_Limit = 20\<rparr>"
  obtain w1 where w1: "chats_RemoveMember demo_wired 10 2 3 demo_seen = (Ok (), w1)"
    using demo_seen_removed by (cases "chats_RemoveMember demo_wired 10 2 3 demo_seen") auto
  have "timed_cache mock_cache" by (intro allI mock.cache_laws_axioms)
  from removed_member_locked_out [OF this demo_seen(1) w1, of 24 ?inp ?page demo_coll 50] w1
  show ?thesis by (simp add: demo_seen(3))
qed

end
