(* ===== verification/AppFrame.thy ===== *)
theory AppFrame
  imports ChatProps MsgProps UserProps
begin

text \<open>
  What each service leaves alone on PostgreSQL: the chat and message use cases never touch the accounts,
  the user use cases never touch chats, members and messages.
\<close>

section \<open>Parts of the tables\<close>

definition part :: "(db \<Rightarrow> 'a) \<Rightarrow> 'a \<Rightarrow> world \<Rightarrow> bool" where
  "part F x w \<longleftrightarrow> F (w_db w) = x"

lemma part_stmt:
  "(\<And>t d a d'. f t d = Inr (a, d') \<Longrightarrow> F d' = F d) \<Longrightarrow> keeps (part F x) (db_stmt f)"
  by (rule keepsI) (auto simp: part_def db_stmt_def split: option.splits sum.splits)

lemma part_exec:
  "(\<And>t d a d'. f t d = Inr (a, d') \<Longrightarrow> F d' = F d) \<Longrightarrow> keeps (part F x) (db_exec f)"
  by (simp add: db_exec_def part_stmt)

lemma part_read [go_keeps]:
  "keeps (part F x) (db_queryRow q scan)" "keeps (part F x) (db_query q scan)"
  "keeps (part F x) tx_begin" "keeps (part F x) tx_commit" "keeps (part F x) (pg_queryRow ps q scan)"
  by (auto simp: pg_queryRow_def db_queryRow_def db_query_def tx_begin_def tx_commit_def intro!: part_stmt split: list.splits sum.splits if_splits)

lemma part_tx [go_keeps]:
  assumes "keeps (part F x) body"
  shows "keeps (part F x) (in_tx body)"
proof (rule keepsI)
  fix w :: world assume w: "part F x w"
  have "keeps (part F x) (call tx_begin (\<lambda>_. call body (\<lambda>_. tx_commit)))"
    by (intro go_keeps assms)
  then have "part F x (snd (call tx_begin (\<lambda>_. call body (\<lambda>_. tx_commit)) w))" using w by (simp add: keeps_def)
  with w show "part F x (snd (in_tx body w))"
    by (auto simp: in_tx_def Let_def part_def split: prod.split outcome.split)
qed

lemma keeps_option [go_keeps]:
  "keeps I m \<Longrightarrow> (\<And>x. keeps I (k x)) \<Longrightarrow> keeps I (case o' of None \<Rightarrow> m | Some x \<Rightarrow> k x)"
  by (cases o') auto

lemma keeps_V_Err [go_keeps]: "keeps I (V_Err v)"
  by (cases v) (auto intro: go_keeps)

lemmas part_writes = Let_def sql_update_def sql_delete_def

section \<open>The repositories\<close>

lemma chats_leave_users:
  "keeps (part tb_users x) (pg_chat_CreateWithMembers ch ms)" "keeps (part tb_users x) (pg_chat_GetByID c)"
  "keeps (part tb_users x) (pg_chat_Update ch)" "keeps (part tb_users x) (pg_chat_Delete c)"
  "keeps (part tb_users x) (pg_chat_AddMember m)" "keeps (part tb_users x) (pg_chat_RemoveMember c u)"
  "keeps (part tb_users x) (pg_chat_GetMember c u)" "keeps (part tb_users x) (pg_chat_GetMembers c)"
  "keeps (part tb_users x) (pg_chat_UpdateMemberRole c u r)" "keeps (part tb_users x) (pg_chat_GetUserChats u)"
  "keeps (part tb_users x) (pg_chat_GetDirectChat a b)" "keeps (part F y) (pg_chat_IsMember c u)"
  "keeps (part F y) (pg_user_GetByID u)"
  unfolding pg_chat_CreateWithMembers_def pg_chat_GetByID_def pg_chat_Update_def pg_chat_Delete_def
    pg_chat_AddMember_def pg_chat_RemoveMember_def pg_chat_GetMember_def pg_chat_GetMembers_def
    pg_chat_UpdateMemberRole_def pg_chat_GetUserChats_def pg_chat_GetDirectChat_def pg_chat_IsMember_def
    pg_user_GetByID_def pg_user_scanOne_def Let_def
  by (intro go_keeps part_exec;
      auto simp: part_writes pg_insert_chat_def pg_insert_member_def pg_insert_member_nothing_def split: option.splits if_splits)+

abbreviation message_context :: "db \<Rightarrow> user_row list \<times> chat_row list \<times> member_row list" where
  "message_context d \<equiv> (tb_users d, tb_chats d, tb_members d)"

lemma msgs_leave_chats:
  "keeps (part message_context x) (pg_msg_Create m)" "keeps (part message_context x) (pg_msg_GetByID i)"
  "keeps (part message_context x) (pg_msg_GetChatMessages c cu l)" "keeps (part message_context x) (pg_msg_Update m)"
  "keeps (part message_context x) (pg_msg_Delete i)" "keeps (part message_context x) (pg_msg_MarkRead c u)"
  "keeps (part message_context x) (pg_msg_GetUnreadCount c u)" "keeps (part message_context x) (pg_msg_AddReaction r)"
  "keeps (part message_context x) (pg_msg_RemoveReaction i u e)" "keeps (part message_context x) (pg_msg_GetReactions coll i)"
  "keeps (part message_context x) (pg_msg_GetReactionsBatch coll is)"
  unfolding pg_msg_Create_def pg_msg_GetByID_def pg_msg_GetChatMessages_def pg_msg_Update_def pg_msg_Delete_def
    pg_msg_MarkRead_def pg_msg_GetUnreadCount_def pg_msg_AddReaction_def pg_msg_RemoveReaction_def
    pg_msg_GetReactions_def pg_msg_GetReactionsBatch_def Let_def
  by (intro go_keeps part_exec; auto simp: part_writes split: option.splits if_splits)+

abbreviation chat_tables_of :: "db \<Rightarrow> chat_row list \<times> member_row list \<times> message_row list" where
  "chat_tables_of d \<equiv> (tb_chats d, tb_members d, tb_messages d)"

lemma users_leave_chats:
  "keeps (part chat_tables_of x) (pg_user_Create u)" "keeps (part chat_tables_of x) (pg_user_Update u)"
  "keeps (part chat_tables_of x) (pg_user_UpdateStatus i st t)" "keeps (part chat_tables_of x) (pg_user_Delete i)"
  "keeps (part F y) (pg_user_GetByEmail e)" "keeps (part F y) (pg_user_GetByUsername n)"
  "keeps (part F y) (pg_user_Search lc coll q l off)"
  unfolding pg_user_Create_def pg_user_Update_def pg_user_UpdateStatus_def pg_user_Delete_def pg_user_GetByEmail_def
    pg_user_GetByUsername_def pg_user_Search_def pg_user_scanOne_def Let_def
  by (intro go_keeps part_exec; auto simp: part_writes split: option.splits if_splits)+

section \<open>What the calls of a use case keep, the use case keeps\<close>

locale chat_calls =
  fixes I :: "'w \<Rightarrow> bool" and R :: "'w ChatRepository" and getUser :: "uuid \<Rightarrow> ('w, User) io"
  assumes chat_call:
    "keeps I (cr_CreateWithMembers R ch ms)" "keeps I (cr_GetByID R c)" "keeps I (cr_Update R ch)"
    "keeps I (cr_Delete R c)" "keeps I (cr_AddMember R m)" "keeps I (cr_RemoveMember R c u)"
    "keeps I (cr_GetMember R c u)" "keeps I (cr_GetMembers R c)" "keeps I (cr_UpdateMemberRole R c u role)"
    "keeps I (cr_GetDirectChat R a b)" "keeps I (cr_IsMember R c u)" "keeps I (getUser u)"
begin

lemma run_op_keeps: "keeps I (run_op R getUser now newID op)"
  by (cases op; simp only: run_op.simps chats_CreateDirect_def chats_CreateGroup_def chats_UpdateGroup_def
      chats_AddMember_def chats_RemoveMember_def chats_ChangeMemberRole_def chats_LeaveChat_def Let_def;
      intro go_keeps keeps_V_Err chat_call)

end

text \<open>One request to the message service; it names a fresh identifier for a message that is sent.\<close>

datatype msg_op =
    OpSend uuid SendInput
  | OpEdit uuid uuid EditInput
  | OpDelete uuid uuid
  | OpMarkRead uuid uuid
  | OpReact uuid uuid ReactInput
  | OpUnreact uuid uuid ReactInput
  | OpHistory uuid ListInput

fun run_msg ::
  "'w MessageRepository \<Rightarrow> 'w ChatRepository \<Rightarrow> time \<Rightarrow> uuid \<Rightarrow> msg_op \<Rightarrow> ('w, unit) io" where
  "run_msg M R now newID (OpSend u inp) = call (messages_Send M R now newID u inp) (\<lambda>_. ret ())"
| "run_msg M R now newID (OpEdit m u inp) = call (messages_Edit M R now m u inp) (\<lambda>_. ret ())"
| "run_msg M R now newID (OpDelete m u) = messages_Delete M R m u"
| "run_msg M R now newID (OpMarkRead c u) = messages_MarkRead M R c u"
| "run_msg M R now newID (OpReact m u inp) = messages_AddReaction M R now m u inp"
| "run_msg M R now newID (OpUnreact m u inp) = messages_RemoveReaction M R m u inp"
| "run_msg M R now newID (OpHistory u page) = call (messages_GetHistory M R u page) (\<lambda>_. ret ())"

locale message_calls =
  fixes I :: "'w \<Rightarrow> bool" and M :: "'w MessageRepository" and R :: "'w ChatRepository"
  assumes message_call:
    "keeps I (mr_Create M g)" "keeps I (mr_GetByID M i)" "keeps I (mr_GetChatMessages M c cursor limit)"
    "keeps I (mr_Update M g)" "keeps I (mr_Delete M i)" "keeps I (mr_MarkRead M c u)"
    "keeps I (mr_AddReaction M rx)" "keeps I (mr_RemoveReaction M i u e)" "keeps I (mr_GetReactionsBatch M ids)"
    "keeps I (cr_IsMember R c u)"
begin

lemma run_msg_keeps: "keeps I (run_msg M R now newID op)"
  by (cases op; simp only: run_msg.simps messages_Send_def messages_Edit_def messages_Delete_def
      messages_MarkRead_def messages_AddReaction_def messages_RemoveReaction_def messages_GetHistory_def
      msg_assertMember_def buildPageResult_def nextCursor_def Let_def;
      intro go_keeps keeps_V_Err message_call)

end

text \<open>One request to the user service.\<close>

datatype user_op =
    OpRegister RegisterInput
  | OpLogin LoginInput
  | OpRefresh string
  | OpProfile uuid
  | OpUpdateProfile uuid UpdateProfileInput
  | OpSearch SearchInput
  | OpOnline uuid
  | OpOffline uuid

fun run_user ::
  "'w UserRepository \<Rightarrow> 'w passwordHasher \<Rightarrow> 'w tokenManager \<Rightarrow> time \<Rightarrow> uuid \<Rightarrow> user_op \<Rightarrow> ('w, unit) io" where
  "run_user U H J now newID (OpRegister inp) = call (users_Register U H J now newID inp) (\<lambda>_. ret ())"
| "run_user U H J now newID (OpLogin inp) = call (users_Login U H J inp) (\<lambda>_. ret ())"
| "run_user U H J now newID (OpRefresh token) = call (users_RefreshToken U J token) (\<lambda>_. ret ())"
| "run_user U H J now newID (OpProfile u) = call (users_GetProfile U u) (\<lambda>_. ret ())"
| "run_user U H J now newID (OpUpdateProfile u inp) = call (users_UpdateProfile U now u inp) (\<lambda>_. ret ())"
| "run_user U H J now newID (OpSearch inp) = call (users_Search U inp) (\<lambda>_. ret ())"
| "run_user U H J now newID (OpOnline u) = users_SetOnline U now u"
| "run_user U H J now newID (OpOffline u) = users_SetOffline U now u"

locale user_calls =
  fixes I :: "'w \<Rightarrow> bool" and U :: "'w UserRepository" and H :: "'w passwordHasher" and J :: "'w tokenManager"
  assumes user_call:
    "keeps I (ur_Create U x)" "keeps I (ur_GetByID U i)" "keeps I (ur_GetByEmail U e)" "keeps I (ur_GetByUsername U n)"
    "keeps I (ur_Update U x)" "keeps I (ur_UpdateStatus U i st t)" "keeps I (ur_Delete U i)"
    "keeps I (ur_Search U q l off)" "keeps I (ph_Hash H p)" "keeps I (tm_GenerateAccessToken J i)"
    "keeps I (tm_GenerateRefreshToken J i)" "keeps I (tm_ValidateRefreshToken J tok)"
begin

lemma use_cases_keep:
  "keeps I (users_Register U H J now newID inp)" "keeps I (users_Login U H J linp)"
  "keeps I (users_RefreshToken U J token)" "keeps I (users_UpdateProfile U now uid uinp)"
  "keeps I (users_SetOnline U now uid)" "keeps I (users_SetOffline U now uid)" "keeps I (users_GetProfile U uid)"
  "keeps I (users_Search U sinp)"
  unfolding users_Register_def users_Login_def users_RefreshToken_def users_UpdateProfile_def
    users_SetOnline_def users_SetOffline_def users_GetProfile_def users_Search_def must_be_free_def
    issueTokens_def check_username_def Let_def
  by (intro go_keeps keeps_V_Err user_call)+

lemma run_user_keeps: "keeps I (run_user U H J now newID op)"
  by (cases op; simp only: run_user.simps; intro go_keeps use_cases_keep)

end

section \<open>The services leave each other's tables alone\<close>

interpretation chat_frame: chat_calls "part tb_users x" pg_NewChatRepository pg_user_GetByID
  by unfold_locales (simp_all add: pg_NewChatRepository_def chats_leave_users)

interpretation message_frame: message_calls "part message_context x" "pg_NewMessageRepository coll" pg_NewChatRepository
  by unfold_locales (simp_all add: pg_NewMessageRepository_def pg_NewChatRepository_def msgs_leave_chats chats_leave_users)

lemma part_clock: "keeps (part F x) clock_now"
  by (rule keepsI) (simp add: part_def clock_now_def)

lemma tokens_keep:
  assumes "keeps I clock_now"
  shows "keeps I (ph_Hash (Hasher B cost salt) p)" "keeps I (tm_GenerateAccessToken (JWTManager L cfg j1 j2) u)"
    "keeps I (tm_GenerateRefreshToken (JWTManager L cfg j1 j2) u)"
    "keeps I (tm_ValidateRefreshToken (JWTManager L cfg j1 j2) tok)"
  unfolding Hasher_def JWTManager_def GenerateAccessToken_def GenerateRefreshToken_def ValidateRefreshToken_def
    Hasher_Hash_def jwt_sign_def jwt_parse_def Let_def
  by (auto intro!: go_keeps assms split: sum.split prod.split)

interpretation user_frame: user_calls "part chat_tables_of x" "pg_NewUserRepository lc coll" "Hasher B cost salt"
    "JWTManager L cfg j1 j2"
  by unfold_locales (simp_all add: pg_NewUserRepository_def users_leave_chats chats_leave_users tokens_keep part_clock)

end
