(* ===== verification/AppProps.thy ===== *)
theory AppProps
  imports AppFrame
begin

text \<open>
  The three services together on PostgreSQL, as cmd/app/main.go runs them over one storage: any sequence
  of their use cases keeps the stored data well formed.
\<close>

section \<open>Any sequence of use cases\<close>

text \<open>A request to the message service with a fresh identifier and a page size from the handler.\<close>

fun msg_pre :: "aview \<Rightarrow> uuid \<Rightarrow> msg_op \<Rightarrow> bool" where
  "msg_pre v newID (OpSend u inp) = message_unused v newID"
| "msg_pre v newID (OpHistory u page) = (1 \<le> li_Limit page)"
| "msg_pre v newID _ = True"

inductive app_reach ::
  "(nat \<Rightarrow> nat) \<Rightarrow> (string \<Rightarrow> 'k::linorder) \<Rightarrow> bcrypt \<Rightarrow> int \<Rightarrow> jwtlib \<Rightarrow> jwt_config \<Rightarrow> world \<Rightarrow> world \<Rightarrow> bool"
  for lc coll B cost L cfg w0 where
  app_start: "app_reach lc coll B cost L cfg w0 w0"
| app_users: "app_reach lc coll B cost L cfg w0 w \<Longrightarrow>
    user_reach (pg_NewUserRepository lc coll) (Hasher B cost salt) (JWTManager L cfg j1 j2) pg_accounts w w' \<Longrightarrow>
    app_reach lc coll B cost L cfg w0 w'"
| app_chats: "app_reach lc coll B cost L cfg w0 w \<Longrightarrow>
    chat_reach pg_NewChatRepository pg_user_GetByID view_of w w' \<Longrightarrow> app_reach lc coll B cost L cfg w0 w'"
| app_msgs: "app_reach lc coll B cost L cfg w0 w \<Longrightarrow> msg_pre (view_of w) newID op \<Longrightarrow>
    app_reach lc coll B cost L cfg w0
      (snd (run_msg (pg_NewMessageRepository coll) pg_NewChatRepository now newID op w))"

section \<open>Each service keeps the data well formed\<close>

definition data_wf :: "world \<Rightarrow> bool" where
  "data_wf w \<longleftrightarrow> pg_users_inv w \<and> groups_owned (view_of w)"

lemma pg_users_inv_alt: "pg_users_inv w \<longleftrightarrow> pg_inv w \<and> pg_users_wf (w_db w)"
  by (auto simp: table_inv_def pg_users_wf_def)

lemma pg_users_wf_same_users:
  "pg_users_wf d \<Longrightarrow> pg_wf d' \<Longrightarrow> tb_users d' = tb_users d \<Longrightarrow> pg_users_wf d'"
  by (simp add: pg_users_wf_def live_users_def)

lemma groups_owned_same_chats:
  "tb_chats d' = tb_chats d \<Longrightarrow> tb_members d' = tb_members d \<Longrightarrow>
     groups_owned (db_view d') = groups_owned (db_view d)"
  by (simp add: groups_owned_def has_owner_def db_view_def)

lemma chat_reach_users:
  "chat_reach pg_NewChatRepository pg_user_GetByID view_of w0 w \<Longrightarrow> tb_users (w_db w) = tb_users (w_db w0)"
proof (induction rule: chat_reach.induct)
  case (reach_step w newID op now)
  with keepsD [OF chat_frame.run_op_keeps, of "tb_users (w_db w0)" w now newID op] show ?case by (simp add: part_def)
qed simp

lemma user_reach_chats:
  assumes "user_reach (pg_NewUserRepository lc coll) (Hasher B cost salt) (JWTManager L cfg j1 j2) pg_accounts w0 w"
  shows "part chat_tables_of (chat_tables_of (w_db w0)) w"
  using assms
proof (induction rule: user_reach.induct)
  case acc_start
  show ?case by (simp add: part_def)
qed (simp_all only: user_frame.use_cases_keep [THEN keepsD])

lemma chats_keep_data:
  assumes "data_wf w" "chat_reach pg_NewChatRepository pg_user_GetByID view_of w w'"
  shows "data_wf w'"
proof -
  from assms(1) have w: "pg_inv w" "pg_users_wf (w_db w)" "groups_owned (view_of w)"
    by (simp_all add: data_wf_def pg_users_inv_alt)
  from pg.reach_groups_owned [OF assms(2) w(1,3)] chat_reach_users [OF assms(2)] w(2) show ?thesis
    by (auto simp: data_wf_def pg_users_inv_alt table_inv_def intro: pg_users_wf_same_users)
qed

lemma users_keep_data:
  assumes "data_wf w"
    and "user_reach (pg_NewUserRepository lc coll) (Hasher B cost salt) (JWTManager L cfg j1 j2) pg_accounts w w'"
  shows "data_wf w'"
proof -
  from assms(1) have w: "pg_users_inv w" "groups_owned (view_of w)" by (simp_all add: data_wf_def)
  from user_reach_chats [OF assms(2)] have "groups_owned (view_of w') = groups_owned (view_of w)"
    unfolding view_of_def part_def by (intro groups_owned_same_chats) simp_all
  with w pg_service.reach_invariant [OF assms(2) w(1)] show ?thesis by (simp add: data_wf_def)
qed

lemma guarded_inv: "guarded I qt view ok m P eff w \<Longrightarrow> I (snd (m w))"
  by (simp add: guarded_def)

lemma snd_drop_result [simp]: "snd (call m (\<lambda>_. ret ()) w) = snd (m w)"
  by (simp add: call_def branch_def ret_def throw_def split: outcome.split)

lemma run_msg_keeps_inv:
  assumes "pg_inv w" "msg_pre (view_of w) newID op"
  shows "pg_inv (snd (run_msg (pg_NewMessageRepository coll) pg_NewChatRepository now newID op w))"
proof (cases op)
  case (OpSend u inp)
  with assms(2) show ?thesis by (simp add: guarded_inv [OF pgm.Send_guarded [OF assms(1)]])
next
  case (OpEdit m u inp)
  then show ?thesis by (simp add: guarded_inv [OF pgm.Edit_guarded [OF assms(1)]])
next
  case (OpDelete m u)
  with pgm.Delete_guarded [OF assms(1), of coll m u] show ?thesis by (auto dest: guarded_inv)
next
  case (OpMarkRead c u)
  with pgm.MarkRead_guarded [OF assms(1), of coll c u] show ?thesis by (auto dest: guarded_inv)
next
  case (OpReact m u inp)
  then show ?thesis by (simp add: guarded_inv [OF pgm.AddReaction_guarded [OF assms(1)]])
next
  case (OpUnreact m u inp)
  then show ?thesis by (simp add: guarded_inv [OF pgm.RemoveReaction_guarded [OF assms(1)]])
next
  case (OpHistory u page)
  with pgm.GetHistory_run [OF assms(1), of page coll u] assms(2) show ?thesis by simp
qed

lemma msgs_keep_data:
  assumes "data_wf w" "msg_pre (view_of w) newID op"
  shows "data_wf (snd (run_msg (pg_NewMessageRepository coll) pg_NewChatRepository now newID op w))"
    (is "data_wf ?w'")
proof -
  from assms(1) have w: "pg_inv w" "pg_users_wf (w_db w)" "groups_owned (view_of w)"
    by (simp_all add: data_wf_def pg_users_inv_alt)
  have "part message_context (message_context (w_db w)) ?w'"
    by (rule keepsD [OF message_frame.run_msg_keeps]) (simp add: part_def)
  then have same: "tb_users (w_db ?w') = tb_users (w_db w)" "groups_owned (view_of ?w') = groups_owned (view_of w)"
    unfolding view_of_def part_def by (simp, intro groups_owned_same_chats) simp_all
  from run_msg_keeps_inv [OF w(1) assms(2)] same w(2,3) show ?thesis
    by (auto simp: data_wf_def pg_users_inv_alt table_inv_def intro: pg_users_wf_same_users)
qed

lemma app_keeps_data: "app_reach lc coll B cost L cfg w0 w \<Longrightarrow> data_wf w0 \<Longrightarrow> data_wf w"
  by (induction rule: app_reach.induct) (auto intro: users_keep_data chats_keep_data msgs_keep_data)

text \<open>C3: Whatever requests the three services receive, in any order and with any failing statements, the
  stored data stay well typed: every member and every message belongs to a stored chat and a stored user,
  nobody is twice in a chat, live accounts differ in email and username, and every live group has an
  owner.\<close>

theorem app_data_well_typed:
  assumes "pg_users_inv w0" "groups_owned (view_of w0)" "app_reach lc coll B cost L cfg w0 w"
  shows "let d = w_db w in
     (\<forall>r \<in> set (tb_members d). chat_exists d (mc_chat_id r) \<and> user_exists d (mc_user_id r)) \<and>
     (\<forall>r \<in> set (tb_messages d). chat_exists d (gc_chat_id r) \<and> user_exists d (gc_sender_id r)) \<and>
     distinct (map (\<lambda>r. (mc_chat_id r, mc_user_id r)) (tb_members d)) \<and>
     distinct (map uc_email (live_users d)) \<and> distinct (map uc_username (live_users d)) \<and>
     (\<forall>r \<in> set (tb_users d). first_violation (pg_user_checks r) = None) \<and>
     (\<forall>r \<in> set (tb_chats d). first_violation (pg_chat_checks r) = None) \<and>
     groups_owned (view_of w)"
proof -
  from app_keeps_data [OF assms(3)] assms(1,2) have "data_wf w" by (simp add: data_wf_def)
  then show ?thesis
    by (simp add: data_wf_def table_inv_def pg_users_wf_def pg_wf_def db_wf_def)
qed

text \<open>The third statement fails while somebody registers; then the owner leaves and a member reads the chat.\<close>

definition demo_joined :: world where
  "demo_joined = snd (users_Register (pg_NewUserRepository (\<lambda>c. c) demo_coll) (Hasher demo_bcrypt 10 0)
     (JWTManager demo_signer demo_keys_config 1 2) 50 24 demo_register (demo_fault 3))"

definition demo_left :: world where
  "demo_left = snd (run_op pg_NewChatRepository pg_user_GetByID 50 12 (OpLeaveChat 10 1) demo_joined)"

theorem app_data_well_typed_witness:
  "let w = snd (run_msg (pg_NewMessageRepository demo_coll) pg_NewChatRepository 60 25 (OpMarkRead 10 2) demo_left)
   in distinct (map uc_email (live_users (w_db w))) \<and> groups_owned (view_of w)"
proof -
  note start = app_start [of "\<lambda>c. c" demo_coll demo_bcrypt 10 demo_signer demo_keys_config "demo_fault 3"]
  have "(24 :: uuid) \<notin> set (ac_ids (pg_accounts (demo_fault 3)))"
    by (simp add: demo_fault_def demo_accounts)
  then have "app_reach (\<lambda>c. c) demo_coll demo_bcrypt 10 demo_signer demo_keys_config (demo_fault 3) demo_joined"
    unfolding demo_joined_def by (rule app_users [OF start acc_Register [where view = pg_accounts, OF acc_start]])
  then have "app_reach (\<lambda>c. c) demo_coll demo_bcrypt 10 demo_signer demo_keys_config (demo_fault 3) demo_left"
    unfolding demo_left_def by (rule app_chats) (rule reach_one, simp)
  from app_data_well_typed [OF demo_users_inv(2) _ app_msgs [OF this, of 25 "OpMarkRead 10 2" 60]]
  show ?thesis by (simp add: demo_owned Let_def)
qed

end
