(* ===== verification/Schema.thy ===== *)
theory Schema
  imports AppFrame
begin

text \<open>
  The schema of the tables as one predicate, and the fact that every call of a repository method keeps it,
  whatever its arguments and whatever the state it meets: keys, references and column checks do not
  depend on the order in which the calls of several requests arrive.
\<close>

section \<open>The schema\<close>

definition users_ok :: "user_row list \<Rightarrow> bool" where
  "users_ok us \<longleftrightarrow> distinct (map uc_id us) \<and>
     distinct (map uc_email (filter live us)) \<and> distinct (map uc_username (filter live us)) \<and>
     (\<forall>r \<in> set us. first_violation (pg_user_checks r) = None \<and> uc_avatar_url r \<noteq> None \<and> uc_bio r \<noteq> None)"

definition chats_ok :: "uuid set \<Rightarrow> chat_row list \<Rightarrow> bool" where
  "chats_ok us cs \<longleftrightarrow> distinct (map cc_id cs) \<and>
     (\<forall>r \<in> set cs. first_violation (pg_chat_checks r) = None \<and> cc_name r \<noteq> Some [] \<and> cc_created_by r \<in> us)"

definition members_ok :: "uuid set \<Rightarrow> uuid set \<Rightarrow> member_row list \<Rightarrow> bool" where
  "members_ok us cs ms \<longleftrightarrow> distinct (map (\<lambda>r. (mc_chat_id r, mc_user_id r)) ms) \<and>
     (\<forall>r \<in> set ms. valid_member_role (mc_role r) \<and> mc_chat_id r \<in> cs \<and> mc_user_id r \<in> us)"

definition messages_ok :: "uuid set \<Rightarrow> uuid set \<Rightarrow> message_row list \<Rightarrow> bool" where
  "messages_ok us cs gs \<longleftrightarrow> distinct (map gc_id gs) \<and>
     (\<forall>r \<in> set gs. first_violation (pg_message_checks r) = None \<and> gc_chat_id r \<in> cs \<and> gc_sender_id r \<in> us \<and>
        set_option (gc_reply_to_id r) \<subseteq> gc_id ` set gs)"

definition receipts_ok :: "uuid set \<Rightarrow> uuid set \<Rightarrow> receipt_row list \<Rightarrow> bool" where
  "receipts_ok us cs rs \<longleftrightarrow> distinct (map (\<lambda>r. (rc_chat_id r, rc_user_id r)) rs) \<and>
     (\<forall>r \<in> set rs. rc_chat_id r \<in> cs \<and> rc_user_id r \<in> us)"

definition reactions_ok :: "uuid set \<Rightarrow> uuid set \<Rightarrow> reaction_row list \<Rightarrow> bool" where
  "reactions_ok us gs xs \<longleftrightarrow> distinct (map (\<lambda>r. (xc_message_id r, xc_user_id r, xc_emoji r)) xs) \<and>
     (\<forall>r \<in> set xs. first_violation (pg_reaction_checks r) = None \<and> xc_message_id r \<in> gs \<and> xc_user_id r \<in> us)"

definition schema_ok :: "db \<Rightarrow> bool" where
  "schema_ok d \<longleftrightarrow>
     (let us = uc_id ` set (tb_users d); cs = cc_id ` set (tb_chats d); gs = gc_id ` set (tb_messages d) in
      users_ok (tb_users d) \<and> chats_ok us (tb_chats d) \<and> members_ok us cs (tb_members d) \<and>
      messages_ok us cs (tb_messages d) \<and> receipts_ok us cs (tb_receipts d) \<and>
      reactions_ok us gs (tb_reactions d))"

abbreviation schema :: "world \<Rightarrow> bool" where
  "schema w \<equiv> schema_ok (w_db w)"

lemmas tables_ok = users_ok_def chats_ok_def members_ok_def messages_ok_def receipts_ok_def reactions_ok_def

lemma exists_keys:
  "user_exists d x \<longleftrightarrow> x \<in> uc_id ` set (tb_users d)" "chat_exists d x \<longleftrightarrow> x \<in> cc_id ` set (tb_chats d)"
  "message_exists d x \<longleftrightarrow> x \<in> gc_id ` set (tb_messages d)"
  by (auto simp: user_exists_def chat_exists_def message_exists_def)

lemma schema_wf: "schema_ok d \<Longrightarrow> pg_users_wf d"
  unfolding pg_users_wf_def pg_wf_def db_wf_def live_users_def exists_keys
  by (simp add: schema_ok_def tables_ok Let_def)

lemma users_ok_wf: "pg_users_wf d \<Longrightarrow> users_ok (tb_users d)"
  by (simp add: pg_users_wf_def pg_wf_def db_wf_def live_users_def users_ok_def)

text \<open>A row that is referred to may be added, the rows that refer to it stay correct.\<close>

lemma more_keys:
  "chats_ok us cs \<Longrightarrow> chats_ok (insert u us) cs"
  "members_ok us ks ms \<Longrightarrow> members_ok (insert u us) ks ms" "members_ok us ks ms \<Longrightarrow> members_ok us (insert k ks) ms"
  "messages_ok us ks gs \<Longrightarrow> messages_ok (insert u us) ks gs" "messages_ok us ks gs \<Longrightarrow> messages_ok us (insert k ks) gs"
  "receipts_ok us ks rs \<Longrightarrow> receipts_ok (insert u us) ks rs" "receipts_ok us ks rs \<Longrightarrow> receipts_ok us (insert k ks) rs"
  "reactions_ok us is xs \<Longrightarrow> reactions_ok (insert u us) is xs" "reactions_ok us is xs \<Longrightarrow> reactions_ok us (insert k is) xs"
  by (auto simp: tables_ok)

text \<open>The rows after an update.\<close>

definition put_rows :: "('r \<Rightarrow> bool) \<Rightarrow> ('r \<Rightarrow> 'r) \<Rightarrow> 'r list \<Rightarrow> 'r list" where
  "put_rows P f rs = map (\<lambda>r. if P r then f r else r) rs"

lemma sql_update_rows: "sql_update P f rs = (length (filter P rs), put_rows P f rs)"
  by (simp add: sql_update_def put_rows_def)

lemma put_rows_all: "(\<forall>r \<in> set (put_rows P f rs). Q r) \<longleftrightarrow> (\<forall>r \<in> set rs. if P r then Q (f r) else Q r)"
  by (auto simp: put_rows_def)

lemma put_rows_keys: "(\<And>r. k (f r) = k r) \<Longrightarrow> map k (put_rows P f rs) = map k rs"
  by (auto simp: put_rows_def)

lemma put_rows_image: "(\<And>r. k (f r) = k r) \<Longrightarrow> k ` set (put_rows P f rs) = k ` set rs"
  by (simp only: put_rows_keys flip: set_map)

section \<open>Statements\<close>

lemma schema_stmt:
  assumes "\<And>t d a d'. schema_ok d \<Longrightarrow> f t d = Inr (a, d') \<Longrightarrow> schema_ok d'"
  shows "keeps schema (db_stmt f)"
  using assms by (intro keepsI) (auto simp: db_stmt_def split: option.splits sum.splits)

lemma schema_exec:
  assumes "\<And>t d a d'. schema_ok d \<Longrightarrow> f t d = Inr (a, d') \<Longrightarrow> schema_ok d'"
  shows "keeps schema (db_exec f)"
  using schema_stmt [OF assms] by (simp add: db_exec_def)

lemma schema_read [go_keeps]:
  "keeps schema (db_queryRow q scan)" "keeps schema (db_query q scan')" "keeps schema (pg_queryRow ps q scan)"
  "keeps schema tx_begin" "keeps schema tx_commit"
  by (auto simp: pg_queryRow_def db_queryRow_def db_query_def tx_begin_def tx_commit_def intro!: schema_stmt
      split: list.splits sum.splits if_splits)

lemma schema_tx [go_keeps]:
  assumes "keeps schema body"
  shows "keeps schema (in_tx body)"
proof (rule keepsI)
  fix w :: world assume w: "schema w"
  have "keeps schema (call tx_begin (\<lambda>_. call body (\<lambda>_. tx_commit)))"
    by (intro go_keeps assms)
  then have "schema (snd (call tx_begin (\<lambda>_. call body (\<lambda>_. tx_commit)) w))" using w by (simp add: keeps_def)
  with w show "schema (snd (in_tx body w))"
    by (auto simp: in_tx_def Let_def split: prod.split outcome.split)
qed

section \<open>Chats and members\<close>

lemma schema_insert_chat:
  assumes "schema_ok d" "pg_insert_chat r d = Inr (n, d')" "cc_name r \<noteq> Some []"
  shows "schema_ok d'"
proof -
  from assms(2) have r: "first_violation (pg_chat_checks r) = None" "cc_id r \<notin> cc_id ` set (tb_chats d)"
    "cc_created_by r \<in> uc_id ` set (tb_users d)" and d': "d' = d\<lparr>tb_chats := tb_chats d @ [r]\<rparr>"
    by (auto simp: pg_insert_chat_def first_violation_append_None pg_chat_keys_def exists_keys
        split: option.splits if_splits)
  from r assms(1,3) have "chats_ok (uc_id ` set (tb_users d)) (tb_chats d @ [r])"
    by (auto simp: schema_ok_def chats_ok_def Let_def)
  with assms(1) show ?thesis by (simp add: schema_ok_def d' Let_def more_keys)
qed

lemma schema_insert_member:
  assumes "schema_ok d" "pg_insert_member r d = Inr (n, d') \<or> pg_insert_member_nothing r d = Inr (n, d')"
  shows "schema_ok d'"
proof (cases "d' = d")
  case False
  with assms(2) have r: "valid_member_role (mc_role r)" "\<not> member_exists d (mc_chat_id r) (mc_user_id r)"
    "mc_chat_id r \<in> cc_id ` set (tb_chats d)" "mc_user_id r \<in> uc_id ` set (tb_users d)"
    and d': "d' = d\<lparr>tb_members := tb_members d @ [r]\<rparr>"
    by (auto simp: pg_insert_member_def pg_insert_member_nothing_def first_violation_append_None
        pg_member_checks_def pg_member_fks_def exists_keys split: option.splits if_splits)
  from r assms(1) have "members_ok (uc_id ` set (tb_users d)) (cc_id ` set (tb_chats d)) (tb_members d @ [r])"
    by (auto simp: schema_ok_def members_ok_def member_exists_def Let_def)
  with assms(1) show ?thesis by (simp add: schema_ok_def d' Let_def)
qed (use assms(1) in simp)

lemma schema_write_chats:
  assumes "schema_ok d" and keys: "\<And>r. cc_id (f r) = cc_id r" "\<And>r. cc_created_by (f r) = cc_created_by r"
    and "\<And>r. r \<in> set (tb_chats d) \<Longrightarrow> P r \<Longrightarrow> first_violation (pg_chat_checks (f r)) = None \<and> cc_name (f r) \<noteq> Some []"
  shows "schema_ok (d\<lparr>tb_chats := put_rows P f (tb_chats d)\<rparr>)"
proof -
  have "chats_ok us (put_rows P f (tb_chats d))" if "chats_ok us (tb_chats d)" for us
    using that assms(4) by (simp add: chats_ok_def put_rows_keys put_rows_all keys)
  with assms(1) show ?thesis by (simp add: schema_ok_def Let_def put_rows_image keys)
qed

lemma schema_write_members:
  assumes "schema_ok d" "members_ok (uc_id ` set (tb_users d)) (cc_id ` set (tb_chats d)) (tb_members d) \<Longrightarrow>
    members_ok (uc_id ` set (tb_users d)) (cc_id ` set (tb_chats d)) ms"
  shows "schema_ok (d\<lparr>tb_members := ms\<rparr>)"
  using assms by (simp add: schema_ok_def Let_def)

lemma members_ok_delete: "members_ok us cs ms \<Longrightarrow> members_ok us cs (filter P ms)"
  by (auto simp: members_ok_def distinct_map_filter)

lemma members_ok_role:
  "members_ok us cs ms \<Longrightarrow> valid_member_role role \<Longrightarrow> members_ok us cs (put_rows P (mc_role_update (\<lambda>_. role)) ms)"
  by (simp add: members_ok_def put_rows_keys put_rows_all)

lemma chats_keep_schema:
  "keeps schema (pg_chat_CreateWithMembers ch ms)" "keeps schema (pg_chat_GetByID c)"
  "keeps schema (pg_chat_Update ch)" "keeps schema (pg_chat_Delete c)"
  "keeps schema (pg_chat_AddMember m)" "keeps schema (pg_chat_RemoveMember c u)"
  "keeps schema (pg_chat_GetMember c u)" "keeps schema (pg_chat_GetMembers c)"
  "keeps schema (pg_chat_UpdateMemberRole c u role)" "keeps schema (pg_chat_GetUserChats u)"
  "keeps schema (pg_chat_GetDirectChat a b)" "keeps schema (pg_chat_IsMember c u)"
proof -
  show "keeps schema (pg_chat_CreateWithMembers ch ms)"
    unfolding pg_chat_CreateWithMembers_def
    by (intro go_keeps schema_exec) (auto intro: schema_insert_chat schema_insert_member)
  show "keeps schema (pg_chat_AddMember m)"
    unfolding pg_chat_AddMember_def by (intro go_keeps schema_exec) (auto intro: schema_insert_member)
  show "keeps schema (pg_chat_Update ch)"
    unfolding pg_chat_Update_def Let_def sql_update_rows prod.case
    by (intro go_keeps schema_exec)
      (auto simp: first_violation_concat_None split: option.splits if_splits intro!: schema_write_chats)
  have deleted: "schema_ok d \<Longrightarrow> schema_ok (d\<lparr>tb_chats := put_rows P (cc_deleted_at_update (\<lambda>_. Some t)) (tb_chats d)\<rparr>)"
    for P t d by (rule schema_write_chats) (simp_all add: schema_ok_def Let_def chats_ok_def pg_chat_checks_def)
  show "keeps schema (pg_chat_Delete c)"
    unfolding pg_chat_Delete_def Let_def sql_update_rows prod.case
    by (intro go_keeps schema_exec) (auto simp: deleted)
  show "keeps schema (pg_chat_RemoveMember c u)" "keeps schema (pg_chat_UpdateMemberRole c u role)"
    unfolding pg_chat_RemoveMember_def pg_chat_UpdateMemberRole_def Let_def sql_update_rows sql_delete_def prod.case
    by (intro go_keeps schema_exec;
        auto split: if_splits intro!: schema_write_members members_ok_delete members_ok_role)+
qed (unfold pg_chat_GetByID_def pg_chat_GetMember_def pg_chat_GetMembers_def pg_chat_GetUserChats_def
    pg_chat_GetDirectChat_def pg_chat_IsMember_def, (intro go_keeps)+)

section \<open>Messages\<close>

lemma schema_write_messages:
  assumes "schema_ok d" and keys: "\<And>r. gc_id (f r) = gc_id r" "\<And>r. gc_chat_id (f r) = gc_chat_id r"
      "\<And>r. gc_sender_id (f r) = gc_sender_id r" "\<And>r. gc_reply_to_id (f r) = gc_reply_to_id r"
    and "\<And>r. r \<in> set (tb_messages d) \<Longrightarrow> P r \<Longrightarrow> first_violation (pg_message_checks (f r)) = None"
  shows "schema_ok (d\<lparr>tb_messages := put_rows P f (tb_messages d)\<rparr>)"
proof -
  have "messages_ok us cs (put_rows P f (tb_messages d))" if "messages_ok us cs (tb_messages d)" for us cs
    using that assms(6) by (simp add: messages_ok_def put_rows_keys put_rows_image put_rows_all keys)
  with assms(1) show ?thesis by (simp add: schema_ok_def Let_def put_rows_image keys)
qed

lemma schema_insert_message:
  assumes "schema_ok d" "first_violation (pg_message_checks r @ pg_message_keys d r) = None"
  shows "schema_ok (d\<lparr>tb_messages := tb_messages d @ [r]\<rparr>)"
proof -
  from assms(2) have "first_violation (pg_message_checks r) = None" "gc_id r \<notin> gc_id ` set (tb_messages d)"
    "gc_chat_id r \<in> cc_id ` set (tb_chats d)" "gc_sender_id r \<in> uc_id ` set (tb_users d)"
    "set_option (gc_reply_to_id r) \<subseteq> insert (gc_id r) (gc_id ` set (tb_messages d))"
    by (auto simp: first_violation_append_None pg_message_keys_def exists_keys split: if_splits option.splits)
  with assms(1) have "messages_ok (uc_id ` set (tb_users d)) (cc_id ` set (tb_chats d)) (tb_messages d @ [r])"
    by (auto simp: schema_ok_def messages_ok_def Let_def)
  with assms(1) show ?thesis by (simp add: schema_ok_def Let_def more_keys)
qed

lemma content_checks_kept:
  "first_violation (pg_message_checks r) = None \<Longrightarrow> pg_text c \<Longrightarrow> first_violation (pg_content_checks c) = None \<Longrightarrow>
     gc_content r' = c \<Longrightarrow> gc_type r' = gc_type r \<Longrightarrow> first_violation (pg_message_checks r') = None"
  by (auto simp: pg_message_checks_def split: if_splits)

lemma checks_columns:
  "pg_message_checks (r\<lparr>gc_deleted_at := x, gc_updated_at := t\<rparr>) = pg_message_checks r"
  by (simp add: pg_message_checks_def)

lemma schema_messages_checked:
  "schema_ok d \<Longrightarrow> r \<in> set (tb_messages d) \<Longrightarrow> first_violation (pg_message_checks r) = None"
  by (simp add: schema_ok_def messages_ok_def Let_def)

lemma schema_write_receipts:
  assumes "schema_ok d"
    and "receipts_ok (uc_id ` set (tb_users d)) (cc_id ` set (tb_chats d)) (tb_receipts d) \<Longrightarrow>
      receipts_ok (uc_id ` set (tb_users d)) (cc_id ` set (tb_chats d)) rs"
  shows "schema_ok (d\<lparr>tb_receipts := rs\<rparr>)"
  using assms by (simp add: schema_ok_def Let_def)

lemma schema_write_reactions:
  assumes "schema_ok d"
    and "reactions_ok (uc_id ` set (tb_users d)) (gc_id ` set (tb_messages d)) (tb_reactions d) \<Longrightarrow>
      reactions_ok (uc_id ` set (tb_users d)) (gc_id ` set (tb_messages d)) xs"
  shows "schema_ok (d\<lparr>tb_reactions := xs\<rparr>)"
  using assms by (simp add: schema_ok_def Let_def)

lemma mark_written:
  "receipts_ok us cs rs \<Longrightarrow> receipts_ok us cs (put_rows P (rc_last_read_at_update (\<lambda>_. t)) rs)"
  by (simp add: receipts_ok_def put_rows_keys put_rows_all)

lemma mark_added:
  assumes "receipts_ok us cs rs" "c \<in> cs" "u \<in> us" "filter (\<lambda>r. rc_chat_id r = c \<and> rc_user_id r = u) rs = []"
  shows "receipts_ok us cs (rs @ [\<lparr>rc_chat_id = c, rc_user_id = u, rc_last_read_at = t\<rparr>])"
  using assms by (auto simp: receipts_ok_def filter_empty_conv)

lemma reaction_added:
  assumes "reactions_ok us gs xs" "first_violation (pg_reaction_checks r) = None" "xc_message_id r \<in> gs" "xc_user_id r \<in> us"
    and "\<not> (\<exists>x \<in> set xs. xc_message_id x = xc_message_id r \<and> xc_user_id x = xc_user_id r \<and> xc_emoji x = xc_emoji r)"
  shows "reactions_ok us gs (xs @ [r])"
  using assms by (auto simp: reactions_ok_def)

lemma reactions_ok_delete: "reactions_ok us gs xs \<Longrightarrow> reactions_ok us gs (filter P xs)"
  by (auto simp: reactions_ok_def distinct_map_filter)

lemma msgs_keep_schema:
  "keeps schema (pg_msg_Create m)" "keeps schema (pg_msg_GetByID i)"
  "keeps schema (pg_msg_GetChatMessages c cu l)" "keeps schema (pg_msg_Update m)"
  "keeps schema (pg_msg_Delete i)" "keeps schema (pg_msg_MarkRead c u)"
  "keeps schema (pg_msg_GetUnreadCount c u)" "keeps schema (pg_msg_AddReaction rx)"
  "keeps schema (pg_msg_RemoveReaction i u e)" "keeps schema (pg_msg_GetReactions coll i)"
  "keeps schema (pg_msg_GetReactionsBatch coll ids)"
proof -
  show "keeps schema (pg_msg_Create m)"
    unfolding pg_msg_Create_def Let_def
    by (intro go_keeps schema_exec) (auto split: option.splits intro!: schema_insert_message)
  have deleted: "schema_ok d \<Longrightarrow>
      schema_ok (d\<lparr>tb_messages := put_rows P (\<lambda>r. r\<lparr>gc_deleted_at := x, gc_updated_at := t\<rparr>) (tb_messages d)\<rparr>)" for P x t d
    by (rule schema_write_messages) (simp_all add: schema_messages_checked checks_columns)
  show "keeps schema (pg_msg_Delete i)"
    unfolding pg_msg_Delete_def Let_def sql_update_rows prod.case
    by (intro go_keeps schema_exec) (auto simp: deleted)
  show "keeps schema (pg_msg_Update m)"
    unfolding pg_msg_Update_def Let_def sql_update_rows prod.case
  proof (intro go_keeps schema_exec)
    fix t d a d'
    let ?P = "\<lambda>r. gc_id r = msg_ID m \<and> gc_deleted_at r = None"
    let ?f = "\<lambda>r. r\<lparr>gc_content := msg_Content m, gc_edited_at := msg_EditedAt m, gc_updated_at := msg_UpdatedAt m\<rparr>"
    assume d: "schema_ok d" and "(case first_violation ((\<not> pg_text (msg_Content m), bad_encoding) #
            (if length (filter ?P (tb_messages d)) = 0 then [] else pg_content_checks (msg_Content m))) of
          None \<Rightarrow> Inr (length (filter ?P (tb_messages d)), d\<lparr>tb_messages := put_rows ?P ?f (tb_messages d)\<rparr>)
        | Some e \<Rightarrow> Inl e) = Inr (a, d')"
    then have d': "d' = d\<lparr>tb_messages := put_rows ?P ?f (tb_messages d)\<rparr>" and utf: "pg_text (msg_Content m)"
      and len: "\<And>r. r \<in> set (tb_messages d) \<Longrightarrow> ?P r \<Longrightarrow> first_violation (pg_content_checks (msg_Content m)) = None"
      by (auto simp: filter_empty_conv split: option.splits if_splits)
    show "schema_ok d'" unfolding d'
    proof (rule schema_write_messages [OF d])
      fix r assume r: "r \<in> set (tb_messages d)" "?P r"
      show "first_violation (pg_message_checks (?f r)) = None"
        by (rule content_checks_kept [OF schema_messages_checked [OF d r(1)] utf len [OF r]]) simp_all
    qed simp_all
  qed
  show "keeps schema (pg_msg_MarkRead c u)"
    unfolding pg_msg_MarkRead_def Let_def sql_update_rows prod.case
    by (intro go_keeps schema_exec)
      (auto simp: exists_keys filter_empty_conv split: if_splits intro!: schema_write_receipts mark_written mark_added)
  show "keeps schema (pg_msg_AddReaction rx)"
    unfolding pg_msg_AddReaction_def Let_def
    by (intro go_keeps schema_exec)
      (auto simp: exists_keys pg_reaction_fks_def split: option.splits if_splits
        intro!: schema_write_reactions reaction_added)
  show "keeps schema (pg_msg_RemoveReaction i u e)"
    unfolding pg_msg_RemoveReaction_def Let_def sql_delete_def prod.case
    by (intro go_keeps schema_exec) (auto split: if_splits intro!: schema_write_reactions reactions_ok_delete)
qed (unfold pg_msg_GetByID_def pg_msg_GetChatMessages_def pg_msg_GetUnreadCount_def
    pg_msg_GetReactions_def pg_msg_GetReactionsBatch_def Let_def, (intro go_keeps schema_exec; simp)+)

section \<open>Accounts\<close>

lemma schema_with_users:
  assumes "schema_ok d" "pg_users_wf (d\<lparr>tb_users := us\<rparr>)" "uc_id ` set us = uc_id ` set (tb_users d)"
  shows "schema_ok (d\<lparr>tb_users := us\<rparr>)"
  using assms(1,3) users_ok_wf [OF assms(2)] by (simp add: schema_ok_def Let_def)

lemma schema_set_row:
  assumes "schema_ok d" "keeps_row f"
    and "\<And>r. r \<in> set (tb_users d) \<Longrightarrow> uc_id r = uid \<Longrightarrow> live r \<Longrightarrow>
        uc_avatar_url (f r) \<noteq> None \<and> uc_bio (f r) \<noteq> None \<and> pg_user_ok (user_of_row (f r)) \<and>
        first_violation (pg_user_uniques d (f r)) = None"
  shows "schema_ok (set_row uid f d)"
proof -
  let ?us = "put_rows (\<lambda>r. uc_id r = uid \<and> live r) f (tb_users d)"
  have d': "set_row uid f d = d\<lparr>tb_users := ?us\<rparr>" by (simp add: set_row_def put_rows_def)
  have "uc_id ` set ?us = uc_id ` set (tb_users d)"
    using assms(2) by (intro put_rows_image) (simp add: keeps_row_def)
  moreover have "pg_users_wf (set_row uid f d)"
    using schema_wf [OF assms(1)] assms(2,3) by (rule pg_users_wf_set_row)
  ultimately show ?thesis using schema_with_users [OF assms(1)] unfolding d' by blast
qed

lemma schema_rows_ok: "schema_ok d \<Longrightarrow> r \<in> set (tb_users d) \<Longrightarrow>
    pg_user_ok (user_of_row r) \<and> uc_avatar_url r \<noteq> None \<and> uc_bio r \<noteq> None"
  using pg_user_checks_row [of r] by (simp add: schema_ok_def users_ok_def Let_def)

lemma users_keep_schema:
  "keeps schema (pg_user_Create u)" "keeps schema (pg_user_GetByID i)" "keeps schema (pg_user_GetByEmail e)"
  "keeps schema (pg_user_GetByUsername n)" "keeps schema (pg_user_Update u)"
  "keeps schema (pg_user_UpdateStatus i st t)" "keeps schema (pg_user_Delete i)"
  "keeps schema (pg_user_Search lc coll q l off)"
proof -
  show "keeps schema (pg_user_Create u)"
    unfolding pg_user_Create_def new_user_row_def [symmetric] Let_def
  proof (intro go_keeps schema_exec)
    fix t d a d'
    assume d: "schema_ok d" and "(case first_violation (pg_user_checks (new_user_row u) @
          [(user_exists d (uc_id (new_user_row u)), unique_violation ''users_pkey'')] @
          pg_user_uniques d (new_user_row u)) of None \<Rightarrow> Inr (1, d\<lparr>tb_users := tb_users d @ [new_user_row u]\<rparr>)
        | Some e \<Rightarrow> Inl e) = Inr (a, d')"
    then have ok: "pg_user_ok u" "first_violation (pg_user_uniques d (new_user_row u)) = None"
      and new: "user_ID u \<notin> set (map uc_id (tb_users d))" and d': "d' = d\<lparr>tb_users := tb_users d @ [new_user_row u]\<rparr>"
      by (auto simp: violation_append pg_user_checks_row exists_keys split: option.splits if_splits)
    from users_ok_wf [OF pg_users_wf_add [OF schema_wf [OF d] new ok]] d show "schema_ok d'"
      by (simp add: schema_ok_def d' Let_def more_keys)
  qed
  show "keeps schema (pg_user_Update u)"
    unfolding pg_user_Update_def Let_def sql_update_def prod.case profile_row_def [symmetric] profile_checks_def [symmetric]
  proof (intro go_keeps schema_exec)
    fix t d a d'
    assume d: "schema_ok d" and "(case first_violation (profile_checks u d) of
        None \<Rightarrow> Inr (length (filter (\<lambda>r. uc_id r = user_ID u \<and> live r) (tb_users d)),
          d\<lparr>tb_users := map (\<lambda>r. if uc_id r = user_ID u \<and> live r then profile_row u r else r) (tb_users d)\<rparr>)
      | Some e \<Rightarrow> Inl e) = Inr (a, d')"
    then have d': "d' = set_row (user_ID u) (profile_row u) d" and none: "first_violation (profile_checks u d) = None"
      by (auto simp: set_row_def split: option.splits)
    show "schema_ok d'" unfolding d'
      using profile_written [OF schema_wf [OF d] none] by (intro schema_set_row [OF d]) auto
  qed
  show "keeps schema (pg_user_UpdateStatus i st t)"
    unfolding pg_user_UpdateStatus_def Let_def sql_update_def prod.case status_row_def [symmetric]
  proof (intro go_keeps schema_exec)
    fix now d a d'
    assume d: "schema_ok d" and "(if \<not> valid_user_status st then Inl bad_enum
        else Inr (length (filter (\<lambda>r. uc_id r = i \<and> live r) (tb_users d)),
          d\<lparr>tb_users := map (\<lambda>r. if uc_id r = i \<and> live r then status_row st t now r else r) (tb_users d)\<rparr>)) = Inr (a, d')"
    then have d': "d' = set_row i (status_row st t now) d" and st: "valid_user_status st"
      by (auto simp: set_row_def split: if_splits)
    show "schema_ok d'" unfolding d'
      using schema_rows_ok [OF d] st stored_unique [OF schema_wf [OF d]]
      by (intro schema_set_row [OF d]) (auto simp: pg_user_ok_def)
  qed
  show "keeps schema (pg_user_Delete i)"
    unfolding pg_user_Delete_def Let_def sql_update_rows prod.case
  proof (intro go_keeps schema_exec)
    fix t a and d d' :: db
    let ?us = "put_rows (\<lambda>r. uc_id r = i \<and> live r) (uc_deleted_at_update (\<lambda>_. Some t)) (tb_users d)"
    assume d: "schema_ok d" and f: "Inr (length (filter (\<lambda>r. uc_id r = i \<and> live r) (tb_users d)), d\<lparr>tb_users := ?us\<rparr>)
        = Inr (a, d')"
    have "filter live (put_rows (\<lambda>r. uc_id r = i \<and> live r) (uc_deleted_at_update (\<lambda>_. Some t)) rs) =
        filter (\<lambda>r. uc_id r \<noteq> i) (filter live rs)" for rs
      by (induction rs) (auto simp: put_rows_def)
    then have lv: "filter live ?us = filter (\<lambda>r. uc_id r \<noteq> i) (filter live (tb_users d))" .
    have same: "pg_user_checks (r\<lparr>uc_deleted_at := x\<rparr>) = pg_user_checks r" for r x
      by (simp add: pg_user_checks_def)
    from d have "users_ok (tb_users d)" by (simp add: schema_ok_def Let_def)
    then have "users_ok ?us"
      unfolding users_ok_def lv by (simp add: put_rows_keys put_rows_all same distinct_map_filter del: filter_filter)
    with d f show "schema_ok d'" by (auto simp: schema_ok_def Let_def put_rows_image)
  qed
  show "keeps schema (pg_user_Search lc coll q l off)"
    unfolding pg_user_Search_def by (intro go_keeps schema_exec; simp)
qed (unfold pg_user_GetByID_def pg_user_GetByEmail_def pg_user_GetByUsername_def pg_user_scanOne_def, (intro go_keeps)+)

end
