(* ===== verification/InterleaveProps.thy ===== *)
theory InterleaveProps
  imports Schema ChatRefine
begin

text \<open>
  Requests that run at the same time.  Between two calls of a request to its repositories the others may
  do anything that calls of repository methods can do: \<open>E\<close> stands for that activity.  A use case that is
  given the repositories of this theory meets it before every call it makes.  The schema of the tables
  holds under every interleaving of calls, the ownership of groups does not.
\<close>

section \<open>Activity of other requests\<close>

definition after_others :: "('w \<Rightarrow> 'w) \<Rightarrow> ('w, 'a) io \<Rightarrow> ('w, 'a) io" where
  "after_others E m w = m (E w)"

definition chats_beside :: "('w \<Rightarrow> 'w) \<Rightarrow> 'w ChatRepository \<Rightarrow> 'w ChatRepository" where
  "chats_beside E R = \<lparr>
     cr_CreateWithMembers = \<lambda>ch ms. after_others E (cr_CreateWithMembers R ch ms),
     cr_GetByID = \<lambda>c. after_others E (cr_GetByID R c),
     cr_Update = \<lambda>ch. after_others E (cr_Update R ch),
     cr_Delete = \<lambda>c. after_others E (cr_Delete R c),
     cr_AddMember = \<lambda>m. after_others E (cr_AddMember R m),
     cr_RemoveMember = \<lambda>c u. after_others E (cr_RemoveMember R c u),
     cr_GetMember = \<lambda>c u. after_others E (cr_GetMember R c u),
     cr_GetMembers = \<lambda>c. after_others E (cr_GetMembers R c),
     cr_UpdateMemberRole = \<lambda>c u role. after_others E (cr_UpdateMemberRole R c u role),
     cr_GetUserChats = \<lambda>u. after_others E (cr_GetUserChats R u),
     cr_GetDirectChat = \<lambda>a b. after_others E (cr_GetDirectChat R a b),
     cr_IsMember = \<lambda>c u. after_others E (cr_IsMember R c u)\<rparr>"

definition messages_beside :: "('w \<Rightarrow> 'w) \<Rightarrow> 'w MessageRepository \<Rightarrow> 'w MessageRepository" where
  "messages_beside E M = \<lparr>
     mr_Create = \<lambda>g. after_others E (mr_Create M g),
     mr_GetByID = \<lambda>i. after_others E (mr_GetByID M i),
     mr_GetChatMessages = \<lambda>c cursor limit. after_others E (mr_GetChatMessages M c cursor limit),
     mr_Update = \<lambda>g. after_others E (mr_Update M g),
     mr_Delete = \<lambda>i. after_others E (mr_Delete M i),
     mr_MarkRead = \<lambda>c u. after_others E (mr_MarkRead M c u),
     mr_GetUnreadCount = \<lambda>c u. after_others E (mr_GetUnreadCount M c u),
     mr_AddReaction = \<lambda>rx. after_others E (mr_AddReaction M rx),
     mr_RemoveReaction = \<lambda>i u e. after_others E (mr_RemoveReaction M i u e),
     mr_GetReactions = \<lambda>i. after_others E (mr_GetReactions M i),
     mr_GetReactionsBatch = \<lambda>ids. after_others E (mr_GetReactionsBatch M ids)\<rparr>"

definition users_beside :: "('w \<Rightarrow> 'w) \<Rightarrow> 'w UserRepository \<Rightarrow> 'w UserRepository" where
  "users_beside E U = \<lparr>
     ur_Create = \<lambda>u. after_others E (ur_Create U u),
     ur_GetByID = \<lambda>i. after_others E (ur_GetByID U i),
     ur_GetByEmail = \<lambda>e. after_others E (ur_GetByEmail U e),
     ur_GetByUsername = \<lambda>n. after_others E (ur_GetByUsername U n),
     ur_Update = \<lambda>u. after_others E (ur_Update U u),
     ur_UpdateStatus = \<lambda>i st t. after_others E (ur_UpdateStatus U i st t),
     ur_Search = \<lambda>q l off. after_others E (ur_Search U q l off),
     ur_Delete = \<lambda>i. after_others E (ur_Delete U i)\<rparr>"

section \<open>What calls of repository methods can do\<close>

text \<open>The writing methods, with any arguments.\<close>

inductive pg_write :: "(world, unit) io \<Rightarrow> bool" where
  "pg_write (pg_chat_CreateWithMembers ch ms)"
| "pg_write (pg_chat_Update ch)"
| "pg_write (pg_chat_Delete c)"
| "pg_write (pg_chat_AddMember m)"
| "pg_write (pg_chat_RemoveMember c u)"
| "pg_write (pg_chat_UpdateMemberRole c u role)"
| "pg_write (pg_msg_Create g)"
| "pg_write (pg_msg_Update g)"
| "pg_write (pg_msg_Delete i)"
| "pg_write (pg_msg_MarkRead c u)"
| "pg_write (pg_msg_AddReaction rx)"
| "pg_write (pg_msg_RemoveReaction i u e)"
| "pg_write (pg_user_Create x)"
| "pg_write (pg_user_Update x)"
| "pg_write (pg_user_UpdateStatus i st t)"
| "pg_write (pg_user_Delete i)"

text \<open>Any number of calls in any order; reads, the clock and other services leave the tables alone.\<close>

inductive pg_calls :: "world \<Rightarrow> world \<Rightarrow> bool" for w0 where
  calls_none: "pg_calls w0 w0"
| calls_read: "pg_calls w0 w \<Longrightarrow> w_db w' = w_db w \<Longrightarrow> pg_calls w0 w'"
| calls_write: "pg_calls w0 w \<Longrightarrow> pg_write m \<Longrightarrow> pg_calls w0 (snd (m w))"

lemma pg_calls_trans: "pg_calls w1 w2 \<Longrightarrow> pg_calls w0 w1 \<Longrightarrow> pg_calls w0 w2"
  by (induction rule: pg_calls.induct) (auto intro: pg_calls.intros)

lemma write_keeps_schema: "pg_write m \<Longrightarrow> keeps schema m"
  by (cases rule: pg_write.cases) (auto intro: chats_keep_schema msgs_keep_schema users_keep_schema)

lemma calls_keep_schema: "pg_calls w0 w \<Longrightarrow> schema w0 \<Longrightarrow> schema w"
  by (induction rule: pg_calls.induct) (auto intro: keepsD [OF write_keeps_schema])

section \<open>Requests among others consist of calls\<close>

lemma keeps_calls_write: "pg_write m \<Longrightarrow> keeps (pg_calls w0) m"
  by (rule keepsI) (rule calls_write)

lemma keeps_calls_read: "keeps (part (\<lambda>d. d) (w_db w)) m \<Longrightarrow> pg_calls w0 w \<Longrightarrow> pg_calls w0 (snd (m w))"
  using keepsD [of "part (\<lambda>d. d) (w_db w)" m w] by (auto simp: part_def intro: calls_read)

lemma keeps_calls_reading: "(\<And>d. keeps (part (\<lambda>d. d) d) m) \<Longrightarrow> keeps (pg_calls w0) m"
  by (rule keepsI) (rule keeps_calls_read)

lemma keeps_after_others:
  assumes "\<And>w. pg_calls w (E w)" "keeps (pg_calls w0) m"
  shows "keeps (pg_calls w0) (after_others E m)"
  using assms by (auto simp: keeps_def after_others_def intro: pg_calls_trans)

lemma reads_keep:
  "keeps (part F x) (pg_chat_GetByID c)" "keeps (part F x) (pg_chat_GetMember c u)"
  "keeps (part F x) (pg_chat_GetMembers c)" "keeps (part F x) (pg_chat_GetDirectChat a b)"
  "keeps (part F x) (pg_msg_GetByID i)" "keeps (part F x) (pg_msg_GetChatMessages c cu l)"
  "keeps (part F x) (pg_msg_GetReactionsBatch coll ids)"
  unfolding pg_chat_GetByID_def pg_chat_GetMember_def pg_chat_GetMembers_def pg_chat_GetDirectChat_def
    pg_msg_GetByID_def pg_msg_GetChatMessages_def pg_msg_GetReactionsBatch_def Let_def
  by (intro go_keeps part_exec; simp)+

lemmas all_reads = reads_keep chats_leave_users(12,13) users_leave_chats(5-)

text \<open>A request whose calls meet the activity of others is a sequence of calls itself.\<close>

definition harmless :: "(world \<Rightarrow> world) \<Rightarrow> bool" where
  "harmless E \<longleftrightarrow> (\<forall>w. pg_calls w (E w))"

lemma after_write: "harmless E \<Longrightarrow> pg_write m \<Longrightarrow> keeps (pg_calls w0) (after_others E m)"
  by (intro keeps_after_others keeps_calls_write) (simp_all add: harmless_def)

lemma after_read: "harmless E \<Longrightarrow> (\<And>d. keeps (part (\<lambda>d. d) d) m) \<Longrightarrow> keeps (pg_calls w0) (after_others E m)"
  by (intro keeps_after_others keeps_calls_reading) (simp_all add: harmless_def)

lemma chats_beside_calls:
  "harmless E \<Longrightarrow> chat_calls (pg_calls w0) (chats_beside E pg_NewChatRepository) (\<lambda>u. after_others E (pg_user_GetByID u))"
  by unfold_locales
    (simp_all add: chats_beside_def pg_NewChatRepository_def after_write pg_write.intros after_read all_reads)

lemma messages_beside_calls:
  "harmless E \<Longrightarrow> message_calls (pg_calls w0) (messages_beside E (pg_NewMessageRepository coll))
     (chats_beside E pg_NewChatRepository)"
  by unfold_locales
    (simp_all add: messages_beside_def chats_beside_def pg_NewMessageRepository_def pg_NewChatRepository_def
      after_write pg_write.intros after_read all_reads)

lemma users_beside_calls:
  "harmless E \<Longrightarrow> user_calls (pg_calls w0) (users_beside E (pg_NewUserRepository lc coll)) (Hasher B cost salt)
     (JWTManager L cfg j1 j2)"
  by unfold_locales
    (simp_all add: users_beside_def pg_NewUserRepository_def after_write pg_write.intros after_read all_reads
      tokens_keep keeps_calls_reading part_clock)

lemma requests_are_calls:
  assumes "harmless E"
  shows "pg_calls w (snd (run_op (chats_beside E pg_NewChatRepository) (\<lambda>u. after_others E (pg_user_GetByID u))
      now newID chat_op w))"
    "pg_calls w (snd (run_msg (messages_beside E (pg_NewMessageRepository coll)) (chats_beside E pg_NewChatRepository)
      now newID msg_op w))"
    "pg_calls w (snd (run_user (users_beside E (pg_NewUserRepository lc coll)) (Hasher B cost salt)
      (JWTManager L cfg j1 j2) now newID user_op w))"
  by (rule keepsD [OF chat_calls.run_op_keeps [OF chats_beside_calls [OF assms]] calls_none],
      rule keepsD [OF message_calls.run_msg_keeps [OF messages_beside_calls [OF assms]] calls_none],
      rule keepsD [OF user_calls.run_user_keeps [OF users_beside_calls [OF assms]] calls_none])

section \<open>The schema under any interleaving\<close>

text \<open>C4: The schema of the tables (keys, references, checked columns, unique live accounts) holds after any
  request to any service, whatever calls of other requests happen between its own calls; and such a
  request is again nothing but a sequence of calls, so any number of requests may run at the same time.\<close>

theorem interleaved_requests_keep_schema:
  assumes "\<And>w. pg_calls w (E w)" "schema_ok (w_db w)"
    and "run \<in> {run_op (chats_beside E pg_NewChatRepository) (\<lambda>u. after_others E (pg_user_GetByID u)) now newID op1,
       run_msg (messages_beside E (pg_NewMessageRepository coll)) (chats_beside E pg_NewChatRepository) now newID op2,
       run_user (users_beside E (pg_NewUserRepository lc coll)) (Hasher B cost salt) (JWTManager L cfg j1 j2)
         now newID op3}"
  shows "pg_calls w (snd (run w)) \<and> schema_ok (w_db (snd (run w)))"
proof -
  have "harmless E" using assms(1) by (simp add: harmless_def)
  from requests_are_calls [OF this] assms(3) have "pg_calls w (snd (run w))" by auto
  with calls_keep_schema assms(2) show ?thesis by blast
qed

lemma demo_schema: "schema_ok demo_db"
proof -
  have us: "users_ok (tb_users demo_db)" by (rule users_ok_wf) (rule demo_users_wf)
  have keys: "uc_id ` set (tb_users demo_db) = {1, 2, 3, 4}" "cc_id ` set (tb_chats demo_db) = {10, 11, 13}"
    by (auto simp: demo_db_def demo_user_def)
  have cs: "chats_ok {1, 2, 3, 4} (tb_chats demo_db)"
    using demo_wf unfolding chats_ok_def pg_wf_def db_wf_def by (simp add: demo_db_def)
  have ms: "members_ok {1, 2, 3, 4} {10, 11, 13} (tb_members demo_db)"
    unfolding members_ok_def by (simp add: demo_db_def demo_member_def valid_member_role_def)
  have "first_violation (pg_message_checks r) = None" if "r \<in> set (tb_messages demo_db)" for r
    using that by (auto simp: demo_db_def demo_message_def pg_message_checks_def pg_content_checks_def pg_text_def
        ValidString_ascii is_ascii_def RuneCount_ascii valid_message_type_def)
  then have "messages_ok {1, 2, 3, 4} {10, 11, 13} (tb_messages demo_db)"
    unfolding messages_ok_def by (simp add: demo_db_def demo_message_def)
  with us cs ms show ?thesis
    unfolding schema_ok_def Let_def keys by (simp add: receipts_ok_def reactions_ok_def) (simp add: demo_db_def)
qed

text \<open>While the owner 1 leaves group 10, somebody removes member 3 before every statement.\<close>

theorem interleaved_requests_keep_schema_witness:
  "schema_ok (w_db (snd (run_op (chats_beside (\<lambda>w. snd (pg_chat_RemoveMember 10 3 w)) pg_NewChatRepository)
     (\<lambda>u. after_others (\<lambda>w. snd (pg_chat_RemoveMember 10 3 w)) (pg_user_GetByID u)) 50 12 (OpLeaveChat 10 1) demo)))"
proof -
  have "pg_calls w (snd (pg_chat_RemoveMember 10 3 w))" for w
    by (intro calls_write calls_none pg_write.intros)
  from interleaved_requests_keep_schema [OF this, of demo _ 50 12 "OpLeaveChat 10 1" demo_coll "OpMarkRead 10 1"
      "\<lambda>c. c" demo_bcrypt 10 0 demo_signer demo_keys_config 1 2 "OpOnline 1"] demo_schema
  show ?thesis by (simp add: demo_def)
qed

section \<open>Two members leave at the same time\<close>

text \<open>The owner leaves while another request runs between the last two statements: the promoted successor
  \<open>x\<close> leaves as well.\<close>

definition leave_meanwhile :: "'w ChatRepository \<Rightarrow> uuid \<Rightarrow> uuid \<Rightarrow> 'w ChatRepository" where
  "leave_meanwhile R c x = R\<lparr>cr_RemoveMember := \<lambda>c' u.
     after_others (\<lambda>w. snd (chats_LeaveChat R c x w)) (cr_RemoveMember R c' u)\<rparr>"

lemma exact_call:
  assumes "exact_run I qt view obs m am w"
    and "\<And>a. fst (m w) = Ok a \<Longrightarrow> exact_run I qt view id (k a) (ak (obs a)) (snd (m w))"
  shows "exact_run I qt view id (call m k) (call am ak) w"
proof -
  from assms(1) have eq: "fst (am (view w)) = map_outcome id obs (fst (m w))" "snd (am (view w)) = view (snd (m w))"
    by (simp_all add: exact_run_def)
  with assms show ?thesis
    by (cases "fst (m w)") (auto simp: exact_run_def call_def branch_def throw_def)
qed

lemma exact_after:
  assumes "exact_run I qt view obs' m1 am1 w" "exact_run I qt view obs m2 am2 (snd (m1 w))"
  shows "exact_run I qt view obs (after_others (\<lambda>w. snd (m1 w)) m2) (after_others (\<lambda>v. snd (am1 v)) am2) w"
  using assms by (simp add: exact_run_def after_others_def)

lemma exact_if:
  "(b \<Longrightarrow> exact_run I qt view obs m am w) \<Longrightarrow> (\<not> b \<Longrightarrow> exact_run I qt view obs n an w) \<Longrightarrow>
     exact_run I qt view obs (if b then m else n) (if b then am else an) w"
  by simp

lemma exact_throw: "I w \<Longrightarrow> qt w \<Longrightarrow> exact_run I qt view obs (throw e) (throw e) w"
  by (simp add: exact_run_def throw_def)

lemma exact_next: "exact_run I qt view obs m am w \<Longrightarrow> I (snd (m w)) \<and> qt (snd (m w))"
  by (simp add: exact_run_def)

context chat_port_idempotent
begin

lemma exact_port:
  assumes "\<And>v. simulates I qt view True obs v m am" "I w" "qt w"
  shows "exact_run I qt view obs m am w"
  using assms by (intro exact_simulates [where ok = True]) simp_all

lemma exact_LeaveChat_with:
  assumes remove: "\<And>w. I w \<Longrightarrow> qt w \<Longrightarrow> exact_run I qt view id (rm c u) (arm c u) w" and w: "I w" "qt w"
  shows "exact_run I qt view id (chats_LeaveChat (R\<lparr>cr_RemoveMember := rm\<rparr>) c u)
     (chats_LeaveChat (spec_chats\<lparr>cr_RemoveMember := arm\<rparr>) c u) w"
proof -
  note next_ok = exact_next [THEN conjunct1] exact_next [THEN conjunct2]
  have removed: "exact_run I qt view id (call (rm c u) (\<lambda>_. ret ())) (call (arm c u) (\<lambda>_. ret ())) w"
    if "I w" "qt w" for w
    by (rule exact_const [OF remove]) (use that in simp_all)
  have handed_over: "exact_run I qt view id
      (case nextOwner ms u of None \<Rightarrow> cr_Delete R c
         | Some next \<Rightarrow> call (cr_UpdateMemberRole R c (mem_UserID next) MemberRoleOwner) (\<lambda>_. call (rm c u) (\<lambda>_. ret ())))
      (case nextOwner (map strip_user ms) u of None \<Rightarrow> sp_Delete c
         | Some next \<Rightarrow> call (sp_UpdateMemberRole c (mem_UserID next) MemberRoleOwner) (\<lambda>_. call (arm c u) (\<lambda>_. ret ()))) w"
    if w: "I w" "qt w" for w ms
  proof (cases "nextOwner ms u")
    case None
    then show ?thesis using exact_port [OF sim_Delete w] by (simp add: nextOwner_strip)
  next
    case (Some m)
    note port = exact_port [OF sim_UpdateMemberRole_any w, of MemberRoleOwner c "mem_UserID m"]
    from exact_call [OF port removed] next_ok [OF port] Some show ?thesis by (simp add: nextOwner_strip)
  qed
  have chosen: "exact_run I qt view id
      (if mem_Role m = MemberRoleOwner
       then call (cr_GetMembers R c) (\<lambda>ms. case nextOwner ms u of None \<Rightarrow> cr_Delete R c
         | Some next \<Rightarrow> call (cr_UpdateMemberRole R c (mem_UserID next) MemberRoleOwner) (\<lambda>_. call (rm c u) (\<lambda>_. ret ())))
       else call (rm c u) (\<lambda>_. ret ()))
      (if mem_Role (strip_user m) = MemberRoleOwner
       then call (sp_GetMembers c) (\<lambda>ms. case nextOwner ms u of None \<Rightarrow> sp_Delete c
         | Some next \<Rightarrow> call (sp_UpdateMemberRole c (mem_UserID next) MemberRoleOwner) (\<lambda>_. call (arm c u) (\<lambda>_. ret ())))
       else call (arm c u) (\<lambda>_. ret ())) w"
    if w: "I w" "qt w" for w m
  proof -
    note port = exact_port [OF sim_GetMembers w, of c]
    show ?thesis
      unfolding strip_user_fields
      by (intro exact_if exact_call [OF port] handed_over [OF next_ok [OF port]] removed [OF w])
  qed
  have asked: "exact_run I qt view id
      (if IsDirect x then throw (Dom ErrForbidden) else call (cr_GetMember R c u) k)
      (if IsDirect (id x) then throw (Dom ErrForbidden) else call (sp_GetMember c u) ak) w"
    if w: "I w" "qt w" and k: "\<And>m w. I w \<Longrightarrow> qt w \<Longrightarrow> exact_run I qt view id (k m) (ak (strip_user m)) w"
    for w x k and ak :: "ChatMember \<Rightarrow> (aview, unit) io"
  proof -
    note port = exact_port [OF sim_GetMember w, of c u]
    show ?thesis
      unfolding id_apply [of x] by (intro exact_if exact_throw w exact_call [OF port] k [OF next_ok [OF port]])
  qed
  note port = exact_port [OF sim_GetByID w, of c]
  have sel: "cr_GetByID (R\<lparr>cr_RemoveMember := rm\<rparr>) = cr_GetByID R" "cr_GetMember (R\<lparr>cr_RemoveMember := rm\<rparr>) = cr_GetMember R"
    "cr_GetMembers (R\<lparr>cr_RemoveMember := rm\<rparr>) = cr_GetMembers R" "cr_Delete (R\<lparr>cr_RemoveMember := rm\<rparr>) = cr_Delete R"
    "cr_UpdateMemberRole (R\<lparr>cr_RemoveMember := rm\<rparr>) = cr_UpdateMemberRole R"
    "cr_RemoveMember (R\<lparr>cr_RemoveMember := rm\<rparr>) = rm" for R :: "'x ChatRepository" and rm
    by simp_all
  show ?thesis
    unfolding chats_LeaveChat_def sel spec_chats_simps
    by (rule exact_call [OF port], rule asked [OF next_ok [OF port]], rule chosen)
qed

lemma exact_leave_meanwhile:
  assumes "I w" "qt w"
  shows "exact_run I qt view id (chats_LeaveChat (leave_meanwhile R c x) c u)
     (chats_LeaveChat (leave_meanwhile spec_chats c x) c u) w"
  unfolding leave_meanwhile_def
proof (rule exact_LeaveChat_with [OF _ assms])
  fix w assume w: "I w" "qt w"
  have "exact_run I qt view id (chats_LeaveChat R c x) (chats_LeaveChat spec_chats c x) w"
    by (rule exact_upto [OF LeaveChat_sim_any]) (use w in simp_all)
  from exact_after [OF this exact_port [OF sim_RemoveMember]] exact_next [OF this]
  show "exact_run I qt view id (after_others (\<lambda>w. snd (chats_LeaveChat R c x w)) (cr_RemoveMember R c u))
      (after_others (\<lambda>w. snd (chats_LeaveChat spec_chats c x w)) (cr_RemoveMember spec_chats c u)) w"
    by simp
qed

end

text \<open>C5: Two members who leave at the same time can leave a group behind that is live, has a member and has no
  owner: the owner 1 of group 10 promotes 2, who leaves before 1 is removed.\<close>

theorem concurrent_leaves_lose_owner:
  "let race = chats_LeaveChat (leave_meanwhile pg_NewChatRepository 10 2) 10 1 demo; v = view_of (snd race) in
     groups_owned (view_of demo) \<and> fst race = Ok () \<and> live_group v 10 \<and> is_member v 10 3 \<and> \<not> has_owner v 10"
proof -
  have "exact_run pg_inv quiet view_of id (chats_LeaveChat (leave_meanwhile pg_NewChatRepository 10 2) 10 1)
      (chats_LeaveChat (leave_meanwhile spec_chats 10 2) 10 1) demo"
    by (rule pg.exact_leave_meanwhile) simp_all
  moreover define after where "after = chats_LeaveChat (leave_meanwhile spec_chats 10 2) 10 1 demo_view"
  have "fst after = Ok ()" "is_member (snd after) 10 3" "\<not> has_owner (snd after) 10"
    "map_option IsDirect (chat_lookup (snd after) 10) = Some False"
    unfolding after_def demo_view_def by code_simp+
  ultimately show ?thesis
    by (auto simp: exact_run_def outcome.map_id demo_owned live_group_def after_def [symmetric] Let_def)
qed

end
