(* ===== verification/Spec2Isabelle.thy ===== *)
theory Spec2Isabelle
  imports ChatProps MsgProps UserProps RateProps HttpProps HandlerProps ConfigProps WsProps BackendProps LifecycleProps WsLifeProps WiredProps AppProps InterleaveProps
begin

text \<open>
  \<^bold>\<open>VibeChat: a verification development for the chat back end under src/.\<close>

  \<^bold>\<open>The program.\<close> HTTP and WebSocket requests (internal/delivery) go through a chain of middleware and
  a route table to handlers, the handlers call use cases (internal/usecase: users, chats, messages), and
  the use cases call repositories (the ports of internal/domain) that a storage back end provides
  (internal/infrastructure/storage: PostgreSQL, MySQL, and a caching layer over either).  Tokens and
  password hashes come from utils/jwt and utils/hasher, inputs are checked by utils/validate, the
  programs under cmd/ load their configuration and put the parts together.

  \<^bold>\<open>How the code is modelled.\<close>  A Go function that may fail and change state is a state transformer
  that yields \<open>Ok\<close>, \<open>Err\<close> or \<open>Panic\<close> (Prelude).  Structs are records, string enumerations are strings,
  interfaces are records of operations, Go maps are maps, slices are lists; a UUID is a 128-bit
  word, a time is a number of nanoseconds.  Go strings are lists of bytes, and everything that counts
  or compares characters goes through the UTF-8 decoding of Runes.  \<open>time.Duration\<close> and \<open>int\<close> wrap where
  the code multiplies them (Config, Middleware).

  \<^bold>\<open>State outside the process\<close> (World): the six SQL tables of migrations/ as lists of rows, the cache,
  and an environment that decides which SQL statement or cache call fails and how far the clock moves at each
  reading.  Theorems quantify over the environment, so they cover every pattern of failing
  statements; \<open>quiet\<close> says that no statement fails from here on.  A transaction that does not commit
  leaves the tables as they were.

  \<^bold>\<open>Theories and sources.\<close>
  \<^item> Prelude, Runes, Json: the result monad, keyed lists, Go strings, JSON documents.
  \<^item> Domain (internal/domain): entities, sentinel errors, repository ports.
  \<^item> World, Storage, Sql: tables, statements, transactions, rows as entities, integrity.
  \<^item> Validate (utils/validate): the validator and its regular expressions.
  \<^item> UcChat, UcMessage, UcUser (internal/usecase): every use case, over any repositories.
  \<^item> Postgres, PgChat, PgUser, PgMessage and MySql, MyChat, MyUser, MyMessage
    (storage/postgres, storage/mysql): every repository method, each SQL text as the operation on
    tables that it denotes, with the checks, keys and error codes of the schema.
  \<^item> Cache, Cached (cache, storage/cached): the in-memory store with its sweep, the read-through repositories.
  \<^item> Auth (utils/jwt, utils/hasher), UseCases (usecase.go), Http (http/response), Middleware
    (http/middleware), Handlers (http/handler), Router (router.go), Ws (delivery/ws), Config and
    AppConfig (every config.go with its defaults), Logger (utils/logger), App (cmd/app, cmd/migrate,
    storage.go, the connection pools and cache/redis).
  \<^item> Lifecycle (cmd/app/main.go: Run, Stop, close, main) and WsLife (the two pumps of delivery/ws/client.go
    with their deadlines) are state machines whose events are what the operating system, the timers and
    the peer may do.

  \<^bold>\<open>Specifications and interfaces.\<close>  Contract is the abstract store of chats and messages with the
  relation \<open>simulates\<close>: a concrete operation yields what the abstract one yields and moves to its
  state, or reports a storage error and changes nothing visible, the latter only if a statement fails
  or the store refuses the data.  The locales \<open>chat_port\<close> (ChatPort), \<open>message_port\<close> (MsgPort) and
  \<open>user_port\<close> (UserPort) are the laws of the ports; PgChatSim, PgMessageSim and PgUserSim discharge
  them for PostgreSQL and interpret the locales.  The use cases are proved once over the ports
  (UcChatSim, ChatSpec, ChatOwner, ChatGuard, UcMessageSim, UcHistory, UserSpec), and the properties of
  ChatProps, MsgProps and UserProps are read off the interpretations.
  CachePort states the contract of a cache, of which CachedSim and CachedChats prove that the read-through
  repositories keep every entry in agreement with the store and implement the chat port again;
  CachedPg interprets both on the in-memory store and PostgreSQL, WiredProps puts the message repository
  beside them.  ChatRefine is the service as a whole.  AppFrame has the locales \<open>chat_calls\<close>, \<open>message_calls\<close>
  and \<open>user_calls\<close>: what every call of a service keeps, its use cases keep.  StmtSim and TableSim hold what both SQL back ends
  share, with MyChatSim the MySQL chat repository implements the port as well.
  \<^bold>\<open>What is proved.\<close>
  \<^item> ChatProps: every group keeps an owner under any failures, never has two without failures; each
    use case changes exactly what its caller may change.
  \<^item> CachedProps: the service refines its specification, the cache is invisible and never grants a
    removed member access, as long as the cache obeys its contract, as the in-memory one does; with a
    cache whose deletions fail it does.
  \<^item> AppProps, WiredProps: the services together; any sequence of their use cases keeps the stored data
    well typed, and who was removed from a chat is locked out of its messages at once, under the
    same contract of the cache.
  \<^item> Schema, InterleaveProps: every single repository call keeps the schema, so every
    interleaving of calls of any requests does; the ownership of groups does not survive one.
  \<^item> BackendProps: PostgreSQL and MySQL give the same answers, but for updates that change nothing; a
    leave that MySQL refuses ever after.
  \<^item> MsgProps: sending, editing, deleting, reading marks and reactions; a page of history is what it
    should be, and following the cursors of \<open>GetHistory\<close> enumerates the history once, in a number of
    requests bounded by its length, so no fuel is left open.
  \<^item> UserProps, TokenProps: registration, login, profile updates, unique accounts, lifetime and use of tokens.
  \<^item> HttpProps, HandlerProps, RateProps: authentication in front of the API, error answers, panics,
    the route table, the rate limiter (two windows' worth per window, since the window is fixed).
  \<^item> WsProps, WsLifeProps: rooms, buffers (256 messages, the capacity of the channel) and deliveries; a
    connection whose pings are written and answered in time stays, a silent peer is released within
    the stated times.
  \<^item> LifecycleProps: the order of a shutdown, its bound of six steps of \<open>main\<close>, and what delays it: the
    pool of the store is closed only when every connection is given back, after the 30 seconds.
  \<^item> ConfigProps: what a loaded configuration guarantees.
  Demo and HttpDemo hold the concrete worlds on which the witnesses evaluate.

  \<^bold>\<open>Parameters.\<close>  Code outside src/ is an argument: golang-jwt (\<open>jwtlib\<close>, with \<open>jwtlib_ok\<close>), bcrypt
  (\<open>bcrypt\<close>, with \<open>bcrypt_ok\<close>), collations and case folding of the databases, go-redis, golang-migrate,
  gorilla/websocket, the decoders of files, \<open>uuid.Parse\<close>, \<open>time.Parse\<close> and \<open>time.ParseDuration\<close>.  A
  repository is given the clock reading and the fresh identifier that a use case takes.

  \<^bold>\<open>Not modelled.\<close>  Interleaved requests are covered by InterleaveProps only; everywhere else a use case
  runs to its end before the next starts (failures in the middle are covered).  A repository method is one
  step: the statements of one transaction do not interleave with others.  The databases store
  microseconds; stored times are kept in full here.  Signals, timers, servers, files and pools are modelled
  by the calls the code makes and the events it receives; what lies behind them (sockets, TLS, the pprof
  handlers, the drivers) belongs to the operating system and to libraries.  The log lines of the use cases
  are left out, and so is the latency in the line of a request.
\<close>

end
